(* ===== verification/Prelude.thy ===== *)
theory Prelude
  imports Main "HOL-Library.AList"
begin

text \<open>
  Shared machinery. A Python routine that changes state and may raise is an
  effect: a function from the state to an outcome (an exception on the left, a
  result on the right) and the state it leaves behind. An exception does not
  undo the changes made before it; only \<open>atomically\<close>, the model of a database
  transaction, does. The locales at the end collect, once, the reasoning every
  component needs: a reflexive and transitive relation (or an invariant) that
  the primitive effects respect is respected by whatever is composed of them.
\<close>

named_theorems eff_simps "unfolding the effect combinators"

section \<open>Effects\<close>

type_synonym ('s, 'e, 'a) eff = "'s \<Rightarrow> ('e + 'a) \<times> 's"

definition ret :: "'a \<Rightarrow> ('s, 'e, 'a) eff" where
  "ret x = (\<lambda>s. (Inr x, s))"

definition raise :: "'e \<Rightarrow> ('s, 'e, 'a) eff" where
  "raise e = (\<lambda>s. (Inl e, s))"

definition bindE :: "('s, 'e, 'a) eff \<Rightarrow> ('a \<Rightarrow> ('s, 'e, 'b) eff) \<Rightarrow> ('s, 'e, 'b) eff" where
  "bindE m k = (\<lambda>s. case m s of (r, s') \<Rightarrow>
     (case r of Inl e \<Rightarrow> (Inl e, s') | Inr x \<Rightarrow> k x s'))"

definition thenE :: "('s, 'e, 'a) eff \<Rightarrow> ('s, 'e, 'b) eff \<Rightarrow> ('s, 'e, 'b) eff" where
  "thenE m k = bindE m (\<lambda>_. k)"

text \<open>\<open>try: m except e: h e\<close>: the handler runs in the state the exception left.\<close>

definition catchE :: "('s, 'e, 'a) eff \<Rightarrow> ('e \<Rightarrow> ('s, 'e, 'a) eff) \<Rightarrow> ('s, 'e, 'a) eff" where
  "catchE m h = (\<lambda>s. case m s of (r, s') \<Rightarrow>
     (case r of Inl e \<Rightarrow> h e s' | Inr x \<Rightarrow> (Inr x, s')))"

definition gets :: "('s \<Rightarrow> 'a) \<Rightarrow> ('s, 'e, 'a) eff" where
  "gets f = (\<lambda>s. (Inr (f s), s))"

definition modify :: "('s \<Rightarrow> 's) \<Rightarrow> ('s, 'e, unit) eff" where
  "modify f = (\<lambda>s. (Inr (), f s))"

definition whenE :: "bool \<Rightarrow> ('s, 'e, unit) eff \<Rightarrow> ('s, 'e, unit) eff" where
  "whenE b m = (if b then m else ret ())"

text \<open>A computation without effects that may raise.\<close>

definition pureE :: "'e + 'a \<Rightarrow> ('s, 'e, 'a) eff" where
  "pureE r = (\<lambda>s. (r, s))"

text \<open>A computation that reads the state and may raise.\<close>

definition readE :: "('s \<Rightarrow> 'e + 'a) \<Rightarrow> ('s, 'e, 'a) eff" where
  "readE f = (\<lambda>s. (f s, s))"

fun forE :: "'a list \<Rightarrow> ('a \<Rightarrow> ('s, 'e, unit) eff) \<Rightarrow> ('s, 'e, unit) eff" where
  "forE [] f = ret ()"
| "forE (x # xs) f = thenE (f x) (forE xs f)"

fun mapE :: "('a \<Rightarrow> ('s, 'e, 'b) eff) \<Rightarrow> 'a list \<Rightarrow> ('s, 'e, 'b list) eff" where
  "mapE f [] = ret []"
| "mapE f (x # xs) = bindE (f x) (\<lambda>y. bindE (mapE f xs) (\<lambda>ys. ret (y # ys)))"

text \<open>A transaction: on an exception the rollback function rebuilds the state from
  the state at its start and the state at the exception.\<close>

definition atomically :: "('s \<Rightarrow> 's \<Rightarrow> 's) \<Rightarrow> ('s, 'e, 'a) eff \<Rightarrow> ('s, 'e, 'a) eff" where
  "atomically rb m = (\<lambda>s. case m s of (r, s') \<Rightarrow>
     (case r of Inl e \<Rightarrow> (Inl e, rb s s') | Inr x \<Rightarrow> (Inr x, s')))"

lemma ret_app [simp]: "ret x s = (Inr x, s)" by (simp add: ret_def)
lemma raise_app [simp]: "raise e s = (Inl e, s)" by (simp add: raise_def)
lemma gets_app [simp]: "gets f s = (Inr (f s), s)" by (simp add: gets_def)
lemma modify_app [simp]: "modify f s = (Inr (), f s)" by (simp add: modify_def)
lemma pureE_app [simp]: "pureE r s = (r, s)" by (simp add: pureE_def)

lemma readE_app [simp]: "readE f s = (f s, s)" by (simp add: readE_def)

lemma whenE_True [simp]: "whenE True m = m" by (simp add: whenE_def)
lemma whenE_False [simp]: "whenE False m = ret ()" by (simp add: whenE_def)

lemma bindE_ret [simp]: "bindE (ret x) k = k x"
  by (simp add: bindE_def fun_eq_iff)

lemma bindE_raise [simp]: "bindE (raise e) k = raise e"
  by (simp add: bindE_def fun_eq_iff)

lemma thenE_ret [simp]: "thenE (ret x) m = m"
  by (simp add: thenE_def)

lemma thenE_raise [simp]: "thenE (raise e) m = raise e"
  by (simp add: thenE_def)

lemma bindE_Inr: "m s = (Inr x, s') \<Longrightarrow> bindE m k s = k x s'"
  by (simp add: bindE_def)

lemma bindE_Inl: "m s = (Inl e, s') \<Longrightarrow> bindE m k s = (Inl e, s')"
  by (simp add: bindE_def)

lemma thenE_Inr: "m s = (Inr x, s') \<Longrightarrow> thenE m k s = k s'"
  by (simp add: thenE_def bindE_def)

lemma thenE_Inl: "m s = (Inl e, s') \<Longrightarrow> thenE m k s = (Inl e, s')"
  by (simp add: thenE_def bindE_def)

lemma catchE_Inr: "m s = (Inr x, s') \<Longrightarrow> catchE m h s = (Inr x, s')"
  by (simp add: catchE_def)

lemma catchE_Inl: "m s = (Inl e, s') \<Longrightarrow> catchE m h s = h e s'"
  by (simp add: catchE_def)

lemma atomically_Inr: "m s = (Inr x, s') \<Longrightarrow> atomically rb m s = (Inr x, s')"
  by (simp add: atomically_def)

lemma atomically_Inl: "m s = (Inl e, s') \<Longrightarrow> atomically rb m s = (Inl e, rb s s')"
  by (simp add: atomically_def)

lemmas eff_step = bindE_Inr bindE_Inl thenE_Inr thenE_Inl catchE_Inr catchE_Inl
  atomically_Inr atomically_Inl

lemma bindE_app_Inr_iff:
  "bindE m k s = (Inr y, t) \<longleftrightarrow> (\<exists>x s'. m s = (Inr x, s') \<and> k x s' = (Inr y, t))"
  by (auto simp: bindE_def split: prod.splits sum.splits)

lemma thenE_app_Inr_iff:
  "thenE m k s = (Inr y, t) \<longleftrightarrow> (\<exists>x s'. m s = (Inr x, s') \<and> k s' = (Inr y, t))"
  by (simp add: thenE_def bindE_app_Inr_iff)

lemma atomically_Inr_iff: "atomically rb m s = (Inr y, t) \<longleftrightarrow> m s = (Inr y, t)"
  by (auto simp: atomically_def split: prod.splits sum.splits)

lemma atomically_Inl_D:
  "atomically rb m s = (Inl e, t) \<Longrightarrow> \<exists>s'. m s = (Inl e, s') \<and> t = rb s s'"
  by (auto simp: atomically_def split: prod.splits sum.splits)

lemmas eff_Inr_iff = bindE_app_Inr_iff thenE_app_Inr_iff atomically_Inr_iff

declare ret_def [eff_simps] raise_def [eff_simps] bindE_def [eff_simps]
  thenE_def [eff_simps] catchE_def [eff_simps] gets_def [eff_simps]
  modify_def [eff_simps] pureE_def [eff_simps] atomically_def [eff_simps]

section \<open>Which exceptions an effect can raise\<close>

definition fails_with :: "('e \<Rightarrow> bool) \<Rightarrow> ('s, 'e, 'a) eff \<Rightarrow> bool" where
  "fails_with P m \<longleftrightarrow> (\<forall>s e t. m s = (Inl e, t) \<longrightarrow> P e)"

lemma fails_withD: "fails_with P m \<Longrightarrow> fst (m s) = Inl e \<Longrightarrow> P e"
  by (cases "m s") (auto simp: fails_with_def)

lemma fails_with_mono: "fails_with P m \<Longrightarrow> (\<And>e. P e \<Longrightarrow> Q e) \<Longrightarrow> fails_with Q m"
  by (auto simp: fails_with_def)

lemma fails_ret: "fails_with P (ret x)" by (simp add: fails_with_def)
lemma fails_raise: "P e \<Longrightarrow> fails_with P (raise e)" by (simp add: fails_with_def)
lemma fails_gets: "fails_with P (gets f)" by (simp add: fails_with_def)
lemma fails_modify: "fails_with P (modify f)" by (simp add: fails_with_def)
lemma fails_pureE: "(\<And>e. r = Inl e \<Longrightarrow> P e) \<Longrightarrow> fails_with P (pureE r)" by (simp add: fails_with_def)
lemma fails_readE: "(\<And>s e. f s = Inl e \<Longrightarrow> P e) \<Longrightarrow> fails_with P (readE f)" by (simp add: fails_with_def)

lemma fails_bindE: "fails_with P m \<Longrightarrow> (\<And>x. fails_with P (k x)) \<Longrightarrow> fails_with P (bindE m k)"
  by (auto simp: fails_with_def bindE_def split: prod.splits sum.splits)

lemma fails_thenE: "fails_with P m \<Longrightarrow> fails_with P k \<Longrightarrow> fails_with P (thenE m k)"
  unfolding thenE_def by (rule fails_bindE)

lemma fails_catchE: "(\<And>e. fails_with P (h e)) \<Longrightarrow> fails_with P (catchE m h)"
  by (auto simp: fails_with_def catchE_def split: prod.splits sum.splits)

lemma fails_whenE: "fails_with P m \<Longrightarrow> fails_with P (whenE b m)"
  by (cases b) (simp_all add: fails_ret)

lemma fails_if: "(b \<Longrightarrow> fails_with P m) \<Longrightarrow> (\<not> b \<Longrightarrow> fails_with P k) \<Longrightarrow> fails_with P (if b then m else k)"
  by simp

lemma fails_forE: "(\<And>x. x \<in> set xs \<Longrightarrow> fails_with P (f x)) \<Longrightarrow> fails_with P (forE xs f)"
  by (induction xs) (auto intro: fails_ret fails_thenE)

lemma fails_atomically: "fails_with P m \<Longrightarrow> fails_with P (atomically rb m)"
  by (auto simp: fails_with_def atomically_def split: prod.splits sum.splits)

lemmas fails_intros = fails_ret fails_gets fails_modify fails_bindE fails_thenE fails_catchE
  fails_whenE fails_forE fails_atomically fails_if

section \<open>Relations and invariants respected by effects\<close>

definition obeys :: "('s \<Rightarrow> 's \<Rightarrow> bool) \<Rightarrow> ('s, 'e, 'a) eff \<Rightarrow> bool" where
  "obeys R m \<longleftrightarrow> (\<forall>s. R s (snd (m s)))"

definition keeps :: "('s \<Rightarrow> bool) \<Rightarrow> ('s, 'e, 'a) eff \<Rightarrow> bool" where
  "keeps I m \<longleftrightarrow> (\<forall>s. I s \<longrightarrow> I (snd (m s)))"

lemma obeysD: "obeys R m \<Longrightarrow> R s (snd (m s))"
  by (simp add: obeys_def)

lemma obeysI: "(\<And>s. R s (snd (m s))) \<Longrightarrow> obeys R m"
  by (simp add: obeys_def)

lemma keepsD: "keeps I m \<Longrightarrow> I s \<Longrightarrow> I (snd (m s))"
  by (simp add: keeps_def)

lemma keepsI: "(\<And>s. I s \<Longrightarrow> I (snd (m s))) \<Longrightarrow> keeps I m"
  by (simp add: keeps_def)

lemma keeps_obeys: "keeps I m \<longleftrightarrow> obeys (\<lambda>s t. I s \<longrightarrow> I t) m"
  by (simp add: keeps_def obeys_def)

locale effect_relation =
  fixes R :: "'s \<Rightarrow> 's \<Rightarrow> bool"
  assumes R_refl: "R s s"
    and R_trans: "R s t \<Longrightarrow> R t u \<Longrightarrow> R s u"
begin

lemma r_ret: "obeys R (ret x)" by (simp add: obeys_def R_refl)
lemma r_raise: "obeys R (raise e)" by (simp add: obeys_def R_refl)
lemma r_gets: "obeys R (gets f)" by (simp add: obeys_def R_refl)
lemma r_pureE: "obeys R (pureE r)" by (simp add: obeys_def R_refl)

lemma r_readE: "obeys R (readE f)" by (simp add: obeys_def R_refl)

lemma r_modify: "(\<And>s. R s (f s)) \<Longrightarrow> obeys R (modify f)"
  by (simp add: obeys_def)

lemma r_bindE:
  assumes "obeys R m" and "\<And>x. obeys R (k x)"
  shows "obeys R (bindE m k)"
proof (rule obeysI)
  fix s
  have m: "R s (snd (m s))" using assms(1) by (rule obeysD)
  have "R (snd (m s)) (snd (k x (snd (m s))))" for x
    using assms(2) by (rule obeysD)
  with m show "R s (snd (bindE m k s))"
    by (auto simp: bindE_def split: prod.splits sum.splits intro: R_trans)
qed

lemma r_thenE: "obeys R m \<Longrightarrow> obeys R k \<Longrightarrow> obeys R (thenE m k)"
  unfolding thenE_def by (rule r_bindE)

lemma r_catchE:
  assumes "obeys R m" and "\<And>e. obeys R (h e)"
  shows "obeys R (catchE m h)"
proof (rule obeysI)
  fix s
  have m: "R s (snd (m s))" using assms(1) by (rule obeysD)
  have "R (snd (m s)) (snd (h e (snd (m s))))" for e
    using assms(2) by (rule obeysD)
  with m show "R s (snd (catchE m h s))"
    by (auto simp: catchE_def split: prod.splits sum.splits intro: R_trans)
qed

lemma r_whenE: "(b \<Longrightarrow> obeys R m) \<Longrightarrow> obeys R (whenE b m)"
  by (cases b) (auto intro: r_ret)

lemma r_forE: "(\<And>x. x \<in> set xs \<Longrightarrow> obeys R (f x)) \<Longrightarrow> obeys R (forE xs f)"
  by (induction xs) (auto intro: r_ret r_thenE)

lemma r_mapE: "(\<And>x. x \<in> set xs \<Longrightarrow> obeys R (f x)) \<Longrightarrow> obeys R (mapE f xs)"
  by (induction xs) (auto intro!: r_ret r_bindE)

lemmas r_intros = r_ret r_raise r_gets r_pureE r_readE r_bindE r_thenE r_catchE r_whenE
  r_forE r_mapE

end

locale transactional_relation = effect_relation +
  fixes rb :: "'s \<Rightarrow> 's \<Rightarrow> 's"
  assumes R_rollback: "R s t \<Longrightarrow> R s (rb s t)"
begin

lemma r_atomically:
  assumes "obeys R m" shows "obeys R (atomically rb m)"
proof (rule obeysI)
  fix s
  have "R s (snd (m s))" using assms by (rule obeysD)
  then show "R s (snd (atomically rb m s))"
    by (auto simp: atomically_def split: prod.splits sum.splits intro: R_rollback)
qed

end

text \<open>An invariant is the special case of the relation "if it held before, it holds after".\<close>

locale effect_invariant =
  fixes I :: "'s \<Rightarrow> bool" and rb :: "'s \<Rightarrow> 's \<Rightarrow> 's"
  assumes I_rollback: "I s \<Longrightarrow> I t \<Longrightarrow> I (rb s t)"

sublocale effect_invariant \<subseteq> transactional_relation "\<lambda>s t. I s \<longrightarrow> I t" rb
  by unfold_locales (auto intro: I_rollback)

text \<open>A relation \<open>R\<close> of single moves, which need not compose, with a relation \<open>F\<close> of
  steps that do not count: an effect that makes one move among uncounted steps makes
  one move.\<close>

locale framed_relation =
  fixes F R :: "'s \<Rightarrow> 's \<Rightarrow> bool" and rb :: "'s \<Rightarrow> 's \<Rightarrow> 's"
  assumes F_refl: "F s s" and F_trans: "F s t \<Longrightarrow> F t u \<Longrightarrow> F s u"
    and F_R: "F s t \<Longrightarrow> R s t"
    and FR: "F s t \<Longrightarrow> R t u \<Longrightarrow> R s u" and RF: "R s t \<Longrightarrow> F t u \<Longrightarrow> R s u"
    and F_rollback: "F s t \<Longrightarrow> F s (rb s t)" and move_rollback: "R s t \<Longrightarrow> R s (rb s t)"

sublocale framed_relation \<subseteq> f: transactional_relation F rb
  by unfold_locales (auto intro: F_refl F_trans F_rollback)

context framed_relation
begin

lemma R_refl': "R s s"
  by (rule F_R [OF F_refl])

lemma move_frame: "obeys F m \<Longrightarrow> obeys R m"
  by (simp add: obeys_def F_R)

lemma move_later:
  assumes "obeys F m" and "\<And>x. obeys R (k x)" shows "obeys R (bindE m k)"
proof (rule obeysI)
  fix s
  have m: "F s (snd (m s))" using assms(1) by (rule obeysD)
  have "R (snd (m s)) (snd (k x (snd (m s))))" for x
    using assms(2) by (rule obeysD)
  with m show "R s (snd (bindE m k s))"
    by (auto simp: bindE_def split: prod.splits sum.splits intro: FR F_R)
qed

lemma move_later_then: "obeys F m \<Longrightarrow> obeys R k \<Longrightarrow> obeys R (thenE m k)"
  unfolding thenE_def by (rule move_later)

lemma move_first_at:
  assumes "R s (snd (m s))" and "\<And>x. obeys F (k x)" shows "R s (snd (bindE m k s))"
proof -
  have "F (snd (m s)) (snd (k x (snd (m s))))" for x
    using assms(2) by (rule obeysD)
  with assms(1) show ?thesis
    by (auto simp: bindE_def split: prod.splits sum.splits intro: RF)
qed

lemma move_first_then_at: "R s (snd (m s)) \<Longrightarrow> obeys F k \<Longrightarrow> R s (snd (thenE m k s))"
  unfolding thenE_def by (rule move_first_at)

lemma move_first: "obeys R m \<Longrightarrow> (\<And>x. obeys F (k x)) \<Longrightarrow> obeys R (bindE m k)"
  by (rule obeysI, rule move_first_at) (auto dest: obeysD)

lemma move_first_then: "obeys R m \<Longrightarrow> obeys F k \<Longrightarrow> obeys R (thenE m k)"
  unfolding thenE_def by (rule move_first)

lemma move_read_at:
  "(\<And>x. f s = Inr x \<Longrightarrow> R s (snd (k x s))) \<Longrightarrow> R s (snd (bindE (readE f) k s))"
  by (auto simp: bindE_def R_refl' split: sum.splits)

lemma move_atomically:
  assumes "obeys R m" shows "obeys R (atomically rb m)"
proof (rule obeysI)
  fix s
  have "R s (snd (m s))" using assms by (rule obeysD)
  then show "R s (snd (atomically rb m s))"
    by (auto simp: atomically_def split: prod.splits sum.splits intro: move_rollback)
qed

lemma move_catchE_frame:
  assumes "obeys R m" and "\<And>e. obeys F (h e)" shows "obeys R (catchE m h)"
proof (rule obeysI)
  fix s
  have m: "R s (snd (m s))" using assms(1) by (rule obeysD)
  have "F (snd (m s)) (snd (h e (snd (m s))))" for e
    using assms(2) by (rule obeysD)
  with m show "R s (snd (catchE m h s))"
    by (auto simp: catchE_def split: prod.splits sum.splits intro: RF)
qed

end

section \<open>Dictionaries as association lists in insertion order\<close>

text \<open>\<open>AList.update\<close> replaces the value of a present key in place and appends an
  absent key, as assigning to a Python dict does; \<open>map_of\<close> is the lookup.\<close>

definition dict_set :: "'k \<Rightarrow> 'v \<Rightarrow> ('k \<times> 'v) list \<Rightarrow> ('k \<times> 'v) list" where
  "dict_set = AList.update"

definition dict_del :: "'k \<Rightarrow> ('k \<times> 'v) list \<Rightarrow> ('k \<times> 'v) list" where
  "dict_del = AList.delete"

definition dict_update :: "('k \<times> 'v) list \<Rightarrow> ('k \<times> 'v) list \<Rightarrow> ('k \<times> 'v) list" where
  "dict_update d new = fold (\<lambda>(k, v). dict_set k v) new d"

definition dict_keys :: "('k \<times> 'v) list \<Rightarrow> 'k list" where
  "dict_keys d = map fst d"

definition has_key :: "'k \<Rightarrow> ('k \<times> 'v) list \<Rightarrow> bool" where
  "has_key k d \<longleftrightarrow> List.member (map fst d) k"

definition dict_get :: "'k \<Rightarrow> 'v \<Rightarrow> ('k \<times> 'v) list \<Rightarrow> 'v" where
  "dict_get k dflt d = (case map_of d k of None \<Rightarrow> dflt | Some v \<Rightarrow> v)"

definition dict_ok :: "('k \<times> 'v) list \<Rightarrow> bool" where
  "dict_ok d \<longleftrightarrow> distinct (map fst d)"

lemma dict_set_simps [simp]:
  "dict_set k v [] = [(k, v)]"
  "dict_set k v (p # ps) = (if fst p = k then (k, v) # ps else p # dict_set k v ps)"
  by (cases p; simp add: dict_set_def)+

lemma map_of_dict_set [simp]: "map_of (dict_set k v d) = (map_of d)(k \<mapsto> v)"
  by (simp add: dict_set_def update_conv')

lemma map_of_dict_del [simp]: "map_of (dict_del k d) = (map_of d)(k := None)"
  by (simp add: dict_del_def delete_conv')

lemma keys_dict_set: "fst ` set (dict_set k v d) = insert k (fst ` set d)"
  by (simp add: dict_set_def dom_update)

lemma keys_dict_del: "fst ` set (dict_del k d) = fst ` set d - {k}"
proof -
  have "dom (map_of (dict_del k d)) = dom (map_of d) - {k}" by simp
  then show ?thesis by (simp only: dom_map_of_conv_image_fst)
qed

lemma has_key_iff: "has_key k d \<longleftrightarrow> k \<in> fst ` set d"
  by (simp add: has_key_def)

lemma has_key_map_of: "has_key k d \<longleftrightarrow> map_of d k \<noteq> None"
  by (simp add: has_key_iff map_of_eq_None_iff)

lemma dict_ok_set [simp]: "dict_ok d \<Longrightarrow> dict_ok (dict_set k v d)"
  by (simp add: dict_ok_def dict_set_def distinct_update)

lemma length_dict_del: "length (dict_del k d) \<le> length d"
  by (simp add: dict_del_def AList.delete_eq)

lemma length_dict_del_less: "k \<in> fst ` set d \<Longrightarrow> length (dict_del k d) < length d"
  unfolding dict_del_def AList.delete_eq by (rule length_filter_less [where x = "(k, the (map_of d k))"])
    (auto dest: map_of_SomeD simp: dom_map_of_conv_image_fst [symmetric])

lemma dict_ok_del [simp]: "dict_ok d \<Longrightarrow> dict_ok (dict_del k d)"
  by (simp add: dict_ok_def dict_del_def distinct_delete)

lemma dict_ok_update [simp]: "dict_ok d \<Longrightarrow> dict_ok (dict_update d new)"
  by (induction new arbitrary: d) (auto simp: dict_update_def)

lemma map_of_dict_update:
  "dict_ok new \<Longrightarrow> map_of (dict_update d new) = map_of d ++ map_of new"
proof (induction new arbitrary: d)
  case Nil
  then show ?case by (simp add: dict_update_def)
next
  case (Cons p new)
  obtain k v where p: "p = (k, v)" by (cases p)
  from Cons.prems p have ok: "dict_ok new" and k: "map_of new k = None"
    by (auto simp: dict_ok_def map_of_eq_None_iff)
  have "map_of (dict_update d (p # new)) = map_of (dict_set k v d) ++ map_of new"
    using Cons.IH [OF ok, of "dict_set k v d"]
    by (simp add: dict_update_def p del: map_of_dict_set)
  also have "\<dots> = map_of d ++ map_of (p # new)"
    using k by (auto simp: p map_add_def fun_eq_iff split: option.splits)
  finally show ?case .
qed

lemma dict_ok_Nil [simp]: "dict_ok []" by (simp add: dict_ok_def)

section \<open>Lists: first match, in-place update of the matching rows\<close>

definition update_where :: "('a \<Rightarrow> bool) \<Rightarrow> ('a \<Rightarrow> 'a) \<Rightarrow> 'a list \<Rightarrow> 'a list" where
  "update_where P f xs = map (\<lambda>x. if P x then f x else x) xs"

lemma find_SomeD: "List.find P xs = Some x \<Longrightarrow> x \<in> set xs \<and> P x"
  by (auto simp: find_Some_iff)

lemma find_None_set: "List.find P xs = None \<longleftrightarrow> (\<forall>x \<in> set xs. \<not> P x)"
  by (auto simp: find_None_iff)

lemma set_update_where: "set (update_where P f xs) = f ` {x \<in> set xs. P x} \<union> {x \<in> set xs. \<not> P x}"
  by (auto simp: update_where_def)

lemma length_update_where [simp]: "length (update_where P f xs) = length xs"
  by (simp add: update_where_def)

lemma map_update_where_frame:
  "(\<And>x. P x \<Longrightarrow> g (f x) = g x) \<Longrightarrow> map g (update_where P f xs) = map g xs"
  by (auto simp: update_where_def)

lemma filter_key_distinct:
  "distinct (map key xs) \<Longrightarrow> x \<in> set xs \<Longrightarrow> Q x \<Longrightarrow>
   filter (\<lambda>y. key y = key x \<and> Q y) xs = [x]"
proof (induction xs)
  case Nil
  then show ?case by simp
next
  case (Cons y ys)
  show ?case
  proof (cases "x = y")
    case True
    have "\<forall>z \<in> set ys. key z \<noteq> key x"
    proof
      fix z assume "z \<in> set ys"
      then have "key z \<in> set (map key ys)" by simp
      with Cons.prems(1) True show "key z \<noteq> key x" by auto
    qed
    then have "filter (\<lambda>y. key y = key x \<and> Q y) ys = []"
      by (auto simp: filter_empty_conv)
    with True Cons.prems show ?thesis by simp
  next
    case False
    with Cons.prems have "key y \<noteq> key x" by force
    with False Cons show ?thesis by simp
  qed
qed

end
