(* ===== verification/PyVal.thy ===== *)
theory PyVal
  imports Prelude "HOL-Library.Char_ord"
begin

text \<open>
  The Python values that requests, templates and attribute dictionaries are made
  of, with Python's equality, truth value and conversions, and the string methods
  the code calls. \<open>PNotSpecified\<close> is the sentinel object \<open>ATTR_NOT_SPECIFIED\<close> of
  api/v1/attributes.py. Dictionaries have string keys in insertion order. Strings
  are ASCII; floats do not occur. A message is the template the code formats with
  the values it fills in, kept apart rather than formatted.
\<close>

section \<open>Values\<close>

datatype pyval =
    PNone
  | PNotSpecified
  | PBool bool
  | PInt int
  | PStr string
  | PList "pyval list"
  | PDict "(string \<times> pyval) list"

type_synonym pydict = "(string \<times> pyval) list"

datatype msg = Msg string "pyval list"

text \<open>A check returns the message of the first problem, or \<open>None\<close>.\<close>

type_synonym verdict = "msg option"

fun is_dict :: "pyval \<Rightarrow> bool" where
  "is_dict (PDict _) = True"
| "is_dict _ = False"

fun is_list :: "pyval \<Rightarrow> bool" where
  "is_list (PList _) = True"
| "is_list _ = False"

fun is_str :: "pyval \<Rightarrow> bool" where
  "is_str (PStr _) = True"
| "is_str _ = False"

text \<open>\<open>bool(v)\<close>\<close>

fun truthy :: "pyval \<Rightarrow> bool" where
  "truthy PNone = False"
| "truthy PNotSpecified = True"
| "truthy (PBool b) = b"
| "truthy (PInt i) = (i \<noteq> 0)"
| "truthy (PStr s) = (s \<noteq> [])"
| "truthy (PList xs) = (xs \<noteq> [])"
| "truthy (PDict d) = (d \<noteq> [])"

text \<open>\<open>a == b\<close>: booleans compare as the integers 0 and 1, dictionaries without regard
  to order.\<close>

function py_eq :: "pyval \<Rightarrow> pyval \<Rightarrow> bool"
  and py_eq_list :: "pyval list \<Rightarrow> pyval list \<Rightarrow> bool"
  and py_eq_items :: "pydict \<Rightarrow> pydict \<Rightarrow> bool" where
  "py_eq a b = (case (a, b) of
      (PNone, PNone) \<Rightarrow> True
    | (PNotSpecified, PNotSpecified) \<Rightarrow> True
    | (PBool x, PBool y) \<Rightarrow> x = y
    | (PBool x, PInt j) \<Rightarrow> of_bool x = j
    | (PInt i, PBool y) \<Rightarrow> i = of_bool y
    | (PInt i, PInt j) \<Rightarrow> i = j
    | (PStr s, PStr t) \<Rightarrow> s = t
    | (PList xs, PList ys) \<Rightarrow> py_eq_list xs ys
    | (PDict d, PDict e) \<Rightarrow> length d = length e \<and> py_eq_items d e
    | _ \<Rightarrow> False)"
| "py_eq_list [] ys = (ys = [])"
| "py_eq_list (x # xs) ys = (case ys of [] \<Rightarrow> False
     | y # ys' \<Rightarrow> py_eq x y \<and> py_eq_list xs ys')"
| "py_eq_items [] e = True"
| "py_eq_items ((k, v) # d) e = (case map_of e k of None \<Rightarrow> False
     | Some w \<Rightarrow> py_eq v w \<and> py_eq_items d e)"
  by pat_completeness auto
termination
  by (relation "measure (\<lambda>x. case x of Inl (a, b) \<Rightarrow> size a
       | Inr (Inl (xs, ys)) \<Rightarrow> size_list size xs
       | Inr (Inr (d, e)) \<Rightarrow> size_list (\<lambda>(k, v). size v) d)")
     (auto simp: size_prod_simp case_prod_unfold less_Suc_eq_le intro!: size_list_pointwise)

declare py_eq.simps [simp del]

lemma py_eq_PStr [simp]: "py_eq v (PStr s) \<longleftrightarrow> v = PStr s"
  by (cases v) (simp_all add: py_eq.simps)

lemma py_eq_PStr_left [simp]: "py_eq (PStr s) v \<longleftrightarrow> v = PStr s"
  by (cases v) (auto simp: py_eq.simps)

definition py_in :: "pyval \<Rightarrow> pyval list \<Rightarrow> bool" where
  "py_in v xs = list_ex (\<lambda>x. py_eq v x) xs"

section \<open>Strings\<close>

definition is_space :: "char \<Rightarrow> bool" where
  "is_space c \<longleftrightarrow> List.member [CHR '' '', CHR 0x09, CHR 0x0A, CHR 0x0B, CHR 0x0C, CHR 0x0D] c"

definition strip :: "string \<Rightarrow> string" where
  "strip s = rev (dropWhile is_space (rev (dropWhile is_space s)))"

definition startswith :: "string \<Rightarrow> string \<Rightarrow> bool" where
  "startswith p s \<longleftrightarrow> take (length p) s = p"

text \<open>\<open>sub in s\<close>\<close>

fun str_in :: "string \<Rightarrow> string \<Rightarrow> bool" where
  "str_in sub [] = (sub = [])"
| "str_in sub (c # s) = (startswith sub (c # s) \<or> str_in sub s)"

text \<open>\<open>s.split(c)\<close>, \<open>s.split(c, 1)\<close> and \<open>s.split()\<close>\<close>

fun split_char :: "char \<Rightarrow> string \<Rightarrow> string list" where
  "split_char c [] = [[]]"
| "split_char c (x # s) = (if x = c then [] # split_char c s
     else (case split_char c s of [] \<Rightarrow> [[x]] | w # ws \<Rightarrow> (x # w) # ws))"

fun split_once :: "char \<Rightarrow> string \<Rightarrow> string list" where
  "split_once c [] = [[]]"
| "split_once c (x # s) = (if x = c then [[], s]
     else (case split_once c s of [] \<Rightarrow> [[x]] | w # ws \<Rightarrow> (x # w) # ws))"

definition split_ws :: "string \<Rightarrow> string list" where
  "split_ws s = filter (\<lambda>w. w \<noteq> []) (split_char (CHR '' '') (map (\<lambda>c. if is_space c then CHR '' '' else c) s))"

fun join :: "string \<Rightarrow> string list \<Rightarrow> string" where
  "join sep [] = []"
| "join sep [w] = w"
| "join sep (w # ws) = w @ sep @ join sep ws"

definition ord :: "char \<Rightarrow> nat" where
  "ord c = of_char c"

definition lower_char :: "char \<Rightarrow> char" where
  "lower_char c = (if 65 \<le> ord c \<and> ord c \<le> 90 then char_of (ord c + 32) else c)"

definition upper_char :: "char \<Rightarrow> char" where
  "upper_char c = (if 97 \<le> ord c \<and> ord c \<le> 122 then char_of (ord c - 32) else c)"

definition lower :: "string \<Rightarrow> string" where
  "lower s = map lower_char s"

definition upper :: "string \<Rightarrow> string" where
  "upper s = map upper_char s"

definition digit_char :: "char \<Rightarrow> bool" where
  "digit_char c \<longleftrightarrow> 48 \<le> ord c \<and> ord c \<le> 57"

definition isdigit :: "string \<Rightarrow> bool" where
  "isdigit s \<longleftrightarrow> s \<noteq> [] \<and> list_all digit_char s"

definition nat_of_digits :: "string \<Rightarrow> nat" where
  "nat_of_digits s = foldl (\<lambda>n c. 10 * n + (ord c - 48)) 0 s"

text \<open>\<open>int(s)\<close> of a string: surrounding white space and one sign are allowed; \<open>None\<close>
  stands for the ValueError.\<close>

definition int_of_str :: "string \<Rightarrow> int option" where
  "int_of_str s = (case strip s of
      [] \<Rightarrow> None
    | c # ds \<Rightarrow>
       (if c = CHR ''-'' then (if isdigit ds then Some (- int (nat_of_digits ds)) else None)
        else if c = CHR ''+'' then (if isdigit ds then Some (int (nat_of_digits ds)) else None)
        else if isdigit (c # ds) then Some (int (nat_of_digits (c # ds))) else None))"

text \<open>\<open>int(v)\<close>: \<open>Inl False\<close> stands for TypeError, \<open>Inl True\<close> for ValueError.\<close>

fun py_int :: "pyval \<Rightarrow> bool + int" where
  "py_int (PInt i) = Inr i"
| "py_int (PBool b) = Inr (of_bool b)"
| "py_int (PStr s) = (case int_of_str s of None \<Rightarrow> Inl True | Some i \<Rightarrow> Inr i)"
| "py_int _ = Inl False"

fun show_nat :: "nat \<Rightarrow> string" where
  "show_nat n = (if n < 10 then [char_of (48 + n)] else show_nat (n div 10) @ [char_of (48 + n mod 10)])"

declare show_nat.simps [simp del]

definition show_int :: "int \<Rightarrow> string" where
  "show_int i = (if i < 0 then CHR ''-'' # show_nat (nat (- i)) else show_nat (nat i))"

text \<open>\<open>sub in str(v)\<close> for a \<open>sub\<close> of lower-case letters and underscores that is no part
  of \<open>None\<close>, \<open>True\<close> or \<open>False\<close>: the printed form quotes keys and strings, so the text
  can only occur inside one of them.\<close>

fun mentions :: "string \<Rightarrow> pyval \<Rightarrow> bool" where
  "mentions sub (PStr s) = str_in sub s"
| "mentions sub (PList xs) = list_ex (mentions sub) xs"
| "mentions sub (PDict d) = list_ex (\<lambda>(k, v). str_in sub k \<or> mentions sub v) d"
| "mentions sub _ = False"

section \<open>Facts about the string functions\<close>

lemma split_char_nonempty [simp]: "split_char c s \<noteq> []"
  by (induction s) (auto split: list.splits)

lemma split_once_nonempty [simp]: "split_once c s \<noteq> []"
  by (induction s) (auto split: list.splits)

lemma length_split_once: "length (split_once c s) = (if c \<in> set s then 2 else 1)"
proof (induction s)
  case (Cons x s)
  then show ?case
    by (cases "split_once c s") (auto split: if_splits)
qed simp

lemma join_split_char: "join [c] (split_char c s) = s"
proof (induction s)
  case (Cons x s)
  obtain w ws where w: "split_char c s = w # ws"
    using split_char_nonempty [of c s] by (cases "split_char c s") auto
  with Cons show ?case by (cases ws) auto
qed simp

lemma split_once_join:
  "split_once c s = [a, b] \<Longrightarrow> s = a @ c # b \<and> c \<notin> set a"
proof (induction s arbitrary: a)
  case (Cons x s)
  obtain w ws where w: "split_once c s = w # ws"
    using split_once_nonempty [of c s] by (cases "split_once c s") auto
  show ?case
  proof (cases "x = c")
    case False
    with Cons.prems w have "split_once c s = [w, b]" "a = x # w" by auto
    with Cons.IH [of w] False show ?thesis by auto
  qed (use Cons.prems in auto)
qed simp

lemma split_char_no_sep: "w \<in> set (split_char c s) \<Longrightarrow> c \<notin> set w"
proof (induction s arbitrary: w)
  case (Cons x s)
  obtain v vs where v: "split_char c s = v # vs"
    using split_char_nonempty [of c s] by (cases "split_char c s") auto
  with Cons.IH [of v] Cons.IH [of w] Cons.prems show ?case
    by (auto split: if_splits)
qed simp

lemma ord_char_of [simp]: "n < 256 \<Longrightarrow> ord (char_of n) = n"
  by (simp add: ord_def)

lemma show_nat_nonempty [simp]: "show_nat n \<noteq> []"
  by (subst show_nat.simps) simp

lemma show_nat_digits: "list_all digit_char (show_nat n)"
proof (induction n rule: show_nat.induct)
  case (1 n)
  show ?case
  proof (cases "n < 10")
    case True
    then show ?thesis by (subst show_nat.simps) (simp add: digit_char_def)
  next
    case False
    with 1 have "list_all digit_char (show_nat (n div 10))" by simp
    with False show ?thesis
      by (subst show_nat.simps) (simp add: digit_char_def [of "char_of (48 + n mod 10)"])
  qed
qed

lemma nat_of_digits_snoc: "nat_of_digits (s @ [c]) = 10 * nat_of_digits s + (ord c - 48)"
  by (simp add: nat_of_digits_def)

lemma nat_of_digits_show_nat [simp]: "nat_of_digits (show_nat n) = n"
proof (induction n rule: show_nat.induct)
  case (1 n)
  show ?case
  proof (cases "n < 10")
    case True
    then show ?thesis by (subst show_nat.simps) (simp add: nat_of_digits_def)
  next
    case False
    with 1 show ?thesis
      by (subst show_nat.simps) (simp add: nat_of_digits_snoc)
  qed
qed

lemma isdigit_show_nat [simp]: "isdigit (show_nat n)"
  by (simp add: isdigit_def show_nat_digits)

lemma digit_not_space: "digit_char c \<Longrightarrow> \<not> is_space c"
  by (auto simp: digit_char_def is_space_def ord_def)

lemma strip_digits: "list_all digit_char s \<Longrightarrow> strip s = s"
proof -
  assume d: "list_all digit_char s"
  have "dropWhile is_space t = t" if "list_all digit_char t" for t
    using that by (cases t) (auto simp: digit_not_space)
  moreover have "list_all digit_char (rev s)" using d by (simp add: list_all_iff)
  ultimately show ?thesis using d by (simp add: strip_def)
qed

lemma int_of_str_show_nat [simp]: "int_of_str (show_nat n) = Some (int n)"
proof -
  obtain c ds where s: "show_nat n = c # ds"
    using show_nat_nonempty [of n] by (cases "show_nat n") auto
  have "digit_char c" using show_nat_digits [of n] s by simp
  then have "c \<noteq> CHR ''-''" "c \<noteq> CHR ''+''" by (auto simp: digit_char_def ord_def)
  moreover have "strip (show_nat n) = c # ds"
    using strip_digits [OF show_nat_digits [of n]] s by simp
  ultimately show ?thesis
    using isdigit_show_nat [of n] nat_of_digits_show_nat [of n] s
    by (simp add: int_of_str_def)
qed

lemma startswith_append [simp]: "startswith p (p @ s)"
  by (simp add: startswith_def)

lemma str_in_append: "str_in sub (a @ sub @ b)"
proof (induction a)
  case Nil
  show ?case
  proof (cases "sub @ b")
    case (Cons x t)
    have "startswith sub (sub @ b)" by simp
    with Cons have "startswith sub (x # t)" by (simp only:)
    with Cons show ?thesis by simp
  qed simp
next
  case (Cons x a)
  then show ?case by simp
qed

lemma str_in_Nil [simp]: "str_in [] s"
  by (cases s) (auto simp: startswith_def)

end
