(* ===== verification/Exceptions.thy ===== *)
theory Exceptions
  imports PyVal
begin

text \<open>
  The exceptions of the program and how the REST layer answers them. An exception
  is its class with the keyword arguments it was raised with. One datatype per
  module holds its classes in the order of the source: common/exceptions.py,
  extensions/common_services.py, extensions/mem.py, extensions/meo.py,
  extensions/meo_plugins/network_service.py and keymgr/exception.py
  (\<open>MeoToscaParserFailed\<close> is \<open>meo.ToscaParserFailed\<close>); \<open>lib_exc\<close> holds the classes
  of Python, SQLAlchemy, oslo, netaddr, webob, heat and other clients that the code raises,
  catches or maps. The parent functions are the inheritance, the message functions
  the \<open>message\<close> class attributes (\<open>None\<close> where the class inherits it).
\<close>

section \<open>The exception classes\<close>

datatype lib_exc =
    Exception | LookupError | KeyError | IndexError | ValueError | TypeError
  | AttributeError | AssertionError | NotImplementedError | EnvironmentError
  | IOError | OSError | NoResultFound | MultipleResultsFound | StatementError
  | DBError | DBDuplicateEntry | DBReferenceError | RetryRequest
  | AddrFormatError | OsloPolicyNotAuthorized | HTTPException | HTTPBadRequest
  | HTTPNotFound | HeatHTTPException | HeatHTTPNotFound | RuntimeError
  | HTTPServerError | HTTPUnauthorized | HTTPNotAcceptable | ImportError
  | BarbicanHTTPAuthError | BarbicanHTTPClientError | BarbicanHTTPServerError
  | SSHException | SSHAuthenticationException | MessagingTimeout
  | OverflowError | NameError

datatype common_exc =
    ApmecException | BadRequest | NotFound | Conflict | NotAuthorized
    | ServiceUnavailable | AdminRequired | PolicyNotAuthorized
    | NetworkNotFound | PolicyFileNotFound | PolicyInitError | PolicyCheckError
    | StateInvalid | InUse | ResourceExhausted | MalformedRequestBody | Invalid
    | InvalidInput | InvalidAllocationPool | OverlappingAllocationPools
    | OutOfBoundsAllocationPool | MacAddressGenerationFailure
    | IpAddressGenerationFailure | BridgeDoesNotExist
    | PreexistingDeviceFailure | SudoRequired | QuotaResourceUnknown
    | OverQuota | QuotaMissingTenant | InvalidQuotaValue | InvalidSharedSetting
    | InvalidExtensionEnv | ExtensionsNotFound | InvalidContentType
    | ExternalIpAddressExhausted | TooManyExternalNetworks
    | InvalidConfigurationOption | GatewayConflictWithAllocationPools
    | GatewayIpInUse | NetworkVlanRangeError | NetworkVxlanPortRangeError
    | VxlanNetworkUnsupported | DuplicatedExtension | DeviceIDNotOwnedByTenant
    | InvalidCIDR | MgmtDriverException | AlarmUrlInvalid | TriggerNotFound
    | MeaPolicyNotFound | MeaPolicyActionInvalid | MeaPolicyTypeInvalid
    | DuplicateResourceName | DuplicateEntity

datatype cs_exc =
    EventCreationFailureException | EventNotFoundException
    | InvalidModelException | InputValuesMissing | ParamYAMLInputMissing

datatype mem_exc =
    MultipleMGMTDriversSpecified | ServiceTypesNotSpecified | MEADInUse
    | MEAInUse | InvalidInfraDriver | InvalidServiceType | MEACreateFailed
    | MEACreateWaitFailed | MEAScaleWaitFailed | MEADeleteWaitFailed
    | MEADNotFound | ServiceTypeNotFound | MEANotFound | ParamYAMLNotWellFormed
    | ToscaParserFailed | HeatTranslatorFailed | HeatClientException
    | UserDataFormatNotFound | IPAddrInvalidInput | HugePageSizeInvalidInput
    | CpuAllocationInvalidKeys | NumaNodesInvalidKeys | FilePathMissing
    | InfraDriverUnreachable | MEAInactive | MetadataNotMatched
    | InvalidSubstitutionMapping | SMRequirementMissing | InvalidParamsForSM

datatype meo_exc =
    VimUnauthorizedException | VimConnectionException | VimInUseException
    | VimDefaultNotDefined | VimDefaultDuplicateException
    | VimNotFoundException | VimRegionNotFoundException
    | VimKeyNotFoundException | VimUnsupportedResourceTypeException
    | VimGetResourceException | VimGetResourceNameNotUnique
    | VimGetResourceNotFoundException | VimFromMeaNotFoundException
    | MeoToscaParserFailed | NfydInvalidTemplate
    | NfydDuplicateForwarderException | NfydDuplicateCPException
    | NfydCpNotFoundException | NfydCpNoForwardingException
    | NfydWrongEndpointNumber | NfyInvalidMappingException
    | NfyParamValueFormatError | NfyParamValueNotUsed | NfyCpNotFoundException
    | NfyMeaNotFoundException | NfpAttributeNotFoundException
    | NfpNotFoundException | NfpInUse | NfpPolicyCriteriaError
    | NfpPolicyNotFoundException | NfpPolicyTypeError
    | NfpForwarderNotFoundException | NfpRequirementsException | SfcInUse
    | SfcNotFoundException | ClassifierInUse | ClassifierNotFoundException
    | NSDInUse | NSInUse | NoTasksException

datatype network_service_exc =
    NSDNotFound | NSNotFound

datatype keymgr_exc =
    Forbidden | KeyManagerError | ManagedObjectNotFoundError
    | AuthTypeInvalidError | InsufficientCredentialDataError

datatype exc_class =
    Lib lib_exc | Common common_exc | Cs cs_exc | Mem mem_exc | Meo meo_exc
  | Ns network_service_exc | Keymgr keymgr_exc

primrec lib_parent :: "lib_exc \<Rightarrow> exc_class option" where
  "lib_parent Exception = None"
| "lib_parent LookupError = Some (Lib Exception)"
| "lib_parent KeyError = Some (Lib LookupError)"
| "lib_parent IndexError = Some (Lib LookupError)"
| "lib_parent ValueError = Some (Lib Exception)"
| "lib_parent TypeError = Some (Lib Exception)"
| "lib_parent AttributeError = Some (Lib Exception)"
| "lib_parent AssertionError = Some (Lib Exception)"
| "lib_parent NotImplementedError = Some (Lib RuntimeError)"
| "lib_parent EnvironmentError = Some (Lib Exception)"
| "lib_parent IOError = Some (Lib EnvironmentError)"
| "lib_parent OSError = Some (Lib EnvironmentError)"
| "lib_parent NoResultFound = Some (Lib Exception)"
| "lib_parent MultipleResultsFound = Some (Lib Exception)"
| "lib_parent StatementError = Some (Lib Exception)"
| "lib_parent DBError = Some (Lib Exception)"
| "lib_parent DBDuplicateEntry = Some (Lib DBError)"
| "lib_parent DBReferenceError = Some (Lib DBError)"
| "lib_parent RetryRequest = Some (Lib Exception)"
| "lib_parent AddrFormatError = Some (Lib Exception)"
| "lib_parent OsloPolicyNotAuthorized = Some (Lib Exception)"
| "lib_parent HTTPException = Some (Lib Exception)"
| "lib_parent HTTPBadRequest = Some (Lib HTTPException)"
| "lib_parent HTTPNotFound = Some (Lib HTTPException)"
| "lib_parent HeatHTTPException = Some (Lib Exception)"
| "lib_parent HeatHTTPNotFound = Some (Lib HeatHTTPException)"
| "lib_parent RuntimeError = Some (Lib Exception)"
| "lib_parent HTTPServerError = Some (Lib HTTPException)"
| "lib_parent HTTPUnauthorized = Some (Lib HTTPException)"
| "lib_parent HTTPNotAcceptable = Some (Lib HTTPException)"
| "lib_parent ImportError = Some (Lib Exception)"
| "lib_parent BarbicanHTTPAuthError = Some (Lib Exception)"
| "lib_parent BarbicanHTTPClientError = Some (Lib Exception)"
| "lib_parent BarbicanHTTPServerError = Some (Lib Exception)"
| "lib_parent SSHException = Some (Lib Exception)"
| "lib_parent SSHAuthenticationException = Some (Lib SSHException)"
| "lib_parent MessagingTimeout = Some (Lib Exception)"
| "lib_parent OverflowError = Some (Lib Exception)"
| "lib_parent NameError = Some (Lib Exception)"

primrec common_parent :: "common_exc \<Rightarrow> exc_class" where
  "common_parent ApmecException = Lib Exception"
| "common_parent BadRequest = Common ApmecException"
| "common_parent NotFound = Common ApmecException"
| "common_parent Conflict = Common ApmecException"
| "common_parent NotAuthorized = Common ApmecException"
| "common_parent ServiceUnavailable = Common ApmecException"
| "common_parent AdminRequired = Common NotAuthorized"
| "common_parent PolicyNotAuthorized = Common NotAuthorized"
| "common_parent NetworkNotFound = Common NotFound"
| "common_parent PolicyFileNotFound = Common NotFound"
| "common_parent PolicyInitError = Common ApmecException"
| "common_parent PolicyCheckError = Common ApmecException"
| "common_parent StateInvalid = Common BadRequest"
| "common_parent InUse = Common ApmecException"
| "common_parent ResourceExhausted = Common ServiceUnavailable"
| "common_parent MalformedRequestBody = Common BadRequest"
| "common_parent Invalid = Common ApmecException"
| "common_parent InvalidInput = Common BadRequest"
| "common_parent InvalidAllocationPool = Common BadRequest"
| "common_parent OverlappingAllocationPools = Common Conflict"
| "common_parent OutOfBoundsAllocationPool = Common BadRequest"
| "common_parent MacAddressGenerationFailure = Common ServiceUnavailable"
| "common_parent IpAddressGenerationFailure = Common Conflict"
| "common_parent BridgeDoesNotExist = Common ApmecException"
| "common_parent PreexistingDeviceFailure = Common ApmecException"
| "common_parent SudoRequired = Common ApmecException"
| "common_parent QuotaResourceUnknown = Common NotFound"
| "common_parent OverQuota = Common Conflict"
| "common_parent QuotaMissingTenant = Common BadRequest"
| "common_parent InvalidQuotaValue = Common Conflict"
| "common_parent InvalidSharedSetting = Common Conflict"
| "common_parent InvalidExtensionEnv = Common BadRequest"
| "common_parent ExtensionsNotFound = Common NotFound"
| "common_parent InvalidContentType = Common ApmecException"
| "common_parent ExternalIpAddressExhausted = Common BadRequest"
| "common_parent TooManyExternalNetworks = Common ApmecException"
| "common_parent InvalidConfigurationOption = Common ApmecException"
| "common_parent GatewayConflictWithAllocationPools = Common InUse"
| "common_parent GatewayIpInUse = Common InUse"
| "common_parent NetworkVlanRangeError = Common ApmecException"
| "common_parent NetworkVxlanPortRangeError = Common ApmecException"
| "common_parent VxlanNetworkUnsupported = Common ApmecException"
| "common_parent DuplicatedExtension = Common ApmecException"
| "common_parent DeviceIDNotOwnedByTenant = Common Conflict"
| "common_parent InvalidCIDR = Common BadRequest"
| "common_parent MgmtDriverException = Common ApmecException"
| "common_parent AlarmUrlInvalid = Common BadRequest"
| "common_parent TriggerNotFound = Common NotFound"
| "common_parent MeaPolicyNotFound = Common NotFound"
| "common_parent MeaPolicyActionInvalid = Common BadRequest"
| "common_parent MeaPolicyTypeInvalid = Common BadRequest"
| "common_parent DuplicateResourceName = Common ApmecException"
| "common_parent DuplicateEntity = Common ApmecException"

primrec cs_parent :: "cs_exc \<Rightarrow> exc_class" where
  "cs_parent EventCreationFailureException = Common ApmecException"
| "cs_parent EventNotFoundException = Common ApmecException"
| "cs_parent InvalidModelException = Common ApmecException"
| "cs_parent InputValuesMissing = Common InvalidInput"
| "cs_parent ParamYAMLInputMissing = Common InvalidInput"

primrec mem_parent :: "mem_exc \<Rightarrow> exc_class" where
  "mem_parent MultipleMGMTDriversSpecified = Common InvalidInput"
| "mem_parent ServiceTypesNotSpecified = Common InvalidInput"
| "mem_parent MEADInUse = Common InUse"
| "mem_parent MEAInUse = Common InUse"
| "mem_parent InvalidInfraDriver = Common InvalidInput"
| "mem_parent InvalidServiceType = Common InvalidInput"
| "mem_parent MEACreateFailed = Common ApmecException"
| "mem_parent MEACreateWaitFailed = Common ApmecException"
| "mem_parent MEAScaleWaitFailed = Common ApmecException"
| "mem_parent MEADeleteWaitFailed = Common ApmecException"
| "mem_parent MEADNotFound = Common NotFound"
| "mem_parent ServiceTypeNotFound = Common NotFound"
| "mem_parent MEANotFound = Common NotFound"
| "mem_parent ParamYAMLNotWellFormed = Common InvalidInput"
| "mem_parent ToscaParserFailed = Common InvalidInput"
| "mem_parent HeatTranslatorFailed = Common InvalidInput"
| "mem_parent HeatClientException = Common ApmecException"
| "mem_parent UserDataFormatNotFound = Common NotFound"
| "mem_parent IPAddrInvalidInput = Common InvalidInput"
| "mem_parent HugePageSizeInvalidInput = Common InvalidInput"
| "mem_parent CpuAllocationInvalidKeys = Common InvalidInput"
| "mem_parent NumaNodesInvalidKeys = Common InvalidInput"
| "mem_parent FilePathMissing = Common InvalidInput"
| "mem_parent InfraDriverUnreachable = Common ServiceUnavailable"
| "mem_parent MEAInactive = Common InvalidInput"
| "mem_parent MetadataNotMatched = Common InvalidInput"
| "mem_parent InvalidSubstitutionMapping = Common InvalidInput"
| "mem_parent SMRequirementMissing = Common InvalidInput"
| "mem_parent InvalidParamsForSM = Common InvalidInput"

primrec meo_parent :: "meo_exc \<Rightarrow> exc_class" where
  "meo_parent VimUnauthorizedException = Common ApmecException"
| "meo_parent VimConnectionException = Common ApmecException"
| "meo_parent VimInUseException = Common ApmecException"
| "meo_parent VimDefaultNotDefined = Common ApmecException"
| "meo_parent VimDefaultDuplicateException = Common ApmecException"
| "meo_parent VimNotFoundException = Common ApmecException"
| "meo_parent VimRegionNotFoundException = Common ApmecException"
| "meo_parent VimKeyNotFoundException = Common ApmecException"
| "meo_parent VimUnsupportedResourceTypeException = Common ApmecException"
| "meo_parent VimGetResourceException = Common ApmecException"
| "meo_parent VimGetResourceNameNotUnique = Common ApmecException"
| "meo_parent VimGetResourceNotFoundException = Common ApmecException"
| "meo_parent VimFromMeaNotFoundException = Common NotFound"
| "meo_parent MeoToscaParserFailed = Common InvalidInput"
| "meo_parent NfydInvalidTemplate = Common InvalidInput"
| "meo_parent NfydDuplicateForwarderException = Common InvalidInput"
| "meo_parent NfydDuplicateCPException = Common InvalidInput"
| "meo_parent NfydCpNotFoundException = Common NotFound"
| "meo_parent NfydCpNoForwardingException = Common ApmecException"
| "meo_parent NfydWrongEndpointNumber = Common ApmecException"
| "meo_parent NfyInvalidMappingException = Common ApmecException"
| "meo_parent NfyParamValueFormatError = Common ApmecException"
| "meo_parent NfyParamValueNotUsed = Common ApmecException"
| "meo_parent NfyCpNotFoundException = Common NotFound"
| "meo_parent NfyMeaNotFoundException = Common NotFound"
| "meo_parent NfpAttributeNotFoundException = Common NotFound"
| "meo_parent NfpNotFoundException = Common NotFound"
| "meo_parent NfpInUse = Common InUse"
| "meo_parent NfpPolicyCriteriaError = Common PolicyCheckError"
| "meo_parent NfpPolicyNotFoundException = Common NotFound"
| "meo_parent NfpPolicyTypeError = Common PolicyCheckError"
| "meo_parent NfpForwarderNotFoundException = Common NotFound"
| "meo_parent NfpRequirementsException = Common ApmecException"
| "meo_parent SfcInUse = Common InUse"
| "meo_parent SfcNotFoundException = Common NotFound"
| "meo_parent ClassifierInUse = Common InUse"
| "meo_parent ClassifierNotFoundException = Common NotFound"
| "meo_parent NSDInUse = Common InUse"
| "meo_parent NSInUse = Common InUse"
| "meo_parent NoTasksException = Common ApmecException"

primrec network_service_parent :: "network_service_exc \<Rightarrow> exc_class" where
  "network_service_parent NSDNotFound = Common NotFound"
| "network_service_parent NSNotFound = Common NotFound"

primrec keymgr_parent :: "keymgr_exc \<Rightarrow> exc_class" where
  "keymgr_parent Forbidden = Common ApmecException"
| "keymgr_parent KeyManagerError = Common ApmecException"
| "keymgr_parent ManagedObjectNotFoundError = Common ApmecException"
| "keymgr_parent AuthTypeInvalidError = Common ApmecException"
| "keymgr_parent InsufficientCredentialDataError = Common ApmecException"

primrec common_message :: "common_exc \<Rightarrow> string option" where
  "common_message ApmecException = Some ''An unknown exception occurred.''"
| "common_message BadRequest = Some ''Bad %(resource)s request: %(msg)s''"
| "common_message NotFound = None"
| "common_message Conflict = None"
| "common_message NotAuthorized = Some ''Not authorized.''"
| "common_message ServiceUnavailable = Some ''The service is unavailable''"
| "common_message AdminRequired = Some ''User does not have admin privileges: %(reason)s''"
| "common_message PolicyNotAuthorized = Some (''Policy doesn'' @ [CHR 0x27] @ ''t allow %(action)s to be performed.'')"
| "common_message NetworkNotFound = Some ''Network %(net_id)s could not be found''"
| "common_message PolicyFileNotFound = Some ''Policy configuration policy.json could not be found''"
| "common_message PolicyInitError = Some ''Failed to init policy %(policy)s because %(reason)s''"
| "common_message PolicyCheckError = Some ''Failed to check policy %(policy)s because %(reason)s''"
| "common_message StateInvalid = Some ''Unsupported port state: %(port_state)s''"
| "common_message InUse = Some ''The resource is inuse''"
| "common_message ResourceExhausted = None"
| "common_message MalformedRequestBody = Some ''Malformed request body: %(reason)s''"
| "common_message Invalid = None"
| "common_message InvalidInput = Some ''Invalid input for operation: %(error_message)s.''"
| "common_message InvalidAllocationPool = Some ''The allocation pool %(pool)s is not valid.''"
| "common_message OverlappingAllocationPools = Some ''Found overlapping allocation pools:%(pool_1)s %(pool_2)s for subnet %(subnet_cidr)s.''"
| "common_message OutOfBoundsAllocationPool = Some ''The allocation pool %(pool)s spans beyond the subnet cidr %(subnet_cidr)s.''"
| "common_message MacAddressGenerationFailure = Some ''Unable to generate unique mac on network %(net_id)s.''"
| "common_message IpAddressGenerationFailure = Some ''No more IP addresses available on network %(net_id)s.''"
| "common_message BridgeDoesNotExist = Some ''Bridge %(bridge)s does not exist.''"
| "common_message PreexistingDeviceFailure = Some ''Creation failed. %(dev_name)s already exists.''"
| "common_message SudoRequired = Some ''Sudo privilege is required to run this command.''"
| "common_message QuotaResourceUnknown = Some ''Unknown quota resources %(unknown)s.''"
| "common_message OverQuota = Some ''Quota exceeded for resources: %(overs)s''"
| "common_message QuotaMissingTenant = Some ''Tenant-id was missing from Quota request''"
| "common_message InvalidQuotaValue = Some ''Change would make usage less than 0 for the following resources: %(unders)s''"
| "common_message InvalidSharedSetting = Some ''Unable to reconfigure sharing settings for network %(network)s. Multiple tenants are using it''"
| "common_message InvalidExtensionEnv = Some ''Invalid extension environment: %(reason)s''"
| "common_message ExtensionsNotFound = Some ''Extensions not found: %(extensions)s''"
| "common_message InvalidContentType = Some ''Invalid content type %(content_type)s''"
| "common_message ExternalIpAddressExhausted = Some ''Unable to find any IP address on external network %(net_id)s.''"
| "common_message TooManyExternalNetworks = Some ''More than one external network exists''"
| "common_message InvalidConfigurationOption = Some ''An invalid value was provided for %(opt_name)s: %(opt_value)s''"
| "common_message GatewayConflictWithAllocationPools = Some ''Gateway ip %(ip_address)s conflicts with allocation pool %(pool)s''"
| "common_message GatewayIpInUse = Some ''Current gateway ip %(ip_address)s already in use by port %(port_id)s. Unable to update.''"
| "common_message NetworkVlanRangeError = Some (''Invalid network VLAN range: '' @ [CHR 0x27] @ ''%(vlan_range)s'' @ [CHR 0x27] @ '' - '' @ [CHR 0x27] @ ''%(error)s'' @ [CHR 0x27])"
| "common_message NetworkVxlanPortRangeError = Some (''Invalid network VXLAN port range: '' @ [CHR 0x27] @ ''%(vxlan_range)s'' @ [CHR 0x27])"
| "common_message VxlanNetworkUnsupported = Some ''VXLAN Network unsupported.''"
| "common_message DuplicatedExtension = Some ''Found duplicate extension: %(alias)s''"
| "common_message DeviceIDNotOwnedByTenant = Some ''The following device_id %(device_id)s is not owned by your tenant or matches another tenants router.''"
| "common_message InvalidCIDR = Some ''Invalid CIDR %(input)s given as IP prefix''"
| "common_message MgmtDriverException = Some ''MEA configuration failed''"
| "common_message AlarmUrlInvalid = Some ''Invalid alarm url for MEA %(mea_id)s''"
| "common_message TriggerNotFound = Some ''Trigger %(trigger_name)s does not exist for MEA %(mea_id)s''"
| "common_message MeaPolicyNotFound = Some ''Policy %(policy)s does not exist for MEA %(mea_id)s''"
| "common_message MeaPolicyActionInvalid = Some ''Invalid action %(action)s for policy %(policy)s, should be one of %(valid_actions)s''"
| "common_message MeaPolicyTypeInvalid = Some ''Invalid type %(type)s for policy %(policy)s, should be one of %(valid_types)s''"
| "common_message DuplicateResourceName = Some ''%(resource)s with name %(name)s already exists''"
| "common_message DuplicateEntity = Some ''%(_type)s already exist with given %(entry)s''"

primrec cs_message :: "cs_exc \<Rightarrow> string option" where
  "cs_message EventCreationFailureException = Some ''Failed to create an event: %(error_str)s''"
| "cs_message EventNotFoundException = Some ''Specified Event id %(evt_id)s is invalid. Please verify and pass a valid Event id''"
| "cs_message InvalidModelException = Some ''Specified model is invalid, only Event model supported''"
| "cs_message InputValuesMissing = Some (''Parameter input values missing for the key '' @ [CHR 0x27] @ ''%(key)s'' @ [CHR 0x27])"
| "cs_message ParamYAMLInputMissing = Some ''Parameter YAML input missing''"

primrec mem_message :: "mem_exc \<Rightarrow> string option" where
  "mem_message MultipleMGMTDriversSpecified = Some ''More than one MGMT Driver per mead is not supported''"
| "mem_message ServiceTypesNotSpecified = Some ''service types are not specified''"
| "mem_message MEADInUse = Some ''MEAD %(mead_id)s is still in use''"
| "mem_message MEAInUse = Some ''MEA %(mea_id)s is still in use''"
| "mem_message InvalidInfraDriver = Some ''VIM type %(vim_name)s is not supported as an infra driver ''"
| "mem_message InvalidServiceType = Some ''invalid service type %(service_type)s''"
| "mem_message MEACreateFailed = Some ''creating MEA based on %(mead_id)s failed''"
| "mem_message MEACreateWaitFailed = Some ''%(reason)s''"
| "mem_message MEAScaleWaitFailed = Some ''%(reason)s''"
| "mem_message MEADeleteWaitFailed = Some ''%(reason)s''"
| "mem_message MEADNotFound = Some ''MEAD %(mead_id)s could not be found''"
| "mem_message ServiceTypeNotFound = Some ''service type %(service_type_id)s could not be found''"
| "mem_message MEANotFound = Some ''MEA %(mea_id)s could not be found''"
| "mem_message ParamYAMLNotWellFormed = Some ''Parameter YAML not well formed - %(error_msg_details)s''"
| "mem_message ToscaParserFailed = Some ''tosca-parser failed: - %(error_msg_details)s''"
| "mem_message HeatTranslatorFailed = Some ''heat-translator failed: - %(error_msg_details)s''"
| "mem_message HeatClientException = Some ''%(msg)s''"
| "mem_message UserDataFormatNotFound = Some ''user_data and/or user_data_format not provided''"
| "mem_message IPAddrInvalidInput = Some ''IP Address input values should be in a list format''"
| "mem_message HugePageSizeInvalidInput = Some (''Value specified for mem_page_size is invalid:%(error_msg_details)s. The valid values are '' @ [CHR 0x27] @ ''small'' @ [CHR 0x27] @ '', '' @ [CHR 0x27] @ ''large'' @ [CHR 0x27] @ '','' @ [CHR 0x27] @ ''any'' @ [CHR 0x27] @ '' or an integer value in MB'')"
| "mem_message CpuAllocationInvalidKeys = Some ''Invalid keys specified in MEAD - %(error_msg_details)s.Supported keys are: %(valid_keys)s''"
| "mem_message NumaNodesInvalidKeys = Some ''Invalid keys specified in MEAD - %(error_msg_details)s.Supported keys are: %(valid_keys)s''"
| "mem_message FilePathMissing = Some ([CHR 0x27] @ ''file'' @ [CHR 0x27] @ '' attribute is missing for tosca.artifacts.Deployment.Image.VM artifact type'')"
| "mem_message InfraDriverUnreachable = Some ''Could not retrieve MEA resource IDs and types. Please check %(service)s status.''"
| "mem_message MEAInactive = Some ''MEA %(mea_id)s is not in Active state %(message)s''"
| "mem_message MetadataNotMatched = Some ''Metadata for alarm policy is not matched''"
| "mem_message InvalidSubstitutionMapping = Some ''Input for substitution mapping requirements are not valid for %(requirement)s. They must be in the form of list with two entries''"
| "mem_message SMRequirementMissing = Some ''All the requirements for substitution_mappings are not provided. Missing requirement for %(requirement)s''"
| "mem_message InvalidParamsForSM = Some ''Please provide parameters for substitution mappings''"

primrec meo_message :: "meo_exc \<Rightarrow> string option" where
  "meo_message VimUnauthorizedException = Some ''%(message)s''"
| "meo_message VimConnectionException = Some ''%(message)s''"
| "meo_message VimInUseException = Some ''VIM %(vim_id)s is still in use by MEA''"
| "meo_message VimDefaultNotDefined = Some ''Default VIM is not defined.''"
| "meo_message VimDefaultDuplicateException = Some ''Default VIM already exists %(vim_id)s.''"
| "meo_message VimNotFoundException = Some ''Specified VIM id %(vim_id)s is invalid. Please verify and pass a valid VIM id''"
| "meo_message VimRegionNotFoundException = Some ''Unknown VIM region name %(region_name)s''"
| "meo_message VimKeyNotFoundException = Some ''Unable to find key file for VIM %(vim_id)s''"
| "meo_message VimUnsupportedResourceTypeException = Some ''Resource type %(type)s is unsupported by VIM''"
| "meo_message VimGetResourceException = Some ''Error while trying to issue %(cmd)s to find resource type %(type)s by resource name %(name)s''"
| "meo_message VimGetResourceNameNotUnique = Some ''Getting resource id from VIM with resource name %(name)s by %(cmd)s returns more than one''"
| "meo_message VimGetResourceNotFoundException = Some ''Getting resource id from VIM with resource name %(name)s by %(cmd)s returns nothing''"
| "meo_message VimFromMeaNotFoundException = Some ''VIM from MEA %(mea_id)s could not be found''"
| "meo_message MeoToscaParserFailed = Some ''tosca-parser failed: - %(error_msg_details)s''"
| "meo_message NfydInvalidTemplate = Some ''Invalid NFY template input: %(template)s''"
| "meo_message NfydDuplicateForwarderException = Some ''Invalid Forwarding Path contains duplicate forwarder not in order: %(forwarder)s''"
| "meo_message NfydDuplicateCPException = Some ''Invalid Forwarding Path contains duplicate connection point : %(cp)s''"
| "meo_message NfydCpNotFoundException = Some ''Specified CP %(cp_id)s could not be found in MEAD %(mead_name)s. Please check MEAD for correct Connection Point.''"
| "meo_message NfydCpNoForwardingException = Some ''Specified CP %(cp_id)s in MEAD %(mead_name)s does not have forwarding capability, which is required to be included in forwarding path''"
| "meo_message NfydWrongEndpointNumber = Some ''Specified number_of_endpoints %(number)s is not equal to the number of connection_point %(cps)s''"
| "meo_message NfyInvalidMappingException = Some ''Matching MEA Instance for MEAD %(mead_name)s could not be found. Please create an instance of this MEAD before creating/updating NFY.''"
| "meo_message NfyParamValueFormatError = Some ''Param values %(param_value)s is not in dict format.''"
| "meo_message NfyParamValueNotUsed = Some ''Param input %(param_key)s not used.''"
| "meo_message NfyCpNotFoundException = Some ''Specified CP %(cp_id)s could not be found in MEA %(mea_id)s.''"
| "meo_message NfyMeaNotFoundException = Some ''Specified MEA instance %(mea_name)s in MEA Mapping could not be found''"
| "meo_message NfpAttributeNotFoundException = Some ''NFP attribute %(attribute)s could not be found''"
| "meo_message NfpNotFoundException = Some ''NFP %(nfp_id)s could not be found''"
| "meo_message NfpInUse = Some ''NFP %(nfp_id)s is still in use''"
| "meo_message NfpPolicyCriteriaError = Some ''%(error)s in policy''"
| "meo_message NfpPolicyNotFoundException = Some ''Policy not found in NFP %(nfp)s''"
| "meo_message NfpPolicyTypeError = Some ''Unsupported Policy Type: %(type)s''"
| "meo_message NfpForwarderNotFoundException = Some ''MEAD Forwarder %(mead)s not found in MEA Mapping %(mapping)s''"
| "meo_message NfpRequirementsException = Some ''MEAD Forwarder %(mead)s specified more than twice in requirements path''"
| "meo_message SfcInUse = Some ''SFC %(sfc_id)s is still in use''"
| "meo_message SfcNotFoundException = Some ''Service Function Chain %(sfc_id)s could not be found''"
| "meo_message ClassifierInUse = Some ''Classifier %(classifier_id)s is still in use''"
| "meo_message ClassifierNotFoundException = Some ''Classifier %(classifier_id)s could not be found''"
| "meo_message NSDInUse = Some ''NSD %(nsd_id)s is still in use''"
| "meo_message NSInUse = Some ''NS %(ns_id)s is still in use''"
| "meo_message NoTasksException = Some ''No tasks to run for %(action)s on %(resource)s''"

primrec network_service_message :: "network_service_exc \<Rightarrow> string option" where
  "network_service_message NSDNotFound = Some ''NSD %(nsd_id)s could not be found''"
| "network_service_message NSNotFound = Some ''NS %(ns_id)s could not be found''"

primrec keymgr_message :: "keymgr_exc \<Rightarrow> string option" where
  "keymgr_message Forbidden = Some ''You are not authorized to complete this action.''"
| "keymgr_message KeyManagerError = Some ''Key manager error: %(reason)s''"
| "keymgr_message ManagedObjectNotFoundError = Some ''Key not found, uuid: %(uuid)s''"
| "keymgr_message AuthTypeInvalidError = Some ''Invalid auth_type was specified, auth_type: %(type)s''"
| "keymgr_message InsufficientCredentialDataError = Some (''Insufficient credential data was provided, either '' @ [CHR 0x22] @ ''token'' @ [CHR 0x22] @ '' must be set in the passed conf, or a context with an '' @ [CHR 0x22] @ ''auth_token'' @ [CHR 0x22] @ '' property must be passed.'')"

primrec exc_parent :: "exc_class \<Rightarrow> exc_class option" where
  "exc_parent (Lib c) = lib_parent c"
| "exc_parent (Common c) = Some (common_parent c)"
| "exc_parent (Cs c) = Some (cs_parent c)"
| "exc_parent (Mem c) = Some (mem_parent c)"
| "exc_parent (Meo c) = Some (meo_parent c)"
| "exc_parent (Ns c) = Some (network_service_parent c)"
| "exc_parent (Keymgr c) = Some (keymgr_parent c)"

primrec class_message :: "exc_class \<Rightarrow> string option" where
  "class_message (Lib c) = None"
| "class_message (Common c) = common_message c"
| "class_message (Cs c) = cs_message c"
| "class_message (Mem c) = mem_message c"
| "class_message (Meo c) = meo_message c"
| "class_message (Ns c) = network_service_message c"
| "class_message (Keymgr c) = keymgr_message c"

datatype exn = Exc (exn_class: exc_class) (exn_args: pydict)

type_synonym ('s, 'a) prog = "('s, exn, 'a) eff"

text \<open>The chain of classes from a class to the root. Five links are enough for every
  class (\<open>mro_rooted\<close>).\<close>

fun ancestors :: "nat \<Rightarrow> exc_class \<Rightarrow> exc_class list" where
  "ancestors 0 c = [c]"
| "ancestors (Suc n) c = c # (case exc_parent c of None \<Rightarrow> [] | Some p \<Rightarrow> ancestors n p)"

definition mro :: "exc_class \<Rightarrow> exc_class list" where
  "mro c = ancestors 5 c"

definition isinstance :: "exn \<Rightarrow> exc_class \<Rightarrow> bool" where
  "isinstance e c \<longleftrightarrow> List.member (mro (exn_class e)) c"

text \<open>The message template of a class is its own or the nearest inherited one;
  \<open>ApmecException.__init__\<close> fills it with the keyword arguments.\<close>

definition exc_message :: "exn \<Rightarrow> msg" where
  "exc_message e = Msg (case List.map_filter class_message (mro (exn_class e)) of
     [] \<Rightarrow> [] | t # _ \<Rightarrow> t) (map snd (exn_args e))"

section \<open>HTTP answers\<close>

text \<open>\<open>FAULT_MAP\<close> of api/v1/base.py with the status codes of the webob classes.\<close>

definition fault_map :: "(exc_class \<times> nat) list" where
  "fault_map = [
    (Common NotFound, 404),
    (Common Conflict, 409),
    (Common InUse, 409),
    (Common BadRequest, 400),
    (Common ServiceUnavailable, 503),
    (Common NotAuthorized, 403),
    (Lib AddrFormatError, 400)]"

text \<open>The status code of a webob exception (the classes the code raises).\<close>

definition webob_code :: "exc_class \<Rightarrow> nat" where
  "webob_code c = (if c = Lib HTTPBadRequest then 400
     else if c = Lib HTTPNotFound then 404 else if c = Lib HTTPUnauthorized then 401
     else if c = Lib HTTPNotAcceptable then 406 else 500)"

text \<open>An answer: status code, the key of the JSON body and the class whose name is the
  \<open>type\<close> in it (\<open>None\<close> for \<open>HTTPInternalServerError\<close>, which hides the exception).\<close>

record http_answer =
  http_status :: nat
  error_key :: string
  error_type :: "exc_class option"

definition get_exception_data :: "exn \<Rightarrow> exc_class option" where
  "get_exception_data e = Some (exn_class e)"

definition mapped_code :: "(exc_class \<times> nat) list \<Rightarrow> exn \<Rightarrow> nat" where
  "mapped_code faults e = (case List.find (\<lambda>(f, _). isinstance e f) faults of
     Some (_, code) \<Rightarrow> code | None \<Rightarrow> 500)"

definition convert_exception_to_http_exc :: "(exc_class \<times> nat) list \<Rightarrow> exn \<Rightarrow> http_answer" where
  "convert_exception_to_http_exc faults e =
    (if isinstance e (Lib HTTPException) then
       \<lparr>http_status = webob_code (exn_class e), error_key = ''ApmecError'',
        error_type = get_exception_data e\<rparr>
     else if isinstance e (Common ApmecException) \<or> isinstance e (Lib AddrFormatError)
           \<or> isinstance e (Lib OsloPolicyNotAuthorized) then
       \<lparr>http_status = mapped_code faults e, error_key = ''ApmecError'',
        error_type = get_exception_data e\<rparr>
     else if isinstance e (Lib NotImplementedError) then
       \<lparr>http_status = 501, error_key = ''NotImplementedError'',
        error_type = get_exception_data e\<rparr>
     else
       \<lparr>http_status = 500, error_key = ''ApmecError'', error_type = None\<rparr>)"

section \<open>Facts about the hierarchy\<close>

lemma lib_rooted: "last (ancestors 3 (Lib c)) = Lib Exception"
  by (cases c) (simp_all add: numeral_eq_Suc)

lemma ancestors_nonempty [simp]: "ancestors n c \<noteq> []"
  by (cases n) auto

lemma mro_rooted: "last (mro c) = Lib Exception"
proof (cases c)
  case (Lib x)
  then show ?thesis by (cases x) (simp_all add: mro_def numeral_eq_Suc)
next
  case (Common x)
  then show ?thesis by (cases x) (simp_all add: mro_def numeral_eq_Suc)
next
  case (Cs x)
  then show ?thesis by (cases x) (simp_all add: mro_def numeral_eq_Suc)
next
  case (Mem x)
  then show ?thesis by (cases x) (simp_all add: mro_def numeral_eq_Suc)
next
  case (Meo x)
  then show ?thesis by (cases x) (simp_all add: mro_def numeral_eq_Suc)
next
  case (Ns x)
  then show ?thesis by (cases x) (simp_all add: mro_def numeral_eq_Suc)
next
  case (Keymgr x)
  then show ?thesis by (cases x) (simp_all add: mro_def numeral_eq_Suc)
qed

lemmas exc_eval = mro_def isinstance_def numeral_eq_Suc

end
