(* ===== verification/Context.thy ===== *)
theory Context
  imports Exceptions
begin

text \<open>
  The request context of context.py: who calls, for which tenant, with which roles.
  Timestamps, request ids and the SQLAlchemy session are left out; the session's
  transactions are modelled by \<open>atomically\<close>. Whether a context without an explicit
  admin flag is an admin is decided by the policy engine, given as a parameter.
\<close>

record ctx =
  user_id :: "string option"
  tenant_id :: "string option"
  is_admin :: bool
  roles :: "string list"
  auth_token :: "string option"
  tenant_name :: "string option"
  user_name :: "string option"

text \<open>\<open>ContextBase.__init__\<close>: the check sees the context being built.\<close>

definition make_context ::
  "(ctx \<Rightarrow> bool) \<Rightarrow> string option \<Rightarrow> string option \<Rightarrow> bool option \<Rightarrow> string list option \<Rightarrow>
   string option \<Rightarrow> string option \<Rightarrow> string option \<Rightarrow> ctx" where
  "make_context check_is_admin user tenant admin rls token tname uname =
    (let c = \<lparr>user_id = user, tenant_id = tenant,
              is_admin = (case admin of Some b \<Rightarrow> b | None \<Rightarrow> False),
              roles = (case rls of None \<Rightarrow> [] | Some r \<Rightarrow> r), auth_token = token,
              tenant_name = tname, user_name = uname\<rparr>
     in case admin of Some _ \<Rightarrow> c | None \<Rightarrow> c\<lparr>is_admin := check_is_admin c\<rparr>)"

definition opt_str :: "string option \<Rightarrow> pyval" where
  "opt_str x = (case x of None \<Rightarrow> PNone | Some s \<Rightarrow> PStr s)"

definition to_dict :: "ctx \<Rightarrow> pydict" where
  "to_dict c = dict_update
     [(''user'', opt_str (user_id c)), (''tenant'', opt_str (tenant_id c)),
      (''is_admin'', PBool (is_admin c)), (''roles'', PList (map PStr (roles c))),
      (''auth_token'', opt_str (auth_token c))]
     [(''user_id'', opt_str (user_id c)), (''tenant_id'', opt_str (tenant_id c)),
      (''project_id'', opt_str (tenant_id c)), (''tenant_name'', opt_str (tenant_name c)),
      (''project_name'', opt_str (tenant_name c)), (''user_name'', opt_str (user_name c))]"

definition elevated :: "ctx \<Rightarrow> ctx" where
  "elevated c = (let c' = c\<lparr>is_admin := True\<rparr>
     in if List.member (map lower (roles c')) ''admin'' then c'
        else c'\<lparr>roles := roles c' @ [''admin'']\<rparr>)"

definition get_admin_context :: ctx where
  "get_admin_context = make_context (\<lambda>_. False) None None (Some True) None None None None"

lemma elevated_admin [simp]: "is_admin (elevated c)"
  by (simp add: elevated_def Let_def)

lemma elevated_tenant [simp]: "tenant_id (elevated c) = tenant_id c"
  by (simp add: elevated_def Let_def)

lemma elevated_idem: "elevated (elevated c) = elevated c"
  by (auto simp: elevated_def Let_def lower_def lower_char_def ord_def)

lemma get_admin_context_admin [simp]: "is_admin get_admin_context"
  by (simp add: get_admin_context_def make_context_def)

lemma get_admin_context_tenant [simp]: "tenant_id get_admin_context = None"
  by (simp add: get_admin_context_def make_context_def)

end
