(* ===== verification/DbBase.thy ===== *)
theory DbBase
  imports Context
begin

text \<open>
  The common query layer: db/db_base.py, db/types.py and db/sqlalchemyutils.py. A
  table is the list of its rows in insertion order. A \<open>model\<close> says which of the
  columns \<open>tenant_id\<close>, \<open>shared\<close> and \<open>deleted_at\<close> a model class has and how its
  columns are read, which is all \<open>_model_query\<close> and the filters look at. The hook
  dictionaries of \<open>CommonDbMixin\<close> are empty in this program (nothing registers a
  hook) and are left out. Dates are natural numbers, 0 standing for \<open>datetime.min\<close>.
\<close>

type_synonym datetime = nat

definition datetime_min :: datetime where
  "datetime_min = 0"

record 'r model =
  col_tenant :: "('r \<Rightarrow> string) option"
  col_shared :: "('r \<Rightarrow> bool) option"
  col_deleted :: "('r \<Rightarrow> datetime option) option"
  col_of :: "string \<Rightarrow> ('r \<Rightarrow> pyval) option"

section \<open>UUID columns\<close>

text \<open>\<open>types.Uuid.process_bind_param\<close> accepts what \<open>uuid.UUID(value, version=4)\<close>
  parses; the ValueError surfaces as SQLAlchemy's StatementError. \<open>UUID\<close> drops the
  prefixes \<open>urn:\<close> and \<open>uuid:\<close>, braces at the ends and hyphens, then wants 32
  characters that \<open>int(_, 16)\<close> reads.\<close>

fun remove_sub :: "nat \<Rightarrow> string \<Rightarrow> string \<Rightarrow> string" where
  "remove_sub skip sub [] = []"
| "remove_sub (Suc k) sub (c # s) = remove_sub k sub s"
| "remove_sub 0 sub (c # s) =
     (if startswith sub (c # s) then remove_sub (length sub - 1) sub s else c # remove_sub 0 sub s)"

definition hex_char :: "char \<Rightarrow> bool" where
  "hex_char c \<longleftrightarrow> digit_char c \<or> (97 \<le> ord c \<and> ord c \<le> 102) \<or> (65 \<le> ord c \<and> ord c \<le> 70)"

definition strip_0x :: "string \<Rightarrow> string" where
  "strip_0x s = (if startswith ''0x'' s \<or> startswith ''0X'' s then drop 2 s else s)"

definition int16_ok :: "string \<Rightarrow> bool" where
  "int16_ok s = (let t = strip s;
       u = (case t of [] \<Rightarrow> [] | c # r \<Rightarrow> if c = CHR ''-'' \<or> c = CHR ''+'' then r else t);
       v = strip_0x u
     in v \<noteq> [] \<and> list_all hex_char v)"

definition strip_braces :: "string \<Rightarrow> string" where
  "strip_braces s = (let b = (\<lambda>c. c = CHR 0x7B \<or> c = CHR 0x7D)
     in rev (dropWhile b (rev (dropWhile b s))))"

definition uuid_ok :: "string \<Rightarrow> bool" where
  "uuid_ok s = (let h = filter (\<lambda>c. c \<noteq> CHR ''-'')
       (strip_braces (remove_sub 0 ''uuid:'' (remove_sub 0 ''urn:'' s)))
     in length h = 32 \<and> int16_ok h)"

definition bind_uuids :: "string list \<Rightarrow> ('s, unit) prog" where
  "bind_uuids ids = (if list_all uuid_ok ids then ret () else raise (Exc (Lib StatementError) []))"

section \<open>Queries\<close>

text \<open>\<open>_model_query\<close>: rows of other tenants are hidden from a context that is no
  admin (unless shared), deleted rows from everyone.\<close>

definition in_scope :: "ctx \<Rightarrow> 'r model \<Rightarrow> 'r \<Rightarrow> bool" where
  "in_scope c M r \<longleftrightarrow>
    (if is_admin c then True else
       (case col_tenant M of
          None \<Rightarrow> True
        | Some ten \<Rightarrow>
           (case col_shared M of
              Some shared \<Rightarrow> Some (ten r) = tenant_id c \<or> shared r
            | None \<Rightarrow> Some (ten r) = tenant_id c)))"

definition not_deleted :: "'r model \<Rightarrow> 'r \<Rightarrow> bool" where
  "not_deleted M r \<longleftrightarrow> (case col_deleted M of None \<Rightarrow> True | Some del \<Rightarrow> del r = Some datetime_min)"

definition visible :: "ctx \<Rightarrow> 'r model \<Rightarrow> 'r \<Rightarrow> bool" where
  "visible c M r \<longleftrightarrow> in_scope c M r \<and> not_deleted M r"

definition model_query :: "ctx \<Rightarrow> 'r model \<Rightarrow> 'r list \<Rightarrow> 'r list" where
  "model_query c M rows = filter (visible c M) rows"

text \<open>\<open>Query.one()\<close>\<close>

definition one :: "'r list \<Rightarrow> exn + 'r" where
  "one rows = (case rows of
     [] \<Rightarrow> Inl (Exc (Lib NoResultFound) [])
   | [r] \<Rightarrow> Inr r
   | _ \<Rightarrow> Inl (Exc (Lib MultipleResultsFound) []))"

definition first :: "'r list \<Rightarrow> 'r option" where
  "first rows = (case rows of [] \<Rightarrow> None | r # _ \<Rightarrow> Some r)"

definition get_by_id :: "ctx \<Rightarrow> 'r model \<Rightarrow> ('r \<Rightarrow> string) \<Rightarrow> 'r list \<Rightarrow> string \<Rightarrow> exn + 'r" where
  "get_by_id c M key rows i =
     (if uuid_ok i then one (filter (\<lambda>r. key r = i) (model_query c M rows))
      else Inl (Exc (Lib StatementError) []))"

text \<open>\<open>_get_by_name\<close> logs and swallows NoResultFound: the caller receives None.\<close>

definition get_by_name :: "ctx \<Rightarrow> 'r model \<Rightarrow> ('r \<Rightarrow> string) \<Rightarrow> 'r list \<Rightarrow> string \<Rightarrow> exn + 'r option" where
  "get_by_name c M name rows n =
     (case one (filter (\<lambda>r. name r = n) (model_query c M rows)) of
        Inr r \<Rightarrow> Inr (Some r)
      | Inl e \<Rightarrow> if exn_class e = Lib NoResultFound then Inr None else Inl e)"

text \<open>\<open>_fields\<close>\<close>

definition fields_of :: "pydict \<Rightarrow> string list option \<Rightarrow> pydict" where
  "fields_of resource wanted =
     (case wanted of
        None \<Rightarrow> resource
      | Some fs \<Rightarrow> if fs \<noteq> [] then filter (\<lambda>(k, v). List.member fs k) resource else resource)"

text \<open>\<open>_get_tenant_id_for_create\<close>: the resource's tenant is \<open>None\<close> when the key is absent.\<close>

definition get_tenant_id_for_create :: "ctx \<Rightarrow> string option \<Rightarrow> exn + string option" where
  "get_tenant_id_for_create c res_tenant =
     (case res_tenant of
        Some t \<Rightarrow>
          (if is_admin c then Inr (Some t)
           else if Some t \<noteq> tenant_id c then
             Inl (Exc (Common AdminRequired)
               [(''reason'', PStr ''Cannot create resource for another tenant'')])
           else Inr (tenant_id c))
      | None \<Rightarrow> Inr (tenant_id c))"

text \<open>\<open>_apply_filters_to_query\<close>: a filter on something that is no column is ignored;
  SQL's \<open>IN\<close> never matches NULL.\<close>

definition sql_in :: "pyval \<Rightarrow> pyval list \<Rightarrow> bool" where
  "sql_in v vals \<longleftrightarrow> v \<noteq> PNone \<and> py_in v vals"

definition apply_filters :: "'r model \<Rightarrow> (string \<times> pyval list) list \<Rightarrow> 'r list \<Rightarrow> 'r list" where
  "apply_filters M filters rows =
     fold (\<lambda>(k, vals) rs. case col_of M k of None \<Rightarrow> rs | Some col \<Rightarrow> filter (\<lambda>r. sql_in (col r) vals) rs)
       filters rows"

text \<open>\<open>_get_collection\<close> without sorting and paging, as the plugins of the program call
  it; \<open>_get_collection_count\<close>.\<close>

definition get_collection :: "ctx \<Rightarrow> 'r model \<Rightarrow> (string \<times> pyval list) list \<Rightarrow> 'r list \<Rightarrow> 'r list" where
  "get_collection c M filters rows = apply_filters M filters (model_query c M rows)"

definition get_collection_count :: "ctx \<Rightarrow> 'r model \<Rightarrow> (string \<times> pyval list) list \<Rightarrow> 'r list \<Rightarrow> nat" where
  "get_collection_count c M filters rows = length (get_collection c M filters rows)"

section \<open>Facts\<close>

lemma set_model_query: "set (model_query c M rows) = {r \<in> set rows. visible c M r}"
  by (simp add: model_query_def)

lemma one_Inr: "one rs = Inr r \<longleftrightarrow> rs = [r]"
  by (cases rs rule: list.exhaust; cases "tl rs") (auto simp: one_def)

lemma one_Nil [simp]: "one [] = Inl (Exc (Lib NoResultFound) [])"
  by (simp add: one_def)

lemma one_single [simp]: "one [r] = Inr r"
  by (simp add: one_def)

lemma get_by_id_Inr:
  "get_by_id c M key rows i = Inr r \<Longrightarrow> r \<in> set rows \<and> key r = i \<and> visible c M r"
proof -
  assume "get_by_id c M key rows i = Inr r"
  then have "filter (\<lambda>r. key r = i) (model_query c M rows) = [r]"
    by (auto simp: get_by_id_def one_Inr split: if_splits)
  then have "r \<in> set (filter (\<lambda>r. key r = i) (model_query c M rows))" by simp
  then show ?thesis by (auto simp: set_model_query)
qed

lemma get_by_id_visible:
  assumes "distinct (map key rows)" and "r \<in> set rows" and "visible c M r" and "uuid_ok (key r)"
  shows "get_by_id c M key rows (key r) = Inr r"
  using filter_key_distinct [OF assms(1,2), of "visible c M"] assms(3,4)
  by (simp add: get_by_id_def model_query_def conj_commute)

lemma get_by_id_absent:
  assumes "uuid_ok i" and "\<And>r. r \<in> set rows \<Longrightarrow> key r = i \<Longrightarrow> \<not> visible c M r"
  shows "get_by_id c M key rows i = Inl (Exc (Lib NoResultFound) [])"
proof -
  have "filter (\<lambda>r. key r = i) (model_query c M rows) = []"
    using assms(2) by (auto simp: filter_empty_conv set_model_query)
  with assms(1) show ?thesis by (simp add: get_by_id_def)
qed

lemma get_by_name_Inr:
  "get_by_name c M name rows n = Inr (Some r) \<Longrightarrow> r \<in> set rows \<and> name r = n \<and> visible c M r"
proof -
  assume "get_by_name c M name rows n = Inr (Some r)"
  then have "filter (\<lambda>r. name r = n) (model_query c M rows) = [r]"
    by (auto simp: get_by_name_def one_Inr split: sum.splits if_splits)
  then have "r \<in> set (filter (\<lambda>r. name r = n) (model_query c M rows))" by simp
  then show ?thesis by (auto simp: set_model_query)
qed

lemma get_by_name_absent:
  assumes "\<And>r. r \<in> set rows \<Longrightarrow> name r = n \<Longrightarrow> \<not> visible c M r"
  shows "get_by_name c M name rows n = Inr None"
proof -
  have "filter (\<lambda>r. name r = n) (model_query c M rows) = []"
    using assms by (auto simp: filter_empty_conv set_model_query)
  then show ?thesis by (simp add: get_by_name_def)
qed

lemma apply_filters_subset: "set (apply_filters M fs rows) \<subseteq> set rows"
  unfolding apply_filters_def
proof (induction fs arbitrary: rows)
  case Nil
  then show ?case by simp
next
  case (Cons f fs)
  obtain k vals where f: "f = (k, vals)" by (cases f)
  show ?case
  proof (cases "col_of M k")
    case None
    then show ?thesis using Cons.IH [of rows] by (simp add: f)
  next
    case (Some col)
    then show ?thesis
      using Cons.IH [of "filter (\<lambda>r. sql_in (col r) vals) rows"] by (auto simp: f)
  qed
qed

lemma get_collection_visible: "r \<in> set (get_collection c M fs rows) \<Longrightarrow> r \<in> set rows \<and> visible c M r"
  using apply_filters_subset [of M fs "model_query c M rows"]
  by (auto simp: get_collection_def set_model_query)

lemma fields_of_keys: "fs \<noteq> [] \<Longrightarrow> fst ` set (fields_of d (Some fs)) = fst ` set d \<inter> set fs"
  by (force simp: fields_of_def)

lemma get_tenant_id_for_create_own:
  "\<not> is_admin c \<Longrightarrow> get_tenant_id_for_create c rt = Inr t \<Longrightarrow> t = tenant_id c"
  by (auto simp: get_tenant_id_for_create_def split: option.splits if_splits)

end
