(* ===== verification/Constants.thy ===== *)
theory Constants
  imports Prelude
begin

text \<open>
  The constants of plugins/common/constants.py. The operational statuses of an MEA or
  a network service are a datatype; \<open>status_str\<close> is the string the code uses.
\<close>

datatype status =
    ACTIVE | DOWN | PENDING_CREATE | PENDING_UPDATE | PENDING_DELETE
  | PENDING_SCALE_IN | PENDING_SCALE_OUT | INACTIVE | DEAD | ERROR

primrec status_str :: "status \<Rightarrow> string" where
  "status_str ACTIVE = ''ACTIVE''"
| "status_str DOWN = ''DOWN''"
| "status_str PENDING_CREATE = ''PENDING_CREATE''"
| "status_str PENDING_UPDATE = ''PENDING_UPDATE''"
| "status_str PENDING_DELETE = ''PENDING_DELETE''"
| "status_str PENDING_SCALE_IN = ''PENDING_SCALE_IN''"
| "status_str PENDING_SCALE_OUT = ''PENDING_SCALE_OUT''"
| "status_str INACTIVE = ''INACTIVE''"
| "status_str DEAD = ''DEAD''"
| "status_str ERROR = ''ERROR''"

definition POLICY_SCALING :: string where
  "POLICY_SCALING = ''tosca.policies.apmec.Scaling''"

definition POLICY_ALARMING :: string where
  "POLICY_ALARMING = ''tosca.policies.apmec.Alarming''"

definition ACTION_SCALE_OUT :: string where "ACTION_SCALE_OUT = ''out''"
definition ACTION_SCALE_IN :: string where "ACTION_SCALE_IN = ''in''"

definition POLICY_ACTIONS :: "(string \<times> string list) list" where
  "POLICY_ACTIONS = [(POLICY_SCALING, [ACTION_SCALE_OUT, ACTION_SCALE_IN])]"

definition DEFAULT_ALARM_ACTIONS :: "string list" where
  "DEFAULT_ALARM_ACTIONS = [''respawn'', ''log'', ''log_and_kill'', ''notify'']"

text \<open>Resource types and event kinds of the event log.\<close>

datatype res_type = RES_TYPE_MEAD | RES_TYPE_NSD | RES_TYPE_NS | RES_TYPE_MEA | RES_TYPE_VIM

datatype evt_type =
    RES_EVT_CREATE | RES_EVT_DELETE | RES_EVT_UPDATE | RES_EVT_MONITOR | RES_EVT_SCALE

definition RES_EVT_NA_STATE :: string where "RES_EVT_NA_STATE = ''Not Applicable''"
definition RES_EVT_ONBOARDED :: string where "RES_EVT_ONBOARDED = ''OnBoarded''"

text \<open>\<open>in_pending_status\<close> of plugins/common/utils.py\<close>

definition in_pending_status :: "status \<Rightarrow> bool" where
  "in_pending_status st \<longleftrightarrow> List.member [PENDING_CREATE, PENDING_UPDATE, PENDING_DELETE] st"

lemma status_str_inj: "status_str a = status_str b \<longleftrightarrow> a = b"
  by (cases a; cases b) simp_all

end
