(* ===== verification/DbSchema.thy ===== *)
theory DbSchema
  imports DbBase Constants
begin

text \<open>
  The tables of db/mem/mem_db.py, db/meo/meo_db.py, db/meo/ns_db.py and
  db/common_services/common_services_db.py, one record per row type, and the
  database state. Inserting checks what the schema declares: UUID columns, primary
  keys, the unique constraints and the foreign keys; storing a changed name or
  deletion time checks the unique constraint again. The clock is read by
  \<open>timeutils.utcnow\<close> and moves only between operations; \<open>uuid_count\<close> is the number
  of identifiers generated so far. A failed transaction restores the tables and
  keeps the clock and the counter.
\<close>

section \<open>Rows\<close>

record mead_row =
  md_id :: string
  md_tenant_id :: string
  md_name :: string
  md_description :: "string option"
  md_mgmt_driver :: "string option"
  md_template_source :: "string option"
  md_created_at :: datetime
  md_updated_at :: "datetime option"
  md_deleted_at :: "datetime option"

record service_type_row =
  st_id :: string
  st_tenant_id :: string
  st_mead_id :: string
  st_service_type :: pyval

record mead_attr_row =
  mda_id :: string
  mda_mead_id :: string
  mda_key :: string
  mda_value :: pyval

record mea_row =
  ma_id :: string
  ma_tenant_id :: string
  ma_name :: string
  ma_mead_id :: string
  ma_description :: "string option"
  ma_instance_id :: "string option"
  ma_mgmt_url :: "string option"
  ma_status :: status
  ma_vim_id :: string
  ma_placement_attr :: pydict
  ma_error_reason :: "string option"
  ma_created_at :: datetime
  ma_updated_at :: "datetime option"
  ma_deleted_at :: "datetime option"

record mea_attr_row =
  maa_id :: string
  maa_mea_id :: string
  maa_key :: string
  maa_value :: pyval

record vim_row =
  vm_id :: string
  vm_type :: string
  vm_tenant_id :: string
  vm_name :: string
  vm_description :: "string option"
  vm_placement_attr :: pydict
  vm_shared :: bool
  vm_is_default :: bool
  vm_status :: string
  vm_created_at :: datetime
  vm_updated_at :: "datetime option"
  vm_deleted_at :: "datetime option"

record vim_auth_row =
  va_id :: string
  va_vim_id :: string
  va_password :: string
  va_auth_url :: string
  va_vim_project :: pydict
  va_auth_cred :: pydict

record nsd_row =
  nd_id :: string
  nd_tenant_id :: string
  nd_name :: string
  nd_description :: "string option"
  nd_meads :: pydict
  nd_template_source :: "string option"
  nd_created_at :: datetime
  nd_updated_at :: "datetime option"
  nd_deleted_at :: "datetime option"

record nsd_attr_row =
  nda_id :: string
  nda_nsd_id :: string
  nda_key :: string
  nda_value :: pyval

record ns_row =
  ns_id :: string
  ns_tenant_id :: string
  ns_nsd_id :: string
  ns_name :: string
  ns_description :: "string option"
  ns_mea_ids :: "pydict option"
  ns_mgmt_urls :: "pydict option"
  ns_status :: status
  ns_vim_id :: string
  ns_error_reason :: "string option"
  ns_created_at :: datetime
  ns_updated_at :: "datetime option"
  ns_deleted_at :: "datetime option"

record event_row =
  ev_resource_id :: string
  ev_resource_state :: string
  ev_resource_type :: res_type
  ev_timestamp :: datetime
  ev_event_type :: evt_type
  ev_event_details :: string

section \<open>The database\<close>

text \<open>What the code takes from oslo.utils: fresh identifiers, the UUID test and the
  masking of the secrets in a dictionary.\<close>

record oslo =
  gen_uuid :: "nat \<Rightarrow> string"
  is_uuid_like :: "string \<Rightarrow> bool"
  mask_dict_password :: "pydict \<Rightarrow> pydict"

record db =
  t_meads :: "mead_row list"
  t_service_types :: "service_type_row list"
  t_mead_attrs :: "mead_attr_row list"
  t_meas :: "mea_row list"
  t_mea_attrs :: "mea_attr_row list"
  t_vims :: "vim_row list"
  t_vim_auths :: "vim_auth_row list"
  t_nsds :: "nsd_row list"
  t_nsd_attrs :: "nsd_attr_row list"
  t_nss :: "ns_row list"
  t_events :: "event_row list"
  clock :: datetime
  uuid_count :: nat

definition rollback :: "'x db_scheme \<Rightarrow> 'x db_scheme \<Rightarrow> 'x db_scheme" where
  "rollback s t = t\<lparr>t_meads := t_meads s, t_service_types := t_service_types s,
     t_mead_attrs := t_mead_attrs s, t_meas := t_meas s, t_mea_attrs := t_mea_attrs s,
     t_vims := t_vims s, t_vim_auths := t_vim_auths s, t_nsds := t_nsds s,
     t_nsd_attrs := t_nsd_attrs s, t_nss := t_nss s, t_events := t_events s\<rparr>"

text \<open>\<open>with context.session.begin(subtransactions=True)\<close>\<close>

definition tx :: "('x db_scheme, 'a) prog \<Rightarrow> ('x db_scheme, 'a) prog" where
  "tx m = atomically rollback m"

definition utcnow :: "('x db_scheme, datetime) prog" where
  "utcnow = gets clock"

definition generate_uuid :: "oslo \<Rightarrow> ('x db_scheme, string) prog" where
  "generate_uuid E = (\<lambda>s. (Inr (gen_uuid E (uuid_count s)), s\<lparr>uuid_count := Suc (uuid_count s)\<rparr>))"

section \<open>Models\<close>

definition str_col :: "('r \<Rightarrow> string) \<Rightarrow> 'r \<Rightarrow> pyval" where
  "str_col f r = PStr (f r)"

definition opt_col :: "('r \<Rightarrow> string option) \<Rightarrow> 'r \<Rightarrow> pyval" where
  "opt_col f r = opt_str (f r)"

definition MEAD :: "mead_row model" where
  "MEAD = \<lparr>col_tenant = Some md_tenant_id, col_shared = None, col_deleted = Some md_deleted_at,
     col_of = map_of [(''id'', str_col md_id), (''tenant_id'', str_col md_tenant_id),
       (''name'', str_col md_name), (''description'', opt_col md_description),
       (''mgmt_driver'', opt_col md_mgmt_driver),
       (''template_source'', opt_col md_template_source)]\<rparr>"

definition MEA :: "mea_row model" where
  "MEA = \<lparr>col_tenant = Some ma_tenant_id, col_shared = None, col_deleted = Some ma_deleted_at,
     col_of = map_of [(''id'', str_col ma_id), (''tenant_id'', str_col ma_tenant_id),
       (''mead_id'', str_col ma_mead_id), (''name'', str_col ma_name),
       (''description'', opt_col ma_description), (''instance_id'', opt_col ma_instance_id),
       (''mgmt_url'', opt_col ma_mgmt_url), (''status'', str_col (status_str \<circ> ma_status)),
       (''vim_id'', str_col ma_vim_id), (''error_reason'', opt_col ma_error_reason)]\<rparr>"

definition MEAAttribute :: "mea_attr_row model" where
  "MEAAttribute = \<lparr>col_tenant = None, col_shared = None, col_deleted = None,
     col_of = map_of [(''id'', str_col maa_id), (''mea_id'', str_col maa_mea_id),
       (''key'', str_col maa_key), (''value'', maa_value)]\<rparr>"

definition Vim :: "vim_row model" where
  "Vim = \<lparr>col_tenant = Some vm_tenant_id, col_shared = Some vm_shared,
     col_deleted = Some vm_deleted_at,
     col_of = map_of [(''id'', str_col vm_id), (''type'', str_col vm_type),
       (''tenant_id'', str_col vm_tenant_id), (''name'', str_col vm_name),
       (''description'', opt_col vm_description), (''status'', str_col vm_status),
       (''shared'', PBool \<circ> vm_shared), (''is_default'', PBool \<circ> vm_is_default)]\<rparr>"

definition VimAuth :: "vim_auth_row model" where
  "VimAuth = \<lparr>col_tenant = None, col_shared = None, col_deleted = None,
     col_of = map_of [(''id'', str_col va_id), (''vim_id'', str_col va_vim_id),
       (''password'', str_col va_password), (''auth_url'', str_col va_auth_url)]\<rparr>"

definition NSD :: "nsd_row model" where
  "NSD = \<lparr>col_tenant = Some nd_tenant_id, col_shared = None, col_deleted = Some nd_deleted_at,
     col_of = map_of [(''id'', str_col nd_id), (''tenant_id'', str_col nd_tenant_id),
       (''name'', str_col nd_name), (''description'', opt_col nd_description),
       (''template_source'', opt_col nd_template_source)]\<rparr>"

definition NS :: "ns_row model" where
  "NS = \<lparr>col_tenant = Some ns_tenant_id, col_shared = None, col_deleted = Some ns_deleted_at,
     col_of = map_of [(''id'', str_col ns_id), (''tenant_id'', str_col ns_tenant_id),
       (''nsd_id'', str_col ns_nsd_id), (''name'', str_col ns_name),
       (''description'', opt_col ns_description), (''vim_id'', str_col ns_vim_id),
       (''status'', str_col (status_str \<circ> ns_status)),
       (''error_reason'', opt_col ns_error_reason)]\<rparr>"

section \<open>Constraints\<close>

definition mead_unique :: "mead_row \<Rightarrow> string \<times> string \<times> datetime option" where
  "mead_unique r = (md_tenant_id r, md_name r, md_deleted_at r)"

definition mea_unique :: "mea_row \<Rightarrow> string \<times> string \<times> datetime option" where
  "mea_unique r = (ma_tenant_id r, ma_name r, ma_deleted_at r)"

definition vim_unique :: "vim_row \<Rightarrow> string \<times> string \<times> datetime option" where
  "vim_unique r = (vm_tenant_id r, vm_name r, vm_deleted_at r)"

text \<open>The unique constraints of NSD and NS, as the model classes declare them, leave
  \<open>deleted_at\<close> out.\<close>

definition nsd_unique :: "nsd_row \<Rightarrow> string \<times> string" where
  "nsd_unique r = (nd_tenant_id r, nd_name r)"

definition ns_unique :: "ns_row \<Rightarrow> string \<times> string" where
  "ns_unique r = (ns_tenant_id r, ns_name r)"

definition duplicate_entry :: "string list \<Rightarrow> exn" where
  "duplicate_entry cols = Exc (Lib DBDuplicateEntry) [(''columns'', PList (map PStr cols))]"

definition reference_error :: exn where
  "reference_error = Exc (Lib DBReferenceError) []"

definition dup_columns :: "string list" where
  "dup_columns = [''tenant_id'', ''name'', ''deleted_at'']"

definition insert_mead :: "mead_row \<Rightarrow> ('x db_scheme, unit) prog" where
  "insert_mead r = thenE (bind_uuids [md_id r]) (\<lambda>s.
     if list_ex (\<lambda>q. md_id q = md_id r \<or> mead_unique q = mead_unique r) (t_meads s)
     then (Inl (duplicate_entry dup_columns), s)
     else (Inr (), s\<lparr>t_meads := t_meads s @ [r]\<rparr>))"

definition insert_service_type :: "service_type_row \<Rightarrow> ('x db_scheme, unit) prog" where
  "insert_service_type r = thenE (bind_uuids [st_id r, st_mead_id r]) (\<lambda>s.
     if list_ex (\<lambda>q. st_id q = st_id r) (t_service_types s)
     then (Inl (duplicate_entry [''id'']), s)
     else if \<not> list_ex (\<lambda>q. md_id q = st_mead_id r) (t_meads s) then (Inl reference_error, s)
     else (Inr (), s\<lparr>t_service_types := t_service_types s @ [r]\<rparr>))"

definition insert_mead_attr :: "mead_attr_row \<Rightarrow> ('x db_scheme, unit) prog" where
  "insert_mead_attr r = thenE (bind_uuids [mda_id r, mda_mead_id r]) (\<lambda>s.
     if list_ex (\<lambda>q. mda_id q = mda_id r) (t_mead_attrs s)
     then (Inl (duplicate_entry [''id'']), s)
     else if \<not> list_ex (\<lambda>q. md_id q = mda_mead_id r) (t_meads s) then (Inl reference_error, s)
     else (Inr (), s\<lparr>t_mead_attrs := t_mead_attrs s @ [r]\<rparr>))"

definition insert_mea :: "mea_row \<Rightarrow> ('x db_scheme, unit) prog" where
  "insert_mea r = thenE (bind_uuids [ma_id r, ma_mead_id r, ma_vim_id r]) (\<lambda>s.
     if list_ex (\<lambda>q. ma_id q = ma_id r \<or> mea_unique q = mea_unique r) (t_meas s)
     then (Inl (duplicate_entry dup_columns), s)
     else if \<not> list_ex (\<lambda>q. md_id q = ma_mead_id r) (t_meads s)
          \<or> \<not> list_ex (\<lambda>q. vm_id q = ma_vim_id r) (t_vims s) then (Inl reference_error, s)
     else (Inr (), s\<lparr>t_meas := t_meas s @ [r]\<rparr>))"

definition insert_mea_attr :: "mea_attr_row \<Rightarrow> ('x db_scheme, unit) prog" where
  "insert_mea_attr r = thenE (bind_uuids [maa_id r, maa_mea_id r]) (\<lambda>s.
     if list_ex (\<lambda>q. maa_id q = maa_id r) (t_mea_attrs s)
     then (Inl (duplicate_entry [''id'']), s)
     else if \<not> list_ex (\<lambda>q. ma_id q = maa_mea_id r) (t_meas s) then (Inl reference_error, s)
     else (Inr (), s\<lparr>t_mea_attrs := t_mea_attrs s @ [r]\<rparr>))"

definition insert_vim :: "vim_row \<Rightarrow> ('x db_scheme, unit) prog" where
  "insert_vim r = thenE (bind_uuids [vm_id r]) (\<lambda>s.
     if list_ex (\<lambda>q. vm_id q = vm_id r \<or> vim_unique q = vim_unique r) (t_vims s)
     then (Inl (duplicate_entry dup_columns), s)
     else (Inr (), s\<lparr>t_vims := t_vims s @ [r]\<rparr>))"

definition insert_vim_auth :: "vim_auth_row \<Rightarrow> ('x db_scheme, unit) prog" where
  "insert_vim_auth r = thenE (bind_uuids [va_id r, va_vim_id r]) (\<lambda>s.
     if list_ex (\<lambda>q. va_id q = va_id r) (t_vim_auths s)
     then (Inl (duplicate_entry [''id'']), s)
     else if \<not> list_ex (\<lambda>q. vm_id q = va_vim_id r) (t_vims s) then (Inl reference_error, s)
     else (Inr (), s\<lparr>t_vim_auths := t_vim_auths s @ [r]\<rparr>))"

definition insert_nsd :: "nsd_row \<Rightarrow> ('x db_scheme, unit) prog" where
  "insert_nsd r = thenE (bind_uuids [nd_id r]) (\<lambda>s.
     if list_ex (\<lambda>q. nd_id q = nd_id r \<or> nsd_unique q = nsd_unique r) (t_nsds s)
     then (Inl (duplicate_entry [''tenant_id'', ''name'']), s)
     else (Inr (), s\<lparr>t_nsds := t_nsds s @ [r]\<rparr>))"

definition insert_nsd_attr :: "nsd_attr_row \<Rightarrow> ('x db_scheme, unit) prog" where
  "insert_nsd_attr r = thenE (bind_uuids [nda_id r, nda_nsd_id r]) (\<lambda>s.
     if list_ex (\<lambda>q. nda_id q = nda_id r) (t_nsd_attrs s)
     then (Inl (duplicate_entry [''id'']), s)
     else if \<not> list_ex (\<lambda>q. nd_id q = nda_nsd_id r) (t_nsds s) then (Inl reference_error, s)
     else (Inr (), s\<lparr>t_nsd_attrs := t_nsd_attrs s @ [r]\<rparr>))"

definition insert_ns :: "ns_row \<Rightarrow> ('x db_scheme, unit) prog" where
  "insert_ns r = thenE (bind_uuids [ns_id r, ns_nsd_id r, ns_vim_id r]) (\<lambda>s.
     if list_ex (\<lambda>q. ns_id q = ns_id r \<or> ns_unique q = ns_unique r) (t_nss s)
     then (Inl (duplicate_entry [''tenant_id'', ''name'']), s)
     else if \<not> list_ex (\<lambda>q. nd_id q = ns_nsd_id r) (t_nsds s)
          \<or> \<not> list_ex (\<lambda>q. vm_id q = ns_vim_id r) (t_vims s) then (Inl reference_error, s)
     else (Inr (), s\<lparr>t_nss := t_nss s @ [r]\<rparr>))"

text \<open>Changing rows: plain columns, and columns under a unique constraint.\<close>

definition update_meas :: "(mea_row \<Rightarrow> bool) \<Rightarrow> (mea_row \<Rightarrow> mea_row) \<Rightarrow> ('x db_scheme, unit) prog" where
  "update_meas P f = modify (\<lambda>s. s\<lparr>t_meas := update_where P f (t_meas s)\<rparr>)"

definition store_meas :: "(mea_row \<Rightarrow> bool) \<Rightarrow> (mea_row \<Rightarrow> mea_row) \<Rightarrow> ('x db_scheme, unit) prog" where
  "store_meas P f = (\<lambda>s. let new = update_where P f (t_meas s) in
     if distinct (map mea_unique new) then (Inr (), s\<lparr>t_meas := new\<rparr>)
     else (Inl (duplicate_entry dup_columns), s))"

definition store_meads :: "(mead_row \<Rightarrow> bool) \<Rightarrow> (mead_row \<Rightarrow> mead_row) \<Rightarrow> ('x db_scheme, unit) prog" where
  "store_meads P f = (\<lambda>s. let new = update_where P f (t_meads s) in
     if distinct (map mead_unique new) then (Inr (), s\<lparr>t_meads := new\<rparr>)
     else (Inl (duplicate_entry dup_columns), s))"

text \<open>Deleting a row that another table references is refused (InnoDB).\<close>

definition delete_meas :: "(mea_row \<Rightarrow> bool) \<Rightarrow> ('x db_scheme, unit) prog" where
  "delete_meas P = (\<lambda>s.
     if list_ex (\<lambda>r. P r \<and> list_ex (\<lambda>a. maa_mea_id a = ma_id r) (t_mea_attrs s)) (t_meas s)
     then (Inl reference_error, s)
     else (Inr (), s\<lparr>t_meas := filter (\<lambda>r. \<not> P r) (t_meas s)\<rparr>))"

definition delete_meads :: "(mead_row \<Rightarrow> bool) \<Rightarrow> ('x db_scheme, unit) prog" where
  "delete_meads P = (\<lambda>s.
     if list_ex (\<lambda>r. P r \<and> (list_ex (\<lambda>a. ma_mead_id a = md_id r) (t_meas s)
           \<or> list_ex (\<lambda>a. st_mead_id a = md_id r) (t_service_types s)
           \<or> list_ex (\<lambda>a. mda_mead_id a = md_id r) (t_mead_attrs s))) (t_meads s)
     then (Inl reference_error, s)
     else (Inr (), s\<lparr>t_meads := filter (\<lambda>r. \<not> P r) (t_meads s)\<rparr>))"

definition store_vims :: "(vim_row \<Rightarrow> bool) \<Rightarrow> (vim_row \<Rightarrow> vim_row) \<Rightarrow> ('x db_scheme, unit) prog" where
  "store_vims P f = (\<lambda>s. let new = update_where P f (t_vims s) in
     if distinct (map vim_unique new) then (Inr (), s\<lparr>t_vims := new\<rparr>)
     else (Inl (duplicate_entry dup_columns), s))"

definition update_vim_auths :: "(vim_auth_row \<Rightarrow> bool) \<Rightarrow> (vim_auth_row \<Rightarrow> vim_auth_row) \<Rightarrow>
    ('x db_scheme, unit) prog" where
  "update_vim_auths P f = modify (\<lambda>s. s\<lparr>t_vim_auths := update_where P f (t_vim_auths s)\<rparr>)"

definition update_nsds :: "(nsd_row \<Rightarrow> bool) \<Rightarrow> (nsd_row \<Rightarrow> nsd_row) \<Rightarrow> ('x db_scheme, unit) prog" where
  "update_nsds P f = modify (\<lambda>s. s\<lparr>t_nsds := update_where P f (t_nsds s)\<rparr>)"

definition update_nss :: "(ns_row \<Rightarrow> bool) \<Rightarrow> (ns_row \<Rightarrow> ns_row) \<Rightarrow> ('x db_scheme, unit) prog" where
  "update_nss P f = modify (\<lambda>s. s\<lparr>t_nss := update_where P f (t_nss s)\<rparr>)"

definition delete_vims :: "(vim_row \<Rightarrow> bool) \<Rightarrow> ('x db_scheme, unit) prog" where
  "delete_vims P = (\<lambda>s.
     if list_ex (\<lambda>r. P r \<and> (list_ex (\<lambda>a. ma_vim_id a = vm_id r) (t_meas s)
           \<or> list_ex (\<lambda>a. ns_vim_id a = vm_id r) (t_nss s)
           \<or> list_ex (\<lambda>a. va_vim_id a = vm_id r) (t_vim_auths s))) (t_vims s)
     then (Inl reference_error, s)
     else (Inr (), s\<lparr>t_vims := filter (\<lambda>r. \<not> P r) (t_vims s)\<rparr>))"

definition delete_nsds :: "(nsd_row \<Rightarrow> bool) \<Rightarrow> ('x db_scheme, unit) prog" where
  "delete_nsds P = (\<lambda>s.
     if list_ex (\<lambda>r. P r \<and> (list_ex (\<lambda>a. ns_nsd_id a = nd_id r) (t_nss s)
           \<or> list_ex (\<lambda>a. nda_nsd_id a = nd_id r) (t_nsd_attrs s))) (t_nsds s)
     then (Inl reference_error, s)
     else (Inr (), s\<lparr>t_nsds := filter (\<lambda>r. \<not> P r) (t_nsds s)\<rparr>))"

definition delete_nss :: "(ns_row \<Rightarrow> bool) \<Rightarrow> ('x db_scheme, unit) prog" where
  "delete_nss P = modify (\<lambda>s. s\<lparr>t_nss := filter (\<lambda>r. \<not> P r) (t_nss s)\<rparr>)"

text \<open>A lookup that may have found nothing: subscripting \<open>None\<close> raises TypeError, an
  attribute of it AttributeError. A NOT NULL column given no value is a database
  error.\<close>

definition row_or :: "lib_exc \<Rightarrow> exn + 'r option \<Rightarrow> exn + 'r" where
  "row_or err r = (case r of Inl e \<Rightarrow> Inl e
     | Inr None \<Rightarrow> Inl (Exc (Lib err) []) | Inr (Some x) \<Rightarrow> Inr x)"

definition not_null :: "'a option \<Rightarrow> exn + 'a" where
  "not_null x = (case x of None \<Rightarrow> Inl (Exc (Lib DBError) []) | Some v \<Rightarrow> Inr v)"

text \<open>\<open>except DBDuplicateEntry as e: raise DuplicateEntity(_type=ty, entry=e.columns)\<close>\<close>

definition as_duplicate :: "string \<Rightarrow> ('s, 'a) prog \<Rightarrow> ('s, 'a) prog" where
  "as_duplicate ty m = catchE m (\<lambda>e. if exn_class e = Lib DBDuplicateEntry
     then raise (Exc (Common DuplicateEntity) ((''_type'', PStr ty) # exn_args e)) else raise e)"

text \<open>\<open>except NoResultFound: raise nf\<close>\<close>

definition when_absent :: "exn \<Rightarrow> exn + 'a \<Rightarrow> exn + 'a" where
  "when_absent nf r = (case r of Inr x \<Rightarrow> Inr x
     | Inl e \<Rightarrow> if exn_class e = Lib NoResultFound then Inl nf else Inl e)"

end
