(* ===== verification/CommonServices.thy ===== *)
theory CommonServices
  imports DbSchema
begin

text \<open>
  The event log of db/common_services/common_services_db_plugin.py. Writing an event
  turns any database error into EventCreationFailureException; reading one by its
  (integer) id, and listing them.
\<close>

definition create_event ::
  "string \<Rightarrow> res_type \<Rightarrow> string \<Rightarrow> evt_type \<Rightarrow> datetime \<Rightarrow> string \<Rightarrow> ('x db_scheme, unit) prog" where
  "create_event res_id res_type res_state evt_type tstamp details =
     catchE (tx (thenE (bind_uuids [res_id]) (modify (\<lambda>s. s\<lparr>t_events := t_events s @
         [\<lparr>ev_resource_id = res_id, ev_resource_state = res_state, ev_resource_type = res_type,
           ev_timestamp = tstamp, ev_event_type = evt_type, ev_event_details = details\<rparr>]\<rparr>))))
       (\<lambda>e. raise (Exc (Cs EventCreationFailureException) [(''error_str'', PStr [])]))"

text \<open>Event ids are assigned by auto-increment: the n-th event has id n.\<close>

definition get_event :: "nat \<Rightarrow> ('x db_scheme, event_row) prog" where
  "get_event i = (\<lambda>s. if 1 \<le> i \<and> i \<le> length (t_events s) then (Inr (t_events s ! (i - 1)), s)
     else (Inl (Exc (Cs EventNotFoundException) [(''evt_id'', PInt (int i))]), s))"

definition get_events :: "('x db_scheme, event_row list) prog" where
  "get_events = gets t_events"

lemma create_event_ok:
  "uuid_ok i \<Longrightarrow> create_event i t st e ts d s = (Inr (), s\<lparr>t_events := t_events s @
     [\<lparr>ev_resource_id = i, ev_resource_state = st, ev_resource_type = t,
       ev_timestamp = ts, ev_event_type = e, ev_event_details = d\<rparr>]\<rparr>)"
  by (simp add: create_event_def tx_def bind_uuids_def catchE_def atomically_def)

lemma create_event_bad:
  "\<not> uuid_ok i \<Longrightarrow> create_event i t st e ts d s =
     (Inl (Exc (Cs EventCreationFailureException) [(''error_str'', PStr [])]), rollback s s)"
  by (simp add: create_event_def tx_def bind_uuids_def catchE_def atomically_def)

lemma rollback_self [simp]: "rollback s s = s"
  by (simp add: rollback_def)

lemma create_event_state:
  "snd (create_event i t st e ts d s) = s \<or>
   (\<exists>ev. ev_resource_id ev = i \<and> ev_event_type ev = e \<and>
      snd (create_event i t st e ts d s) = s\<lparr>t_events := t_events s @ [ev]\<rparr>)"
proof (cases "uuid_ok i")
  case True
  let ?ev = "\<lparr>ev_resource_id = i, ev_resource_state = st, ev_resource_type = t,
       ev_timestamp = ts, ev_event_type = e, ev_event_details = d\<rparr>"
  have "ev_resource_id ?ev = i \<and> ev_event_type ?ev = e \<and>
      snd (create_event i t st e ts d s) = s\<lparr>t_events := t_events s @ [?ev]\<rparr>"
    using True by (simp add: create_event_ok)
  then show ?thesis by blast
next
  case False
  then show ?thesis by (simp add: create_event_bad)
qed

end
