(* ===== verification/MemDb.thy ===== *)
theory MemDb
  imports CommonServices
begin

text \<open>
  The database half of the MEA manager, \<open>MECPluginDb\<close> of db/mem/mem_db.py: MEADs,
  MEAs with their attributes, and the status changes the plugin drives. Requests are
  records (validated by the API before they come here); a dictionary built from a
  row (\<open>_make_mead_dict\<close>, \<open>_make_mea_dict\<close>) is a record too, with \<open>*_json\<close> as its
  rendering. Each operation is an effect on any state that extends the database.
\<close>

section \<open>Requests and answers\<close>

record mead_req =
  dr_tenant_id :: "string option"
  dr_name :: string
  dr_description :: "string option"
  dr_mgmt_driver :: "string option"
  dr_template_source :: "string option"
  dr_attributes :: pydict
  dr_service_types :: pyval

record mea_req =
  ar_tenant_id :: "string option"
  ar_mead_id :: string
  ar_name :: string
  ar_attributes :: pydict
  ar_vim_id :: string
  ar_placement_attr :: pydict

record mead_dict =
  dd_id :: string
  dd_tenant_id :: string
  dd_name :: string
  dd_description :: "string option"
  dd_mgmt_driver :: "string option"
  dd_created_at :: datetime
  dd_updated_at :: "datetime option"
  dd_template_source :: "string option"
  dd_attributes :: pydict
  dd_service_types :: "pyval list"

record mea_dict =
  ad_mead :: mead_dict
  ad_attributes :: pydict
  ad_id :: string
  ad_tenant_id :: string
  ad_name :: string
  ad_description :: "string option"
  ad_instance_id :: "string option"
  ad_vim_id :: string
  ad_placement_attr :: pydict
  ad_mead_id :: string
  ad_status :: status
  ad_mgmt_url :: "string option"
  ad_error_reason :: "string option"
  ad_created_at :: datetime
  ad_updated_at :: "datetime option"

definition opt_time :: "datetime option \<Rightarrow> pyval" where
  "opt_time t = (case t of None \<Rightarrow> PNone | Some n \<Rightarrow> PInt (int n))"

definition mead_json :: "mead_dict \<Rightarrow> pydict" where
  "mead_json d = [(''attributes'', PDict (dd_attributes d)),
     (''service_types'', PList (dd_service_types d)), (''id'', PStr (dd_id d)),
     (''tenant_id'', PStr (dd_tenant_id d)), (''name'', PStr (dd_name d)),
     (''description'', opt_str (dd_description d)),
     (''mgmt_driver'', opt_str (dd_mgmt_driver d)),
     (''created_at'', PInt (int (dd_created_at d))), (''updated_at'', opt_time (dd_updated_at d)),
     (''template_source'', opt_str (dd_template_source d))]"

definition mea_json :: "mea_dict \<Rightarrow> pydict" where
  "mea_json d = [(''mead'', PDict (mead_json (ad_mead d))),
     (''attributes'', PDict (ad_attributes d)), (''id'', PStr (ad_id d)),
     (''tenant_id'', PStr (ad_tenant_id d)), (''name'', PStr (ad_name d)),
     (''description'', opt_str (ad_description d)),
     (''instance_id'', opt_str (ad_instance_id d)), (''vim_id'', PStr (ad_vim_id d)),
     (''placement_attr'', PDict (ad_placement_attr d)), (''mead_id'', PStr (ad_mead_id d)),
     (''status'', PStr (status_str (ad_status d))), (''mgmt_url'', opt_str (ad_mgmt_url d)),
     (''error_reason'', opt_str (ad_error_reason d)),
     (''created_at'', PInt (int (ad_created_at d))), (''updated_at'', opt_time (ad_updated_at d))]"

section \<open>Lookup and rendering\<close>

text \<open>\<open>_get_resource\<close>: by id when the argument looks like a UUID, else by name; only
  the former can raise the not-found error \<open>nf\<close>.\<close>

definition get_resource ::
  "oslo \<Rightarrow> exn \<Rightarrow> ctx \<Rightarrow> 'r model \<Rightarrow> ('r \<Rightarrow> string) \<Rightarrow> ('r \<Rightarrow> string) \<Rightarrow> 'r list \<Rightarrow> string \<Rightarrow> exn + 'r option" where
  "get_resource E nf c M key name rows i =
     when_absent nf (if is_uuid_like E i then map_sum id Some (get_by_id c M key rows i)
       else get_by_name c M name rows i)"

definition mead_not_found :: "string \<Rightarrow> exn" where
  "mead_not_found i = Exc (Mem MEADNotFound) [(''mead_id'', PStr i)]"

definition mea_not_found :: "string \<Rightarrow> exn" where
  "mea_not_found i = Exc (Mem MEANotFound) [(''mea_id'', PStr i)]"

definition get_mead_resource :: "oslo \<Rightarrow> ctx \<Rightarrow> string \<Rightarrow> 'x db_scheme \<Rightarrow> exn + mead_row option" where
  "get_mead_resource E c i s = get_resource E (mead_not_found i) c MEAD md_id md_name (t_meads s) i"

definition get_mea_resource :: "oslo \<Rightarrow> ctx \<Rightarrow> string \<Rightarrow> 'x db_scheme \<Rightarrow> exn + mea_row option" where
  "get_mea_resource E c i s = get_resource E (mea_not_found i) c MEA ma_id ma_name (t_meas s) i"

definition make_attributes_dict :: "(string \<times> pyval) list \<Rightarrow> pydict" where
  "make_attributes_dict rows = dict_update [] rows"

definition mead_attrs :: "'x db_scheme \<Rightarrow> string \<Rightarrow> (string \<times> pyval) list" where
  "mead_attrs s i = map (\<lambda>a. (mda_key a, mda_value a)) (filter (\<lambda>a. mda_mead_id a = i) (t_mead_attrs s))"

definition mea_attrs :: "'x db_scheme \<Rightarrow> string \<Rightarrow> (string \<times> pyval) list" where
  "mea_attrs s i = map (\<lambda>a. (maa_key a, maa_value a)) (filter (\<lambda>a. maa_mea_id a = i) (t_mea_attrs s))"

definition make_service_types_list :: "'x db_scheme \<Rightarrow> string \<Rightarrow> pyval list" where
  "make_service_types_list s i = map st_service_type (filter (\<lambda>t. st_mead_id t = i) (t_service_types s))"

definition make_mead_dict :: "'x db_scheme \<Rightarrow> mead_row \<Rightarrow> mead_dict" where
  "make_mead_dict s r = \<lparr>dd_id = md_id r, dd_tenant_id = md_tenant_id r, dd_name = md_name r,
     dd_description = md_description r, dd_mgmt_driver = md_mgmt_driver r,
     dd_created_at = md_created_at r, dd_updated_at = md_updated_at r,
     dd_template_source = md_template_source r,
     dd_attributes = make_attributes_dict (mead_attrs s (md_id r)),
     dd_service_types = make_service_types_list s (md_id r)\<rparr>"

definition make_mea_dict :: "'x db_scheme \<Rightarrow> mea_row \<Rightarrow> exn + mea_dict" where
  "make_mea_dict s r = (case List.find (\<lambda>d. md_id d = ma_mead_id r) (t_meads s) of
     None \<Rightarrow> Inl (Exc (Lib TypeError) [])
   | Some d \<Rightarrow> Inr \<lparr>ad_mead = make_mead_dict s d,
       ad_attributes = make_attributes_dict (mea_attrs s (ma_id r)),
       ad_id = ma_id r, ad_tenant_id = ma_tenant_id r, ad_name = ma_name r,
       ad_description = ma_description r, ad_instance_id = ma_instance_id r,
       ad_vim_id = ma_vim_id r, ad_placement_attr = ma_placement_attr r,
       ad_mead_id = ma_mead_id r, ad_status = ma_status r, ad_mgmt_url = ma_mgmt_url r,
       ad_error_reason = ma_error_reason r, ad_created_at = ma_created_at r,
       ad_updated_at = ma_updated_at r\<rparr>)"

section \<open>MEADs\<close>

text \<open>\<open>item['service_type']\<close> of an element of the list.\<close>

definition service_type_of :: "pyval \<Rightarrow> exn + pyval" where
  "service_type_of item = (case item of
     PDict d \<Rightarrow> (case map_of d ''service_type'' of
        None \<Rightarrow> Inl (Exc (Lib KeyError) []) | Some v \<Rightarrow> Inr v)
   | _ \<Rightarrow> Inl (Exc (Lib TypeError) []))"

definition create_mead_tx :: "oslo \<Rightarrow> string option \<Rightarrow> mead_req \<Rightarrow> ('x db_scheme, mead_row) prog" where
  "create_mead_tx E tenant req =
     bindE (generate_uuid E) (\<lambda>i. bindE (pureE (not_null tenant)) (\<lambda>ten. bindE utcnow (\<lambda>now.
       let r = \<lparr>md_id = i, md_tenant_id = ten, md_name = dr_name req,
                md_description = dr_description req, md_mgmt_driver = dr_mgmt_driver req,
                md_template_source = (case dr_template_source req of
                    None \<Rightarrow> Some ''onboarded'' | Some t \<Rightarrow> Some t),
                md_created_at = now, md_updated_at = None, md_deleted_at = Some datetime_min\<rparr>
       in thenE (insert_mead r)
         (thenE (forE (dr_attributes req) (\<lambda>(k, v). bindE (generate_uuid E) (\<lambda>j.
             insert_mead_attr \<lparr>mda_id = j, mda_mead_id = i, mda_key = k, mda_value = v\<rparr>)))
         (thenE (case dr_service_types req of
             PList items \<Rightarrow> forE items (\<lambda>item. bindE (pureE (service_type_of item)) (\<lambda>st.
               bindE (generate_uuid E) (\<lambda>j. insert_service_type
                 \<lparr>st_id = j, st_tenant_id = ten, st_mead_id = i, st_service_type = st\<rparr>)))
           | _ \<Rightarrow> raise (Exc (Lib TypeError) []))
         (ret r))))))"

definition is_attr_set :: "pyval \<Rightarrow> bool" where
  "is_attr_set v \<longleftrightarrow> \<not> (v = PNone \<or> v = PNotSpecified)"

definition create_mead :: "oslo \<Rightarrow> ctx \<Rightarrow> mead_req \<Rightarrow> ('x db_scheme, mead_dict) prog" where
  "create_mead E c req =
     bindE (pureE (get_tenant_id_for_create c (dr_tenant_id req))) (\<lambda>tenant.
     if \<not> is_attr_set (dr_service_types req) then raise (Exc (Mem ServiceTypesNotSpecified) [])
     else bindE (as_duplicate ''mead'' (tx (create_mead_tx E tenant req))) (\<lambda>r.
       bindE (gets (\<lambda>s. make_mead_dict s r)) (\<lambda>d.
         thenE (create_event (dd_id d) RES_TYPE_MEAD RES_EVT_ONBOARDED RES_EVT_CREATE
                  (dd_created_at d) [])
           (ret d))))"

text \<open>\<open>ModelBase.update\<close> sets the given columns; the API lets a client change the name
  and the description of a MEAD.\<close>

definition set_mead_column :: "string \<times> pyval \<Rightarrow> mead_row \<Rightarrow> mead_row" where
  "set_mead_column kv r = (case kv of (k, v) \<Rightarrow>
     (case v of
        PStr t \<Rightarrow> if k = ''name'' then r\<lparr>md_name := t\<rparr>
                  else if k = ''description'' then r\<lparr>md_description := Some t\<rparr> else r
      | _ \<Rightarrow> r))"

definition update_mead :: "oslo \<Rightarrow> ctx \<Rightarrow> string \<Rightarrow> pydict \<Rightarrow> ('x db_scheme, mead_dict) prog" where
  "update_mead E c i changes = tx (
     bindE (readE (\<lambda>s. row_or AttributeError (get_mead_resource E c i s))) (\<lambda>r.
     bindE utcnow (\<lambda>now.
     let r' = (fold set_mead_column changes r)\<lparr>md_updated_at := Some now\<rparr> in
     thenE (store_meads (\<lambda>q. md_id q = md_id r) (\<lambda>_. r'))
       (bindE (gets (\<lambda>s. make_mead_dict s r')) (\<lambda>d.
          thenE (create_event (dd_id d) RES_TYPE_MEAD RES_EVT_NA_STATE RES_EVT_UPDATE now [])
            (ret d))))))"

text \<open>\<open>delete_mead\<close>: the in-use test looks at the first MEA that names the MEAD.\<close>

definition mead_in_use :: "'x db_scheme \<Rightarrow> string \<Rightarrow> bool" where
  "mead_in_use s i = (case first (filter (\<lambda>r. ma_mead_id r = i) (t_meas s)) of
     None \<Rightarrow> False | Some r \<Rightarrow> ma_deleted_at r = None)"

definition delete_mead :: "oslo \<Rightarrow> ctx \<Rightarrow> string \<Rightarrow> bool \<Rightarrow> ('x db_scheme, unit) prog" where
  "delete_mead E c i soft_delete = tx (
     thenE (bind_uuids [i])
     (bindE (gets (\<lambda>s. mead_in_use s i)) (\<lambda>in_use.
      if in_use then raise (Exc (Mem MEADInUse) [(''mead_id'', PStr i)])
      else bindE (readE (get_mead_resource E c i)) (\<lambda>found.
        if soft_delete then
          bindE (pureE (row_or AttributeError (Inr found))) (\<lambda>r. bindE utcnow (\<lambda>now.
            thenE (store_meads (\<lambda>q. md_id q = md_id r) (\<lambda>q. q\<lparr>md_deleted_at := Some now\<rparr>))
              (create_event (md_id r) RES_TYPE_MEAD RES_EVT_NA_STATE RES_EVT_DELETE now [])))
        else
          thenE (modify (\<lambda>s. s\<lparr>t_service_types := filter (\<lambda>t. st_mead_id t \<noteq> i) (t_service_types s)\<rparr>))
          (thenE (modify (\<lambda>s. s\<lparr>t_mead_attrs := filter (\<lambda>a. mda_mead_id a \<noteq> i) (t_mead_attrs s)\<rparr>))
          (bindE (pureE (row_or AttributeError (Inr found))) (\<lambda>r.
             delete_meads (\<lambda>q. md_id q = md_id r))))))))"

definition get_mead :: "oslo \<Rightarrow> ctx \<Rightarrow> string \<Rightarrow> ('x db_scheme, mead_dict) prog" where
  "get_mead E c i = readE (\<lambda>s. map_sum id (make_mead_dict s)
     (row_or TypeError (get_mead_resource E c i s)))"

text \<open>\<open>get_meads\<close>: the filter \<open>template_source = all\<close> is dropped. (The first element of
  the filter's list is read; the API never builds an empty list.)\<close>

definition get_meads :: "ctx \<Rightarrow> (string \<times> pyval list) list \<Rightarrow> string list option \<Rightarrow>
    ('x db_scheme, pydict list) prog" where
  "get_meads c filters wanted =
     (let fs = (case map_of filters ''template_source'' of
                  Some (v # _) \<Rightarrow> if v = PStr ''all'' then dict_del ''template_source'' filters else filters
                | _ \<Rightarrow> filters)
      in gets (\<lambda>s. map (\<lambda>r. fields_of (mead_json (make_mead_dict s r)) wanted)
           (get_collection c MEAD fs (t_meads s))))"

definition choose_mead :: "pyval \<Rightarrow> string list \<Rightarrow> ('x db_scheme, mead_dict option) prog" where
  "choose_mead service_type required_attributes = gets (\<lambda>s.
     map_option (make_mead_dict s) (first (filter (\<lambda>r.
        list_ex (\<lambda>t. st_mead_id t = md_id r \<and> py_eq (st_service_type t) service_type) (t_service_types s)
        \<and> list_all (\<lambda>k. list_ex (\<lambda>a. mda_mead_id a = md_id r \<and> mda_key a = k) (t_mead_attrs s))
            required_attributes) (t_meads s))))"

section \<open>Creating an MEA\<close>

definition CREATE_STATES :: "status list" where
  "CREATE_STATES = [PENDING_CREATE, DEAD]"

definition ACTIVE_UPDATE :: "status list" where
  "ACTIVE_UPDATE = [ACTIVE, PENDING_UPDATE]"

definition ACTIVE_UPDATE_ERROR_DEAD :: "status list" where
  "ACTIVE_UPDATE_ERROR_DEAD = [PENDING_CREATE, ACTIVE, PENDING_UPDATE, ERROR, DEAD]"

definition mea_attribute_update_or_create ::
  "oslo \<Rightarrow> ctx \<Rightarrow> string \<Rightarrow> string \<Rightarrow> pyval \<Rightarrow> ('x db_scheme, unit) prog" where
  "mea_attribute_update_or_create E c i k v =
     thenE (bind_uuids [i])
     (bindE (gets (\<lambda>s. first (filter (\<lambda>a. maa_mea_id a = i \<and> maa_key a = k)
               (model_query c MEAAttribute (t_mea_attrs s))))) (\<lambda>arg.
      case arg of
        Some a \<Rightarrow> modify (\<lambda>s. s\<lparr>t_mea_attrs := update_where (\<lambda>b. maa_id b = maa_id a)
                    (\<lambda>b. b\<lparr>maa_value := v\<rparr>) (t_mea_attrs s)\<rparr>)
      | None \<Rightarrow> bindE (generate_uuid E) (\<lambda>j.
          insert_mea_attr \<lparr>maa_id = j, maa_mea_id = i, maa_key = k, maa_value = v\<rparr>)))"

definition create_mea_tx ::
  "oslo \<Rightarrow> ctx \<Rightarrow> string option \<Rightarrow> string \<Rightarrow> mea_req \<Rightarrow> ('x db_scheme, mea_row) prog" where
  "create_mea_tx E c tenant i req =
     bindE (readE (\<lambda>s. row_or AttributeError (get_mead_resource E c (ar_mead_id req) s))) (\<lambda>mead.
     bindE (pureE (not_null tenant)) (\<lambda>ten. bindE utcnow (\<lambda>now.
       let r = \<lparr>ma_id = i, ma_tenant_id = ten, ma_name = ar_name req,
                ma_mead_id = ar_mead_id req, ma_description = md_description mead,
                ma_instance_id = None, ma_mgmt_url = None, ma_status = PENDING_CREATE,
                ma_vim_id = ar_vim_id req, ma_placement_attr = ar_placement_attr req,
                ma_error_reason = None, ma_created_at = now, ma_updated_at = None,
                ma_deleted_at = Some datetime_min\<rparr>
       in thenE (insert_mea r)
         (thenE (forE (ar_attributes req) (\<lambda>(k, v). bindE (generate_uuid E) (\<lambda>j.
             insert_mea_attr \<lparr>maa_id = j, maa_mea_id = i, maa_key = k, maa_value = v\<rparr>)))
         (ret r)))))"

definition mea_event :: "string \<Rightarrow> status \<Rightarrow> evt_type \<Rightarrow> string \<Rightarrow> ('x db_scheme, unit) prog" where
  "mea_event i st evt details = bindE utcnow (\<lambda>now.
     create_event i RES_TYPE_MEA (status_str st) evt now details)"

definition create_mea_pre :: "oslo \<Rightarrow> ctx \<Rightarrow> mea_req \<Rightarrow> ('x db_scheme, mea_dict) prog" where
  "create_mea_pre E c req =
     bindE (pureE (get_tenant_id_for_create c (ar_tenant_id req))) (\<lambda>tenant.
     bindE (generate_uuid E) (\<lambda>i.
     bindE (as_duplicate ''mea'' (tx (create_mea_tx E c tenant i req))) (\<lambda>r.
       thenE (create_event i RES_TYPE_MEA (status_str PENDING_CREATE) RES_EVT_CREATE
                (ma_created_at r) ''MEA UUID assigned.'')
         (readE (\<lambda>s. make_mea_dict s r)))))"

text \<open>The visible MEA with the given id whose status is among \<open>sts\<close>: \<open>.one()\<close> of the
  filtered query, as the raw SQLAlchemy outcome.\<close>

definition mea_rows :: "ctx \<Rightarrow> string \<Rightarrow> (status \<Rightarrow> bool) \<Rightarrow> 'x db_scheme \<Rightarrow> mea_row list" where
  "mea_rows c i ok s = filter (\<lambda>r. ok (ma_status r))
     (filter (\<lambda>r. ma_id r = i) (model_query c MEA (t_meas s)))"

definition one_mea :: "ctx \<Rightarrow> string \<Rightarrow> (status \<Rightarrow> bool) \<Rightarrow> ('x db_scheme, mea_row) prog" where
  "one_mea c i ok = thenE (bind_uuids [i]) (readE (\<lambda>s. one (mea_rows c i ok s)))"

text \<open>Changing the row a query returned (the rows with its id), and all rows of a query.\<close>

definition set_mea :: "mea_row \<Rightarrow> (mea_row \<Rightarrow> mea_row) \<Rightarrow> ('x db_scheme, unit) prog" where
  "set_mea r f = update_meas (\<lambda>q. ma_id q = ma_id r) f"

definition in_query :: "ctx \<Rightarrow> string \<Rightarrow> (status \<Rightarrow> bool) \<Rightarrow> mea_row \<Rightarrow> bool" where
  "in_query c i ok r \<longleftrightarrow> visible c MEA r \<and> ma_id r = i \<and> ok (ma_status r)"

definition store_attributes :: "oslo \<Rightarrow> ctx \<Rightarrow> string \<Rightarrow> pydict \<Rightarrow> ('x db_scheme, unit) prog" where
  "store_attributes E c i attrs = forE attrs (\<lambda>(k, v).
     whenE (\<not> str_in ''vim_auth'' k) (mea_attribute_update_or_create E c i k v))"

text \<open>The text of the event's details interpolates the instance and the URL; it is kept
  as its fixed prefix followed by the two values.\<close>

definition instance_details :: "string option \<Rightarrow> string option \<Rightarrow> string" where
  "instance_details inst url = ''Infra Instance ID created: ''
     @ (case inst of None \<Rightarrow> ''None'' | Some t \<Rightarrow> t) @ '' and Mgmt URL set: ''
     @ (case url of None \<Rightarrow> ''None'' | Some t \<Rightarrow> t)"

definition create_mea_post ::
  "oslo \<Rightarrow> ctx \<Rightarrow> string \<Rightarrow> string option \<Rightarrow> string option \<Rightarrow> mea_dict \<Rightarrow> ('x db_scheme, unit) prog" where
  "create_mea_post E c i inst url d =
     thenE (tx (bindE (one_mea c i (List.member CREATE_STATES)) (\<lambda>r.
        thenE (set_mea r (\<lambda>q. q\<lparr>ma_instance_id := inst, ma_mgmt_url := url\<rparr>))
        (thenE (whenE (inst = None \<or> ad_status d = ERROR) (set_mea r (\<lambda>q. q\<lparr>ma_status := ERROR\<rparr>)))
        (store_attributes E c i (ad_attributes d))))))
     (mea_event (ad_id d) (ad_status d) RES_EVT_CREATE (instance_details inst url))"

definition create_mea_status :: "ctx \<Rightarrow> string \<Rightarrow> status \<Rightarrow> ('x db_scheme, unit) prog" where
  "create_mea_status c i new = tx (
     bindE (one_mea c i (List.member CREATE_STATES)) (\<lambda>r.
       thenE (set_mea r (\<lambda>q. q\<lparr>ma_status := new\<rparr>))
         (mea_event i new RES_EVT_CREATE ''MEA creation completed'')))"

section \<open>Changing the status of an MEA\<close>

text \<open>\<open>_get_mea_db\<close>: the row is locked, its status tested and replaced.\<close>

definition get_mea_db ::
  "ctx \<Rightarrow> string \<Rightarrow> status list \<Rightarrow> status \<Rightarrow> ('x db_scheme, mea_row) prog" where
  "get_mea_db c i current new =
     bindE (thenE (bind_uuids [i]) (readE (\<lambda>s.
       when_absent (mea_not_found i) (one (mea_rows c i (List.member current) s))))) (\<lambda>r.
     if ma_status r = PENDING_UPDATE then raise (Exc (Mem MEAInUse) [(''mea_id'', PStr i)])
     else thenE (set_mea r (\<lambda>q. q\<lparr>ma_status := new\<rparr>)) (ret (r\<lparr>ma_status := new\<rparr>)))"

definition update_mea_scaling_status ::
  "ctx \<Rightarrow> string \<Rightarrow> status list \<Rightarrow> status \<Rightarrow> string option \<Rightarrow> ('x db_scheme, mea_dict) prog" where
  "update_mea_scaling_status c i previous new url =
     bindE (tx (bindE (get_mea_db c i previous new) (\<lambda>r.
        case url of
          Some (u # us) \<Rightarrow> thenE (set_mea r (\<lambda>q. q\<lparr>ma_mgmt_url := url\<rparr>)) (ret (r\<lparr>ma_mgmt_url := url\<rparr>))
        | _ \<Rightarrow> ret r))) (\<lambda>r.
     bindE (readE (\<lambda>s. make_mea_dict s r)) (\<lambda>d.
       thenE (mea_event (ad_id d) (ad_status d) RES_EVT_SCALE []) (ret d)))"

definition update_mea_pre :: "ctx \<Rightarrow> string \<Rightarrow> ('x db_scheme, mea_dict) prog" where
  "update_mea_pre c i =
     bindE (tx (get_mea_db c i ACTIVE_UPDATE PENDING_UPDATE)) (\<lambda>r.
     bindE (readE (\<lambda>s. make_mea_dict s r)) (\<lambda>d.
       thenE (mea_event i (ad_status d) RES_EVT_UPDATE []) (ret d)))"

definition update_mea_post ::
  "oslo \<Rightarrow> ctx \<Rightarrow> string \<Rightarrow> status \<Rightarrow> pydict \<Rightarrow> ('x db_scheme, unit) prog" where
  "update_mea_post E c i new dev_attrs = bindE utcnow (\<lambda>now.
     thenE (tx (thenE (bind_uuids [i])
       (thenE (update_meas (in_query c i (\<lambda>st. st = PENDING_UPDATE))
                (\<lambda>q. q\<lparr>ma_status := new, ma_updated_at := Some now\<rparr>))
       (thenE (modify (\<lambda>s. s\<lparr>t_mea_attrs := filter (\<lambda>a.
                 \<not> (maa_mea_id a = i \<and> \<not> has_key (maa_key a) dev_attrs)) (t_mea_attrs s)\<rparr>))
       (store_attributes E c i dev_attrs)))))
     (create_event i RES_TYPE_MEA (status_str new) RES_EVT_UPDATE now []))"

definition delete_mea_pre :: "ctx \<Rightarrow> string \<Rightarrow> ('x db_scheme, mea_dict) prog" where
  "delete_mea_pre c i =
     bindE (tx (get_mea_db c i ACTIVE_UPDATE_ERROR_DEAD PENDING_DELETE)) (\<lambda>r.
     bindE (readE (\<lambda>s. make_mea_dict s r)) (\<lambda>d.
       thenE (mea_event i (ad_status d) RES_EVT_DELETE ''MEA delete initiated'') (ret d)))"

definition delete_mea_post ::
  "oslo \<Rightarrow> ctx \<Rightarrow> mea_dict \<Rightarrow> bool \<Rightarrow> bool \<Rightarrow> ('x db_scheme, unit) prog" where
  "delete_mea_post E c d error soft_delete =
     (let i = ad_id d; q = in_query c i (\<lambda>st. st = PENDING_DELETE) in
      tx (thenE (bind_uuids [i])
       (if error then
          thenE (update_meas q (\<lambda>r. r\<lparr>ma_status := ERROR\<rparr>))
            (mea_event i ERROR RES_EVT_DELETE ''MEA Delete ERROR'')
        else
          thenE (if soft_delete then bindE utcnow (\<lambda>now.
                   thenE (store_meas q (\<lambda>r. r\<lparr>ma_deleted_at := Some now\<rparr>))
                     (create_event i RES_TYPE_MEA (status_str PENDING_DELETE) RES_EVT_DELETE now
                        ''MEA Delete Complete''))
                 else
                   thenE (modify (\<lambda>s. s\<lparr>t_mea_attrs := filter (\<lambda>a. maa_mea_id a \<noteq> i) (t_mea_attrs s)\<rparr>))
                     (delete_meas q))
            (whenE (dd_template_source (ad_mead d) = Some ''inline'')
               (delete_mead E c (ad_mead_id d) True)))))"

section \<open>The reference operations and the queries\<close>

definition create_mea_ref :: "oslo \<Rightarrow> ctx \<Rightarrow> mea_req \<Rightarrow> ('x db_scheme, mea_dict) prog" where
  "create_mea_ref E c req = bindE (create_mea_pre E c req) (\<lambda>d. bindE (generate_uuid E) (\<lambda>inst.
     let d' = d\<lparr>ad_instance_id := Some inst\<rparr> in
     thenE (create_mea_post E c (ad_id d') (Some inst) None d')
       (thenE (create_mea_status c (ad_id d') ACTIVE) (ret d'))))"

definition update_mea_ref :: "oslo \<Rightarrow> ctx \<Rightarrow> string \<Rightarrow> ('x db_scheme, mea_dict) prog" where
  "update_mea_ref E c i = bindE (update_mea_pre c i) (\<lambda>d.
     thenE (update_mea_post E c i ACTIVE (ad_attributes d)) (ret d))"

definition delete_mea_ref :: "oslo \<Rightarrow> ctx \<Rightarrow> string \<Rightarrow> bool \<Rightarrow> ('x db_scheme, unit) prog" where
  "delete_mea_ref E c i soft_delete = bindE (delete_mea_pre c i) (\<lambda>d.
     delete_mea_post E c d False soft_delete)"

definition get_mea :: "oslo \<Rightarrow> ctx \<Rightarrow> string \<Rightarrow> ('x db_scheme, mea_dict) prog" where
  "get_mea E c i = readE (\<lambda>s. case row_or AttributeError (get_mea_resource E c i s) of
     Inl e \<Rightarrow> Inl e | Inr r \<Rightarrow> make_mea_dict s r)"

text \<open>\<open>get_mea\<close> with the \<open>fields\<close> argument the API passes.\<close>

definition get_mea_fields ::
  "oslo \<Rightarrow> ctx \<Rightarrow> string \<Rightarrow> string list option \<Rightarrow> ('x db_scheme, pydict) prog" where
  "get_mea_fields E c i wanted = bindE (get_mea E c i) (\<lambda>d. ret (fields_of (mea_json d) wanted))"

definition get_meas :: "ctx \<Rightarrow> (string \<times> pyval list) list \<Rightarrow> ('x db_scheme, mea_dict list) prog" where
  "get_meas c filters = bindE (gets (\<lambda>s. get_collection c MEA filters (t_meas s)))
     (mapE (\<lambda>r. readE (\<lambda>s. make_mea_dict s r)))"

definition set_mea_error_status_reason :: "ctx \<Rightarrow> string \<Rightarrow> string option \<Rightarrow> ('x db_scheme, unit) prog" where
  "set_mea_error_status_reason c i reason = tx (thenE (bind_uuids [i])
     (update_meas (in_query c i (\<lambda>_. True)) (\<lambda>r. r\<lparr>ma_error_reason := reason\<rparr>)))"

text \<open>\<open>_mark_mea_status\<close> runs with the admin context and answers whether a row was
  found.\<close>

definition mark_mea_status :: "string \<Rightarrow> status list \<Rightarrow> status \<Rightarrow> ('x db_scheme, bool) prog" where
  "mark_mea_status i exclude new = tx (
     bindE (thenE (bind_uuids [i]) (readE (\<lambda>s.
         case one (mea_rows get_admin_context i (\<lambda>st. \<not> List.member exclude st) s) of
           Inr r \<Rightarrow> Inr (Some r)
         | Inl e \<Rightarrow> if exn_class e = Lib NoResultFound then Inr None else Inl e))) (\<lambda>found.
     case found of
       None \<Rightarrow> ret False
     | Some r \<Rightarrow> thenE (set_mea r (\<lambda>q. q\<lparr>ma_status := new\<rparr>))
         (thenE (mea_event i new RES_EVT_MONITOR []) (ret True))))"

definition mark_mea_error :: "string \<Rightarrow> ('x db_scheme, bool) prog" where
  "mark_mea_error i = mark_mea_status i [DEAD] ERROR"

definition mark_mea_dead :: "string \<Rightarrow> ('x db_scheme, bool) prog" where
  "mark_mea_dead i = mark_mea_status i
     [DOWN, PENDING_CREATE, PENDING_UPDATE, PENDING_DELETE, INACTIVE, ERROR] DEAD"

end
