(* ===== verification/MeoDb.thy ===== *)
theory MeoDb
  imports MemDb
begin

text \<open>
  The VIM table of the orchestrator, \<open>MeoPluginDb\<close> of db/meo/meo_db_plugin.py. A VIM
  has one authentication row, whose password column is kept apart from the
  credential dictionary. \<open>vim_req\<close> is the dictionary the plugin hands over; the
  optional fields of an update are those present in it.
\<close>

record vim_req =
  vr_id :: string
  vr_type :: string
  vr_tenant_id :: "string option"
  vr_name :: string
  vr_description :: "string option"
  vr_placement_attr :: pydict
  vr_is_default :: bool
  vr_status :: string
  vr_auth_url :: string
  vr_vim_project :: pydict
  vr_auth_cred :: pydict

record vim_update =
  vu_name :: "string option"
  vu_description :: "string option"
  vu_is_default :: "bool option"
  vu_placement_attr :: "pydict option"
  vu_auth_cred :: pydict
  vu_vim_project :: pydict

record vim_dict =
  vd_id :: string
  vd_type :: string
  vd_tenant_id :: string
  vd_name :: string
  vd_description :: "string option"
  vd_placement_attr :: pydict
  vd_shared :: bool
  vd_is_default :: bool
  vd_created_at :: datetime
  vd_updated_at :: "datetime option"
  vd_status :: string
  vd_auth_url :: string
  vd_vim_project :: pydict
  vd_auth_cred :: pydict

definition vim_not_found :: "string \<Rightarrow> exn" where
  "vim_not_found i = Exc (Meo VimNotFoundException) [(''vim_id'', PStr i)]"

definition vim_json :: "vim_dict \<Rightarrow> pydict" where
  "vim_json d = [(''id'', PStr (vd_id d)), (''type'', PStr (vd_type d)),
     (''tenant_id'', PStr (vd_tenant_id d)), (''name'', PStr (vd_name d)),
     (''description'', opt_str (vd_description d)), (''placement_attr'', PDict (vd_placement_attr d)),
     (''shared'', PBool (vd_shared d)), (''is_default'', PBool (vd_is_default d)),
     (''created_at'', PInt (int (vd_created_at d))), (''updated_at'', opt_time (vd_updated_at d)),
     (''status'', PStr (vd_status d)), (''auth_url'', PStr (vd_auth_url d)),
     (''vim_project'', PDict (vd_vim_project d)), (''auth_cred'', PDict (vd_auth_cred d))]"

text \<open>\<open>_make_vim_dict\<close>; \<open>vim_auth[0]\<close> of a VIM without one raises IndexError.\<close>

definition make_vim_dict :: "oslo \<Rightarrow> bool \<Rightarrow> 'x db_scheme \<Rightarrow> vim_row \<Rightarrow> exn + vim_dict" where
  "make_vim_dict E mask_password s r =
     (case filter (\<lambda>a. va_vim_id a = vm_id r) (t_vim_auths s) of
        [] \<Rightarrow> Inl (Exc (Lib IndexError) [])
      | a # _ \<Rightarrow>
         (let cred = dict_set ''password'' (PStr (va_password a)) (va_auth_cred a) in
          Inr \<lparr>vd_id = vm_id r, vd_type = vm_type r, vd_tenant_id = vm_tenant_id r,
            vd_name = vm_name r, vd_description = vm_description r,
            vd_placement_attr = vm_placement_attr r, vd_shared = vm_shared r,
            vd_is_default = vm_is_default r, vd_created_at = vm_created_at r,
            vd_updated_at = vm_updated_at r, vd_status = vm_status r,
            vd_auth_url = va_auth_url a, vd_vim_project = va_vim_project a,
            vd_auth_cred = (if mask_password then mask_dict_password E cred else cred)\<rparr>))"

definition get_vim_resource :: "ctx \<Rightarrow> string \<Rightarrow> 'x db_scheme \<Rightarrow> exn + vim_row" where
  "get_vim_resource c i s = when_absent (vim_not_found i) (get_by_id c Vim vm_id (t_vims s) i)"

section \<open>The default VIM\<close>

definition default_vim_row :: "ctx \<Rightarrow> 'x db_scheme \<Rightarrow> exn + vim_row" where
  "default_vim_row c s = one (filter vm_is_default (model_query c Vim (t_vims s)))"

definition get_default_vim :: "oslo \<Rightarrow> ctx \<Rightarrow> ('x db_scheme, vim_dict) prog" where
  "get_default_vim E c = bindE (readE (default_vim_row c)) (\<lambda>r. readE (\<lambda>s. make_vim_dict E False s r))"

definition validate_default_vim :: "ctx \<Rightarrow> bool \<Rightarrow> string option \<Rightarrow> ('x db_scheme, unit) prog" where
  "validate_default_vim c is_default i = readE (\<lambda>s.
     if \<not> is_default then Inr ()
     else (case default_vim_row c s of
        Inl e \<Rightarrow> if exn_class e = Lib NoResultFound then Inr () else Inl e
      | Inr r \<Rightarrow> if i = Some (vm_id r) then Inr ()
          else Inl (Exc (Meo VimDefaultDuplicateException) [(''vim_id'', PStr (vm_id r))])))"

section \<open>Operations\<close>

text \<open>\<open>d.pop('password')\<close> of a string: the value and the rest.\<close>

definition pop_password :: "pydict \<Rightarrow> exn + string \<times> pydict" where
  "pop_password d = (case map_of d ''password'' of
     None \<Rightarrow> Inl (Exc (Lib KeyError) [])
   | Some (PStr p) \<Rightarrow> Inr (p, dict_del ''password'' d)
   | Some _ \<Rightarrow> Inl (Exc (Lib DBError) []))"

definition create_vim_tx :: "oslo \<Rightarrow> vim_req \<Rightarrow> ('x db_scheme, vim_row) prog" where
  "create_vim_tx E req =
     bindE (pureE (not_null (vr_tenant_id req))) (\<lambda>ten. bindE utcnow (\<lambda>now.
     let r = \<lparr>vm_id = vr_id req, vm_type = vr_type req, vm_tenant_id = ten,
              vm_name = vr_name req, vm_description = vr_description req,
              vm_placement_attr = vr_placement_attr req, vm_shared = False,
              vm_is_default = vr_is_default req, vm_status = vr_status req,
              vm_created_at = now, vm_updated_at = None, vm_deleted_at = Some datetime_min\<rparr>
     in thenE (insert_vim r)
       (bindE (generate_uuid E) (\<lambda>j. bindE (pureE (pop_password (vr_auth_cred req))) (\<lambda>(pw, cred).
          thenE (insert_vim_auth \<lparr>va_id = j, va_vim_id = vr_id req, va_password = pw,
              va_auth_url = vr_auth_url req, va_vim_project = vr_vim_project req,
              va_auth_cred = cred\<rparr>)
            (ret r))))))"

definition create_vim :: "oslo \<Rightarrow> ctx \<Rightarrow> vim_req \<Rightarrow> ('x db_scheme, vim_dict) prog" where
  "create_vim E c req = thenE (validate_default_vim c (vr_is_default req) None)
     (bindE (as_duplicate ''vim'' (tx (create_vim_tx E req))) (\<lambda>r.
      bindE (readE (\<lambda>s. make_vim_dict E True s r)) (\<lambda>d.
        thenE (create_event (vd_id d) RES_TYPE_VIM (vd_status d) RES_EVT_CREATE (vd_created_at d) [])
          (ret d))))"

definition delete_vim :: "oslo \<Rightarrow> ctx \<Rightarrow> string \<Rightarrow> bool \<Rightarrow> ('x db_scheme, unit) prog" where
  "delete_vim E c i soft_delete = tx (bindE (readE (get_vim_resource c i)) (\<lambda>r.
     if soft_delete then bindE utcnow (\<lambda>now.
       thenE (store_vims (\<lambda>q. vm_id q = vm_id r) (\<lambda>q. q\<lparr>vm_deleted_at := Some now\<rparr>))
         (create_event (vm_id r) RES_TYPE_VIM (vm_status r) RES_EVT_DELETE now []))
     else
       thenE (modify (\<lambda>s. s\<lparr>t_vim_auths := filter (\<lambda>a. va_vim_id a \<noteq> i) (t_vim_auths s)\<rparr>))
         (delete_vims (\<lambda>q. vm_id q = vm_id r))))"

text \<open>\<open>is_vim_still_in_use\<close>: the rows looked at are those the caller can see.\<close>

definition is_vim_still_in_use :: "ctx \<Rightarrow> string \<Rightarrow> ('x db_scheme, unit) prog" where
  "is_vim_still_in_use c i = tx (thenE (bind_uuids [i]) (readE (\<lambda>s.
     case first (filter (\<lambda>r. ma_vim_id r = i) (model_query c MEA (t_meas s))) of
       None \<Rightarrow> Inr ()
     | Some _ \<Rightarrow> Inl (Exc (Meo VimInUseException) [(''vim_id'', PStr i)]))))"

definition get_vim :: "oslo \<Rightarrow> ctx \<Rightarrow> string \<Rightarrow> bool \<Rightarrow> ('x db_scheme, vim_dict) prog" where
  "get_vim E c i mask_password = readE (\<lambda>s. case get_vim_resource c i s of
     Inl e \<Rightarrow> Inl e | Inr r \<Rightarrow> make_vim_dict E mask_password s r)"

definition get_vims :: "oslo \<Rightarrow> ctx \<Rightarrow> (string \<times> pyval list) list \<Rightarrow> string list option \<Rightarrow>
    ('x db_scheme, pydict list) prog" where
  "get_vims E c filters wanted = bindE (gets (\<lambda>s. get_collection c Vim filters (t_vims s)))
     (mapE (\<lambda>r. readE (\<lambda>s. map_sum id (\<lambda>d. fields_of (vim_json d) wanted) (make_vim_dict E True s r))))"

definition apply_vim_update :: "vim_update \<Rightarrow> vim_row \<Rightarrow> vim_row" where
  "apply_vim_update u r =
     r\<lparr>vm_name := (case vu_name u of None \<Rightarrow> vm_name r | Some n \<Rightarrow> n),
       vm_description := (case vu_description u of None \<Rightarrow> vm_description r | Some d \<Rightarrow> Some d),
       vm_is_default := (case vu_is_default u of None \<Rightarrow> vm_is_default r | Some b \<Rightarrow> b),
       vm_placement_attr := (case vu_placement_attr u of None \<Rightarrow> vm_placement_attr r | Some p \<Rightarrow> p)\<rparr>"

definition update_vim :: "oslo \<Rightarrow> ctx \<Rightarrow> string \<Rightarrow> vim_update \<Rightarrow> ('x db_scheme, vim_dict) prog" where
  "update_vim E c i u =
     thenE (validate_default_vim c (vu_is_default u = Some True) (Some i))
     (thenE (tx (bindE (readE (get_vim_resource c i)) (\<lambda>r.
        thenE (store_vims (\<lambda>q. vm_id q = vm_id r) (apply_vim_update u))
        (bindE (readE (\<lambda>s. when_absent (vim_not_found i)
            (one (filter (\<lambda>a. va_vim_id a = i) (model_query c VimAuth (t_vim_auths s)))))) (\<lambda>a.
         bindE (pureE (pop_password (vu_auth_cred u))) (\<lambda>(pw, cred).
         thenE (update_vim_auths (\<lambda>b. va_id b = va_id a)
             (\<lambda>b. b\<lparr>va_auth_cred := cred, va_password := pw, va_vim_project := vu_vim_project u\<rparr>))
         (bindE utcnow (\<lambda>now.
           thenE (store_vims (\<lambda>q. vm_id q = vm_id r) (\<lambda>q. q\<lparr>vm_updated_at := Some now\<rparr>))
             (create_event (vm_id r) RES_TYPE_VIM (vm_status r) RES_EVT_UPDATE now [])))))))))
     (get_vim E c i True))"

definition update_vim_status :: "oslo \<Rightarrow> ctx \<Rightarrow> string \<Rightarrow> string \<Rightarrow> ('x db_scheme, vim_dict) prog" where
  "update_vim_status E c i st =
     bindE (tx (bindE (readE (get_vim_resource c i)) (\<lambda>r. bindE utcnow (\<lambda>now.
        let f = (\<lambda>q. q\<lparr>vm_status := st, vm_updated_at := Some now\<rparr>) in
        thenE (store_vims (\<lambda>q. vm_id q = vm_id r) f) (ret (f r))))))
     (\<lambda>r. readE (\<lambda>s. make_vim_dict E True s r))"

end
