(* ===== verification/NsDb.thy ===== *)
theory NsDb
  imports MeoDb
begin

text \<open>
  Network service descriptors and network services, \<open>NSPluginDb\<close> of
  db/meo/ns_db.py. The columns \<open>mea_ids\<close> and \<open>mgmt_urls\<close> hold the printed form of a
  dictionary, here the dictionary itself. What the Mistral execution reports is the
  record \<open>mistral_obj\<close>; \<open>literal_eval\<close> parses a Python literal.
\<close>

record nsd_req =
  nr_tenant_id :: "string option"
  nr_name :: string
  nr_description :: "string option"
  nr_template_source :: "string option"
  nr_attributes :: pydict
  nr_meads :: pydict

record ns_req =
  sr_tenant_id :: "string option"
  sr_name :: string
  sr_nsd_id :: string
  sr_vim_id :: string

record nsd_dict =
  nsdd_row :: nsd_row
  nsdd_attributes :: pydict

definition nsd_json :: "nsd_dict \<Rightarrow> pydict" where
  "nsd_json d = (let r = nsdd_row d in
     [(''attributes'', PDict (nsdd_attributes d)), (''id'', PStr (nd_id r)),
      (''tenant_id'', PStr (nd_tenant_id r)), (''name'', PStr (nd_name r)),
      (''description'', opt_str (nd_description r)),
      (''created_at'', PInt (int (nd_created_at r))), (''updated_at'', opt_time (nd_updated_at r)),
      (''meads'', PDict (nd_meads r)), (''template_source'', opt_str (nd_template_source r))])"

definition opt_dict :: "pydict option \<Rightarrow> pyval" where
  "opt_dict x = (case x of None \<Rightarrow> PNone | Some d \<Rightarrow> PDict d)"

definition make_ns_dict :: "ns_row \<Rightarrow> pydict" where
  "make_ns_dict r =
     [(''id'', PStr (ns_id r)), (''tenant_id'', PStr (ns_tenant_id r)),
      (''nsd_id'', PStr (ns_nsd_id r)), (''name'', PStr (ns_name r)),
      (''description'', opt_str (ns_description r)), (''mea_ids'', opt_dict (ns_mea_ids r)),
      (''status'', PStr (status_str (ns_status r))), (''mgmt_urls'', opt_dict (ns_mgmt_urls r)),
      (''error_reason'', opt_str (ns_error_reason r)), (''vim_id'', PStr (ns_vim_id r)),
      (''created_at'', PInt (int (ns_created_at r))), (''updated_at'', opt_time (ns_updated_at r))]"

definition nsd_not_found :: "string \<Rightarrow> exn" where
  "nsd_not_found i = Exc (Ns NSDNotFound) [(''nsd_id'', PStr i)]"

definition ns_not_found :: "string \<Rightarrow> exn" where
  "ns_not_found i = Exc (Ns NSNotFound) [(''ns_id'', PStr i)]"

definition get_nsd_resource :: "ctx \<Rightarrow> string \<Rightarrow> 'x db_scheme \<Rightarrow> exn + nsd_row" where
  "get_nsd_resource c i s = when_absent (nsd_not_found i) (get_by_id c NSD nd_id (t_nsds s) i)"

definition get_ns_resource :: "ctx \<Rightarrow> string \<Rightarrow> 'x db_scheme \<Rightarrow> exn + ns_row" where
  "get_ns_resource c i s = when_absent (ns_not_found i) (get_by_id c NS ns_id (t_nss s) i)"

definition nsd_attrs :: "'x db_scheme \<Rightarrow> string \<Rightarrow> (string \<times> pyval) list" where
  "nsd_attrs s i = map (\<lambda>a. (nda_key a, nda_value a)) (filter (\<lambda>a. nda_nsd_id a = i) (t_nsd_attrs s))"

definition make_nsd_dict :: "'x db_scheme \<Rightarrow> nsd_row \<Rightarrow> nsd_dict" where
  "make_nsd_dict s r = \<lparr>nsdd_row = r, nsdd_attributes = make_attributes_dict (nsd_attrs s (nd_id r))\<rparr>"

definition set_ns :: "ns_row \<Rightarrow> (ns_row \<Rightarrow> ns_row) \<Rightarrow> ('x db_scheme, unit) prog" where
  "set_ns r f = update_nss (\<lambda>q. ns_id q = ns_id r) f"

definition get_ns_db :: "ctx \<Rightarrow> string \<Rightarrow> status list \<Rightarrow> status \<Rightarrow> ('x db_scheme, ns_row) prog" where
  "get_ns_db c i current new = thenE (bind_uuids [i])
     (bindE (readE (\<lambda>s. when_absent (ns_not_found i)
        (one (filter (\<lambda>r. List.member current (ns_status r))
           (filter (\<lambda>r. ns_id r = i) (model_query c NS (t_nss s))))))) (\<lambda>r.
      thenE (set_ns r (\<lambda>q. q\<lparr>ns_status := new\<rparr>)) (ret (r\<lparr>ns_status := new\<rparr>))))"

section \<open>Descriptors\<close>

definition create_nsd_tx :: "oslo \<Rightarrow> string option \<Rightarrow> nsd_req \<Rightarrow> ('x db_scheme, nsd_row) prog" where
  "create_nsd_tx E tenant req =
     bindE (generate_uuid E) (\<lambda>i. bindE (pureE (not_null tenant)) (\<lambda>ten. bindE utcnow (\<lambda>now.
       let r = \<lparr>nd_id = i, nd_tenant_id = ten, nd_name = nr_name req,
                nd_description = nr_description req, nd_meads = nr_meads req,
                nd_template_source = (case nr_template_source req of
                    None \<Rightarrow> Some ''onboarded'' | Some t \<Rightarrow> Some t),
                nd_created_at = now, nd_updated_at = None, nd_deleted_at = Some datetime_min\<rparr>
       in thenE (insert_nsd r)
         (thenE (forE (nr_attributes req) (\<lambda>(k, v). bindE (generate_uuid E) (\<lambda>j.
             insert_nsd_attr \<lparr>nda_id = j, nda_nsd_id = i, nda_key = k, nda_value = v\<rparr>)))
         (ret r)))))"

definition create_nsd :: "oslo \<Rightarrow> ctx \<Rightarrow> nsd_req \<Rightarrow> ('x db_scheme, nsd_dict) prog" where
  "create_nsd E c req =
     bindE (pureE (get_tenant_id_for_create c (nr_tenant_id req))) (\<lambda>tenant.
     bindE (as_duplicate ''nsd'' (tx (create_nsd_tx E tenant req))) (\<lambda>r.
     bindE (gets (\<lambda>s. make_nsd_dict s r)) (\<lambda>d.
       thenE (create_event (nd_id r) RES_TYPE_NSD RES_EVT_ONBOARDED RES_EVT_CREATE (nd_created_at r) [])
         (ret d))))"

definition nsd_in_use :: "'x db_scheme \<Rightarrow> string \<Rightarrow> bool" where
  "nsd_in_use s i = (case first (filter (\<lambda>r. ns_nsd_id r = i) (t_nss s)) of
     None \<Rightarrow> False | Some r \<Rightarrow> ns_deleted_at r = None)"

definition delete_nsd :: "ctx \<Rightarrow> string \<Rightarrow> bool \<Rightarrow> ('x db_scheme, unit) prog" where
  "delete_nsd c i soft_delete = tx (
     thenE (bind_uuids [i])
     (bindE (gets (\<lambda>s. nsd_in_use s i)) (\<lambda>in_use.
      if in_use then raise (Exc (Meo NSDInUse) [(''nsd_id'', PStr i)])
      else bindE (readE (get_nsd_resource c i)) (\<lambda>r.
        if soft_delete then bindE utcnow (\<lambda>now.
          thenE (update_nsds (\<lambda>q. nd_id q = nd_id r) (\<lambda>q. q\<lparr>nd_deleted_at := Some now\<rparr>))
            (create_event (nd_id r) RES_TYPE_NSD RES_EVT_NA_STATE RES_EVT_DELETE now []))
        else
          thenE (modify (\<lambda>s. s\<lparr>t_nsd_attrs := filter (\<lambda>a. nda_nsd_id a \<noteq> i) (t_nsd_attrs s)\<rparr>))
            (delete_nsds (\<lambda>q. nd_id q = nd_id r))))))"

definition get_nsd :: "ctx \<Rightarrow> string \<Rightarrow> ('x db_scheme, nsd_dict) prog" where
  "get_nsd c i = readE (\<lambda>s. map_sum id (make_nsd_dict s) (get_nsd_resource c i s))"

definition get_nsds :: "ctx \<Rightarrow> (string \<times> pyval list) list \<Rightarrow> string list option \<Rightarrow>
    ('x db_scheme, pydict list) prog" where
  "get_nsds c filters wanted =
     (let fs = (case map_of filters ''template_source'' of
                  Some (v # _) \<Rightarrow> if v = PStr ''all'' then dict_del ''template_source'' filters else filters
                | _ \<Rightarrow> filters)
      in gets (\<lambda>s. map (\<lambda>r. fields_of (nsd_json (make_nsd_dict s r)) wanted)
           (get_collection c NSD fs (t_nsds s))))"

section \<open>Services\<close>

definition create_ns_tx ::
  "ctx \<Rightarrow> string option \<Rightarrow> string \<Rightarrow> ns_req \<Rightarrow> ('x db_scheme, ns_row) prog" where
  "create_ns_tx c tenant i req =
     bindE (readE (get_nsd_resource c (sr_nsd_id req))) (\<lambda>nsd.
     bindE (pureE (not_null tenant)) (\<lambda>ten. bindE utcnow (\<lambda>now.
       let r = \<lparr>ns_id = i, ns_tenant_id = ten, ns_nsd_id = sr_nsd_id req, ns_name = sr_name req,
                ns_description = nd_description nsd, ns_mea_ids = None, ns_mgmt_urls = None,
                ns_status = PENDING_CREATE, ns_vim_id = sr_vim_id req, ns_error_reason = None,
                ns_created_at = now, ns_updated_at = None, ns_deleted_at = Some datetime_min\<rparr>
       in thenE (insert_ns r) (ret r))))"

definition create_ns :: "oslo \<Rightarrow> ctx \<Rightarrow> ns_req \<Rightarrow> ('x db_scheme, pydict) prog" where
  "create_ns E c req =
     bindE (pureE (get_tenant_id_for_create c (sr_tenant_id req))) (\<lambda>tenant.
     bindE (generate_uuid E) (\<lambda>i.
     bindE (as_duplicate ''ns'' (tx (create_ns_tx c tenant i req))) (\<lambda>r.
       thenE (create_event i RES_TYPE_NS (status_str PENDING_CREATE) RES_EVT_CREATE
                (ns_created_at r) ''NS UUID assigned.'')
         (ret (make_ns_dict r)))))"

record mistral_obj =
  mo_state :: string
  mo_output :: "exn + (string \<times> string) list"

text \<open>The loop of \<open>create_ns_post\<close> over the instances of each MEAD: the management URL
  is parsed, the id copied; an id missing beside its URL raises KeyError.\<close>

fun collect_instances ::
  "(string \<Rightarrow> exn + pyval) \<Rightarrow> (string \<times> string) list \<Rightarrow> string list \<Rightarrow> pydict \<times> pydict \<Rightarrow> exn + pydict \<times> pydict" where
  "collect_instances literal_eval out [] acc = Inr acc"
| "collect_instances literal_eval out (inst # insts) (urls, ids) =
     (case map_of out (''mgmt_url_'' @ inst) of
        None \<Rightarrow> collect_instances literal_eval out insts (urls, ids)
      | Some u \<Rightarrow>
         (case literal_eval (strip u) of
            Inl e \<Rightarrow> Inl e
          | Inr url \<Rightarrow>
             (case map_of out (''mea_id_'' @ inst) of
                None \<Rightarrow> Inl (Exc (Lib KeyError) [])
              | Some i \<Rightarrow> collect_instances literal_eval out insts
                  (dict_set inst url urls, dict_set inst (PStr i) ids))))"

definition ns_outcome ::
  "(string \<Rightarrow> exn + pyval) \<Rightarrow> mistral_obj \<Rightarrow> (string \<times> string list) list \<Rightarrow> exn + pydict option \<times> pydict option" where
  "ns_outcome literal_eval mo mead_dict =
     (case mo_output mo of
        Inl e \<Rightarrow> Inl e
      | Inr [] \<Rightarrow> Inr (None, None)
      | Inr out \<Rightarrow>
         map_sum id (\<lambda>(urls, ids). (Some ids, Some urls))
           (collect_instances literal_eval out (concat (map snd mead_dict)) ([], [])))"

definition create_ns_post ::
  "(string \<Rightarrow> exn + pyval) \<Rightarrow> ctx \<Rightarrow> string \<Rightarrow> mistral_obj \<Rightarrow> (string \<times> string list) list \<Rightarrow>
   string option \<Rightarrow> ('x db_scheme, pydict) prog" where
  "create_ns_post literal_eval c i mo mead_dict error_reason =
     bindE (pureE (ns_outcome literal_eval mo mead_dict)) (\<lambda>(ids, urls).
     tx (bindE (readE (get_ns_resource c i)) (\<lambda>r. bindE utcnow (\<lambda>now.
       let f = (\<lambda>q. q\<lparr>ns_mea_ids := ids, ns_mgmt_urls := urls,
             ns_status := (if mo_state mo = ''SUCCESS'' then ACTIVE else ERROR),
             ns_error_reason := error_reason, ns_updated_at := Some now\<rparr>)
       in thenE (set_ns r f)
         (thenE (create_event (ns_id r) RES_TYPE_NS RES_EVT_NA_STATE RES_EVT_UPDATE now [])
            (ret (make_ns_dict (f r))))))))"

definition delete_ns :: "ctx \<Rightarrow> string \<Rightarrow> ('x db_scheme, pydict) prog" where
  "delete_ns c i =
     bindE (tx (get_ns_db c i ACTIVE_UPDATE_ERROR_DEAD PENDING_DELETE)) (\<lambda>r. bindE utcnow (\<lambda>now.
       thenE (create_event i RES_TYPE_NS (status_str (ns_status r)) RES_EVT_DELETE now ''NS delete initiated'')
         (ret (make_ns_dict r))))"

definition ns_in_query :: "ctx \<Rightarrow> string \<Rightarrow> ns_row \<Rightarrow> bool" where
  "ns_in_query c i r \<longleftrightarrow> visible c NS r \<and> ns_id r = i \<and> ns_status r = PENDING_DELETE"

definition delete_ns_post ::
  "ctx \<Rightarrow> string \<Rightarrow> mistral_obj option \<Rightarrow> bool \<Rightarrow> ('x db_scheme, unit) prog" where
  "delete_ns_post c i mo soft_delete =
     bindE (readE (get_ns_resource c i)) (\<lambda>ns. bindE utcnow (\<lambda>now.
     tx (thenE (if (case mo of None \<Rightarrow> False | Some m \<Rightarrow> mo_state m = ''ERROR'') then
                  thenE (update_nss (ns_in_query c i) (\<lambda>q. q\<lparr>ns_status := ERROR\<rparr>))
                    (create_event i RES_TYPE_NS (status_str ERROR) RES_EVT_DELETE now ''NS Delete ERROR'')
                else if soft_delete then
                  thenE (update_nss (ns_in_query c i) (\<lambda>q. q\<lparr>ns_deleted_at := Some now\<rparr>))
                    (create_event i RES_TYPE_NS (status_str PENDING_DELETE) RES_EVT_DELETE now ''ns Delete Complete'')
                else delete_nss (ns_in_query c i))
        (bindE (readE (get_nsd_resource c (ns_nsd_id ns))) (\<lambda>nsd.
           whenE (nd_template_source nsd = Some ''inline'') (delete_nsd c (ns_nsd_id ns) True))))))"

definition get_ns :: "ctx \<Rightarrow> string \<Rightarrow> ('x db_scheme, pydict) prog" where
  "get_ns c i = readE (\<lambda>s. map_sum id make_ns_dict (get_ns_resource c i s))"

definition get_nss :: "ctx \<Rightarrow> (string \<times> pyval list) list \<Rightarrow> string list option \<Rightarrow>
    ('x db_scheme, pydict list) prog" where
  "get_nss c filters wanted = gets (\<lambda>s. map (\<lambda>r. fields_of (make_ns_dict r) wanted)
     (get_collection c NS filters (t_nss s)))"

end
