(* ===== verification/DbWf.thy ===== *)
theory DbWf
  imports NsDb
begin

text \<open>
  The integrity of the database: primary keys are distinct, the unique constraints
  hold, every foreign key refers to a row, and no row has a NULL deletion time. The
  primitive inserts, updates and deletes of the schema keep it; through the
  \<open>effect_invariant\<close> locale so does every operation of the three database plugins.
\<close>

section \<open>The invariant\<close>

definition keys_ok :: "'x db_scheme \<Rightarrow> bool" where
  "keys_ok s \<longleftrightarrow>
     distinct (map md_id (t_meads s)) \<and> distinct (map st_id (t_service_types s)) \<and>
     distinct (map mda_id (t_mead_attrs s)) \<and> distinct (map ma_id (t_meas s)) \<and>
     distinct (map maa_id (t_mea_attrs s)) \<and> distinct (map vm_id (t_vims s)) \<and>
     distinct (map va_id (t_vim_auths s)) \<and> distinct (map nd_id (t_nsds s)) \<and>
     distinct (map nda_id (t_nsd_attrs s)) \<and> distinct (map ns_id (t_nss s))"

definition uniques_ok :: "'x db_scheme \<Rightarrow> bool" where
  "uniques_ok s \<longleftrightarrow>
     distinct (map mead_unique (t_meads s)) \<and> distinct (map mea_unique (t_meas s)) \<and>
     distinct (map vim_unique (t_vims s)) \<and> distinct (map nsd_unique (t_nsds s)) \<and>
     distinct (map ns_unique (t_nss s))"

definition refs_ok :: "'x db_scheme \<Rightarrow> bool" where
  "refs_ok s \<longleftrightarrow>
     set (map st_mead_id (t_service_types s)) \<subseteq> set (map md_id (t_meads s)) \<and>
     set (map mda_mead_id (t_mead_attrs s)) \<subseteq> set (map md_id (t_meads s)) \<and>
     set (map ma_mead_id (t_meas s)) \<subseteq> set (map md_id (t_meads s)) \<and>
     set (map ma_vim_id (t_meas s)) \<subseteq> set (map vm_id (t_vims s)) \<and>
     set (map maa_mea_id (t_mea_attrs s)) \<subseteq> set (map ma_id (t_meas s)) \<and>
     set (map va_vim_id (t_vim_auths s)) \<subseteq> set (map vm_id (t_vims s)) \<and>
     set (map nda_nsd_id (t_nsd_attrs s)) \<subseteq> set (map nd_id (t_nsds s)) \<and>
     set (map ns_nsd_id (t_nss s)) \<subseteq> set (map nd_id (t_nsds s)) \<and>
     set (map ns_vim_id (t_nss s)) \<subseteq> set (map vm_id (t_vims s))"

definition dates_ok :: "'x db_scheme \<Rightarrow> bool" where
  "dates_ok s \<longleftrightarrow>
     None \<notin> set (map ma_deleted_at (t_meas s)) \<and> None \<notin> set (map ns_deleted_at (t_nss s))"

definition db_wf :: "'x db_scheme \<Rightarrow> bool" where
  "db_wf s \<longleftrightarrow> keys_ok s \<and> uniques_ok s \<and> refs_ok s \<and> dates_ok s"

lemmas wf_defs = db_wf_def keys_ok_def uniques_ok_def refs_ok_def dates_ok_def

section \<open>The invariant through the effect combinators\<close>

lemma db_wf_rollback: "db_wf (rollback s t) = db_wf s"
  by (simp add: wf_defs rollback_def)

interpretation wf: effect_invariant db_wf rollback
  by unfold_locales (simp add: db_wf_rollback)

abbreviation wf_kept :: "('x db_scheme, 'a) prog \<Rightarrow> bool" where
  "wf_kept m \<equiv> obeys (\<lambda>s t. db_wf s \<longrightarrow> db_wf t) m"

lemma wf_tx: "wf_kept m \<Longrightarrow> wf_kept (tx m)"
  unfolding tx_def by (rule wf.r_atomically)

lemma wf_keptI: "(\<And>s. db_wf s \<Longrightarrow> db_wf (snd (m s))) \<Longrightarrow> wf_kept m"
  by (simp add: obeys_def)

lemma wf_keeps: "keeps db_wf m \<longleftrightarrow> wf_kept m"
  by (rule keeps_obeys)

lemma wf_bind_uuids: "wf_kept (bind_uuids is)"
  by (simp add: bind_uuids_def wf.r_ret wf.r_raise)

lemma wf_utcnow: "wf_kept utcnow"
  by (simp add: utcnow_def wf.r_gets)

lemma wf_generate_uuid: "wf_kept (generate_uuid E)"
  by (rule wf_keptI) (simp add: generate_uuid_def wf_defs)

lemma db_wf_events: "db_wf (s\<lparr>t_events := es\<rparr>) = db_wf s"
  by (simp add: wf_defs)

lemma wf_create_event: "wf_kept (create_event i t st e ts d)"
proof (rule wf_keptI)
  fix s :: "'x db_scheme" assume s: "db_wf s"
  let ?t = "snd (create_event i t st e ts d s)"
  have "?t = s \<or> (\<exists>es. ?t = s\<lparr>t_events := es\<rparr>)"
    using create_event_state [of i t st e ts d s] by blast
  then show "db_wf ?t"
  proof
    assume "?t = s"
    with s show ?thesis by (simp only:)
  next
    assume "\<exists>es. ?t = s\<lparr>t_events := es\<rparr>"
    then obtain es where "?t = s\<lparr>t_events := es\<rparr>" by blast
    with s show ?thesis by (simp only: db_wf_events)
  qed
qed

section \<open>Inserts\<close>

lemma list_ex_key: "list_ex (\<lambda>q. k q = x) xs \<longleftrightarrow> x \<in> k ` set xs"
  by (auto simp: list_ex_iff)

lemma list_ex_key2:
  "list_ex (\<lambda>q. k q = x \<or> u q = y) xs \<longleftrightarrow> x \<in> k ` set xs \<or> y \<in> u ` set xs"
  by (auto simp: list_ex_iff)

lemmas wf_insert = list_ex_key list_ex_key2 subset_insertI2

lemma wf_insert_mead: "wf_kept (insert_mead r)"
  unfolding insert_mead_def
  by (intro wf.r_thenE wf_bind_uuids, rule wf_keptI) (simp add: wf_defs wf_insert split: if_split)

lemma wf_insert_service_type: "wf_kept (insert_service_type r)"
  unfolding insert_service_type_def
  by (intro wf.r_thenE wf_bind_uuids, rule wf_keptI) (simp add: wf_defs wf_insert split: if_split)

lemma wf_insert_mead_attr: "wf_kept (insert_mead_attr r)"
  unfolding insert_mead_attr_def
  by (intro wf.r_thenE wf_bind_uuids, rule wf_keptI) (simp add: wf_defs wf_insert split: if_split)

lemma wf_insert_mea: "ma_deleted_at r = Some d \<Longrightarrow> wf_kept (insert_mea r)"
  unfolding insert_mea_def
  by (intro wf.r_thenE wf_bind_uuids, rule wf_keptI) (simp add: wf_defs wf_insert split: if_split)

lemma wf_insert_mea_attr: "wf_kept (insert_mea_attr r)"
  unfolding insert_mea_attr_def
  by (intro wf.r_thenE wf_bind_uuids, rule wf_keptI) (simp add: wf_defs wf_insert split: if_split)

lemma wf_insert_vim: "wf_kept (insert_vim r)"
  unfolding insert_vim_def
  by (intro wf.r_thenE wf_bind_uuids, rule wf_keptI) (simp add: wf_defs wf_insert split: if_split)

lemma wf_insert_vim_auth: "wf_kept (insert_vim_auth r)"
  unfolding insert_vim_auth_def
  by (intro wf.r_thenE wf_bind_uuids, rule wf_keptI) (simp add: wf_defs wf_insert split: if_split)

lemma wf_insert_nsd: "wf_kept (insert_nsd r)"
  unfolding insert_nsd_def
  by (intro wf.r_thenE wf_bind_uuids, rule wf_keptI) (simp add: wf_defs wf_insert split: if_split)

lemma wf_insert_nsd_attr: "wf_kept (insert_nsd_attr r)"
  unfolding insert_nsd_attr_def
  by (intro wf.r_thenE wf_bind_uuids, rule wf_keptI) (simp add: wf_defs wf_insert split: if_split)

lemma wf_insert_ns: "ns_deleted_at r = Some d \<Longrightarrow> wf_kept (insert_ns r)"
  unfolding insert_ns_def
  by (intro wf.r_thenE wf_bind_uuids, rule wf_keptI) (simp add: wf_defs wf_insert split: if_split)

section \<open>Updates and deletes\<close>

lemma image_update_where:
  "(\<And>x. P x \<Longrightarrow> g (f x) = g x) \<Longrightarrow> g ` set (update_where P f xs) = g ` set xs"
  using map_update_where_frame [of P g f xs] by (metis set_map)

lemma absent_update_where:
  assumes "\<And>x. P x \<Longrightarrow> g x \<noteq> y \<Longrightarrow> g (f x) \<noteq> y" and "y \<notin> g ` set xs"
  shows "y \<notin> g ` set (update_where P f xs)"
proof
  assume "y \<in> g ` set (update_where P f xs)"
  then obtain x where x: "x \<in> set xs" and y: "y = g (if P x then f x else x)"
    by (auto simp: update_where_def)
  from x assms(2) have "g x \<noteq> y" by auto
  with y assms(1) [of x] show False by (cases "P x") auto
qed

lemma wf_store_meas:
  assumes "\<And>q. P q \<Longrightarrow> ma_id (f q) = ma_id q" and "\<And>q. P q \<Longrightarrow> ma_mead_id (f q) = ma_mead_id q"
    and "\<And>q. P q \<Longrightarrow> ma_vim_id (f q) = ma_vim_id q"
    and "\<And>q. P q \<Longrightarrow> ma_deleted_at q \<noteq> None \<Longrightarrow> ma_deleted_at (f q) \<noteq> None"
  shows "wf_kept (store_meas P f)"
proof (rule wf_keptI)
  fix s :: "'x db_scheme" assume s: "db_wf s"
  have "None \<notin> ma_deleted_at ` set (update_where P f (t_meas s))"
    by (rule absent_update_where) (use assms(4) s in \<open>simp_all add: wf_defs\<close>)
  with s show "db_wf (snd (store_meas P f s))"
    by (simp add: store_meas_def Let_def wf_defs assms(1-3) map_update_where_frame
        image_update_where split: if_split)
qed

lemma wf_update_meas:
  assumes "\<And>q. P q \<Longrightarrow> ma_id (f q) = ma_id q" and "\<And>q. P q \<Longrightarrow> ma_mead_id (f q) = ma_mead_id q"
    and "\<And>q. P q \<Longrightarrow> ma_vim_id (f q) = ma_vim_id q" and "\<And>q. P q \<Longrightarrow> mea_unique (f q) = mea_unique q"
  shows "wf_kept (update_meas P f)"
proof (rule wf_keptI)
  fix s :: "'x db_scheme" assume s: "db_wf s"
  have d: "\<And>q. P q \<Longrightarrow> ma_deleted_at (f q) = ma_deleted_at q"
    using assms(4) by (simp add: mea_unique_def)
  from s show "db_wf (snd (update_meas P f s))"
    by (simp add: update_meas_def wf_defs assms d map_update_where_frame image_update_where)
qed

lemma wf_store_meads:
  assumes "\<And>q. P q \<Longrightarrow> md_id (f q) = md_id q"
  shows "wf_kept (store_meads P f)"
  by (rule wf_keptI) (simp add: store_meads_def Let_def wf_defs assms map_update_where_frame
      image_update_where split: if_split)

lemma wf_store_vims:
  assumes "\<And>q. P q \<Longrightarrow> vm_id (f q) = vm_id q"
  shows "wf_kept (store_vims P f)"
  by (rule wf_keptI) (simp add: store_vims_def Let_def wf_defs assms map_update_where_frame
      image_update_where split: if_split)

lemma wf_update_vim_auths:
  assumes "\<And>q. P q \<Longrightarrow> va_id (f q) = va_id q" and "\<And>q. P q \<Longrightarrow> va_vim_id (f q) = va_vim_id q"
  shows "wf_kept (update_vim_auths P f)"
  by (rule wf_keptI) (simp add: update_vim_auths_def wf_defs assms map_update_where_frame
      image_update_where)

lemma wf_update_nsds:
  assumes "\<And>q. P q \<Longrightarrow> nd_id (f q) = nd_id q" and "\<And>q. P q \<Longrightarrow> nsd_unique (f q) = nsd_unique q"
  shows "wf_kept (update_nsds P f)"
  by (rule wf_keptI) (simp add: update_nsds_def wf_defs assms map_update_where_frame
      image_update_where)

lemma wf_update_nss:
  assumes "\<And>q. P q \<Longrightarrow> ns_id (f q) = ns_id q" and "\<And>q. P q \<Longrightarrow> ns_unique (f q) = ns_unique q"
    and "\<And>q. P q \<Longrightarrow> ns_nsd_id (f q) = ns_nsd_id q" and "\<And>q. P q \<Longrightarrow> ns_vim_id (f q) = ns_vim_id q"
    and "\<And>q. P q \<Longrightarrow> ns_deleted_at q \<noteq> None \<Longrightarrow> ns_deleted_at (f q) \<noteq> None"
  shows "wf_kept (update_nss P f)"
proof (rule wf_keptI)
  fix s :: "'x db_scheme" assume s: "db_wf s"
  have "None \<notin> ns_deleted_at ` set (update_where P f (t_nss s))"
    by (rule absent_update_where) (use assms(5) s in \<open>simp_all add: wf_defs\<close>)
  with s show "db_wf (snd (update_nss P f s))"
    by (simp add: update_nss_def wf_defs assms(1-4) map_update_where_frame image_update_where)
qed

text \<open>Deleting the rows of a query: no reference is left dangling when the rows that
  refer to one of them are gone or were tested for.\<close>

lemma refs_filter:
  assumes "A \<subseteq> k ` set xs" and "\<And>x. x \<in> set xs \<Longrightarrow> P x \<Longrightarrow> k x \<notin> A"
  shows "A \<subseteq> k ` {x \<in> set xs. \<not> P x}"
  using assms by blast

lemma image_filter_subset: "k ` {x \<in> S. Q x} \<subseteq> B" if "k ` S \<subseteq> B"
  using that by blast

lemma list_ex_ref:
  "list_ex (\<lambda>r. P r \<and> list_ex (\<lambda>a. k a = g r) as) rs \<longleftrightarrow> (\<exists>r \<in> set rs. P r \<and> g r \<in> k ` set as)"
  unfolding list_ex_key by (simp add: list_ex_iff)

lemma wf_delete_meas: "wf_kept (delete_meas P)"
proof (rule wf_keptI)
  fix s :: "'x db_scheme" assume s: "db_wf s"
  show "db_wf (snd (delete_meas P s))"
  proof (cases "\<exists>r \<in> set (t_meas s). P r \<and> ma_id r \<in> maa_mea_id ` set (t_mea_attrs s)")
    case True
    with s show ?thesis by (simp add: delete_meas_def list_ex_ref)
  next
    case False
    then have "maa_mea_id ` set (t_mea_attrs s) \<subseteq> ma_id ` {r \<in> set (t_meas s). \<not> P r}"
      by (intro refs_filter) (use s in \<open>auto simp: wf_defs\<close>)
    with False s show ?thesis
      by (simp add: delete_meas_def list_ex_ref wf_defs distinct_map_filter
          image_filter_subset) blast
  qed
qed

lemma wf_delete_meads: "wf_kept (delete_meads P)"
proof (rule wf_keptI)
  fix s :: "'x db_scheme" assume s: "db_wf s"
  let ?refs = "ma_mead_id ` set (t_meas s) \<union> st_mead_id ` set (t_service_types s)
      \<union> mda_mead_id ` set (t_mead_attrs s)"
  have test: "list_ex (\<lambda>r. P r \<and> (list_ex (\<lambda>a. ma_mead_id a = md_id r) (t_meas s)
           \<or> list_ex (\<lambda>a. st_mead_id a = md_id r) (t_service_types s)
           \<or> list_ex (\<lambda>a. mda_mead_id a = md_id r) (t_mead_attrs s))) (t_meads s)
      \<longleftrightarrow> (\<exists>r \<in> set (t_meads s). P r \<and> md_id r \<in> ?refs)"
    unfolding list_ex_key by (simp add: list_ex_iff)
  show "db_wf (snd (delete_meads P s))"
  proof (cases "\<exists>r \<in> set (t_meads s). P r \<and> md_id r \<in> ?refs")
    case True
    with s show ?thesis by (simp only: delete_meads_def test if_True snd_conv)
  next
    case False
    then have "?refs \<subseteq> md_id ` {r \<in> set (t_meads s). \<not> P r}"
      by (intro refs_filter) (use s in \<open>auto simp: wf_defs\<close>)
    with s have "db_wf (s\<lparr>t_meads := filter (\<lambda>r. \<not> P r) (t_meads s)\<rparr>)"
      by (simp add: wf_defs distinct_map_filter)
    with False show ?thesis by (simp only: delete_meads_def test if_False snd_conv)
  qed
qed

lemma wf_delete_vims: "wf_kept (delete_vims P)"
proof (rule wf_keptI)
  fix s :: "'x db_scheme" assume s: "db_wf s"
  let ?refs = "ma_vim_id ` set (t_meas s) \<union> ns_vim_id ` set (t_nss s)
      \<union> va_vim_id ` set (t_vim_auths s)"
  have test: "list_ex (\<lambda>r. P r \<and> (list_ex (\<lambda>a. ma_vim_id a = vm_id r) (t_meas s)
           \<or> list_ex (\<lambda>a. ns_vim_id a = vm_id r) (t_nss s)
           \<or> list_ex (\<lambda>a. va_vim_id a = vm_id r) (t_vim_auths s))) (t_vims s)
      \<longleftrightarrow> (\<exists>r \<in> set (t_vims s). P r \<and> vm_id r \<in> ?refs)"
    unfolding list_ex_key by (simp add: list_ex_iff)
  show "db_wf (snd (delete_vims P s))"
  proof (cases "\<exists>r \<in> set (t_vims s). P r \<and> vm_id r \<in> ?refs")
    case True
    with s show ?thesis by (simp only: delete_vims_def test if_True snd_conv)
  next
    case False
    then have "?refs \<subseteq> vm_id ` {r \<in> set (t_vims s). \<not> P r}"
      by (intro refs_filter) (use s in \<open>auto simp: wf_defs\<close>)
    with s have "db_wf (s\<lparr>t_vims := filter (\<lambda>r. \<not> P r) (t_vims s)\<rparr>)"
      by (simp add: wf_defs distinct_map_filter)
    with False show ?thesis by (simp only: delete_vims_def test if_False snd_conv)
  qed
qed

lemma wf_delete_nsds: "wf_kept (delete_nsds P)"
proof (rule wf_keptI)
  fix s :: "'x db_scheme" assume s: "db_wf s"
  let ?refs = "ns_nsd_id ` set (t_nss s) \<union> nda_nsd_id ` set (t_nsd_attrs s)"
  have test: "list_ex (\<lambda>r. P r \<and> (list_ex (\<lambda>a. ns_nsd_id a = nd_id r) (t_nss s)
           \<or> list_ex (\<lambda>a. nda_nsd_id a = nd_id r) (t_nsd_attrs s))) (t_nsds s)
      \<longleftrightarrow> (\<exists>r \<in> set (t_nsds s). P r \<and> nd_id r \<in> ?refs)"
    unfolding list_ex_key by (simp add: list_ex_iff)
  show "db_wf (snd (delete_nsds P s))"
  proof (cases "\<exists>r \<in> set (t_nsds s). P r \<and> nd_id r \<in> ?refs")
    case True
    with s show ?thesis by (simp only: delete_nsds_def test if_True snd_conv)
  next
    case False
    then have "?refs \<subseteq> nd_id ` {r \<in> set (t_nsds s). \<not> P r}"
      by (intro refs_filter) (use s in \<open>auto simp: wf_defs\<close>)
    with s have "db_wf (s\<lparr>t_nsds := filter (\<lambda>r. \<not> P r) (t_nsds s)\<rparr>)"
      by (simp add: wf_defs distinct_map_filter)
    with False show ?thesis by (simp only: delete_nsds_def test if_False snd_conv)
  qed
qed

lemma wf_delete_nss: "wf_kept (delete_nss P)"
  by (rule wf_keptI) (auto simp: delete_nss_def wf_defs distinct_map_filter)

lemma wf_drop_service_types:
  "wf_kept (modify (\<lambda>s. s\<lparr>t_service_types := filter P (t_service_types s)\<rparr>))"
  by (rule wf_keptI) (simp add: wf_defs distinct_map_filter image_filter_subset)

lemma wf_drop_mead_attrs: "wf_kept (modify (\<lambda>s. s\<lparr>t_mead_attrs := filter P (t_mead_attrs s)\<rparr>))"
  by (rule wf_keptI) (simp add: wf_defs distinct_map_filter image_filter_subset)

lemma wf_drop_mea_attrs: "wf_kept (modify (\<lambda>s. s\<lparr>t_mea_attrs := filter P (t_mea_attrs s)\<rparr>))"
  by (rule wf_keptI) (simp add: wf_defs distinct_map_filter image_filter_subset)

lemma wf_drop_nsd_attrs: "wf_kept (modify (\<lambda>s. s\<lparr>t_nsd_attrs := filter P (t_nsd_attrs s)\<rparr>))"
  by (rule wf_keptI) (simp add: wf_defs distinct_map_filter image_filter_subset)

lemma wf_drop_vim_auths: "wf_kept (modify (\<lambda>s. s\<lparr>t_vim_auths := filter P (t_vim_auths s)\<rparr>))"
  by (rule wf_keptI) (simp add: wf_defs distinct_map_filter image_filter_subset)

lemma wf_set_mea_attr: "wf_kept (modify (\<lambda>s. s\<lparr>t_mea_attrs :=
    update_where P (\<lambda>b. b\<lparr>maa_value := v\<rparr>) (t_mea_attrs s)\<rparr>))"
  by (rule wf_keptI) (simp add: wf_defs map_update_where_frame image_update_where)

end
