(* ===== verification/DbOpsWf.thy ===== *)
theory DbOpsWf
  imports DbWf
begin

text \<open>
  Every operation of the three database plugins keeps the integrity of the database
  (\<open>db_wf\<close>), whatever its outcome.
\<close>

lemmas wf_prims = wf_tx wf_bind_uuids wf_utcnow wf_generate_uuid wf_create_event
  wf_insert_mead wf_insert_service_type wf_insert_mead_attr wf_insert_mea_attr wf_insert_vim
  wf_insert_vim_auth wf_insert_nsd wf_insert_nsd_attr wf_delete_meads wf_delete_vims
  wf_delete_nsds wf_delete_meas wf_delete_nss wf_drop_service_types wf_drop_mead_attrs
  wf_drop_mea_attrs wf_drop_nsd_attrs wf_drop_vim_auths wf_set_mea_attr

lemmas wf_intros = wf.r_intros wf_prims

lemma wf_if: "wf_kept a \<Longrightarrow> wf_kept b \<Longrightarrow> wf_kept (if P then a else b)"
  by simp

lemma wf_as_duplicate: "wf_kept m \<Longrightarrow> wf_kept (as_duplicate ty m)"
  unfolding as_duplicate_def by (intro wf_intros wf_if)

section \<open>MEADs and MEAs\<close>

lemma wf_create_mead_tx: "wf_kept (create_mead_tx E t req)"
  unfolding create_mead_tx_def Let_def
  by (intro wf_intros) (auto intro!: wf_intros split: pyval.splits prod.splits)

lemma wf_create_mead: "wf_kept (create_mead E c req)"
  unfolding create_mead_def by (intro wf_intros wf_if wf_as_duplicate wf_create_mead_tx)

lemma set_mead_columns_id: "md_id (fold set_mead_column kvs r) = md_id r"
  by (induction kvs arbitrary: r) (auto simp: set_mead_column_def split: prod.splits pyval.splits)

lemma wf_update_mead: "wf_kept (update_mead E c i changes)"
  unfolding update_mead_def Let_def
  by (intro wf_intros wf_store_meads) (simp add: set_mead_columns_id)

lemma wf_delete_mead: "wf_kept (delete_mead E c i soft)"
  unfolding delete_mead_def
  by (intro wf_intros wf_if wf_store_meads) simp

lemma wf_mea_attribute: "wf_kept (mea_attribute_update_or_create E c i k v)"
  unfolding mea_attribute_update_or_create_def
  by (intro wf_intros) (auto intro!: wf_intros split: option.splits)

lemma wf_create_mea_pre: "wf_kept (create_mea_pre E c req)"
  unfolding create_mea_pre_def create_mea_tx_def Let_def
  by (intro wf_intros wf_as_duplicate)
     (auto intro!: wf_intros wf_insert_mea split: prod.splits)

lemma wf_mea_event: "wf_kept (mea_event i st e d)"
  unfolding mea_event_def by (intro wf_intros)

lemma wf_store_attributes: "wf_kept (store_attributes E c i attrs)"
  unfolding store_attributes_def
  by (intro wf_intros) (auto intro!: wf_intros wf_mea_attribute split: prod.splits)

lemma wf_one_mea: "wf_kept (one_mea c i ok)"
  unfolding one_mea_def by (intro wf_intros)

lemma wf_set_mea:
  assumes "\<And>q. ma_id (f q) = ma_id q" and "\<And>q. ma_mead_id (f q) = ma_mead_id q"
    and "\<And>q. ma_vim_id (f q) = ma_vim_id q" and "\<And>q. mea_unique (f q) = mea_unique q"
  shows "wf_kept (set_mea r f)"
  unfolding set_mea_def by (rule wf_update_meas) (simp_all add: assms)

lemmas wf_mea_parts = wf_set_mea wf_one_mea wf_mea_event wf_store_attributes

lemma wf_create_mea_post: "wf_kept (create_mea_post E c i inst url d)"
  unfolding create_mea_post_def
  by (intro wf_intros wf_mea_parts) (simp_all add: mea_unique_def)

lemma wf_create_mea_status: "wf_kept (create_mea_status c i new)"
  unfolding create_mea_status_def
  by (intro wf_intros wf_mea_parts) (simp_all add: mea_unique_def)

lemma wf_get_mea_db: "wf_kept (get_mea_db c i current new)"
  unfolding get_mea_db_def
  by (intro wf_intros wf_if wf_mea_parts) (simp_all add: mea_unique_def)

lemma wf_update_mea_scaling_status: "wf_kept (update_mea_scaling_status c i previous new url)"
  unfolding update_mea_scaling_status_def
  by (intro wf_intros wf_get_mea_db wf_mea_event)
     (auto intro!: wf_intros wf_mea_parts simp: mea_unique_def split: option.splits list.splits)

lemma wf_update_mea_pre: "wf_kept (update_mea_pre c i)"
  unfolding update_mea_pre_def by (intro wf_intros wf_get_mea_db wf_mea_event)

lemma wf_update_mea_post: "wf_kept (update_mea_post E c i new attrs)"
  unfolding update_mea_post_def
  by (intro wf_intros wf_update_meas wf_store_attributes) (simp_all add: mea_unique_def)

lemma wf_delete_mea_pre: "wf_kept (delete_mea_pre c i)"
  unfolding delete_mea_pre_def by (intro wf_intros wf_get_mea_db wf_mea_event)

lemma wf_delete_mea_post: "wf_kept (delete_mea_post E c d err soft)"
  unfolding delete_mea_post_def Let_def
  by (intro wf_intros wf_if wf_update_meas wf_store_meas wf_mea_event wf_delete_mead)
     (simp_all add: mea_unique_def)

lemma wf_create_mea_ref: "wf_kept (create_mea_ref E c req)"
  unfolding create_mea_ref_def Let_def
  by (intro wf_intros wf_create_mea_pre wf_create_mea_post wf_create_mea_status)

lemma wf_update_mea_ref: "wf_kept (update_mea_ref E c i)"
  unfolding update_mea_ref_def by (intro wf_intros wf_update_mea_pre wf_update_mea_post)

lemma wf_delete_mea_ref: "wf_kept (delete_mea_ref E c i soft)"
  unfolding delete_mea_ref_def by (intro wf_intros wf_delete_mea_pre wf_delete_mea_post)

lemma wf_set_mea_error_status_reason: "wf_kept (set_mea_error_status_reason c i reason)"
  unfolding set_mea_error_status_reason_def
  by (intro wf_intros wf_update_meas) (simp_all add: mea_unique_def)

lemma wf_mark_mea_status: "wf_kept (mark_mea_status i exclude new)"
  unfolding mark_mea_status_def
  by (intro wf_intros)
     (auto intro!: wf_intros wf_mea_parts simp: mea_unique_def split: option.splits)

section \<open>VIMs\<close>

lemma wf_create_vim: "wf_kept (create_vim E c req)"
  unfolding create_vim_def create_vim_tx_def validate_default_vim_def Let_def
  by (intro wf_intros wf_as_duplicate) (auto intro!: wf_intros split: prod.splits)

lemma wf_delete_vim: "wf_kept (delete_vim E c i soft)"
  unfolding delete_vim_def by (intro wf_intros wf_if wf_store_vims) simp

lemma wf_update_vim: "wf_kept (update_vim E c i u)"
  unfolding update_vim_def validate_default_vim_def get_vim_def
  by (intro wf_intros wf_store_vims)
     (auto intro!: wf_intros wf_update_vim_auths wf_store_vims simp: apply_vim_update_def
       split: prod.splits)

lemma wf_update_vim_status: "wf_kept (update_vim_status E c i st)"
  unfolding update_vim_status_def Let_def by (intro wf_intros wf_store_vims) simp

section \<open>Network services\<close>

lemma wf_create_nsd: "wf_kept (create_nsd E c req)"
  unfolding create_nsd_def create_nsd_tx_def Let_def
  by (intro wf_intros wf_as_duplicate) (auto intro!: wf_intros split: prod.splits)

lemma wf_delete_nsd: "wf_kept (delete_nsd c i soft)"
  unfolding delete_nsd_def
  by (intro wf_intros wf_if wf_update_nsds) (simp_all add: nsd_unique_def)

lemma wf_create_ns: "wf_kept (create_ns E c req)"
  unfolding create_ns_def create_ns_tx_def Let_def
  by (intro wf_intros wf_as_duplicate wf_insert_ns) simp

lemma wf_create_ns_post: "wf_kept (create_ns_post ev c i mo meads reason)"
  unfolding create_ns_post_def Let_def set_ns_def
  by (intro wf_intros)
     (auto intro!: wf_intros wf_update_nss simp: ns_unique_def split: prod.splits)

lemma wf_delete_ns: "wf_kept (delete_ns c i)"
  unfolding delete_ns_def get_ns_db_def set_ns_def
  by (intro wf_intros wf_update_nss) (simp_all add: ns_unique_def)

lemma wf_delete_ns_post: "wf_kept (delete_ns_post c i mo soft)"
  unfolding delete_ns_post_def
  by (intro wf_intros wf_if wf_update_nss wf_delete_nsd) (simp_all add: ns_unique_def)

end
