(* ===== verification/Lifecycle.thy ===== *)
theory Lifecycle
  imports DbOpsWf
begin

text \<open>
  The life of an MEA as an abstract state machine, \<open>mea_moves\<close>: absent, live in some
  status, or deleted (softly, as the plugin always does). Every database operation of the MEA manager, on whatever MEA it
  works, takes each MEA along moves of that machine; the operations on other tables
  leave the MEAs alone. The parameters the plugin passes (the statuses it scales from
  and to, the status it ends a creation or an update with) are assumptions of the
  lemmas here; the plugin theory discharges them.
\<close>

section \<open>The abstract machine\<close>

datatype mea_state = Absent | Live status | Deleted

inductive mea_moves :: "mea_state \<Rightarrow> mea_state \<Rightarrow> bool" where
  created: "mea_moves Absent (Live PENDING_CREATE)"
| create_done: "st = PENDING_CREATE \<or> st = DEAD \<Longrightarrow> mea_moves (Live st) (Live ACTIVE)"
| create_failed: "st = PENDING_CREATE \<or> st = DEAD \<Longrightarrow> mea_moves (Live st) (Live ERROR)"
| update_start: "mea_moves (Live ACTIVE) (Live PENDING_UPDATE)"
| update_done: "mea_moves (Live PENDING_UPDATE) (Live ACTIVE)"
| update_failed: "mea_moves (Live PENDING_UPDATE) (Live ERROR)"
| scale_start: "st = PENDING_SCALE_IN \<or> st = PENDING_SCALE_OUT \<Longrightarrow> mea_moves (Live ACTIVE) (Live st)"
| scale_done: "st = PENDING_SCALE_IN \<or> st = PENDING_SCALE_OUT \<Longrightarrow> mea_moves (Live st) (Live ACTIVE)"
| scale_failed: "st = PENDING_SCALE_IN \<or> st = PENDING_SCALE_OUT \<Longrightarrow> mea_moves (Live st) (Live ERROR)"
| delete_start: "st \<in> {PENDING_CREATE, ACTIVE, ERROR, DEAD} \<Longrightarrow> mea_moves (Live st) (Live PENDING_DELETE)"
| delete_failed: "mea_moves (Live PENDING_DELETE) (Live ERROR)"
| delete_done: "mea_moves (Live PENDING_DELETE) Deleted"
| marked_error: "st \<noteq> DEAD \<Longrightarrow> mea_moves (Live st) (Live ERROR)"
| marked_dead: "st \<in> {ACTIVE, PENDING_SCALE_IN, PENDING_SCALE_OUT} \<Longrightarrow> mea_moves (Live st) (Live DEAD)"

inductive_cases moves_from_DeletedE: "mea_moves Deleted x"
inductive_cases moves_from_AbsentE: "mea_moves Absent x"
inductive_cases moves_to_ActiveE: "mea_moves x (Live ACTIVE)"
inductive_cases moves_to_PendingCreateE: "mea_moves x (Live PENDING_CREATE)"
inductive_simps moves_from_Deleted [simp]: "mea_moves Deleted x"
inductive_simps moves_from_Absent: "mea_moves Absent x"
inductive_simps moves_from_Live: "mea_moves (Live st) x"

definition mea_row_state :: "mea_row \<Rightarrow> mea_state" where
  "mea_row_state r = (if ma_deleted_at r = Some datetime_min then Live (ma_status r) else Deleted)"

definition mea_state :: "'x db_scheme \<Rightarrow> string \<Rightarrow> mea_state" where
  "mea_state s i = (case List.find (\<lambda>r. ma_id r = i) (t_meas s) of
     None \<Rightarrow> Absent | Some r \<Rightarrow> mea_row_state r)"

section \<open>The refinement relation\<close>

text \<open>The clock of a running server is past \<open>datetime.min\<close>.\<close>

definition db_ok :: "'x db_scheme \<Rightarrow> bool" where
  "db_ok s \<longleftrightarrow> db_wf s \<and> 0 < clock s"

definition lives :: "'x db_scheme \<Rightarrow> 'x db_scheme \<Rightarrow> bool" where
  "lives s t \<longleftrightarrow> (db_ok s \<longrightarrow> db_ok t \<and> (\<forall>i. mea_moves\<^sup>=\<^sup>= (mea_state s i) (mea_state t i)))"

definition stutters :: "'x db_scheme \<Rightarrow> 'x db_scheme \<Rightarrow> bool" where
  "stutters s t \<longleftrightarrow> (db_ok s \<longrightarrow> db_ok t \<and> (\<forall>i. mea_state t i = mea_state s i))"

lemma mea_state_rollback: "mea_state (rollback s t) i = mea_state s i"
  by (simp add: mea_state_def rollback_def)

lemma clock_rollback [simp]: "clock (rollback s t) = clock t"
  by (simp add: rollback_def)

interpretation lives: framed_relation stutters lives rollback
proof
  show "stutters s s" for s by (simp add: stutters_def)
  show "stutters s t \<Longrightarrow> stutters t u \<Longrightarrow> stutters s u" for s t u by (simp add: stutters_def)
  show "stutters s t \<Longrightarrow> lives s t" for s t by (simp add: stutters_def lives_def)
  show "stutters s t \<Longrightarrow> lives t u \<Longrightarrow> lives s u" for s t u
    unfolding stutters_def lives_def by metis
  show "lives s t \<Longrightarrow> stutters t u \<Longrightarrow> lives s u" for s t u by (simp add: stutters_def lives_def)
  show "stutters s t \<Longrightarrow> stutters s (rollback s t)" for s t
    by (simp add: stutters_def db_ok_def db_wf_rollback mea_state_rollback)
  show "lives s t \<Longrightarrow> lives s (rollback s t)" for s t
    by (simp add: lives_def db_ok_def db_wf_rollback mea_state_rollback)
qed

text \<open>Effects that leave the MEA table and the clock alone.\<close>

definition same_meas :: "'x db_scheme \<Rightarrow> 'x db_scheme \<Rightarrow> bool" where
  "same_meas s t \<longleftrightarrow> t_meas t = t_meas s \<and> clock t = clock s"

interpretation same: transactional_relation same_meas rollback
  by unfold_locales (simp_all add: same_meas_def rollback_def)

abbreviation frame :: "('x db_scheme, 'a) prog \<Rightarrow> bool" where
  "frame m \<equiv> obeys same_meas m"

lemma stutters_frame:
  assumes "wf_kept m" and "frame m" shows "obeys stutters m"
proof (rule obeysI)
  fix s
  have "same_meas s (snd (m s))" and "db_wf s \<longrightarrow> db_wf (snd (m s))"
    using assms by (auto dest: obeysD)
  then show "stutters s (snd (m s))"
    by (simp add: stutters_def db_ok_def same_meas_def mea_state_def)
qed

lemma frame_tx: "frame m \<Longrightarrow> frame (tx m)"
  unfolding tx_def by (rule same.r_atomically)

lemma lives_tx: "obeys lives m \<Longrightarrow> obeys lives (tx m)"
  unfolding tx_def by (rule lives.move_atomically)

lemma stutters_tx: "obeys stutters m \<Longrightarrow> obeys stutters (tx m)"
  unfolding tx_def by (rule lives.f.r_atomically)

lemma frame_bind_uuids: "frame (bind_uuids is)"
  by (simp add: bind_uuids_def same.r_ret same.r_raise)

lemma frame_utcnow: "frame utcnow"
  by (simp add: utcnow_def same.r_gets)

lemma frame_generate_uuid: "frame (generate_uuid E)"
  by (simp add: obeys_def generate_uuid_def same_meas_def)

lemma frame_create_event: "frame (create_event i t st e ts d)"
proof (rule obeysI)
  fix s :: "'x db_scheme"
  show "same_meas s (snd (create_event i t st e ts d s))"
    by (cases "uuid_ok i") (simp_all add: create_event_ok create_event_bad same_meas_def)
qed

lemma frame_insert_mead: "frame (insert_mead r)"
  unfolding insert_mead_def by (intro same.r_thenE frame_bind_uuids) (simp add: obeys_def same_meas_def)

lemma frame_insert_service_type: "frame (insert_service_type r)"
  unfolding insert_service_type_def
  by (intro same.r_thenE frame_bind_uuids) (simp add: obeys_def same_meas_def)

lemma frame_insert_mead_attr: "frame (insert_mead_attr r)"
  unfolding insert_mead_attr_def
  by (intro same.r_thenE frame_bind_uuids) (simp add: obeys_def same_meas_def)

lemma frame_insert_mea_attr: "frame (insert_mea_attr r)"
  unfolding insert_mea_attr_def
  by (intro same.r_thenE frame_bind_uuids) (simp add: obeys_def same_meas_def)

lemma frame_store_meads: "frame (store_meads P f)"
  by (simp add: obeys_def same_meas_def store_meads_def Let_def)

lemma frame_delete_meads: "frame (delete_meads P)"
  by (simp add: obeys_def same_meas_def delete_meads_def)

lemma frame_modify: "(\<And>s. t_meas (f s) = t_meas s \<and> clock (f s) = clock s) \<Longrightarrow> frame (modify f)"
  by (simp add: obeys_def same_meas_def)

lemmas frame_intros = same.r_intros frame_tx frame_bind_uuids frame_utcnow frame_generate_uuid
  frame_create_event frame_insert_mead frame_insert_service_type frame_insert_mead_attr
  frame_insert_mea_attr frame_store_meads frame_delete_meads

lemma frame_if: "frame a \<Longrightarrow> frame b \<Longrightarrow> frame (if P then a else b)"
  by simp

lemma frame_mea_event: "frame (mea_event i st e d)"
  unfolding mea_event_def by (intro frame_intros)

lemma frame_delete_mead: "frame (delete_mead E c i soft)"
  unfolding delete_mead_def by (intro frame_intros frame_if frame_modify) simp_all

lemma frame_mea_attribute: "frame (mea_attribute_update_or_create E c i k v)"
  unfolding mea_attribute_update_or_create_def
  by (intro frame_intros) (auto intro!: frame_intros frame_modify split: option.splits)

lemma frame_store_attributes: "frame (store_attributes E c i attrs)"
  unfolding store_attributes_def
  by (intro frame_intros) (auto intro!: frame_intros frame_mea_attribute split: prod.splits)

lemma stutters_mea_event: "obeys stutters (mea_event i st e d)"
  by (rule stutters_frame [OF wf_mea_event frame_mea_event])

lemma stutters_create_event: "obeys stutters (create_event i t st e ts d)"
  by (rule stutters_frame [OF wf_create_event frame_create_event])

lemma stutters_store_attributes: "obeys stutters (store_attributes E c i attrs)"
  by (rule stutters_frame [OF wf_store_attributes frame_store_attributes])

lemma stutters_bind_uuids: "obeys stutters (bind_uuids is)"
  by (rule stutters_frame [OF wf_bind_uuids frame_bind_uuids])

lemma stutters_utcnow: "obeys stutters utcnow"
  by (rule stutters_frame [OF wf_utcnow frame_utcnow])

lemma stutters_delete_mead: "obeys stutters (delete_mead E c i soft)"
  by (rule stutters_frame [OF wf_delete_mead frame_delete_mead])

lemmas stutters_intros = lives.f.r_intros stutters_tx stutters_mea_event stutters_create_event
  stutters_store_attributes stutters_bind_uuids stutters_utcnow stutters_delete_mead

section \<open>Changes of the MEA table\<close>

lemma find_update_where:
  "(\<And>x. P x \<Longrightarrow> k (f x) = k x) \<Longrightarrow>
   List.find (\<lambda>r. k r = i) (update_where P f xs) =
   map_option (\<lambda>r. if P r then f r else r) (List.find (\<lambda>r. k r = i) xs)"
  by (induction xs) (auto simp: update_where_def)

lemma mea_state_update:
  assumes "\<And>q. P q \<Longrightarrow> ma_id (f q) = ma_id q"
  shows "mea_state (s\<lparr>t_meas := update_where P f (t_meas s)\<rparr>) i =
    (case List.find (\<lambda>r. ma_id r = i) (t_meas s) of None \<Rightarrow> Absent
     | Some r \<Rightarrow> mea_row_state (if P r then f r else r))"
  by (simp add: mea_state_def find_update_where [of P ma_id f, OF assms] option.case_eq_if
      option.map_sel)

lemma lives_update_at:
  assumes frame: "\<And>q. P q \<Longrightarrow> ma_id (f q) = ma_id q" "\<And>q. P q \<Longrightarrow> ma_mead_id (f q) = ma_mead_id q"
      "\<And>q. P q \<Longrightarrow> ma_vim_id (f q) = ma_vim_id q" "\<And>q. P q \<Longrightarrow> mea_unique (f q) = mea_unique q"
    and moves: "\<And>q. db_ok s \<Longrightarrow> q \<in> set (t_meas s) \<Longrightarrow> P q \<Longrightarrow>
      mea_moves\<^sup>=\<^sup>= (Live (ma_status q)) (Live (ma_status (f q)))"
  shows "lives s (snd (update_meas P f s))"
proof -
  let ?t = "snd (update_meas P f s)"
  have t: "?t = s\<lparr>t_meas := update_where P f (t_meas s)\<rparr>" by (simp add: update_meas_def)
  have after: "mea_state ?t i = (case List.find (\<lambda>r. ma_id r = i) (t_meas s) of None \<Rightarrow> Absent
     | Some r \<Rightarrow> mea_row_state (if P r then f r else r))" for i
    unfolding t by (rule mea_state_update [OF frame(1)])
  have "db_wf s \<longrightarrow> db_wf ?t"
    by (rule obeysD [OF wf_update_meas]) (simp_all add: frame)
  moreover have "clock ?t = clock s" by (simp add: t)
  moreover have "mea_moves\<^sup>=\<^sup>= (mea_state s i) (mea_state ?t i)" if ok: "db_ok s" for i
  proof (cases "List.find (\<lambda>r. ma_id r = i) (t_meas s)")
    case None
    then show ?thesis by (simp add: after mea_state_def [of s])
  next
    case (Some r)
    then have r: "r \<in> set (t_meas s)" by (simp add: find_SomeD)
    have "mea_moves\<^sup>=\<^sup>= (mea_row_state r) (mea_row_state (if P r then f r else r))"
    proof (cases "P r")
      case True
      then have "ma_deleted_at (f r) = ma_deleted_at r"
        using frame(4) [of r] by (simp add: mea_unique_def)
      with True moves [OF ok r] show ?thesis by (simp add: mea_row_state_def)
    qed simp
    with Some show ?thesis by (simp add: after mea_state_def [of s])
  qed
  ultimately show ?thesis by (simp add: lives_def db_ok_def)
qed

lemma lives_set_mea:
  assumes "r \<in> set (t_meas s)"
    and "\<And>q. ma_id (f q) = ma_id q" "\<And>q. ma_mead_id (f q) = ma_mead_id q"
      "\<And>q. ma_vim_id (f q) = ma_vim_id q" "\<And>q. mea_unique (f q) = mea_unique q"
    and "mea_moves\<^sup>=\<^sup>= (Live (ma_status r)) (Live (ma_status (f r)))"
  shows "lives s (snd (set_mea r f s))"
  unfolding set_mea_def
proof (rule lives_update_at)
  fix q assume "db_ok s" "q \<in> set (t_meas s)" "ma_id q = ma_id r"
  with assms(1) have "q = r"
    by (auto simp: db_ok_def wf_defs distinct_map dest: inj_onD)
  with assms(6) show "mea_moves\<^sup>=\<^sup>= (Live (ma_status q)) (Live (ma_status (f q)))" by simp
qed (simp_all add: assms)

text \<open>A column that says nothing about the state.\<close>

lemma stutters_set_mea_plain:
  assumes "\<And>q. ma_id (f q) = ma_id q" "\<And>q. ma_mead_id (f q) = ma_mead_id q"
      "\<And>q. ma_vim_id (f q) = ma_vim_id q" "\<And>q. mea_unique (f q) = mea_unique q"
      "\<And>q. ma_status (f q) = ma_status q"
  shows "obeys stutters (set_mea r f)"
proof (rule obeysI)
  fix s :: "'x db_scheme"
  let ?P = "\<lambda>q. ma_id q = ma_id r" and ?t = "snd (set_mea r f s)"
  have t: "?t = s\<lparr>t_meas := update_where ?P f (t_meas s)\<rparr>" by (simp add: set_mea_def update_meas_def)
  have "db_wf s \<longrightarrow> db_wf ?t" by (rule obeysD [OF wf_set_mea]) (simp_all add: assms)
  moreover have "mea_row_state (f q) = mea_row_state q" for q
    using assms(4) [of q] assms(5) by (simp add: mea_row_state_def mea_unique_def)
  then have "mea_state ?t i = mea_state s i" for i
    unfolding t by (simp add: mea_state_update [of ?P f, OF assms(1)] mea_state_def [of s] split: option.split)
  moreover have "clock ?t = clock s" by (simp add: t)
  ultimately show "stutters s ?t" by (simp add: stutters_def db_ok_def)
qed

lemma lives_read:
  assumes "\<And>r. g s = Inr r \<Longrightarrow> lives s (snd (k r s))"
  shows "lives s (snd (bindE (thenE (bind_uuids is) (readE g)) k s))"
proof (cases "list_all uuid_ok is")
  case True
  then have "bindE (thenE (bind_uuids is) (readE g)) k s = bindE (readE g) k s"
    by (simp add: bind_uuids_def)
  with assms show ?thesis by (simp add: lives.move_read_at)
next
  case False
  then show ?thesis by (simp add: bind_uuids_def lives.R_refl')
qed

lemma one_mea_rows:
  "one (mea_rows c i ok s) = Inr r \<Longrightarrow> r \<in> set (t_meas s) \<and> ma_id r = i \<and> ok (ma_status r) \<and> visible c MEA r"
proof -
  assume "one (mea_rows c i ok s) = Inr r"
  then have "r \<in> set (mea_rows c i ok s)" by (auto simp: one_Inr)
  then show ?thesis by (auto simp: mea_rows_def set_model_query)
qed

lemma lives_one_mea:
  assumes "\<And>r. r \<in> set (t_meas s) \<Longrightarrow> ma_id r = i \<Longrightarrow> ok (ma_status r) \<Longrightarrow> lives s (snd (k r s))"
  shows "lives s (snd (bindE (one_mea c i ok) k s))"
  unfolding one_mea_def by (rule lives_read) (use assms one_mea_rows in blast)

lemma find_None_key: "List.find (\<lambda>q. k q = i) xs = None \<longleftrightarrow> i \<notin> k ` set xs"
  by (induction xs) auto

lemma mea_state_append:
  "ma_id r \<notin> ma_id ` set (t_meas s) \<Longrightarrow>
   mea_state (s\<lparr>t_meas := t_meas s @ [r]\<rparr>) i = (if i = ma_id r then mea_row_state r else mea_state s i)"
proof -
  assume new: "ma_id r \<notin> ma_id ` set (t_meas s)"
  have "List.find P (xs @ [x]) = (case List.find P xs of None \<Rightarrow> if P x then Some x else None | Some y \<Rightarrow> Some y)"
    for P and x :: mea_row and xs
    by (induction xs) auto
  moreover from new have "List.find (\<lambda>q. ma_id q = ma_id r) (t_meas s) = None"
    by (simp only: find_None_key not_False_eq_True)
  ultimately show ?thesis by (simp add: mea_state_def split: option.split)
qed

lemma lives_insert_mea:
  assumes "ma_status r = PENDING_CREATE" and del: "ma_deleted_at r = Some datetime_min"
  shows "obeys lives (insert_mea r)"
proof (rule obeysI)
  fix s :: "'x db_scheme"
  let ?t = "s\<lparr>t_meas := t_meas s @ [r]\<rparr>"
  have wf: "db_wf s \<longrightarrow> db_wf (snd (insert_mea r s))"
    by (rule obeysD [OF wf_insert_mea [OF del]])
  have "snd (insert_mea r s) = s \<or>
      snd (insert_mea r s) = ?t \<and> ma_id r \<notin> ma_id ` set (t_meas s)"
    by (cases "list_all uuid_ok [ma_id r, ma_mead_id r, ma_vim_id r]")
       (simp_all add: insert_mea_def bind_uuids_def list_ex_key list_ex_key2 split: if_split)
  then consider "snd (insert_mea r s) = s"
    | "snd (insert_mea r s) = ?t" "ma_id r \<notin> ma_id ` set (t_meas s)" by blast
  then show "lives s (snd (insert_mea r s))"
  proof cases
    case 1
    then show ?thesis by (simp add: lives.R_refl')
  next
    case 2
    have row: "mea_row_state r = Live PENDING_CREATE" using assms by (simp add: mea_row_state_def)
    from 2(2) have "List.find (\<lambda>q. ma_id q = ma_id r) (t_meas s) = None"
      by (simp only: find_None_key not_False_eq_True)
    then have "mea_state s (ma_id r) = Absent" by (simp add: mea_state_def)
    then have "mea_moves\<^sup>=\<^sup>= (mea_state s i) (mea_state ?t i)" for i
      using created by (auto simp: mea_state_append [OF 2(2)] row)
    with wf 2 show ?thesis by (simp add: lives_def db_ok_def)
  qed
qed

lemma lives_soft_delete:
  assumes "\<And>q. P q \<Longrightarrow> ma_status q = PENDING_DELETE" and now: "0 < now"
  shows "obeys lives (store_meas P (\<lambda>r. r\<lparr>ma_deleted_at := Some now\<rparr>))"
proof (rule obeysI)
  fix s :: "'x db_scheme"
  let ?f = "\<lambda>r. r\<lparr>ma_deleted_at := Some now\<rparr>"
  let ?t = "s\<lparr>t_meas := update_where P ?f (t_meas s)\<rparr>"
  have wf: "db_wf s \<longrightarrow> db_wf (snd (store_meas P ?f s))"
    by (rule obeysD [OF wf_store_meas]) simp_all
  have "mea_moves\<^sup>=\<^sup>= (mea_row_state q) (mea_row_state (if P q then ?f q else q))" for q
    using assms delete_done by (auto simp: mea_row_state_def datetime_min_def)
  then have "mea_moves\<^sup>=\<^sup>= (mea_state s i) (mea_state ?t i)" for i
    by (cases "List.find (\<lambda>r. ma_id r = i) (t_meas s)")
       (simp_all add: mea_state_update [of P ?f] mea_state_def [of s])
  with wf show "lives s (snd (store_meas P ?f s))"
    by (auto simp: store_meas_def Let_def lives_def db_ok_def split: if_splits)
qed

section \<open>The operations\<close>

lemma frame_as_duplicate: "frame m \<Longrightarrow> frame (as_duplicate ty m)"
  unfolding as_duplicate_def by (intro frame_intros frame_if)

lemma lives_if: "obeys lives a \<Longrightarrow> obeys lives b \<Longrightarrow> obeys lives (if P then a else b)"
  by simp

lemma stutters_if: "obeys stutters a \<Longrightarrow> obeys stutters b \<Longrightarrow> obeys stutters (if P then a else b)"
  by simp

lemma lives_as_duplicate: "obeys lives m \<Longrightarrow> obeys lives (as_duplicate ty m)"
  unfolding as_duplicate_def
  by (intro lives.move_catchE_frame stutters_if lives.f.r_raise)

lemma stutters_generate_uuid: "obeys stutters (generate_uuid E)"
  by (rule stutters_frame [OF wf_generate_uuid frame_generate_uuid])

lemma stutters_insert_mea_attr: "obeys stutters (insert_mea_attr r)"
  by (rule stutters_frame [OF wf_insert_mea_attr frame_insert_mea_attr])

lemma lives_create_mea_pre: "obeys lives (create_mea_pre E c req)"
  unfolding create_mea_pre_def create_mea_tx_def Let_def
  by (rule lives.move_later [OF lives.f.r_pureE], rule lives.move_later [OF stutters_generate_uuid],
      rule lives.move_first, intro lives_as_duplicate lives_tx,
      rule lives.move_later [OF lives.f.r_readE], rule lives.move_later [OF lives.f.r_pureE],
      rule lives.move_later [OF stutters_utcnow], rule lives.move_first_then, rule lives_insert_mea)
     (auto intro!: stutters_intros stutters_generate_uuid stutters_insert_mea_attr split: prod.splits)

lemma moves_create: "List.member CREATE_STATES st \<Longrightarrow> new = ACTIVE \<or> new = ERROR \<Longrightarrow>
    mea_moves\<^sup>=\<^sup>= (Live st) (Live new)"
  using create_done create_failed by (auto simp: CREATE_STATES_def)

lemma set_mea_twice:
  assumes "\<And>q. ma_id (f q) = ma_id q"
  shows "thenE (set_mea r f) (thenE (set_mea r g) k) = thenE (set_mea r (\<lambda>q. g (f q))) k"
  using assms
  by (auto simp: fun_eq_iff thenE_def bindE_def set_mea_def update_meas_def update_where_def o_def
      intro!: arg_cong [where f = k])

lemma lives_create_mea_post: "obeys lives (create_mea_post E c i inst url d)"
proof -
  let ?f = "\<lambda>q. q\<lparr>ma_instance_id := inst, ma_mgmt_url := url\<rparr>"
  have post: "obeys lives (bindE (one_mea c i (List.member CREATE_STATES)) (\<lambda>r.
        thenE (set_mea r ?f)
        (thenE (whenE (inst = None \<or> ad_status d = ERROR) (set_mea r (\<lambda>q. q\<lparr>ma_status := ERROR\<rparr>)))
        (store_attributes E c i (ad_attributes d)))))"
  proof (rule obeysI, rule lives_one_mea)
    fix s :: "'x db_scheme" and r
    assume r: "r \<in> set (t_meas s)" "List.member CREATE_STATES (ma_status r)"
    show "lives s (snd (thenE (set_mea r ?f)
        (thenE (whenE (inst = None \<or> ad_status d = ERROR) (set_mea r (\<lambda>q. q\<lparr>ma_status := ERROR\<rparr>)))
        (store_attributes E c i (ad_attributes d))) s))"
    proof (cases "inst = None \<or> ad_status d = ERROR")
      case True
      then have eq: "whenE (inst = None \<or> ad_status d = ERROR) m = m" for m :: "('x db_scheme, unit) prog"
        by simp
      show ?thesis
        unfolding eq
        by (subst set_mea_twice, simp, intro lives.move_first_then_at lives_set_mea stutters_intros)
           (use r moves_create in \<open>simp_all add: mea_unique_def\<close>)
    next
      case False
      then show ?thesis
        by (simp only: whenE_False thenE_ret, intro lives.move_first_then_at lives_set_mea stutters_intros)
           (use r in \<open>simp_all add: mea_unique_def\<close>)
    qed
  qed
  show ?thesis
    unfolding create_mea_post_def by (rule lives.move_first_then [OF lives_tx [OF post] stutters_mea_event])
qed

lemma lives_create_mea_status:
  assumes "new = ACTIVE \<or> new = ERROR" shows "obeys lives (create_mea_status c i new)"
  unfolding create_mea_status_def
proof (intro lives_tx obeysI lives_one_mea)
  fix s :: "'x db_scheme" and r
  assume r: "r \<in> set (t_meas s)" "List.member CREATE_STATES (ma_status r)"
  show "lives s (snd (thenE (set_mea r (\<lambda>q. q\<lparr>ma_status := new\<rparr>))
         (mea_event i new RES_EVT_CREATE ''MEA creation completed'') s))"
    by (intro lives.move_first_then_at lives_set_mea stutters_intros)
       (use r moves_create assms in \<open>simp_all add: mea_unique_def\<close>)
qed

lemma lives_get_mea_db:
  assumes "\<And>st. List.member current st \<Longrightarrow> st \<noteq> PENDING_UPDATE \<Longrightarrow> mea_moves\<^sup>=\<^sup>= (Live st) (Live new)"
  shows "obeys lives (get_mea_db c i current new)"
  unfolding get_mea_db_def
proof (intro obeysI lives_read)
  fix s :: "'x db_scheme" and r
  assume "when_absent (mea_not_found i) (one (mea_rows c i (List.member current) s)) = Inr r"
  then have "one (mea_rows c i (List.member current) s) = Inr r"
    by (auto simp: when_absent_def split: sum.splits if_splits)
  then have r: "r \<in> set (t_meas s)" "List.member current (ma_status r)"
    using one_mea_rows by blast+
  show "lives s (snd ((if ma_status r = PENDING_UPDATE then raise (Exc (Mem MEAInUse) [(''mea_id'', PStr i)])
     else thenE (set_mea r (\<lambda>q. q\<lparr>ma_status := new\<rparr>)) (ret (r\<lparr>ma_status := new\<rparr>))) s))"
  proof (cases "ma_status r = PENDING_UPDATE")
    case True
    then show ?thesis by (simp add: lives.R_refl')
  next
    case False
    then show ?thesis
      by (simp only: if_False, intro lives.move_first_then_at lives_set_mea stutters_intros)
         (use r assms in \<open>simp_all add: mea_unique_def\<close>)
  qed
qed

lemma lives_update_mea_scaling_status:
  assumes "\<And>st. List.member previous st \<Longrightarrow> st \<noteq> PENDING_UPDATE \<Longrightarrow> mea_moves\<^sup>=\<^sup>= (Live st) (Live new)"
  shows "obeys lives (update_mea_scaling_status c i previous new url)"
  unfolding update_mea_scaling_status_def
  by (rule lives.move_first, intro lives_tx lives.move_first lives_get_mea_db assms)
     (auto intro!: stutters_intros stutters_set_mea_plain simp: mea_unique_def split: option.splits list.splits)

lemma lives_update_mea_pre: "obeys lives (update_mea_pre c i)"
  unfolding update_mea_pre_def
  by (rule lives.move_first, intro lives_tx lives_get_mea_db)
     (use update_start in \<open>auto simp: ACTIVE_UPDATE_def intro!: stutters_intros\<close>)

lemma lives_delete_mea_pre: "obeys lives (delete_mea_pre c i)"
  unfolding delete_mea_pre_def
  by (rule lives.move_first, intro lives_tx lives_get_mea_db)
     (auto simp: ACTIVE_UPDATE_ERROR_DEAD_def intro!: delete_start stutters_intros)

lemma stutters_drop_mea_attrs:
  "obeys stutters (modify (\<lambda>s. s\<lparr>t_mea_attrs := filter P (t_mea_attrs s)\<rparr>) :: ('x db_scheme, unit) prog)"
  by (rule stutters_frame [OF wf_drop_mea_attrs frame_modify]) simp

lemma lives_update_mea_post:
  assumes "new = ACTIVE \<or> new = ERROR" shows "obeys lives (update_mea_post E c i new attrs)"
proof -
  have "obeys lives (update_meas (in_query c i (\<lambda>st. st = PENDING_UPDATE))
                (\<lambda>q. q\<lparr>ma_status := new, ma_updated_at := Some now\<rparr>))" for now
    by (intro obeysI lives_update_at)
       (use assms update_done update_failed in \<open>auto simp: mea_unique_def in_query_def\<close>)
  then show ?thesis
    unfolding update_mea_post_def
    by (intro lives.move_later [OF stutters_utcnow] lives.move_first_then [OF lives_tx]
        lives.move_later_then [OF stutters_bind_uuids] lives.move_first_then
        stutters_intros stutters_drop_mea_attrs)
qed

lemma lives_soft_delete_now:
  assumes "\<And>q. P q \<Longrightarrow> ma_status q = PENDING_DELETE" and "\<And>now. obeys stutters (k now)"
  shows "obeys lives (bindE utcnow (\<lambda>now. thenE (store_meas P (\<lambda>r. r\<lparr>ma_deleted_at := Some now\<rparr>)) (k now)))"
    (is "obeys lives (bindE utcnow ?k)")
proof (rule obeysI)
  fix s
  have eq: "bindE utcnow ?k s = ?k (clock s) s" by (simp add: utcnow_def bindE_def)
  show "lives s (snd (bindE utcnow ?k s))"
  proof (cases "0 < clock s")
    case True
    then have "obeys lives (?k (clock s))"
      by (intro lives.move_first_then lives_soft_delete assms)
    then show ?thesis unfolding eq by (rule obeysD)
  next
    case False
    then show ?thesis by (simp add: lives_def db_ok_def)
  qed
qed

lemma lives_delete_error: "obeys lives (update_meas (in_query c i (\<lambda>st. st = PENDING_DELETE)) (\<lambda>r. r\<lparr>ma_status := ERROR\<rparr>))"
  by (intro obeysI lives_update_at) (use delete_failed in \<open>auto simp: mea_unique_def in_query_def\<close>)

lemma lives_delete_mea_post: "obeys lives (delete_mea_post E c d err True)"
  unfolding delete_mea_post_def Let_def if_True
  by (intro lives_tx lives.move_later_then [OF stutters_bind_uuids] lives_if
      lives.move_first_then lives_delete_error lives_soft_delete_now)
     (auto simp: in_query_def intro!: stutters_intros)

lemma lives_set_mea_error_status_reason: "obeys lives (set_mea_error_status_reason c i reason)"
proof -
  have "obeys lives (update_meas (in_query c i (\<lambda>_. True)) (\<lambda>r. r\<lparr>ma_error_reason := reason\<rparr>))"
    by (intro obeysI lives_update_at) (auto simp: mea_unique_def)
  then show ?thesis
    unfolding set_mea_error_status_reason_def
    by (intro lives_tx lives.move_later_then [OF stutters_bind_uuids])
qed

text \<open>\<open>_mark_mea_status\<close>, for the two ways it is called.\<close>

lemma lives_mark_mea_status:
  assumes "\<And>st. \<not> List.member exclude st \<Longrightarrow> mea_moves\<^sup>=\<^sup>= (Live st) (Live new)"
  shows "obeys lives (mark_mea_status i exclude new)"
  unfolding mark_mea_status_def
proof (intro lives_tx obeysI lives_read)
  fix s :: "'x db_scheme" and found
  let ?rows = "mea_rows get_admin_context i (\<lambda>st. \<not> List.member exclude st) s"
  assume f: "(case one ?rows of Inr r \<Rightarrow> Inr (Some r)
      | Inl e \<Rightarrow> if exn_class e = Lib NoResultFound then Inr None else Inl e) = Inr found"
  show "lives s (snd ((case found of None \<Rightarrow> ret False
     | Some r \<Rightarrow> thenE (set_mea r (\<lambda>q. q\<lparr>ma_status := new\<rparr>))
         (thenE (mea_event i new RES_EVT_MONITOR []) (ret True))) s))"
  proof (cases found)
    case None
    then show ?thesis by (simp add: lives.R_refl')
  next
    case (Some r)
    with f have "one ?rows = Inr r" by (auto split: sum.splits if_splits)
    then have r: "r \<in> set (t_meas s)" "\<not> List.member exclude (ma_status r)"
      using one_mea_rows by blast+
    show ?thesis
      by (simp only: Some option.case, intro lives.move_first_then_at lives_set_mea stutters_intros)
         (use r assms in \<open>simp_all add: mea_unique_def\<close>)
  qed
qed

lemma lives_mark_mea_error: "obeys lives (mark_mea_error i)"
  unfolding mark_mea_error_def
  by (rule lives_mark_mea_status) (auto intro!: marked_error)

lemma lives_mark_mea_dead: "obeys lives (mark_mea_dead i)"
  unfolding mark_mea_dead_def
proof (rule lives_mark_mea_status)
  fix st assume "\<not> List.member [DOWN, PENDING_CREATE, PENDING_UPDATE, PENDING_DELETE, INACTIVE, ERROR] st"
  then show "mea_moves\<^sup>=\<^sup>= (Live st) (Live DEAD)"
    by (cases st) (auto intro!: marked_dead)
qed

section \<open>Steps of the database\<close>

text \<open>One step is one operation of the three database plugins, with the statuses the MEA
  manager passes, or the clock moving on. Whatever the outcome, the state it leaves is
  the next state. MEAs are deleted softly, as everywhere in the program.\<close>

inductive db_step :: "oslo \<Rightarrow> db \<Rightarrow> db \<Rightarrow> bool" for E where
  step_create_mead: "db_step E s (snd (create_mead E c dreq s))"
| step_update_mead: "db_step E s (snd (update_mead E c i changes s))"
| step_delete_mead: "db_step E s (snd (delete_mead E c i soft s))"
| step_create_mea_pre: "db_step E s (snd (create_mea_pre E c areq s))"
| step_create_mea_post: "db_step E s (snd (create_mea_post E c i inst url d s))"
| step_create_mea_status: "new = ACTIVE \<or> new = ERROR \<Longrightarrow> db_step E s (snd (create_mea_status c i new s))"
| step_scale_start: "new = PENDING_SCALE_IN \<or> new = PENDING_SCALE_OUT \<Longrightarrow>
    db_step E s (snd (update_mea_scaling_status c i [ACTIVE] new None s))"
| step_scale_end: "st = PENDING_SCALE_IN \<or> st = PENDING_SCALE_OUT \<Longrightarrow> new = ACTIVE \<or> new = ERROR \<Longrightarrow>
    db_step E s (snd (update_mea_scaling_status c i [st] new url s))"
| step_update_mea_pre: "db_step E s (snd (update_mea_pre c i s))"
| step_update_mea_post: "new = ACTIVE \<or> new = ERROR \<Longrightarrow>
    db_step E s (snd (update_mea_post E c i new attrs s))"
| step_delete_mea_pre: "db_step E s (snd (delete_mea_pre c i s))"
| step_delete_mea_post: "db_step E s (snd (delete_mea_post E c d err True s))"
| step_set_reason: "db_step E s (snd (set_mea_error_status_reason c i reason s))"
| step_mark_error: "db_step E s (snd (mark_mea_error i s))"
| step_mark_dead: "db_step E s (snd (mark_mea_dead i s))"
| step_create_vim: "db_step E s (snd (create_vim E c vreq s))"
| step_update_vim: "db_step E s (snd (update_vim E c i vu s))"
| step_update_vim_status: "db_step E s (snd (update_vim_status E c i vst s))"
| step_delete_vim: "db_step E s (snd (delete_vim E c i soft s))"
| step_create_nsd: "db_step E s (snd (create_nsd E c nreq s))"
| step_delete_nsd: "db_step E s (snd (delete_nsd c i soft s))"
| step_create_ns: "db_step E s (snd (create_ns E c sreq s))"
| step_create_ns_post: "db_step E s (snd (create_ns_post ev c i mo meads reason s))"
| step_delete_ns: "db_step E s (snd (delete_ns c i s))"
| step_delete_ns_post: "db_step E s (snd (delete_ns_post c i mopt soft s))"
| step_tick: "clock s \<le> now \<Longrightarrow> db_step E s (s\<lparr>clock := now\<rparr>)"

text \<open>The frames of the VIM and network service operations.\<close>

lemma frame_vim_prims:
  "frame (insert_vim r)" "frame (insert_vim_auth a)" "frame (store_vims P f)"
  "frame (update_vim_auths Q g)" "frame (delete_vims P)"
  by (simp_all add: obeys_def same_meas_def insert_vim_def insert_vim_auth_def store_vims_def
      update_vim_auths_def delete_vims_def bind_uuids_def Let_def)

lemma frame_ns_prims:
  "frame (insert_nsd d)" "frame (insert_nsd_attr a)" "frame (insert_ns n)"
  "frame (update_nsds P f)" "frame (update_nss Q g)" "frame (delete_nsds P)" "frame (delete_nss Q)"
  by (simp_all add: obeys_def same_meas_def insert_nsd_def insert_nsd_attr_def insert_ns_def
      update_nsds_def update_nss_def delete_nsds_def delete_nss_def bind_uuids_def)

lemma frame_create_mead: "frame (create_mead E c req)"
  unfolding create_mead_def create_mead_tx_def Let_def
  by (intro frame_intros frame_if frame_as_duplicate)
     (auto intro!: frame_intros split: pyval.splits prod.splits)

lemma frame_update_mead: "frame (update_mead E c i changes)"
  unfolding update_mead_def Let_def by (intro frame_intros)

lemma frame_create_vim: "frame (create_vim E c req)"
  unfolding create_vim_def create_vim_tx_def validate_default_vim_def Let_def
  by (intro frame_intros frame_vim_prims frame_as_duplicate)
     (auto intro!: frame_intros frame_vim_prims split: prod.splits)

lemma frame_update_vim: "frame (update_vim E c i u)"
  unfolding update_vim_def validate_default_vim_def get_vim_def
  by (intro frame_intros frame_vim_prims)
     (auto intro!: frame_intros frame_vim_prims split: prod.splits)

lemma frame_update_vim_status: "frame (update_vim_status E c i st)"
  unfolding update_vim_status_def Let_def by (intro frame_intros frame_vim_prims)

lemma frame_delete_vim: "frame (delete_vim E c i soft)"
  unfolding delete_vim_def by (intro frame_intros frame_vim_prims frame_if frame_modify) simp

lemma frame_create_nsd: "frame (create_nsd E c req)"
  unfolding create_nsd_def create_nsd_tx_def Let_def
  by (intro frame_intros frame_ns_prims frame_as_duplicate)
     (auto intro!: frame_intros frame_ns_prims split: prod.splits)

lemma frame_delete_nsd: "frame (delete_nsd c i soft)"
  unfolding delete_nsd_def by (intro frame_intros frame_ns_prims frame_if frame_modify) simp

lemma frame_create_ns: "frame (create_ns E c req)"
  unfolding create_ns_def create_ns_tx_def Let_def
  by (intro frame_intros frame_ns_prims frame_as_duplicate)

lemma frame_create_ns_post: "frame (create_ns_post ev c i mo meads reason)"
  unfolding create_ns_post_def Let_def set_ns_def
  by (intro frame_intros) (auto intro!: frame_intros frame_ns_prims split: prod.splits)

lemma frame_delete_ns: "frame (delete_ns c i)"
  unfolding delete_ns_def get_ns_db_def set_ns_def by (intro frame_intros frame_ns_prims)

lemma frame_delete_ns_post: "frame (delete_ns_post c i mo soft)"
  unfolding delete_ns_post_def
  by (intro frame_intros frame_if frame_ns_prims frame_delete_nsd)

lemma db_step_lives: "db_step E s t \<Longrightarrow> lives s t"
proof (induction rule: db_step.induct)
  case (step_scale_start new s c i)
  then have "obeys lives (update_mea_scaling_status c i [ACTIVE] new None)"
    by (intro lives_update_mea_scaling_status) (auto intro!: scale_start)
  then show ?case by (rule obeysD)
next
  case (step_scale_end st new s c i url)
  then have "obeys lives (update_mea_scaling_status c i [st] new url)"
    by (intro lives_update_mea_scaling_status)
       (auto intro!: scale_done scale_failed)
  then show ?case by (rule obeysD)
next
  case (step_tick s now)
  have "mea_state (s\<lparr>clock := now\<rparr>) i = mea_state s i" for i by (simp add: mea_state_def)
  with step_tick show ?case by (simp add: lives_def db_ok_def wf_defs)
qed (rule obeysD, (rule lives_create_mea_pre lives_create_mea_post lives_update_mea_pre
      lives_delete_mea_pre lives_delete_mea_post lives_set_mea_error_status_reason
      lives_mark_mea_error lives_mark_mea_dead
    | (rule lives_create_mea_status lives_update_mea_post, assumption)
    | (rule lives.move_frame, rule stutters_delete_mead)
    | (rule lives.move_frame, rule stutters_frame, rule wf_create_mead wf_update_mead wf_create_vim wf_update_vim
        wf_update_vim_status wf_delete_vim wf_create_nsd wf_delete_nsd wf_create_ns
        wf_create_ns_post wf_delete_ns wf_delete_ns_post,
       rule frame_create_mead frame_update_mead frame_create_vim frame_update_vim
        frame_update_vim_status frame_delete_vim frame_create_nsd frame_delete_nsd frame_create_ns
        frame_create_ns_post frame_delete_ns frame_delete_ns_post)))+

lemma db_steps_live:
  "(db_step E)\<^sup>*\<^sup>* s t \<Longrightarrow> db_ok s \<Longrightarrow> db_ok t \<and> mea_moves\<^sup>*\<^sup>* (mea_state s i) (mea_state t i)"
proof (induction rule: rtranclp_induct)
  case base
  then show ?case by simp
next
  case (step t u)
  then have "db_ok u" and "mea_moves\<^sup>=\<^sup>= (mea_state t i) (mea_state u i)"
    using db_step_lives [OF step.hyps(2)] by (auto simp: lives_def)
  with step show ?case by (auto intro: rtranclp.rtrancl_into_rtrancl)
qed

text \<open>The states of a database that started empty.\<close>

definition empty_db :: "nat \<Rightarrow> db" where
  "empty_db now = \<lparr>t_meads = [], t_service_types = [], t_mead_attrs = [], t_meas = [],
     t_mea_attrs = [], t_vims = [], t_vim_auths = [], t_nsds = [], t_nsd_attrs = [], t_nss = [],
     t_events = [], clock = now, uuid_count = 0\<rparr>"

inductive reachable :: "oslo \<Rightarrow> db \<Rightarrow> bool" for E where
  start: "0 < now \<Longrightarrow> reachable E (empty_db now)"
| stepped: "reachable E s \<Longrightarrow> db_step E s t \<Longrightarrow> reachable E t"

lemma reachable_ok: "reachable E s \<Longrightarrow> db_ok s"
proof (induction rule: reachable.induct)
  case (start now)
  then show ?case by (simp add: db_ok_def wf_defs empty_db_def)
next
  case (stepped s t)
  then show ?case using db_step_lives by (auto simp: lives_def)
qed

end
