(* ===== verification/Samples.thy ===== *)
theory Samples
  imports Lifecycle
begin

text \<open>
  Concrete inputs on which the properties are exercised: an implementation of the
  oslo functions, contexts, requests and the states a small history leads to.
\<close>

definition sample_uuid :: "nat \<Rightarrow> string" where
  "sample_uuid n = (let d = show_nat n in replicate (32 - length d) (CHR ''0'') @ d)"

definition sample_oslo :: oslo where
  "sample_oslo = \<lparr>gen_uuid = sample_uuid, is_uuid_like = uuid_ok,
     mask_dict_password = map (\<lambda>(k, v). if k = ''password'' then (k, PStr ''***'') else (k, v))\<rparr>"

definition user_ctx :: "string \<Rightarrow> ctx" where
  "user_ctx t = make_context (\<lambda>_. False) None (Some t) (Some False) None None None None"

definition sample_vim_req :: vim_req where
  "sample_vim_req = \<lparr>vr_id = sample_uuid 100, vr_type = ''openstack'', vr_tenant_id = Some ''t1'',
     vr_name = ''v'', vr_description = None, vr_placement_attr = [], vr_is_default = True,
     vr_status = ''PENDING'', vr_auth_url = ''http'', vr_vim_project = [(''name'', PStr ''p'')],
     vr_auth_cred = [(''username'', PStr ''u''), (''password'', PStr ''pw'')]\<rparr>"

definition sample_mead_req :: mead_req where
  "sample_mead_req = \<lparr>dr_tenant_id = Some ''t1'', dr_name = ''m'', dr_description = None,
     dr_mgmt_driver = None, dr_template_source = Some ''onboarded'',
     dr_attributes = [(''mead'', PStr ''x'')],
     dr_service_types = PList [PDict [(''service_type'', PStr ''mead'')]]\<rparr>"

definition sample_mea_req :: mea_req where
  "sample_mea_req = \<lparr>ar_tenant_id = Some ''t1'', ar_mead_id = sample_uuid 1, ar_name = ''a'',
     ar_attributes = [(''config'', PStr ''c'')], ar_vim_id = sample_uuid 100,
     ar_placement_attr = []\<rparr>"

definition sample_nsd_req :: nsd_req where
  "sample_nsd_req = \<lparr>nr_tenant_id = Some ''t1'', nr_name = ''nsd'', nr_description = None,
     nr_template_source = Some ''onboarded'', nr_attributes = [], nr_meads = []\<rparr>"

definition sample_ns_req :: ns_req where
  "sample_ns_req = \<lparr>sr_tenant_id = Some ''t1'', sr_name = ''ns'', sr_nsd_id = sample_uuid 1,
     sr_vim_id = sample_uuid 100\<rparr>"

definition with_vim :: db where
  "with_vim = snd (create_vim sample_oslo (user_ctx ''t1'') sample_vim_req (empty_db 7))"

definition with_mead :: db where
  "with_mead = snd (create_mead sample_oslo (user_ctx ''t1'') sample_mead_req with_vim)"

definition with_mea :: db where
  "with_mea = snd (create_mea_pre sample_oslo (user_ctx ''t1'') sample_mea_req with_mead)"

definition with_nsd :: db where
  "with_nsd = snd (create_nsd sample_oslo (user_ctx ''t1'') sample_nsd_req with_vim)"

definition with_ns :: db where
  "with_ns = snd (create_ns sample_oslo (user_ctx ''t1'') sample_ns_req with_nsd)"

lemma reachable_empty: "reachable sample_oslo (empty_db 7)"
  by (rule start) simp

lemma reachable_with_vim: "reachable sample_oslo with_vim"
  unfolding with_vim_def by (rule stepped [OF reachable_empty step_create_vim])

lemma reachable_with_mead: "reachable sample_oslo with_mead"
  unfolding with_mead_def by (rule stepped [OF reachable_with_vim step_create_mead])

lemma reachable_with_mea: "reachable sample_oslo with_mea"
  unfolding with_mea_def by (rule stepped [OF reachable_with_mead step_create_mea_pre])

lemma reachable_with_nsd: "reachable sample_oslo with_nsd"
  unfolding with_nsd_def by (rule stepped [OF reachable_with_vim step_create_nsd])

lemma reachable_with_ns: "reachable sample_oslo with_ns"
  unfolding with_ns_def by (rule stepped [OF reachable_with_nsd step_create_ns])

text \<open>The states the histories lead to, for evaluation.\<close>

lemma with_vim_val [code]: "with_vim =
     \<lparr>t_meads = [], t_service_types = [], t_mead_attrs = [], t_meas = [], t_mea_attrs = [],
     t_vims = [\<lparr>vm_id = ''00000000000000000000000000000100'', vm_type = ''openstack'',
     vm_tenant_id = ''t1'', vm_name = ''v'', vm_description = None, vm_placement_attr = [],
     vm_shared = False, vm_is_default = True, vm_status = ''PENDING'', vm_created_at = 7,
     vm_updated_at = None, vm_deleted_at = Some 0\<rparr>], t_vim_auths = [\<lparr>va_id =
     ''00000000000000000000000000000000'', va_vim_id = ''00000000000000000000000000000100'',
     va_password = ''pw'', va_auth_url = ''http'', va_vim_project = [(''name'', PStr ''p'')],
     va_auth_cred = [(''username'', PStr ''u'')]\<rparr>], t_nsds = [], t_nsd_attrs = [], t_nss =
     [], t_events = [\<lparr>ev_resource_id = ''00000000000000000000000000000100'',
     ev_resource_state = ''PENDING'', ev_resource_type = RES_TYPE_VIM, ev_timestamp = 7,
     ev_event_type = RES_EVT_CREATE, ev_event_details = []\<rparr>], clock = 7, uuid_count =
     1\<rparr>"
  by code_simp

lemma with_mead_val [code]: "with_mead =
     \<lparr>t_meads = [\<lparr>md_id = ''00000000000000000000000000000001'', md_tenant_id = ''t1'',
     md_name = ''m'', md_description = None, md_mgmt_driver = None, md_template_source = Some
     ''onboarded'', md_created_at = 7, md_updated_at = None, md_deleted_at = Some 0\<rparr>],
     t_service_types = [\<lparr>st_id = ''00000000000000000000000000000003'', st_tenant_id = ''t1'',
     st_mead_id = ''00000000000000000000000000000001'', st_service_type = PStr ''mead''\<rparr>],
     t_mead_attrs = [\<lparr>mda_id = ''00000000000000000000000000000002'', mda_mead_id =
     ''00000000000000000000000000000001'', mda_key = ''mead'', mda_value = PStr ''x''\<rparr>],
     t_meas = [], t_mea_attrs = [], t_vims = [\<lparr>vm_id = ''00000000000000000000000000000100'',
     vm_type = ''openstack'', vm_tenant_id = ''t1'', vm_name = ''v'', vm_description = None,
     vm_placement_attr = [], vm_shared = False, vm_is_default = True, vm_status = ''PENDING'',
     vm_created_at = 7, vm_updated_at = None, vm_deleted_at = Some 0\<rparr>], t_vim_auths =
     [\<lparr>va_id = ''00000000000000000000000000000000'', va_vim_id =
     ''00000000000000000000000000000100'', va_password = ''pw'', va_auth_url = ''http'',
     va_vim_project = [(''name'', PStr ''p'')], va_auth_cred = [(''username'', PStr
     ''u'')]\<rparr>], t_nsds = [], t_nsd_attrs = [], t_nss = [], t_events = [\<lparr>ev_resource_id
     = ''00000000000000000000000000000100'', ev_resource_state = ''PENDING'', ev_resource_type =
     RES_TYPE_VIM, ev_timestamp = 7, ev_event_type = RES_EVT_CREATE, ev_event_details = []\<rparr>,
     \<lparr>ev_resource_id = ''00000000000000000000000000000001'', ev_resource_state =
     ''OnBoarded'', ev_resource_type = RES_TYPE_MEAD, ev_timestamp = 7, ev_event_type =
     RES_EVT_CREATE, ev_event_details = []\<rparr>], clock = 7, uuid_count = 4\<rparr>"
  by code_simp

lemma with_mea_val [code]: "with_mea =
     \<lparr>t_meads = [\<lparr>md_id = ''00000000000000000000000000000001'', md_tenant_id = ''t1'',
     md_name = ''m'', md_description = None, md_mgmt_driver = None, md_template_source = Some
     ''onboarded'', md_created_at = 7, md_updated_at = None, md_deleted_at = Some 0\<rparr>],
     t_service_types = [\<lparr>st_id = ''00000000000000000000000000000003'', st_tenant_id = ''t1'',
     st_mead_id = ''00000000000000000000000000000001'', st_service_type = PStr ''mead''\<rparr>],
     t_mead_attrs = [\<lparr>mda_id = ''00000000000000000000000000000002'', mda_mead_id =
     ''00000000000000000000000000000001'', mda_key = ''mead'', mda_value = PStr ''x''\<rparr>],
     t_meas = [\<lparr>ma_id = ''00000000000000000000000000000004'', ma_tenant_id = ''t1'', ma_name
     = ''a'', ma_mead_id = ''00000000000000000000000000000001'', ma_description = None,
     ma_instance_id = None, ma_mgmt_url = None, ma_status = PENDING_CREATE, ma_vim_id =
     ''00000000000000000000000000000100'', ma_placement_attr = [], ma_error_reason = None,
     ma_created_at = 7, ma_updated_at = None, ma_deleted_at = Some 0\<rparr>], t_mea_attrs =
     [\<lparr>maa_id = ''00000000000000000000000000000005'', maa_mea_id =
     ''00000000000000000000000000000004'', maa_key = ''config'', maa_value = PStr ''c''\<rparr>],
     t_vims = [\<lparr>vm_id = ''00000000000000000000000000000100'', vm_type = ''openstack'',
     vm_tenant_id = ''t1'', vm_name = ''v'', vm_description = None, vm_placement_attr = [],
     vm_shared = False, vm_is_default = True, vm_status = ''PENDING'', vm_created_at = 7,
     vm_updated_at = None, vm_deleted_at = Some 0\<rparr>], t_vim_auths = [\<lparr>va_id =
     ''00000000000000000000000000000000'', va_vim_id = ''00000000000000000000000000000100'',
     va_password = ''pw'', va_auth_url = ''http'', va_vim_project = [(''name'', PStr ''p'')],
     va_auth_cred = [(''username'', PStr ''u'')]\<rparr>], t_nsds = [], t_nsd_attrs = [], t_nss =
     [], t_events = [\<lparr>ev_resource_id = ''00000000000000000000000000000100'',
     ev_resource_state = ''PENDING'', ev_resource_type = RES_TYPE_VIM, ev_timestamp = 7,
     ev_event_type = RES_EVT_CREATE, ev_event_details = []\<rparr>, \<lparr>ev_resource_id =
     ''00000000000000000000000000000001'', ev_resource_state = ''OnBoarded'', ev_resource_type =
     RES_TYPE_MEAD, ev_timestamp = 7, ev_event_type = RES_EVT_CREATE, ev_event_details = []\<rparr>,
     \<lparr>ev_resource_id = ''00000000000000000000000000000004'', ev_resource_state =
     ''PENDING_CREATE'', ev_resource_type = RES_TYPE_MEA, ev_timestamp = 7, ev_event_type =
     RES_EVT_CREATE, ev_event_details = ''MEA UUID assigned.''\<rparr>], clock = 7, uuid_count =
     6\<rparr>"
  by code_simp

lemma with_nsd_val [code]: "with_nsd =
     \<lparr>t_meads = [], t_service_types = [], t_mead_attrs = [], t_meas = [], t_mea_attrs = [],
     t_vims = [\<lparr>vm_id = ''00000000000000000000000000000100'', vm_type = ''openstack'',
     vm_tenant_id = ''t1'', vm_name = ''v'', vm_description = None, vm_placement_attr = [],
     vm_shared = False, vm_is_default = True, vm_status = ''PENDING'', vm_created_at = 7,
     vm_updated_at = None, vm_deleted_at = Some 0\<rparr>], t_vim_auths = [\<lparr>va_id =
     ''00000000000000000000000000000000'', va_vim_id = ''00000000000000000000000000000100'',
     va_password = ''pw'', va_auth_url = ''http'', va_vim_project = [(''name'', PStr ''p'')],
     va_auth_cred = [(''username'', PStr ''u'')]\<rparr>], t_nsds = [\<lparr>nd_id =
     ''00000000000000000000000000000001'', nd_tenant_id = ''t1'', nd_name = ''nsd'', nd_description
     = None, nd_meads = [], nd_template_source = Some ''onboarded'', nd_created_at = 7,
     nd_updated_at = None, nd_deleted_at = Some 0\<rparr>], t_nsd_attrs = [], t_nss = [], t_events =
     [\<lparr>ev_resource_id = ''00000000000000000000000000000100'', ev_resource_state =
     ''PENDING'', ev_resource_type = RES_TYPE_VIM, ev_timestamp = 7, ev_event_type = RES_EVT_CREATE,
     ev_event_details = []\<rparr>, \<lparr>ev_resource_id = ''00000000000000000000000000000001'',
     ev_resource_state = ''OnBoarded'', ev_resource_type = RES_TYPE_NSD, ev_timestamp = 7,
     ev_event_type = RES_EVT_CREATE, ev_event_details = []\<rparr>], clock = 7, uuid_count =
     2\<rparr>"
  by code_simp

lemma with_ns_val [code]: "with_ns =
     \<lparr>t_meads = [], t_service_types = [], t_mead_attrs = [], t_meas = [], t_mea_attrs = [],
     t_vims = [\<lparr>vm_id = ''00000000000000000000000000000100'', vm_type = ''openstack'',
     vm_tenant_id = ''t1'', vm_name = ''v'', vm_description = None, vm_placement_attr = [],
     vm_shared = False, vm_is_default = True, vm_status = ''PENDING'', vm_created_at = 7,
     vm_updated_at = None, vm_deleted_at = Some 0\<rparr>], t_vim_auths = [\<lparr>va_id =
     ''00000000000000000000000000000000'', va_vim_id = ''00000000000000000000000000000100'',
     va_password = ''pw'', va_auth_url = ''http'', va_vim_project = [(''name'', PStr ''p'')],
     va_auth_cred = [(''username'', PStr ''u'')]\<rparr>], t_nsds = [\<lparr>nd_id =
     ''00000000000000000000000000000001'', nd_tenant_id = ''t1'', nd_name = ''nsd'', nd_description
     = None, nd_meads = [], nd_template_source = Some ''onboarded'', nd_created_at = 7,
     nd_updated_at = None, nd_deleted_at = Some 0\<rparr>], t_nsd_attrs = [], t_nss = [\<lparr>ns_id
     = ''00000000000000000000000000000002'', ns_tenant_id = ''t1'', ns_nsd_id =
     ''00000000000000000000000000000001'', ns_name = ''ns'', ns_description = None, ns_mea_ids =
     None, ns_mgmt_urls = None, ns_status = PENDING_CREATE, ns_vim_id =
     ''00000000000000000000000000000100'', ns_error_reason = None, ns_created_at = 7, ns_updated_at
     = None, ns_deleted_at = Some 0\<rparr>], t_events = [\<lparr>ev_resource_id =
     ''00000000000000000000000000000100'', ev_resource_state = ''PENDING'', ev_resource_type =
     RES_TYPE_VIM, ev_timestamp = 7, ev_event_type = RES_EVT_CREATE, ev_event_details = []\<rparr>,
     \<lparr>ev_resource_id = ''00000000000000000000000000000001'', ev_resource_state =
     ''OnBoarded'', ev_resource_type = RES_TYPE_NSD, ev_timestamp = 7, ev_event_type =
     RES_EVT_CREATE, ev_event_details = []\<rparr>, \<lparr>ev_resource_id =
     ''00000000000000000000000000000002'', ev_resource_state = ''PENDING_CREATE'', ev_resource_type
     = RES_TYPE_NS, ev_timestamp = 7, ev_event_type = RES_EVT_CREATE, ev_event_details = ''NS UUID assigned.''\<rparr>], clock = 7, uuid_count = 3\<rparr>"
  by code_simp

lemma with_mea_live: "mea_state with_mea (sample_uuid 4) = Live PENDING_CREATE"
  by code_simp

end
