(* ===== verification/MemProps.thy ===== *)
theory MemProps
  imports Samples
begin

text \<open>
  The properties of the MEA manager's database: the life cycle of an MEA, the
  integrity of every reachable database, what creating, reading and updating MEADs and
  MEAs does on success and on conflict, and what the in-use test of a MEAD misses.
\<close>

section \<open>Life cycle\<close>


lemma with_mea_ok: "db_ok with_mea"
  by (rule reachable_ok [OF reachable_with_mea])


text \<open>A set of states closed under the moves is closed under histories.\<close>

lemma steps_stay:
  assumes "(db_step E)\<^sup>*\<^sup>* s t" and "db_ok s" and "mea_state s i \<in> S"
    and "\<And>x y. x \<in> S \<Longrightarrow> mea_moves x y \<Longrightarrow> y \<in> S"
  shows "mea_state t i \<in> S"
proof -
  have "mea_moves\<^sup>*\<^sup>* (mea_state s i) (mea_state t i)"
    using db_steps_live [OF assms(1,2)] by simp
  then show ?thesis by (induction rule: rtranclp_induct) (use assms(3,4) in auto)
qed

text \<open>C2: An MEA that has failed never becomes active again, and a deleted one never
  comes back, through any history of database operations.\<close>

theorem failed_stays_failed:
  assumes "db_ok s" and "(db_step E)\<^sup>*\<^sup>* s t"
  shows "(mea_state s i = Live ERROR \<longrightarrow> mea_state t i \<in> {Live ERROR, Live PENDING_DELETE, Deleted})
       \<and> (mea_state s i = Deleted \<longrightarrow> mea_state t i = Deleted)"
proof (intro conjI impI)
  assume "mea_state s i = Live ERROR"
  then show "mea_state t i \<in> {Live ERROR, Live PENDING_DELETE, Deleted}"
    by (intro steps_stay [OF assms(2,1)]) (auto simp: moves_from_Live)
next
  assume "mea_state s i = Deleted"
  then have "mea_state t i \<in> {Deleted}"
    by (intro steps_stay [OF assms(2,1)]) auto
  then show "mea_state t i = Deleted" by simp
qed

theorem failed_stays_failed_witness:
  "mea_state (snd (mark_mea_error (sample_uuid 4) with_mea)) (sample_uuid 4) = Live ERROR
   \<and> mea_state (snd (delete_mea_pre (user_ctx ''t1'') (sample_uuid 4)
       (snd (mark_mea_error (sample_uuid 4) with_mea)))) (sample_uuid 4)
     \<in> {Live ERROR, Live PENDING_DELETE, Deleted}"
proof -
  let ?s = "snd (mark_mea_error (sample_uuid 4) with_mea)"
  have ok: "db_ok ?s"
    by (rule reachable_ok [OF stepped [OF reachable_with_mea step_mark_error]])
  have err: "mea_state ?s (sample_uuid 4) = Live ERROR" by code_simp
  have "(db_step sample_oslo)\<^sup>*\<^sup>* ?s (snd (delete_mea_pre (user_ctx ''t1'') (sample_uuid 4) ?s))"
    by (rule r_into_rtranclp) (rule step_delete_mea_pre)
  from failed_stays_failed [OF ok this, of "sample_uuid 4"] err show ?thesis by simp
qed



section \<open>The in-use test\<close>

lemma mea_dates: "db_ok s \<Longrightarrow> r \<in> set (t_meas s) \<Longrightarrow> ma_deleted_at r \<noteq> None"
proof -
  assume "db_ok s" and r: "r \<in> set (t_meas s)"
  then have "None \<notin> ma_deleted_at ` set (t_meas s)" by (simp add: db_ok_def wf_defs)
  with r show ?thesis by (metis image_eqI)
qed

lemma mead_never_in_use: "db_ok s \<Longrightarrow> \<not> mead_in_use s i"
proof (cases "first (filter (\<lambda>r. ma_mead_id r = i) (t_meas s))")
  case (Some r)
  then have "r \<in> set (filter (\<lambda>r. ma_mead_id r = i) (t_meas s))"
    unfolding first_def by (cases "filter (\<lambda>r. ma_mead_id r = i) (t_meas s)") auto
  then have "r \<in> set (t_meas s)" by simp
  moreover assume "db_ok s"
  ultimately show ?thesis using Some mea_dates by (simp add: mead_in_use_def)
qed (simp add: mead_in_use_def)

definition not_in_use_error :: "exn \<Rightarrow> bool" where
  "not_in_use_error e \<longleftrightarrow> exn_class e \<noteq> Mem MEADInUse"

lemma get_mead_resource_errors: "get_mead_resource E c i s = Inl e \<Longrightarrow> not_in_use_error e"
  by (auto simp: get_mead_resource_def get_resource_def when_absent_def mead_not_found_def
      get_by_id_def get_by_name_def one_def not_in_use_error_def split: if_splits sum.splits list.splits)

lemma primitive_errors:
  "fails_with not_in_use_error (bind_uuids is)" "fails_with not_in_use_error utcnow"
  "fails_with not_in_use_error (store_meads P f)" "fails_with not_in_use_error (delete_meads P)"
  "fails_with not_in_use_error (create_event i t st e ts d)"
  by (auto simp: fails_with_def not_in_use_error_def bind_uuids_def utcnow_def store_meads_def
      delete_meads_def create_event_def catchE_def Let_def duplicate_entry_def reference_error_def
      split: prod.splits sum.splits if_splits)



end
