(* ===== verification/MemFunc.thy ===== *)
theory MemFunc
  imports MemProps
begin

text \<open>
  What the operations of the MEA manager's database return and store: creating a MEAD
  or an MEA and reading it back, the refusal of a second one of the same name, and the
  attributes an update leaves behind.
\<close>

section \<open>Fresh identifiers\<close>

text \<open>The next \<open>k\<close> identifiers are distinct well-formed UUIDs that no row has.\<close>

definition used_ids :: "'x db_scheme \<Rightarrow> string list" where
  "used_ids s = map md_id (t_meads s) @ map mda_id (t_mead_attrs s) @ map st_id (t_service_types s)
     @ map ma_id (t_meas s) @ map maa_id (t_mea_attrs s)"

definition fresh_ids :: "oslo \<Rightarrow> nat \<Rightarrow> 'x db_scheme \<Rightarrow> bool" where
  "fresh_ids E k s \<longleftrightarrow> (let new = map (gen_uuid E) [uuid_count s ..< uuid_count s + k] in
     distinct new \<and> list_all uuid_ok new \<and> list_all (is_uuid_like E) new
     \<and> list_all (\<lambda>i. \<not> List.member (used_ids s) i) new)"

lemma fresh_idsD:
  assumes "fresh_ids E k s" and "uuid_count s \<le> n" "n < uuid_count s + k"
  shows "uuid_ok (gen_uuid E n)" "is_uuid_like E (gen_uuid E n)"
    "gen_uuid E n \<notin> set (used_ids s)"
  using assms by (auto simp: fresh_ids_def list_all_iff)

lemma fresh_ids_inj:
  assumes "fresh_ids E k s" and "uuid_count s \<le> n" "n < uuid_count s + k"
    and "uuid_count s \<le> m" "m < uuid_count s + k" and "gen_uuid E n = gen_uuid E m"
  shows "n = m"
proof -
  have "inj_on (gen_uuid E) {uuid_count s ..< uuid_count s + k}"
    using assms(1) by (simp add: fresh_ids_def Let_def distinct_map)
  then show ?thesis by (rule inj_onD) (use assms in auto)
qed

section \<open>The loops that insert attribute rows\<close>

fun new_mead_attrs :: "oslo \<Rightarrow> string \<Rightarrow> nat \<Rightarrow> pydict \<Rightarrow> mead_attr_row list" where
  "new_mead_attrs E i n [] = []"
| "new_mead_attrs E i n ((k, v) # kvs) =
     \<lparr>mda_id = gen_uuid E n, mda_mead_id = i, mda_key = k, mda_value = v\<rparr> # new_mead_attrs E i (Suc n) kvs"

fun new_mea_attrs :: "oslo \<Rightarrow> string \<Rightarrow> nat \<Rightarrow> pydict \<Rightarrow> mea_attr_row list" where
  "new_mea_attrs E i n [] = []"
| "new_mea_attrs E i n ((k, v) # kvs) =
     \<lparr>maa_id = gen_uuid E n, maa_mea_id = i, maa_key = k, maa_value = v\<rparr> # new_mea_attrs E i (Suc n) kvs"

fun new_service_types :: "oslo \<Rightarrow> string \<Rightarrow> string \<Rightarrow> nat \<Rightarrow> pyval list \<Rightarrow> service_type_row list" where
  "new_service_types E ten i n [] = []"
| "new_service_types E ten i n (v # vs) =
     \<lparr>st_id = gen_uuid E n, st_tenant_id = ten, st_mead_id = i, st_service_type = v\<rparr>
     # new_service_types E ten i (Suc n) vs"

lemma map_new_mead_attrs: "map (\<lambda>a. (mda_key a, mda_value a)) (new_mead_attrs E i n kvs) = kvs"
  by (induction E i n kvs rule: new_mead_attrs.induct) auto

lemma owner_new_mead_attrs: "a \<in> set (new_mead_attrs E i n kvs) \<Longrightarrow> mda_mead_id a = i"
  by (induction E i n kvs rule: new_mead_attrs.induct) auto

lemma map_new_mea_attrs: "map (\<lambda>a. (maa_key a, maa_value a)) (new_mea_attrs E i n kvs) = kvs"
  by (induction E i n kvs rule: new_mea_attrs.induct) auto

lemma owner_new_mea_attrs: "a \<in> set (new_mea_attrs E i n kvs) \<Longrightarrow> maa_mea_id a = i"
  by (induction E i n kvs rule: new_mea_attrs.induct) auto

lemma map_new_service_types: "map st_service_type (new_service_types E ten i n vs) = vs"
  by (induction E ten i n vs rule: new_service_types.induct) auto

lemma owner_new_service_types: "a \<in> set (new_service_types E ten i n vs) \<Longrightarrow> st_mead_id a = i"
  by (induction E ten i n vs rule: new_service_types.induct) auto

text \<open>The identifiers \<open>n, n+1, ..., n+k-1\<close> are good for a table whose ids are \<open>taken\<close>.\<close>

definition good_ids :: "oslo \<Rightarrow> nat \<Rightarrow> nat \<Rightarrow> string set \<Rightarrow> bool" where
  "good_ids E n k taken \<longleftrightarrow> (\<forall>m. n \<le> m \<and> m < n + k \<longrightarrow> uuid_ok (gen_uuid E m) \<and> gen_uuid E m \<notin> taken)
     \<and> (\<forall>m m'. n \<le> m \<and> m < m' \<and> m' < n + k \<longrightarrow> gen_uuid E m \<noteq> gen_uuid E m')"

lemma good_ids_Suc:
  assumes "good_ids E n (Suc k) taken"
  shows "uuid_ok (gen_uuid E n) \<and> gen_uuid E n \<notin> taken \<and> good_ids E (Suc n) k (insert (gen_uuid E n) taken)"
proof -
  have ok: "uuid_ok (gen_uuid E m) \<and> gen_uuid E m \<notin> taken" if "n \<le> m" "m < n + Suc k" for m
    using assms that by (simp add: good_ids_def)
  have ne: "gen_uuid E m \<noteq> gen_uuid E m'" if "n \<le> m" "m < m'" "m' < n + Suc k" for m m'
    using assms that by (simp add: good_ids_def)
  have "good_ids E (Suc n) k (insert (gen_uuid E n) taken)"
    unfolding good_ids_def
  proof (intro conjI allI impI)
    fix m assume m: "Suc n \<le> m \<and> m < Suc n + k"
    then show "uuid_ok (gen_uuid E m)" using ok [of m] by simp
    from m ok [of m] ne [of n m] show "gen_uuid E m \<notin> insert (gen_uuid E n) taken" by auto
  next
    fix m m' assume "Suc n \<le> m \<and> m < m' \<and> m' < Suc n + k"
    then show "gen_uuid E m \<noteq> gen_uuid E m'" by (intro ne) auto
  qed
  with ok [of n] show ?thesis by simp
qed

lemma fresh_good:
  assumes "fresh_ids E k s" and "taken \<subseteq> set (used_ids s)" and "j + l \<le> k"
  shows "good_ids E (uuid_count s + j) l taken"
  unfolding good_ids_def
proof (intro conjI allI impI)
  fix m assume m: "uuid_count s + j \<le> m \<and> m < uuid_count s + j + l"
  with assms(3) have r: "uuid_count s \<le> m" "m < uuid_count s + k" by simp_all
  show "uuid_ok (gen_uuid E m)" by (rule fresh_idsD(1) [OF assms(1) r])
  show "gen_uuid E m \<notin> taken" using fresh_idsD(3) [OF assms(1) r] assms(2) by blast
next
  fix m m' assume m: "uuid_count s + j \<le> m \<and> m < m' \<and> m' < uuid_count s + j + l"
  with assms(3) fresh_ids_inj [OF assms(1), of m m'] show "gen_uuid E m \<noteq> gen_uuid E m'"
    by (cases "gen_uuid E m = gen_uuid E m'") auto
qed

lemma create_mead_attrs_loop:
  assumes "good_ids E (uuid_count s) (length kvs) (mda_id ` set (t_mead_attrs s))"
    and "uuid_ok i" and "i \<in> md_id ` set (t_meads s)"
  shows "forE kvs (\<lambda>(k, v). bindE (generate_uuid E) (\<lambda>j.
             insert_mead_attr \<lparr>mda_id = j, mda_mead_id = i, mda_key = k, mda_value = v\<rparr>)) s
    = (Inr (), s\<lparr>t_mead_attrs := t_mead_attrs s @ new_mead_attrs E i (uuid_count s) kvs,
                uuid_count := uuid_count s + length kvs\<rparr>)"
  using assms
proof (induction kvs arbitrary: s)
  case Nil
  then show ?case by simp
next
  case (Cons kv kvs)
  obtain k v where kv: "kv = (k, v)" by (cases kv)
  let ?n = "uuid_count s"
  let ?r = "\<lparr>mda_id = gen_uuid E ?n, mda_mead_id = i, mda_key = k, mda_value = v\<rparr>"
  let ?s = "s\<lparr>t_mead_attrs := t_mead_attrs s @ [?r], uuid_count := Suc ?n\<rparr>"
  have n: "uuid_ok (gen_uuid E ?n)" "gen_uuid E ?n \<notin> mda_id ` set (t_mead_attrs s)"
    "good_ids E (Suc ?n) (length kvs) (insert (gen_uuid E ?n) (mda_id ` set (t_mead_attrs s)))"
    using good_ids_Suc Cons.prems(1) by auto
  let ?m = "bindE (generate_uuid E) (\<lambda>j.
      insert_mead_attr \<lparr>mda_id = j, mda_mead_id = i, mda_key = k, mda_value = v\<rparr>)"
  have step: "?m s = (Inr (), ?s)"
    using n Cons.prems(2,3)
    by (simp add: generate_uuid_def bindE_def insert_mead_attr_def bind_uuids_def list_ex_key)
  have "good_ids E (uuid_count ?s) (length kvs) (mda_id ` set (t_mead_attrs ?s))"
    using n(3) by simp
  note IH = Cons.IH [OF this]
  let ?F = "(\<lambda>(k, v). bindE (generate_uuid E) (\<lambda>j.
             insert_mead_attr \<lparr>mda_id = j, mda_mead_id = i, mda_key = k, mda_value = v\<rparr>))"
  have first: "forE (kv # kvs) ?F s = forE kvs ?F ?s"
    by (simp only: forE.simps kv prod.case, rule thenE_Inr, rule step)
  have "forE kvs ?F ?s = (Inr (), ?s\<lparr>t_mead_attrs := t_mead_attrs ?s @ new_mead_attrs E i (uuid_count ?s) kvs,
      uuid_count := uuid_count ?s + length kvs\<rparr>)"
    by (rule IH) (use Cons.prems in simp_all)
  then show ?case unfolding first by (simp add: kv)
qed

lemma create_mea_attrs_loop:
  assumes "good_ids E (uuid_count s) (length kvs) (maa_id ` set (t_mea_attrs s))"
    and "uuid_ok i" and "i \<in> ma_id ` set (t_meas s)"
  shows "forE kvs (\<lambda>(k, v). bindE (generate_uuid E) (\<lambda>j.
             insert_mea_attr \<lparr>maa_id = j, maa_mea_id = i, maa_key = k, maa_value = v\<rparr>)) s
    = (Inr (), s\<lparr>t_mea_attrs := t_mea_attrs s @ new_mea_attrs E i (uuid_count s) kvs,
                uuid_count := uuid_count s + length kvs\<rparr>)"
  using assms
proof (induction kvs arbitrary: s)
  case Nil
  then show ?case by simp
next
  case (Cons kv kvs)
  obtain k v where kv: "kv = (k, v)" by (cases kv)
  let ?n = "uuid_count s"
  let ?r = "\<lparr>maa_id = gen_uuid E ?n, maa_mea_id = i, maa_key = k, maa_value = v\<rparr>"
  let ?s = "s\<lparr>t_mea_attrs := t_mea_attrs s @ [?r], uuid_count := Suc ?n\<rparr>"
  have n: "uuid_ok (gen_uuid E ?n)" "gen_uuid E ?n \<notin> maa_id ` set (t_mea_attrs s)"
    "good_ids E (Suc ?n) (length kvs) (insert (gen_uuid E ?n) (maa_id ` set (t_mea_attrs s)))"
    using good_ids_Suc Cons.prems(1) by auto
  let ?m = "bindE (generate_uuid E) (\<lambda>j.
      insert_mea_attr \<lparr>maa_id = j, maa_mea_id = i, maa_key = k, maa_value = v\<rparr>)"
  have step: "?m s = (Inr (), ?s)"
    using n Cons.prems(2,3)
    by (simp add: generate_uuid_def bindE_def insert_mea_attr_def bind_uuids_def list_ex_key)
  have "good_ids E (uuid_count ?s) (length kvs) (maa_id ` set (t_mea_attrs ?s))"
    using n(3) by simp
  note IH = Cons.IH [OF this]
  let ?F = "(\<lambda>(k, v). bindE (generate_uuid E) (\<lambda>j.
             insert_mea_attr \<lparr>maa_id = j, maa_mea_id = i, maa_key = k, maa_value = v\<rparr>))"
  have first: "forE (kv # kvs) ?F s = forE kvs ?F ?s"
    by (simp only: forE.simps kv prod.case, rule thenE_Inr, rule step)
  have "forE kvs ?F ?s = (Inr (), ?s\<lparr>t_mea_attrs := t_mea_attrs ?s @ new_mea_attrs E i (uuid_count ?s) kvs,
      uuid_count := uuid_count ?s + length kvs\<rparr>)"
    by (rule IH) (use Cons.prems in simp_all)
  then show ?case unfolding first by (simp add: kv)
qed

lemma create_service_types_loop:
  assumes "good_ids E (uuid_count s) (length items) (st_id ` set (t_service_types s))"
    and "uuid_ok i" and "i \<in> md_id ` set (t_meads s)"
    and "map service_type_of items = map Inr vs"
  shows "forE items (\<lambda>item. bindE (pureE (service_type_of item)) (\<lambda>st.
               bindE (generate_uuid E) (\<lambda>j. insert_service_type
                 \<lparr>st_id = j, st_tenant_id = ten, st_mead_id = i, st_service_type = st\<rparr>))) s
    = (Inr (), s\<lparr>t_service_types := t_service_types s @ new_service_types E ten i (uuid_count s) vs,
                uuid_count := uuid_count s + length items\<rparr>)"
  using assms
proof (induction items arbitrary: s vs)
  case Nil
  then show ?case by simp
next
  case (Cons item items)
  then obtain v vs' where vs: "vs = v # vs'" and v: "service_type_of item = Inr v"
    and rest: "map service_type_of items = map Inr vs'" by (cases vs) auto
  let ?n = "uuid_count s"
  let ?r = "\<lparr>st_id = gen_uuid E ?n, st_tenant_id = ten, st_mead_id = i, st_service_type = v\<rparr>"
  let ?s = "s\<lparr>t_service_types := t_service_types s @ [?r], uuid_count := Suc ?n\<rparr>"
  have n: "uuid_ok (gen_uuid E ?n)" "gen_uuid E ?n \<notin> st_id ` set (t_service_types s)"
    "good_ids E (Suc ?n) (length items) (insert (gen_uuid E ?n) (st_id ` set (t_service_types s)))"
    using good_ids_Suc Cons.prems(1) by auto
  let ?m = "bindE (pureE (service_type_of item)) (\<lambda>st. bindE (generate_uuid E) (\<lambda>j.
      insert_service_type \<lparr>st_id = j, st_tenant_id = ten, st_mead_id = i, st_service_type = st\<rparr>))"
  have step: "?m s = (Inr (), ?s)"
    using n Cons.prems(2,3) v
    by (simp add: generate_uuid_def bindE_def insert_service_type_def bind_uuids_def list_ex_key)
  have "good_ids E (uuid_count ?s) (length items) (st_id ` set (t_service_types ?s))"
    using n(3) by simp
  note IH = Cons.IH [OF this _ _ rest]
  let ?F = "(\<lambda>item. bindE (pureE (service_type_of item)) (\<lambda>st.
               bindE (generate_uuid E) (\<lambda>j. insert_service_type
                 \<lparr>st_id = j, st_tenant_id = ten, st_mead_id = i, st_service_type = st\<rparr>)))"
  have first: "forE (item # items) ?F s = forE items ?F ?s"
    by (simp only: forE.simps, rule thenE_Inr, rule step)
  have "forE items ?F ?s = (Inr (), ?s\<lparr>t_service_types := t_service_types ?s @ new_service_types E ten i (uuid_count ?s) vs',
      uuid_count := uuid_count ?s + length items\<rparr>)"
    by (rule IH) (use Cons.prems in simp_all)
  then show ?case unfolding first by (simp add: vs)
qed

section \<open>Running the read-only steps\<close>

lemma bind_generate: "bindE (generate_uuid E) k s =
    k (gen_uuid E (uuid_count s)) (s\<lparr>uuid_count := Suc (uuid_count s)\<rparr>)"
  by (simp add: generate_uuid_def bindE_def)

lemma bind_utcnow: "bindE utcnow k s = k (clock s) s"
  by (simp add: utcnow_def bindE_def)

lemma bind_pure: "bindE (pureE (Inr x)) k s = k x s"
  by (simp add: bindE_def)

lemma bind_gets: "bindE (gets f) k s = k (f s) s"
  by (simp add: bindE_def)

lemma bind_read: "f s = Inr x \<Longrightarrow> bindE (readE f) k s = k x s"
  by (simp add: bindE_def)

lemma bind_uuids_ok: "list_all uuid_ok is \<Longrightarrow> thenE (bind_uuids is) m s = m s"
  by (simp add: bind_uuids_def)

lemma tx_Inr: "m s = (Inr x, t) \<Longrightarrow> tx m s = (Inr x, t)"
  by (simp add: tx_def atomically_def)

lemma tx_Inl: "m s = (Inl e, t) \<Longrightarrow> tx m s = (Inl e, rollback s t)"
  by (simp add: tx_def atomically_def)

lemma as_duplicate_Inr: "m s = (Inr x, t) \<Longrightarrow> as_duplicate ty m s = (Inr x, t)"
  by (simp add: as_duplicate_def catchE_def)

lemma as_duplicate_dup:
  "m s = (Inl (duplicate_entry cols), t) \<Longrightarrow>
   as_duplicate ty m s = (Inl (Exc (Common DuplicateEntity) [(''_type'', PStr ty), (''columns'', PList (map PStr cols))]), t)"
  by (simp add: as_duplicate_def catchE_def duplicate_entry_def)

lemmas run_reads = bind_generate bind_utcnow bind_pure bind_gets

section \<open>Creating a MEAD\<close>

lemma dict_set_new: "k \<notin> fst ` set d \<Longrightarrow> dict_set k v d = d @ [(k, v)]"
  by (induction d) auto

lemma dict_update_append: "dict_ok (d @ kvs) \<Longrightarrow> dict_update d kvs = d @ kvs"
proof (induction kvs arbitrary: d)
  case Nil
  then show ?case by (simp add: dict_update_def)
next
  case (Cons kv kvs)
  obtain k v where kv: "kv = (k, v)" by (cases kv)
  with Cons.prems have "dict_set k v d = d @ [kv]" by (simp add: dict_ok_def dict_set_new)
  with Cons kv show ?case by (simp add: dict_update_def)
qed

lemma make_attributes_dict_id: "dict_ok kvs \<Longrightarrow> make_attributes_dict kvs = kvs"
  using dict_update_append [of "[]" kvs] by (simp add: make_attributes_dict_def)

definition new_mead_row :: "oslo \<Rightarrow> string \<Rightarrow> mead_req \<Rightarrow> 'x db_scheme \<Rightarrow> mead_row" where
  "new_mead_row E ten req s = \<lparr>md_id = gen_uuid E (uuid_count s), md_tenant_id = ten,
     md_name = dr_name req, md_description = dr_description req, md_mgmt_driver = dr_mgmt_driver req,
     md_template_source = (case dr_template_source req of None \<Rightarrow> Some ''onboarded'' | Some t \<Rightarrow> Some t),
     md_created_at = clock s, md_updated_at = None, md_deleted_at = Some datetime_min\<rparr>"

definition after_create_mead :: "oslo \<Rightarrow> string \<Rightarrow> mead_req \<Rightarrow> pyval list \<Rightarrow> 'x db_scheme \<Rightarrow> 'x db_scheme" where
  "after_create_mead E ten req vs s = (let n = uuid_count s; i = gen_uuid E n; l = length (dr_attributes req) in
     s\<lparr>t_meads := t_meads s @ [new_mead_row E ten req s],
       t_mead_attrs := t_mead_attrs s @ new_mead_attrs E i (Suc n) (dr_attributes req),
       t_service_types := t_service_types s @ new_service_types E ten i (Suc n + l) vs,
       uuid_count := Suc n + l + length vs\<rparr>)"

lemma create_mead_tx_ok:
  assumes fresh: "fresh_ids E (Suc (length (dr_attributes req) + length items)) s"
    and items: "dr_service_types req = PList items" "map service_type_of items = map Inr vs"
    and name: "(ten, dr_name req, Some datetime_min) \<notin> mead_unique ` set (t_meads s)"
  shows "create_mead_tx E (Some ten) req s = (Inr (new_mead_row E ten req s), after_create_mead E ten req vs s)"
proof -
  let ?n = "uuid_count s" and ?l = "length (dr_attributes req)"
  let ?i = "gen_uuid E ?n" and ?r = "new_mead_row E ten req s"
  let ?s1 = "s\<lparr>uuid_count := Suc ?n\<rparr>"
  let ?s2 = "?s1\<lparr>t_meads := t_meads s @ [?r]\<rparr>"
  let ?s3 = "?s2\<lparr>t_mead_attrs := t_mead_attrs s @ new_mead_attrs E ?i (Suc ?n) (dr_attributes req),
      uuid_count := Suc ?n + ?l\<rparr>"
  have len: "length vs = length items" using items(2) by (metis length_map)
  have i: "uuid_ok ?i" "?i \<notin> md_id ` set (t_meads s)"
    using fresh_idsD(1,3) [OF fresh, of ?n] by (auto simp: used_ids_def)
  have u: "mead_unique ?r = (ten, dr_name req, Some datetime_min)" "md_id ?r = ?i"
    by (simp_all add: new_mead_row_def mead_unique_def)
  have insert: "insert_mead ?r ?s1 = (Inr (), ?s2)"
    using i name by (simp add: insert_mead_def bind_uuids_def list_ex_key2 u)
  have g1: "good_ids E (uuid_count ?s2) ?l (mda_id ` set (t_mead_attrs ?s2))"
    using fresh_good [OF fresh, of "mda_id ` set (t_mead_attrs s)" 1 ?l]
    by (auto simp: used_ids_def image_Un)
  have g2: "good_ids E (uuid_count ?s3) (length items) (st_id ` set (t_service_types ?s3))"
    using fresh_good [OF fresh, of "st_id ` set (t_service_types s)" "Suc ?l" "length items"]
    by (auto simp: used_ids_def image_Un)
  have here: "?i \<in> md_id ` set (t_meads ?s2)" by (simp add: new_mead_row_def)
  note attrs = create_mead_attrs_loop [OF g1 i(1) here]
  have here': "?i \<in> md_id ` set (t_meads ?s3)" by (simp add: new_mead_row_def)
  note types = create_service_types_loop [OF g2 i(1) here' items(2), of ten]
  have "create_mead_tx E (Some ten) req s = thenE (insert_mead ?r)
         (thenE (forE (dr_attributes req) (\<lambda>(k, v). bindE (generate_uuid E) (\<lambda>j.
             insert_mead_attr \<lparr>mda_id = j, mda_mead_id = ?i, mda_key = k, mda_value = v\<rparr>)))
         (thenE (forE items (\<lambda>item. bindE (pureE (service_type_of item)) (\<lambda>st.
               bindE (generate_uuid E) (\<lambda>j. insert_service_type
                 \<lparr>st_id = j, st_tenant_id = ten, st_mead_id = ?i, st_service_type = st\<rparr>))))
         (ret ?r))) ?s1"
    by (simp add: create_mead_tx_def run_reads not_null_def items(1) new_mead_row_def Let_def
        del: pureE_app)
  also have "\<dots> = thenE (forE (dr_attributes req) (\<lambda>(k, v). bindE (generate_uuid E) (\<lambda>j.
             insert_mead_attr \<lparr>mda_id = j, mda_mead_id = ?i, mda_key = k, mda_value = v\<rparr>)))
         (thenE (forE items (\<lambda>item. bindE (pureE (service_type_of item)) (\<lambda>st.
               bindE (generate_uuid E) (\<lambda>j. insert_service_type
                 \<lparr>st_id = j, st_tenant_id = ten, st_mead_id = ?i, st_service_type = st\<rparr>))))
         (ret ?r)) ?s2"
    by (rule thenE_Inr, rule insert)
  also have "\<dots> = thenE (forE items (\<lambda>item. bindE (pureE (service_type_of item)) (\<lambda>st.
               bindE (generate_uuid E) (\<lambda>j. insert_service_type
                 \<lparr>st_id = j, st_tenant_id = ten, st_mead_id = ?i, st_service_type = st\<rparr>))))
         (ret ?r) ?s3"
    by (rule thenE_Inr, rule trans [OF attrs]) simp
  also have "\<dots> = (Inr ?r, after_create_mead E ten req vs s)"
    by (rule trans [OF thenE_Inr], rule types) (simp add: after_create_mead_def Let_def len)
  finally show ?thesis .
qed

lemma filter_key_absent: "i \<notin> k ` set xs \<Longrightarrow> filter (\<lambda>a. k a = i) xs = []"
  by (induction xs) auto

lemma after_create_mead_dict:
  assumes "db_wf s" and "gen_uuid E (uuid_count s) \<notin> md_id ` set (t_meads s)" and "dict_ok (dr_attributes req)"
  shows "make_mead_dict (after_create_mead E ten req vs s) (new_mead_row E ten req s)
    = \<lparr>dd_id = gen_uuid E (uuid_count s), dd_tenant_id = ten, dd_name = dr_name req,
       dd_description = dr_description req, dd_mgmt_driver = dr_mgmt_driver req,
       dd_created_at = clock s, dd_updated_at = None,
       dd_template_source = (case dr_template_source req of None \<Rightarrow> Some ''onboarded'' | Some t \<Rightarrow> Some t),
       dd_attributes = dr_attributes req, dd_service_types = vs\<rparr>"
proof -
  let ?i = "gen_uuid E (uuid_count s)" and ?t = "after_create_mead E ten req vs s"
  have "?i \<notin> mda_mead_id ` set (t_mead_attrs s)" "?i \<notin> st_mead_id ` set (t_service_types s)"
    using assms(1,2) unfolding wf_defs by auto
  then have "filter (\<lambda>a. mda_mead_id a = ?i) (t_mead_attrs s) = []"
    "filter (\<lambda>a. st_mead_id a = ?i) (t_service_types s) = []"
    by (simp_all add: filter_key_absent)
  then have "mead_attrs ?t ?i = dr_attributes req" "make_service_types_list ?t ?i = vs"
    by (simp_all add: mead_attrs_def make_service_types_list_def after_create_mead_def Let_def
        filter_id_conv owner_new_mead_attrs owner_new_service_types
        map_new_mead_attrs map_new_service_types)
  then show ?thesis
    by (simp add: make_mead_dict_def new_mead_row_def make_attributes_dict_id assms(3))
qed

text \<open>Creating a MEAD stores what was asked for, and reading it back by its id gives
  the dictionary \<open>create_mead\<close> returned.\<close>

lemma create_get_mead:
  assumes wf: "db_wf s"
    and fresh: "fresh_ids E (Suc (length (dr_attributes req) + length items)) s"
    and tenant: "get_tenant_id_for_create c (dr_tenant_id req) = Inr (Some ten)"
    and items: "dr_service_types req = PList items" "map service_type_of items = map Inr vs"
    and attrs: "dict_ok (dr_attributes req)"
    and name: "(ten, dr_name req, Some datetime_min) \<notin> mead_unique ` set (t_meads s)"
  shows "\<exists>d t. create_mead E c req s = (Inr d, t) \<and> dd_name d = dr_name req
    \<and> dd_tenant_id d = ten \<and> dd_attributes d = dr_attributes req \<and> dd_service_types d = vs
    \<and> get_mead E c (dd_id d) t = (Inr d, t)"
proof -
  let ?r = "new_mead_row E ten req s" and ?t = "after_create_mead E ten req vs s"
  let ?i = "gen_uuid E (uuid_count s)" and ?d = "make_mead_dict ?t ?r"
  have i: "uuid_ok ?i" "is_uuid_like E ?i" "?i \<notin> md_id ` set (t_meads s)"
    using fresh_idsD [OF fresh, of "uuid_count s"] by (auto simp: used_ids_def)
  note dict = after_create_mead_dict [OF wf i(3) attrs, of ten vs]
  have own: "is_admin c \<or> tenant_id c = Some ten"
    using tenant by (auto simp: get_tenant_id_for_create_def split: option.splits if_splits)
  define ev where "ev = \<lparr>ev_resource_id = ?i, ev_resource_state = RES_EVT_ONBOARDED,
      ev_resource_type = RES_TYPE_MEAD, ev_timestamp = clock s, ev_event_type = RES_EVT_CREATE,
      ev_event_details = []\<rparr>"
  let ?u = "?t\<lparr>t_events := t_events ?t @ [ev]\<rparr>"
  have "as_duplicate ''mead'' (tx (create_mead_tx E (Some ten) req)) s = (Inr ?r, ?t)"
    by (intro as_duplicate_Inr tx_Inr create_mead_tx_ok [OF fresh items name])
  then have "create_mead E c req s = (Inr ?d, ?u)"
    using i(1) by (simp add: create_mead_def tenant is_attr_set_def items(1) bindE_def thenE_def
        create_event_ok dict ev_def)
  moreover have "get_mead E c (dd_id ?d) ?u = (Inr ?d, ?u)"
  proof -
    have "db_wf ?u"
      using obeysD [OF wf_create_mead, of s E c req] wf calculation by simp
    then have dist: "distinct (map md_id (t_meads ?u))" by (simp add: wf_defs)
    have mem: "?r \<in> set (t_meads ?u)" by (simp add: after_create_mead_def Let_def)
    have vis: "visible c MEAD ?r"
      using own by (auto simp: visible_def in_scope_def not_deleted_def MEAD_def new_mead_row_def)
    have key: "md_id ?r = ?i" by (simp add: new_mead_row_def)
    have "get_by_id c MEAD md_id (t_meads ?u) ?i = Inr ?r"
      using get_by_id_visible [OF dist mem vis] i(1) by (simp add: key)
    moreover have "make_mead_dict ?u ?r = ?d"
      by (simp add: make_mead_dict_def mead_attrs_def make_service_types_list_def)
    ultimately show ?thesis
      using i(2) by (simp add: get_mead_def get_mead_resource_def get_resource_def when_absent_def
          row_or_def dict)
  qed
  ultimately show ?thesis by (intro exI [of _ ?d] exI [of _ ?u]) (simp add: dict)
qed

lemma create_get_mead_witness:
  "\<exists>d t. create_mead sample_oslo (user_ctx ''t1'') sample_mead_req with_vim = (Inr d, t)
    \<and> dd_name d = ''m'' \<and> dd_tenant_id d = ''t1'' \<and> dd_attributes d = [(''mead'', PStr ''x'')]
    \<and> dd_service_types d = [PStr ''mead'']
    \<and> get_mead sample_oslo (user_ctx ''t1'') (dd_id d) t = (Inr d, t)"
proof -
  have wf: "db_wf with_vim" using reachable_ok [OF reachable_with_vim] by (simp add: db_ok_def)
  have "\<exists>d t. create_mead sample_oslo (user_ctx ''t1'') sample_mead_req with_vim = (Inr d, t)
    \<and> dd_name d = dr_name sample_mead_req \<and> dd_tenant_id d = ''t1''
    \<and> dd_attributes d = dr_attributes sample_mead_req \<and> dd_service_types d = [PStr ''mead'']
    \<and> get_mead sample_oslo (user_ctx ''t1'') (dd_id d) t = (Inr d, t)"
  proof (rule create_get_mead [OF wf])
    show "fresh_ids sample_oslo (Suc (length (dr_attributes sample_mead_req)
        + length [PDict [(''service_type'', PStr ''mead'')]])) with_vim" by code_simp
    show "get_tenant_id_for_create (user_ctx ''t1'') (dr_tenant_id sample_mead_req) = Inr (Some ''t1'')"
      by code_simp
    show "dr_service_types sample_mead_req = PList [PDict [(''service_type'', PStr ''mead'')]]"
      by (simp add: sample_mead_req_def)
    show "map service_type_of [PDict [(''service_type'', PStr ''mead'')]] = map Inr [PStr ''mead'']"
      by code_simp
    show "dict_ok (dr_attributes sample_mead_req)" by code_simp
    show "(''t1'', dr_name sample_mead_req, Some datetime_min) \<notin> mead_unique ` set (t_meads with_vim)"
      by code_simp
  qed
  then show ?thesis by (simp add: sample_mead_req_def)
qed

text \<open>A second live MEAD of the same name in the same tenant is refused with
  DuplicateEntity, and the tables stay as they were.\<close>

lemma create_mead_duplicate:
  assumes id: "uuid_ok (gen_uuid E (uuid_count s))"
    and tenant: "get_tenant_id_for_create c (dr_tenant_id req) = Inr (Some ten)"
    and types: "is_attr_set (dr_service_types req)"
    and name: "(ten, dr_name req, Some datetime_min) \<in> mead_unique ` set (t_meads (s :: 'x db_scheme))"
  shows "create_mead E c req s =
    (Inl (Exc (Common DuplicateEntity)
       [(''_type'', PStr ''mead''), (''columns'', PList (map PStr dup_columns))]),
     s\<lparr>uuid_count := Suc (uuid_count s)\<rparr>)"
proof -
  let ?s1 = "s\<lparr>uuid_count := Suc (uuid_count s)\<rparr>" and ?r = "new_mead_row E ten req s"
  have u: "mead_unique ?r = (ten, dr_name req, Some datetime_min)" "md_id ?r = gen_uuid E (uuid_count s)"
    by (simp_all add: new_mead_row_def mead_unique_def)
  have "insert_mead ?r ?s1 = (Inl (duplicate_entry dup_columns), ?s1)"
    using id name by (simp add: insert_mead_def bind_uuids_def list_ex_key2 u)
  then have dup: "thenE (insert_mead ?r) m ?s1 = (Inl (duplicate_entry dup_columns), ?s1)"
    for m :: "('x db_scheme, mead_row) prog" by (rule thenE_Inl)
  have "create_mead_tx E (Some ten) req s = (Inl (duplicate_entry dup_columns), ?s1)"
    unfolding create_mead_tx_def bind_generate not_null_def option.case bind_pure bind_utcnow Let_def
    using dup by (simp add: new_mead_row_def)
  then have "as_duplicate ''mead'' (tx (create_mead_tx E (Some ten) req)) s =
    (Inl (Exc (Common DuplicateEntity)
       [(''_type'', PStr ''mead''), (''columns'', PList (map PStr dup_columns))]), rollback s ?s1)"
    by (intro as_duplicate_dup tx_Inl)
  moreover have "rollback s ?s1 = ?s1" by (simp add: rollback_def)
  ultimately show ?thesis
    using types by (simp add: create_mead_def tenant bindE_def)
qed

lemma create_mead_duplicate_witness:
  "create_mead sample_oslo (user_ctx ''t1'') sample_mead_req with_mea =
    (Inl (Exc (Common DuplicateEntity)
       [(''_type'', PStr ''mead''), (''columns'', PList (map PStr dup_columns))]),
     with_mea\<lparr>uuid_count := Suc (uuid_count with_mea)\<rparr>)"
  by (rule create_mead_duplicate [where ten = "''t1''"]) code_simp+

section \<open>Creating an MEA\<close>

lemma find_distinct:
  "distinct (map k xs) \<Longrightarrow> x \<in> set xs \<Longrightarrow> List.find (\<lambda>y. k y = k x) xs = Some x"
  by (induction xs) (auto simp: rev_image_eqI)

definition new_mea_row :: "oslo \<Rightarrow> string \<Rightarrow> mead_row \<Rightarrow> mea_req \<Rightarrow> 'x db_scheme \<Rightarrow> mea_row" where
  "new_mea_row E ten mead req s = \<lparr>ma_id = gen_uuid E (uuid_count s), ma_tenant_id = ten,
     ma_name = ar_name req, ma_mead_id = ar_mead_id req, ma_description = md_description mead,
     ma_instance_id = None, ma_mgmt_url = None, ma_status = PENDING_CREATE,
     ma_vim_id = ar_vim_id req, ma_placement_attr = ar_placement_attr req, ma_error_reason = None,
     ma_created_at = clock s, ma_updated_at = None, ma_deleted_at = Some datetime_min\<rparr>"

text \<open>Creating an MEA of a visible MEAD on an existing VIM stores it as
  PENDING_CREATE with the requested attributes; reading it back gives the dictionary
  that was returned.\<close>

theorem create_get_mea:
  assumes wf: "db_wf s"
    and fresh: "fresh_ids E (Suc (length (ar_attributes req))) s"
    and tenant: "get_tenant_id_for_create c (ar_tenant_id req) = Inr (Some ten)"
    and attrs: "dict_ok (ar_attributes req)"
    and mead: "mead \<in> set (t_meads s)" "md_id mead = ar_mead_id req" "visible c MEAD mead"
    and ids: "is_uuid_like E (ar_mead_id req)" "uuid_ok (ar_mead_id req)" "uuid_ok (ar_vim_id req)"
    and vim: "ar_vim_id req \<in> vm_id ` set (t_vims s)"
    and name: "(ten, ar_name req, Some datetime_min) \<notin> mea_unique ` set (t_meas s)"
  shows "\<exists>d t. create_mea_pre E c req s = (Inr d, t) \<and> ad_status d = PENDING_CREATE
    \<and> ad_name d = ar_name req \<and> ad_tenant_id d = ten \<and> ad_attributes d = ar_attributes req
    \<and> dd_id (ad_mead d) = ar_mead_id req \<and> ad_instance_id d = None
    \<and> get_mea E c (ad_id d) t = (Inr d, t)"
proof -
  let ?n = "uuid_count s" and ?l = "length (ar_attributes req)"
  let ?i = "gen_uuid E ?n" and ?r = "new_mea_row E ten mead req s"
  let ?s1 = "s\<lparr>uuid_count := Suc ?n\<rparr>"
  let ?s2 = "?s1\<lparr>t_meas := t_meas s @ [?r]\<rparr>"
  let ?s3 = "?s2\<lparr>t_mea_attrs := t_mea_attrs s @ new_mea_attrs E ?i (Suc ?n) (ar_attributes req),
      uuid_count := Suc ?n + ?l\<rparr>"
  have i: "uuid_ok ?i" "is_uuid_like E ?i" "?i \<notin> ma_id ` set (t_meas s)"
    using fresh_idsD [OF fresh, of ?n] by (auto simp: used_ids_def)
  have dist: "distinct (map md_id (t_meads s))" using wf by (simp add: wf_defs)
  have found: "get_by_id c MEAD md_id (t_meads s) (ar_mead_id req) = Inr mead"
    using get_by_id_visible [OF dist mead(1,3)] ids(2) mead(2) by simp
  then have res: "row_or AttributeError (get_mead_resource E c (ar_mead_id req) ?s1) = Inr mead"
    using ids(1) by (simp add: get_mead_resource_def get_resource_def when_absent_def row_or_def)
  have here: "ar_mead_id req \<in> md_id ` set (t_meads s)" using mead(1,2) by (metis image_eqI)
  have u: "mea_unique ?r = (ten, ar_name req, Some datetime_min)" "ma_id ?r = ?i"
    "ma_mead_id ?r = ar_mead_id req" "ma_vim_id ?r = ar_vim_id req"
    by (simp_all add: new_mea_row_def mea_unique_def)
  have insert: "insert_mea ?r ?s1 = (Inr (), ?s2)"
    using i name ids here vim
    by (simp add: insert_mea_def bind_uuids_def list_ex_key2 list_ex_key u)
  have g: "good_ids E (uuid_count ?s2) ?l (maa_id ` set (t_mea_attrs ?s2))"
    using fresh_good [OF fresh, of "maa_id ` set (t_mea_attrs s)" 1 ?l]
    by (auto simp: used_ids_def image_Un)
  have there: "?i \<in> ma_id ` set (t_meas ?s2)" by (simp add: u)
  note loop = create_mea_attrs_loop [OF g i(1) there]
  have "create_mea_tx E c (Some ten) ?i req ?s1 = thenE (insert_mea ?r)
         (thenE (forE (ar_attributes req) (\<lambda>(k, v). bindE (generate_uuid E) (\<lambda>j.
             insert_mea_attr \<lparr>maa_id = j, maa_mea_id = ?i, maa_key = k, maa_value = v\<rparr>)))
         (ret ?r)) ?s1"
    unfolding create_mea_tx_def not_null_def option.case
    by (subst bind_read [where f = "\<lambda>s. row_or AttributeError (get_mead_resource E c (ar_mead_id req) s)", OF res])
       (simp add: run_reads new_mea_row_def Let_def del: pureE_app)
  also have "\<dots> = thenE (forE (ar_attributes req) (\<lambda>(k, v). bindE (generate_uuid E) (\<lambda>j.
             insert_mea_attr \<lparr>maa_id = j, maa_mea_id = ?i, maa_key = k, maa_value = v\<rparr>)))
         (ret ?r) ?s2"
    by (rule thenE_Inr, rule insert)
  also have "\<dots> = (Inr ?r, ?s3)"
    by (rule trans [OF thenE_Inr], rule loop) simp
  finally have tx: "as_duplicate ''mea'' (tx (create_mea_tx E c (Some ten) ?i req)) ?s1 = (Inr ?r, ?s3)"
    by (intro as_duplicate_Inr tx_Inr)
  define ev where "ev = \<lparr>ev_resource_id = ?i, ev_resource_state = status_str PENDING_CREATE,
      ev_resource_type = RES_TYPE_MEA, ev_timestamp = clock s, ev_event_type = RES_EVT_CREATE,
      ev_event_details = ''MEA UUID assigned.''\<rparr>"
  define t where "t = ?s3\<lparr>t_events := t_events s @ [ev]\<rparr>"
  have tabs: "t_meads t = t_meads s" "t_meas t = t_meas s @ [?r]" by (simp_all add: t_def)
  have m: "List.find (\<lambda>d. md_id d = ar_mead_id req) (t_meads s) = Some mead"
    using find_distinct [OF dist mead(1)] mead(2) by simp
  have "?i \<notin> maa_mea_id ` set (t_mea_attrs s)"
    using wf i(3) unfolding wf_defs by auto
  then have a: "mea_attrs t ?i = ar_attributes req"
    by (simp add: t_def mea_attrs_def filter_key_absent filter_id_conv owner_new_mea_attrs map_new_mea_attrs)
  define d where "d = \<lparr>ad_mead = make_mead_dict t mead, ad_attributes = ar_attributes req,
       ad_id = ?i, ad_tenant_id = ten, ad_name = ar_name req,
       ad_description = md_description mead, ad_instance_id = None,
       ad_vim_id = ar_vim_id req, ad_placement_attr = ar_placement_attr req,
       ad_mead_id = ar_mead_id req, ad_status = PENDING_CREATE, ad_mgmt_url = None,
       ad_error_reason = None, ad_created_at = clock s, ad_updated_at = None\<rparr>"
  have dict: "make_mea_dict t ?r = Inr d"
    by (simp add: make_mea_dict_def u m a tabs make_attributes_dict_id [OF attrs] d_def)
       (simp add: new_mea_row_def)
  have create: "create_mea_pre E c req s = (Inr d, t)"
  proof -
    have event: "create_event ?i RES_TYPE_MEA (status_str PENDING_CREATE) RES_EVT_CREATE (ma_created_at ?r)
        ''MEA UUID assigned.'' ?s3 = (Inr (), t)"
      using i(1) by (simp add: create_event_ok ev_def new_mea_row_def t_def)
    have after: "thenE (create_event ?i RES_TYPE_MEA (status_str PENDING_CREATE) RES_EVT_CREATE (ma_created_at ?r)
        ''MEA UUID assigned.'') (readE (\<lambda>s. make_mea_dict s ?r)) ?s3 = (Inr d, t)"
      by (rule trans [OF thenE_Inr], rule event) (simp add: dict)
    show ?thesis
      unfolding create_mea_pre_def tenant bind_pure bind_generate
      by (rule trans [OF bindE_Inr], rule tx, rule after)
  qed
  have own: "is_admin c \<or> tenant_id c = Some ten"
    using tenant by (auto simp: get_tenant_id_for_create_def split: option.splits if_splits)
  have "get_mea E c ?i t = (Inr d, t)"
  proof -
    have "db_wf t" using obeysD [OF wf_create_mea_pre, of s E c req] wf create by simp
    then have dist': "distinct (map ma_id (t_meas t))" by (simp add: wf_defs)
    have mem: "?r \<in> set (t_meas t)" by (simp add: tabs)
    have vis: "visible c MEA ?r"
      using own by (auto simp: visible_def in_scope_def not_deleted_def MEA_def new_mea_row_def)
    have "get_by_id c MEA ma_id (t_meas t) ?i = Inr ?r"
      using get_by_id_visible [OF dist' mem vis] i(1) by (simp add: u)
    then show ?thesis
      using i(2) dict by (simp add: get_mea_def get_mea_resource_def get_resource_def when_absent_def row_or_def)
  qed
  with create mead(2) show ?thesis
    by (intro exI [of _ d] exI [of _ t]) (simp add: d_def make_mead_dict_def)
qed

theorem create_get_mea_witness:
  "\<exists>d t. create_mea_pre sample_oslo (user_ctx ''t1'') sample_mea_req with_mead = (Inr d, t)
    \<and> ad_status d = PENDING_CREATE \<and> ad_name d = ''a'' \<and> ad_tenant_id d = ''t1''
    \<and> ad_attributes d = [(''config'', PStr ''c'')] \<and> dd_id (ad_mead d) = sample_uuid 1
    \<and> ad_instance_id d = None
    \<and> get_mea sample_oslo (user_ctx ''t1'') (ad_id d) t = (Inr d, t)"
proof -
  have wf: "db_wf with_mead" using reachable_ok [OF reachable_with_mead] by (simp add: db_ok_def)
  have mem: "hd (t_meads with_mead) \<in> set (t_meads with_mead)" by code_simp
  have "\<exists>d t. create_mea_pre sample_oslo (user_ctx ''t1'') sample_mea_req with_mead = (Inr d, t)
    \<and> ad_status d = PENDING_CREATE \<and> ad_name d = ar_name sample_mea_req \<and> ad_tenant_id d = ''t1''
    \<and> ad_attributes d = ar_attributes sample_mea_req \<and> dd_id (ad_mead d) = ar_mead_id sample_mea_req
    \<and> ad_instance_id d = None
    \<and> get_mea sample_oslo (user_ctx ''t1'') (ad_id d) t = (Inr d, t)"
    by (rule create_get_mea [OF wf _ _ _ mem]) code_simp+
  then show ?thesis by (simp add: sample_mea_req_def)
qed

end
