(* ===== verification/Isolation.thy ===== *)
theory Isolation
  imports MemFunc
begin

text \<open>
  Tenant isolation of the MEA manager's database: an operation run with a context that
  is no admin leaves the MEADs and the MEAs of other tenants as they are. Also what an
  update does to the attributes of an MEA.
\<close>

section \<open>The rows of other tenants\<close>

definition foreign_kept :: "ctx \<Rightarrow> 'x db_scheme \<Rightarrow> 'x db_scheme \<Rightarrow> bool" where
  "foreign_kept c s t \<longleftrightarrow> (db_wf s \<longrightarrow> db_wf t
     \<and> (\<forall>r \<in> set (t_meas s). \<not> in_scope c MEA r \<longrightarrow> r \<in> set (t_meas t))
     \<and> (\<forall>r \<in> set (t_meads s). \<not> in_scope c MEAD r \<longrightarrow> r \<in> set (t_meads t)))"

interpretation iso: transactional_relation "foreign_kept c" rollback
proof
  show "foreign_kept c s s" for s by (simp add: foreign_kept_def)
  show "foreign_kept c s t \<Longrightarrow> foreign_kept c t u \<Longrightarrow> foreign_kept c s u" for s t u
    by (simp add: foreign_kept_def)
  show "foreign_kept c s t \<Longrightarrow> foreign_kept c s (rollback s t)" for s t
    by (simp add: foreign_kept_def db_wf_rollback) (simp add: rollback_def)
qed

text \<open>Effects that leave both tables alone, or only append to them.\<close>

definition grows :: "'x db_scheme \<Rightarrow> 'x db_scheme \<Rightarrow> bool" where
  "grows s t \<longleftrightarrow> set (t_meas s) \<subseteq> set (t_meas t) \<and> set (t_meads s) \<subseteq> set (t_meads t)"

lemma iso_grows:
  assumes "wf_kept m" and "obeys grows m" shows "obeys (foreign_kept c) m"
proof (rule obeysI)
  fix s
  have "grows s (snd (m s))" and "db_wf s \<longrightarrow> db_wf (snd (m s))"
    using assms by (auto dest: obeysD)
  then show "foreign_kept c s (snd (m s))" by (auto simp: foreign_kept_def grows_def)
qed

lemma grows_prims:
  "obeys grows (bind_uuids is)" "obeys grows utcnow" "obeys grows (generate_uuid E)"
  "obeys grows (insert_mead r)" "obeys grows (insert_mea q)" "obeys grows (insert_mea_attr a)"
  "obeys grows (insert_mead_attr b)" "obeys grows (insert_service_type st)"
  by (auto simp: obeys_def grows_def bind_uuids_def utcnow_def generate_uuid_def insert_mead_def
      insert_mea_def insert_mea_attr_def insert_mead_attr_def insert_service_type_def)

lemma grows_create_event: "obeys grows (create_event i t st e ts d)"
proof (rule obeysI)
  fix s :: "'x db_scheme"
  show "grows s (snd (create_event i t st e ts d s))"
    by (cases "uuid_ok i") (simp_all add: create_event_ok create_event_bad grows_def)
qed

lemma grows_modify:
  "(\<And>s. t_meas (f s) = t_meas s \<and> t_meads (f s) = t_meads s) \<Longrightarrow> obeys grows (modify f)"
  by (simp add: obeys_def grows_def)

lemmas iso_prims = iso_grows [OF wf_bind_uuids grows_prims(1)] iso_grows [OF wf_utcnow grows_prims(2)]
  iso_grows [OF wf_generate_uuid grows_prims(3)] iso_grows [OF wf_insert_mead grows_prims(4)]
  iso_grows [OF wf_insert_mea grows_prims(5)] iso_grows [OF wf_insert_mea_attr grows_prims(6)]
  iso_grows [OF wf_insert_mead_attr grows_prims(7)] iso_grows [OF wf_insert_service_type grows_prims(8)]
  iso_grows [OF wf_create_event grows_create_event]
  iso_grows [OF wf_drop_mea_attrs grows_modify] iso_grows [OF wf_drop_mead_attrs grows_modify]
  iso_grows [OF wf_drop_service_types grows_modify] iso_grows [OF wf_set_mea_attr grows_modify]

lemma iso_tx: "obeys (foreign_kept c) m \<Longrightarrow> obeys (foreign_kept c) (tx m)"
  unfolding tx_def by (rule iso.r_atomically)

lemmas iso_intros = iso.r_intros iso_tx iso_prims

lemma iso_if:
  "obeys (foreign_kept c) a \<Longrightarrow> obeys (foreign_kept c) b \<Longrightarrow> obeys (foreign_kept c) (if P then a else b)"
  by simp

lemma iso_mea_event: "obeys (foreign_kept c) (mea_event i st e d)"
  unfolding mea_event_def by (intro iso_intros)

lemma iso_store_attributes: "obeys (foreign_kept c) (store_attributes E c' i attrs)"
proof -
  have "obeys (foreign_kept c) (mea_attribute_update_or_create E c' i k v)" for k v
    unfolding mea_attribute_update_or_create_def
    by (intro iso_intros) (auto intro!: iso_intros split: option.splits)
  then show ?thesis
    unfolding store_attributes_def
    by (intro iso_intros) (auto intro!: iso_intros split: prod.splits)
qed

section \<open>Changes to rows in scope\<close>

lemma kept_update_where: "x \<in> set xs \<Longrightarrow> \<not> P x \<Longrightarrow> x \<in> set (update_where P f xs)"
  by (simp add: set_update_where)

lemma iso_update_at:
  assumes "wf_kept (update_meas P f :: ('x db_scheme, unit) prog)"
    and "\<And>q. db_wf (s :: 'x db_scheme) \<Longrightarrow> q \<in> set (t_meas s) \<Longrightarrow> P q \<Longrightarrow> in_scope c MEA q"
  shows "foreign_kept c s (snd (update_meas P f s))"
proof -
  have "db_wf s \<longrightarrow> db_wf (snd (update_meas P f s))" using assms(1) by (rule obeysD)
  with assms(2) show ?thesis
    by (auto simp: foreign_kept_def update_meas_def intro!: kept_update_where)
qed

lemma iso_store_meas:
  assumes "wf_kept (store_meas P f :: ('x db_scheme, unit) prog)" and "\<And>q. P q \<Longrightarrow> in_scope c MEA q"
  shows "obeys (foreign_kept c) (store_meas P f :: ('x db_scheme, unit) prog)"
proof (rule obeysI)
  fix s :: "'x db_scheme"
  have "db_wf s \<longrightarrow> db_wf (snd (store_meas P f s))" using assms(1) by (rule obeysD)
  with assms(2) show "foreign_kept c s (snd (store_meas P f s))"
    by (auto simp: foreign_kept_def store_meas_def Let_def intro!: kept_update_where)
qed

lemma iso_delete_meas:
  assumes "\<And>q. P q \<Longrightarrow> in_scope c MEA q" shows "obeys (foreign_kept c) (delete_meas P)"
proof (rule obeysI)
  fix s
  have "db_wf s \<longrightarrow> db_wf (snd (delete_meas P s))" using wf_delete_meas by (rule obeysD)
  with assms show "foreign_kept c s (snd (delete_meas P s))"
    by (auto simp: foreign_kept_def delete_meas_def)
qed

lemma iso_set_mea:
  assumes "r \<in> set (t_meas s)" and "in_scope c MEA r"
    and "\<And>q. ma_id (f q) = ma_id q" "\<And>q. ma_mead_id (f q) = ma_mead_id q"
      "\<And>q. ma_vim_id (f q) = ma_vim_id q" "\<And>q. mea_unique (f q) = mea_unique q"
  shows "foreign_kept c s (snd (set_mea r f s))"
  unfolding set_mea_def
proof (rule iso_update_at)
  show "wf_kept (update_meas (\<lambda>q. ma_id q = ma_id r) f)"
    by (rule wf_update_meas) (simp_all add: assms)
  fix q assume "db_wf s" "q \<in> set (t_meas s)" "ma_id q = ma_id r"
  with assms(1) have "q = r" by (auto simp: wf_defs distinct_map dest: inj_onD)
  with assms(2) show "in_scope c MEA q" by simp
qed

lemma visible_scope: "visible c M r \<Longrightarrow> in_scope c M r"
  by (simp add: visible_def)

lemma iso_at_bindE:
  assumes "foreign_kept c s (snd (m s))" and "\<And>x. obeys (foreign_kept c) (k x)"
  shows "foreign_kept c s (snd (bindE m k s))"
proof -
  have "foreign_kept c (snd (m s)) (snd (k x (snd (m s))))" for x
    using assms(2) by (rule obeysD)
  with assms(1) show ?thesis
    by (auto simp: bindE_def split: prod.splits sum.splits intro: iso.R_trans)
qed

lemma iso_at_thenE:
  "foreign_kept c s (snd (m s)) \<Longrightarrow> obeys (foreign_kept c) k \<Longrightarrow> foreign_kept c s (snd (thenE m k s))"
  unfolding thenE_def by (rule iso_at_bindE)

lemma iso_read:
  assumes "\<And>r. g s = Inr r \<Longrightarrow> foreign_kept c s (snd (k r s))"
  shows "foreign_kept c s (snd (bindE (readE g) k s))"
  using assms by (auto simp: bindE_def iso.R_refl split: sum.splits)

lemma iso_one_mea:
  assumes "\<And>r. r \<in> set (t_meas s) \<Longrightarrow> in_scope c MEA r \<Longrightarrow> foreign_kept c s (snd (k r s))"
  shows "foreign_kept c s (snd (bindE (one_mea c i ok) k s))"
proof (cases "uuid_ok i")
  case True
  then have "bindE (one_mea c i ok) k s = bindE (readE (\<lambda>s. one (mea_rows c i ok s))) k s"
    by (simp add: one_mea_def bind_uuids_def)
  then show ?thesis
    using iso_read [of "\<lambda>s. one (mea_rows c i ok s)" s c k] assms one_mea_rows visible_scope by metis
next
  case False
  then show ?thesis by (simp add: one_mea_def bind_uuids_def iso.R_refl)
qed

section \<open>The operations\<close>

lemma iso_as_duplicate: "obeys (foreign_kept c) m \<Longrightarrow> obeys (foreign_kept c) (as_duplicate ty m)"
  unfolding as_duplicate_def by (intro iso_intros iso_if)

lemma iso_create_mead: "obeys (foreign_kept c) (create_mead E c req)"
  unfolding create_mead_def create_mead_tx_def Let_def
  by (intro iso_intros iso_if iso_as_duplicate)
     (auto intro!: iso_intros split: pyval.splits prod.splits)

lemma iso_create_mea_pre: "obeys (foreign_kept c) (create_mea_pre E c req)"
  unfolding create_mea_pre_def create_mea_tx_def Let_def
  by (rule iso.r_bindE [OF iso.r_pureE])
     (auto intro!: iso_intros iso_as_duplicate iso_grows [OF wf_insert_mea grows_prims(5)]
       split: prod.splits)

lemma iso_store_meads:
  assumes "r \<in> set (t_meads s)" and "in_scope c MEAD r" and "\<And>q. md_id q = md_id r \<Longrightarrow> md_id (f q) = md_id q"
  shows "foreign_kept c s (snd (store_meads (\<lambda>q. md_id q = md_id r) f s))"
proof -
  have wf: "db_wf s \<longrightarrow> db_wf (snd (store_meads (\<lambda>q. md_id q = md_id r) f s))"
    by (rule obeysD [OF wf_store_meads]) (rule assms(3))
  have "q = r" if "db_wf s" "q \<in> set (t_meads s)" "md_id q = md_id r" for q
    using that assms(1) by (auto simp: wf_defs distinct_map dest: inj_onD)
  with wf assms(2) show ?thesis
    by (auto simp: foreign_kept_def store_meads_def Let_def intro!: kept_update_where)
qed

lemma when_absent_Inr: "when_absent nf r = Inr x \<longleftrightarrow> r = Inr x"
  by (auto simp: when_absent_def split: sum.splits if_splits)

lemma get_mead_resource_row:
  assumes "get_mead_resource E c i s = Inr (Some r)"
  shows "r \<in> set (t_meads s) \<and> in_scope c MEAD r"
proof (cases "is_uuid_like E i")
  case True
  with assms have "map_sum id Some (get_by_id c MEAD md_id (t_meads s) i) = Inr (Some r)"
    by (simp add: get_mead_resource_def get_resource_def when_absent_Inr)
  then have "get_by_id c MEAD md_id (t_meads s) i = Inr r"
    by (cases "get_by_id c MEAD md_id (t_meads s) i") simp_all
  from get_by_id_Inr [OF this] show ?thesis by (simp add: visible_def)
next
  case False
  with assms have "get_by_name c MEAD md_name (t_meads s) i = Inr (Some r)"
    by (simp add: get_mead_resource_def get_resource_def when_absent_Inr)
  from get_by_name_Inr [OF this] show ?thesis by (simp add: visible_def)
qed

lemma row_or_Inr: "row_or e x = Inr r \<longleftrightarrow> x = Inr (Some r)"
  by (auto simp: row_or_def split: sum.splits option.splits)

lemma iso_update_mead: "obeys (foreign_kept c) (update_mead E c i changes)"
  unfolding update_mead_def Let_def
proof (intro iso_tx obeysI iso_read)
  fix s :: "'x db_scheme" and r
  assume "row_or AttributeError (get_mead_resource E c i s) = Inr r"
  then have r: "r \<in> set (t_meads s)" "in_scope c MEAD r"
    using get_mead_resource_row [of E c i s r] by (simp_all add: row_or_Inr)
  show "foreign_kept c s (snd (bindE utcnow (\<lambda>now.
     thenE (store_meads (\<lambda>q. md_id q = md_id r) (\<lambda>_. (fold set_mead_column changes r)\<lparr>md_updated_at := Some now\<rparr>))
       (bindE (gets (\<lambda>s. make_mead_dict s ((fold set_mead_column changes r)\<lparr>md_updated_at := Some now\<rparr>))) (\<lambda>d.
          thenE (create_event (dd_id d) RES_TYPE_MEAD RES_EVT_NA_STATE RES_EVT_UPDATE now [])
            (ret d)))) s))"
    unfolding bind_utcnow
    by (intro iso_at_thenE iso_store_meads iso_intros r) (simp add: set_mead_columns_id)
qed

lemma iso_delete_meads:
  assumes "r \<in> set (t_meads s)" and "in_scope c MEAD r"
  shows "foreign_kept c s (snd (delete_meads (\<lambda>q. md_id q = md_id r) s))"
proof -
  have wf: "db_wf s \<longrightarrow> db_wf (snd (delete_meads (\<lambda>q. md_id q = md_id r) s))"
    by (rule obeysD [OF wf_delete_meads])
  have "q = r" if "db_wf s" "q \<in> set (t_meads s)" "md_id q = md_id r" for q
    using that assms(1) by (auto simp: wf_defs distinct_map dest: inj_onD)
  with wf assms(2) show ?thesis
    by (auto simp: foreign_kept_def delete_meads_def)
qed

text \<open>The program deletes softly.\<close>

lemma iso_delete_mead: "obeys (foreign_kept c) (delete_mead E c i True)"
  unfolding delete_mead_def if_True
proof (intro iso_tx iso.r_thenE iso_prims iso.r_bindE [OF iso.r_gets] iso_if iso.r_raise obeysI iso_read)
  fix s :: "'x db_scheme" and found
  assume "get_mead_resource E c i s = Inr found"
  then have r: "r \<in> set (t_meads s) \<and> in_scope c MEAD r" if "found = Some r" for r
    using get_mead_resource_row that by blast
  show "foreign_kept c s (snd (bindE (pureE (row_or AttributeError (Inr found))) (\<lambda>r. bindE utcnow (\<lambda>now.
            thenE (store_meads (\<lambda>q. md_id q = md_id r) (\<lambda>q. q\<lparr>md_deleted_at := Some now\<rparr>))
              (create_event (md_id r) RES_TYPE_MEAD RES_EVT_NA_STATE RES_EVT_DELETE now []))) s))"
  proof (cases found)
    case None
    then show ?thesis by (simp add: row_or_def bindE_def iso.R_refl)
  next
    case (Some r')
    have eq: "row_or AttributeError (Inr found) = Inr r'" by (simp add: row_or_def Some)
    show ?thesis
      unfolding eq bind_pure bind_utcnow
      by (intro iso_at_thenE iso_store_meads iso_intros) (use r [OF Some] in simp_all)
  qed
qed

lemma iso_create_mea_post: "obeys (foreign_kept c) (create_mea_post E c i inst url d)"
proof -
  let ?f = "\<lambda>q. q\<lparr>ma_instance_id := inst, ma_mgmt_url := url\<rparr>"
  have post: "obeys (foreign_kept c) (bindE (one_mea c i (List.member CREATE_STATES)) (\<lambda>r.
        thenE (set_mea r ?f)
        (thenE (whenE (inst = None \<or> ad_status d = ERROR) (set_mea r (\<lambda>q. q\<lparr>ma_status := ERROR\<rparr>)))
        (store_attributes E c i (ad_attributes d)))))"
  proof (rule obeysI, rule iso_one_mea)
    fix s :: "'x db_scheme" and r
    assume r: "r \<in> set (t_meas s)" "in_scope c MEA r"
    show "foreign_kept c s (snd (thenE (set_mea r ?f)
        (thenE (whenE (inst = None \<or> ad_status d = ERROR) (set_mea r (\<lambda>q. q\<lparr>ma_status := ERROR\<rparr>)))
        (store_attributes E c i (ad_attributes d))) s))"
    proof (cases "inst = None \<or> ad_status d = ERROR")
      case True
      then have eq: "whenE (inst = None \<or> ad_status d = ERROR) m = m" for m :: "('x db_scheme, unit) prog"
        by simp
      show ?thesis
        unfolding eq
        by (subst set_mea_twice, simp, intro iso_at_thenE iso_set_mea iso_store_attributes)
           (use r in \<open>simp_all add: mea_unique_def\<close>)
    next
      case False
      then show ?thesis
        by (simp only: whenE_False thenE_ret, intro iso_at_thenE iso_set_mea iso_store_attributes)
           (use r in \<open>simp_all add: mea_unique_def\<close>)
    qed
  qed
  show ?thesis
    unfolding create_mea_post_def by (rule iso.r_thenE [OF iso_tx [OF post] iso_mea_event])
qed

lemma iso_create_mea_status: "obeys (foreign_kept c) (create_mea_status c i new)"
  unfolding create_mea_status_def
  by (intro iso_tx obeysI iso_one_mea iso_at_thenE iso_set_mea iso_mea_event) (simp_all add: mea_unique_def)

lemma iso_get_mea_db: "obeys (foreign_kept c) (get_mea_db c i current new)"
  unfolding get_mea_db_def
proof (rule obeysI)
  fix s :: "'x db_scheme"
  let ?g = "\<lambda>s. when_absent (mea_not_found i) (one (mea_rows c i (List.member current) s))"
  let ?k = "\<lambda>r. if ma_status r = PENDING_UPDATE then raise (Exc (Mem MEAInUse) [(''mea_id'', PStr i)])
     else thenE (set_mea r (\<lambda>q. q\<lparr>ma_status := new\<rparr>)) (ret (r\<lparr>ma_status := new\<rparr>))"
  have "foreign_kept c s (snd (bindE (readE ?g) ?k s))"
  proof (rule iso_read)
    fix r assume "?g s = Inr r"
    then have "one (mea_rows c i (List.member current) s) = Inr r"
      by (simp add: when_absent_Inr)
    from one_mea_rows [OF this] have r: "r \<in> set (t_meas s)" "in_scope c MEA r"
      by (simp_all add: visible_def)
    show "foreign_kept c s (snd (?k r s))"
    proof (cases "ma_status r = PENDING_UPDATE")
      case False
      then show ?thesis
        by (simp only: if_False, intro iso_at_thenE iso_set_mea iso.r_ret)
           (use r in \<open>simp_all add: mea_unique_def\<close>)
    qed (simp add: iso.R_refl)
  qed
  then show "foreign_kept c s (snd (bindE (thenE (bind_uuids [i]) (readE ?g)) ?k s))"
    by (cases "uuid_ok i") (simp_all add: bind_uuids_def iso.R_refl)
qed

lemma iso_update_mea_pre: "obeys (foreign_kept c) (update_mea_pre c i)"
  unfolding update_mea_pre_def by (intro iso_intros iso_get_mea_db iso_mea_event)

lemma iso_delete_mea_pre: "obeys (foreign_kept c) (delete_mea_pre c i)"
  unfolding delete_mea_pre_def by (intro iso_intros iso_get_mea_db iso_mea_event)

lemma in_query_scope: "in_query c i ok q \<Longrightarrow> in_scope c MEA q"
  by (simp add: in_query_def visible_def)

lemma iso_update_query:
  assumes "\<And>q. ma_id (f q) = ma_id q" "\<And>q. ma_mead_id (f q) = ma_mead_id q"
      "\<And>q. ma_vim_id (f q) = ma_vim_id q" "\<And>q. mea_unique (f q) = mea_unique q"
  shows "obeys (foreign_kept c) (update_meas (in_query c i ok) f)"
  by (intro obeysI iso_update_at wf_update_meas) (simp_all add: assms in_query_scope)

lemma iso_update_mea_post: "obeys (foreign_kept c) (update_mea_post E c i new attrs)"
  unfolding update_mea_post_def
  by (intro iso_intros iso_update_query iso_store_attributes) (simp_all add: mea_unique_def)

lemma iso_delete_mea_post: "obeys (foreign_kept c) (delete_mea_post E c d err soft)"
  unfolding delete_mea_post_def Let_def
  by (intro iso_tx iso.r_thenE iso.r_whenE iso_if iso_update_query iso_mea_event iso_delete_mead
      iso_prims iso.r_bindE iso_store_meas wf_store_meas iso_delete_meas)
     (simp_all add: mea_unique_def in_query_scope)

lemma iso_set_reason: "obeys (foreign_kept c) (set_mea_error_status_reason c i reason)"
  unfolding set_mea_error_status_reason_def
  by (intro iso_intros iso_update_query) (simp_all add: mea_unique_def)

lemma get_mea_db_Inr:
  assumes "get_mea_db c i current new s = (Inr r, t)"
  shows "r \<in> set (t_meas t) \<and> in_scope c MEA r"
proof -
  obtain q where q: "one (mea_rows c i (List.member current) s) = Inr q" "r = q\<lparr>ma_status := new\<rparr>"
      "t = s\<lparr>t_meas := update_where (\<lambda>p. ma_id p = ma_id q) (\<lambda>p. p\<lparr>ma_status := new\<rparr>) (t_meas s)\<rparr>"
    using assms
    by (cases "uuid_ok i"; cases "one (mea_rows c i (List.member current) s)")
       (auto simp: get_mea_db_def bind_uuids_def eff_simps when_absent_def set_mea_def
         update_meas_def split: if_splits)
  from one_mea_rows [OF q(1)] have "q \<in> set (t_meas s)" "in_scope c MEA q"
    by (simp_all add: visible_def)
  with q(2,3) show ?thesis by (auto simp: set_update_where in_scope_def MEA_def)
qed

lemma iso_scaling: "obeys (foreign_kept c) (update_mea_scaling_status c i previous new url)"
proof -
  let ?k = "\<lambda>r. case url of
          Some (u # us) \<Rightarrow> thenE (set_mea r (\<lambda>q. q\<lparr>ma_mgmt_url := url\<rparr>)) (ret (r\<lparr>ma_mgmt_url := url\<rparr>))
        | _ \<Rightarrow> ret r"
  have set: "obeys (foreign_kept c) (bindE (get_mea_db c i previous new) ?k)"
  proof (rule obeysI)
    fix s :: "'x db_scheme"
    obtain o1 t where m: "get_mea_db c i previous new s = (o1, t)" by fastforce
    have "obeys (foreign_kept c) (get_mea_db c i previous new :: ('x db_scheme, mea_row) prog)"
      by (rule iso_get_mea_db)
    from obeysD [OF this, of s] m have st: "foreign_kept c s t" by simp
    show "foreign_kept c s (snd (bindE (get_mea_db c i previous new) ?k s))"
    proof (cases o1)
      case (Inl e)
      with m st show ?thesis by (simp add: bindE_def)
    next
      case (Inr r)
      from get_mea_db_Inr [OF m [unfolded Inr]] have r: "r \<in> set (t_meas t)" "in_scope c MEA r" by simp_all
      have "foreign_kept c t (snd (?k r t))"
        by (auto intro!: iso_at_thenE iso_set_mea iso.r_ret r simp: mea_unique_def iso.R_refl
            split: option.split list.split)
      with st have "foreign_kept c s (snd (?k r t))" by (rule iso.R_trans)
      with m Inr show ?thesis by (simp add: bindE_def)
    qed
  qed
  show ?thesis
    unfolding update_mea_scaling_status_def
    by (intro iso.r_bindE iso_tx set iso.r_readE iso.r_thenE iso_mea_event iso.r_ret)
qed

text \<open>One operation run with the context \<open>c\<close>.\<close>

inductive mem_step :: "oslo \<Rightarrow> ctx \<Rightarrow> db \<Rightarrow> db \<Rightarrow> bool" for E c where
  "mem_step E c s (snd (create_mead E c dreq s))"
| "mem_step E c s (snd (update_mead E c i changes s))"
| "mem_step E c s (snd (delete_mead E c i True s))"
| "mem_step E c s (snd (create_mea_pre E c areq s))"
| "mem_step E c s (snd (create_mea_post E c i inst url d s))"
| "mem_step E c s (snd (create_mea_status c i new s))"
| "mem_step E c s (snd (update_mea_scaling_status c i previous new url s))"
| "mem_step E c s (snd (update_mea_pre c i s))"
| "mem_step E c s (snd (update_mea_post E c i new attrs s))"
| "mem_step E c s (snd (delete_mea_pre c i s))"
| mem_delete_post: "mem_step E c s (snd (delete_mea_post E c d err soft s))"
| "mem_step E c s (snd (set_mea_error_status_reason c i reason s))"

lemma mem_step_foreign: "mem_step E c s t \<Longrightarrow> foreign_kept c s t"
  by (induction rule: mem_step.induct)
     (rule obeysD, rule iso_create_mead iso_update_mead iso_delete_mead iso_create_mea_pre
       iso_create_mea_post iso_create_mea_status iso_scaling iso_update_mea_pre iso_update_mea_post
       iso_delete_mea_pre iso_delete_mea_post iso_set_reason)+



section \<open>The attributes after an update\<close>

lemma first_filter_find: "first (filter P xs) = List.find P xs"
  by (induction xs) (auto simp: first_def)

lemma map_of_filter_pairs:
  "map_of (map (\<lambda>a. (k a, v a)) (filter P xs)) x = map_option v (List.find (\<lambda>a. P a \<and> k a = x) xs)"
  by (induction xs) auto

text \<open>What the attribute table says of an MEA.\<close>

definition attr_of :: "'x db_scheme \<Rightarrow> string \<Rightarrow> string \<Rightarrow> pyval option" where
  "attr_of s i k = map_of (mea_attrs s i) k"

lemma attr_of_find: "attr_of s i k = map_option maa_value (List.find (\<lambda>a. maa_mea_id a = i \<and> maa_key a = k) (t_mea_attrs s))"
  unfolding attr_of_def mea_attrs_def by (rule map_of_filter_pairs)

lemma find_update_first:
  assumes "distinct (map k xs)" and "List.find P xs = Some a" and "\<And>x. P (f x) = P x"
  shows "List.find P (update_where (\<lambda>b. k b = k a) f xs) = Some (f a)"
  using assms(1,2)
proof (induction xs)
  case (Cons x xs)
  show ?case
  proof (cases "P x")
    case True
    with Cons.prems show ?thesis by (simp add: update_where_def assms(3))
  next
    case False
    with Cons.prems have f: "List.find P xs = Some a" by simp
    then have "a \<in> set xs" by (simp add: find_SomeD)
    with Cons.prems(1) have "k x \<noteq> k a" by (metis distinct.simps(2) image_eqI list.set_map list.simps(9))
    with False f Cons show ?thesis by (simp add: update_where_def)
  qed
qed simp

lemma find_update_none:
  assumes "distinct (map k xs)" and "a \<in> set xs" and "\<not> P a" and "\<And>x. P (f x) = P x"
  shows "List.find P (update_where (\<lambda>b. k b = k a) f xs) = List.find P xs"
proof -
  have "update_where (\<lambda>b. k b = k a) f xs = map (\<lambda>x. if x = a then f x else x) xs"
    using assms(1,2) by (auto simp: update_where_def distinct_map dest: inj_onD)
  moreover have "List.find P (map (\<lambda>x. if x = a then f x else x) xs) = List.find P xs" for xs
    using assms(3,4) by (induction xs) auto
  ultimately show ?thesis by simp
qed

lemma attribute_update_or_create:
  assumes "mea_attribute_update_or_create E c i k v s = (Inr (), t)"
    and "distinct (map maa_id (t_mea_attrs s))"
  shows "attr_of t i = (attr_of s i)(k \<mapsto> v) \<and> distinct (map maa_id (t_mea_attrs t))
    \<and> (\<forall>j. j \<noteq> i \<longrightarrow> attr_of t j = attr_of s j)"
proof -
  let ?P = "\<lambda>k a. maa_mea_id a = i \<and> maa_key a = k"
  have u: "uuid_ok i" using assms(1)
    by (cases "uuid_ok i") (auto simp: mea_attribute_update_or_create_def bind_uuids_def)
  have all: "model_query c MEAAttribute xs = xs" for xs
    by (simp add: model_query_def visible_def in_scope_def not_deleted_def MEAAttribute_def)
  show ?thesis
  proof (cases "List.find (?P k) (t_mea_attrs s)")
    case (Some a)
    let ?f = "\<lambda>b. b\<lparr>maa_value := v\<rparr>"
    from Some have a: "a \<in> set (t_mea_attrs s)" "maa_mea_id a = i" "maa_key a = k"
      by (auto dest: find_SomeD)
    have t: "t_mea_attrs t = update_where (\<lambda>b. maa_id b = maa_id a) ?f (t_mea_attrs s)"
      using assms(1) u Some
      by (auto simp: mea_attribute_update_or_create_def bind_uuids_def bind_gets all first_filter_find)
    have "attr_of t i k' = ((attr_of s i)(k \<mapsto> v)) k'" for k'
    proof (cases "k' = k")
      case True
      then show ?thesis
        using find_update_first [of maa_id "t_mea_attrs s" "?P k" a ?f, OF assms(2) Some]
        by (simp add: attr_of_find t)
    next
      case False
      then show ?thesis
        using find_update_none [of maa_id "t_mea_attrs s" a "?P k'" ?f, OF assms(2) a(1)] a
        by (simp add: attr_of_find t)
    qed
    moreover have "attr_of t j k' = attr_of s j k'" if "j \<noteq> i" for j k'
      using find_update_none [of maa_id "t_mea_attrs s" a "\<lambda>a. maa_mea_id a = j \<and> maa_key a = k'" ?f, OF assms(2) a(1)] a that
      by (simp add: attr_of_find t)
    moreover have "distinct (map maa_id (t_mea_attrs t))"
      using assms(2) by (simp add: t map_update_where_frame)
    ultimately show ?thesis by (simp add: fun_eq_iff)
  next
    case None
    let ?r = "\<lparr>maa_id = gen_uuid E (uuid_count s), maa_mea_id = i, maa_key = k, maa_value = v\<rparr>"
    have t: "t_mea_attrs t = t_mea_attrs s @ [?r]" "gen_uuid E (uuid_count s) \<notin> maa_id ` set (t_mea_attrs s)"
      using assms(1) u None
      by (auto simp: mea_attribute_update_or_create_def bind_uuids_def bind_gets all first_filter_find
          bind_generate insert_mea_attr_def list_ex_key split: if_splits)
    have app: "List.find P (xs @ [x]) = (case List.find P xs of None \<Rightarrow> if P x then Some x else None | Some y \<Rightarrow> Some y)"
      for P and x :: mea_attr_row and xs
      by (induction xs) auto
    have "attr_of t i k' = ((attr_of s i)(k \<mapsto> v)) k'" for k'
      using None by (auto simp: attr_of_find t app split: option.split)
    moreover have "attr_of t j k' = attr_of s j k'" if "j \<noteq> i" for j k'
      using that by (auto simp: attr_of_find t app split: option.split)
    moreover have "distinct (map maa_id (t_mea_attrs t))"
      using assms(2) t by simp
    ultimately show ?thesis by (simp add: fun_eq_iff)
  qed
qed

lemma store_attributes_result:
  assumes "store_attributes E c i attrs s = (Inr (), t)" and "distinct (map maa_id (t_mea_attrs s))"
    and "dict_ok attrs"
  shows "attr_of t i k = (if str_in ''vim_auth'' k then attr_of s i k
      else (case map_of attrs k of Some v \<Rightarrow> Some v | None \<Rightarrow> attr_of s i k))
    \<and> (\<forall>j. j \<noteq> i \<longrightarrow> attr_of t j = attr_of s j)"
  using assms
proof (induction attrs arbitrary: s)
  case Nil
  then show ?case by (simp add: store_attributes_def)
next
  case (Cons kv attrs)
  obtain k0 v where kv: "kv = (k0, v)" by (cases kv)
  have k0: "map_of attrs k0 = None" and ok: "dict_ok attrs"
    using Cons.prems(3) by (auto simp: kv dict_ok_def map_of_eq_None_iff)
  show ?case
  proof (cases "str_in ''vim_auth'' k0")
    case True
    then have "store_attributes E c i attrs s = (Inr (), t)"
      using Cons.prems(1) by (simp add: store_attributes_def kv)
    from Cons.IH [OF this Cons.prems(2) ok] True show ?thesis by (auto simp: kv split: if_splits)
  next
    case False
    then obtain s1 where s1: "mea_attribute_update_or_create E c i k0 v s = (Inr (), s1)"
      and rest: "store_attributes E c i attrs s1 = (Inr (), t)"
      using Cons.prems(1) by (auto simp: store_attributes_def kv thenE_app_Inr_iff)
    note step = attribute_update_or_create [OF s1 Cons.prems(2)]
    from Cons.IH [OF rest _ ok] step k0 False show ?thesis
      by (auto simp: kv split: if_splits option.splits)
  qed
qed

lemma find_filter: "List.find P (filter Q xs) = List.find (\<lambda>x. Q x \<and> P x) xs"
  by (induction xs) auto

lemma find_none_of_false: "List.find (\<lambda>x. False) xs = None"
  by (induction xs) auto

text \<open>C27: After a successful update the attributes of the MEA are exactly those of the
  new dictionary, except that keys that mention \<open>vim_auth\<close> are never written: such a key
  keeps its old value when the new dictionary has it and disappears when not. The
  attributes of other MEAs do not change.\<close>

theorem update_post_attributes:
  assumes wf: "db_wf s" and upd: "update_mea_post E c i new attrs s = (Inr (), t)" and ok: "dict_ok attrs"
  shows "attr_of t i k = (if str_in ''vim_auth'' k then (if has_key k attrs then attr_of s i k else None)
       else map_of attrs k)
    \<and> (\<forall>j. j \<noteq> i \<longrightarrow> attr_of t j = attr_of s j)"
proof -
  let ?drop = "\<lambda>s. s\<lparr>t_mea_attrs := filter (\<lambda>a. \<not> (maa_mea_id a = i \<and> \<not> has_key (maa_key a) attrs)) (t_mea_attrs s)\<rparr>"
  define s1 where "s1 = s\<lparr>t_meas := update_where (in_query c i (\<lambda>st. st = PENDING_UPDATE))
      (\<lambda>q. q\<lparr>ma_status := new, ma_updated_at := Some (clock s)\<rparr>) (t_meas s)\<rparr>"
  have s1: "t_mea_attrs s1 = t_mea_attrs s" by (simp add: s1_def)
  obtain s2 where s2: "store_attributes E c i attrs (?drop s1) = (Inr (), s2)" and t: "t_mea_attrs t = t_mea_attrs s2"
    using upd
    by (cases "uuid_ok i")
       (auto simp: update_mea_post_def bind_utcnow thenE_app_Inr_iff tx_def atomically_Inr_iff
         bind_uuids_def update_meas_def create_event_ok create_event_bad s1_def)
  define u where "u = ?drop s1"
  have at: "attr_of t = attr_of s2" by (simp add: fun_eq_iff attr_of_find t)
  have dist: "distinct (map maa_id (t_mea_attrs u))"
    using wf by (simp add: u_def s1 wf_defs distinct_map_filter)
  have pred: "(\<lambda>a. \<not> (maa_mea_id a = i \<and> \<not> has_key (maa_key a) attrs) \<and> maa_mea_id a = j \<and> maa_key a = k')
      = (if j = i \<and> \<not> has_key k' attrs then (\<lambda>a. False) else (\<lambda>a. maa_mea_id a = j \<and> maa_key a = k'))" for j k'
    by (auto simp: fun_eq_iff)
  have tab: "t_mea_attrs u = filter (\<lambda>a. \<not> (maa_mea_id a = i \<and> \<not> has_key (maa_key a) attrs)) (t_mea_attrs s)"
    by (simp add: u_def s1)
  have dropped: "attr_of u j k' = (if j = i \<and> \<not> has_key k' attrs then None else attr_of s j k')" for j k'
    unfolding attr_of_find tab find_filter pred by (simp add: find_none_of_false attr_of_find)
  have others: "attr_of u j = attr_of s j" if "j \<noteq> i" for j
    using that by (simp add: fun_eq_iff dropped)
  from store_attributes_result [OF s2 [folded u_def] dist ok, of k] dropped others show ?thesis
    by (auto simp: at has_key_map_of split: option.splits)
qed

theorem update_post_attributes_witness:
  "fst (update_mea_post sample_oslo (user_ctx ''t1'') (sample_uuid 4) ACTIVE
       [(''log'', PStr ''l''), (''vim_auth_x'', PStr ''secret'')] with_mea) = Inr ()
   \<and> attr_of (snd (update_mea_post sample_oslo (user_ctx ''t1'') (sample_uuid 4) ACTIVE
       [(''log'', PStr ''l''), (''vim_auth_x'', PStr ''secret'')] with_mea)) (sample_uuid 4) ''log'' = Some (PStr ''l'')"
proof -
  let ?new = "[(''log'', PStr ''l''), (''vim_auth_x'', PStr ''secret'')]"
  let ?m = "update_mea_post sample_oslo (user_ctx ''t1'') (sample_uuid 4) ACTIVE ?new"
  have ok: "fst (?m with_mea) = Inr ()" by code_simp
  then have run: "?m with_mea = (Inr (), snd (?m with_mea))" by (metis prod.collapse)
  have wf: "db_wf with_mea" using with_mea_ok by (simp add: db_ok_def)
  have d: "dict_ok ?new" by code_simp
  have v: "\<not> str_in ''vim_auth'' ''log''" by code_simp
  from update_post_attributes [OF wf run d, of "''log''"] v ok show ?thesis by simp
qed

end
