(* ===== verification/MeoProps.thy ===== *)
theory MeoProps
  imports Isolation
begin

text \<open>
  Properties of the orchestrator's tables: what registering a VIM stores of its
  credentials and what is shown of them, and what goes wrong with network services
  when a descriptor or a name outlives its row.
\<close>

section \<open>Registering a VIM\<close>

lemma pop_password_ok:
  "map_of d ''password'' = Some (PStr p) \<Longrightarrow> pop_password d = Inr (p, dict_del ''password'' d)"
  by (simp add: pop_password_def)

definition vim_default_free :: "ctx \<Rightarrow> bool \<Rightarrow> 'x db_scheme \<Rightarrow> bool" where
  "vim_default_free c is_default s \<longleftrightarrow> \<not> is_default \<or> filter vm_is_default (model_query c Vim (t_vims s)) = []"

lemma validate_default_free:
  "vim_default_free c b s \<Longrightarrow> validate_default_vim c b i s = (Inr (), s)"
  by (auto simp: validate_default_vim_def vim_default_free_def default_vim_row_def)

text \<open>Registering a VIM stores the password apart from the credentials: the caller
  sees the masked dictionary, the row of credentials has no password, and reading the
  VIM without the mask gives the credentials back.\<close>

theorem create_vim_credentials:
  assumes wf: "db_wf s" and own: "is_admin c \<or> tenant_id c = Some ten"
    and free: "vim_default_free c (vr_is_default req) s"
    and ten: "vr_tenant_id req = Some ten"
    and ids: "uuid_ok (vr_id req)" "vr_id req \<notin> vm_id ` set (t_vims s)"
      "uuid_ok (gen_uuid E (uuid_count s))" "gen_uuid E (uuid_count s) \<notin> va_id ` set (t_vim_auths s)"
    and name: "(ten, vr_name req, Some datetime_min) \<notin> vim_unique ` set (t_vims s)"
    and pw: "map_of (vr_auth_cred req) ''password'' = Some (PStr p)"
  shows "\<exists>d full t. create_vim E c req s = (Inr d, t) \<and> get_vim E c (vr_id req) False t = (Inr full, t)
    \<and> map_of (vd_auth_cred full) = map_of (vr_auth_cred req)
    \<and> vd_auth_cred d = mask_dict_password E (vd_auth_cred full)
    \<and> (\<forall>a \<in> set (t_vim_auths t) - set (t_vim_auths s). \<not> has_key ''password'' (va_auth_cred a) \<and> va_password a = p)"
proof -
  let ?j = "gen_uuid E (uuid_count s)" and ?cred = "dict_del ''password'' (vr_auth_cred req)"
  define r where "r = \<lparr>vm_id = vr_id req, vm_type = vr_type req, vm_tenant_id = ten,
              vm_name = vr_name req, vm_description = vr_description req,
              vm_placement_attr = vr_placement_attr req, vm_shared = False,
              vm_is_default = vr_is_default req, vm_status = vr_status req,
              vm_created_at = clock s, vm_updated_at = None, vm_deleted_at = Some datetime_min\<rparr>"
  define a where "a = \<lparr>va_id = ?j, va_vim_id = vr_id req, va_password = p,
              va_auth_url = vr_auth_url req, va_vim_project = vr_vim_project req, va_auth_cred = ?cred\<rparr>"
  let ?s1 = "s\<lparr>t_vims := t_vims s @ [r]\<rparr>"
  let ?s2 = "?s1\<lparr>uuid_count := Suc (uuid_count s), t_vim_auths := t_vim_auths s @ [a]\<rparr>"
  have u: "vim_unique r = (ten, vr_name req, Some datetime_min)" "vm_id r = vr_id req"
    by (simp_all add: r_def vim_unique_def)
  have i1: "insert_vim r s = (Inr (), ?s1)"
    using ids name by (simp add: insert_vim_def bind_uuids_def list_ex_key2 u)
  have i2: "insert_vim_auth a (?s1\<lparr>uuid_count := Suc (uuid_count s)\<rparr>) = (Inr (), ?s2)"
    using ids by (simp add: insert_vim_auth_def bind_uuids_def list_ex_key a_def u)
  have a_eq: "\<lparr>va_id = ?j, va_vim_id = vr_id req, va_password = p, va_auth_url = vr_auth_url req,
      va_vim_project = vr_vim_project req, va_auth_cred = ?cred\<rparr> = a" by (simp add: a_def)
  have i3: "thenE (insert_vim_auth a) (ret r) (?s1\<lparr>uuid_count := Suc (uuid_count s)\<rparr>) = (Inr r, ?s2)"
    by (rule trans [OF thenE_Inr], rule i2) simp
  have cnt: "uuid_count ?s1 = uuid_count s" by simp
  have run: "thenE (insert_vim r) (bindE (generate_uuid E) (\<lambda>j. bindE (pureE (pop_password (vr_auth_cred req))) (\<lambda>(pw, cred).
          thenE (insert_vim_auth \<lparr>va_id = j, va_vim_id = vr_id req, va_password = pw,
              va_auth_url = vr_auth_url req, va_vim_project = vr_vim_project req,
              va_auth_cred = cred\<rparr>) (ret r)))) s = (Inr r, ?s2)"
    by (rule trans [OF thenE_Inr], rule i1)
       (simp only: bind_generate cnt pop_password_ok [OF pw] bind_pure prod.case a_eq i3)
  then have "create_vim_tx E req s = (Inr r, ?s2)"
    by (simp add: create_vim_tx_def ten not_null_def bind_pure bind_utcnow r_def Let_def del: pureE_app)
  then have tx: "as_duplicate ''vim'' (tx (create_vim_tx E req)) s = (Inr r, ?s2)"
    by (intro as_duplicate_Inr tx_Inr)
  have "vr_id req \<notin> va_vim_id ` set (t_vim_auths s)"
    using wf ids(2) unfolding wf_defs by auto
  then have auths: "filter (\<lambda>b. va_vim_id b = vr_id req) (t_vim_auths ?s2) = [a]"
    by (simp add: filter_key_absent a_def)
  define full where "full = dict_set ''password'' (PStr p) ?cred"
  define dict where "dict = (\<lambda>cred. \<lparr>vd_id = vm_id r, vd_type = vm_type r, vd_tenant_id = vm_tenant_id r,
            vd_name = vm_name r, vd_description = vm_description r,
            vd_placement_attr = vm_placement_attr r, vd_shared = vm_shared r,
            vd_is_default = vm_is_default r, vd_created_at = vm_created_at r,
            vd_updated_at = vm_updated_at r, vd_status = vm_status r,
            vd_auth_url = va_auth_url a, vd_vim_project = va_vim_project a, vd_auth_cred = cred\<rparr>)"
  define ev where "ev = \<lparr>ev_resource_id = vr_id req, ev_resource_state = vr_status req,
      ev_resource_type = RES_TYPE_VIM, ev_timestamp = clock s, ev_event_type = RES_EVT_CREATE,
      ev_event_details = []\<rparr>"
  define t where "t = ?s2\<lparr>t_events := t_events s @ [ev]\<rparr>"
  have made: "make_vim_dict E mask s' r = Inr (dict (if mask then mask_dict_password E full else full))"
    if "t_vim_auths s' = t_vim_auths ?s2" for mask and s' :: "'x db_scheme"
    using that auths by (simp add: make_vim_dict_def u dict_def full_def Let_def a_def)
  have create: "create_vim E c req s = (Inr (dict (mask_dict_password E full)), t)"
  proof -
    have "create_event (vr_id req) RES_TYPE_VIM (vr_status req) RES_EVT_CREATE (clock s) [] ?s2 = (Inr (), t)"
      using ids(1) by (simp add: create_event_ok ev_def t_def)
    then have ev: "thenE (create_event (vr_id req) RES_TYPE_VIM (vr_status req) RES_EVT_CREATE (clock s) [])
        (ret (dict (mask_dict_password E full))) ?s2 = (Inr (dict (mask_dict_password E full)), t)"
      by (intro trans [OF thenE_Inr]) simp_all
    have mk: "make_vim_dict E True ?s2 r = Inr (dict (mask_dict_password E full))" by (simp add: made)
    have "bindE (readE (\<lambda>s. make_vim_dict E True s r)) (\<lambda>d.
        thenE (create_event (vd_id d) RES_TYPE_VIM (vd_status d) RES_EVT_CREATE (vd_created_at d) []) (ret d)) ?s2
        = (Inr (dict (mask_dict_password E full)), t)"
      by (rule trans [OF bind_read], rule mk) (simp add: dict_def r_def ev [unfolded dict_def r_def, simplified])
    then show ?thesis
      unfolding create_vim_def
      by (intro trans [OF thenE_Inr [where m = "validate_default_vim c (vr_is_default req) None", OF validate_default_free [OF free]]]
          trans [OF bindE_Inr [where m = "as_duplicate ''vim'' (tx (create_vim_tx E req))", OF tx]])
  qed
  have get: "get_vim E c (vr_id req) False t = (Inr (dict full), t)"
  proof -
    have "db_wf t" using obeysD [OF wf_create_vim, of s E c req] wf create by simp
    then have dist: "distinct (map vm_id (t_vims t))" by (simp add: wf_defs)
    have mem: "r \<in> set (t_vims t)" by (simp add: t_def)
    have vis: "visible c Vim r"
      using own by (auto simp: visible_def in_scope_def not_deleted_def Vim_def r_def)
    have "get_by_id c Vim vm_id (t_vims t) (vr_id req) = Inr r"
      using get_by_id_visible [OF dist mem vis] ids(1) by (simp add: u)
    moreover have "make_vim_dict E False t r = Inr (dict full)" by (simp add: made t_def)
    ultimately show ?thesis by (simp add: get_vim_def get_vim_resource_def when_absent_def)
  qed
  have "map_of full = map_of (vr_auth_cred req)"
    using pw by (auto simp: full_def fun_eq_iff)
  moreover have "\<forall>b \<in> set (t_vim_auths t) - set (t_vim_auths s). \<not> has_key ''password'' (va_auth_cred b) \<and> va_password b = p"
    by (auto simp: t_def a_def has_key_map_of)
  ultimately show ?thesis
    using create get by (intro exI [of _ "dict (mask_dict_password E full)"] exI [of _ "dict full"] exI [of _ t])
      (simp add: dict_def)
qed

theorem create_vim_credentials_witness:
  "\<exists>d full t. create_vim sample_oslo (user_ctx ''t1'') sample_vim_req (empty_db 7) = (Inr d, t)
    \<and> get_vim sample_oslo (user_ctx ''t1'') (sample_uuid 100) False t = (Inr full, t)
    \<and> map_of (vd_auth_cred full) ''password'' = Some (PStr ''pw'')
    \<and> map_of (vd_auth_cred d) ''password'' = Some (PStr ''***'')"
proof -
  have wf: "db_wf (empty_db 7)" using reachable_ok [OF reachable_empty] by (simp add: db_ok_def)
  have "\<exists>d full t. create_vim sample_oslo (user_ctx ''t1'') sample_vim_req (empty_db 7) = (Inr d, t)
    \<and> get_vim sample_oslo (user_ctx ''t1'') (vr_id sample_vim_req) False t = (Inr full, t)
    \<and> map_of (vd_auth_cred full) = map_of (vr_auth_cred sample_vim_req)
    \<and> vd_auth_cred d = mask_dict_password sample_oslo (vd_auth_cred full)
    \<and> (\<forall>a \<in> set (t_vim_auths t) - set (t_vim_auths (empty_db 7)).
          \<not> has_key ''password'' (va_auth_cred a) \<and> va_password a = ''pw'')"
    by (rule create_vim_credentials [OF wf, where ten = "''t1''"]) code_simp+
  then obtain d full t where run: "create_vim sample_oslo (user_ctx ''t1'') sample_vim_req (empty_db 7) = (Inr d, t)"
    "get_vim sample_oslo (user_ctx ''t1'') (vr_id sample_vim_req) False t = (Inr full, t)"
    and full: "map_of (vd_auth_cred full) = map_of (vr_auth_cred sample_vim_req)"
    and d: "vd_auth_cred d = mask_dict_password sample_oslo (vd_auth_cred full)" by blast
  have pw: "map_of (vd_auth_cred full) ''password'' = Some (PStr ''pw'')"
    by (simp add: full sample_vim_req_def)
  moreover have "map_of (map (\<lambda>(k, v). if k = ''password'' then (k, PStr ''***'') else (k, v)) xs) ''password''
      = map_option (\<lambda>_. PStr ''***'') (map_of xs ''password'')" for xs :: pydict
    by (induction xs) auto
  ultimately show ?thesis using run d by (auto simp: sample_oslo_def sample_vim_req_def)
qed

section \<open>Network services that cannot be finished\<close>

text \<open>When the descriptor of a network service has been deleted meanwhile, which
  nothing prevents, finishing the deletion of the service fails with NSDNotFound and is
  rolled back: the service stays as it was, in PENDING_DELETE.\<close>

theorem delete_ns_post_stuck:
  assumes ns: "get_ns_resource c i s = Inr ns" and id: "uuid_ok i"
    and nsd: "get_nsd_resource c (ns_nsd_id ns) s = Inl (nsd_not_found (ns_nsd_id ns))"
  shows "delete_ns_post c i mo soft s = (Inl (nsd_not_found (ns_nsd_id ns)), s)"
proof -
  let ?finish = "bindE (readE (get_nsd_resource c (ns_nsd_id ns))) (\<lambda>nsd.
           whenE (nd_template_source nsd = Some ''inline'') (delete_nsd c (ns_nsd_id ns) True))"
  have stop: "?finish u = (Inl (nsd_not_found (ns_nsd_id ns)), u)" if "t_nsds u = t_nsds s" for u
    using nsd that by (simp add: bindE_def get_nsd_resource_def)
  let ?first = "if (case mo of None \<Rightarrow> False | Some m \<Rightarrow> mo_state m = ''ERROR'') then
                  thenE (update_nss (ns_in_query c i) (\<lambda>q. q\<lparr>ns_status := ERROR\<rparr>))
                    (create_event i RES_TYPE_NS (status_str ERROR) RES_EVT_DELETE (clock s) ''NS Delete ERROR'')
                else if soft then
                  thenE (update_nss (ns_in_query c i) (\<lambda>q. q\<lparr>ns_deleted_at := Some (clock s)\<rparr>))
                    (create_event i RES_TYPE_NS (status_str PENDING_DELETE) RES_EVT_DELETE (clock s) ''ns Delete Complete'')
                else delete_nss (ns_in_query c i)"
  have del: "delete_nss P s = (Inr (), s\<lparr>t_nss := filter (\<lambda>r. \<not> P r) (t_nss s), t_events := t_events s\<rparr>)" for P
    by (cases s) (simp add: delete_nss_def)
  have "\<exists>x y. ?first s = (Inr (), s\<lparr>t_nss := x, t_events := y\<rparr>)"
  proof (cases "(case mo of None \<Rightarrow> False | Some m \<Rightarrow> mo_state m = ''ERROR'') \<or> soft")
    case True
    with id show ?thesis
      by (auto simp: update_nss_def thenE_def bindE_def create_event_ok split: if_split)
  next
    case False
    then have "?first s = delete_nss (ns_in_query c i) s" by simp
    with del show ?thesis by metis
  qed
  then obtain x y where first: "?first s = (Inr (), s\<lparr>t_nss := x, t_events := y\<rparr>)" by blast
  have "thenE ?first ?finish s = (Inl (nsd_not_found (ns_nsd_id ns)), s\<lparr>t_nss := x, t_events := y\<rparr>)"
    by (rule trans [OF thenE_Inr], rule first, rule stop) simp
  then have "tx (thenE ?first ?finish) s =
      (Inl (nsd_not_found (ns_nsd_id ns)), rollback s (s\<lparr>t_nss := x, t_events := y\<rparr>))"
    by (rule tx_Inl)
  moreover have "rollback s (s\<lparr>t_nss := x, t_events := y\<rparr>) = s" by (simp add: rollback_def)
  ultimately show ?thesis
    unfolding delete_ns_post_def by (intro trans [OF bind_read [where f = "get_ns_resource c i", OF ns]]) (simp only: bind_utcnow)
qed

definition ns_stuck :: db where
  "ns_stuck = snd (delete_nsd (user_ctx ''t1'') (sample_uuid 1) True
     (snd (delete_ns (user_ctx ''t1'') (sample_uuid 2) with_ns)))"

lemma ns_stuck_val [code]: "ns_stuck =
     \<lparr>t_meads = [], t_service_types = [], t_mead_attrs = [], t_meas = [], t_mea_attrs =
     [], t_vims = [\<lparr>vm_id = ''00000000000000000000000000000100'', vm_type = ''openstack'',
     vm_tenant_id = ''t1'', vm_name = ''v'', vm_description = None, vm_placement_attr = [],
     vm_shared = False, vm_is_default = True, vm_status = ''PENDING'', vm_created_at = 7,
     vm_updated_at = None, vm_deleted_at = Some 0\<rparr>], t_vim_auths = [\<lparr>va_id =
     ''00000000000000000000000000000000'', va_vim_id = ''00000000000000000000000000000100'',
     va_password = ''pw'', va_auth_url = ''http'', va_vim_project = [(''name'', PStr ''p'')],
     va_auth_cred = [(''username'', PStr ''u'')]\<rparr>], t_nsds = [\<lparr>nd_id =
     ''00000000000000000000000000000001'', nd_tenant_id = ''t1'', nd_name = ''nsd'',
     nd_description = None, nd_meads = [], nd_template_source = Some ''onboarded'', nd_created_at
     = 7, nd_updated_at = None, nd_deleted_at = Some 7\<rparr>], t_nsd_attrs = [], t_nss =
     [\<lparr>ns_id = ''00000000000000000000000000000002'', ns_tenant_id = ''t1'', ns_nsd_id =
     ''00000000000000000000000000000001'', ns_name = ''ns'', ns_description = None, ns_mea_ids =
     None, ns_mgmt_urls = None, ns_status = PENDING_DELETE, ns_vim_id =
     ''00000000000000000000000000000100'', ns_error_reason = None, ns_created_at = 7,
     ns_updated_at = None, ns_deleted_at = Some 0\<rparr>], t_events = [\<lparr>ev_resource_id =
     ''00000000000000000000000000000100'', ev_resource_state = ''PENDING'', ev_resource_type =
     RES_TYPE_VIM, ev_timestamp = 7, ev_event_type = RES_EVT_CREATE, ev_event_details =
     []\<rparr>, \<lparr>ev_resource_id = ''00000000000000000000000000000001'', ev_resource_state
     = ''OnBoarded'', ev_resource_type = RES_TYPE_NSD, ev_timestamp = 7, ev_event_type =
     RES_EVT_CREATE, ev_event_details = []\<rparr>, \<lparr>ev_resource_id =
     ''00000000000000000000000000000002'', ev_resource_state = ''PENDING_CREATE'',
     ev_resource_type = RES_TYPE_NS, ev_timestamp = 7, ev_event_type = RES_EVT_CREATE,
     ev_event_details = ''NS UUID assigned.''\<rparr>, \<lparr>ev_resource_id =
     ''00000000000000000000000000000002'', ev_resource_state = ''PENDING_DELETE'',
     ev_resource_type = RES_TYPE_NS, ev_timestamp = 7, ev_event_type = RES_EVT_DELETE,
     ev_event_details = ''NS delete initiated''\<rparr>, \<lparr>ev_resource_id =
     ''00000000000000000000000000000001'', ev_resource_state = ''Not Applicable'',
     ev_resource_type = RES_TYPE_NSD, ev_timestamp = 7, ev_event_type = RES_EVT_DELETE,
     ev_event_details = []\<rparr>], clock = 7, uuid_count = 3\<rparr>"
  by code_simp

theorem delete_ns_post_stuck_witness:
  "reachable sample_oslo ns_stuck
   \<and> map ns_status (t_nss ns_stuck) = [PENDING_DELETE]
   \<and> delete_ns_post (user_ctx ''t1'') (sample_uuid 2) None True ns_stuck
       = (Inl (nsd_not_found (sample_uuid 1)), ns_stuck)"
proof (intro conjI)
  show "reachable sample_oslo ns_stuck"
    unfolding ns_stuck_def by (rule stepped [OF stepped [OF reachable_with_ns step_delete_ns] step_delete_nsd])
  show st: "map ns_status (t_nss ns_stuck) = [PENDING_DELETE]" by code_simp
  have ns: "get_ns_resource (user_ctx ''t1'') (sample_uuid 2) ns_stuck = Inr (hd (t_nss ns_stuck))" by code_simp
  have id: "uuid_ok (sample_uuid 2)" by code_simp
  have nsd: "ns_nsd_id (hd (t_nss ns_stuck)) = sample_uuid 1" by code_simp
  have gone: "get_nsd_resource (user_ctx ''t1'') (sample_uuid 1) ns_stuck = Inl (nsd_not_found (sample_uuid 1))" by code_simp
  show "delete_ns_post (user_ctx ''t1'') (sample_uuid 2) None True ns_stuck
       = (Inl (nsd_not_found (sample_uuid 1)), ns_stuck)"
    using delete_ns_post_stuck [OF ns id, unfolded nsd, OF gone] by simp
qed

text \<open>The name of a network service cannot be used again in its tenant, not even
  after the service was deleted: the unique constraint of the model class leaves the
  deletion time out.\<close>

theorem ns_name_taken_forever:
  assumes tenant: "get_tenant_id_for_create c (sr_tenant_id req) = Inr (Some ten)"
    and old: "old \<in> set (t_nss s)" "ns_tenant_id old = ten" "ns_name old = sr_name req"
    and nsd: "get_nsd_resource c (sr_nsd_id req) s = Inr nsd"
    and ids: "uuid_ok (gen_uuid E (uuid_count s))" "uuid_ok (sr_nsd_id req)" "uuid_ok (sr_vim_id req)"
  shows "create_ns E c req s =
    (Inl (Exc (Common DuplicateEntity)
       [(''_type'', PStr ''ns''), (''columns'', PList [PStr ''tenant_id'', PStr ''name''])]),
     s\<lparr>uuid_count := Suc (uuid_count s)\<rparr>)"
proof -
  let ?s1 = "s\<lparr>uuid_count := Suc (uuid_count s)\<rparr>" and ?i = "gen_uuid E (uuid_count s)"
  let ?cols = "[''tenant_id'', ''name'']"
  define r where "r = \<lparr>ns_id = ?i, ns_tenant_id = ten, ns_nsd_id = sr_nsd_id req, ns_name = sr_name req,
                ns_description = nd_description nsd, ns_mea_ids = None, ns_mgmt_urls = None,
                ns_status = PENDING_CREATE, ns_vim_id = sr_vim_id req, ns_error_reason = None,
                ns_created_at = clock s, ns_updated_at = None, ns_deleted_at = Some datetime_min\<rparr>"
  have u: "ns_unique r = (ten, sr_name req)" "ns_id r = ?i" "ns_nsd_id r = sr_nsd_id req"
    "ns_vim_id r = sr_vim_id req" by (simp_all add: r_def ns_unique_def)
  have taken: "(ten, sr_name req) \<in> ns_unique ` set (t_nss s)"
    using old by (auto simp: ns_unique_def intro!: rev_image_eqI)
  have "insert_ns r ?s1 = (Inl (duplicate_entry ?cols), ?s1)"
    using ids taken by (simp add: insert_ns_def bind_uuids_def list_ex_key2 u)
  then have dup: "thenE (insert_ns r) m ?s1 = (Inl (duplicate_entry ?cols), ?s1)"
    for m :: "('a db_scheme, ns_row) prog" by (rule thenE_Inl)
  have nsd': "get_nsd_resource c (sr_nsd_id req) ?s1 = Inr nsd"
    using nsd by (simp add: get_nsd_resource_def)
  have clk: "clock ?s1 = clock s" by simp
  have "create_ns_tx c (Some ten) ?i req ?s1 = (Inl (duplicate_entry ?cols), ?s1)"
    unfolding create_ns_tx_def
    by (rule trans [OF bind_read], rule nsd')
       (simp only: not_null_def option.case bind_pure bind_utcnow Let_def clk r_def [symmetric] dup)
  then have "as_duplicate ''ns'' (tx (create_ns_tx c (Some ten) ?i req)) ?s1 =
    (Inl (Exc (Common DuplicateEntity)
       [(''_type'', PStr ''ns''), (''columns'', PList (map PStr ?cols))]), rollback ?s1 ?s1)"
    by (intro as_duplicate_dup tx_Inl)
  moreover have "rollback ?s1 ?s1 = ?s1" by simp
  ultimately have "as_duplicate ''ns'' (tx (create_ns_tx c (Some ten) ?i req)) ?s1 =
    (Inl (Exc (Common DuplicateEntity)
       [(''_type'', PStr ''ns''), (''columns'', PList [PStr ''tenant_id'', PStr ''name''])]), ?s1)" by simp
  then show ?thesis
    unfolding create_ns_def tenant bind_pure bind_generate by (rule bindE_Inl)
qed

definition ns_gone :: db where
  "ns_gone = snd (delete_ns_post (user_ctx ''t1'') (sample_uuid 2) None True
     (snd (delete_ns (user_ctx ''t1'') (sample_uuid 2) with_ns)))"

lemma ns_gone_val [code]: "ns_gone =
     \<lparr>t_meads = [], t_service_types = [], t_mead_attrs = [], t_meas = [], t_mea_attrs =
     [], t_vims = [\<lparr>vm_id = ''00000000000000000000000000000100'', vm_type = ''openstack'',
     vm_tenant_id = ''t1'', vm_name = ''v'', vm_description = None, vm_placement_attr = [],
     vm_shared = False, vm_is_default = True, vm_status = ''PENDING'', vm_created_at = 7,
     vm_updated_at = None, vm_deleted_at = Some 0\<rparr>], t_vim_auths = [\<lparr>va_id =
     ''00000000000000000000000000000000'', va_vim_id = ''00000000000000000000000000000100'',
     va_password = ''pw'', va_auth_url = ''http'', va_vim_project = [(''name'', PStr ''p'')],
     va_auth_cred = [(''username'', PStr ''u'')]\<rparr>], t_nsds = [\<lparr>nd_id =
     ''00000000000000000000000000000001'', nd_tenant_id = ''t1'', nd_name = ''nsd'',
     nd_description = None, nd_meads = [], nd_template_source = Some ''onboarded'', nd_created_at
     = 7, nd_updated_at = None, nd_deleted_at = Some 0\<rparr>], t_nsd_attrs = [], t_nss =
     [\<lparr>ns_id = ''00000000000000000000000000000002'', ns_tenant_id = ''t1'', ns_nsd_id =
     ''00000000000000000000000000000001'', ns_name = ''ns'', ns_description = None, ns_mea_ids =
     None, ns_mgmt_urls = None, ns_status = PENDING_DELETE, ns_vim_id =
     ''00000000000000000000000000000100'', ns_error_reason = None, ns_created_at = 7,
     ns_updated_at = None, ns_deleted_at = Some 7\<rparr>], t_events = [\<lparr>ev_resource_id =
     ''00000000000000000000000000000100'', ev_resource_state = ''PENDING'', ev_resource_type =
     RES_TYPE_VIM, ev_timestamp = 7, ev_event_type = RES_EVT_CREATE, ev_event_details =
     []\<rparr>, \<lparr>ev_resource_id = ''00000000000000000000000000000001'', ev_resource_state
     = ''OnBoarded'', ev_resource_type = RES_TYPE_NSD, ev_timestamp = 7, ev_event_type =
     RES_EVT_CREATE, ev_event_details = []\<rparr>, \<lparr>ev_resource_id =
     ''00000000000000000000000000000002'', ev_resource_state = ''PENDING_CREATE'',
     ev_resource_type = RES_TYPE_NS, ev_timestamp = 7, ev_event_type = RES_EVT_CREATE,
     ev_event_details = ''NS UUID assigned.''\<rparr>, \<lparr>ev_resource_id =
     ''00000000000000000000000000000002'', ev_resource_state = ''PENDING_DELETE'',
     ev_resource_type = RES_TYPE_NS, ev_timestamp = 7, ev_event_type = RES_EVT_DELETE,
     ev_event_details = ''NS delete initiated''\<rparr>, \<lparr>ev_resource_id =
     ''00000000000000000000000000000002'', ev_resource_state = ''PENDING_DELETE'',
     ev_resource_type = RES_TYPE_NS, ev_timestamp = 7, ev_event_type = RES_EVT_DELETE,
     ev_event_details = ''ns Delete Complete''\<rparr>], clock = 7, uuid_count = 3\<rparr>"
  by code_simp

theorem ns_name_taken_forever_witness:
  "get_ns (user_ctx ''t1'') (sample_uuid 2) ns_gone = (Inl (ns_not_found (sample_uuid 2)), ns_gone)
   \<and> fst (create_ns sample_oslo (user_ctx ''t1'') sample_ns_req ns_gone)
     = Inl (Exc (Common DuplicateEntity)
        [(''_type'', PStr ''ns''), (''columns'', PList [PStr ''tenant_id'', PStr ''name''])])"
proof
  show "get_ns (user_ctx ''t1'') (sample_uuid 2) ns_gone = (Inl (ns_not_found (sample_uuid 2)), ns_gone)"
    by code_simp
  have "create_ns sample_oslo (user_ctx ''t1'') sample_ns_req ns_gone =
      (Inl (Exc (Common DuplicateEntity)
        [(''_type'', PStr ''ns''), (''columns'', PList [PStr ''tenant_id'', PStr ''name''])]),
       ns_gone\<lparr>uuid_count := Suc (uuid_count ns_gone)\<rparr>)"
    by (rule ns_name_taken_forever [where old = "hd (t_nss ns_gone)" and ten = "''t1''"
          and nsd = "hd (t_nsds ns_gone)"]) code_simp+
  then show "fst (create_ns sample_oslo (user_ctx ''t1'') sample_ns_req ns_gone)
     = Inl (Exc (Common DuplicateEntity)
        [(''_type'', PStr ''ns''), (''columns'', PList [PStr ''tenant_id'', PStr ''name''])])" by simp
qed

end
