(* ===== verification/Attributes.thy ===== *)
theory Attributes
  imports Context
begin

text \<open>
  The converters and validators of api/v1/attributes.py. A validator answers the
  message of the first problem or nothing; it may raise; and the validators of
  dictionaries replace values by their conversions in place, so the result carries the
  data afterwards. \<open>validator\<close> is the entry of an attribute map, \<open>'type:...'\<close> with its
  parameter. The address and pattern tests of netaddr, re and oslo are a parameter;
  each looks at strings only, the code having turned other values away before.
\<close>

record netlib =
  valid_mac :: "string \<Rightarrow> bool"
  ip_address_ok :: "string \<Rightarrow> bool"
  ip_network_ok :: "string \<Rightarrow> bool"
  regex_match :: "string \<Rightarrow> string \<Rightarrow> bool"
  uuid_like :: "string \<Rightarrow> bool"

definition invalid_input :: "msg \<Rightarrow> exn" where
  "invalid_input m = (case m of Msg t vs \<Rightarrow>
     Exc (Common InvalidInput) [(''error_message'', PList (PStr t # vs))])"

section \<open>Keys of a dictionary\<close>

text \<open>\<open>_verify_dict_keys\<close>\<close>

definition same_set :: "string list \<Rightarrow> string list \<Rightarrow> bool" where
  "same_set xs ys \<longleftrightarrow> list_all (List.member ys) xs \<and> list_all (List.member xs) ys"

definition verify_dict_keys :: "string list \<Rightarrow> pyval \<Rightarrow> bool \<Rightarrow> verdict" where
  "verify_dict_keys expected target strict =
     (case target of
        PDict d \<Rightarrow>
          (if (if strict then same_set expected (dict_keys d)
               else list_all (List.member (dict_keys d)) expected) then None
           else Some (Msg ''Validation of dictionary's keys failed.Expected keys: %(expected_keys)s Provided keys: %(provided_keys)s''
              [PList (map PStr expected), PList (map PStr (dict_keys d))]))
      | _ \<Rightarrow> Some (Msg ''Invalid input. '%(target_dict)s' must be a dictionary with keys: %(expected_keys)s''
              [target, PList (map PStr expected)]))"

section \<open>Strings and numbers\<close>

definition validate_values :: "pyval \<Rightarrow> pyval list \<Rightarrow> verdict" where
  "validate_values data valid = (if \<not> py_in data valid
     then Some (Msg '''%(data)s' is not in %(valid_values)s'' [data, PList valid]) else None)"

definition validate_string :: "pyval \<Rightarrow> nat option \<Rightarrow> verdict" where
  "validate_string data max_len = (case data of
     PStr s \<Rightarrow> (case max_len of
        Some m \<Rightarrow> if length s > m
          then Some (Msg '''%(data)s' exceeds maximum length of %(max_len)s'' [data, PInt (int m)]) else None
      | None \<Rightarrow> None)
   | _ \<Rightarrow> Some (Msg '''%s' is not a valid string'' [data]))"

definition validate_string_or_none :: "pyval \<Rightarrow> nat option \<Rightarrow> verdict" where
  "validate_string_or_none data max_len = (if data \<noteq> PNone then validate_string data max_len else None)"

definition validate_not_empty_string :: "pyval \<Rightarrow> nat option \<Rightarrow> verdict" where
  "validate_not_empty_string data max_len = (case validate_string data max_len of
     Some m \<Rightarrow> Some m
   | None \<Rightarrow> (case data of
       PStr s \<Rightarrow> if strip s = [] then Some (Msg '''%s' Blank strings are not permitted'' [data]) else None
     | _ \<Rightarrow> None))"

definition validate_not_empty_string_or_none :: "pyval \<Rightarrow> nat option \<Rightarrow> verdict" where
  "validate_not_empty_string_or_none data max_len =
     (if data \<noteq> PNone then validate_not_empty_string data max_len else None)"

definition convert_to_boolean :: "pyval \<Rightarrow> exn + bool" where
  "convert_to_boolean data =
     (let bad = Inl (invalid_input (Msg '''%s' cannot be converted to boolean'' [data])) in
      case data of
        PStr s \<Rightarrow> (let v = lower s in
          if v = ''true'' \<or> v = ''1'' then Inr True
          else if v = ''false'' \<or> v = ''0'' then Inr False else bad)
      | PBool b \<Rightarrow> Inr b
      | PInt i \<Rightarrow> if i = 0 then Inr False else if i = 1 then Inr True else bad
      | _ \<Rightarrow> bad)"

definition validate_boolean :: "pyval \<Rightarrow> verdict" where
  "validate_boolean data = (case convert_to_boolean data of
     Inl e \<Rightarrow> Some (Msg '''%s' is not a valid boolean value'' [data])
   | Inr b \<Rightarrow> None)"

definition convert_to_int :: "pyval \<Rightarrow> exn + int" where
  "convert_to_int data = (case py_int data of
     Inl e \<Rightarrow> Inl (invalid_input (Msg '''%s' is not an integer'' [data])) | Inr i \<Rightarrow> Inr i)"

definition validate_range :: "pyval \<Rightarrow> int option \<Rightarrow> int option \<Rightarrow> verdict" where
  "validate_range data lo hi = (case py_int data of
     Inl e \<Rightarrow> Some (Msg '''%s' is not an integer'' [data])
   | Inr i \<Rightarrow>
      (case (case lo of Some l \<Rightarrow> if i < l
               then Some (Msg ('''%(data)s' is too small - must be at least '%(limit)d'' @ [CHR 0x27]) [PInt i, PInt l]) else None
             | None \<Rightarrow> None) of
         Some m \<Rightarrow> Some m
       | None \<Rightarrow>
          (case hi of Some h \<Rightarrow> if i > h
             then Some (Msg ('''%(data)s' is too large - must be no larger than '%(limit)d'' @ [CHR 0x27]) [PInt i, PInt h]) else None
           | None \<Rightarrow> None)))"

definition validate_non_negative :: "pyval \<Rightarrow> verdict" where
  "validate_non_negative data = (case py_int data of
     Inl e \<Rightarrow> Some (Msg '''%s' is not an integer'' [data])
   | Inr i \<Rightarrow> if i < 0 then Some (Msg '''%s' should be non-negative'' [PInt i]) else None)"

section \<open>Addresses\<close>

text \<open>\<open>_validate_no_whitespace\<close>: more than one word raises InvalidInput, a value that is
  no string AttributeError. Its callers catch every exception.\<close>

definition validate_no_whitespace :: "pyval \<Rightarrow> exn + string" where
  "validate_no_whitespace data = (case data of
     PStr s \<Rightarrow> if length (split_ws s) > 1
       then Inl (invalid_input (Msg '''%s' contains whitespace'' [data])) else Inr s
   | _ \<Rightarrow> Inl (Exc (Lib AttributeError) []))"

definition passes :: "(string \<Rightarrow> bool) \<Rightarrow> pyval \<Rightarrow> bool" where
  "passes ok data = (case validate_no_whitespace data of Inl e \<Rightarrow> False | Inr s \<Rightarrow> ok s)"

definition validate_mac_address :: "netlib \<Rightarrow> pyval \<Rightarrow> verdict" where
  "validate_mac_address N data = (if passes (valid_mac N) data then None
     else Some (Msg '''%s' is not a valid MAC address'' [data]))"

definition validate_mac_address_or_none :: "netlib \<Rightarrow> pyval \<Rightarrow> verdict" where
  "validate_mac_address_or_none N data = (if data = PNone then None else validate_mac_address N data)"

definition validate_ip_address :: "netlib \<Rightarrow> pyval \<Rightarrow> verdict" where
  "validate_ip_address N data = (if passes (ip_address_ok N) data then None
     else Some (Msg '''%s' is not a valid IP address'' [data]))"

definition validate_ip_address_or_none :: "netlib \<Rightarrow> pyval \<Rightarrow> verdict" where
  "validate_ip_address_or_none N data = (if data = PNone then None else validate_ip_address N data)"

definition validate_subnet :: "netlib \<Rightarrow> pyval \<Rightarrow> verdict" where
  "validate_subnet N data =
     (if passes (ip_network_ok N) data then
        (case data of
           PStr s \<Rightarrow> if List.member s (CHR ''/'') then None
             else Some (Msg '''%(data)s' isn't a recognized IP subnet cidr, '%(cidr)s' is recommended'' [data])
         | _ \<Rightarrow> None)
      else Some (Msg '''%s' is not a valid IP subnet'' [data]))"

definition validate_subnet_or_none :: "netlib \<Rightarrow> pyval \<Rightarrow> verdict" where
  "validate_subnet_or_none N data = (if data = PNone then None else validate_subnet N data)"

text \<open>The first message in a list of checks.\<close>

definition first_msg :: "verdict list \<Rightarrow> verdict" where
  "first_msg vs = (case filter (\<lambda>v. v \<noteq> None) vs of [] \<Rightarrow> None | v # _ \<Rightarrow> v)"

definition validate_ip_pools :: "netlib \<Rightarrow> pyval \<Rightarrow> verdict" where
  "validate_ip_pools N data = (case data of
     PList pools \<Rightarrow> first_msg (map (\<lambda>pool.
       (case verify_dict_keys [''start'', ''end''] pool True of
          Some m \<Rightarrow> Some m
        | None \<Rightarrow> (case pool of
            PDict d \<Rightarrow> first_msg (map (\<lambda>k. validate_ip_address N (dict_get k PNone d)) [''start'', ''end''])
          | _ \<Rightarrow> None))) pools)
   | _ \<Rightarrow> Some (Msg (''Invalid data format for IP pool: '%s'' @ [CHR 0x27]) [data]))"

definition validate_uuid :: "netlib \<Rightarrow> pyval \<Rightarrow> verdict" where
  "validate_uuid N data = (case data of
     PStr s \<Rightarrow> if uuid_like N s then None else Some (Msg '''%s' is not a valid UUID'' [data])
   | _ \<Rightarrow> Some (Msg '''%s' is not a valid UUID'' [data]))"

definition validate_uuid_or_none :: "netlib \<Rightarrow> pyval \<Rightarrow> verdict" where
  "validate_uuid_or_none N data = (if data \<noteq> PNone then validate_uuid N data else None)"

text \<open>The loop of \<open>_validate_fixed_ips\<close> with the addresses seen so far.\<close>

fun fixed_ips_loop :: "netlib \<Rightarrow> pyval list \<Rightarrow> pyval list \<Rightarrow> verdict" where
  "fixed_ips_loop N ips [] = None"
| "fixed_ips_loop N ips (fixed_ip # rest) = (case fixed_ip of
     PDict d \<Rightarrow>
      (case (case map_of d ''ip_address'' of
               None \<Rightarrow> (None, ips)
             | Some a \<Rightarrow>
                 (if py_in a ips then (Some (Msg (''Duplicate IP address '%s'' @ [CHR 0x27]) [a]), ips)
                  else (validate_ip_address N a, ips @ [a]))) of
         (Some m, _) \<Rightarrow> Some m
       | (None, ips') \<Rightarrow>
          (case (case map_of d ''subnet_id'' of None \<Rightarrow> None | Some u \<Rightarrow> validate_uuid N u) of
             Some m \<Rightarrow> Some m
           | None \<Rightarrow> fixed_ips_loop N ips' rest))
   | _ \<Rightarrow> Some (Msg (''Invalid data format for fixed IP: '%s'' @ [CHR 0x27]) [fixed_ip]))"

definition validate_fixed_ips :: "netlib \<Rightarrow> pyval \<Rightarrow> verdict" where
  "validate_fixed_ips N data = (case data of
     PList xs \<Rightarrow> fixed_ips_loop N [] xs
   | _ \<Rightarrow> Some (Msg (''Invalid data format for fixed IP: '%s'' @ [CHR 0x27]) [data]))"

definition validate_regex :: "netlib \<Rightarrow> pyval \<Rightarrow> string \<Rightarrow> verdict" where
  "validate_regex N data pattern = (case data of
     PStr s \<Rightarrow> if regex_match N pattern s then None else Some (Msg '''%s' is not a valid input'' [data])
   | _ \<Rightarrow> Some (Msg '''%s' is not a valid input'' [data]))"

definition validate_regex_or_none :: "netlib \<Rightarrow> pyval \<Rightarrow> string \<Rightarrow> verdict" where
  "validate_regex_or_none N data pattern = (if data = PNone then None else validate_regex N data pattern)"

text \<open>\<open>HOSTNAME_PATTERN\<close> is only handed to \<open>re.match\<close>; its name stands for it.\<close>

definition HOSTNAME_PATTERN :: string where
  "HOSTNAME_PATTERN = ''HOSTNAME_PATTERN''"

fun nameservers_loop :: "netlib \<Rightarrow> pyval list \<Rightarrow> pyval list \<Rightarrow> verdict" where
  "nameservers_loop N ips [] = None"
| "nameservers_loop N ips (ip # rest) =
     (if validate_ip_address N ip \<noteq> None \<and> validate_regex N ip HOSTNAME_PATTERN \<noteq> None
      then Some (Msg '''%s' is not a valid nameserver'' [ip])
      else if py_in ip ips then Some (Msg (''Duplicate nameserver '%s'' @ [CHR 0x27]) [ip])
      else nameservers_loop N (ips @ [ip]) rest)"

text \<open>What a \<open>for\<close> loop over a value sees; \<open>None\<close> when the value has no \<open>__iter__\<close>.\<close>

definition py_iter :: "pyval \<Rightarrow> pyval list option" where
  "py_iter v = (case v of PList xs \<Rightarrow> Some xs | PDict d \<Rightarrow> Some (map PStr (dict_keys d))
     | PStr s \<Rightarrow> Some (map (\<lambda>c. PStr [c]) s) | _ \<Rightarrow> None)"

definition validate_nameservers :: "netlib \<Rightarrow> pyval \<Rightarrow> verdict" where
  "validate_nameservers N data = (case py_iter data of
     None \<Rightarrow> Some (Msg (''Invalid data format for nameserver: '%s'' @ [CHR 0x27]) [data])
   | Some xs \<Rightarrow> nameservers_loop N [] xs)"

fun hostroutes_loop :: "netlib \<Rightarrow> pyval list \<Rightarrow> pyval list \<Rightarrow> verdict" where
  "hostroutes_loop N seen [] = None"
| "hostroutes_loop N seen (route # rest) =
     (case verify_dict_keys [''destination'', ''nexthop''] route True of
        Some m \<Rightarrow> Some m
      | None \<Rightarrow> (case route of
          PDict d \<Rightarrow>
            (case first_msg [validate_subnet N (dict_get ''destination'' PNone d),
                             validate_ip_address N (dict_get ''nexthop'' PNone d)] of
               Some m \<Rightarrow> Some m
             | None \<Rightarrow> if py_in route seen then Some (Msg (''Duplicate hostroute '%s'' @ [CHR 0x27]) [route])
                 else hostroutes_loop N (seen @ [route]) rest)
        | _ \<Rightarrow> None))"

definition validate_hostroutes :: "netlib \<Rightarrow> pyval \<Rightarrow> verdict" where
  "validate_hostroutes N data = (case data of
     PList xs \<Rightarrow> hostroutes_loop N [] xs
   | _ \<Rightarrow> Some (Msg (''Invalid data format for hostroute: '%s'' @ [CHR 0x27]) [data]))"

text \<open>\<open>len(set(data)) != len(data)\<close> for values that hash (a list or a dictionary among
  them raises TypeError) and \<open>', '.join(data)\<close> in the message, which raises TypeError
  unless all are strings.\<close>

fun py_distinct :: "pyval list \<Rightarrow> bool" where
  "py_distinct [] = True"
| "py_distinct (x # xs) = (\<not> py_in x xs \<and> py_distinct xs)"

definition hashable :: "pyval \<Rightarrow> bool" where
  "hashable v \<longleftrightarrow> \<not> is_list v \<and> \<not> is_dict v"

definition duplicate_items :: "pyval list \<Rightarrow> exn + verdict" where
  "duplicate_items xs =
     (if \<not> list_all hashable xs then Inl (Exc (Lib TypeError) [])
      else if py_distinct xs then Inr None
      else if list_all is_str xs then Inr (Some (Msg (''Duplicate items in the list: '%s'' @ [CHR 0x27]) xs))
      else Inl (Exc (Lib TypeError) []))"

definition validate_subnet_list :: "netlib \<Rightarrow> pyval \<Rightarrow> exn + verdict" where
  "validate_subnet_list N data = (case data of
     PList xs \<Rightarrow> (case duplicate_items xs of
        Inl e \<Rightarrow> Inl e | Inr (Some m) \<Rightarrow> Inr (Some m)
      | Inr None \<Rightarrow> Inr (first_msg (map (validate_subnet N) xs)))
   | _ \<Rightarrow> Inr (Some (Msg '''%s' is not a list'' [data])))"

definition validate_uuid_list :: "netlib \<Rightarrow> pyval \<Rightarrow> exn + verdict" where
  "validate_uuid_list N data = (case data of
     PList xs \<Rightarrow> (case first_msg (map (validate_uuid N) xs) of
        Some m \<Rightarrow> Inr (Some m) | None \<Rightarrow> duplicate_items xs)
   | _ \<Rightarrow> Inr (Some (Msg '''%s' is not a list'' [data])))"

section \<open>Converters\<close>

text \<open>\<open>'key=value'\<close> strings: both sides are stripped, the key must not be empty.\<close>

definition convert_kvp_str_to_list :: "pyval \<Rightarrow> exn + string \<times> string" where
  "convert_kvp_str_to_list data = (case data of
     PStr s \<Rightarrow> (case map strip (split_once (CHR ''='') s) of
        [k, v] \<Rightarrow> if k \<noteq> [] then Inr (k, v)
          else Inl (invalid_input (Msg '''%s' is not of the form <key>=[value]'' [data]))
      | _ \<Rightarrow> Inl (invalid_input (Msg '''%s' is not of the form <key>=[value]'' [data])))
   | _ \<Rightarrow> Inl (Exc (Lib AttributeError) []))"

text \<open>The values of a key form a set; here a list without repetitions, in the order of
  first occurrence (Python leaves the order open).\<close>

fun kvp_loop :: "pyval list \<Rightarrow> (string \<times> string list) list \<Rightarrow> exn + (string \<times> string list) list" where
  "kvp_loop [] acc = Inr acc"
| "kvp_loop (x # xs) acc = (case convert_kvp_str_to_list x of
     Inl e \<Rightarrow> Inl e
   | Inr (k, v) \<Rightarrow> kvp_loop xs (dict_set k (let vs = dict_get k [] acc in
       if List.member vs v then vs else vs @ [v]) acc))"

definition convert_kvp_list_to_dict :: "pyval list \<Rightarrow> exn + (string \<times> string list) list" where
  "convert_kvp_list_to_dict xs = (if xs = [PStr ''True''] then Inr [] else kvp_loop xs [])"

definition convert_none_to_empty_list :: "pyval \<Rightarrow> pyval" where
  "convert_none_to_empty_list v = (if v = PNone then PList [] else v)"

definition convert_none_to_empty_dict :: "pyval \<Rightarrow> pyval" where
  "convert_none_to_empty_dict v = (if v = PNone then PDict [] else v)"

definition convert_to_list :: "pyval \<Rightarrow> pyval" where
  "convert_to_list data = (if data = PNone then PList []
     else if is_str data then PList [data]
     else (case py_iter data of Some xs \<Rightarrow> PList xs | None \<Rightarrow> PList [data]))"

datatype converter =
    ToBoolean | ToInt | KvpStrToList | KvpListToDict | NoneToEmptyList | NoneToEmptyDict | ToList

primrec convert :: "converter \<Rightarrow> pyval \<Rightarrow> exn + pyval" where
  "convert ToBoolean v = map_sum id PBool (convert_to_boolean v)"
| "convert ToInt v = map_sum id PInt (convert_to_int v)"
| "convert KvpStrToList v = map_sum id (\<lambda>(k, w). PList [PStr k, PStr w]) (convert_kvp_str_to_list v)"
| "convert KvpListToDict v = (case py_iter v of
     None \<Rightarrow> Inl (Exc (Lib TypeError) [])
   | Some xs \<Rightarrow> map_sum id (\<lambda>d. PDict (map (\<lambda>(k, vs). (k, PList (map PStr vs))) d))
       (if is_list v then convert_kvp_list_to_dict xs else kvp_loop xs []))"
| "convert NoneToEmptyList v = Inr (convert_none_to_empty_list v)"
| "convert NoneToEmptyDict v = Inr (convert_none_to_empty_dict v)"
| "convert ToList v = Inr (convert_to_list v)"

section \<open>The table of validators\<close>

text \<open>An entry of the \<open>validate\<close> dictionary: a known \<open>'type:...'\<close> with its parameter, or
  a name the table lacks. A key specification says whether the key is required, how it
  is converted and how it is validated.\<close>

datatype validator =
    is_TDict: TDict "(string \<times> key_spec) list" | TDictOrNone "(string \<times> key_spec) list"
  | TDictOrEmpty "(string \<times> key_spec) list" | TDictOrNodata "(string \<times> key_spec) list"
  | TFixedIps | THostroutes | TIpAddress | TIpAddressOrNone | TIpPools | TMacAddress
  | TMacAddressOrNone | TNameservers | TNonNegative | TRange "int option" "int option"
  | TRegex string | TRegexOrNone string | TString "nat option" | TStringOrNone "nat option"
  | TNotEmptyString "nat option" | TNotEmptyStringOrNone "nat option" | TSubnet | TSubnetList
  | TSubnetOrNone | TUuid | TUuidOrNone | TUuidList | TValues "pyval list" | TBoolean
  | TServiceTypeList | TUnknown string
and key_spec = Spec (spec_required: bool) (spec_convert: "converter option") (spec_rule: "validator option")

text \<open>\<open>_validate_service_type_list\<close> of extensions/mem.py, which registers itself in the
  table: a list of dictionaries whose \<open>service_type\<close>, where present, is a string.\<close>

fun service_type_loop :: "pyval list \<Rightarrow> verdict" where
  "service_type_loop [] = None"
| "service_type_loop (st # sts) = (case st of
     PDict d \<Rightarrow> (case (case map_of d ''service_type'' of None \<Rightarrow> None | Some v \<Rightarrow> validate_string v None) of
        Some m \<Rightarrow> Some m | None \<Rightarrow> service_type_loop sts)
   | _ \<Rightarrow> Some (Msg '''%s' is not a dictionary'' [st]))"

definition validate_service_type_list :: "pyval \<Rightarrow> verdict" where
  "validate_service_type_list data = (case data of
     PList [] \<Rightarrow> Some (Msg (''empty list is not allowed for service list. '%s'' @ [CHR 0x27]) [data])
   | PList sts \<Rightarrow> service_type_loop sts
   | _ \<Rightarrow> Some (Msg (''invalid data format for service list: '%s'' @ [CHR 0x27]) [data]))"

definition required_keys :: "(string \<times> key_spec) list \<Rightarrow> string list" where
  "required_keys specs = map fst (filter (\<lambda>(k, sp). spec_required sp) specs)"

text \<open>A validator that neither raises nor changes the data.\<close>

definition pure_verdict :: "verdict \<Rightarrow> pyval \<Rightarrow> exn + verdict \<times> pyval" where
  "pure_verdict v data = Inr (v, data)"

function (sequential) validate :: "netlib \<Rightarrow> validator \<Rightarrow> pyval \<Rightarrow> exn + verdict \<times> pyval"
  and validate_items :: "netlib \<Rightarrow> (string \<times> key_spec) list \<Rightarrow> pydict \<Rightarrow> exn + verdict \<times> pydict" where
  "validate N (TDict specs) data = (case data of
     PDict d \<Rightarrow>
       (if specs = [] then Inr (None, data)
        else (case (if required_keys specs = [] then None
                    else verify_dict_keys (required_keys specs) data False) of
          Some m \<Rightarrow> Inr (Some m, data)
        | None \<Rightarrow> map_sum id (\<lambda>(v, d'). (v, PDict d')) (validate_items N specs d)))
   | _ \<Rightarrow> Inr (Some (Msg '''%s' is not a dictionary'' [data]), data))"
| "validate N (TDictOrNone specs) data = (if data \<noteq> PNone then validate N (TDict specs) data else Inr (None, data))"
| "validate N (TDictOrEmpty specs) data = (if data \<noteq> PDict [] then validate N (TDict specs) data else Inr (None, data))"
| "validate N (TDictOrNodata specs) data = (if truthy data then validate N (TDict specs) data else Inr (None, data))"
| "validate N TFixedIps data = pure_verdict (validate_fixed_ips N data) data"
| "validate N THostroutes data = pure_verdict (validate_hostroutes N data) data"
| "validate N TIpAddress data = pure_verdict (validate_ip_address N data) data"
| "validate N TIpAddressOrNone data = pure_verdict (validate_ip_address_or_none N data) data"
| "validate N TIpPools data = pure_verdict (validate_ip_pools N data) data"
| "validate N TMacAddress data = pure_verdict (validate_mac_address N data) data"
| "validate N TMacAddressOrNone data = pure_verdict (validate_mac_address_or_none N data) data"
| "validate N TNameservers data = pure_verdict (validate_nameservers N data) data"
| "validate N TNonNegative data = pure_verdict (validate_non_negative data) data"
| "validate N (TRange lo hi) data = pure_verdict (validate_range data lo hi) data"
| "validate N (TRegex p) data = pure_verdict (validate_regex N data p) data"
| "validate N (TRegexOrNone p) data = pure_verdict (validate_regex_or_none N data p) data"
| "validate N (TString m) data = pure_verdict (validate_string data m) data"
| "validate N (TStringOrNone m) data = pure_verdict (validate_string_or_none data m) data"
| "validate N (TNotEmptyString m) data = pure_verdict (validate_not_empty_string data m) data"
| "validate N (TNotEmptyStringOrNone m) data = pure_verdict (validate_not_empty_string_or_none data m) data"
| "validate N TSubnet data = pure_verdict (validate_subnet N data) data"
| "validate N TSubnetList data = map_sum id (\<lambda>v. (v, data)) (validate_subnet_list N data)"
| "validate N TSubnetOrNone data = pure_verdict (validate_subnet_or_none N data) data"
| "validate N TUuid data = pure_verdict (validate_uuid N data) data"
| "validate N TUuidOrNone data = pure_verdict (validate_uuid_or_none N data) data"
| "validate N TUuidList data = map_sum id (\<lambda>v. (v, data)) (validate_uuid_list N data)"
| "validate N (TValues vs) data = pure_verdict (validate_values data vs) data"
| "validate N TBoolean data = pure_verdict (validate_boolean data) data"
| "validate N TServiceTypeList data = pure_verdict (validate_service_type_list data) data"
| "validate N (TUnknown n) data = pure_verdict (Some (Msg ''Validator '%s' does not exist.'' [PStr n])) data"
| "validate_items N [] d = Inr (None, d)"
| "validate_items N ((k, Spec req conv rule) # specs) d =
     (if \<not> has_key k d then validate_items N specs d
      else (case (case conv of None \<Rightarrow> Inr (dict_get k PNone d) | Some c \<Rightarrow> convert c (dict_get k PNone d)) of
         Inl e \<Rightarrow> Inl e
       | Inr v \<Rightarrow>
          (case rule of
             None \<Rightarrow> validate_items N specs (dict_set k v d)
           | Some r \<Rightarrow>
              (case validate N r v of
                 Inl e \<Rightarrow> Inl e
               | Inr (Some m, v') \<Rightarrow> Inr (Some m, dict_set k v' d)
               | Inr (None, v') \<Rightarrow> validate_items N specs (dict_set k v' d)))))"
  by pat_completeness auto
termination
  by (relation "measure (\<lambda>x. case x of
        Inl (N, v, data) \<Rightarrow> 2 * size v + (if is_TDict v then 0 else 1)
      | Inr (N, specs, d) \<Rightarrow> 2 * size_list (size_prod (\<lambda>_. 0) size) specs + 1)")
    (auto split: option.splits)

end
