(* ===== verification/ApiCommon.thy ===== *)
theory ApiCommon
  imports Attributes
begin

text \<open>
  The query parameters of a list request (api/api_common.py): filters, sorting and
  pagination. The parameters are webob's multi-dictionary: a list of keys and values;
  which value of a repeated key \<open>get\<close> answers, what \<open>pop\<close> and assignment do to
  repetitions and the URL encoding are webob's and urllib's, hence a parameter. A
  helper class is the record of the values its constructor stores, its methods are
  functions on it; the objects listed are attribute dictionaries.
\<close>

type_synonym query = "(string \<times> string) list"

record webob =
  multi_get :: "query \<Rightarrow> string \<Rightarrow> string option"
  multi_pop :: "string \<Rightarrow> query \<Rightarrow> query"
  multi_set :: "string \<Rightarrow> string \<Rightarrow> query \<Rightarrow> query"
  urlencode :: "query \<Rightarrow> string"

record request =
  GET :: query
  path_url :: string

text \<open>What a declared attribute of a resource may carry.\<close>

record attr_info =
  allow_post :: bool
  allow_put :: bool
  attr_default :: "pyval option"
  convert_to :: "converter option"
  convert_list_to :: "converter option"
  validate_rules :: "validator list"
  is_visible :: bool
  required_by_policy :: bool
  primary_key :: bool
  enforce_policy :: bool

type_synonym attr_map = "(string \<times> attr_info) list"

section \<open>Filters\<close>

definition list_args :: "request \<Rightarrow> string \<Rightarrow> string list" where
  "list_args r arg = filter (\<lambda>v. v \<noteq> []) (map snd (filter (\<lambda>(k, v). k = arg) (GET r)))"

text \<open>\<open>dict_of_lists\<close>: the keys in order of first occurrence, each with all its values.\<close>

definition first_keys :: "string list \<Rightarrow> string list" where
  "first_keys ks = rev (remdups (rev ks))"

definition dict_of_lists :: "query \<Rightarrow> (string \<times> string list) list" where
  "dict_of_lists q = map (\<lambda>k. (k, map snd (filter (\<lambda>(j, v). j = k) q))) (first_keys (map fst q))"

fun convert_all :: "converter \<Rightarrow> pyval list \<Rightarrow> exn + pyval list" where
  "convert_all c [] = Inr []"
| "convert_all c (v # vs) = (case convert c v of Inl e \<Rightarrow> Inl e
     | Inr w \<Rightarrow> map_sum id (\<lambda>ws. w # ws) (convert_all c vs))"

definition filter_values :: "attr_info option \<Rightarrow> string list \<Rightarrow> exn + pyval" where
  "filter_values info values = (let vs = map PStr (filter (\<lambda>v. v \<noteq> []) values) in
     case info of
       None \<Rightarrow> Inr (PList vs)
     | Some a \<Rightarrow> (case convert_list_to a of
         Some c \<Rightarrow> convert c (PList vs)
       | None \<Rightarrow> (case convert_to a of
           Some c \<Rightarrow> map_sum id PList (convert_all c vs)
         | None \<Rightarrow> Inr (PList vs))))"

fun filters_loop :: "attr_map \<Rightarrow> string list \<Rightarrow> (string \<times> string list) list \<Rightarrow> pydict \<Rightarrow> exn + pydict" where
  "filters_loop infos skips [] res = Inr res"
| "filters_loop infos skips ((key, values) # rest) res =
     (if List.member skips key then filters_loop infos skips rest res
      else (case filter_values (map_of infos key) values of
         Inl e \<Rightarrow> Inl e
       | Inr v \<Rightarrow> filters_loop infos skips rest (if truthy v then dict_set key v res else res)))"

definition get_filters :: "request \<Rightarrow> attr_map \<Rightarrow> string list \<Rightarrow> exn + pydict" where
  "get_filters r infos skips = filters_loop infos skips (dict_of_lists (GET r)) []"

section \<open>Limit and marker\<close>

text \<open>\<open>conf\<close> is the option \<open>pagination_max_limit\<close>; a zero is warned about but kept.\<close>

definition get_pagination_max_limit :: "string \<Rightarrow> int" where
  "get_pagination_max_limit conf = (if lower conf = ''infinite'' then -1
     else (case int_of_str conf of None \<Rightarrow> -1 | Some i \<Rightarrow> i))"

definition bad_limit :: exn where
  "bad_limit = Exc (Common BadRequest) [(''resource'', PStr ''limit''),
     (''msg'', PStr (''Limit must be an integer 0 or greater and not '%d'' @ [CHR 0x27]))]"

definition get_limit_param :: "webob \<Rightarrow> request \<Rightarrow> exn + int" where
  "get_limit_param W r = (case multi_get W (GET r) ''limit'' of
     None \<Rightarrow> Inr 0
   | Some s \<Rightarrow> (case int_of_str s of
       None \<Rightarrow> Inl bad_limit
     | Some i \<Rightarrow> if i \<ge> 0 then Inr i else Inl bad_limit))"

definition get_limit_and_marker :: "webob \<Rightarrow> string \<Rightarrow> request \<Rightarrow> exn + int option \<times> string option" where
  "get_limit_and_marker W conf r =
     (let max_limit = get_pagination_max_limit conf in
      case get_limit_param W r of
        Inl e \<Rightarrow> Inl e
      | Inr l \<Rightarrow>
         (let limit = (if max_limit > 0
             then (if min max_limit l \<noteq> 0 then min max_limit l else max_limit) else l) in
          if limit = 0 then Inr (None, None)
          else Inr (Some limit, multi_get W (GET r) ''marker'')))"

definition get_page_reverse :: "webob \<Rightarrow> request \<Rightarrow> bool" where
  "get_page_reverse W r \<longleftrightarrow>
     lower (case multi_get W (GET r) ''page_reverse'' of None \<Rightarrow> ''False'' | Some s \<Rightarrow> s) = ''true''"

section \<open>Sorting parameters\<close>

definition bad_sort :: exn where
  "bad_sort = Exc (Lib HTTPBadRequest) []"

definition get_sorts :: "request \<Rightarrow> attr_map \<Rightarrow> exn + (string \<times> bool) list" where
  "get_sorts r infos =
     (let keys = list_args r ''sort_key''; dirs = list_args r ''sort_dir'' in
      if length keys \<noteq> length dirs then Inl bad_sort
      else if list_ex (\<lambda>k. \<not> has_key k infos) keys then Inl bad_sort
      else if list_ex (\<lambda>d. \<not> List.member [''asc'', ''desc''] d) dirs then Inl bad_sort
      else Inr (zip keys (map (\<lambda>d. d = ''asc'') dirs)))"

section \<open>Pagination\<close>

text \<open>\<open>item[key]\<close>\<close>

definition item_key :: "string \<Rightarrow> pydict \<Rightarrow> exn + pyval" where
  "item_key key item = (case map_of item key of None \<Rightarrow> Inl (Exc (Lib KeyError) []) | Some v \<Rightarrow> Inr v)"

text \<open>\<open>str(v)\<close> as \<open>urlencode\<close> writes it; only identifiers occur.\<close>

definition marker_str :: "pyval \<Rightarrow> string" where
  "marker_str v = (case v of PStr s \<Rightarrow> s | PInt i \<Rightarrow> show_int i | _ \<Rightarrow> [])"

definition link_params :: "webob \<Rightarrow> request \<Rightarrow> pydict option \<Rightarrow> string \<Rightarrow> exn + query" where
  "link_params W r item key = (let params = multi_pop W ''marker'' (GET r) in
     case item of
       None \<Rightarrow> Inr params
     | Some x \<Rightarrow> map_sum id (\<lambda>m. multi_set W ''marker'' (marker_str m) params) (item_key key x))"

definition get_previous_link :: "webob \<Rightarrow> request \<Rightarrow> pydict list \<Rightarrow> string \<Rightarrow> exn + string" where
  "get_previous_link W r items key =
     map_sum id (\<lambda>p. path_url r @ ''?'' @ urlencode W (multi_set W ''page_reverse'' ''True'' p))
       (link_params W r (if items = [] then None else Some (hd items)) key)"

definition get_next_link :: "webob \<Rightarrow> request \<Rightarrow> pydict list \<Rightarrow> string \<Rightarrow> exn + string" where
  "get_next_link W r items key =
     map_sum id (\<lambda>p. path_url r @ ''?'' @ urlencode W (multi_pop W ''page_reverse'' p))
       (link_params W r (if items = [] then None else Some (last items)) key)"

text \<open>The links of a page; each with its \<open>rel\<close>.\<close>

definition get_pagination_links ::
  "webob \<Rightarrow> request \<Rightarrow> pydict list \<Rightarrow> int option \<Rightarrow> bool \<Rightarrow> string \<Rightarrow> exn + (string \<times> string) list" where
  "get_pagination_links W r items limit page_reverse key =
     (case limit of
        None \<Rightarrow> Inr []
      | Some l \<Rightarrow>
         (case (if \<not> (int (length items) < l \<and> \<not> page_reverse)
                then map_sum id (\<lambda>u. [(''next'', u)]) (get_next_link W r items key) else Inr []) of
            Inl e \<Rightarrow> Inl e
          | Inr next \<Rightarrow>
             (case (if \<not> (int (length items) < l \<and> page_reverse)
                    then map_sum id (\<lambda>u. [(''previous'', u)]) (get_previous_link W r items key) else Inr []) of
                Inl e \<Rightarrow> Inl e
              | Inr prev \<Rightarrow> Inr (next @ prev))))"

datatype pagination_kind = PaginationNative | PaginationEmulated | NoPagination

record pagination =
  pg_kind :: pagination_kind
  pg_limit :: "int option"
  pg_marker :: "string option"
  pg_reverse :: bool
  pg_primary_key :: string

definition make_pagination :: "webob \<Rightarrow> string \<Rightarrow> pagination_kind \<Rightarrow> request \<Rightarrow> string \<Rightarrow> exn + pagination" where
  "make_pagination W conf kind r key =
     (if kind = NoPagination then Inr \<lparr>pg_kind = kind, pg_limit = None, pg_marker = None,
        pg_reverse = False, pg_primary_key = key\<rparr>
      else (case get_limit_and_marker W conf r of
         Inl e \<Rightarrow> Inl e
       | Inr (l, m) \<Rightarrow> Inr \<lparr>pg_kind = kind, pg_limit = l, pg_marker = m,
           pg_reverse = get_page_reverse W r, pg_primary_key = key\<rparr>))"

text \<open>\<open>update_fields\<close>: the requested fields and the fields added to them.\<close>

definition pagination_fields :: "pagination \<Rightarrow> string list \<times> string list \<Rightarrow> string list \<times> string list" where
  "pagination_fields p = (\<lambda>(orig, added).
     if pg_kind p = NoPagination \<or> orig = [] \<or> List.member orig (pg_primary_key p) then (orig, added)
     else (orig @ [pg_primary_key p], added @ [pg_primary_key p]))"

text \<open>A slice \<open>xs[a:b]\<close>: negative bounds count from the end, and both are clipped.\<close>

definition slice_bound :: "nat \<Rightarrow> int \<Rightarrow> nat" where
  "slice_bound n a = (if a < 0 then nat (a + int n) else min n (nat a))"

definition py_slice :: "'a list \<Rightarrow> int \<Rightarrow> int \<Rightarrow> 'a list" where
  "py_slice xs a b = (let i = slice_bound (length xs) a; j = slice_bound (length xs) b
     in take (j - i) (drop i xs))"

text \<open>The loop over the items up to the marker: the index it stops at.\<close>

fun marker_index :: "string \<Rightarrow> string \<Rightarrow> int \<Rightarrow> pydict list \<Rightarrow> exn + int" where
  "marker_index key marker i [] = Inr i"
| "marker_index key marker i (item # items) = (case item_key key item of
     Inl e \<Rightarrow> Inl e
   | Inr v \<Rightarrow> if py_eq v (PStr marker) then Inr (i + 1) else marker_index key marker (i + 1) items)"

definition paginate :: "pagination \<Rightarrow> pydict list \<Rightarrow> exn + pydict list" where
  "paginate p items =
     (if pg_kind p \<noteq> PaginationEmulated then Inr items
      else (case pg_limit p of
         None \<Rightarrow> Inr items
       | Some l \<Rightarrow>
          (case (case pg_marker p of
                   Some m \<Rightarrow> if m \<noteq> [] then marker_index (pg_primary_key p) m (-1) items else Inr (-1)
                 | None \<Rightarrow> Inr (-1)) of
             Inl e \<Rightarrow> Inl e
           | Inr i \<Rightarrow> Inr (if pg_reverse p then py_slice items (i - l) i
               else py_slice items (i + 1) (i + l + 1)))))"

definition pagination_links :: "webob \<Rightarrow> request \<Rightarrow> pagination \<Rightarrow> pydict list \<Rightarrow> exn + (string \<times> string) list" where
  "pagination_links W r p items = (if pg_kind p = NoPagination then Inr []
     else get_pagination_links W r items (pg_limit p) (pg_reverse p)
       (if pg_primary_key p \<noteq> [] then pg_primary_key p else ''id''))"

section \<open>Sorting\<close>

text \<open>Python 2's \<open>cmp\<close> of two values is a parameter; \<open>sorted\<close> is a stable sort. A sort
  key that an object lacks raises KeyError when it is compared; here as soon as there
  is anything to compare.\<close>

datatype sorting = SortingNative "(string \<times> bool) list" | SortingEmulated "(string \<times> bool) list" | NoSorting

definition sort_dict :: "sorting \<Rightarrow> (string \<times> bool) list" where
  "sort_dict h = (case h of SortingNative d \<Rightarrow> d | SortingEmulated d \<Rightarrow> d | NoSorting \<Rightarrow> [])"

definition add_field :: "string \<Rightarrow> string list \<times> string list \<Rightarrow> string list \<times> string list" where
  "add_field key = (\<lambda>(orig, added). if List.member orig key then (orig, added)
     else (orig @ [key], added @ [key]))"

definition sorting_fields :: "sorting \<Rightarrow> string list \<times> string list \<Rightarrow> string list \<times> string list" where
  "sorting_fields h fs = (case h of
     SortingEmulated d \<Rightarrow> if fst fs = [] then fs else fold add_field (first_keys (map fst d)) fs
   | _ \<Rightarrow> fs)"

fun cmp_func :: "(pyval \<Rightarrow> pyval \<Rightarrow> int) \<Rightarrow> (string \<times> bool) list \<Rightarrow> pydict \<Rightarrow> pydict \<Rightarrow> int" where
  "cmp_func cmp [] x y = 0"
| "cmp_func cmp ((key, direction) # d) x y =
     (let r = cmp (dict_get key PNone x) (dict_get key PNone y) in
      if r \<noteq> 0 then r * (if direction then 1 else -1) else cmp_func cmp d x y)"

fun insert_sorted :: "('a \<Rightarrow> 'a \<Rightarrow> int) \<Rightarrow> 'a \<Rightarrow> 'a list \<Rightarrow> 'a list" where
  "insert_sorted c x [] = [x]"
| "insert_sorted c x (y # ys) = (if c x y \<le> 0 then x # y # ys else y # insert_sorted c x ys)"

definition sorted_cmp :: "('a \<Rightarrow> 'a \<Rightarrow> int) \<Rightarrow> 'a list \<Rightarrow> 'a list" where
  "sorted_cmp c xs = foldr (insert_sorted c) xs []"

definition sort_items :: "(pyval \<Rightarrow> pyval \<Rightarrow> int) \<Rightarrow> sorting \<Rightarrow> pydict list \<Rightarrow> exn + pydict list" where
  "sort_items cmp h items = (case h of
     SortingEmulated d \<Rightarrow>
       if length items > 1 \<and> list_ex (\<lambda>x. list_ex (\<lambda>(k, _). \<not> has_key k x) d) items
       then Inl (Exc (Lib KeyError) []) else Inr (sorted_cmp (cmp_func cmp d) items)
   | _ \<Rightarrow> Inr items)"

section \<open>Bodies of the older controllers\<close>

text \<open>\<open>ApmecController._prepare_request_body\<close>: the declared parameters of a request,
  with defaults for the missing ones.\<close>

record param =
  param_name :: string
  param_required :: bool
  param_default :: "pyval option"

fun fill_params :: "param list \<Rightarrow> pydict \<Rightarrow> exn + pydict" where
  "fill_params [] data = Inr data"
| "fill_params (p # ps) data =
     (let v = dict_get (param_name p) PNone data in
      if v = PNone \<and> param_required p then Inl (Exc (Lib HTTPBadRequest) [])
      else fill_params ps (dict_set (param_name p)
        (if truthy v then v else (case param_default p of None \<Rightarrow> PNone | Some w \<Rightarrow> w)) data))"

definition prepare_params :: "string \<Rightarrow> pydict option \<Rightarrow> param list \<Rightarrow> exn + pydict" where
  "prepare_params name body ps =
     (let b = (case body of None \<Rightarrow> [(name, PDict [])] | Some d \<Rightarrow> d) in
      case map_of b name of
        None \<Rightarrow> Inl (Exc (Lib HTTPBadRequest) [])
      | Some (PDict data) \<Rightarrow> map_sum id (\<lambda>d. dict_set name (PDict d) b) (fill_params ps data)
      | Some _ \<Rightarrow> if ps = [] then Inr b else Inl (Exc (Lib AttributeError) []))"

end
