(* ===== verification/AttributeMaps.thy ===== *)
theory AttributeMaps
  imports ApiCommon
begin

text \<open>
  The attribute maps of extensions/mem.py, extensions/meo.py and
  extensions/common_services.py: what the API accepts for each resource. Keys keep the
  order of the source. A validator given \<open>None\<close> has no parameter: \<open>'type:dict_or_none'\<close>
  without key specifications is \<open>TDictOrNone []\<close>.
\<close>

definition declared :: "bool \<Rightarrow> bool \<Rightarrow> attr_info" where
  "declared post put = \<lparr>allow_post = post, allow_put = put, attr_default = None, convert_to = None,
     convert_list_to = None, validate_rules = [], is_visible = True, required_by_policy = False,
     primary_key = False, enforce_policy = False\<rparr>"

definition meads_attrs :: attr_map where
  "meads_attrs = [
     (''id'', (declared False False)\<lparr>validate_rules := [TUuid], primary_key := True\<rparr>),
     (''tenant_id'', (declared True False)\<lparr>validate_rules := [TString None], required_by_policy := True\<rparr>),
     (''name'', (declared True True)\<lparr>validate_rules := [TString None]\<rparr>),
     (''description'', (declared True True)\<lparr>attr_default := Some (PStr []), validate_rules := [TString None]\<rparr>),
     (''service_types'', (declared True False)\<lparr>attr_default := Some (PNotSpecified), convert_to := Some ToList, validate_rules := [TServiceTypeList]\<rparr>),
     (''attributes'', (declared True False)\<lparr>attr_default := Some (PNone), convert_to := Some NoneToEmptyDict, validate_rules := [TDictOrNodata []]\<rparr>),
     (''created_at'', declared False False),
     (''updated_at'', declared False False),
     (''template_source'', (declared False False)\<lparr>attr_default := Some (PStr ''onboarded'')\<rparr>)]"

definition meas_attrs :: attr_map where
  "meas_attrs = [
     (''id'', (declared False False)\<lparr>validate_rules := [TUuid], primary_key := True\<rparr>),
     (''tenant_id'', (declared True False)\<lparr>validate_rules := [TString None], required_by_policy := True\<rparr>),
     (''mead_id'', (declared True False)\<lparr>attr_default := Some (PNone), validate_rules := [TUuid]\<rparr>),
     (''vim_id'', (declared True False)\<lparr>attr_default := Some (PStr []), validate_rules := [TString None]\<rparr>),
     (''name'', (declared True True)\<lparr>validate_rules := [TString None]\<rparr>),
     (''description'', (declared True True)\<lparr>attr_default := Some (PStr []), validate_rules := [TString None]\<rparr>),
     (''instance_id'', (declared False False)\<lparr>validate_rules := [TString None]\<rparr>),
     (''mgmt_url'', (declared False False)\<lparr>validate_rules := [TString None]\<rparr>),
     (''attributes'', (declared True True)\<lparr>attr_default := Some (PDict []), validate_rules := [TDictOrNone []]\<rparr>),
     (''placement_attr'', (declared True False)\<lparr>attr_default := Some (PDict []), validate_rules := [TDictOrNone []]\<rparr>),
     (''status'', declared False False),
     (''error_reason'', declared False False),
     (''created_at'', declared False False),
     (''updated_at'', declared False False),
     (''mead_template'', (declared True False)\<lparr>attr_default := Some (PNone), validate_rules := [TDictOrNone []]\<rparr>)]"

definition scale_params :: attr_map where
  "scale_params = [
     (''policy'', (declared True False)\<lparr>validate_rules := [TString None]\<rparr>),
     (''type'', (declared True False)\<lparr>validate_rules := [TString None]\<rparr>),
     (''tenant_id'', (declared True False)\<lparr>validate_rules := [TString None], is_visible := False\<rparr>)]"

definition trigger_params :: attr_map where
  "trigger_params = [
     (''policy_name'', (declared True False)\<lparr>validate_rules := [TString None]\<rparr>),
     (''action_name'', (declared True False)\<lparr>validate_rules := [TString None]\<rparr>),
     (''params'', (declared True False)\<lparr>validate_rules := [TDictOrNone []]\<rparr>),
     (''tenant_id'', (declared True False)\<lparr>validate_rules := [TString None], is_visible := False\<rparr>)]"

definition resource_params :: attr_map where
  "resource_params = [
     (''name'', declared False False),
     (''type'', declared False False),
     (''id'', declared False False)]"

definition vims_attrs :: attr_map where
  "vims_attrs = [
     (''id'', (declared False False)\<lparr>validate_rules := [TUuid], primary_key := True\<rparr>),
     (''tenant_id'', (declared True False)\<lparr>validate_rules := [TString None], required_by_policy := True\<rparr>),
     (''type'', (declared True False)\<lparr>validate_rules := [TString None]\<rparr>),
     (''auth_url'', (declared True False)\<lparr>validate_rules := [TString None]\<rparr>),
     (''auth_cred'', (declared True True)\<lparr>validate_rules := [TDictOrNodata []]\<rparr>),
     (''vim_project'', (declared True True)\<lparr>validate_rules := [TDictOrNodata []]\<rparr>),
     (''name'', (declared True True)\<lparr>validate_rules := [TString None]\<rparr>),
     (''description'', (declared True True)\<lparr>attr_default := Some (PStr []), validate_rules := [TString None]\<rparr>),
     (''status'', (declared False False)\<lparr>validate_rules := [TString None]\<rparr>),
     (''placement_attr'', (declared False False)\<lparr>attr_default := Some (PNone)\<rparr>),
     (''shared'', (declared False False)\<lparr>convert_to := Some ToBoolean, required_by_policy := True, is_visible := False\<rparr>),
     (''is_default'', (declared True True)\<lparr>attr_default := Some (PBool False)\<rparr>),
     (''created_at'', declared False False),
     (''updated_at'', declared False False)]"

definition nsds_attrs :: attr_map where
  "nsds_attrs = [
     (''id'', (declared False False)\<lparr>validate_rules := [TUuid], primary_key := True\<rparr>),
     (''tenant_id'', (declared True False)\<lparr>validate_rules := [TString None], required_by_policy := True\<rparr>),
     (''name'', (declared True True)\<lparr>validate_rules := [TString None]\<rparr>),
     (''description'', (declared True True)\<lparr>attr_default := Some (PStr []), validate_rules := [TString None]\<rparr>),
     (''created_at'', declared False False),
     (''updated_at'', declared False False),
     (''attributes'', (declared True False)\<lparr>attr_default := Some (PNone), convert_to := Some NoneToEmptyDict, validate_rules := [TDictOrNodata []]\<rparr>),
     (''template_source'', (declared False False)\<lparr>attr_default := Some (PStr ''onboarded'')\<rparr>)]"

definition nss_attrs :: attr_map where
  "nss_attrs = [
     (''id'', (declared False False)\<lparr>validate_rules := [TUuid], primary_key := True\<rparr>),
     (''tenant_id'', (declared True False)\<lparr>validate_rules := [TString None], required_by_policy := True\<rparr>),
     (''name'', (declared True True)\<lparr>validate_rules := [TString None]\<rparr>),
     (''description'', (declared True True)\<lparr>attr_default := Some (PStr []), validate_rules := [TString None]\<rparr>),
     (''created_at'', declared False False),
     (''updated_at'', declared False False),
     (''mea_ids'', (declared True False)\<lparr>attr_default := Some (PStr []), validate_rules := [TString None]\<rparr>),
     (''nsd_id'', (declared True False)\<lparr>attr_default := Some (PNone), validate_rules := [TUuid]\<rparr>),
     (''vim_id'', (declared True False)\<lparr>attr_default := Some (PStr []), validate_rules := [TString None]\<rparr>),
     (''status'', declared False False),
     (''error_reason'', declared False False),
     (''attributes'', (declared True False)\<lparr>attr_default := Some (PNone), convert_to := Some NoneToEmptyDict, validate_rules := [TDictOrNodata []]\<rparr>),
     (''mgmt_urls'', (declared False False)\<lparr>convert_to := Some NoneToEmptyDict, validate_rules := [TDictOrNodata []]\<rparr>),
     (''nsd_template'', (declared True False)\<lparr>attr_default := Some (PNone), validate_rules := [TDictOrNodata []]\<rparr>)]"

definition events_attrs :: attr_map where
  "events_attrs = [
     (''id'', declared False False),
     (''resource_id'', declared False False),
     (''resource_type'', declared False False),
     (''resource_state'', declared False False),
     (''timestamp'', declared False False),
     (''event_details'', declared False False),
     (''event_type'', declared False False)]"

text \<open>\<open>RESOURCE_ATTRIBUTE_MAP\<close> of api/v1/attributes.py after the extensions have been loaded.\<close>

definition RESOURCE_ATTRIBUTE_MAP :: "(string \<times> attr_map) list" where
  "RESOURCE_ATTRIBUTE_MAP = [(''meads'', meads_attrs), (''meas'', meas_attrs), (''vims'', vims_attrs),
     (''nsds'', nsds_attrs), (''nss'', nss_attrs), (''events'', events_attrs)]"

end
