(* ===== verification/Policy.thy ===== *)
theory Policy
  imports AttributeMaps
begin

text \<open>
  policy.py: the rule matched for an action, the two checks the program registers with
  oslo.policy, and \<open>check\<close>, \<open>enforce\<close> and \<open>check_is_admin\<close>. The engine itself is oslo's:
  the names of the rules it has loaded and its verdict on a rule for a target and
  credentials are a parameter. A \<open>RuleCheck\<close> refers to a loaded rule by its name. An
  element of an \<open>AndCheck\<close> is \<open>None\<close> where the code puts Python's \<open>None\<close> there.
\<close>

datatype match_rule = RuleCheck string | AndCheck "match_rule option list"

record enforcer =
  en_rules :: "string list"
  en_enforce :: "match_rule \<Rightarrow> pydict \<Rightarrow> pydict \<Rightarrow> exn + bool"

definition ADMIN_CTX_POLICY :: string where "ADMIN_CTX_POLICY = ''context_is_admin''"
definition ATTRIBUTES_TO_UPDATE :: string where "ATTRIBUTES_TO_UPDATE = ''attributes_to_update''"

section \<open>The rule of an action\<close>

definition get_resource_and_action :: "string \<Rightarrow> string option \<Rightarrow> string \<times> bool" where
  "get_resource_and_action action pluralized =
     (let data = split_once (CHR ''_'') (hd (split_once (CHR '':'') action)) in
      ((case pluralized of Some p \<Rightarrow> if p \<noteq> [] then p else last data @ ''s'' | None \<Rightarrow> last data @ ''s''),
       \<not> List.member [''get'', ''delete''] (hd data)))"

text \<open>\<open>v in container\<close> for a string \<open>v\<close>.\<close>

definition str_in_value :: "string \<Rightarrow> pyval \<Rightarrow> exn + bool" where
  "str_in_value s v = (case v of
     PList xs \<Rightarrow> Inr (py_in (PStr s) xs) | PDict d \<Rightarrow> Inr (has_key s d)
   | PStr t \<Rightarrow> Inr (str_in s t) | _ \<Rightarrow> Inl (Exc (Lib TypeError) []))"

definition is_attribute_explicitly_set ::
  "string \<Rightarrow> attr_info \<Rightarrow> pydict \<Rightarrow> string \<Rightarrow> exn + bool" where
  "is_attribute_explicitly_set name info target action =
     (if str_in ''update'' action then
        (case map_of target ATTRIBUTES_TO_UPDATE of
           None \<Rightarrow> Inl (Exc (Lib KeyError) [])
         | Some names \<Rightarrow> (case str_in_value name names of
             Inl e \<Rightarrow> Inl e
           | Inr False \<Rightarrow> Inr False
           | Inr True \<Rightarrow> (case map_of target name of
               None \<Rightarrow> Inl (Exc (Lib KeyError) []) | Some v \<Rightarrow> Inr (v \<noteq> PNotSpecified))))
      else Inr (case (attr_default info, map_of target name) of
          (Some d, Some v) \<Rightarrow> v \<noteq> PNotSpecified \<and> \<not> py_eq v d
        | _ \<Rightarrow> False))"

text \<open>The key specifications of the validators whose name starts with \<open>type:dict\<close>.\<close>

definition dict_specs :: "attr_info \<Rightarrow> (string \<times> key_spec) list list" where
  "dict_specs info = List.map_filter (\<lambda>v. case v of
     TDict sp \<Rightarrow> Some sp | TDictOrNone sp \<Rightarrow> Some sp | TDictOrEmpty sp \<Rightarrow> Some sp
   | TDictOrNodata sp \<Rightarrow> Some sp | _ \<Rightarrow> None) (validate_rules info)"

definition should_validate_sub_attributes :: "attr_info \<Rightarrow> pyval \<Rightarrow> bool" where
  "should_validate_sub_attributes info sub_attr \<longleftrightarrow>
     py_iter sub_attr \<noteq> None \<and> list_ex (\<lambda>sp. sp \<noteq> []) (dict_specs info)"

definition path_rule :: "string list \<Rightarrow> match_rule" where
  "path_rule parts = RuleCheck (join '':'' parts)"

definition build_subattr_match_rule :: "string \<Rightarrow> attr_info \<Rightarrow> string \<Rightarrow> pyval \<Rightarrow> exn + match_rule option" where
  "build_subattr_match_rule name info action sub = (case dict_specs info of
     [] \<Rightarrow> Inr None
   | [] # _ \<Rightarrow> Inr None
   | sp # _ \<Rightarrow>
      (case str_in_value [] sub of
         Inl e \<Rightarrow> Inl e
       | Inr _ \<Rightarrow> Inr (Some (AndCheck (map (\<lambda>k. Some (path_rule [action, name, k]))
           (filter (\<lambda>k. str_in_value k sub = Inr True) (map fst sp)))))))"

text \<open>The rule for one attribute; \<open>None\<close> when it adds nothing.\<close>

definition attribute_rule :: "string \<Rightarrow> pydict \<Rightarrow> string \<times> attr_info \<Rightarrow> exn + match_rule option" where
  "attribute_rule action target = (\<lambda>(name, info).
     case is_attribute_explicitly_set name info target action of
       Inl e \<Rightarrow> Inl e
     | Inr False \<Rightarrow> Inr None
     | Inr True \<Rightarrow>
        (if \<not> enforce_policy info then Inr None
         else (let rule = path_rule [action, name]; sub = dict_get name PNone target in
           if should_validate_sub_attributes info sub
           then map_sum id (\<lambda>r. Some (AndCheck [Some rule, r])) (build_subattr_match_rule name info action sub)
           else Inr (Some rule))))"

fun add_attribute_rules :: "string \<Rightarrow> pydict \<Rightarrow> attr_map \<Rightarrow> match_rule \<Rightarrow> exn + match_rule" where
  "add_attribute_rules action target [] rule = Inr rule"
| "add_attribute_rules action target (a # as) rule = (case attribute_rule action target a of
     Inl e \<Rightarrow> Inl e
   | Inr None \<Rightarrow> add_attribute_rules action target as rule
   | Inr (Some r) \<Rightarrow> add_attribute_rules action target as (AndCheck [Some rule, Some r]))"

definition build_match_rule ::
  "(string \<times> attr_map) list \<Rightarrow> string \<Rightarrow> pydict \<Rightarrow> string option \<Rightarrow> exn + match_rule" where
  "build_match_rule res_maps action target pluralized =
     (case get_resource_and_action action pluralized of (resource, attr_based) \<Rightarrow>
        if attr_based then
          (case map_of res_maps resource of
             None \<Rightarrow> Inr (RuleCheck action)
           | Some attrs \<Rightarrow> add_attribute_rules action target attrs (RuleCheck action))
        else Inr (RuleCheck action))"

text \<open>\<open>_process_rules_list\<close>: the names in a rule, for the log.\<close>

fun process_rules_list :: "match_rule \<Rightarrow> string list" where
  "process_rules_list (RuleCheck m) = [m]"
| "process_rules_list (AndCheck rs) =
     concat (map (\<lambda>r. case r of None \<Rightarrow> [] | Some q \<Rightarrow> process_rules_list q) rs)"

section \<open>The registered checks\<close>

text \<open>\<open>OwnerCheck.__init__\<close>: the field between \<open>%(\<close> and \<open>)s\<close> (a rule has no line breaks).\<close>

definition policy_init_error :: "string \<Rightarrow> string \<Rightarrow> exn" where
  "policy_init_error kind match = Exc (Common PolicyInitError)
     [(''policy'', PStr (kind @ '':'' @ match)),
      (''reason'', PStr (''Unable to identify a target field from:'' @ match))]"

definition owner_target_field :: "string \<Rightarrow> string \<Rightarrow> exn + string" where
  "owner_target_field kind match =
     (let n = length match in
      if n \<ge> 4 \<and> take 2 match = ''%('' \<and> drop (n - 2) match = '')s''
      then Inr (take (n - 4) (drop 2 match)) else Inl (policy_init_error kind match))"

definition policy_check_error :: "string \<Rightarrow> string \<Rightarrow> exn" where
  "policy_check_error kind match = Exc (Common PolicyCheckError)
     [(''policy'', PStr (kind @ '':'' @ match)), (''reason'', PStr [])]"

text \<open>The parent resource and its field in \<open>resource:field\<close> or \<open>resource_field\<close>.\<close>

definition owner_parent :: "string \<Rightarrow> (string \<times> string) option" where
  "owner_parent field = (case split_once (CHR '':'') field of
     [r, f] \<Rightarrow> Some (r, f)
   | _ \<Rightarrow> (case split_once (CHR ''_'') field of [r, f] \<Rightarrow> Some (r, f) | _ \<Rightarrow> None))"

text \<open>\<open>six.text_type(v)\<close>; a container's text is no tenant's name, \<open>None\<close> here.\<close>

definition py_text :: "pyval \<Rightarrow> string option" where
  "py_text v = (case v of
     PStr s \<Rightarrow> Some s | PNone \<Rightarrow> Some ''None'' | PInt i \<Rightarrow> Some (show_int i)
   | PBool b \<Rightarrow> Some (if b then ''True'' else ''False'') | _ \<Rightarrow> None)"

text \<open>\<open>OwnerCheck.__call__\<close>. \<open>keys\<close> is \<open>RESOURCE_FOREIGN_KEYS\<close>, \<open>getter\<close> the core
  plugin's \<open>get_*\<close> under an admin context.\<close>

definition owner_check ::
  "(string \<times> string) list \<Rightarrow> (string \<Rightarrow> pyval \<Rightarrow> string \<Rightarrow> exn + pydict) \<Rightarrow>
   string \<Rightarrow> string \<Rightarrow> pydict \<Rightarrow> pydict \<Rightarrow> exn + bool" where
  "owner_check keys getter kind match target creds =
     (case owner_target_field kind match of
        Inl e \<Rightarrow> Inl e
      | Inr field \<Rightarrow>
         (case (case map_of target field of
                  Some v \<Rightarrow> Inr v
                | None \<Rightarrow>
                   (case owner_parent field of
                      None \<Rightarrow> Inl (policy_check_error kind match)
                    | Some (res, pfield) \<Rightarrow>
                       (case map_of keys (res @ ''s'') of
                          None \<Rightarrow> Inl (policy_check_error kind match)
                        | Some key \<Rightarrow>
                           (case map_of target key of
                              None \<Rightarrow> Inl (Exc (Lib KeyError) [])
                            | Some i \<Rightarrow>
                               (case getter res i pfield of
                                  Inl e \<Rightarrow> Inl (if isinstance e (Common NotFound)
                                     then Exc (Lib RetryRequest) [] else e)
                                | Inr data \<Rightarrow> item_key pfield data))))) of
            Inl e \<Rightarrow> Inl e
          | Inr v \<Rightarrow> Inr (case map_of creds kind of
              None \<Rightarrow> False | Some c \<Rightarrow> py_text v \<noteq> None \<and> py_text v = py_text c)))"

text \<open>\<open>FieldCheck\<close>: the match is \<open>resource:field=value\<close>; a value that starts with a
  tilde is also a regular expression.\<close>

record field_check =
  fc_field :: string
  fc_value :: pyval
  fc_regex :: "string option"

definition make_field_check :: "(string \<times> attr_map) list \<Rightarrow> string \<Rightarrow> exn + field_check" where
  "make_field_check res_maps match =
     (case split_once (CHR '':'') match of
        [resource, fv] \<Rightarrow>
          (case split_once (CHR ''='') fv of
             [field, value] \<Rightarrow>
               (let conv = (case map_of res_maps resource of None \<Rightarrow> None
                     | Some m \<Rightarrow> (case map_of m field of None \<Rightarrow> None | Some a \<Rightarrow> convert_to a)) in
                map_sum id (\<lambda>v. \<lparr>fc_field = field, fc_value = v,
                    fc_regex = (if startswith ''~'' value then Some (drop 1 value) else None)\<rparr>)
                  (case conv of None \<Rightarrow> Inr (PStr value) | Some c \<Rightarrow> convert c (PStr value)))
           | _ \<Rightarrow> Inl (Exc (Lib ValueError) []))
      | _ \<Rightarrow> Inl (Exc (Lib ValueError) []))"

definition field_check_call :: "netlib \<Rightarrow> field_check \<Rightarrow> pydict \<Rightarrow> exn + bool" where
  "field_check_call N fc target = (let v = dict_get (fc_field fc) PNone target in
     if v = PNone then Inr False
     else (case fc_regex fc of
        Some p \<Rightarrow> (case v of PStr s \<Rightarrow> Inr (regex_match N p s) | _ \<Rightarrow> Inl (Exc (Lib TypeError) []))
      | None \<Rightarrow> Inr (py_eq v (fc_value fc))))"

section \<open>Checking and enforcing\<close>

definition policy_not_authorized :: "string \<Rightarrow> exn" where
  "policy_not_authorized action = Exc (Lib OsloPolicyNotAuthorized) [(''rule'', PStr action)]"

definition check ::
  "enforcer \<Rightarrow> (string \<times> attr_map) list \<Rightarrow> ctx \<Rightarrow> string \<Rightarrow> pydict \<Rightarrow> bool \<Rightarrow> string option \<Rightarrow> exn + bool" where
  "check En res_maps c action target might_not_exist pluralized =
     (if is_admin c then Inr True
      else if might_not_exist \<and> \<not> (en_rules En \<noteq> [] \<and> List.member (en_rules En) action) then Inr True
      else (case build_match_rule res_maps action target pluralized of
         Inl e \<Rightarrow> Inl e
       | Inr rule \<Rightarrow> en_enforce En rule target (to_dict c)))"

definition enforce ::
  "enforcer \<Rightarrow> (string \<times> attr_map) list \<Rightarrow> ctx \<Rightarrow> string \<Rightarrow> pydict \<Rightarrow> string option \<Rightarrow> exn + bool" where
  "enforce En res_maps c action target pluralized =
     (if is_admin c then Inr True
      else (case build_match_rule res_maps action target pluralized of
         Inl e \<Rightarrow> Inl e
       | Inr rule \<Rightarrow> (case en_enforce En rule target (to_dict c) of
           Inl e \<Rightarrow> Inl e
         | Inr False \<Rightarrow> Inl (policy_not_authorized action)
         | Inr True \<Rightarrow> Inr True)))"

definition check_is_admin :: "enforcer \<Rightarrow> ctx \<Rightarrow> exn + bool" where
  "check_is_admin En c = (let creds = to_dict c in
     if \<not> List.member (en_rules En) ADMIN_CTX_POLICY then Inr False
     else en_enforce En (RuleCheck ADMIN_CTX_POLICY) creds creds)"

section \<open>Facts\<close>

lemma check_admin [simp]: "is_admin c \<Longrightarrow> check En ms c a t m p = Inr True"
  by (simp add: check_def)

lemma enforce_admin [simp]: "is_admin c \<Longrightarrow> enforce En ms c a t p = Inr True"
  by (simp add: enforce_def)

lemma enforce_check:
  "enforce En ms c a t p = Inr b \<longleftrightarrow> b \<and> check En ms c a t False p = Inr True"
  by (auto simp: enforce_def check_def split: sum.splits bool.splits)

text \<open>No attribute the extensions declare asks for attribute-based enforcement, so the rule
  of an action is the action itself, unless an update lacks the list of its attributes.\<close>

lemma no_enforced_attribute:
  "list_all (\<lambda>(r, m). list_all (\<lambda>(k, a). \<not> enforce_policy a) m) RESOURCE_ATTRIBUTE_MAP"
  by code_simp

lemma add_rules_none:
  "list_all (\<lambda>(k, a). \<not> enforce_policy a) m \<Longrightarrow> add_attribute_rules action target m rule = Inr r \<Longrightarrow> r = rule"
proof (induction m)
  case (Cons p m)
  obtain k a where p: "p = (k, a)" by (cases p)
  with Cons show ?case
    by (auto simp: attribute_rule_def split: sum.splits bool.splits option.splits if_splits)
qed simp

lemma build_rule_plain:
  assumes "build_match_rule RESOURCE_ATTRIBUTE_MAP action target p = Inr r" shows "r = RuleCheck action"
proof -
  have "list_all (\<lambda>(k, a). \<not> enforce_policy a) m" if "map_of RESOURCE_ATTRIBUTE_MAP res = Some m" for res m
    using no_enforced_attribute map_of_SomeD [OF that] by (auto simp: list_all_iff)
  then have "r' = rule" if "map_of RESOURCE_ATTRIBUTE_MAP res = Some m"
      "add_attribute_rules action target m rule = Inr r'" for res m rule r'
    using that by (blast intro: add_rules_none)
  with assms show ?thesis
    by (auto simp: build_match_rule_def split: prod.splits if_splits option.splits)
qed

end
