(* ===== verification/ApiBase.thy ===== *)
theory ApiBase
  imports Policy
begin

text \<open>
  The REST controller of api/v1/base.py: the preparation of a request body against the
  attribute map of the resource, and the operations index, show, create, update, delete
  and the member actions, over any plugin. The plugin's handlers are effects on the
  plugin's state, \<open>'s\<close>; what the controller is configured with is a record, and so is
  what it takes from elsewhere (policy engine, attribute maps, address tests, query
  library, the pagination option, Python 2's \<open>cmp\<close>). The notifications it sends on the
  message bus, which nothing reads back, and the log are left out.
\<close>

record controller =
  c_resource :: string
  c_collection :: string
  c_attr_info :: attr_map
  c_allow_bulk :: bool
  c_native_bulk :: bool
  c_pagination :: pagination_kind
  c_sorting :: "bool \<times> bool"
  c_parent :: "string option"
  c_member_actions :: "string list"

record api_env =
  a_enforcer :: enforcer
  a_maps :: "(string \<times> attr_map) list"
  a_net :: netlib
  a_webob :: webob
  a_max_limit :: string
  a_cmp :: "pyval \<Rightarrow> pyval \<Rightarrow> int"

text \<open>What a list handler is given: filters and fields, and with native sorting or
  pagination the sort keys and the page (limit, marker, direction).\<close>

record list_query =
  lq_filters :: pydict
  lq_fields :: "string list"
  lq_sorts :: "(string \<times> bool) list option"
  lq_page :: "(int option \<times> string option \<times> bool) option"
  lq_parent :: "string option"

record 's plugin =
  p_list :: "ctx \<Rightarrow> list_query \<Rightarrow> ('s, pydict list) prog"
  p_show :: "ctx \<Rightarrow> string \<Rightarrow> string list option \<Rightarrow> string option \<Rightarrow> ('s, pydict) prog"
  p_create :: "ctx \<Rightarrow> pydict \<Rightarrow> string option \<Rightarrow> ('s, pydict) prog"
  p_create_bulk :: "ctx \<Rightarrow> pydict \<Rightarrow> string option \<Rightarrow> ('s, pydict list) prog"
  p_update :: "ctx \<Rightarrow> string \<Rightarrow> pydict \<Rightarrow> string option \<Rightarrow> ('s, pydict) prog"
  p_delete :: "ctx \<Rightarrow> string \<Rightarrow> string option \<Rightarrow> ('s, unit) prog"
  p_action :: "string \<Rightarrow> ctx \<Rightarrow> string \<Rightarrow> pyval option \<Rightarrow> ('s, pyval) prog"

section \<open>The controller\<close>

definition underscores :: "string \<Rightarrow> string" where
  "underscores s = map (\<lambda>c. if c = CHR ''-'' then CHR ''_'' else c) s"

text \<open>\<open>Controller.__init__\<close>; \<open>native\<close> says which of bulk creation, pagination and sorting
  the plugin supports itself.\<close>

definition make_controller ::
  "string \<Rightarrow> string \<Rightarrow> attr_map \<Rightarrow> bool \<Rightarrow> string list \<Rightarrow> string option \<Rightarrow> bool \<Rightarrow> bool \<Rightarrow>
   bool \<times> bool \<times> bool \<Rightarrow> exn + controller" where
  "make_controller collection resource infos bulk actions parent pages sorts native =
     (case native of (nbulk, npages, nsorts) \<Rightarrow>
        if pages \<and> npages \<and> \<not> nsorts
        then Inl (Exc (Common Invalid) [(''msg'', PStr ''Native pagination depend on native sorting'')])
        else Inr \<lparr>c_resource = underscores resource, c_collection = underscores collection,
          c_attr_info = infos, c_allow_bulk = bulk, c_native_bulk = nbulk,
          c_pagination = (if \<not> pages then NoPagination else if npages then PaginationNative else PaginationEmulated),
          c_sorting = (sorts \<or> pages \<and> npages, nsorts), c_parent = parent, c_member_actions = actions\<rparr>)"

definition parent_part :: "controller \<Rightarrow> string" where
  "parent_part C = (case c_parent C of None \<Rightarrow> [] | Some m \<Rightarrow> ''_'' @ m)"

definition list_handler :: "controller \<Rightarrow> string" where
  "list_handler C = ''get'' @ parent_part C @ ''_'' @ c_collection C"

definition show_handler :: "controller \<Rightarrow> string" where
  "show_handler C = ''get'' @ parent_part C @ ''_'' @ c_resource C"

definition action_handler :: "controller \<Rightarrow> string \<Rightarrow> string" where
  "action_handler C action = action @ parent_part C @ ''_'' @ c_resource C"

definition policy_attrs :: "controller \<Rightarrow> string list" where
  "policy_attrs C = map fst (filter (\<lambda>(k, a). required_by_policy a) (c_attr_info C))"

definition get_primary_key :: "controller \<Rightarrow> string" where
  "get_primary_key C = (case List.find (\<lambda>(k, a). primary_key a) (c_attr_info C) of
     None \<Rightarrow> ''id'' | Some (k, _) \<Rightarrow> k)"

section \<open>Views\<close>

definition attribute_shown :: "api_env \<Rightarrow> controller \<Rightarrow> ctx \<Rightarrow> pydict \<Rightarrow> string \<Rightarrow> exn + bool" where
  "attribute_shown V C c data k = (case map_of (c_attr_info C) k of
     None \<Rightarrow> Inr False
   | Some a \<Rightarrow> if is_visible a
       then check (a_enforcer V) (a_maps V) c (show_handler C @ '':'' @ k) data True None
       else Inr False)"

fun excluded :: "(string \<Rightarrow> exn + bool) \<Rightarrow> string list \<Rightarrow> exn + string list" where
  "excluded ok [] = Inr []"
| "excluded ok (k # ks) = (case ok k of
     Inl e \<Rightarrow> Inl e
   | Inr shown \<Rightarrow> map_sum id (\<lambda>r. if shown then r else k # r) (excluded ok ks))"

definition exclude_attributes_by_policy :: "api_env \<Rightarrow> controller \<Rightarrow> ctx \<Rightarrow> pydict \<Rightarrow> exn + string list" where
  "exclude_attributes_by_policy V C c data = excluded (attribute_shown V C c data) (dict_keys data)"

definition filter_attributes :: "pydict \<Rightarrow> string list \<Rightarrow> pydict" where
  "filter_attributes data hidden = (if hidden = [] then data
     else filter (\<lambda>(k, v). \<not> List.member hidden k) data)"

definition view :: "api_env \<Rightarrow> controller \<Rightarrow> ctx \<Rightarrow> pydict \<Rightarrow> string list \<Rightarrow> exn + pydict" where
  "view V C c data hidden = map_sum id (\<lambda>ex. filter_attributes data (hidden @ ex))
     (exclude_attributes_by_policy V C c data)"

text \<open>\<open>_do_field_list\<close>: the fields asked for with those the policy needs, and the latter.\<close>

definition do_field_list :: "controller \<Rightarrow> string list \<Rightarrow> string list \<times> string list" where
  "do_field_list C orig = (if orig = [] then ([], [])
     else (orig @ policy_attrs C, filter (\<lambda>a. \<not> List.member orig a) (policy_attrs C)))"

section \<open>Reading\<close>

definition get_item :: "api_env \<Rightarrow> controller \<Rightarrow> 's plugin \<Rightarrow> ctx \<Rightarrow> string \<Rightarrow> bool \<Rightarrow>
    string list option \<Rightarrow> string option \<Rightarrow> ('s, pydict) prog" where
  "get_item V C P c i do_authz wanted parent =
     bindE (p_show P c i wanted parent) (\<lambda>obj.
       thenE (if do_authz
              then thenE (pureE (enforce (a_enforcer V) (a_maps V) c (show_handler C) obj None)) (ret ())
              else ret ())
         (ret obj))"

definition list_query_of :: "pydict \<Rightarrow> string list \<Rightarrow> sorting \<Rightarrow> pagination \<Rightarrow> string option \<Rightarrow> list_query" where
  "list_query_of filters wanted h p parent =
     (let sorts = (case h of SortingNative d \<Rightarrow> Some d | _ \<Rightarrow> None) in
      \<lparr>lq_filters = filters, lq_fields = wanted,
        lq_sorts = (if pg_kind p = PaginationNative
          then (let d = (case sorts of None \<Rightarrow> [] | Some d \<Rightarrow> d) in
            Some (if has_key (pg_primary_key p) d then d else d @ [(pg_primary_key p, True)])) else sorts),
        lq_page = (if pg_kind p = PaginationNative then Some (pg_limit p, pg_marker p, pg_reverse p) else None),
        lq_parent = parent\<rparr>)"

definition get_sorting_helper :: "controller \<Rightarrow> request \<Rightarrow> exn + sorting" where
  "get_sorting_helper C r = (case c_sorting C of
     (True, True) \<Rightarrow> map_sum id SortingNative (get_sorts r (c_attr_info C))
   | (True, False) \<Rightarrow> map_sum id SortingEmulated (get_sorts r (c_attr_info C))
   | _ \<Rightarrow> Inr NoSorting)"

fun allowed :: "(pydict \<Rightarrow> exn + bool) \<Rightarrow> pydict list \<Rightarrow> exn + pydict list" where
  "allowed ok [] = Inr []"
| "allowed ok (x # xs) = (case ok x of
     Inl e \<Rightarrow> Inl e | Inr b \<Rightarrow> map_sum id (\<lambda>ys. if b then x # ys else ys) (allowed ok xs))"

text \<open>The list of parameters that are no filters.\<close>

definition list_skips :: "string list" where
  "list_skips = [''fields'', ''sort_key'', ''sort_dir'', ''limit'', ''marker'', ''page_reverse'']"

definition link_dict :: "string \<times> string \<Rightarrow> pyval" where
  "link_dict l = PDict [(''rel'', PStr (fst l)), (''href'', PStr (snd l))]"

definition get_items :: "api_env \<Rightarrow> controller \<Rightarrow> 's plugin \<Rightarrow> ctx \<Rightarrow> request \<Rightarrow> bool \<Rightarrow> string option \<Rightarrow>
    ('s, pydict) prog" where
  "get_items V C P c r do_authz parent =
     bindE (ret (do_field_list C (list_args r ''fields''))) (\<lambda>fs0.
     bindE (pureE (get_filters r (c_attr_info C) list_skips)) (\<lambda>filters.
     bindE (pureE (get_sorting_helper C r)) (\<lambda>h.
     bindE (pureE (make_pagination (a_webob V) (a_max_limit V) (c_pagination C) r (get_primary_key C))) (\<lambda>p.
     case pagination_fields p (sorting_fields h fs0) of (wanted, added) \<Rightarrow>
     bindE (p_list P c (list_query_of filters wanted h p (if parent = Some [] then None else parent))) (\<lambda>objs0.
     bindE (pureE (sort_items (a_cmp V) h objs0)) (\<lambda>objs1.
     bindE (pureE (paginate p objs1)) (\<lambda>objs2.
     bindE (pureE (if do_authz
         then allowed (\<lambda>obj. check (a_enforcer V) (a_maps V) c (show_handler C) obj False None) objs2
         else Inr objs2)) (\<lambda>objs.
     bindE (pureE (case objs of [] \<Rightarrow> Inr added
         | o1 # _ \<Rightarrow> map_sum id (\<lambda>ex. added @ ex) (exclude_attributes_by_policy V C c o1))) (\<lambda>hidden.
     bindE (pureE (pagination_links (a_webob V) r p objs)) (\<lambda>links.
       let coll = PList (map (\<lambda>o1. PDict (filter_attributes o1 hidden)) objs) in
       ret (if links = [] then [(c_collection C, coll)]
            else [(c_collection C, coll), (c_collection C @ ''_links'', PList (map link_dict links))])))))))))))"

definition index_items :: "api_env \<Rightarrow> controller \<Rightarrow> 's plugin \<Rightarrow> ctx \<Rightarrow> request \<Rightarrow> string option \<Rightarrow> ('s, pydict) prog" where
  "index_items V C P c r parent = get_items V C P c r True parent"

text \<open>\<open>except exceptions.PolicyNotAuthorized: raise HTTPNotFound\<close>\<close>

definition hide_unauthorized :: "('s, 'a) prog \<Rightarrow> ('s, 'a) prog" where
  "hide_unauthorized m = catchE m (\<lambda>e.
     if isinstance e (Common PolicyNotAuthorized) then raise (Exc (Lib HTTPNotFound) []) else raise e)"

definition show_item :: "api_env \<Rightarrow> controller \<Rightarrow> 's plugin \<Rightarrow> ctx \<Rightarrow> request \<Rightarrow> string \<Rightarrow> string option \<Rightarrow> ('s, pydict) prog" where
  "show_item V C P c r i parent = hide_unauthorized
     (case do_field_list C (list_args r ''fields'') of (wanted, added) \<Rightarrow>
      bindE (get_item V C P c i True (Some wanted) parent) (\<lambda>obj.
      bindE (pureE (view V C c obj added)) (\<lambda>v. ret [(c_resource C, PDict v)])))"

text \<open>\<open>_handle_action\<close> of a member action.\<close>

definition handle_action :: "api_env \<Rightarrow> controller \<Rightarrow> 's plugin \<Rightarrow> ctx \<Rightarrow> string \<Rightarrow> string \<Rightarrow> pyval option \<Rightarrow> ('s, pyval) prog" where
  "handle_action V C P c name i body =
     (if \<not> List.member (c_member_actions C) name then raise (Exc (Lib AttributeError) [])
      else bindE (hide_unauthorized (get_item V C P c i True None None)) (\<lambda>obj.
        thenE (pureE (enforce (a_enforcer V) (a_maps V) c name obj None))
          (p_action P name c i (if body = Some PNone then None else body))))"

section \<open>Preparing a request body\<close>

definition bad_body :: exn where
  "bad_body = Exc (Lib HTTPBadRequest) []"

text \<open>A body, or a resource in it, that is no dictionary fails when it is subscripted:
  TypeError or AttributeError, the same internal error for the client.\<close>

definition not_a_dict :: exn where
  "not_a_dict = Exc (Lib TypeError) []"

definition populate_tenant_id :: "ctx \<Rightarrow> pydict \<Rightarrow> bool \<Rightarrow> exn + pydict" where
  "populate_tenant_id c res is_create =
     (if has_key ''tenant_id'' res \<and> dict_get ''tenant_id'' PNone res \<noteq> opt_str (tenant_id c) \<and> \<not> is_admin c
      then Inl bad_body
      else if is_create \<and> \<not> has_key ''tenant_id'' res then
        (case tenant_id c of
           Some t \<Rightarrow> if t \<noteq> [] then Inr (dict_set ''tenant_id'' (PStr t) res) else Inl bad_body
         | None \<Rightarrow> Inl bad_body)
      else Inr res)"

definition verify_attributes :: "pydict \<Rightarrow> attr_map \<Rightarrow> exn + unit" where
  "verify_attributes res infos =
     (if list_ex (\<lambda>k. \<not> has_key k infos) (dict_keys res) then Inl bad_body else Inr ())"

fun post_loop :: "attr_map \<Rightarrow> pydict \<Rightarrow> exn + pydict" where
  "post_loop [] res = Inr res"
| "post_loop ((k, a) # infos) res =
     (if allow_post a then
        (if attr_default a = None \<and> \<not> has_key k res then Inl bad_body
         else post_loop infos (dict_set k (case map_of res k of Some v \<Rightarrow> v
             | None \<Rightarrow> (case attr_default a of Some d \<Rightarrow> d | None \<Rightarrow> PNone)) res))
      else if has_key k res then Inl bad_body else post_loop infos res)"

definition put_check :: "attr_map \<Rightarrow> pydict \<Rightarrow> exn + pydict" where
  "put_check infos res = (if list_ex (\<lambda>(k, a). has_key k res \<and> \<not> allow_put a) infos
     then Inl bad_body else Inr res)"

text \<open>An mea created from a template needs no mead_id, an ns no nsd_id.\<close>

definition skip_rule :: "string \<Rightarrow> bool \<Rightarrow> string \<Rightarrow> pydict \<Rightarrow> bool" where
  "skip_rule resource is_create k res \<longleftrightarrow>
     resource = ''mea'' \<and> has_key ''mead_template'' res \<and> k = ''mead_id'' \<and> is_create
   \<or> resource = ''ns'' \<and> has_key ''nsd_template'' res \<and> k = ''nsd_id'' \<and> is_create"

fun rules_loop :: "netlib \<Rightarrow> string \<Rightarrow> bool \<Rightarrow> string \<Rightarrow> validator list \<Rightarrow> pydict \<Rightarrow> exn + pydict" where
  "rules_loop N resource is_create k [] res = Inr res"
| "rules_loop N resource is_create k (rule # rules) res =
     (if skip_rule resource is_create k res then rules_loop N resource is_create k rules res
      else (case rule of
          TUnknown n \<Rightarrow> Inl (Exc (Lib KeyError) [])
        | _ \<Rightarrow> (case validate N rule (dict_get k PNone res) of
            Inl e \<Rightarrow> Inl e
          | Inr (Some m, v) \<Rightarrow> Inl bad_body
          | Inr (None, v) \<Rightarrow> rules_loop N resource is_create k rules (dict_set k v res))))"

fun values_loop :: "netlib \<Rightarrow> string \<Rightarrow> bool \<Rightarrow> attr_map \<Rightarrow> pydict \<Rightarrow> exn + pydict" where
  "values_loop N resource is_create [] res = Inr res"
| "values_loop N resource is_create ((k, a) # infos) res =
     (case map_of res k of
        None \<Rightarrow> values_loop N resource is_create infos res
      | Some v \<Rightarrow>
         (if v = PNotSpecified then values_loop N resource is_create infos res
          else (case (case convert_to a of None \<Rightarrow> Inr v | Some cv \<Rightarrow> convert cv v) of
             Inl e \<Rightarrow> Inl e
           | Inr w \<Rightarrow> (case rules_loop N resource is_create k (validate_rules a) (dict_set k w res) of
               Inl e \<Rightarrow> Inl e
             | Inr res' \<Rightarrow> values_loop N resource is_create infos res'))))"

text \<open>The part for one resource: \<open>body\<close> holds it under its name.\<close>

definition prepare_res :: "netlib \<Rightarrow> ctx \<Rightarrow> bool \<Rightarrow> string \<Rightarrow> attr_map \<Rightarrow> pydict \<Rightarrow> exn + pydict" where
  "prepare_res N c is_create resource infos res =
     (case populate_tenant_id c res is_create of
        Inl e \<Rightarrow> Inl e
      | Inr res1 \<Rightarrow> (case verify_attributes res1 infos of
          Inl e \<Rightarrow> Inl e
        | Inr _ \<Rightarrow> (case (if is_create then post_loop infos res1 else put_check infos res1) of
            Inl e \<Rightarrow> Inl e
          | Inr res2 \<Rightarrow> values_loop N resource is_create infos res2)))"

definition prepare_single :: "netlib \<Rightarrow> ctx \<Rightarrow> bool \<Rightarrow> string \<Rightarrow> attr_map \<Rightarrow> pydict \<Rightarrow> exn + pyval" where
  "prepare_single N c is_create resource infos body =
     (case dict_get resource PNone body of
        PNone \<Rightarrow> Inl bad_body
      | PDict res \<Rightarrow> map_sum id (\<lambda>r. PDict (dict_set resource (PDict r) body))
          (prepare_res N c is_create resource infos res)
      | _ \<Rightarrow> Inl not_a_dict)"

text \<open>\<open>prepare_request_body\<close>: a body with the collection is prepared item by item. An
  item without the resource key is wrapped, \<open>{resource: item}\<close>, which has no
  collection key.\<close>

lemma size_collection:
  "map_of d k = Some (PList xs) \<Longrightarrow> size_list size xs < Suc (size_list (size_prod (\<lambda>_. 0) size) d)"
  by (induction d) (auto split: if_splits)

function prepare_body :: "netlib \<Rightarrow> ctx \<Rightarrow> bool \<Rightarrow> string \<Rightarrow> attr_map \<Rightarrow> bool \<Rightarrow> pyval \<Rightarrow> exn + pyval"
  and prepare_items :: "netlib \<Rightarrow> ctx \<Rightarrow> bool \<Rightarrow> string \<Rightarrow> attr_map \<Rightarrow> bool \<Rightarrow> pyval list \<Rightarrow> exn + pyval list" where
  "prepare_body N c is_create resource infos bulk body =
     (if \<not> truthy body then Inl bad_body
      else (case body of
        PDict d \<Rightarrow>
          (case map_of d (resource @ ''s'') of
             None \<Rightarrow> prepare_single N c is_create resource infos d
           | Some coll \<Rightarrow>
              (if \<not> bulk then Inl bad_body
               else (case coll of
                 PList items \<Rightarrow>
                   (case prepare_items N c is_create resource infos bulk items of
                      Inl e \<Rightarrow> Inl e
                    | Inr [] \<Rightarrow> Inl bad_body
                    | Inr bodies \<Rightarrow> Inr (PDict [(resource @ ''s'', PList bodies)]))
               | _ \<Rightarrow> (if py_iter coll = Some [] then Inl bad_body else Inl not_a_dict))))
      | _ \<Rightarrow> Inl not_a_dict))"
| "prepare_items N c is_create resource infos bulk [] = Inr []"
| "prepare_items N c is_create resource infos bulk (x # xs) =
     (case (case x of
              PDict d \<Rightarrow> if has_key resource d then prepare_body N c is_create resource infos bulk x
                else prepare_single N c is_create resource infos [(resource, x)]
            | _ \<Rightarrow> Inl not_a_dict) of
        Inl e \<Rightarrow> Inl e
      | Inr b \<Rightarrow> map_sum id (\<lambda>bs. b # bs) (prepare_items N c is_create resource infos bulk xs))"
  by pat_completeness auto
termination
  by (relation "measure (\<lambda>a. case a of Inl (N, c, k, r, m, b, v) \<Rightarrow> size v | Inr (N, c, k, r, m, b, xs) \<Rightarrow> size_list size xs)")
     (auto dest: size_collection simp: less_Suc_eq_le)

declare prepare_body.simps [simp del]

section \<open>Writing\<close>

definition resource_of :: "string \<Rightarrow> pyval \<Rightarrow> exn + pydict" where
  "resource_of k body = (case body of
     PDict d \<Rightarrow> (case map_of d k of Some (PDict r) \<Rightarrow> Inr r
       | Some _ \<Rightarrow> Inl not_a_dict | None \<Rightarrow> Inl (Exc (Lib KeyError) []))
   | _ \<Rightarrow> Inl not_a_dict)"

definition as_dict :: "pyval \<Rightarrow> exn + pydict" where
  "as_dict v = (case v of PDict d \<Rightarrow> Inr d | _ \<Rightarrow> Inl not_a_dict)"

text \<open>\<open>_emulate_bulk_create\<close>: what was created before a failure is deleted again, any
  further failure is only logged.\<close>

fun undo_creates :: "'s plugin \<Rightarrow> ctx \<Rightarrow> string option \<Rightarrow> pydict list \<Rightarrow> ('s, unit) prog" where
  "undo_creates P c parent [] = ret ()"
| "undo_creates P c parent (obj # objs) =
     bindE (pureE (item_key ''id'' obj)) (\<lambda>i.
       thenE (catchE (p_delete P c (marker_str i) parent) (\<lambda>e. ret ())) (undo_creates P c parent objs))"

fun bulk_loop :: "api_env \<Rightarrow> controller \<Rightarrow> 's plugin \<Rightarrow> ctx \<Rightarrow> string option \<Rightarrow> pyval list \<Rightarrow> pydict list \<Rightarrow>
    ('s, pydict list) prog" where
  "bulk_loop V C P c parent [] objs = ret objs"
| "bulk_loop V C P c parent (item # items) objs = (\<lambda>s.
     case bindE (pureE (as_dict item)) (\<lambda>d.
          bindE (pureE (exclude_attributes_by_policy V C c d)) (\<lambda>hide.
          bindE (p_create P c d parent) (\<lambda>obj. ret (filter_attributes obj hide)))) s of
       (Inr obj, s') \<Rightarrow> bulk_loop V C P c parent items (objs @ [obj]) s'
     | (Inl e, s') \<Rightarrow> thenE (undo_creates P c parent objs) (raise e) s')"

text \<open>The authorisation of every item, before anything is created.\<close>

fun enforce_items :: "api_env \<Rightarrow> controller \<Rightarrow> ctx \<Rightarrow> pyval list \<Rightarrow> exn + unit" where
  "enforce_items V C c [] = Inr ()"
| "enforce_items V C c (item # items) = (case resource_of (c_resource C) item of
     Inl e \<Rightarrow> Inl e
   | Inr res \<Rightarrow> (case enforce (a_enforcer V) (a_maps V) c (action_handler C ''create'') res None of
       Inl e \<Rightarrow> Inl e | Inr _ \<Rightarrow> enforce_items V C c items))"

definition create :: "api_env \<Rightarrow> controller \<Rightarrow> 's plugin \<Rightarrow> ctx \<Rightarrow> pyval \<Rightarrow> string option \<Rightarrow> ('s, pydict) prog" where
  "create V C P c body parent =
     bindE (pureE (prepare_body (a_net V) c True (c_resource C) (c_attr_info C) (c_allow_bulk C) body)) (\<lambda>b.
     bindE (pureE (as_dict b)) (\<lambda>d.
     let coll = map_of d (c_collection C);
         items = (case coll of Some (PList xs) \<Rightarrow> xs | _ \<Rightarrow> [b]) in
     thenE (pureE (enforce_items V C c items))
      (if coll \<noteq> None \<and> c_native_bulk C then
         bindE (p_create_bulk P c d parent) (\<lambda>objs.
           if objs = [] then raise (Exc (Lib IndexError) [])
           else bindE (pureE (exclude_attributes_by_policy V C c (hd objs))) (\<lambda>hide.
             ret [(c_collection C, PList (map (\<lambda>x. PDict (filter_attributes x hide)) objs))]))
       else if coll \<noteq> None then
         bindE (bulk_loop V C P c parent items []) (\<lambda>objs.
           ret [(c_collection C, PList (map PDict objs))])
       else bindE (p_create P c d parent) (\<lambda>obj.
         bindE (pureE (view V C c obj [])) (\<lambda>v. ret [(c_resource C, PDict v)])))))"

definition delete :: "api_env \<Rightarrow> controller \<Rightarrow> 's plugin \<Rightarrow> ctx \<Rightarrow> string \<Rightarrow> string option \<Rightarrow> ('s, unit) prog" where
  "delete V C P c i parent =
     bindE (get_item V C P c i False None parent) (\<lambda>obj.
     thenE (hide_unauthorized (pureE (enforce (a_enforcer V) (a_maps V) c (action_handler C ''delete'') obj None)))
       (p_delete P c i parent))"

definition update_field_list :: "controller \<Rightarrow> string list" where
  "update_field_list C = map fst (filter (\<lambda>(k, a).
     required_by_policy a \<or> primary_key a \<or> attr_default a = None) (c_attr_info C))"

definition update :: "api_env \<Rightarrow> controller \<Rightarrow> 's plugin \<Rightarrow> ctx \<Rightarrow> string \<Rightarrow> pyval \<Rightarrow> string option \<Rightarrow> ('s, pydict) prog" where
  "update V C P c i body parent =
     (if \<not> is_dict body then raise (Exc (Common BadRequest) [(''resource'', PStr ''body''), (''msg'', PStr ''Invalid format'')])
      else bindE (pureE (prepare_body (a_net V) c False (c_resource C) (c_attr_info C) (c_allow_bulk C) body)) (\<lambda>b.
        bindE (pureE (as_dict b)) (\<lambda>d.
        bindE (get_item V C P c i False (Some (update_field_list C)) parent) (\<lambda>orig.
        bindE (pureE (resource_of (c_resource C) b)) (\<lambda>res.
        let target = dict_set ATTRIBUTES_TO_UPDATE (PList (map PStr (dict_keys res))) (dict_update orig res) in
        thenE (hide_unauthorized (pureE (enforce (a_enforcer V) (a_maps V) c (action_handler C ''update'') target None)))
          (bindE (p_update P c i d parent) (\<lambda>obj.
           bindE (pureE (view V C c obj [])) (\<lambda>v. ret [(c_resource C, PDict v)]))))))))"

end
