(* ===== verification/AttributeProps.thy ===== *)
theory AttributeProps
  imports Attributes
begin

text \<open>
  What the validators of api/v1/attributes.py promise: which lists of addresses and
  identifiers they let through, what the validation of a dictionary leaves in it, and
  the inverse of \<open>convert_kvp_str_to_list\<close>.
\<close>

section \<open>Python equality on strings\<close>

lemma py_in_strings: "list_all is_str xs \<Longrightarrow> py_in v xs \<longleftrightarrow> v \<in> set xs"
proof (induction xs)
  case (Cons x xs)
  then obtain s where "x = PStr s" by (cases x) auto
  with Cons show ?case by (simp add: py_in_def)
qed (simp add: py_in_def)

lemma py_distinct_strings: "list_all is_str xs \<Longrightarrow> py_distinct xs \<longleftrightarrow> distinct xs"
  by (induction xs) (auto simp: py_in_strings)

lemma list_all_is_str: "list_all is_str xs \<longleftrightarrow> (\<exists>ss. xs = map PStr ss)"
proof (induction xs)
  case (Cons x xs)
  show ?case
  proof
    assume "list_all is_str (x # xs)"
    then obtain s ss where "x = PStr s" "xs = map PStr ss" using Cons by (cases x) auto
    then have "x # xs = map PStr (s # ss)" by simp
    then show "\<exists>ss. x # xs = map PStr ss" ..
  qed (use Cons in auto)
qed simp

lemma first_msg_None: "first_msg vs = None \<longleftrightarrow> list_all (\<lambda>v. v = None) vs"
  by (induction vs) (auto simp: first_msg_def split: list.splits if_splits)

section \<open>Lists of addresses and identifiers\<close>

lemma passes_str: "passes ok v \<Longrightarrow> is_str v"
  by (cases v) (auto simp: passes_def validate_no_whitespace_def)

lemma ip_address_str: "validate_ip_address N v = None \<Longrightarrow> is_str v"
  by (auto simp: validate_ip_address_def passes_str split: if_splits)

lemma uuid_iff: "validate_uuid N v = None \<longleftrightarrow> (\<exists>s. v = PStr s \<and> uuid_like N s)"
  by (cases v) (auto simp: validate_uuid_def)

text \<open>The addresses that a list of fixed IPs names, and the entries the code wants.\<close>

definition ip_addresses :: "pyval list \<Rightarrow> pyval list" where
  "ip_addresses xs = List.map_filter (\<lambda>x. case x of PDict d \<Rightarrow> map_of d ''ip_address'' | _ \<Rightarrow> None) xs"

definition fixed_ip_ok :: "netlib \<Rightarrow> pyval \<Rightarrow> bool" where
  "fixed_ip_ok N x = (case x of
     PDict d \<Rightarrow> pred_option (\<lambda>a. validate_ip_address N a = None) (map_of d ''ip_address'') \<and>
                pred_option (\<lambda>u. validate_uuid N u = None) (map_of d ''subnet_id'')
   | _ \<Rightarrow> False)"

lemma ip_addresses_simps:
  "ip_addresses [] = []"
  "ip_addresses (x # xs) = (case x of PDict d \<Rightarrow>
     (case map_of d ''ip_address'' of None \<Rightarrow> ip_addresses xs | Some a \<Rightarrow> a # ip_addresses xs)
   | _ \<Rightarrow> ip_addresses xs)"
  by (auto simp: ip_addresses_def map_filter_simps split: pyval.splits option.splits)

lemma fixed_ips_loop_iff:
  "list_all is_str ips \<Longrightarrow> fixed_ips_loop N ips xs = None \<longleftrightarrow>
     list_all (fixed_ip_ok N) xs \<and> distinct (ip_addresses xs) \<and> set ips \<inter> set (ip_addresses xs) = {}"
proof (induction xs arbitrary: ips)
  case (Cons x xs)
  show ?case
  proof (cases x)
    case (PDict d)
    show ?thesis
    proof (cases "map_of d ''ip_address''")
      case None
      with PDict Cons show ?thesis
        by (auto simp: ip_addresses_simps fixed_ip_ok_def split: option.splits)
    next
      case (Some a)
      show ?thesis
      proof (cases "validate_ip_address N a = None \<and> a \<notin> set ips")
        case True
        then have "list_all is_str (ips @ [a])" using Cons.prems by (auto intro: ip_address_str)
        from Cons.IH [OF this] True PDict Some Cons.prems show ?thesis
          by (auto simp: ip_addresses_simps fixed_ip_ok_def py_in_strings split: option.splits)
      next
        case False
        with PDict Some Cons.prems show ?thesis
          by (auto simp: ip_addresses_simps fixed_ip_ok_def py_in_strings split: option.splits)
      qed
    qed
  qed (simp_all add: fixed_ip_ok_def)
qed (simp add: ip_addresses_simps)

lemma duplicate_items_strings:
  "duplicate_items (map PStr ss) = Inr None \<longleftrightarrow> distinct ss"
proof -
  have "list_all hashable (map PStr ss)" by (simp add: list_all_iff hashable_def)
  moreover have "list_all is_str (map PStr ss)" by (simp add: list_all_iff)
  moreover have "distinct (map PStr ss) \<longleftrightarrow> distinct ss" by (simp add: distinct_map inj_on_def)
  ultimately show ?thesis
    by (simp add: duplicate_items_def py_distinct_strings)
qed

section \<open>Validation of dictionaries\<close>

lemma dict_keys_set_present: "k \<in> set (dict_keys d) \<Longrightarrow> dict_keys (dict_set k v d) = dict_keys d"
  by (induction d) (auto simp: dict_keys_def)

text \<open>What the specification of one key says of the data before and after: a key that
  is present holds its converted value, as the rule for it left it.\<close>

definition spec_met :: "netlib \<Rightarrow> pydict \<Rightarrow> pydict \<Rightarrow> string \<times> key_spec \<Rightarrow> bool" where
  "spec_met N d d' = (\<lambda>(k, sp). case map_of d k of
     None \<Rightarrow> True
   | Some x \<Rightarrow>
      (case (case spec_convert sp of None \<Rightarrow> Inr x | Some c \<Rightarrow> convert c x) of
         Inl e \<Rightarrow> False
       | Inr v \<Rightarrow> (case spec_rule sp of
           None \<Rightarrow> map_of d' k = Some v
         | Some r \<Rightarrow> (case validate N r v of
             Inr (None, v') \<Rightarrow> map_of d' k = Some v' | _ \<Rightarrow> False))))"

lemma spec_met_cong:
  "map_of d1 k = map_of d2 k \<Longrightarrow> map_of d1' k = map_of d2' k \<Longrightarrow>
   spec_met N d1 d1' (k, sp) = spec_met N d2 d2' (k, sp)"
  by (simp add: spec_met_def cong: option.case_cong sum.case_cong)

lemma validate_items_frame:
  "validate_items N specs d = Inr (None, d') \<Longrightarrow>
     dict_keys d' = dict_keys d \<and> (\<forall>k. k \<notin> fst ` set specs \<longrightarrow> map_of d' k = map_of d k)"
proof (induction specs arbitrary: d)
  case (Cons p specs)
  obtain k req conv rule where p: "p = (k, Spec req conv rule)"
    by (cases p, rename_tac k sp, case_tac sp) auto
  show ?case
  proof (cases "has_key k d")
    case False
    with Cons.IH [of d] Cons.prems p show ?thesis by auto
  next
    case True
    from Cons.prems p True obtain w where w: "validate_items N specs (dict_set k w d) = Inr (None, d')"
      by (auto split: sum.splits option.splits)
    from True have "k \<in> set (dict_keys d)" by (simp add: has_key_def dict_keys_def)
    with Cons.IH [OF w] p show ?thesis by (auto simp: dict_keys_set_present)
  qed
qed simp

lemma validate_items_met:
  "validate_items N specs d = Inr (None, d') \<Longrightarrow> distinct (map fst specs) \<Longrightarrow>
     list_all (spec_met N d d') specs"
proof (induction specs arbitrary: d)
  case (Cons p specs)
  obtain k req conv rule where p: "p = (k, Spec req conv rule)"
    by (cases p, rename_tac k sp, case_tac sp) auto
  have k: "k \<notin> fst ` set specs" and dist: "distinct (map fst specs)" using Cons.prems(2) p by auto
  show ?case
  proof (cases "map_of d k")
    case None
    then have "validate_items N specs d = Inr (None, d')"
      using Cons.prems(1) p by (simp add: has_key_map_of)
    from Cons.IH [OF this dist] None p show ?thesis by (simp add: spec_met_def)
  next
    case (Some x)
    let ?c = "case conv of None \<Rightarrow> Inr x | Some c \<Rightarrow> convert c x"
    from Cons.prems(1) p Some obtain v w where v: "?c = Inr v"
      and w: "validate_items N specs (dict_set k w d) = Inr (None, d')"
      and r: "case rule of None \<Rightarrow> w = v | Some r \<Rightarrow> validate N r v = Inr (None, w)"
      by (auto simp: has_key_map_of dict_get_def split: sum.splits option.splits)
    have "map_of d' k = Some w" using validate_items_frame [OF w] k by simp
    then have head: "spec_met N d d' p"
      using Some v r p by (auto simp: spec_met_def split: option.splits)
    have "list_all (spec_met N (dict_set k w d) d') specs" by (rule Cons.IH [OF w dist])
    moreover have "spec_met N (dict_set k w d) d' q = spec_met N d d' q" if "q \<in> set specs" for q
    proof -
      obtain j sp where q: "q = (j, sp)" by (cases q)
      with that k have "j \<noteq> k" by force
      then show ?thesis unfolding q by (intro spec_met_cong) simp_all
    qed
    ultimately have "list_all (spec_met N d d') specs" by (simp add: list_all_iff)
    with head show ?thesis by simp
  qed
qed simp

section \<open>Properties\<close>

text \<open>\<open>_validate_fixed_ips\<close> accepts exactly the lists of dictionaries whose
  addresses are valid and pairwise different and whose subnet ids are UUIDs.\<close>

lemma fixed_ips_accepted:
  "validate_fixed_ips N (PList xs) = None \<longleftrightarrow>
     list_all (fixed_ip_ok N) xs \<and> distinct (ip_addresses xs)"
  by (simp add: validate_fixed_ips_def fixed_ips_loop_iff)

text \<open>\<open>_validate_uuid_list\<close> accepts exactly the lists of distinct UUID strings; in
  particular it never raises on a list that it would accept.\<close>

lemma uuid_list_accepted:
  "validate_uuid_list N data = Inr None \<longleftrightarrow>
     (\<exists>ss. data = PList (map PStr ss) \<and> list_all (uuid_like N) ss \<and> distinct ss)"
proof (cases data)
  case (PList xs)
  show ?thesis
  proof (cases "list_all (\<lambda>v. validate_uuid N v = None) xs")
    case True
    then have "list_all is_str xs" by (auto simp: list_all_iff uuid_iff)
    then obtain ss where xs: "xs = map PStr ss" by (auto simp: list_all_is_str)
    have inj: "map PStr ss = map PStr ts \<longleftrightarrow> ss = ts" for ts
      by (rule inj_map_eq_map) (simp add: inj_on_def)
    from True xs have "first_msg (map (validate_uuid N) xs) = None" "list_all (uuid_like N) ss"
      by (auto simp: first_msg_None list_all_iff uuid_iff)
    then show ?thesis
      using PList xs by (auto simp: validate_uuid_list_def duplicate_items_strings inj)
  next
    case False
    then have "first_msg (map (validate_uuid N) xs) \<noteq> None"
      by (simp add: first_msg_None list_all_iff)
    with False PList show ?thesis
      by (auto simp: validate_uuid_list_def list_all_iff uuid_iff split: option.splits)
  qed
qed (auto simp: validate_uuid_list_def)

text \<open>C28: when the validation of a dictionary finds no problem, every required key is
  there, no key was added or lost, values without a specification are untouched, and
  every specified key that is present holds its converted and validated value.\<close>

theorem validated_dict:
  assumes "validate N (TDict specs) (PDict d) = Inr (None, PDict d')" and "distinct (map fst specs)"
  shows "list_all (List.member (dict_keys d')) (required_keys specs) \<and> dict_keys d' = dict_keys d \<and>
    (\<forall>k. k \<notin> fst ` set specs \<longrightarrow> map_of d' k = map_of d k) \<and> list_all (spec_met N d d') specs"
proof (cases "specs = []")
  case True
  with assms show ?thesis by (simp add: required_keys_def)
next
  case False
  from assms(1) False have items: "validate_items N specs d = Inr (None, d')"
    and req: "required_keys specs = [] \<or> verify_dict_keys (required_keys specs) (PDict d) False = None"
    by (auto split: option.splits if_splits sum.splits simp: map_sum_def)
  from req have "list_all (List.member (dict_keys d)) (required_keys specs)"
    by (auto simp: verify_dict_keys_def split: if_splits)
  with validate_items_frame [OF items] validate_items_met [OF items assms(2)] show ?thesis by simp
qed

definition sample_netlib :: netlib where
  "sample_netlib = \<lparr>valid_mac = (\<lambda>s. length s = 17), ip_address_ok = (\<lambda>s. s \<noteq> []),
     ip_network_ok = (\<lambda>s. s \<noteq> []), regex_match = (\<lambda>p s. p = s), uuid_like = (\<lambda>s. length s = 36)\<rparr>"

definition sample_specs :: "(string \<times> key_spec) list" where
  "sample_specs = [(''count'', Spec True (Some ToInt) (Some (TRange (Some 1) (Some 9)))),
     (''name'', Spec False None (Some (TString (Some 5))))]"

lemma validated_dict_witness:
  "validate sample_netlib (TDict sample_specs) (PDict [(''x'', PNone), (''count'', PStr ''3'')])
     = Inr (None, PDict [(''x'', PNone), (''count'', PInt 3)]) \<and>
   list_all (spec_met sample_netlib [(''x'', PNone), (''count'', PStr ''3'')]
       [(''x'', PNone), (''count'', PInt 3)]) sample_specs"
proof -
  have run: "validate sample_netlib (TDict sample_specs) (PDict [(''x'', PNone), (''count'', PStr ''3'')])
     = Inr (None, PDict [(''x'', PNone), (''count'', PInt 3)])" by code_simp
  have "distinct (map fst sample_specs)" by code_simp
  from validated_dict [OF run this] run show ?thesis by blast
qed

text \<open>\<open>convert_kvp_str_to_list\<close> is inverse to writing a key and a value with an equals
  sign between them, up to white space around both; only the first sign counts.\<close>

lemma kvp_roundtrip:
  assumes "strip k \<noteq> []" and "CHR ''='' \<notin> set k"
  shows "convert_kvp_str_to_list (PStr (k @ ''='' @ v)) = Inr (strip k, strip v)"
proof -
  have "split_once (CHR ''='') (k @ ''='' @ v) = [k, v]"
    using assms(2) by (induction k) auto
  with assms(1) show ?thesis by (simp add: convert_kvp_str_to_list_def)
qed

lemma kvp_roundtrip_witness: "convert_kvp_str_to_list (PStr '' a =b=c'') = Inr (''a'', ''b=c'')"
proof -
  have "convert_kvp_str_to_list (PStr ('' a '' @ ''='' @ ''b=c'')) = Inr (strip '' a '', strip ''b=c'')"
    by (rule kvp_roundtrip) code_simp+
  moreover have "strip '' a '' = ''a''" "strip ''b=c'' = ''b=c''" by code_simp+
  ultimately show ?thesis by simp
qed

end
