(* ===== verification/ApiCommonProps.thy ===== *)
theory ApiCommonProps
  imports ApiCommon "HOL-Library.Multiset" "HOL-Library.Sublist"
begin

text \<open>
  Emulated pagination and sorting. A client that follows the markers forward sees every
  object once; going back one page returns the page before, unless that page is the
  first and not aligned; the sort is a stable permutation.
\<close>

section \<open>Markers\<close>

text \<open>Objects that all carry a distinct, non-empty string under the key.\<close>

definition item_id :: "string \<Rightarrow> pydict \<Rightarrow> string" where
  "item_id key x = (case map_of x key of Some (PStr s) \<Rightarrow> s | _ \<Rightarrow> [])"

definition ids_ok :: "string \<Rightarrow> pydict list \<Rightarrow> bool" where
  "ids_ok key xs \<longleftrightarrow> list_all (\<lambda>x. item_id key x \<noteq> []) xs \<and> distinct (map (item_id key) xs)"

lemma item_idD: "item_id key x \<noteq> [] \<Longrightarrow> map_of x key = Some (PStr (item_id key x))"
  by (auto simp: item_id_def split: option.splits pyval.splits)

lemma py_eq_str: "py_eq (PStr s) (PStr t) \<longleftrightarrow> s = t"
  by (simp add: py_eq.simps)

lemma marker_index_found:
  "list_all (\<lambda>x. item_id key x \<noteq> []) xs \<Longrightarrow> item_id key y \<noteq> [] \<Longrightarrow>
   item_id key y \<notin> item_id key ` set xs \<Longrightarrow>
   marker_index key (item_id key y) i (xs @ y # ys) = Inr (i + int (length xs) + 1)"
proof (induction xs arbitrary: i)
  case Nil
  then show ?case by (simp add: item_key_def item_idD py_eq_str)
next
  case (Cons x xs)
  then have "map_of x key = Some (PStr (item_id key x))" "item_id key x \<noteq> item_id key y"
    by (auto simp: item_idD)
  with Cons show ?case by (simp add: item_key_def py_eq_str)
qed

lemma marker_index_nth:
  assumes "ids_ok key items" and "k < length items"
  shows "marker_index key (item_id key (items ! k)) (-1) items = Inr (int k)"
proof -
  let ?xs = "take k items" and ?y = "items ! k" and ?ys = "drop (Suc k) items"
  have split: "items = ?xs @ ?y # ?ys" using assms(2) by (rule id_take_nth_drop)
  have "list_all (\<lambda>x. item_id key x \<noteq> []) (?xs @ ?y # ?ys)"
    and "distinct (map (item_id key) (?xs @ ?y # ?ys))"
    using assms(1) split unfolding ids_ok_def by metis+
  then have "marker_index key (item_id key ?y) (-1) (?xs @ ?y # ?ys) = Inr (-1 + int (length ?xs) + 1)"
    by (intro marker_index_found) auto
  then have "marker_index key (item_id key ?y) (-1) items = Inr (-1 + int (length ?xs) + 1)"
    using split by metis
  with assms(2) show ?thesis by simp
qed

section \<open>Pages\<close>

definition page_after :: "pagination \<Rightarrow> nat \<Rightarrow> pydict list \<Rightarrow> string option" where
  "page_after p k items = (if k = 0 then None else Some (item_id (pg_primary_key p) (items ! (k - 1))))"

lemma py_slice_nat: "py_slice xs (int a) (int b) = take (b - a) (drop a xs)"
proof (cases "a \<le> length xs")
  case True
  then show ?thesis
    by (cases "b \<le> length xs") (simp_all add: py_slice_def slice_bound_def min_def Let_def)
qed (simp add: py_slice_def slice_bound_def min_def Let_def)

lemma paginate_forward:
  assumes "pg_kind p = PaginationEmulated" "pg_limit p = Some (int l)" "\<not> pg_reverse p"
    and "ids_ok (pg_primary_key p) items" "k \<le> length items" "pg_marker p = page_after p k items"
  shows "paginate p items = Inr (take l (drop k items))"
proof (cases k)
  case 0
  have "py_slice items 0 (int l) = take l items" using py_slice_nat [of items 0 l] by simp
  with 0 assms show ?thesis by (simp add: paginate_def page_after_def)
next
  case (Suc j)
  with assms have j: "j < length items" by simp
  with assms(4) have "item_id (pg_primary_key p) (items ! j) \<noteq> []" by (simp add: ids_ok_def list_all_length)
  moreover have "py_slice items (int j + 1) (int j + int l + 1) = take l (drop k items)"
    using py_slice_nat [of items k "k + l"] Suc by (simp add: algebra_simps)
  ultimately show ?thesis
    using assms(1-3,6) Suc marker_index_nth [OF assms(4) j] by (simp add: paginate_def page_after_def)
qed

text \<open>A client that asks for page after page, each time with the last identifier it saw
  as the marker, until a page is empty.\<close>

fun walk_pages :: "nat \<Rightarrow> pagination \<Rightarrow> pydict list \<Rightarrow> exn + pydict list list" where
  "walk_pages 0 p items = Inr []"
| "walk_pages (Suc n) p items = (case paginate p items of
     Inl e \<Rightarrow> Inl e
   | Inr page \<Rightarrow> if page = [] then Inr []
       else map_sum id (\<lambda>ps. page # ps)
         (walk_pages n (p\<lparr>pg_marker := Some (item_id (pg_primary_key p) (last page))\<rparr>) items))"

lemma walk_pages_from:
  assumes "pg_kind p = PaginationEmulated" "pg_limit p = Some (int l)" "\<not> pg_reverse p" "0 < l"
    and "ids_ok (pg_primary_key p) items" "k \<le> length items" "pg_marker p = page_after p k items"
    and "length items - k < n"
  shows "\<exists>pages. walk_pages n p items = Inr pages \<and> concat pages = drop k items \<and>
           list_all (\<lambda>page. page \<noteq> [] \<and> length page \<le> l) pages"
  using assms
proof (induction n arbitrary: p k)
  case (Suc n)
  note page = paginate_forward [OF Suc.prems(1-3) Suc.prems(5-7)]
  show ?case
  proof (cases "k = length items")
    case True
    with page show ?thesis by simp
  next
    case False
    let ?page = "take l (drop k items)" and ?k = "min (k + l) (length items)"
    let ?p = "p\<lparr>pg_marker := Some (item_id (pg_primary_key p) (last ?page))\<rparr>"
    have ne: "?page \<noteq> []" using False Suc.prems by simp
    have "last ?page = ?page ! (length ?page - 1)" using ne by (rule last_conv_nth)
    also have "\<dots> = items ! (k + (length ?page - 1))" using False Suc.prems(4,6) by (simp add: nth_drop)
    also have "k + (length ?page - 1) = ?k - 1" using False Suc.prems(4,6) by (auto simp: min_def)
    finally have "last ?page = items ! (?k - 1)" .
    moreover have "0 < ?k" using False Suc.prems(4,6) by (cases items) auto
    moreover have more: "length items - ?k < n" using False Suc.prems(4,6,8) by (auto simp: min_def)
    ultimately have "pg_marker ?p = page_after ?p ?k items" by (simp add: page_after_def)
    then have "\<exists>pages. walk_pages n ?p items = Inr pages \<and> concat pages = drop ?k items \<and>
           list_all (\<lambda>page. page \<noteq> [] \<and> length page \<le> l) pages"
      using Suc.prems more by (intro Suc.IH) simp_all
    then obtain pages where "walk_pages n ?p items = Inr pages" "concat pages = drop ?k items"
      "list_all (\<lambda>page. page \<noteq> [] \<and> length page \<le> l) pages" by blast
    moreover have "?page @ drop ?k items = drop k items"
    proof (cases "k + l \<le> length items")
      case True
      then show ?thesis using append_take_drop_id [of l "drop k items"] by (simp add: min_def add.commute)
    qed (simp add: min_def)
    ultimately show ?thesis using page ne by (simp add: map_sum_def)
  qed
qed simp

section \<open>Sorting\<close>

definition comparison :: "('a \<Rightarrow> 'a \<Rightarrow> int) \<Rightarrow> bool" where
  "comparison c \<longleftrightarrow> (\<forall>x y. c x y \<le> 0 \<longleftrightarrow> 0 \<le> c y x) \<and> (\<forall>x y z. c x y \<le> 0 \<and> c y z \<le> 0 \<longrightarrow> c x z \<le> 0)"

lemma comparisonI:
  "(\<And>x y. c x y \<le> 0 \<longleftrightarrow> 0 \<le> c y x) \<Longrightarrow> (\<And>x y z. c x y \<le> 0 \<Longrightarrow> c y z \<le> 0 \<Longrightarrow> c x z \<le> 0) \<Longrightarrow> comparison c"
  unfolding comparison_def by blast

lemma comparison_flip: "comparison c \<Longrightarrow> c x y \<le> 0 \<longleftrightarrow> 0 \<le> c y x"
  unfolding comparison_def by blast

lemma comparison_trans: "comparison c \<Longrightarrow> c x y \<le> 0 \<Longrightarrow> c y z \<le> 0 \<Longrightarrow> c x z \<le> 0"
  unfolding comparison_def by blast

lemma comparison_total: "comparison c \<Longrightarrow> c x y \<le> 0 \<or> c y x \<le> 0"
  using comparison_flip [of c x y] by linarith

lemma comparison_zero: "comparison c \<Longrightarrow> c x y = 0 \<longleftrightarrow> c x y \<le> 0 \<and> c y x \<le> 0"
  using comparison_flip [of c x y] comparison_flip [of c y x] by linarith

lemma mset_insert_sorted: "mset (insert_sorted c x ys) = add_mset x (mset ys)"
  by (induction ys) auto

lemma mset_sorted_cmp: "mset (sorted_cmp c xs) = mset xs"
  by (induction xs) (auto simp: sorted_cmp_def mset_insert_sorted)

lemma set_insert_sorted: "set (insert_sorted c x ys) = insert x (set ys)"
  by (metis mset_insert_sorted set_mset_add_mset_insert set_mset_mset)

lemma sorted_insert_sorted:
  "comparison c \<Longrightarrow> sorted_wrt (\<lambda>a b. c a b \<le> 0) ys \<Longrightarrow> sorted_wrt (\<lambda>a b. c a b \<le> 0) (insert_sorted c x ys)"
proof (induction ys)
  case (Cons y ys)
  have trans: "c x z \<le> 0" if "c x y \<le> 0" "c y z \<le> 0" for z
    using comparison_trans [OF Cons.prems(1)] that by blast
  have "c y x \<le> 0" if "\<not> c x y \<le> 0" using comparison_total [OF Cons.prems(1), of x y] that by blast
  with Cons trans show ?case by (auto simp: set_insert_sorted)
qed simp

text \<open>Stability: elements that compare equal to a given one keep their order.\<close>

lemma stable_insert_sorted:
  assumes "comparison c" "sorted_wrt (\<lambda>a b. c a b \<le> 0) ys"
  shows "filter (\<lambda>b. c a b = 0) (insert_sorted c x ys) = filter (\<lambda>b. c a b = 0) (x # ys)"
  using assms
proof (induction ys)
  case (Cons y ys)
  show ?case
  proof (cases "c x y \<le> 0")
    case False
    have "c a y \<noteq> 0" if "c a x = 0"
      using that False comparison_zero [OF Cons.prems(1)] comparison_trans [OF Cons.prems(1), of x a y] by blast
    with False Cons show ?thesis by auto
  qed simp
qed simp

lemma sorted_cmp_props:
  assumes "comparison c"
  shows "sorted_wrt (\<lambda>a b. c a b \<le> 0) (sorted_cmp c xs)"
    and "filter (\<lambda>b. c a b = 0) (sorted_cmp c xs) = filter (\<lambda>b. c a b = 0) xs"
proof (induction xs)
  case Nil
  { case 1 show ?case by (simp add: sorted_cmp_def) next case 2 show ?case by (simp add: sorted_cmp_def) }
next
  case (Cons x xs)
  {
    case 1
    show ?case using sorted_insert_sorted [OF assms Cons(1)] by (simp add: sorted_cmp_def)
  next
    case 2
    show ?case using stable_insert_sorted [OF assms Cons(1)] Cons(2) by (simp add: sorted_cmp_def)
  }
qed

lemma comparison_cmp_func: "comparison cmp \<Longrightarrow> comparison (cmp_func cmp d)"
proof (induction d)
  case Nil
  then show ?case by (simp add: comparison_def)
next
  case (Cons p d)
  obtain key dir where p: "p = (key, dir)" by (cases p)
  let ?v = "dict_get key PNone"
  let ?l = "\<lambda>x y. cmp (?v x) (?v y) * (if dir then 1 else -1)"
  have IH: "comparison (cmp_func cmp d)" using Cons by blast
  have l: "comparison ?l"
  proof (rule comparisonI)
    fix x y
    have "cmp (?v x) (?v y) \<le> 0 \<longleftrightarrow> 0 \<le> cmp (?v y) (?v x)" "cmp (?v y) (?v x) \<le> 0 \<longleftrightarrow> 0 \<le> cmp (?v x) (?v y)"
      by (rule comparison_flip [OF Cons.prems])+
    then show "?l x y \<le> 0 \<longleftrightarrow> 0 \<le> ?l y x" by simp
  next
    fix x y z assume xy: "?l x y \<le> 0" and yz: "?l y z \<le> 0"
    show "?l x z \<le> 0"
    proof (cases dir)
      case True
      with xy yz comparison_trans [OF Cons.prems, of "?v x" "?v y" "?v z"] show ?thesis by simp
    next
      case False
      with xy yz have "cmp (?v y) (?v x) \<le> 0" "cmp (?v z) (?v y) \<le> 0"
        using comparison_flip [OF Cons.prems, of "?v y" "?v x"] comparison_flip [OF Cons.prems, of "?v z" "?v y"] by simp_all
      then have "cmp (?v z) (?v x) \<le> 0" by (intro comparison_trans [OF Cons.prems, of "?v z" "?v y" "?v x"])
      then have "0 \<le> cmp (?v x) (?v z)" using comparison_flip [OF Cons.prems] by simp
      with False show ?thesis by simp
    qed
  qed
  have eq: "cmp_func cmp (p # d) x y = (if ?l x y \<noteq> 0 then ?l x y else cmp_func cmp d x y)" for x y
    by (simp add: p Let_def)
  have le: "cmp_func cmp (p # d) x y \<le> 0 \<longleftrightarrow> ?l x y < 0 \<or> ?l x y = 0 \<and> cmp_func cmp d x y \<le> 0" for x y
    unfolding eq by auto
  have ge: "0 \<le> cmp_func cmp (p # d) x y \<longleftrightarrow> 0 < ?l x y \<or> ?l x y = 0 \<and> 0 \<le> cmp_func cmp d x y" for x y
    unfolding eq by auto
  have flip: "?l x y < 0 \<longleftrightarrow> 0 < ?l y x" "?l x y = 0 \<longleftrightarrow> ?l y x = 0" for x y
    using comparison_flip [OF l, of x y] comparison_flip [OF l, of y x] by linarith+
  have tail: "cmp_func cmp d x y \<le> 0 \<longleftrightarrow> 0 \<le> cmp_func cmp d y x" for x y
    using comparison_flip [OF IH] .
  show ?case
    unfolding comparison_def
  proof (intro conjI allI impI)
    fix x y show "cmp_func cmp (p # d) x y \<le> 0 \<longleftrightarrow> 0 \<le> cmp_func cmp (p # d) y x"
      unfolding le ge using flip tail by blast
  next
    fix x y z
    assume a: "cmp_func cmp (p # d) x y \<le> 0 \<and> cmp_func cmp (p # d) y z \<le> 0"
    then have "?l x y \<le> 0" "?l y z \<le> 0" unfolding le by auto
    then have xz: "?l x z \<le> 0" using comparison_trans [OF l] by blast
    have "?l x y = 0 \<and> ?l y z = 0" if "?l x z = 0"
      using that \<open>?l x y \<le> 0\<close> \<open>?l y z \<le> 0\<close> comparison_zero [OF l] comparison_trans [OF l, of z x y]
        comparison_trans [OF l, of y z x] by blast
    with a xz show "cmp_func cmp (p # d) x z \<le> 0"
      unfolding le using comparison_trans [OF IH, of x y z] by force
  qed
qed

section \<open>Properties\<close>

definition sample_items :: "pydict list" where
  "sample_items = map (\<lambda>c. [(''id'', PStr [c]), (''name'', PStr ''x'')]) ''abcde''"

definition sample_page :: "string option \<Rightarrow> bool \<Rightarrow> pagination" where
  "sample_page m back = \<lparr>pg_kind = PaginationEmulated, pg_limit = Some 2, pg_marker = m,
     pg_reverse = back, pg_primary_key = ''id''\<rparr>"

text \<open>C29: a client that asks for page after page, giving the last identifier it saw as
  the marker, sees every object exactly once and in order, in non-empty pages of at most
  the limit, and then an empty page.\<close>

theorem forward_pages:
  assumes "pg_kind p = PaginationEmulated" "pg_limit p = Some (int l)" "\<not> pg_reverse p" "0 < l"
    and "ids_ok (pg_primary_key p) items" "pg_marker p = None" "length items < n"
  shows "\<exists>pages. walk_pages n p items = Inr pages \<and> concat pages = items \<and>
           list_all (\<lambda>page. page \<noteq> [] \<and> length page \<le> l) pages"
  using walk_pages_from [of p l items 0 n] assms by (simp add: page_after_def)

lemma forward_pages_witness:
  "\<exists>pages. walk_pages 6 (sample_page None False) sample_items = Inr pages \<and> concat pages = sample_items \<and>
           list_all (\<lambda>page. page \<noteq> [] \<and> length page \<le> 2) pages"
proof (rule forward_pages)
  show "ids_ok (pg_primary_key (sample_page None False)) sample_items" by code_simp
  show "length sample_items < 6" by code_simp
qed (simp_all add: sample_page_def)

text \<open>Going back from the page that starts at index \<open>k\<close> gives the \<open>l\<close> objects
  before it when there are that many; when there are fewer, and the list is at least a
  page long, the page is empty: the slice \<open>items[i - limit:i]\<close> then starts with a
  negative number and counts from the end.\<close>

lemma previous_page:
  assumes "pg_kind p = PaginationEmulated" "pg_limit p = Some (int l)" "pg_reverse p"
    and "ids_ok (pg_primary_key p) items" "k < length items" "l \<le> length items"
    and "pg_marker p = Some (item_id (pg_primary_key p) (items ! k))"
  shows "paginate p items = Inr (if l \<le> k then take l (drop (k - l) items) else [])"
proof -
  have "item_id (pg_primary_key p) (items ! k) \<noteq> []"
    using assms(4,5) by (simp add: ids_ok_def list_all_length)
  then have run: "paginate p items = Inr (py_slice items (int k - int l) (int k))"
    using assms marker_index_nth [OF assms(4,5)] by (simp add: paginate_def)
  show ?thesis
  proof (cases "l \<le> k")
    case True
    then have "py_slice items (int k - int l) (int k) = take l (drop (k - l) items)"
      using py_slice_nat [of items "k - l" k] by (simp add: of_nat_diff)
    with run True show ?thesis by simp
  next
    case False
    then have "slice_bound (length items) (int k - int l) = k + length items - l"
      by (simp add: slice_bound_def)
    moreover have "slice_bound (length items) (int k) = k"
      using assms(5) by (simp add: slice_bound_def)
    ultimately have "py_slice items (int k - int l) (int k) = []"
      using assms(6) by (simp add: py_slice_def)
    with run False show ?thesis by simp
  qed
qed

lemma previous_page_witness:
  "paginate (sample_page (Some ''b'') True) sample_items = Inr (if (2::nat) \<le> 1 then take 2 (drop (1 - 2) sample_items) else [])"
proof (rule previous_page)
  show "ids_ok (pg_primary_key (sample_page (Some ''b'') True)) sample_items" by code_simp
  show "1 < length sample_items" "2 \<le> length sample_items" by code_simp+
  show "pg_marker (sample_page (Some ''b'') True) =
      Some (item_id (pg_primary_key (sample_page (Some ''b'') True)) (sample_items ! 1))" by code_simp
qed (simp_all add: sample_page_def)

text \<open>The limit of a request that asks for pages is at least one and respects the
  configured maximum; a malformed or negative limit is a bad request.\<close>

lemma limit_in_bounds:
  assumes "get_limit_and_marker W conf r = Inr (Some l, m)"
  shows "1 \<le> l \<and> (0 < get_pagination_max_limit conf \<longrightarrow> l \<le> get_pagination_max_limit conf) \<and>
     (\<forall>s. multi_get W (GET r) ''limit'' = Some s \<longrightarrow> (\<exists>i. int_of_str s = Some i \<and> 0 \<le> i))"
proof -
  from assms(1) obtain i where i: "get_limit_param W r = Inr i"
    by (auto simp: get_limit_and_marker_def Let_def split: sum.splits)
  have i0: "0 \<le> i" and s: "\<forall>s. multi_get W (GET r) ''limit'' = Some s \<longrightarrow> int_of_str s = Some i"
    using i by (auto simp: get_limit_param_def split: option.splits if_splits)
  from assms(1) i have "l = (if get_pagination_max_limit conf > 0
      then (if min (get_pagination_max_limit conf) i \<noteq> 0 then min (get_pagination_max_limit conf) i
            else get_pagination_max_limit conf) else i)" "l \<noteq> 0"
    by (auto simp: get_limit_and_marker_def Let_def split: if_splits)
  with i0 s show ?thesis by (auto split: if_splits)
qed

definition sample_webob :: webob where
  "sample_webob = \<lparr>multi_get = (\<lambda>q k. map_of (rev q) k), multi_pop = (\<lambda>k q. filter (\<lambda>(j, _). j \<noteq> k) q),
     multi_set = (\<lambda>k v q. filter (\<lambda>(j, _). j \<noteq> k) q @ [(k, v)]),
     urlencode = (\<lambda>q. join ''&'' (map (\<lambda>(k, v). k @ ''='' @ v) q))\<rparr>"

definition sample_request :: "query \<Rightarrow> request" where
  "sample_request q = \<lparr>GET = q, path_url = ''/v1.0/meas''\<rparr>"

lemma limit_in_bounds_witness:
  "get_limit_and_marker sample_webob ''10'' (sample_request [(''limit'', ''50'')]) = Inr (Some 10, None) \<and>
   (1::int) \<le> 10"
proof -
  have run: "get_limit_and_marker sample_webob ''10'' (sample_request [(''limit'', ''50'')]) = Inr (Some 10, None)"
    by code_simp
  from limit_in_bounds [OF run] run show ?thesis by blast
qed


definition sample_cmp :: "pyval \<Rightarrow> pyval \<Rightarrow> int" where
  "sample_cmp v w = (let n = (\<lambda>v. case v of PInt i \<Rightarrow> i | PStr s \<Rightarrow> int (length s) | _ \<Rightarrow> 0) in n v - n w)"


end
