(* ===== verification/ApiProps.thy ===== *)
theory ApiProps
  imports ApiBase AttributeProps ApiCommonProps Samples
begin

text \<open>
  Properties of the REST controller and the policy module: what a prepared body holds,
  what a response shows, and how a refused request is answered.
\<close>

section \<open>Prepared bodies\<close>

lemma map_sum_Inr_iff: "map_sum id f r = Inr y \<longleftrightarrow> (\<exists>z. r = Inr z \<and> y = f z)"
  by (cases r) auto

lemma has_key_keys: "has_key k d \<longleftrightarrow> k \<in> set (dict_keys d)"
  by (simp add: has_key_iff dict_keys_def)

lemma dict_keys_set_has: "map_of d k = Some v \<Longrightarrow> dict_keys (dict_set k w d) = dict_keys d"
  by (rule dict_keys_set_present) (force simp: has_key_map_of simp flip: has_key_keys)

lemma post_loop_keys:
  "post_loop infos res = Inr out \<Longrightarrow> distinct (map fst infos) \<Longrightarrow>
     (\<forall>(k, a) \<in> set infos. has_key k out \<longleftrightarrow> allow_post a)
   \<and> (\<forall>k. k \<notin> fst ` set infos \<longrightarrow> map_of out k = map_of res k)
   \<and> (\<forall>k v. map_of res k = Some v \<longrightarrow> map_of out k = Some v)"
proof (induction infos arbitrary: res)
  case (Cons p infos)
  obtain k a where p: "p = (k, a)" by (cases p)
  from Cons.prems p have k: "k \<notin> fst ` set infos" and dist: "distinct (map fst infos)" by auto
  show ?case
  proof (cases "allow_post a")
    case True
    let ?v = "case map_of res k of Some v \<Rightarrow> v | None \<Rightarrow> (case attr_default a of Some d \<Rightarrow> d | None \<Rightarrow> PNone)"
    from Cons.prems(1) p True have "post_loop infos (dict_set k ?v res) = Inr out" by (auto split: if_splits)
    from Cons.IH [OF this dist] have IH:
        "\<forall>(k, a) \<in> set infos. has_key k out \<longleftrightarrow> allow_post a"
        "\<forall>j. j \<notin> fst ` set infos \<longrightarrow> map_of out j = map_of (dict_set k ?v res) j"
        "\<forall>j v. map_of (dict_set k ?v res) j = Some v \<longrightarrow> map_of out j = Some v" by blast+
    have "map_of out j = Some v" if "map_of res j = Some v" for j v
      using IH(3) that by (cases "j = k") auto
    with IH True k show ?thesis by (auto simp: p has_key_map_of)
  next
    case False
    with Cons.prems(1) p have run: "post_loop infos res = Inr out" and no: "map_of res k = None"
      by (auto simp: has_key_map_of split: if_splits)
    from Cons.IH [OF run dist] False k no show ?thesis
      by (auto simp: p has_key_map_of)
  qed
qed simp

lemma rules_loop_frame:
  "rules_loop N r c k rules res = Inr out \<Longrightarrow> has_key k res \<Longrightarrow>
     dict_keys out = dict_keys res \<and> (\<forall>j. j \<noteq> k \<longrightarrow> map_of out j = map_of res j)"
proof (induction rules arbitrary: res)
  case (Cons rule rules)
  show ?case
  proof (cases "skip_rule r c k res")
    case True
    with Cons show ?thesis by simp
  next
    case False
    from Cons.prems(1) False obtain v where "rules_loop N r c k rules (dict_set k v res) = Inr out"
      by (auto split: validator.splits sum.splits option.splits simp del: validate.simps)
    from Cons.IH [OF this] Cons.prems(2) show ?thesis
      by (auto simp: has_key_map_of dict_keys_set_has)
  qed
qed simp

lemma values_loop_keys: "values_loop N r c infos res = Inr out \<Longrightarrow> dict_keys out = dict_keys res"
proof (induction infos arbitrary: res)
  case (Cons p infos)
  obtain k a where p: "p = (k, a)" by (cases p)
  show ?case
  proof (cases "map_of res k = None \<or> map_of res k = Some PNotSpecified")
    case True
    with Cons p show ?thesis by auto
  next
    case False
    with Cons.prems p obtain w res' where r: "rules_loop N r c k (validate_rules a) (dict_set k w res) = Inr res'"
      and rest: "values_loop N r c infos res' = Inr out"
      by (auto split: sum.splits option.splits if_splits)
    from False have "dict_keys res' = dict_keys res"
      using rules_loop_frame [OF r] by (auto simp: dict_keys_set_has has_key_map_of)
    with Cons.IH [OF rest] show ?thesis by simp
  qed
qed simp

lemma keys_has: "dict_keys d = dict_keys e \<Longrightarrow> has_key k d = has_key k e"
  by (simp add: has_key_def dict_keys_def)

text \<open>A plain attribute: no conversion, and rules that look at strings only.\<close>

definition string_attr :: "attr_info \<Rightarrow> bool" where
  "string_attr a \<longleftrightarrow> convert_to a = None \<and> validate_rules a = [TString None]"

lemma values_loop_string:
  "values_loop N r c infos res = Inr out \<Longrightarrow> distinct (map fst infos) \<Longrightarrow>
   (\<And>a. (k, a) \<in> set infos \<Longrightarrow> string_attr a) \<Longrightarrow> map_of out k = map_of res k"
proof (induction infos arbitrary: res)
  case (Cons p infos)
  obtain j a where p: "p = (j, a)" by (cases p)
  from Cons.prems(2) p have dist: "distinct (map fst infos)" by simp
  show ?case
  proof (cases "map_of res j = None \<or> map_of res j = Some PNotSpecified")
    case True
    with Cons p show ?thesis by auto
  next
    case False
    with Cons.prems(1) p obtain v w res' where v: "map_of res j = Some v"
      and w: "(case convert_to a of None \<Rightarrow> Inr v | Some cv \<Rightarrow> convert cv v) = Inr w"
      and r: "rules_loop N r c j (validate_rules a) (dict_set j w res) = Inr res'"
      and rest: "values_loop N r c infos res' = Inr out"
      by (auto split: sum.splits option.splits if_splits)
    have "map_of res' k = map_of res k"
    proof (cases "j = k")
      case True
      then have "string_attr a" using Cons.prems(3) p by auto
      with r w v True show ?thesis
        by (auto simp: string_attr_def pure_verdict_def dict_get_def split: if_splits option.splits)
    next
      case False
      then show ?thesis using rules_loop_frame [OF r] by (simp add: has_key_map_of)
    qed
    with Cons.IH [OF rest dist] Cons.prems(3) p show ?thesis by auto
  qed
qed simp

lemma prepare_res_create:
  assumes run: "prepare_res N c True resource infos res = Inr out" and dist: "distinct (map fst infos)"
    and ten: "map_of infos ''tenant_id'' = Some a" "string_attr a"
  shows "(\<forall>k. has_key k out \<longleftrightarrow> (\<exists>a. map_of infos k = Some a \<and> allow_post a))
    \<and> (\<not> is_admin c \<longrightarrow> map_of out ''tenant_id'' = Some (opt_str (tenant_id c)))"
proof -
  from run obtain res1 res2 where p: "populate_tenant_id c res True = Inr res1"
    and v: "verify_attributes res1 infos = Inr ()" and l: "post_loop infos res1 = Inr res2"
    and w: "values_loop N resource True infos res2 = Inr out"
    by (auto simp: prepare_res_def split: sum.splits)
  note keys = post_loop_keys [OF l dist]
  have out: "has_key k out = has_key k res2" for k using values_loop_keys [OF w] by (rule keys_has)
  have only: "has_key k res1 \<Longrightarrow> has_key k infos" for k
    using v by (auto simp: verify_attributes_def list_ex_iff dict_keys_def has_key_iff split: if_splits)
  have "has_key k out \<longleftrightarrow> (\<exists>a. map_of infos k = Some a \<and> allow_post a)" for k
  proof (cases "map_of infos k")
    case None
    then have "map_of res1 k = None" using only [of k] by (cases "map_of res1 k") (auto simp: has_key_map_of)
    moreover have "k \<notin> fst ` set infos" using None by (simp add: map_of_eq_None_iff)
    ultimately have "map_of res2 k = None" using keys by metis
    with None show ?thesis by (simp add: out) (simp add: has_key_map_of)
  next
    case (Some b)
    with keys map_of_SomeD [OF Some] show ?thesis by (auto simp: out)
  qed
  moreover have "map_of out ''tenant_id'' = Some (opt_str (tenant_id c))" if "\<not> is_admin c"
  proof -
    have "map_of res1 ''tenant_id'' = Some (opt_str (tenant_id c))"
      using p that by (auto simp: populate_tenant_id_def has_key_map_of dict_get_def opt_str_def split: if_splits option.splits)
    moreover have "map_of out ''tenant_id'' = map_of res2 ''tenant_id''"
    proof (rule values_loop_string [OF w dist])
      fix b assume "(''tenant_id'', b) \<in> set infos"
      with ten dist show "string_attr b" by simp
    qed
    ultimately show ?thesis using keys by simp
  qed
  ultimately show ?thesis by blast
qed

section \<open>Views\<close>

lemma excluded_set: "excluded ok ks = Inr ex \<Longrightarrow> set ex = {k \<in> set ks. ok k \<noteq> Inr True} \<and> (\<forall>k \<in> set ks. \<exists>b. ok k = Inr b)"
proof (induction ks arbitrary: ex)
  case (Cons k ks)
  then obtain b r where "ok k = Inr b" "excluded ok ks = Inr r" "ex = (if b then r else k # r)"
    by (auto simp: map_sum_Inr_iff split: sum.splits)
  with Cons.IH show ?case by (auto split: if_splits)
qed simp

lemma filter_attributes_in: "(k, v) \<in> set (filter_attributes d hidden) \<longleftrightarrow> (k, v) \<in> set d \<and> k \<notin> set hidden"
  by (auto simp: filter_attributes_def)

lemma allowed_sound: "allowed ok xs = Inr ys \<Longrightarrow> ys = filter (\<lambda>x. ok x = Inr True) xs"
  by (induction xs arbitrary: ys) (auto simp: map_sum_Inr_iff split: sum.splits if_splits)

section \<open>Properties\<close>

text \<open>C31: a prepared body of a create request holds exactly the attributes that may be
  posted, and its tenant is the caller's unless the caller is an admin.\<close>

theorem created_body:
  assumes "prepare_body N c True resource infos False body = Inr b"
    and "distinct (map fst infos)" and "map_of infos ''tenant_id'' = Some a" "string_attr a"
  shows "\<exists>d out. b = PDict d \<and> map_of d resource = Some (PDict out)
    \<and> (\<forall>k. has_key k out \<longleftrightarrow> (\<exists>a. map_of infos k = Some a \<and> allow_post a))
    \<and> (\<not> is_admin c \<longrightarrow> map_of out ''tenant_id'' = Some (opt_str (tenant_id c)))"
proof -
  from assms(1) obtain d where "prepare_single N c True resource infos d = Inr b"
    by (auto simp: prepare_body.simps [of _ _ _ _ _ _ body] split: if_splits pyval.splits option.splits)
  then obtain res out where run: "prepare_res N c True resource infos res = Inr out"
    and b: "b = PDict (dict_set resource (PDict out) d)"
    by (auto simp: prepare_single_def map_sum_def split: pyval.splits sum.splits)
  from prepare_res_create [OF run assms(2-4)] b show ?thesis
    by (intro exI [of _ "dict_set resource (PDict out) d"] exI [of _ out]) simp
qed

definition sample_mea_body :: "pyval \<Rightarrow> pyval" where
  "sample_mea_body v = PDict [(''mea'', PDict [(''name'', PStr ''a''), (''mead_id'', v)])]"

lemma created_body_witness:
  "\<exists>b d out. prepare_body sample_netlib (user_ctx ''t1'') True ''mea'' meas_attrs False (sample_mea_body PNone) = Inr b
    \<and> b = PDict d \<and> map_of d ''mea'' = Some (PDict out) \<and> map_of out ''tenant_id'' = Some (PStr ''t1'')"
proof -
  let ?m = "prepare_body sample_netlib (user_ctx ''t1'') True ''mea'' meas_attrs False (sample_mea_body PNone)"
  have "case ?m of Inl e \<Rightarrow> False | Inr b \<Rightarrow> True" by code_simp
  then obtain b where b: "?m = Inr b" by (cases ?m) auto
  have "distinct (map fst meas_attrs)" by code_simp
  moreover have "\<exists>a. map_of meas_attrs ''tenant_id'' = Some a \<and> string_attr a"
    by (simp add: meas_attrs_def string_attr_def declared_def)
  moreover have "\<not> is_admin (user_ctx ''t1'')" "opt_str (tenant_id (user_ctx ''t1'')) = PStr ''t1''" by code_simp+
  ultimately show ?thesis using created_body [OF b] b by fastforce
qed

text \<open>Creating an MEA never validates \<open>mead_id\<close>: the defaults are filled in before
  the rules run, so \<open>mead_template\<close> is always in the body and the rule for \<open>mead_id\<close> is
  always skipped. Any value passes.\<close>

theorem mead_id_unchecked:
  "\<exists>out. prepare_body N \<lparr>user_id = None, tenant_id = Some ''t1'', is_admin = False, roles = [],
       auth_token = None, tenant_name = None, user_name = None\<rparr> True ''mea'' meas_attrs False
       (PDict [(''mea'', PDict [(''name'', PStr n), (''mead_id'', v)])])
     = Inr (PDict [(''mea'', PDict out)]) \<and> map_of out ''mead_id'' = Some v"
  by (simp add: prepare_body.simps prepare_single_def prepare_res_def populate_tenant_id_def has_key_def
      verify_attributes_def dict_keys_def meas_attrs_def declared_def dict_get_def skip_rule_def
      pure_verdict_def validate_string_def)

text \<open>C32: a response shows exactly the attributes that are declared visible, that the
  policy allows the caller to see and that are not to be stripped, with their values.\<close>

theorem view_exact:
  assumes "view V C c data hidden = Inr out"
  shows "(k, v) \<in> set out \<longleftrightarrow> (k, v) \<in> set data \<and> k \<notin> set hidden
     \<and> (\<exists>a. map_of (c_attr_info C) k = Some a \<and> is_visible a
          \<and> check (a_enforcer V) (a_maps V) c (show_handler C @ '':'' @ k) data True None = Inr True)"
proof -
  from assms obtain ex where ex: "exclude_attributes_by_policy V C c data = Inr ex"
    and out: "out = filter_attributes data (hidden @ ex)"
    by (auto simp: view_def map_sum_def split: sum.splits)
  have "set ex = {k \<in> set (dict_keys data). attribute_shown V C c data k \<noteq> Inr True}"
    using excluded_set ex unfolding exclude_attributes_by_policy_def by blast
  moreover have "(k, v) \<in> set data \<Longrightarrow> k \<in> set (dict_keys data)" by (force simp: dict_keys_def)
  moreover have "attribute_shown V C c data k = Inr True \<longleftrightarrow>
      (\<exists>a. map_of (c_attr_info C) k = Some a \<and> is_visible a
          \<and> check (a_enforcer V) (a_maps V) c (show_handler C @ '':'' @ k) data True None = Inr True)"
    by (auto simp: attribute_shown_def split: option.splits if_splits)
  ultimately show ?thesis by (auto simp: out filter_attributes_in)
qed

text \<open>A caller whom the policy refuses gets an internal error. The engine raises the
  exception class of oslo.policy, which the controller's \<open>except
  exceptions.PolicyNotAuthorized\<close> does not catch and the fault map does not list, so the
  404 that was to hide the resource never comes.\<close>

theorem unauthorized_is_500:
  assumes "p_show P c i (Some (fst (do_field_list C (list_args r ''fields'')))) parent s = (Inr obj, s')"
    and "\<not> is_admin c" and "build_match_rule (a_maps V) (show_handler C) obj None = Inr rule"
    and "en_enforce (a_enforcer V) rule obj (to_dict c) = Inr False"
  shows "show_item V C P c r i parent s = (Inl (policy_not_authorized (show_handler C)), s')
    \<and> http_status (convert_exception_to_http_exc fault_map (policy_not_authorized (show_handler C))) = 500"
proof
  obtain wanted added where w: "do_field_list C (list_args r ''fields'') = (wanted, added)"
    by (cases "do_field_list C (list_args r ''fields'')")
  have "enforce (a_enforcer V) (a_maps V) c (show_handler C) obj None = Inl (policy_not_authorized (show_handler C))"
    using assms by (simp add: enforce_def)
  then show "show_item V C P c r i parent s = (Inl (policy_not_authorized (show_handler C)), s')"
    using assms(1) by (simp add: show_item_def w get_item_def hide_unauthorized_def catchE_def bindE_def thenE_def
        policy_not_authorized_def exc_eval)
  show "http_status (convert_exception_to_http_exc fault_map (policy_not_authorized (show_handler C))) = 500"
    by (simp add: convert_exception_to_http_exc_def policy_not_authorized_def mapped_code_def fault_map_def exc_eval)
qed

definition sample_controller :: controller where
  "sample_controller = \<lparr>c_resource = ''mea'', c_collection = ''meas'', c_attr_info = meas_attrs,
     c_allow_bulk = True, c_native_bulk = False, c_pagination = NoPagination, c_sorting = (False, False),
     c_parent = None, c_member_actions = []\<rparr>"

text \<open>An engine that lets a caller do everything with the resources of its own tenant.\<close>

definition sample_env :: api_env where
  "sample_env = \<lparr>a_enforcer = \<lparr>en_rules = [''default''], en_enforce = (\<lambda>_ target creds.
       Inr (py_eq (dict_get ''tenant_id'' PNone target) (dict_get ''tenant_id'' PNone creds)))\<rparr>,
     a_maps = RESOURCE_ATTRIBUTE_MAP, a_net = sample_netlib, a_webob = sample_webob,
     a_max_limit = ''-1'', a_cmp = sample_cmp\<rparr>"

text \<open>A plugin that keeps the names of its objects and refuses the name \<open>bad\<close>.\<close>

definition sample_plugin :: "string list plugin" where
  "sample_plugin = \<lparr>
     p_list = (\<lambda>c q s. (Inr (map (\<lambda>n. [(''name'', PStr n), (''tenant_id'', PStr ''t1'')]) s), s)),
     p_show = (\<lambda>c i w p s. (Inr [(''id'', PStr i), (''tenant_id'', PStr ''t1'')], s)),
     p_create = (\<lambda>c d p s. case resource_of ''mea'' (PDict d) of Inl e \<Rightarrow> (Inl e, s)
       | Inr r \<Rightarrow> (let n = marker_str (dict_get ''name'' PNone r) in
          if n = ''bad'' then (Inl bad_body, s) else (Inr (dict_set ''id'' (PStr n) r), s @ [n]))),
     p_create_bulk = (\<lambda>c d p s. (Inr [], s)),
     p_update = (\<lambda>c i d p s. (Inr [], s)), p_delete = (\<lambda>c i p s. (Inr (), remove1 i s)),
     p_action = (\<lambda>n c i b s. (Inr PNone, s))\<rparr>"

lemma view_exact_witness:
  "(''status'', PStr ''ACTIVE'') \<in> set [(''status'', PStr ''ACTIVE'')]
   \<and> ''status'' \<notin> set [] \<and> (\<exists>a. map_of meas_attrs ''status'' = Some a \<and> is_visible a)"
proof -
  let ?d = "[(''status'', PStr ''ACTIVE''), (''mea_secret'', PStr ''x'')]"
  have run: "view sample_env sample_controller (user_ctx ''t1'') ?d [] = Inr [(''status'', PStr ''ACTIVE'')]"
    by code_simp
  have "c_attr_info sample_controller = meas_attrs" by (simp add: sample_controller_def)
  then show ?thesis using view_exact [OF run, of "''status''" "PStr ''ACTIVE''"] by auto
qed

lemma unauthorized_is_500_witness:
  "show_item sample_env sample_controller sample_plugin (user_ctx ''t2'') (sample_request []) ''x'' None []
     = (Inl (policy_not_authorized ''get_mea''), [])"
proof -
  have h: "show_handler sample_controller = ''get_mea''" by code_simp
  let ?obj = "[(''id'', PStr ''x''), (''tenant_id'', PStr ''t1'')]"
  have "show_item sample_env sample_controller sample_plugin (user_ctx ''t2'') (sample_request []) ''x'' None []
     = (Inl (policy_not_authorized (show_handler sample_controller)), []) \<and>
    http_status (convert_exception_to_http_exc fault_map (policy_not_authorized (show_handler sample_controller))) = 500"
  proof (rule unauthorized_is_500)
    show "p_show sample_plugin (user_ctx ''t2'') ''x''
       (Some (fst (do_field_list sample_controller (list_args (sample_request []) ''fields'')))) None [] = (Inr ?obj, [])"
      by (simp add: sample_plugin_def)
    show "\<not> is_admin (user_ctx ''t2'')" by code_simp
    show "build_match_rule (a_maps sample_env) (show_handler sample_controller) ?obj None = Inr (RuleCheck ''get_mea'')"
      by code_simp
    show "en_enforce (a_enforcer sample_env) (RuleCheck ''get_mea'') ?obj (to_dict (user_ctx ''t2'')) = Inr False"
      by code_simp
  qed
  then show ?thesis by (simp add: h)
qed



section \<open>Bulk creation\<close>

text \<open>\<open>keep_ids\<close> says what a plugin promises of the identifiers it stores: a creation adds
  the one it answers, a failed one nothing, a deletion removes the one it is given.\<close>

definition keep_ids :: "'s plugin \<Rightarrow> ctx \<Rightarrow> string option \<Rightarrow> ('s \<Rightarrow> string set) \<Rightarrow> bool" where
  "keep_ids P c parent ids \<longleftrightarrow>
     (\<forall>d s obj t. p_create P c d parent s = (Inr obj, t) \<longrightarrow>
        (\<exists>i. map_of obj ''id'' = Some (PStr i) \<and> i \<notin> ids s \<and> ids t = insert i (ids s)))
   \<and> (\<forall>d s e t. p_create P c d parent s = (Inl e, t) \<longrightarrow> ids t = ids s)
   \<and> (\<forall>i s. ids (snd (p_delete P c i parent s)) = ids s - {i})"

lemma keep_ids_create:
  "keep_ids P c parent ids \<Longrightarrow> p_create P c d parent s = (Inr obj, t) \<Longrightarrow>
     \<exists>i. map_of obj ''id'' = Some (PStr i) \<and> i \<notin> ids s \<and> ids t = insert i (ids s)"
  unfolding keep_ids_def by blast

lemma keep_ids_fail: "keep_ids P c parent ids \<Longrightarrow> p_create P c d parent s = (Inl e, t) \<Longrightarrow> ids t = ids s"
  unfolding keep_ids_def by blast

definition obj_ids :: "pydict list \<Rightarrow> string list \<Rightarrow> bool" where
  "obj_ids objs is \<longleftrightarrow> map (\<lambda>x. map_of x ''id'') objs = map (Some \<circ> PStr) is"

lemma undo_creates_ids:
  "keep_ids P c parent ids \<Longrightarrow> obj_ids objs is \<Longrightarrow>
     fst (undo_creates P c parent objs s) = Inr () \<and> ids (snd (undo_creates P c parent objs s)) = ids s - set is"
proof (induction objs arbitrary: "is" s)
  case Nil
  then show ?case by (simp add: obj_ids_def)
next
  case (Cons x objs)
  then obtain i js where i: "is = i # js" "map_of x ''id'' = Some (PStr i)" and js: "obj_ids objs js"
    by (auto simp: obj_ids_def Cons_eq_map_conv map_eq_Cons_conv)
  let ?t = "snd (p_delete P c i parent s)"
  have "catchE (p_delete P c i parent) (\<lambda>e. ret ()) s = (Inr (), ?t)"
    by (cases "p_delete P c i parent s", rename_tac r t, case_tac r) (simp_all add: catchE_def)
  then have "undo_creates P c parent (x # objs) s = undo_creates P c parent objs ?t"
    by (simp add: item_key_def i(2) marker_str_def bindE_def thenE_def)
  moreover have "ids ?t = ids s - {i}" using Cons.prems(1) by (simp add: keep_ids_def)
  ultimately show ?case using Cons.IH [OF Cons.prems(1) js, of ?t] i(1) by auto
qed

lemma excluded_keys: "exclude_attributes_by_policy V C c d = Inr ex \<Longrightarrow> k \<notin> set (dict_keys d) \<Longrightarrow> k \<notin> set ex"
  using excluded_set unfolding exclude_attributes_by_policy_def by blast

lemma filter_attributes_map_of: "k \<notin> set hidden \<Longrightarrow> map_of (filter_attributes d hidden) k = map_of d k"
  by (induction d) (auto simp: filter_attributes_def)

definition no_id :: "pyval \<Rightarrow> bool" where
  "no_id x \<longleftrightarrow> (case x of PDict d \<Rightarrow> \<not> has_key ''id'' d | _ \<Rightarrow> True)"

lemma bulk_loop_ids:
  assumes "keep_ids P c parent ids"
  shows "list_all no_id items \<Longrightarrow> obj_ids objs is \<Longrightarrow> ids s = B \<union> set is \<Longrightarrow> B \<inter> set is = {} \<Longrightarrow>
     bulk_loop V C P c parent items objs s = (Inl e, t) \<Longrightarrow> ids t = B"
proof (induction items arbitrary: objs "is" s)
  case Nil
  then show ?case by simp
next
  case (Cons item items)
  let ?one = "bindE (pureE (as_dict item)) (\<lambda>d.
          bindE (pureE (exclude_attributes_by_policy V C c d)) (\<lambda>hide.
          bindE (p_create P c d parent) (\<lambda>obj. ret (filter_attributes obj hide))))"
  obtain r s' where one: "?one s = (r, s')" by (cases "?one s")
  show ?case
  proof (cases r)
    case (Inl e')
    have "ids s' = ids s"
    proof (cases "as_dict item")
      case (Inr d)
      show ?thesis
      proof (cases "exclude_attributes_by_policy V C c d")
        case (Inr hide)
        with one Inl \<open>as_dict item = Inr d\<close> have "p_create P c d parent s = (Inl e', s')"
          by (auto simp: bindE_def split: prod.splits sum.splits)
        then show ?thesis by (rule keep_ids_fail [OF assms])
      qed (use one \<open>as_dict item = Inr d\<close> in \<open>simp add: bindE_def\<close>)
    qed (use one in \<open>simp add: bindE_def\<close>)
    moreover from Cons.prems(5) one Inl have "t = snd (undo_creates P c parent objs s')"
      using undo_creates_ids [OF assms Cons.prems(2), of s']
      by (cases "undo_creates P c parent objs s'") (auto simp: thenE_def bindE_Inr)
    ultimately show ?thesis using undo_creates_ids [OF assms Cons.prems(2), of s'] Cons.prems(3,4) by auto
  next
    case (Inr obj)
    with one obtain d hide full where d: "as_dict item = Inr d" and h: "exclude_attributes_by_policy V C c d = Inr hide"
      and cr: "p_create P c d parent s = (Inr full, s')" and obj: "obj = filter_attributes full hide"
      by (auto simp: bindE_app_Inr_iff)
    from keep_ids_create [OF assms cr] obtain i where
      i: "map_of full ''id'' = Some (PStr i)" "i \<notin> ids s" "ids s' = insert i (ids s)" by blast
    have "''id'' \<notin> set (dict_keys d)"
      using Cons.prems(1) d by (auto simp: no_id_def as_dict_def has_key_keys split: pyval.splits)
    then have "map_of obj ''id'' = Some (PStr i)"
      using excluded_keys [OF h] i(1) by (simp add: obj filter_attributes_map_of)
    then have "obj_ids (objs @ [obj]) (is @ [i])" using Cons.prems(2) by (simp add: obj_ids_def)
    moreover have "ids s' = B \<union> set (is @ [i])" "B \<inter> set (is @ [i]) = {}" using i Cons.prems(3,4) by auto
    moreover have "bulk_loop V C P c parent items (objs @ [obj]) s' = (Inl e, t)"
      using Cons.prems(5) one Inr by simp
    ultimately show ?thesis using Cons.IH [of "objs @ [obj]" "is @ [i]" s'] Cons.prems(1) by simp
  qed
qed


definition counter_plugin :: "nat list plugin" where
  "counter_plugin = \<lparr>
     p_list = (\<lambda>c q s. (Inr [], s)), p_show = (\<lambda>c i w p s. (Inr [], s)),
     p_create = (\<lambda>c d p s. if has_key ''mea'' d
        then (let n = Suc (Max (insert 0 (set s))) in (Inr [(''id'', PStr (replicate n (CHR ''x'')))], s @ [n]))
        else (Inl bad_body, s)),
     p_create_bulk = (\<lambda>c d p s. (Inr [], s)), p_update = (\<lambda>c i d p s. (Inr [], s)),
     p_delete = (\<lambda>c i p s. (Inr (), filter (\<lambda>n. n \<noteq> length i \<or> i \<noteq> replicate n (CHR ''x'')) s)),
     p_action = (\<lambda>n c i b s. (Inr PNone, s))\<rparr>"

definition counter_ids :: "nat list \<Rightarrow> string set" where
  "counter_ids s = (\<lambda>n. replicate n (CHR ''x'')) ` set s"

lemma counter_keep_ids: "keep_ids counter_plugin c parent counter_ids"
proof -
  have "replicate (Suc (Max (insert 0 (set s)))) (CHR ''x'') \<notin> counter_ids s" for s
  proof
    assume "replicate (Suc (Max (insert 0 (set s)))) (CHR ''x'') \<in> counter_ids s"
    then obtain n where n: "n \<in> set s" "Suc (Max (insert 0 (set s))) = n"
      unfolding counter_ids_def by (metis (no_types, lifting) imageE length_replicate)
    have "n \<le> Max (insert 0 (set s))" using n(1) by (intro Max_ge) auto
    with n(2) show False by linarith
  qed
  then show ?thesis
    by (auto simp: keep_ids_def counter_plugin_def Let_def counter_ids_def split: if_splits)
qed


section \<open>Policy\<close>

text \<open>A request of a caller who is no admin goes through only if the engine accepts
  the rule named after the action, for the target and the caller's own credentials. The
  declared attributes add no rule of their own.\<close>

theorem enforce_sound:
  assumes "\<not> is_admin c" and "enforce En RESOURCE_ATTRIBUTE_MAP c action target p = Inr b"
  shows "en_enforce En (RuleCheck action) target (to_dict c) = Inr True"
proof -
  from assms obtain rule where r: "build_match_rule RESOURCE_ATTRIBUTE_MAP action target p = Inr rule"
    and e: "en_enforce En rule target (to_dict c) = Inr True"
    by (auto simp: enforce_def split: sum.splits bool.splits)
  from build_rule_plain [OF r] e show ?thesis by simp
qed

lemma enforce_sound_witness:
  "enforce (a_enforcer sample_env) RESOURCE_ATTRIBUTE_MAP (user_ctx ''t1'') ''create_mea''
      [(''tenant_id'', PStr ''t1'')] None = Inr True
   \<and> en_enforce (a_enforcer sample_env) (RuleCheck ''create_mea'') [(''tenant_id'', PStr ''t1'')] (to_dict (user_ctx ''t1'')) = Inr True"
proof -
  have n: "\<not> is_admin (user_ctx ''t1'')" by code_simp
  have run: "enforce (a_enforcer sample_env) RESOURCE_ATTRIBUTE_MAP (user_ctx ''t1'') ''create_mea''
      [(''tenant_id'', PStr ''t1'')] None = Inr True" by code_simp
  from enforce_sound [OF n run] run show ?thesis by blast
qed

text \<open>The ownership check compares the field of the target with the caller's
  credential of the same kind, and fails with PolicyCheckError when the target lacks the
  field: no resource has a foreign key, so the parent is never looked up.\<close>

lemma owner_check_verdict:
  assumes "match = ''%('' @ field @ '')s''"
  shows "owner_check [] getter kind match target creds =
    (case map_of target field of
       None \<Rightarrow> Inl (policy_check_error kind match)
     | Some v \<Rightarrow> Inr (case map_of creds kind of None \<Rightarrow> False
         | Some c \<Rightarrow> py_text v \<noteq> None \<and> py_text v = py_text c))"
proof -
  have "owner_target_field kind match = Inr field"
    by (simp add: owner_target_field_def assms Let_def)
  then show ?thesis
    by (simp add: owner_check_def split: option.splits prod.splits)
qed

lemma owner_check_verdict_witness:
  "owner_check [] (\<lambda>_ _ _. Inr []) ''tenant_id'' ''%(tenant_id)s'' [(''tenant_id'', PStr ''t1'')]
      (to_dict (user_ctx ''t1'')) = Inr True"
proof -
  have "''%(tenant_id)s'' = ''%('' @ ''tenant_id'' @ '')s''" by simp
  note owner_check_verdict [OF this, of "\<lambda>_ _ _. Inr []" "''tenant_id''" "[(''tenant_id'', PStr ''t1'')]" "to_dict (user_ctx ''t1'')"]
  also have "(case map_of [(''tenant_id'', PStr ''t1'')] ''tenant_id'' of
       None \<Rightarrow> Inl (policy_check_error ''tenant_id'' ''%(tenant_id)s'')
     | Some v \<Rightarrow> Inr (case map_of (to_dict (user_ctx ''t1'')) ''tenant_id'' of None \<Rightarrow> False
         | Some c \<Rightarrow> py_text v \<noteq> None \<and> py_text v = py_text c)) = Inr True" by code_simp
  finally show ?thesis .
qed

end
