(* ===== verification/PyOps.thy ===== *)
theory PyOps
  imports Context
begin

text \<open>
  Subscripts, \<open>get\<close> and loops on Python values, as computations that may raise. The
  templates and heat stacks that the code walks through are such values.
\<close>

section \<open>Computations that may raise\<close>

definition bindS :: "'e + 'a \<Rightarrow> ('a \<Rightarrow> 'e + 'b) \<Rightarrow> 'e + 'b" where
  "bindS r k = (case r of Inl e \<Rightarrow> Inl e | Inr x \<Rightarrow> k x)"

fun foldS :: "('a \<Rightarrow> 'b \<Rightarrow> 'e + 'b) \<Rightarrow> 'a list \<Rightarrow> 'b \<Rightarrow> 'e + 'b" where
  "foldS f [] acc = Inr acc"
| "foldS f (x # xs) acc = bindS (f x acc) (foldS f xs)"

fun mapS :: "('a \<Rightarrow> 'e + 'b) \<Rightarrow> 'a list \<Rightarrow> 'e + 'b list" where
  "mapS f [] = Inr []"
| "mapS f (x # xs) = bindS (f x) (\<lambda>y. bindS (mapS f xs) (\<lambda>ys. Inr (y # ys)))"

lemma bindS_simps [simp]: "bindS (Inl e) k = Inl e" "bindS (Inr x) k = k x"
  by (simp_all add: bindS_def)

lemma bindS_Inr_iff: "bindS r k = Inr y \<longleftrightarrow> (\<exists>x. r = Inr x \<and> k x = Inr y)"
  by (cases r) auto

lemma foldS_append: "foldS f (xs @ ys) acc = bindS (foldS f xs acc) (foldS f ys)"
  by (induction xs arbitrary: acc) (auto simp: bindS_def split: sum.splits)

lemma foldS_invariant:
  "(\<And>x acc acc'. x \<in> set xs \<Longrightarrow> P acc \<Longrightarrow> f x acc = Inr acc' \<Longrightarrow> P acc') \<Longrightarrow>
   P acc \<Longrightarrow> foldS f xs acc = Inr out \<Longrightarrow> P out"
proof (induction xs arbitrary: acc)
  case (Cons x xs)
  from Cons.prems(3) obtain a where a: "f x acc = Inr a" "foldS f xs a = Inr out"
    by (auto simp: bindS_Inr_iff)
  show ?case
    by (rule Cons.IH [OF Cons.prems(1) _ a(2)]) (use Cons.prems a in auto)
qed simp

section \<open>Access to values\<close>

definition type_error :: exn where "type_error = Exc (Lib TypeError) []"
definition key_error :: exn where "key_error = Exc (Lib KeyError) []"
definition attribute_error :: exn where "attribute_error = Exc (Lib AttributeError) []"
definition index_error :: exn where "index_error = Exc (Lib IndexError) []"
definition runtime_error :: exn where "runtime_error = Exc (Lib RuntimeError) []"
definition value_error :: exn where "value_error = Exc (Lib ValueError) []"

text \<open>\<open>v['k']\<close>, \<open>v.get('k', d)\<close>, \<open>'k' in v\<close>, \<open>v.items()\<close> and \<open>v[i]\<close>\<close>

definition subscr :: "string \<Rightarrow> pyval \<Rightarrow> exn + pyval" where
  "subscr k v = (case v of
     PDict d \<Rightarrow> (case map_of d k of None \<Rightarrow> Inl key_error | Some x \<Rightarrow> Inr x) | _ \<Rightarrow> Inl type_error)"

definition get_of :: "string \<Rightarrow> pyval \<Rightarrow> pyval \<Rightarrow> exn + pyval" where
  "get_of k dflt v = (case v of PDict d \<Rightarrow> Inr (dict_get k dflt d) | _ \<Rightarrow> Inl attribute_error)"

definition contains :: "string \<Rightarrow> pyval \<Rightarrow> exn + bool" where
  "contains k v = (case v of
     PDict d \<Rightarrow> Inr (has_key k d) | PList xs \<Rightarrow> Inr (py_in (PStr k) xs)
   | PStr s \<Rightarrow> Inr (str_in k s) | _ \<Rightarrow> Inl type_error)"

definition items_of :: "pyval \<Rightarrow> exn + (string \<times> pyval) list" where
  "items_of v = (case v of PDict d \<Rightarrow> Inr d | _ \<Rightarrow> Inl attribute_error)"

definition dict_of :: "pyval \<Rightarrow> exn + pydict" where
  "dict_of v = (case v of PDict d \<Rightarrow> Inr d | _ \<Rightarrow> Inl type_error)"

definition list_of :: "pyval \<Rightarrow> exn + pyval list" where
  "list_of v = (case v of PList xs \<Rightarrow> Inr xs
     | PDict d \<Rightarrow> Inr (map (PStr \<circ> fst) d) | PStr s \<Rightarrow> Inr (map (\<lambda>c. PStr [c]) s) | _ \<Rightarrow> Inl type_error)"

definition nth_of :: "nat \<Rightarrow> pyval \<Rightarrow> exn + pyval" where
  "nth_of i v = (case v of
     PList xs \<Rightarrow> if i < length xs then Inr (xs ! i) else Inl index_error
   | PStr s \<Rightarrow> if i < length s then Inr (PStr [s ! i]) else Inl index_error
   | PDict d \<Rightarrow> Inl key_error | _ \<Rightarrow> Inl type_error)"

text \<open>Text that the code uses as a string; other values raise TypeError there.\<close>

definition str_of :: "pyval \<Rightarrow> exn + string" where
  "str_of v = (case v of PStr s \<Rightarrow> Inr s | _ \<Rightarrow> Inl type_error)"

text \<open>\<open>str(v)\<close>; a container is shown as the empty string, it only reaches messages.\<close>

definition py_str :: "pyval \<Rightarrow> string" where
  "py_str v = (case v of
     PStr s \<Rightarrow> s | PNone \<Rightarrow> ''None'' | PInt i \<Rightarrow> show_int i
   | PBool b \<Rightarrow> (if b then ''True'' else ''False'') | _ \<Rightarrow> [])"

text \<open>Assignment below a path, \<open>v['a']['b'] = x\<close>: the inner dictionaries must exist.\<close>

fun set_path :: "string list \<Rightarrow> (pyval \<Rightarrow> exn + pyval) \<Rightarrow> pyval \<Rightarrow> exn + pyval" where
  "set_path [] f v = f v"
| "set_path (k # ks) f v = bindS (dict_of v) (\<lambda>d.
     bindS (subscr k v) (\<lambda>x. bindS (set_path ks f x) (\<lambda>y. Inr (PDict (dict_set k y d)))))"

definition assign :: "string list \<Rightarrow> string \<Rightarrow> pyval \<Rightarrow> pyval \<Rightarrow> exn + pyval" where
  "assign path k x v = set_path path (\<lambda>w. bindS (dict_of w) (\<lambda>d. Inr (PDict (dict_set k x d)))) v"

text \<open>\<open>list(v.items())[0]\<close>\<close>

definition first_item :: "pyval \<Rightarrow> exn + string \<times> pyval" where
  "first_item v = bindS (items_of v) (\<lambda>d. case d of [] \<Rightarrow> Inl index_error | kv # _ \<Rightarrow> Inr kv)"

text \<open>\<open>sep.join(v)\<close>\<close>

definition join_of :: "string \<Rightarrow> pyval list \<Rightarrow> exn + string" where
  "join_of sep vs = map_sum id (join sep) (mapS str_of vs)"

lemma subscr_PDict [simp]: "subscr k (PDict d) = (case map_of d k of None \<Rightarrow> Inl key_error | Some x \<Rightarrow> Inr x)"
  by (simp add: subscr_def)

lemma get_of_PDict [simp]: "get_of k x (PDict d) = Inr (dict_get k x d)"
  by (simp add: get_of_def)

lemma items_of_PDict [simp]: "items_of (PDict d) = Inr d"
  by (simp add: items_of_def)

lemma dict_of_PDict [simp]: "dict_of (PDict d) = Inr d"
  by (simp add: dict_of_def)

end
