(* ===== verification/VimClient.thy ===== *)
theory VimClient
  imports NsDb PyOps
begin

text \<open>
  mem/vim_client.py: the lookup of a VIM with its credentials decrypted. Where the keys
  are kept is outside the database: barbican (\<open>key_of_secret\<close>) or a file per VIM
  (\<open>key_of_vim\<close>); \<open>decrypt\<close> is fernet's. All three may raise.
\<close>

record keystore =
  key_of_secret :: "ctx \<Rightarrow> pyval \<Rightarrow> exn + string"
  key_of_vim :: "string \<Rightarrow> exn + string"
  decrypt :: "string \<Rightarrow> string \<Rightarrow> exn + string"

record vim_res =
  vres_auth :: pydict
  vres_id :: string
  vres_name :: string
  vres_type :: string

definition region_valid :: "pyval \<Rightarrow> string \<Rightarrow> exn + bool" where
  "region_valid regions name = contains name regions"

definition find_vim_key :: "keystore \<Rightarrow> string \<Rightarrow> exn + string" where
  "find_vim_key K i = key_of_vim K i"

definition decode_vim_auth :: "keystore \<Rightarrow> ctx \<Rightarrow> string \<Rightarrow> pydict \<Rightarrow> exn + string" where
  "decode_vim_auth K c i auth =
     bindS (subscr ''password'' (PDict auth)) (\<lambda>cred.
     bindS (case cred of PStr s \<Rightarrow> Inr s | _ \<Rightarrow> Inl attribute_error) (\<lambda>cred.
     bindS (if dict_get ''key_type'' PNone auth = PStr ''barbican_key''
            then bindS (subscr ''secret_uuid'' (PDict auth)) (key_of_secret K c)
            else find_vim_key K i) (\<lambda>key.
     decrypt K key cred)))"

definition build_vim_auth :: "keystore \<Rightarrow> ctx \<Rightarrow> vim_dict \<Rightarrow> exn + pydict" where
  "build_vim_auth K c v =
     bindS (decode_vim_auth K c (vd_id v) (vd_auth_cred v)) (\<lambda>p.
       Inr (dict_del ''secret_uuid'' (dict_del ''key_type''
         (dict_set ''auth_url'' (PStr (vd_auth_url v)) (dict_set ''password'' (PStr p) (vd_auth_cred v))))))"

text \<open>\<open>VimClient.get_vim\<close>; whatever goes wrong in the lookup becomes one of two errors.\<close>

definition get_vim_info :: "oslo \<Rightarrow> ctx \<Rightarrow> string option \<Rightarrow> ('x db_scheme, vim_dict) prog" where
  "get_vim_info E c vim_id = (case vim_id of
     Some (i # is) \<Rightarrow> catchE (get_vim E c (i # is) False)
       (\<lambda>e. raise (Exc (Meo VimNotFoundException) [(''vim_id'', PStr (i # is))]))
   | _ \<Rightarrow> catchE (get_default_vim E c) (\<lambda>e. raise (Exc (Meo VimDefaultNotDefined) [])))"

definition check_region :: "pyval \<Rightarrow> vim_dict \<Rightarrow> exn + unit" where
  "check_region region v = (if \<not> truthy region then Inr ()
     else bindS (subscr ''regions'' (PDict (vd_placement_attr v))) (\<lambda>regions.
       bindS (str_of region) (\<lambda>name. bindS (region_valid regions name) (\<lambda>ok.
         if ok then Inr () else Inl (Exc (Meo VimRegionNotFoundException) [(''region_name'', region)])))))"

definition client_get_vim ::
  "oslo \<Rightarrow> keystore \<Rightarrow> ctx \<Rightarrow> string option \<Rightarrow> pyval \<Rightarrow> ('x db_scheme, vim_res) prog" where
  "client_get_vim E K c vim_id region =
     bindE (get_vim_info E c vim_id) (\<lambda>v.
     bindE (pureE (check_region region v)) (\<lambda>_.
     bindE (pureE (build_vim_auth K c v)) (\<lambda>auth.
       ret \<lparr>vres_auth = auth, vres_id = vd_id v, vres_name = vd_name v, vres_type = vd_type v\<rparr>)))"

lemma get_vim_info_state: "snd (get_vim_info E c i s) = s"
  by (auto simp: get_vim_info_def catchE_def get_vim_def get_default_vim_def readE_def bindE_def
      split: list.splits option.splits sum.splits)

lemma client_get_vim_state: "snd (client_get_vim E K c i r s) = s"
proof -
  obtain x t where x: "get_vim_info E c i s = (x, t)" by (cases "get_vim_info E c i s")
  then have "t = s" using get_vim_info_state [of E c i s] by simp
  with x show ?thesis
    by (auto simp: client_get_vim_def bindE_def split: sum.splits)
qed

end
