(* ===== verification/Tosca.thy ===== *)
theory Tosca
  imports PyOps
begin

text \<open>
  catalogs/tosca/utils.py, the part that reads TOSCA: imports, substitution mappings,
  volumes, monitoring, metadata, alarms, management ports and scaling policies. A parsed
  template of the tosca-parser library is a record of its nodes and policies: of a node its
  type with the type's ancestors, its properties, the compute capability and the
  entries the code follows; templates as text have been read into Python values. Keys
  of dictionaries are strings.
\<close>

section \<open>Parsed templates\<close>

record node_template =
  nt_name :: string
  nt_type :: string
  nt_ancestors :: "string list"
  nt_props :: pydict
  nt_compute :: "pydict option"
  nt_entity :: pydict
  nt_relations :: "(string list \<times> string) list"

record policy_template =
  pt_name :: string
  pt_ancestors :: "string list"
  pt_entity :: pydict

record tosca =
  t_nodes :: "node_template list"
  t_policies :: "policy_template list"

definition MONITORING :: string where "MONITORING = ''tosca.policies.Monitoring''"
definition FAILURE :: string where "FAILURE = ''tosca.policies.apmec.Failure''"
definition PLACEMENT :: string where "PLACEMENT = ''tosca.policies.apmec.Placement''"
definition SCALING :: string where "SCALING = ''tosca.policies.Scaling''"
definition APMECCP :: string where "APMECCP = ''tosca.nodes.mec.CP.Apmec''"
definition APMECVDU :: string where "APMECVDU = ''tosca.nodes.mec.VDU.Apmec''"
definition BLOCKSTORAGE :: string where "BLOCKSTORAGE = ''tosca.nodes.BlockStorage.Apmec''"
definition BLOCKSTORAGE_ATTACHMENT :: string where
  "BLOCKSTORAGE_ATTACHMENT = ''tosca.nodes.BlockStorageAttachment''"
definition TOSCA_BINDS_TO :: string where "TOSCA_BINDS_TO = ''tosca.relationships.network.BindsTo''"
definition IMAGE :: string where "IMAGE = ''tosca.artifacts.Deployment.Image.VM''"

definition nt_value :: "string \<Rightarrow> node_template \<Rightarrow> pyval" where
  "nt_value k n = dict_get k PNone (nt_props n)"

definition is_derived_from :: "string \<Rightarrow> string list \<Rightarrow> bool" where
  "is_derived_from ty types \<longleftrightarrow> List.member types ty"

definition findvdus :: "tosca \<Rightarrow> node_template list" where
  "findvdus t = filter (\<lambda>n. is_derived_from APMECVDU (nt_ancestors n)) (t_nodes t)"

definition get_mgmt_driver :: "tosca \<Rightarrow> exn + pyval" where
  "get_mgmt_driver t = foldS (\<lambda>n driver.
     if \<not> is_derived_from APMECVDU (nt_ancestors n) then Inr driver
     else if truthy driver \<and> \<not> py_eq (nt_value ''mgmt_driver'' n) driver
       then Inl (Exc (Mem MultipleMGMTDriversSpecified) [])
     else Inr (nt_value ''mgmt_driver'' n)) (t_nodes t) PNone"

section \<open>Imports\<close>

definition libdir :: string where "libdir = ''apmec/catalogs/tosca/lib/''"

text \<open>\<open>updateimports\<close>; the directory is the one of the module.\<close>

definition append_import :: "string \<Rightarrow> pydict \<Rightarrow> exn + pydict" where
  "append_import file t = (case dict_get ''imports'' PNone t of
     PList xs \<Rightarrow> Inr (dict_set ''imports'' (PList (xs @ [PStr file])) t) | _ \<Rightarrow> Inl attribute_error)"

definition updateimports :: "pyval \<Rightarrow> exn + pyval" where
  "updateimports template = bindS (dict_of template) (\<lambda>t.
     bindS (if has_key ''imports'' t then append_import (libdir @ ''apmec_defs.yaml'') t
            else Inr (dict_set ''imports'' (PList [PStr (libdir @ ''apmec_defs.yaml'')]) t)) (\<lambda>t1.
     bindS (subscr ''tosca_definitions_version'' (PDict t1)) (\<lambda>v.
     bindS (contains ''mec'' v) (\<lambda>is_mec.
       if is_mec then map_sum id PDict (append_import (libdir @ ''apmec_mec_defs.yaml'') t1)
       else Inr (PDict t1)))))"

section \<open>Substitution mappings\<close>

definition node_templates :: "string list" where
  "node_templates = [''topology_template'', ''node_templates'']"

text \<open>One requirement: the node that the template names gets the node that the parameters
  name, which is added to the template. Whatever fails becomes one error.\<close>

definition substitute ::
  "pyval \<Rightarrow> pyval \<Rightarrow> string \<Rightarrow> pyval list \<Rightarrow> pyval \<Rightarrow> exn + pyval" where
  "substitute sm requirements req_name req nodes =
     (case (bindS (nth_of 0 (PList req)) (\<lambda>a. bindS (str_of a) (\<lambda>node_name.
            bindS (nth_of 1 (PList req)) (\<lambda>b. bindS (str_of b) (\<lambda>node_req.
            bindS (subscr req_name requirements) (\<lambda>target. bindS (str_of target) (\<lambda>name.
            bindS (set_path [node_name, ''requirements''] (\<lambda>v. case v of
                PList rs \<Rightarrow> Inr (PList (rs @ [PDict [(node_req, PDict [(''node'', target)])]]))
              | _ \<Rightarrow> Inl attribute_error) nodes) (\<lambda>nodes1.
            bindS (subscr name sm) (\<lambda>new. assign [] name new nodes1)))))))))
      of Inr v \<Rightarrow> Inr v
       | Inl _ \<Rightarrow> Inl (Exc (Mem InvalidSubstitutionMapping) [(''requirement'', PStr req_name)]))"

definition check_for_substitution_mappings :: "pyval \<Rightarrow> pydict \<Rightarrow> exn + pyval \<times> pydict" where
  "check_for_substitution_mappings template params =
     (let sm = dict_get ''substitution_mappings'' (PDict []) params in
      bindS (get_of ''requirements'' PNone sm) (\<lambda>requirements.
      bindS (bindS (subscr ''topology_template'' template) (subscr ''node_templates'')) (\<lambda>nodes.
      bindS (bindS (subscr ''topology_template'' template) (subscr ''substitution_mappings'')) (\<lambda>tpl.
      bindS (get_of ''requirements'' PNone tpl) (\<lambda>req_tpl.
      if \<not> truthy sm \<or> \<not> truthy requirements then
        (if truthy req_tpl then Inl (Exc (Mem InvalidParamsForSM) []) else Inr (template, params))
      else bindS (items_of req_tpl) (\<lambda>reqs.
        bindS (foldS (\<lambda>(req_name, req_val) nodes.
            bindS (contains req_name requirements) (\<lambda>given.
            if \<not> given then Inl (Exc (Mem SMRequirementMissing) [(''requirement'', PStr req_name)])
            else case req_val of PList req \<Rightarrow> substitute sm requirements req_name req nodes
              | _ \<Rightarrow> Inl (Exc (Mem InvalidSubstitutionMapping) [(''requirement'', PStr req_name)])))
          reqs nodes) (\<lambda>nodes1.
        bindS (set_path node_templates (\<lambda>_. Inr nodes1) template) (\<lambda>template1.
          Inr (template1, dict_del ''substitution_mappings'' params)))))))))"

section \<open>Monitoring, metadata and alarms\<close>

definition get_vdu_monitoring :: "tosca \<Rightarrow> exn + pydict" where
  "get_vdu_monitoring t =
     bindS (foldS (\<lambda>n vdus.
       let p = nt_value ''monitoring_policy'' n in
       if \<not> truthy p \<or> p = PStr ''noop'' then Inr vdus
       else bindS (contains ''parameters'' p) (\<lambda>has.
         bindS (if has then bindS (subscr ''parameters'' p) (\<lambda>v. assign [] ''monitoring_params'' v p) else Inr p) (\<lambda>p1.
         bindS (bindS (subscr ''name'' p1) str_of) (\<lambda>name.
           Inr (dict_set (nt_name n) (PDict [(name, p1)]) vdus)))))
       (findvdus t) []) (\<lambda>vdus.
     Inr (if vdus = [] then [] else [(''vdus'', PDict vdus)]))"

text \<open>\<open>dict.update(v)\<close> with something that is no dictionary\<close>

definition updating :: "pyval \<Rightarrow> exn + pydict" where
  "updating v = (case v of PDict d \<Rightarrow> Inr d | PStr s \<Rightarrow> Inl value_error | _ \<Rightarrow> Inl type_error)"

definition get_vdu_metadata :: "tosca \<Rightarrow> exn + pydict" where
  "get_vdu_metadata t =
     bindS (foldS (\<lambda>n vdus. let m = nt_value ''metadata'' n in
         if \<not> truthy m then Inr vdus
         else bindS (updating m) (\<lambda>d. Inr (dict_set (nt_name n) (PDict (dict_update [] d)) vdus)))
       (findvdus t) []) (\<lambda>vdus.
     Inr [(''vdus'', PDict vdus)])"

definition not_matched :: exn where "not_matched = Exc (Mem MetadataNotMatched) []"

text \<open>The loop over all units: no early exit, each must carry the key.\<close>

definition metadata_matches :: "pyval \<Rightarrow> (string \<times> pyval) list \<Rightarrow> exn + bool" where
  "metadata_matches wanted vdus = foldS (\<lambda>(_, m) found.
     bindS (subscr ''metering.mea'' m) (\<lambda>v. Inr (found \<or> py_eq wanted v))) vdus False"

definition process_matching_metadata :: "pydict \<Rightarrow> policy_template \<Rightarrow> exn + pydict" where
  "process_matching_metadata metadata p =
     bindS (bindS (subscr ''triggers'' (PDict (pt_entity p))) items_of) (\<lambda>triggers.
     foldS (\<lambda>(name, trigger) out.
       bindS (get_of ''metadata'' PNone trigger) (\<lambda>wanted.
       if \<not> (truthy wanted \<and> truthy (PDict metadata)) then Inl not_matched
       else bindS (bindS (subscr ''vdus'' (PDict metadata)) items_of) (\<lambda>vdus.
         bindS (metadata_matches wanted vdus) (\<lambda>found.
         if found then Inr (dict_set name (PDict [(''metadata.user_metadata.mea'', wanted)]) out)
         else Inl not_matched)))) triggers [])"

definition process_alarm_actions :: "pydict \<Rightarrow> policy_template \<Rightarrow> exn + pydict" where
  "process_alarm_actions attrs p =
     bindS (bindS (subscr ''triggers'' (PDict (pt_entity p))) items_of) (\<lambda>triggers.
     Inr (foldl (\<lambda>out (name, _). let url = dict_get name PNone attrs in
       if truthy url then dict_set name (PDict [(''alarm_actions'', PList [PStr (py_str url)])]) out else out)
       [] triggers))"

text \<open>The last monitoring policy wins.\<close>

definition pre_process_alarm_resources :: "pydict \<Rightarrow> tosca \<Rightarrow> pydict \<Rightarrow> exn + pydict \<times> pydict" where
  "pre_process_alarm_resources attrs t metadata =
     foldS (\<lambda>p out. if \<not> is_derived_from MONITORING (pt_ancestors p) then Inr out
       else bindS (process_matching_metadata metadata p) (\<lambda>m.
         bindS (process_alarm_actions attrs p) (\<lambda>a. Inr (m, a)))) (t_policies t) ([], [])"

section \<open>Volumes\<close>

definition word_char :: "char \<Rightarrow> bool" where
  "word_char c \<longleftrightarrow> digit_char c \<or> c = CHR ''_'' \<or> (65 \<le> ord c \<and> ord c \<le> 90) \<or> (97 \<le> ord c \<and> ord c \<le> 122)"

text \<open>The first group of \<open>(\\d+)\\s*(\\w+)\<close>, matched at the start: the digits, as many of them
  as leave a word after the white space.\<close>

definition size_group :: "string \<Rightarrow> string option" where
  "size_group s =
     (let ds = takeWhile digit_char s; rest = dropWhile is_space (drop (length ds) s) in
      if ds = [] then None
      else if rest \<noteq> [] \<and> word_char (hd rest) then Some ds
      else if length ds \<ge> 2 then Some (butlast ds) else None)"

definition volume_size :: "pyval \<Rightarrow> exn + pyval" where
  "volume_size v = bindS (str_of v) (\<lambda>s. case size_group s of None \<Rightarrow> Inl attribute_error | Some g \<Rightarrow> Inr (PStr g))"

text \<open>The nodes of one type leave the template.\<close>

definition take_nodes ::
  "string \<Rightarrow> (pyval \<Rightarrow> exn + pydict) \<Rightarrow> pyval \<Rightarrow> exn + pydict \<times> pyval" where
  "take_nodes ty f template =
     bindS (bindS (subscr ''topology_template'' template) (subscr ''node_templates'')) (\<lambda>v.
     bindS (items_of v) (\<lambda>nodes.
     bindS (foldS (\<lambda>(name, node) (out, left).
         bindS (subscr ''type'' node) (\<lambda>t.
         if \<not> py_eq t (PStr ty) then Inr (out, left)
         else bindS (f node) (\<lambda>d. Inr (dict_set name (PDict d) out, dict_del name left)))) nodes ([], nodes)) (\<lambda>(out, left).
     bindS (set_path node_templates (\<lambda>_. Inr (PDict left)) template) (\<lambda>template1.
       Inr (out, template1)))))"

definition volume_of :: "pyval \<Rightarrow> exn + pydict" where
  "volume_of node = bindS (bindS (get_of ''properties'' (PDict []) node) items_of) (\<lambda>props.
     foldS (\<lambda>(k, v) out. bindS (if k = ''size'' then volume_size v else Inr v) (\<lambda>w. Inr (dict_set k w out))) props [])"

definition get_volumes :: "pyval \<Rightarrow> exn + pydict \<times> pyval" where
  "get_volumes = take_nodes BLOCKSTORAGE volume_of"

definition get_resource_ref :: "pyval \<Rightarrow> pyval" where
  "get_resource_ref v = PDict [(''get_resource'', v)]"

definition attachment_requirement :: "pyval \<Rightarrow> pydict \<Rightarrow> exn + pydict" where
  "attachment_requirement req out =
     bindS (contains ''virtualBinding'' req) (\<lambda>binding.
     if binding then bindS (bindS (subscr ''virtualBinding'' req) (subscr ''node'')) (\<lambda>v.
       Inr (dict_set ''instance_uuid'' (get_resource_ref v) out))
     else bindS (contains ''virtualAttachment'' req) (\<lambda>attachment.
     if attachment then bindS (bindS (subscr ''virtualAttachment'' req) (subscr ''node'')) (\<lambda>v.
       Inr (dict_set ''volume_id'' (get_resource_ref v) out))
     else Inr out))"

definition attachment_of :: "pyval \<Rightarrow> exn + pydict" where
  "attachment_of node = bindS (bindS (get_of ''properties'' (PDict []) node) items_of) (\<lambda>props.
     bindS (bindS (get_of ''requirements'' (PDict []) node) list_of) (\<lambda>reqs.
       foldS attachment_requirement reqs
         (foldl (\<lambda>out (k, v). if k = ''location'' then dict_set ''mountpoint'' v out else out) [] props)))"

definition get_vol_attachments :: "pyval \<Rightarrow> exn + pydict \<times> pyval" where
  "get_vol_attachments = take_nodes BLOCKSTORAGE_ATTACHMENT attachment_of"

definition get_block_storage_details :: "pyval \<Rightarrow> exn + (pydict \<times> pydict) \<times> pyval" where
  "get_block_storage_details template =
     bindS (get_volumes template) (\<lambda>(volumes, t1).
     bindS (get_vol_attachments t1) (\<lambda>(attachments, t2). Inr ((volumes, attachments), t2)))"

section \<open>Ports and scaling\<close>

definition get_mgmt_ports :: "tosca \<Rightarrow> pydict" where
  "get_mgmt_ports t = foldl (\<lambda>ports n.
     if is_derived_from APMECCP (nt_ancestors n) \<and> truthy (nt_value ''management'' n)
     then (case List.find (\<lambda>(rel, _). is_derived_from TOSCA_BINDS_TO rel) (nt_relations n) of
         None \<Rightarrow> ports
       | Some (_, vdu) \<Rightarrow> dict_set (''mgmt_ip-'' @ vdu) (PStr (nt_name n)) ports)
     else ports) [] (t_nodes t)"

definition get_scaling_policy :: "tosca \<Rightarrow> string list" where
  "get_scaling_policy t = map pt_name (filter (\<lambda>p. is_derived_from SCALING (pt_ancestors p)) (t_policies t))"

definition get_nested_resources_name :: "tosca \<Rightarrow> string option" where
  "get_nested_resources_name t =
     map_option (\<lambda>p. pt_name p @ ''_res.yaml'') (List.find (\<lambda>p. is_derived_from SCALING (pt_ancestors p)) (t_policies t))"

end
