(* ===== verification/MemPlugin.thy ===== *)
theory MemPlugin
  imports VimClient Tosca
begin

text \<open>
  mem/plugin.py: the MEA manager. The state is the database with what the plugin keeps
  beside it: the MEAs under monitoring (mem/monitor.py), the green threads it has
  spawned and not yet run, and the outside world \<open>'w\<close> that the drivers act on. The
  drivers, the YAML and TOSCA parsers and the random names are a parameter; a driver
  takes the world and answers a result and the world after. A driver that is handed
  the MEA's dictionary may change it, so it answers the dictionary too, also when it
  raises. Waiting for a machine to boot and log messages are left out.
\<close>

section \<open>State\<close>

text \<open>What the management drivers are called for.\<close>

datatype mgmt_method = mgmt_create_pre | mgmt_create_post | mgmt_update_pre | mgmt_update_post
  | mgmt_delete_pre | mgmt_delete_post | mgmt_call string

text \<open>A scaling or alarming policy of an MEA, \<open>_make_policy_dict\<close>.\<close>

record policy =
  pol_type :: pyval
  pol_properties :: pyval
  pol_mea :: mea_dict
  pol_name :: string
  pol_id :: string
  pol_action :: pyval
  pol_instance :: "string option"

record 'w drivers =
  dr_infra_types :: "string list"
  dr_create :: "string \<Rightarrow> ctx \<Rightarrow> pydict \<Rightarrow> mea_dict \<Rightarrow> 'w \<Rightarrow> ((exn + string option) \<times> mea_dict) \<times> 'w"
  dr_create_wait :: "string \<Rightarrow> ctx \<Rightarrow> string option \<Rightarrow> pydict \<Rightarrow> mea_dict \<Rightarrow> 'w \<Rightarrow> ((exn + unit) \<times> mea_dict) \<times> 'w"
  dr_update :: "string \<Rightarrow> ctx \<Rightarrow> string option \<Rightarrow> pydict \<Rightarrow> pydict \<Rightarrow> mea_dict \<Rightarrow> 'w \<Rightarrow> ((exn + unit) \<times> mea_dict) \<times> 'w"
  dr_update_wait :: "string \<Rightarrow> ctx \<Rightarrow> string option \<Rightarrow> pydict \<Rightarrow> pyval \<Rightarrow> 'w \<Rightarrow> (exn + unit) \<times> 'w"
  dr_delete :: "string \<Rightarrow> ctx \<Rightarrow> string option \<Rightarrow> pydict \<Rightarrow> pyval \<Rightarrow> 'w \<Rightarrow> (exn + unit) \<times> 'w"
  dr_delete_wait :: "string \<Rightarrow> ctx \<Rightarrow> string option \<Rightarrow> pydict \<Rightarrow> pyval \<Rightarrow> 'w \<Rightarrow> (exn + unit) \<times> 'w"
  dr_scale :: "string \<Rightarrow> ctx \<Rightarrow> pydict \<Rightarrow> policy \<Rightarrow> pyval \<Rightarrow> 'w \<Rightarrow> (exn + pyval) \<times> 'w"
  dr_scale_wait :: "string \<Rightarrow> ctx \<Rightarrow> pydict \<Rightarrow> policy \<Rightarrow> pyval \<Rightarrow> pyval \<Rightarrow> 'w \<Rightarrow> (exn + string option) \<times> 'w"
  dr_resource_info :: "string \<Rightarrow> ctx \<Rightarrow> mea_dict \<Rightarrow> pydict \<Rightarrow> 'w \<Rightarrow> (exn + pydict) \<times> 'w"
  dr_mgmt :: "mgmt_method \<Rightarrow> string option \<Rightarrow> ctx \<Rightarrow> mea_dict \<Rightarrow> 'w \<Rightarrow> ((exn + unit) \<times> mea_dict) \<times> 'w"
  dr_alarm_types :: "string list"
  dr_alarm_url :: "string \<Rightarrow> mea_dict \<Rightarrow> pydict \<Rightarrow> 'w \<Rightarrow> (exn + pyval) \<times> 'w"
  dr_process_alarm :: "string \<Rightarrow> string \<Rightarrow> pydict \<Rightarrow> 'w \<Rightarrow> (exn + bool) \<times> 'w"
  dr_monitor_types :: "string list"
  dr_monitor_call :: "string \<Rightarrow> mea_dict \<Rightarrow> pydict \<Rightarrow> 'w \<Rightarrow> (exn + pyval) \<times> 'w"
  dr_heat_delete :: "pydict \<Rightarrow> pyval \<Rightarrow> string option \<Rightarrow> 'w \<Rightarrow> (exn + unit) \<times> 'w"
  dr_random :: "'w \<Rightarrow> string \<times> 'w"
  dr_yaml_load :: "pyval \<Rightarrow> exn + pyval"
  dr_yaml_dump :: "pyval \<Rightarrow> string"
  dr_json_load :: "pyval \<Rightarrow> exn + pyval"
  dr_parse_tosca :: "pyval \<Rightarrow> exn + tosca"
  dr_text :: "exn \<Rightarrow> string"

record hosting_mea =
  hm_mea :: mea_dict
  hm_ips :: pyval
  hm_policy :: pyval
  hm_context :: ctx
  hm_boot_at :: datetime
  hm_dead :: bool

text \<open>The functions the plugin spawns, with the values they close over.\<close>

datatype task =
    CreateWait ctx "mea_dict option" pydict string
  | UpdateWait ctx mea_dict pydict string
  | DeleteWait ctx mea_dict pydict string
  | ScaleWait ctx policy pydict string pyval pyval

record 'w plug = db +
  p_hosting :: "(string \<times> hosting_mea) list"
  p_tasks :: "task list"
  p_world :: 'w

type_synonym ('w, 'a) mprog = "('w plug, 'a) prog"

record env =
  e_oslo :: oslo
  e_keys :: keystore
  e_actions :: "string list"
  e_boot_wait :: int

section \<open>Calling the outside\<close>

definition call :: "('w \<Rightarrow> 'a \<times> 'w) \<Rightarrow> ('w, 'a) mprog" where
  "call f = (\<lambda>s. case f (p_world s) of (x, w) \<Rightarrow> (Inr x, s\<lparr>p_world := w\<rparr>))"

definition call_raise :: "('w \<Rightarrow> (exn + 'a) \<times> 'w) \<Rightarrow> ('w, 'a) mprog" where
  "call_raise f = bindE (call f) pureE"

text \<open>\<open>DriverManager.invoke\<close>: an unknown driver is a KeyError.\<close>

definition invoke :: "string list \<Rightarrow> string \<Rightarrow> ('w \<Rightarrow> (exn + 'a) \<times> 'w) \<Rightarrow> ('w, 'a) mprog" where
  "invoke types name f = (if List.member types name then call_raise f else raise key_error)"

definition invoke_val :: "string list \<Rightarrow> pyval \<Rightarrow> (string \<Rightarrow> 'w \<Rightarrow> (exn + 'a) \<times> 'w) \<Rightarrow> ('w, 'a) mprog" where
  "invoke_val types v f = (case v of PStr n \<Rightarrow> invoke types n (f n)
     | PList _ \<Rightarrow> raise type_error | PDict _ \<Rightarrow> raise type_error | _ \<Rightarrow> raise key_error)"

text \<open>The same for a method that may change the MEA's dictionary.\<close>

definition invoke_mea ::
  "'w drivers \<Rightarrow> string \<Rightarrow> mea_dict \<Rightarrow> ('w \<Rightarrow> ((exn + 'a) \<times> mea_dict) \<times> 'w) \<Rightarrow> ('w, (exn + 'a) \<times> mea_dict) mprog" where
  "invoke_mea D name d f = (if List.member (dr_infra_types D) name then call f else ret (Inl key_error, d))"

text \<open>\<open>MECMgmtMixin._invoke\<close>: the management driver the MEAD names.\<close>

definition mgmt_try :: "'w drivers \<Rightarrow> mgmt_method \<Rightarrow> ctx \<Rightarrow> mea_dict \<Rightarrow> ('w, (exn + unit) \<times> mea_dict) mprog" where
  "mgmt_try D m c d = call (dr_mgmt D m (dd_mgmt_driver (ad_mead d)) c d)"

definition mgmt :: "'w drivers \<Rightarrow> mgmt_method \<Rightarrow> ctx \<Rightarrow> mea_dict \<Rightarrow> ('w, mea_dict) mprog" where
  "mgmt D m c d = bindE (mgmt_try D m c d) (\<lambda>(r, d'). thenE (pureE r) (ret d'))"

text \<open>The outcome of a call as a value, for the \<open>try\<close> blocks that go on with the changed
  dictionary, and the next call of the block.\<close>

definition attempt :: "('s, 'a) prog \<Rightarrow> ('s, exn + 'a) prog" where
  "attempt m = catchE (bindE m (\<lambda>x. ret (Inr x))) (\<lambda>e. ret (Inl e))"

definition and_then ::
  "('s, (exn + unit) \<times> 'd) prog \<Rightarrow> ('d \<Rightarrow> ('s, (exn + unit) \<times> 'd) prog) \<Rightarrow> ('s, (exn + unit) \<times> 'd) prog" where
  "and_then m k = bindE m (\<lambda>(r, d). case r of Inl e \<Rightarrow> ret (Inl e, d) | Inr _ \<Rightarrow> k d)"

definition spawn_n :: "task \<Rightarrow> ('w, unit) mprog" where
  "spawn_n t = modify (\<lambda>s. s\<lparr>p_tasks := p_tasks s @ [t]\<rparr>)"

definition delete_hosting_mea :: "string \<Rightarrow> ('w, unit) mprog" where
  "delete_hosting_mea i = modify (\<lambda>s. s\<lparr>p_hosting := dict_del i (p_hosting s)\<rparr>)"

text \<open>\<open>with excutils.save_and_reraise_exception\<close>: the handler runs, then \<open>e\<close> is raised
  again, unless the handler raises.\<close>

definition reraise_after :: "exn \<Rightarrow> ('s, unit) prog \<Rightarrow> ('s, 'a) prog" where
  "reraise_after e h = thenE h (raise e)"

section \<open>Creating a MEAD\<close>

text \<open>A text column given the value.\<close>

definition text_column :: "pyval \<Rightarrow> exn + string option" where
  "text_column v = (case v of PStr s \<Rightarrow> Inr (Some s) | PNone \<Rightarrow> Inr None
     | _ \<Rightarrow> Inl (Exc (Lib StatementError) []))"

definition empty_text :: "string option \<Rightarrow> bool" where
  "empty_text x \<longleftrightarrow> x = None \<or> x = Some []"

definition parse_template_input :: "'w drivers \<Rightarrow> mead_req \<Rightarrow> exn + mead_req" where
  "parse_template_input D req = (case map_of (dr_attributes req) ''mead'' of
     None \<Rightarrow> Inr req
   | Some PNone \<Rightarrow> Inr req
   | Some y \<Rightarrow>
      bindS (dr_yaml_load D y) (\<lambda>inner0.
      bindS (updateimports inner0) (\<lambda>inner.
      bindS (case dr_parse_tosca D inner of
         Inl e \<Rightarrow> Inl (Exc (Mem ToscaParserFailed) [(''error_msg_details'', PStr (dr_text D e))])
       | Inr t \<Rightarrow> Inr t) (\<lambda>t.
      bindS (if empty_text (dr_description req)
             then bindS (get_of ''description'' (PStr []) inner) text_column
             else Inr (dr_description req)) (\<lambda>desc.
      bindS (bindS (contains ''metadata'' inner) (\<lambda>has.
             if dr_name req = [] \<and> has
             then bindS (subscr ''metadata'' inner) (\<lambda>m. bindS (get_of ''template_name'' (PStr []) m) str_of)
             else Inr (dr_name req))) (\<lambda>name.
      bindS (bindS (get_mgmt_driver t) text_column) (\<lambda>driver.
        Inr (req\<lparr>dr_description := desc, dr_name := name, dr_mgmt_driver := driver\<rparr>))))))))"

definition plugin_create_mead :: "env \<Rightarrow> 'w drivers \<Rightarrow> ctx \<Rightarrow> mead_req \<Rightarrow> ('w, mead_dict) mprog" where
  "plugin_create_mead E D c req =
     (let template = dict_get ''mead'' PNone (dr_attributes req);
          req1 = (if is_dict template
            then req\<lparr>dr_attributes := dict_set ''mead'' (PStr (dr_yaml_dump D template)) (dr_attributes req)\<rparr> else req)
      in bindE (pureE (contains ''tosca_definitions_version'' template)) (\<lambda>ok.
        if \<not> ok then raise (Exc (Common Invalid) [(''error_message'', PStr ''Not a valid template: tosca_definitions_version is missing.'')])
        else if \<not> is_attr_set (dr_service_types req) then raise (Exc (Mem ServiceTypesNotSpecified) [])
        else thenE (pureE (list_of (dr_service_types req)))
          (bindE (pureE (parse_template_input D (req1\<lparr>dr_template_source :=
               (case dr_template_source req of None \<Rightarrow> Some ''onboarded'' | Some t \<Rightarrow> Some t)\<rparr>))) (\<lambda>req2.
            create_mead (e_oslo E) c req2))))"

section \<open>The VIM of an MEA\<close>

text \<open>\<open>get_vim\<close> and \<open>_get_infra_driver\<close> note the VIM in the MEA's dictionary.\<close>

definition region_of :: "pydict \<Rightarrow> pyval" where
  "region_of placement = dict_get ''region_name'' PNone placement"

definition vim_of :: "env \<Rightarrow> ctx \<Rightarrow> string option \<Rightarrow> pydict \<Rightarrow> ('w, vim_res \<times> pydict) mprog" where
  "vim_of E c vim_id placement =
     bindE (client_get_vim (e_oslo E) (e_keys E) c vim_id (region_of placement)) (\<lambda>v.
       ret (v, dict_set ''vim_name'' (PStr (vres_name v)) placement))"

definition get_infra_driver :: "env \<Rightarrow> ctx \<Rightarrow> mea_dict \<Rightarrow> ('w, string \<times> pydict \<times> mea_dict) mprog" where
  "get_infra_driver E c d = bindE (vim_of E c (Some (ad_vim_id d)) (ad_placement_attr d)) (\<lambda>(v, p).
     ret (vres_type v, vres_auth v, d\<lparr>ad_placement_attr := p, ad_vim_id := vres_id v\<rparr>))"

section \<open>Policies\<close>

definition make_policy_dict :: "env \<Rightarrow> mea_dict \<Rightarrow> string \<Rightarrow> pyval \<Rightarrow> ('w, policy) mprog" where
  "make_policy_dict E mea name p =
     bindE (pureE (get_of ''type'' PNone p)) (\<lambda>ty.
     bindE (pureE (get_of ''properties'' PNone p)) (\<lambda>props.
     bindE (pureE (if truthy props then Inr props else get_of ''triggers'' PNone p)) (\<lambda>pr.
     bindE (generate_uuid (e_oslo E)) (\<lambda>u.
       ret \<lparr>pol_type = ty, pol_properties = pr, pol_mea = mea, pol_name = name, pol_id = u,
            pol_action = PNone, pol_instance = None\<rparr>))))"

text \<open>The loop over the policies of one entry of the template; a match ends it.\<close>

fun policy_loop :: "env \<Rightarrow> mea_dict \<Rightarrow> pyval \<Rightarrow> pyval \<Rightarrow> pydict \<Rightarrow> ('w, policy list) mprog" where
  "policy_loop E mea name ty [] = ret []"
| "policy_loop E mea name ty ((k, p) # rest) =
     (if \<not> truthy name \<and> \<not> truthy ty then
        bindE (make_policy_dict E mea k p) (\<lambda>q. bindE (policy_loop E mea name ty rest) (\<lambda>qs. ret (q # qs)))
      else if py_eq (PStr k) name then bindE (make_policy_dict E mea k p) (\<lambda>q. ret [q])
      else bindE (pureE (subscr ''type'' p)) (\<lambda>t.
        if py_eq t ty then bindE (make_policy_dict E mea k p) (\<lambda>q. ret [q])
        else policy_loop E mea name ty rest))"

definition mead_template_of :: "'w drivers \<Rightarrow> mea_dict \<Rightarrow> exn + pyval" where
  "mead_template_of D mea = bindS (subscr ''mead'' (PDict (dd_attributes (ad_mead mea)))) (dr_yaml_load D)"

definition template_policies :: "pyval \<Rightarrow> exn + pyval list" where
  "template_policies t = bindS (subscr ''topology_template'' t) (\<lambda>top.
     bindS (get_of ''policies'' (PList []) top) list_of)"

definition get_mea_policies ::
  "env \<Rightarrow> 'w drivers \<Rightarrow> ctx \<Rightarrow> string \<Rightarrow> pyval \<Rightarrow> pyval \<Rightarrow> ('w, policy list) mprog" where
  "get_mea_policies E D c i name ty =
     bindE (get_mea (e_oslo E) c i) (\<lambda>mea.
     bindE (pureE (bindS (mead_template_of D mea) template_policies)) (\<lambda>polices.
     bindE (mapE (\<lambda>p. bindE (pureE (items_of p)) (policy_loop E mea name ty)) polices) (\<lambda>qss.
       ret (concat qss))))"

definition get_mea_policy :: "env \<Rightarrow> 'w drivers \<Rightarrow> ctx \<Rightarrow> pyval \<Rightarrow> string \<Rightarrow> ('w, policy option) mprog" where
  "get_mea_policy E D c policy_id i = bindE (get_mea_policies E D c i policy_id PNone) (\<lambda>ps. ret (first ps))"

definition get_mea_policy_by_type :: "env \<Rightarrow> 'w drivers \<Rightarrow> ctx \<Rightarrow> string \<Rightarrow> string \<Rightarrow> ('w, policy) mprog" where
  "get_mea_policy_by_type E D c i ty = bindE (get_mea_policies E D c i PNone (PStr ty)) (\<lambda>ps.
     case ps of p # _ \<Rightarrow> ret p
     | [] \<Rightarrow> raise (Exc (Common MeaPolicyTypeInvalid) [(''type'', PStr POLICY_ALARMING), (''mea_id'', PStr i)]))"

end
