(* ===== verification/MemOps.thy ===== *)
theory MemOps
  imports MemPlugin
begin

text \<open>
  mem/plugin.py and mem/monitor.py: creating, updating, deleting and scaling an MEA, each
  as the request handler and the function it spawns. The dictionary of the MEA is passed
  on through every call that may change it.
\<close>

section \<open>Alarms set at creation\<close>

definition log_monitor_events :: "mea_dict \<Rightarrow> string \<Rightarrow> ('x db_scheme, unit) prog" where
  "log_monitor_events d details = mea_event (ad_id d) (ad_status d) RES_EVT_MONITOR details"

text \<open>A backend policy of type scaling is named with its direction.\<close>

definition scaling_type :: "pyval \<Rightarrow> exn + string" where
  "scaling_type trigger = bindS (subscr ''condition'' trigger) (\<lambda>cond.
     bindS (get_of ''comparison_operator'' PNone cond) (\<lambda>cp.
       Inr (if py_eq cp (PStr ''gt'') then ''out'' else ''in'')))"

definition refactor_backend_policy :: "pyval \<Rightarrow> string \<Rightarrow> pyval" where
  "refactor_backend_policy name act = PStr (py_str name @ ''-'' @ act)"

definition alarm_action ::
  "env \<Rightarrow> 'w drivers \<Rightarrow> ctx \<Rightarrow> mea_dict \<Rightarrow> pyval \<Rightarrow> pyval \<Rightarrow> pyval \<Rightarrow> ('w, pyval) mprog" where
  "alarm_action E D c mea trigger actions a =
     bindE (get_mea_policies E D c (ad_id mea) a PNone) (\<lambda>ps.
     case ps of
       [] \<Rightarrow> ret a
     | p # _ \<Rightarrow> if \<not> py_eq (pol_type p) (PStr POLICY_SCALING) then ret a
         else bindE (pureE (scaling_type trigger)) (\<lambda>dir.
           case actions of PList _ \<Rightarrow> ret (refactor_backend_policy a dir)
           | PDict _ \<Rightarrow> raise runtime_error | _ \<Rightarrow> raise type_error))"

text \<open>The loop over the triggers; \<open>None\<close> is the early return.\<close>

fun set_alarms ::
  "env \<Rightarrow> 'w drivers \<Rightarrow> ctx \<Rightarrow> mea_dict \<Rightarrow> pydict \<Rightarrow> pydict \<Rightarrow> ('w, pydict option) mprog" where
  "set_alarms E D c mea [] urls = ret (Some urls)"
| "set_alarms E D c mea ((name, trigger) # rest) urls =
     bindE (pureE (bindS (subscr ''event_type'' trigger) (subscr ''implementation''))) (\<lambda>driver.
     bindE (pureE (get_of ''action'' PNone trigger)) (\<lambda>actions.
     bindE (pureE (list_of actions)) (\<lambda>xs.
     if xs = [] then thenE (log_monitor_events mea ''Alarm not set: policy action missing'') (ret None)
     else
       bindE (mapE (alarm_action E D c mea trigger actions) xs) (\<lambda>names.
       bindE (pureE (join_of ''%'' names)) (\<lambda>action_name.
       bindE (invoke_val (dr_alarm_types D) driver (\<lambda>t. dr_alarm_url D t mea
           [(''mea_id'', PStr (ad_id mea)), (''mon_policy_name'', PStr name),
            (''mon_policy_action'', PStr action_name)])) (\<lambda>url.
       thenE (log_monitor_events mea ''Alarm URL set successfully: '')
         (set_alarms E D c mea rest (dict_set name url urls))))))))"

definition update_mea_with_alarm ::
  "env \<Rightarrow> 'w drivers \<Rightarrow> ctx \<Rightarrow> mea_dict \<Rightarrow> pyval \<Rightarrow> ('w, pydict option) mprog" where
  "update_mea_with_alarm E D c mea p =
     bindE (pureE (bindS (subscr ''triggers'' p) items_of)) (\<lambda>triggers. set_alarms E D c mea triggers [])"

fun alarm_policies ::
  "env \<Rightarrow> 'w drivers \<Rightarrow> ctx \<Rightarrow> mea_dict \<Rightarrow> pyval list \<Rightarrow> ('w, mea_dict) mprog" where
  "alarm_policies E D c d [] = ret d"
| "alarm_policies E D c d (p # ps) =
     bindE (pureE (first_item p)) (\<lambda>(name, pol).
     bindE (pureE (bindS (subscr ''type'' pol) str_of)) (\<lambda>ty.
     if \<not> str_in ty POLICY_ALARMING then alarm_policies E D c d ps
     else bindE (update_mea_with_alarm E D c d pol) (\<lambda>urls.
       case urls of None \<Rightarrow> raise type_error
       | Some u \<Rightarrow> ret (d\<lparr>ad_attributes :=
           dict_update (dict_set ''alarming_policy'' (PStr (ad_id d)) (ad_attributes d)) u\<rparr>))))"

definition add_alarm_url_to_mea :: "env \<Rightarrow> 'w drivers \<Rightarrow> ctx \<Rightarrow> mea_dict \<Rightarrow> ('w, mea_dict) mprog" where
  "add_alarm_url_to_mea E D c d =
     bindE (pureE (dr_yaml_load D (dict_get ''mead'' (PStr []) (dd_attributes (ad_mead d))))) (\<lambda>t.
     if \<not> truthy t then ret d
     else bindE (pureE (get_of ''tosca_definitions_version'' PNone t)) (\<lambda>v.
       if \<not> truthy v then ret d
       else bindE (pureE (template_policies t)) (alarm_policies E D c d)))"

section \<open>Monitoring\<close>

definition to_hosting_mea :: "'w drivers \<Rightarrow> ctx \<Rightarrow> mea_dict \<Rightarrow> exn + hosting_mea" where
  "to_hosting_mea D c d =
     bindS (dr_json_load D (opt_str (ad_mgmt_url d))) (\<lambda>ips.
     bindS (bindS (subscr ''monitoring_policy'' (PDict (ad_attributes d))) (dr_json_load D)) (\<lambda>p.
       Inr \<lparr>hm_mea = d, hm_ips = ips, hm_policy = p, hm_context = c, hm_boot_at = 0, hm_dead = False\<rparr>))"

definition add_hosting_mea :: "hosting_mea \<Rightarrow> ('w, unit) mprog" where
  "add_hosting_mea h = bindE utcnow (\<lambda>now.
     thenE (modify (\<lambda>s. s\<lparr>p_hosting := dict_set (ad_id (hm_mea h)) (h\<lparr>hm_boot_at := now\<rparr>) (p_hosting s)\<rparr>))
       (log_monitor_events (hm_mea h) (''MEA added for monitoring. mon_policy_dict = ''
          @ py_str (dict_get ''monitoring_policy'' PNone (ad_attributes (hm_mea h))) @ '','')))"

definition add_mea_to_monitor :: "'w drivers \<Rightarrow> ctx \<Rightarrow> mea_dict \<Rightarrow> ('w, unit) mprog" where
  "add_mea_to_monitor D c d =
     (if has_key ''monitoring_policy'' (ad_attributes d) \<and> \<not> empty_text (ad_mgmt_url d)
      then bindE (pureE (to_hosting_mea D c d)) add_hosting_mea else ret ())"

definition mark_dead :: "string \<Rightarrow> ('w, unit) mprog" where
  "mark_dead i = bindE (gets p_hosting) (\<lambda>hs. case map_of hs i of None \<Rightarrow> raise key_error
     | Some h \<Rightarrow> modify (\<lambda>s. s\<lparr>p_hosting := dict_set i (h\<lparr>hm_dead := True\<rparr>) hs\<rparr>))"

section \<open>Deleting\<close>

definition delete_calls ::
  "'w drivers \<Rightarrow> ctx \<Rightarrow> string \<Rightarrow> pydict \<Rightarrow> mea_dict \<Rightarrow> ('w, (exn + unit) \<times> mea_dict) mprog" where
  "delete_calls D c drv auth d =
     and_then (mgmt_try D mgmt_delete_pre c d) (\<lambda>d1.
     and_then (mgmt_try D (mgmt_call ''delete_mea'') c d1) (\<lambda>d2.
       if empty_text (ad_instance_id d) then ret (Inr (), d2)
       else bindE (attempt (invoke (dr_infra_types D) drv
           (dr_delete D drv c (ad_instance_id d) auth (region_of (ad_placement_attr d))))) (\<lambda>r. ret (r, d2))))"

definition delete_failed ::
  "env \<Rightarrow> 'w drivers \<Rightarrow> ctx \<Rightarrow> mea_dict \<Rightarrow> exn \<Rightarrow> ('w, unit) mprog" where
  "delete_failed E D c d e =
     (let d1 = d\<lparr>ad_status := ERROR, ad_error_reason := Some (dr_text D e)\<rparr> in
      thenE (set_mea_error_status_reason c (ad_id d1) (ad_error_reason d1))
      (bindE (mgmt D mgmt_delete_post c d1) (\<lambda>d2. delete_mea_post (e_oslo E) c d2 True True)))"

definition plugin_delete_mea :: "env \<Rightarrow> 'w drivers \<Rightarrow> ctx \<Rightarrow> string \<Rightarrow> ('w, unit) mprog" where
  "plugin_delete_mea E D c i =
     bindE (delete_mea_pre c i) (\<lambda>d0.
     bindE (get_infra_driver E c d0) (\<lambda>(drv, auth, d).
     thenE (delete_hosting_mea i)
     (bindE (delete_calls D c drv auth d) (\<lambda>(r, d1). case r of
        Inl e \<Rightarrow> reraise_after e (delete_failed E D c d1 e)
      | Inr _ \<Rightarrow> spawn_n (DeleteWait c d1 auth drv)))))"

definition delete_mea_wait :: "env \<Rightarrow> 'w drivers \<Rightarrow> ctx \<Rightarrow> mea_dict \<Rightarrow> pydict \<Rightarrow> string \<Rightarrow> ('w, unit) mprog" where
  "delete_mea_wait E D c d auth drv =
     bindE (if empty_text (ad_instance_id d) then ret (Inr ())
       else attempt (invoke (dr_infra_types D) drv
         (dr_delete_wait D drv c (ad_instance_id d) auth (region_of (ad_placement_attr d))))) (\<lambda>r.
     case r of
       Inr _ \<Rightarrow> bindE (mgmt D mgmt_delete_post c d) (\<lambda>d1. delete_mea_post (e_oslo E) c d1 False True)
     | Inl e \<Rightarrow> delete_failed E D c d e)"

section \<open>Creating\<close>

text \<open>\<open>_create_mea\<close> of a new MEA (\<open>Inl\<close>) or again of an existing one (\<open>Inr\<close>).\<close>

definition create_in_infra ::
  "env \<Rightarrow> 'w drivers \<Rightarrow> ctx \<Rightarrow> mea_req + mea_dict \<Rightarrow> pydict \<Rightarrow> string \<Rightarrow> ('w, mea_dict option) mprog" where
  "create_in_infra E D c mea auth drv =
     bindE (case mea of Inl req \<Rightarrow> create_mea_pre (e_oslo E) c req | Inr d \<Rightarrow> ret d) (\<lambda>d.
     bindE (mgmt D mgmt_create_pre c d) (\<lambda>d1.
     bindE (add_alarm_url_to_mea E D c d1) (\<lambda>d2.
     bindE (invoke_mea D drv d2 (dr_create D drv c auth d2)) (\<lambda>(r, d3). case r of
         Inl e \<Rightarrow> reraise_after e (plugin_delete_mea E D c (ad_id d))
       | Inr None \<Rightarrow> thenE (create_mea_post (e_oslo E) c (ad_id d) None None d3) (ret None)
       | Inr (Some inst) \<Rightarrow> ret (Some (d3\<lparr>ad_instance_id := Some inst\<rparr>))))))"

text \<open>The two \<open>try\<close> blocks of \<open>_create_mea_wait\<close>.\<close>

definition wait_for_creation ::
  "'w drivers \<Rightarrow> ctx \<Rightarrow> string \<Rightarrow> (exn + unit) \<times> mea_dict \<Rightarrow> ('w, bool \<times> mea_dict) mprog" where
  "wait_for_creation D c i = (\<lambda>(r, d). case r of
       Inr _ \<Rightarrow> ret (False, d)
     | Inl e \<Rightarrow> if isinstance e (Mem MEACreateWaitFailed)
         then thenE (set_mea_error_status_reason c i (Some (dr_text D e))) (ret (True, d\<lparr>ad_status := ERROR\<rparr>))
         else raise e)"

definition configured ::
  "ctx \<Rightarrow> string \<Rightarrow> string \<Rightarrow> exn + unit \<Rightarrow> ('w, status) mprog" where
  "configured c i reason r = (case r of
       Inr _ \<Rightarrow> ret ACTIVE
     | Inl e \<Rightarrow> if isinstance e (Common MgmtDriverException)
         then thenE (set_mea_error_status_reason c i (Some reason)) (ret ERROR)
         else raise e)"

definition create_mea_wait ::
  "env \<Rightarrow> 'w drivers \<Rightarrow> ctx \<Rightarrow> mea_dict \<Rightarrow> pydict \<Rightarrow> string \<Rightarrow> ('w, mea_dict) mprog" where
  "create_mea_wait E D c d0 auth drv =
     (let i = ad_id d0; inst = ad_instance_id d0 in
      bindE (invoke_mea D drv d0 (dr_create_wait D drv c inst auth d0)) (\<lambda>rd.
      bindE (wait_for_creation D c i rd) (\<lambda>(failed, d1).
      let bad = inst = None \<or> failed; url = (if bad then None else ad_mgmt_url d1) in
      thenE (create_mea_post (e_oslo E) c i inst url d1)
      (bindE (mgmt D mgmt_create_post c d1) (\<lambda>d2.
       if bad then ret d2
       else bindE (mgmt_try D (mgmt_call ''create_mea'') c (d2\<lparr>ad_mgmt_url := url\<rparr>)) (\<lambda>(r, d3).
         bindE (configured c i ''Unable to configure VDU'' r) (\<lambda>st.
         thenE (create_mea_status c i st) (ret (d3\<lparr>ad_status := st\<rparr>)))))))))"

text \<open>YAML given as a dictionary is stored as text.\<close>

definition dump_attr :: "'w drivers \<Rightarrow> string \<Rightarrow> pydict \<Rightarrow> pydict" where
  "dump_attr D k attrs = (let v = dict_get k PNone attrs in
     if truthy v \<and> is_dict v then dict_set k (PStr (dr_yaml_dump D v)) attrs else attrs)"

definition generate_resource_name :: "'w drivers \<Rightarrow> string \<Rightarrow> string \<Rightarrow> ('w, string) mprog" where
  "generate_resource_name D resource prefix =
     bindE (call (dr_random D)) (\<lambda>r. ret (prefix @ ''-'' @ r @ ''-'' @ resource))"

definition inline_mead :: "env \<Rightarrow> 'w drivers \<Rightarrow> ctx \<Rightarrow> pyval \<Rightarrow> mea_req \<Rightarrow> ('w, mea_req) mprog" where
  "inline_mead E D c template req = (if \<not> truthy template then ret req else
     bindE (generate_resource_name D (ar_name req) ''inline'') (\<lambda>name.
     bindE (plugin_create_mead E D c \<lparr>dr_tenant_id = None, dr_name = name, dr_description = None,
         dr_mgmt_driver = None, dr_template_source = Some ''inline'', dr_attributes = [(''mead'', template)],
         dr_service_types = PList [PDict [(''service_type'', PStr ''mead'')]]\<rparr>) (\<lambda>mead.
       ret (req\<lparr>ar_mead_id := dd_id mead\<rparr>))))"

definition req_infra_driver :: "env \<Rightarrow> ctx \<Rightarrow> mea_req \<Rightarrow> ('w, string \<times> pydict \<times> mea_req) mprog" where
  "req_infra_driver E c req = bindE (vim_of E c (Some (ar_vim_id req)) (ar_placement_attr req)) (\<lambda>(v, p).
     ret (vres_type v, vres_auth v, req\<lparr>ar_placement_attr := p, ar_vim_id := vres_id v\<rparr>))"

definition plugin_create_mea ::
  "env \<Rightarrow> 'w drivers \<Rightarrow> ctx \<Rightarrow> pyval \<Rightarrow> mea_req \<Rightarrow> ('w, mea_dict option) mprog" where
  "plugin_create_mea E D c template req =
     bindE (inline_mead E D c template req) (\<lambda>req1.
     bindE (req_infra_driver E c (req1\<lparr>ar_attributes :=
         dump_attr D ''config'' (dump_attr D ''param_values'' (ar_attributes req1))\<rparr>)) (\<lambda>(drv, auth, req2).
     if \<not> List.member (dr_infra_types D) drv then raise (Exc (Mem InvalidInfraDriver) [(''vim_name'', PStr drv)])
     else bindE (create_in_infra E D c (Inl req2) auth drv) (\<lambda>d.
       thenE (spawn_n (CreateWait c d auth drv)) (ret d))))"

definition create_mea_sync :: "env \<Rightarrow> 'w drivers \<Rightarrow> ctx \<Rightarrow> mea_dict \<Rightarrow> ('w, mea_dict) mprog" where
  "create_mea_sync E D c d0 =
     bindE (get_infra_driver E c d0) (\<lambda>(drv, auth, d).
     bindE (create_in_infra E D c (Inr d) auth drv) (\<lambda>created. case created of
         None \<Rightarrow> raise type_error
       | Some d1 \<Rightarrow> create_mea_wait E D c d1 auth drv))"

section \<open>Updating\<close>

definition update_calls ::
  "'w drivers \<Rightarrow> ctx \<Rightarrow> string \<Rightarrow> pydict \<Rightarrow> pydict \<Rightarrow> mea_dict \<Rightarrow> ('w, (exn + unit) \<times> mea_dict) mprog" where
  "update_calls D c drv auth body d =
     and_then (mgmt_try D mgmt_update_pre c d) (\<lambda>d1.
       invoke_mea D drv d1 (dr_update D drv c (ad_instance_id d) auth body d1))"

definition update_failed ::
  "env \<Rightarrow> 'w drivers \<Rightarrow> ctx \<Rightarrow> string \<Rightarrow> mea_dict \<Rightarrow> exn \<Rightarrow> ('w, unit) mprog" where
  "update_failed E D c i d e =
     thenE (delete_hosting_mea i)
     (thenE (set_mea_error_status_reason c (ad_id d) (Some (dr_text D e)))
     (bindE (mgmt D mgmt_update_post c (d\<lparr>ad_status := ERROR\<rparr>)) (\<lambda>d1.
       update_mea_post (e_oslo E) c i ERROR (ad_attributes d1))))"

definition plugin_update_mea ::
  "env \<Rightarrow> 'w drivers \<Rightarrow> ctx \<Rightarrow> string \<Rightarrow> pydict \<Rightarrow> ('w, mea_dict) mprog" where
  "plugin_update_mea E D c i body =
     bindE (pureE (bindS (subscr ''attributes'' (PDict body))
       (\<lambda>a. case a of PDict attrs \<Rightarrow> Inr attrs | _ \<Rightarrow> Inl attribute_error))) (\<lambda>attrs.
     bindE (update_mea_pre c i) (\<lambda>d0.
     bindE (get_infra_driver E c d0) (\<lambda>(drv, auth, d).
     bindE (update_calls D c drv auth (dict_set ''attributes'' (PDict (dump_attr D ''config'' attrs)) body) d) (\<lambda>(r, d1).
     case r of
       Inl e \<Rightarrow> reraise_after e (update_failed E D c i d1 e)
     | Inr _ \<Rightarrow> thenE (spawn_n (UpdateWait c d1 auth drv)) (ret d1)))))"

definition update_mea_wait :: "env \<Rightarrow> 'w drivers \<Rightarrow> ctx \<Rightarrow> mea_dict \<Rightarrow> pydict \<Rightarrow> string \<Rightarrow> ('w, unit) mprog" where
  "update_mea_wait E D c d auth drv =
     bindE (and_then (bindE (attempt (invoke (dr_infra_types D) drv
           (dr_update_wait D drv c (ad_instance_id d) auth (region_of (ad_placement_attr d))))) (\<lambda>r. ret (r, d)))
         (\<lambda>d1. mgmt_try D (mgmt_call ''update_mea'') c d1)) (\<lambda>(r, d1).
     bindE (case r of
         Inr _ \<Rightarrow> ret ACTIVE
       | Inl e \<Rightarrow> if isinstance e (Common MgmtDriverException)
           then thenE (delete_hosting_mea (ad_id d1))
             (thenE (set_mea_error_status_reason c (ad_id d1) (Some (dr_text D e))) (ret ERROR))
           else raise e) (\<lambda>st.
     bindE (mgmt D mgmt_update_post c (d1\<lparr>ad_status := st\<rparr>)) (\<lambda>d2.
       update_mea_post (e_oslo E) c (ad_id d2) st (ad_attributes d2))))"

definition config_mea :: "env \<Rightarrow> 'w drivers \<Rightarrow> ctx \<Rightarrow> mea_dict \<Rightarrow> ('w, unit) mprog" where
  "config_mea E D c d = (let config = dict_get ''config'' PNone (ad_attributes d) in
     if \<not> truthy config then ret ()
     else thenE (plugin_update_mea E D c (ad_id d)
         [(''id'', PStr (ad_id d)), (''attributes'', PDict [(''config'', config)])]) (ret ()))"

text \<open>The function \<open>create_mea\<close> spawns; without a dictionary it fails at once.\<close>

definition create_task ::
  "env \<Rightarrow> 'w drivers \<Rightarrow> ctx \<Rightarrow> mea_dict option \<Rightarrow> pydict \<Rightarrow> string \<Rightarrow> ('w, unit) mprog" where
  "create_task E D c md auth drv = (case md of
       None \<Rightarrow> raise type_error
     | Some d0 \<Rightarrow> bindE (create_mea_wait E D c d0 auth drv) (\<lambda>d.
         thenE (whenE (ad_status d \<noteq> ERROR) (add_mea_to_monitor D c d)) (config_mea E D c d)))"

section \<open>Scaling\<close>

definition validate_scaling_policy :: "policy \<Rightarrow> exn + unit" where
  "validate_scaling_policy p =
     (let acts = (case pol_type p of PStr t \<Rightarrow> Inr (map_of POLICY_ACTIONS t)
         | PList _ \<Rightarrow> Inl type_error | PDict _ \<Rightarrow> Inl type_error | _ \<Rightarrow> Inr None)
      in bindS acts (\<lambda>a. case a of
        None \<Rightarrow> Inl (Exc (Common MeaPolicyTypeInvalid) [(''type'', pol_type p),
          (''valid_types'', PList (map (PStr \<circ> fst) POLICY_ACTIONS)), (''policy'', PStr (pol_name p))])
      | Some actions \<Rightarrow> if py_in (pol_action p) (map PStr actions) then Inr ()
          else Inl (Exc (Common MeaPolicyActionInvalid) [(''action'', pol_action p),
            (''valid_actions'', PList (map PStr actions)), (''policy'', PStr (pol_name p))])))"

definition scaling_status :: "policy \<Rightarrow> status" where
  "scaling_status p = (if py_eq (pol_action p) (PStr ACTION_SCALE_IN) then PENDING_SCALE_IN else PENDING_SCALE_OUT)"

definition scaling_pre :: "ctx \<Rightarrow> policy \<Rightarrow> ('w, mea_dict) mprog" where
  "scaling_pre c p = update_mea_scaling_status c (ad_id (pol_mea p)) [ACTIVE] (scaling_status p) None"

definition scaling_post :: "ctx \<Rightarrow> policy \<Rightarrow> status \<Rightarrow> string option \<Rightarrow> ('w, unit) mprog" where
  "scaling_post c p new url =
     thenE (update_mea_scaling_status c (ad_id (pol_mea p)) [scaling_status p] new url) (ret ())"

definition scaling_failed :: "'w drivers \<Rightarrow> ctx \<Rightarrow> policy \<Rightarrow> exn \<Rightarrow> ('w, unit) mprog" where
  "scaling_failed D c p e =
     thenE (set_mea_error_status_reason c (ad_id (pol_mea p)) (Some (dr_text D e))) (scaling_post c p ERROR None)"

definition scaling_action ::
  "'w drivers \<Rightarrow> ctx \<Rightarrow> policy \<Rightarrow> pydict \<Rightarrow> string \<Rightarrow> pyval \<Rightarrow> ('w, pyval) mprog" where
  "scaling_action D c p auth drv region =
     catchE (invoke (dr_infra_types D) drv (dr_scale D drv c auth p region))
       (\<lambda>e. reraise_after e (scaling_failed D c p e))"

definition scaling_wait ::
  "'w drivers \<Rightarrow> ctx \<Rightarrow> policy \<Rightarrow> pydict \<Rightarrow> string \<Rightarrow> pyval \<Rightarrow> pyval \<Rightarrow> ('w, unit) mprog" where
  "scaling_wait D c p auth drv region last_event =
     catchE (bindE (invoke (dr_infra_types D) drv (dr_scale_wait D drv c auth p region last_event))
              (scaling_post c p ACTIVE))
       (\<lambda>e. reraise_after e (scaling_failed D c p e))"

definition handle_mea_scaling :: "env \<Rightarrow> 'w drivers \<Rightarrow> ctx \<Rightarrow> policy \<Rightarrow> ('w, policy) mprog" where
  "handle_mea_scaling E D c p0 =
     bindE (pureE (validate_scaling_policy p0)) (\<lambda>_.
     bindE (scaling_pre c p0) (\<lambda>d0.
     bindE (get_infra_driver E c d0) (\<lambda>(drv, auth, d).
     let p = p0\<lparr>pol_instance := ad_instance_id d0\<rparr>; region = region_of (ad_placement_attr d) in
     bindE (scaling_action D c p auth drv region) (\<lambda>ev.
     thenE (spawn_n (ScaleWait c p auth drv region ev)) (ret p)))))"

definition create_mea_scale :: "env \<Rightarrow> 'w drivers \<Rightarrow> ctx \<Rightarrow> string \<Rightarrow> pydict \<Rightarrow> ('w, pyval) mprog" where
  "create_mea_scale E D c i scale =
     bindE (pureE (subscr ''scale'' (PDict scale))) (\<lambda>sc.
     bindE (pureE (subscr ''policy'' sc)) (\<lambda>name.
     bindE (get_mea_policy E D c name i) (\<lambda>found. case found of
         None \<Rightarrow> raise (Exc (Common MeaPolicyNotFound) [(''policy'', name), (''mea_id'', PStr i)])
       | Some p \<Rightarrow> bindE (pureE (subscr ''type'' sc)) (\<lambda>ty.
           thenE (handle_mea_scaling E D c (p\<lparr>pol_action := ty\<rparr>)) (ret sc)))))"

section \<open>The spawned functions\<close>

fun run_task :: "env \<Rightarrow> 'w drivers \<Rightarrow> task \<Rightarrow> ('w, unit) mprog" where
  "run_task E D (CreateWait c md auth drv) = create_task E D c md auth drv"
| "run_task E D (UpdateWait c d auth drv) = update_mea_wait E D c d auth drv"
| "run_task E D (DeleteWait c d auth drv) = delete_mea_wait E D c d auth drv"
| "run_task E D (ScaleWait c p auth drv region ev) = scaling_wait D c p auth drv region ev"

end
