(* ===== verification/MemTriggers.thy ===== *)
theory MemTriggers
  imports MemOps
begin

text \<open>
  The reactions of the MEA manager: policy actions (mem/policy_actions), alarm triggers
  and resource queries (mem/plugin.py) and the rounds of the monitoring thread
  (mem/monitor.py). An action answers the MEA's dictionary, which respawning changes, and
  whether it marked the monitored entry dead.
\<close>

section \<open>Policy actions\<close>

definition action_autoscaling ::
  "env \<Rightarrow> 'w drivers \<Rightarrow> ctx \<Rightarrow> mea_dict \<Rightarrow> pydict \<Rightarrow> ('w, mea_dict \<times> bool) mprog" where
  "action_autoscaling E D c d args =
     thenE (log_monitor_events d ''ActionAutoscalingHeat invoked'')
     (thenE (create_mea_scale E D c (ad_id d) args) (ret (d, False)))"

definition action_log :: "mea_dict \<Rightarrow> ('w, mea_dict \<times> bool) mprog" where
  "action_log d = thenE (log_monitor_events d ''ActionLogOnly invoked'') (ret (d, False))"

definition monitored :: "mea_dict \<Rightarrow> bool" where
  "monitored d \<longleftrightarrow> truthy (dict_get ''monitoring_policy'' PNone (ad_attributes d))"

definition action_log_and_kill ::
  "env \<Rightarrow> 'w drivers \<Rightarrow> ctx \<Rightarrow> mea_dict \<Rightarrow> ('w, mea_dict \<times> bool) mprog" where
  "action_log_and_kill E D c d =
     thenE (log_monitor_events d ''ActionLogAndKill invoked'')
     (bindE (mark_mea_dead (ad_id d)) (\<lambda>marked.
      if \<not> marked then ret (d, False)
      else thenE (whenE (monitored d) (mark_dead (ad_id d)))
        (thenE (plugin_delete_mea E D c (ad_id d)) (ret (d, monitored d)))))"

definition update_failure_count :: "mea_dict \<Rightarrow> exn + mea_dict" where
  "update_failure_count d =
     (case py_int (dict_get ''failure_count'' (PStr ''0'') (ad_attributes d)) of
        Inl is_value \<Rightarrow> Inl (if is_value then value_error else type_error)
      | Inr n \<Rightarrow> (let k = show_int (n + 1) in
          Inr (d\<lparr>ad_attributes := dict_set (''dead_instance_id_'' @ k) (opt_str (ad_instance_id d))
            (dict_set ''failure_count'' (PStr k) (ad_attributes d))\<rparr>)))"

definition delete_heat_stack :: "'w drivers \<Rightarrow> mea_dict \<Rightarrow> pydict \<Rightarrow> ('w, unit) mprog" where
  "delete_heat_stack D d auth =
     thenE (call_raise (dr_heat_delete D auth (region_of (ad_placement_attr d)) (ad_instance_id d)))
       (log_monitor_events d ''ActionRespawnHeat invoked'')"

definition respawn_mea :: "env \<Rightarrow> 'w drivers \<Rightarrow> ctx \<Rightarrow> mea_dict \<Rightarrow> ('w, mea_dict) mprog" where
  "respawn_mea E D c d =
     bindE (create_mea_sync E D c d) (\<lambda>d1. thenE (config_mea E D c d1) (ret d1))"

definition respawn_monitored ::
  "env \<Rightarrow> 'w drivers \<Rightarrow> ctx \<Rightarrow> mea_dict \<Rightarrow> pydict \<Rightarrow> ('w, mea_dict) mprog" where
  "respawn_monitored E D c d auth =
     thenE (mark_dead (ad_id d))
     (thenE (delete_heat_stack D d auth)
     (bindE (respawn_mea E D c d) (\<lambda>d1. thenE (add_mea_to_monitor D c d1) (ret d1))))"

definition respawn_alarmed ::
  "env \<Rightarrow> 'w drivers \<Rightarrow> ctx \<Rightarrow> mea_dict \<Rightarrow> pydict \<Rightarrow> ('w, mea_dict) mprog" where
  "respawn_alarmed E D c d auth =
     (if \<not> truthy (dict_get ''alarming_policy'' PNone (ad_attributes d)) then ret d
      else thenE (delete_heat_stack D d auth)
        (respawn_mea E D c (d\<lparr>ad_attributes := dict_del ''alarming_policy'' (ad_attributes d)\<rparr>)))"

definition action_respawn ::
  "env \<Rightarrow> 'w drivers \<Rightarrow> ctx \<Rightarrow> mea_dict \<Rightarrow> ('w, mea_dict \<times> bool) mprog" where
  "action_respawn E D c d0 =
     bindE (mark_mea_dead (ad_id d0)) (\<lambda>marked.
     if \<not> marked then ret (d0, False)
     else bindE (pureE (update_failure_count d0)) (\<lambda>d1.
       bindE (client_get_vim (e_oslo E) (e_keys E) c (Some (ad_vim_id d0)) PNone) (\<lambda>v.
       bindE (if monitored d1 then respawn_monitored E D c d1 (vres_auth v) else ret d1) (\<lambda>d2.
       bindE (respawn_alarmed E D c d2 (vres_auth v)) (\<lambda>d3. ret (d3, monitored d1))))))"

text \<open>\<open>_mea_action.invoke\<close>: only the configured actions are registered, and there is no
  other than these four.\<close>

definition execute_action ::
  "env \<Rightarrow> 'w drivers \<Rightarrow> ctx \<Rightarrow> pyval \<Rightarrow> mea_dict \<Rightarrow> pydict \<Rightarrow> ('w, mea_dict \<times> bool) mprog" where
  "execute_action E D c action d args = (case action of
       PList _ \<Rightarrow> raise type_error
     | PDict _ \<Rightarrow> raise type_error
     | PStr a \<Rightarrow>
         if \<not> List.member (e_actions E) a then raise key_error
         else if a = ''autoscaling'' then action_autoscaling E D c d args
         else if a = ''log'' then action_log d
         else if a = ''log_and_kill'' then action_log_and_kill E D c d
         else if a = ''respawn'' then action_respawn E D c d
         else raise key_error
     | _ \<Rightarrow> raise key_error)"

section \<open>Alarm triggers\<close>

record trigger =
  tr_name :: string
  tr_dict :: pyval
  tr_mea :: mea_dict
  tr_action :: pyval
  tr_params :: pyval

definition get_mea_triggers :: "env \<Rightarrow> 'w drivers \<Rightarrow> ctx \<Rightarrow> string \<Rightarrow> pyval \<Rightarrow> ('w, trigger option) mprog" where
  "get_mea_triggers E D c i name =
     bindE (get_mea_policy_by_type E D c i POLICY_ALARMING) (\<lambda>p.
     bindE (pureE (items_of (pol_properties p))) (\<lambda>triggers.
       ret (map_option (\<lambda>(k, t). \<lparr>tr_name = k, tr_dict = t, tr_mea = pol_mea p, tr_action = PNone, tr_params = PNone\<rparr>)
         (List.find (\<lambda>(k, t). py_eq (PStr k) name) triggers))))"

definition get_mea_trigger :: "env \<Rightarrow> 'w drivers \<Rightarrow> ctx \<Rightarrow> string \<Rightarrow> pyval \<Rightarrow> ('w, trigger) mprog" where
  "get_mea_trigger E D c i name = bindE (get_mea_triggers E D c i name) (\<lambda>found. case found of
       None \<Rightarrow> raise (Exc (Common TriggerNotFound) [(''trigger_name'', name), (''mea_id'', PStr i)])
     | Some t \<Rightarrow> ret t)"

definition process_alarm_for_mea :: "'w drivers \<Rightarrow> string \<Rightarrow> trigger \<Rightarrow> ('w, bool) mprog" where
  "process_alarm_for_mea D i t =
     bindE (pureE (subscr ''data'' (tr_params t))) (\<lambda>data.
     bindE (pureE (get_of ''alarm_id'' PNone data)) (\<lambda>alarm_id.
     bindE (pureE (get_of ''current'' PNone data)) (\<lambda>status.
     bindE (pureE (bindS (subscr ''event_type'' (tr_dict t)) (subscr ''implementation''))) (\<lambda>driver.
       invoke_val (dr_alarm_types D) driver (\<lambda>n. dr_process_alarm D n i
         [(''alarm_id'', alarm_id), (''status'', status)])))))"

text \<open>The policy an action of the trigger names: directly, or as \<open>policy-action\<close>.\<close>

definition backend_of ::
  "env \<Rightarrow> 'w drivers \<Rightarrow> ctx \<Rightarrow> string \<Rightarrow> string \<Rightarrow> ('w, (policy \<times> pyval) option) mprog" where
  "backend_of E D c i action =
     bindE (get_mea_policy E D c (PStr action) i) (\<lambda>found. case found of
       Some p \<Rightarrow> ret (Some (p, PNone))
     | None \<Rightarrow> (case split_char (CHR ''-'') action of
         [name, act] \<Rightarrow> bindE (get_mea_policies E D c i (PStr name) PNone) (\<lambda>ps.
           ret (map_option (\<lambda>p. (p, PStr act)) (first ps)))
       | _ \<Rightarrow> ret None))"

fun collect_actions ::
  "env \<Rightarrow> 'w drivers \<Rightarrow> ctx \<Rightarrow> string \<Rightarrow> string list \<Rightarrow> string list \<Rightarrow> (string \<times> policy \<times> pyval) list \<Rightarrow>
   ('w, string list \<times> (string \<times> policy \<times> pyval) list) mprog" where
  "collect_actions E D c i [] defs customs = ret (defs, customs)"
| "collect_actions E D c i (a # as) defs customs =
     bindE (backend_of E D c i a) (\<lambda>b.
       collect_actions E D c i as (if List.member DEFAULT_ALARM_ACTIONS a then defs @ [a] else defs)
         (case b of None \<Rightarrow> customs | Some (p, act) \<Rightarrow> dict_set (pol_id p) (p, act) customs))"

definition validate_alarming_policy ::
  "env \<Rightarrow> 'w drivers \<Rightarrow> ctx \<Rightarrow> string \<Rightarrow> trigger \<Rightarrow> ('w, string list \<times> (string \<times> policy \<times> pyval) list) mprog" where
  "validate_alarming_policy E D c i t =
     bindE (process_alarm_for_mea D i t) (\<lambda>ok.
     if \<not> ok then raise (Exc (Common AlarmUrlInvalid) [(''mea_id'', PStr i)])
     else bindE (pureE (case tr_action t of PStr a \<Rightarrow> Inr a | _ \<Rightarrow> Inl attribute_error)) (\<lambda>a.
       collect_actions E D c i (split_char (CHR ''%'') a) [] []))"

fun run_defaults :: "env \<Rightarrow> 'w drivers \<Rightarrow> ctx \<Rightarrow> string list \<Rightarrow> mea_dict \<Rightarrow> ('w, mea_dict) mprog" where
  "run_defaults E D c [] d = ret d"
| "run_defaults E D c (a # as) d =
     bindE (execute_action E D c (PStr a) d []) (\<lambda>(d1, _). run_defaults E D c as d1)"

text \<open>Scaling is skipped, and with it the actions after it, when the MEA was not active.\<close>

fun run_customs ::
  "env \<Rightarrow> 'w drivers \<Rightarrow> ctx \<Rightarrow> (string \<times> policy \<times> pyval) list \<Rightarrow> mea_dict \<Rightarrow> ('w, unit) mprog" where
  "run_customs E D c [] d = ret ()"
| "run_customs E D c ((_, p, act) # rest) d =
     (if \<not> py_eq (pol_type p) (PStr POLICY_SCALING) then run_customs E D c rest d
      else if ad_status d \<noteq> ACTIVE then ret ()
      else bindE (execute_action E D c (PStr ''autoscaling'') d
          [(''scale'', PDict [(''type'', act), (''policy'', PStr (pol_name p))])]) (\<lambda>(d1, _).
        run_customs E D c rest d1))"

definition handle_mea_monitoring ::
  "env \<Rightarrow> 'w drivers \<Rightarrow> ctx \<Rightarrow> trigger \<Rightarrow> string list \<times> (string \<times> policy \<times> pyval) list \<Rightarrow> ('w, unit) mprog" where
  "handle_mea_monitoring E D c t = (\<lambda>(defs, customs).
     bindE (if py_in (tr_action t) (map PStr DEFAULT_ALARM_ACTIONS)
            then bindE (execute_action E D c (tr_action t) (tr_mea t) []) (\<lambda>(d, _). ret d)
            else ret (tr_mea t)) (\<lambda>d.
     bindE (run_defaults E D c defs d) (run_customs E D c customs)))"

definition create_mea_trigger :: "env \<Rightarrow> 'w drivers \<Rightarrow> ctx \<Rightarrow> string \<Rightarrow> pyval \<Rightarrow> ('w, pyval) mprog" where
  "create_mea_trigger E D c i body =
     bindE (pureE (subscr ''policy_name'' body)) (\<lambda>name.
     bindE (get_mea_trigger E D c i name) (\<lambda>t.
     bindE (pureE (subscr ''action_name'' body)) (\<lambda>action.
     bindE (pureE (subscr ''params'' body)) (\<lambda>params.
     let t1 = t\<lparr>tr_action := action, tr_params := params\<rparr> in
     bindE (validate_alarming_policy E D c i t1) (\<lambda>acts.
       thenE (handle_mea_monitoring E D c t1 acts) (ret body))))))"

section \<open>Resources\<close>

definition get_mea_resources :: "env \<Rightarrow> 'w drivers \<Rightarrow> ctx \<Rightarrow> string \<Rightarrow> ('w, pydict list) mprog" where
  "get_mea_resources E D c i =
     bindE (get_mea (e_oslo E) c i) (\<lambda>d0.
     bindE (get_infra_driver E c d0) (\<lambda>(drv, auth, d).
     if ad_status d \<noteq> ACTIVE then raise (Exc (Mem MEAInactive) [(''mea_id'', PStr i), (''message'', PStr '' Cannot fetch details'')])
     else bindE (invoke (dr_infra_types D) drv (dr_resource_info D drv c d auth)) (\<lambda>details.
       pureE (mapS (\<lambda>(name, info). bindS (get_of ''type'' PNone info) (\<lambda>ty.
         bindS (get_of ''id'' PNone info) (\<lambda>j.
           Inr [(''name'', PStr name), (''type'', ty), (''id'', j)]))) details))))"

section \<open>Monitoring rounds\<close>

text \<open>\<open>timeutils.is_older_than\<close>, in seconds.\<close>

definition older_than :: "datetime \<Rightarrow> datetime \<Rightarrow> pyval \<Rightarrow> exn + bool" where
  "older_than now since delay = (case delay of
       PInt n \<Rightarrow> Inr (int now - int since > n)
     | PBool b \<Rightarrow> Inr (int now - int since > of_bool b) | _ \<Rightarrow> Inl type_error)"

text \<open>\<open>actions[driver_return]\<close>, if it is there.\<close>

definition chosen_action :: "pyval \<Rightarrow> pyval \<Rightarrow> exn + pyval option" where
  "chosen_action actions answer = (case actions of
       PDict m \<Rightarrow> (case answer of PStr k \<Rightarrow> Inr (map_of m k)
         | PList _ \<Rightarrow> Inl type_error | PDict _ \<Rightarrow> Inl type_error | _ \<Rightarrow> Inr None)
     | PList xs \<Rightarrow> if py_in answer xs then Inl type_error else Inr None
     | PStr s \<Rightarrow> (case answer of PStr k \<Rightarrow> if str_in k s then Inl type_error else Inr None | _ \<Rightarrow> Inl type_error)
     | _ \<Rightarrow> Inl type_error)"

text \<open>The parameters of a driver; the address of the unit is filled in when missing (the
  code keeps it in the policy, where the next round finds the same value).\<close>

definition with_mgmt_ip :: "pyval \<Rightarrow> string \<Rightarrow> pydict \<Rightarrow> exn + pydict" where
  "with_mgmt_ip ips vdu params = (if has_key ''mgmt_ip'' params then Inr params
     else bindS (subscr vdu ips) (\<lambda>ip. Inr (dict_set ''mgmt_ip'' ip params)))"

text \<open>One driver of a unit: the dictionary, and whether the entry is dead now.\<close>

definition monitor_driver ::
  "env \<Rightarrow> 'w drivers \<Rightarrow> hosting_mea \<Rightarrow> string \<Rightarrow> pyval \<Rightarrow> string \<times> pyval \<Rightarrow> mea_dict \<times> bool \<Rightarrow>
   ('w, mea_dict \<times> bool) mprog" where
  "monitor_driver E D h vdu mea_delay = (\<lambda>(driver, p) (d, dead).
     bindE (pureE (get_of ''monitoring_params'' (PDict []) p)) (\<lambda>params0.
     bindE (pureE (get_of ''monitoring_delay'' mea_delay params0)) (\<lambda>delay.
     bindE utcnow (\<lambda>now.
     bindE (pureE (older_than now (hm_boot_at h) delay)) (\<lambda>due.
     if \<not> due then ret (d, dead) else
       bindE (pureE (get_of ''actions'' (PDict []) p)) (\<lambda>actions.
       bindE (pureE (bindS (dict_of params0) (with_mgmt_ip (hm_ips h) vdu))) (\<lambda>params.
       bindE (invoke (dr_monitor_types D) driver (dr_monitor_call D driver d params)) (\<lambda>answer.
       bindE (pureE (chosen_action actions answer)) (\<lambda>chosen. case chosen of
           None \<Rightarrow> ret (d, dead)
         | Some a \<Rightarrow> bindE (execute_action E D (hm_context h) a d []) (\<lambda>(d1, marked).
             ret (d1, dead \<or> marked)))))))))))"

fun foldE :: "('a \<Rightarrow> 'b \<Rightarrow> ('s, 'b) prog) \<Rightarrow> 'a list \<Rightarrow> 'b \<Rightarrow> ('s, 'b) prog" where
  "foldE f [] acc = ret acc"
| "foldE f (x # xs) acc = bindE (f x acc) (foldE f xs)"

definition monitor_vdu ::
  "env \<Rightarrow> 'w drivers \<Rightarrow> hosting_mea \<Rightarrow> pyval \<Rightarrow> string \<times> pyval \<Rightarrow> mea_dict \<times> bool \<Rightarrow> ('w, mea_dict \<times> bool) mprog" where
  "monitor_vdu E D h mea_delay = (\<lambda>(vdu, p) (d, dead). if dead then ret (d, dead)
     else bindE (pureE (items_of p)) (\<lambda>drivers. foldE (monitor_driver E D h vdu mea_delay) drivers (d, dead)))"

definition run_monitor :: "env \<Rightarrow> 'w drivers \<Rightarrow> hosting_mea \<Rightarrow> ('w, unit) mprog" where
  "run_monitor E D h =
     bindE (pureE (subscr ''vdus'' (hm_policy h))) (\<lambda>vdus.
     bindE (pureE (get_of ''monitoring_delay'' (PInt (e_boot_wait E)) (hm_policy h))) (\<lambda>mea_delay.
     bindE (pureE (items_of vdus)) (\<lambda>units.
       thenE (foldE (monitor_vdu E D h mea_delay) units (hm_mea h, False)) (ret ()))))"

text \<open>One round of the thread. The iteration over the dictionary of monitored MEAs checks
  at each step that its size has not changed.\<close>

fun monitor_entries :: "env \<Rightarrow> 'w drivers \<Rightarrow> nat \<Rightarrow> string list \<Rightarrow> ('w, unit) mprog" where
  "monitor_entries E D n [] = bindE (gets p_hosting) (\<lambda>hs.
     if length hs \<noteq> n then raise runtime_error else ret ())"
| "monitor_entries E D n (k # ks) = bindE (gets p_hosting) (\<lambda>hs.
     if length hs \<noteq> n then raise runtime_error
     else case map_of hs k of
       None \<Rightarrow> raise runtime_error
     | Some h \<Rightarrow> thenE (whenE (\<not> hm_dead h) (run_monitor E D h)) (monitor_entries E D n ks))"

definition monitor_round :: "env \<Rightarrow> 'w drivers \<Rightarrow> ('w, unit) mprog" where
  "monitor_round E D = bindE (gets p_hosting) (\<lambda>hs. monitor_entries E D (length hs) (map fst hs))"

text \<open>The thread: rounds until one of them raises.\<close>

fun monitor_thread :: "env \<Rightarrow> 'w drivers \<Rightarrow> nat \<Rightarrow> ('w, unit) mprog" where
  "monitor_thread E D 0 = ret ()"
| "monitor_thread E D (Suc n) = thenE (monitor_round E D) (monitor_thread E D n)"

end
