(* ===== verification/MemTraces.thy ===== *)
theory MemTraces
  imports MemTriggers Lifecycle
begin

text \<open>
  Every handler, spawned function, policy action and monitoring round of the MEA manager
  takes each MEA along moves of the abstract machine of \<open>Lifecycle\<close>, whatever the drivers
  do: the database operations it is composed of do, and nothing else touches the tables.
\<close>

definition traces :: "'x db_scheme \<Rightarrow> 'x db_scheme \<Rightarrow> bool" where
  "traces s t \<longleftrightarrow> (db_ok s \<longrightarrow> db_ok t \<and> (\<forall>i. mea_moves\<^sup>*\<^sup>* (mea_state s i) (mea_state t i)))"

interpretation traces: effect_relation traces
  by unfold_locales (auto simp: traces_def intro: rtranclp_trans)

lemma traces_lives: "obeys lives m \<Longrightarrow> obeys traces m"
  unfolding obeys_def lives_def traces_def
  by (metis (mono_tags) rtranclp.rtrancl_refl r_into_rtranclp sup2E)

lemma traces_stutters: "obeys stutters m \<Longrightarrow> obeys traces m"
  by (rule traces_lives [OF lives.move_frame])

section \<open>Case distinctions\<close>

lemma obeys_if: "(b \<Longrightarrow> obeys R x) \<Longrightarrow> (\<not> b \<Longrightarrow> obeys R y) \<Longrightarrow> obeys R (if b then x else y)"
  by simp

lemma obeys_option: "obeys R x \<Longrightarrow> (\<And>v. obeys R (f v)) \<Longrightarrow> obeys R (case y of None \<Rightarrow> x | Some v \<Rightarrow> f v)"
  by (cases y) simp_all

lemma obeys_sum: "(\<And>e. obeys R (f e)) \<Longrightarrow> (\<And>v. obeys R (g v)) \<Longrightarrow> obeys R (case y of Inl e \<Rightarrow> f e | Inr v \<Rightarrow> g v)"
  by (cases y) simp_all

lemma obeys_prod: "(\<And>a b. obeys R (f a b)) \<Longrightarrow> obeys R (case p of (a, b) \<Rightarrow> f a b)"
  by (cases p) simp

lemma obeys_prod2: "(\<And>a b. obeys R (f a b y)) \<Longrightarrow> obeys R ((case p of (a, b) \<Rightarrow> f a b) y)"
  by (cases p) simp

lemma obeys_list: "obeys R x \<Longrightarrow> (\<And>v vs. obeys R (f v vs)) \<Longrightarrow> obeys R (case y of [] \<Rightarrow> x | v # vs \<Rightarrow> f v vs)"
  by (cases y) simp_all

lemma obeys_pyval:
  "obeys R x1 \<Longrightarrow> obeys R x2 \<Longrightarrow> (\<And>v. obeys R (x3 v)) \<Longrightarrow> (\<And>v. obeys R (x4 v)) \<Longrightarrow> (\<And>v. obeys R (x5 v)) \<Longrightarrow>
   (\<And>v. obeys R (x6 v)) \<Longrightarrow> (\<And>v. obeys R (x7 v)) \<Longrightarrow> obeys R (case_pyval x1 x2 x3 x4 x5 x6 x7 y)"
  by (cases y) simp_all

lemmas obeys_cases = obeys_if obeys_option obeys_sum obeys_prod2 obeys_prod obeys_list obeys_pyval

section \<open>The primitives\<close>

lemma traces_more:
  "db_ok (s\<lparr>p_hosting := hs\<rparr>) = db_ok s" "db_ok (s\<lparr>p_tasks := ts\<rparr>) = db_ok s" "db_ok (s\<lparr>p_world := w\<rparr>) = db_ok s"
  "mea_state (s\<lparr>p_hosting := hs\<rparr>) i = mea_state s i" "mea_state (s\<lparr>p_tasks := ts\<rparr>) i = mea_state s i"
  "mea_state (s\<lparr>p_world := w\<rparr>) i = mea_state s i"
  by (simp_all add: db_ok_def wf_defs mea_state_def)

lemma traces_modify_more:
  "obeys traces (modify (\<lambda>s. s\<lparr>p_hosting := f s\<rparr>) :: ('w, unit) mprog)"
  "obeys traces (modify (\<lambda>s. s\<lparr>p_tasks := g s\<rparr>) :: ('w, unit) mprog)"
  by (auto simp: obeys_def traces_def traces_more)

lemma traces_call: "obeys traces (call f)"
  by (auto simp: obeys_def traces_def traces_more call_def split: prod.splits)

lemma traces_unchanged: "(\<And>s. snd (m s) = s) \<Longrightarrow> obeys traces m"
  by (simp add: obeys_def traces.R_refl)

lemma traces_get_mea: "obeys traces (get_mea E c i)"
  by (rule traces_unchanged) (simp add: get_mea_def)

lemma traces_client_get_vim: "obeys traces (client_get_vim E K c i r)"
  by (rule traces_unchanged) (simp add: client_get_vim_state)

lemma traces_generate_uuid: "obeys traces (generate_uuid E)"
  by (intro traces_stutters stutters_frame wf_generate_uuid frame_generate_uuid)

lemma traces_create_mead: "obeys traces (create_mead E c req)"
  by (intro traces_stutters stutters_frame wf_create_mead frame_create_mead)

lemma traces_scale_start: "st = PENDING_SCALE_IN \<or> st = PENDING_SCALE_OUT \<Longrightarrow>
    obeys traces (update_mea_scaling_status c i [ACTIVE] st None)"
  by (intro traces_lives lives_update_mea_scaling_status) (auto intro!: scale_start)

lemma traces_scale_end: "st = PENDING_SCALE_IN \<or> st = PENDING_SCALE_OUT \<Longrightarrow> new = ACTIVE \<or> new = ERROR \<Longrightarrow>
    obeys traces (update_mea_scaling_status c i [st] new url)"
  by (intro traces_lives lives_update_mea_scaling_status) (auto intro!: scale_done scale_failed)

lemmas traces_db = traces_get_mea traces_client_get_vim traces_generate_uuid traces_create_mead
  traces_lives [OF lives_create_mea_pre] traces_lives [OF lives_create_mea_post]
  traces_lives [OF lives_update_mea_pre] traces_lives [OF lives_update_mea_post]
  traces_lives [OF lives_delete_mea_pre] traces_lives [OF lives_delete_mea_post]
  traces_lives [OF lives_set_mea_error_status_reason] traces_lives [OF lives_create_mea_status]
  traces_lives [OF lives_mark_mea_dead] traces_stutters [OF stutters_mea_event]
  traces_stutters [OF stutters_utcnow]

lemmas traces_prims = traces.r_intros obeys_cases traces_modify_more traces_call traces_db

section \<open>Calls and policies\<close>

lemma traces_calls:
  "obeys traces (call_raise f)" "obeys traces (invoke ts n g)" "obeys traces (invoke_val ts v h)"
  "obeys traces (invoke_mea D n d k)" "obeys traces (mgmt_try D m c d)" "obeys traces (mgmt D m c d)"
  unfolding call_raise_def invoke_def invoke_val_def invoke_mea_def mgmt_def mgmt_try_def
  by (intro traces_prims)+

lemma traces_attempt: "obeys traces m \<Longrightarrow> obeys traces (attempt m)"
  unfolding attempt_def by (intro traces_prims)

lemma traces_and_then: "obeys traces m \<Longrightarrow> (\<And>d. obeys traces (k d)) \<Longrightarrow> obeys traces (and_then m k)"
  unfolding and_then_def by (intro traces_prims)

lemma traces_reraise_after: "obeys traces h \<Longrightarrow> obeys traces (reraise_after e h)"
  unfolding reraise_after_def by (intro traces_prims)

lemma traces_small: "obeys traces (spawn_n t)" "obeys traces (delete_hosting_mea i)"
  "obeys traces (log_monitor_events d x)" "obeys traces (mark_dead i)" "obeys traces (add_hosting_mea h)"
  "obeys traces (add_mea_to_monitor D c d)" "obeys traces (generate_resource_name D r p)"
  "obeys traces (vim_of E c v pl)" "obeys traces (get_infra_driver E c d)" "obeys traces (req_infra_driver E c q)"
  unfolding spawn_n_def delete_hosting_mea_def log_monitor_events_def mark_dead_def add_hosting_mea_def
    add_mea_to_monitor_def generate_resource_name_def vim_of_def get_infra_driver_def req_infra_driver_def
  by (intro traces_prims)+

lemma traces_policy_loop: "obeys traces (policy_loop E mea name ty ps)"
proof (induction ps)
  case (Cons p ps)
  obtain k v where p: "p = (k, v)" by (cases p)
  show ?case
    unfolding p policy_loop.simps make_policy_dict_def by (intro traces_prims Cons.IH)
qed (simp only: policy_loop.simps traces.r_ret)

lemma traces_get_mea_policies: "obeys traces (get_mea_policies E D c i name ty)"
  unfolding get_mea_policies_def by (intro traces_prims traces_policy_loop)

lemma traces_policies: "obeys traces (get_mea_policy E D c v i)" "obeys traces (get_mea_policy_by_type E D c i ty)"
  unfolding get_mea_policy_def get_mea_policy_by_type_def by (intro traces_prims traces_get_mea_policies)+

lemma traces_set_alarms: "obeys traces (set_alarms E D c mea ts urls)"
proof (induction ts arbitrary: urls)
  case (Cons p ts)
  obtain k v where p: "p = (k, v)" by (cases p)
  show ?case
    unfolding p set_alarms.simps alarm_action_def
    by (intro traces_prims traces_calls traces_small traces_get_mea_policies Cons.IH)
qed (simp only: set_alarms.simps traces.r_ret)

lemma traces_alarm_policies: "obeys traces (alarm_policies E D c d ps)"
proof (induction ps)
  case (Cons p ps)
  show ?case
    unfolding alarm_policies.simps update_mea_with_alarm_def by (intro traces_prims traces_set_alarms Cons.IH)
qed (simp only: alarm_policies.simps traces.r_ret)

lemma traces_add_alarm_url: "obeys traces (add_alarm_url_to_mea E D c d)"
  unfolding add_alarm_url_to_mea_def by (intro traces_prims traces_alarm_policies)

lemma traces_plugin_create_mead: "obeys traces (plugin_create_mead E D c req)"
  unfolding plugin_create_mead_def Let_def by (intro traces_prims)

lemmas traces_calls_intros = traces_prims traces_calls traces_attempt traces_and_then traces_reraise_after
  traces_small traces_get_mea_policies traces_policies traces_add_alarm_url traces_plugin_create_mead

section \<open>Handlers\<close>

lemma traces_delete_failed: "obeys traces (delete_failed E D c d e)"
  unfolding delete_failed_def Let_def by (intro traces_calls_intros)

lemma traces_delete_calls: "obeys traces (delete_calls D c drv auth d)"
  unfolding delete_calls_def by (intro traces_calls_intros)

lemma traces_plugin_delete_mea: "obeys traces (plugin_delete_mea E D c i)"
  unfolding plugin_delete_mea_def by (intro traces_calls_intros traces_delete_calls traces_delete_failed)

lemma traces_delete_mea_wait: "obeys traces (delete_mea_wait E D c d auth drv)"
  unfolding delete_mea_wait_def by (intro traces_calls_intros traces_delete_failed)

lemma traces_create_in_infra: "obeys traces (create_in_infra E D c mea auth drv)"
  unfolding create_in_infra_def by (intro traces_calls_intros traces_plugin_delete_mea)

lemma bindE_assoc: "bindE (bindE m k) h = bindE m (\<lambda>x. bindE (k x) h)"
  by (rule ext) (simp add: bindE_def split: prod.splits sum.splits)

lemma traces_configured:
  assumes "\<And>st. st = ACTIVE \<or> st = ERROR \<Longrightarrow> obeys traces (k st)"
  shows "obeys traces (bindE (configured c i reason r) k)"
proof (cases r)
  case (Inl e)
  have "obeys traces (bindE (thenE (set_mea_error_status_reason c i (Some reason)) (ret ERROR)) k)"
    unfolding thenE_def bindE_assoc bindE_ret by (intro traces_prims assms) simp
  with Inl show ?thesis by (simp add: configured_def traces.r_intros)
next
  case (Inr u)
  then show ?thesis by (simp add: configured_def assms)
qed

lemma traces_wait_for_creation: "obeys traces (wait_for_creation D c i rd)"
  unfolding wait_for_creation_def by (intro traces_prims)

lemma traces_create_mea_wait: "obeys traces (create_mea_wait E D c d auth drv)"
  unfolding create_mea_wait_def Let_def
  by (intro traces_calls_intros traces_wait_for_creation traces_configured)

lemma traces_plugin_create_mea: "obeys traces (plugin_create_mea E D c template req)"
  unfolding plugin_create_mea_def inline_mead_def by (intro traces_calls_intros traces_create_in_infra)

lemma traces_create_mea_sync: "obeys traces (create_mea_sync E D c d)"
  unfolding create_mea_sync_def by (intro traces_calls_intros traces_create_in_infra traces_create_mea_wait)

lemma traces_plugin_update_mea: "obeys traces (plugin_update_mea E D c i body)"
  unfolding plugin_update_mea_def update_calls_def update_failed_def
  by (intro traces_calls_intros) simp_all

lemma traces_update_mea_wait: "obeys traces (update_mea_wait E D c d auth drv)"
proof -
  have "obeys traces (bindE (mgmt D mgmt_update_post c d) (\<lambda>d2. update_mea_post (e_oslo E) c (ad_id d2) st (ad_attributes d2)))"
    if "st = ACTIVE \<or> st = ERROR" for st d
    using that by (intro traces_calls_intros)
  then have ending: "obeys traces (bindE (case r of Inr _ \<Rightarrow> ret ACTIVE
       | Inl e \<Rightarrow> if isinstance e (Common MgmtDriverException)
           then thenE (delete_hosting_mea (ad_id d))
             (thenE (set_mea_error_status_reason c (ad_id d) (Some (dr_text D e))) (ret ERROR))
           else raise e) (\<lambda>st. bindE (mgmt D mgmt_update_post c (d\<lparr>ad_status := st\<rparr>)) (\<lambda>d2.
       update_mea_post (e_oslo E) c (ad_id d2) st (ad_attributes d2))))" for r :: "exn + unit" and d
    by (cases r; cases "isinstance (projl r) (Common MgmtDriverException)")
       (simp_all only: sum.case sum.sel if_True if_False bindE_ret bindE_raise thenE_def bindE_assoc,
        (intro traces_calls_intros | simp)+)
  show ?thesis
    unfolding update_mea_wait_def
    by (rule traces.r_bindE, (intro traces_calls_intros)[1], rule obeys_prod, rule ending)
qed

lemma traces_config_mea: "obeys traces (config_mea E D c d)"
  unfolding config_mea_def Let_def by (intro traces_calls_intros traces_plugin_update_mea)

lemma traces_create_task: "obeys traces (create_task E D c md auth drv)"
  unfolding create_task_def by (intro traces_calls_intros traces_create_mea_wait traces_config_mea)

lemma traces_scaling_pre: "obeys traces (scaling_pre c p)"
  unfolding scaling_pre_def by (rule traces_scale_start) (simp add: scaling_status_def)

lemma traces_scaling_post: "new = ACTIVE \<or> new = ERROR \<Longrightarrow> obeys traces (scaling_post c p new url)"
  unfolding scaling_post_def
  by (intro traces.r_thenE traces.r_ret traces_scale_end) (simp_all add: scaling_status_def)

lemma traces_scaling_failed: "obeys traces (scaling_failed D c p e)"
  unfolding scaling_failed_def by (intro traces_calls_intros traces_scaling_post) simp

lemma traces_handle_mea_scaling: "obeys traces (handle_mea_scaling E D c p)"
  unfolding handle_mea_scaling_def scaling_action_def Let_def
  by (intro traces_calls_intros traces_scaling_pre traces_scaling_failed)

lemma traces_scaling_wait: "obeys traces (scaling_wait D c p auth drv region ev)"
  unfolding scaling_wait_def by (intro traces_calls_intros traces_scaling_failed traces_scaling_post) simp

lemma traces_create_mea_scale: "obeys traces (create_mea_scale E D c i scale)"
  unfolding create_mea_scale_def by (intro traces_calls_intros traces_handle_mea_scaling)

lemma traces_run_task: "obeys traces (run_task E D t)"
  by (cases t) (simp_all only: run_task.simps traces_create_task traces_update_mea_wait
      traces_delete_mea_wait traces_scaling_wait)

section \<open>Reactions\<close>

lemma traces_respawn: "obeys traces (respawn_mea E D c d)" "obeys traces (delete_heat_stack D d auth)"
  unfolding respawn_mea_def delete_heat_stack_def
  by (intro traces_calls_intros traces_create_mea_sync traces_config_mea)+

lemma traces_execute_action: "obeys traces (execute_action E D c action d args)"
  unfolding execute_action_def action_autoscaling_def action_log_def action_log_and_kill_def
    action_respawn_def respawn_monitored_def respawn_alarmed_def
  by (intro traces_calls_intros traces_create_mea_scale traces_plugin_delete_mea traces_respawn)

lemma traces_collect_actions: "obeys traces (collect_actions E D c i as defs customs)"
proof (induction as arbitrary: defs customs)
  case (Cons a as)
  show ?case
    unfolding collect_actions.simps backend_of_def
    by (intro traces_calls_intros Cons.IH)
qed (simp only: collect_actions.simps traces.r_ret)

lemma traces_run_defaults: "obeys traces (run_defaults E D c as d)"
proof (induction as arbitrary: d)
  case (Cons a as)
  show ?case unfolding run_defaults.simps by (intro traces_calls_intros traces_execute_action Cons.IH)
qed (simp only: run_defaults.simps traces.r_ret)

lemma traces_run_customs: "obeys traces (run_customs E D c ps d)"
proof (induction ps arbitrary: d)
  case (Cons x ps)
  obtain k p act where x: "x = (k, p, act)" by (cases x)
  show ?case unfolding x run_customs.simps by (intro traces_calls_intros traces_execute_action Cons.IH)
qed (simp only: run_customs.simps traces.r_ret)

lemma traces_create_mea_trigger: "obeys traces (create_mea_trigger E D c i body)"
  unfolding create_mea_trigger_def get_mea_trigger_def get_mea_triggers_def validate_alarming_policy_def
    process_alarm_for_mea_def handle_mea_monitoring_def Let_def
  by (intro traces_calls_intros traces_execute_action traces_collect_actions traces_run_defaults traces_run_customs)

lemma traces_get_mea_resources: "obeys traces (get_mea_resources E D c i)"
  unfolding get_mea_resources_def by (intro traces_calls_intros)

lemma traces_foldE: "(\<And>x acc. obeys traces (f x acc)) \<Longrightarrow> obeys traces (foldE f xs acc)"
  by (induction xs arbitrary: acc) (simp_all only: foldE.simps traces.r_ret traces.r_bindE)

lemma traces_run_monitor: "obeys traces (run_monitor E D h)"
  unfolding run_monitor_def monitor_vdu_def monitor_driver_def
  by (intro traces_calls_intros traces_foldE traces_execute_action)

lemma traces_monitor_entries: "obeys traces (monitor_entries E D n ks)"
proof (induction ks)
  case Nil
  show ?case unfolding monitor_entries.simps by (intro traces_calls_intros)
next
  case (Cons k ks)
  show ?case unfolding monitor_entries.simps by (intro traces_calls_intros traces_run_monitor Cons.IH)
qed

lemma traces_monitor_round: "obeys traces (monitor_round E D)"
  unfolding monitor_round_def by (intro traces_calls_intros traces_monitor_entries)

end
