(* ===== verification/PluginSamples.thy ===== *)
theory PluginSamples
  imports MemTraces Samples
begin

text \<open>
  Concrete drivers and states of the MEA manager for the witnesses. The world is the
  list of the driver calls that are to fail.
\<close>

definition sample_template :: pyval where
  "sample_template = PDict [(''tosca_definitions_version'', PStr ''mec''),
     (''topology_template'', PDict [(''policies'', PList [
        PDict [(''SP1'', PDict [(''type'', PStr POLICY_SCALING), (''properties'', PDict [(''max'', PInt 3)])])],
        PDict [(''mon'', PDict [(''type'', PStr POLICY_ALARMING), (''triggers'', PDict [
          (''t1'', PDict [(''event_type'', PDict [(''implementation'', PStr ''ceilometer'')]),
             (''condition'', PDict [(''comparison_operator'', PStr ''gt'')]),
             (''action'', PList [PStr ''SP1''])])])])]])])]"

definition outcome :: "string \<Rightarrow> exn \<Rightarrow> 'a \<Rightarrow> string list \<Rightarrow> exn + 'a" where
  "outcome name e x w = (if List.member w name then Inl e else Inr x)"

definition sample_drivers :: "string list drivers" where
  "sample_drivers = \<lparr>dr_infra_types = [''openstack''],
     dr_create = (\<lambda>t c auth d w. ((outcome ''create'' (Exc (Mem HeatClientException) []) (Some ''stack'') w, d), w)),
     dr_create_wait = (\<lambda>t c i auth d w.
       ((outcome ''create_wait'' (Exc (Mem MEACreateWaitFailed) []) () w, d\<lparr>ad_mgmt_url := Some ''url''\<rparr>), w)),
     dr_update = (\<lambda>t c i auth body d w. ((outcome ''update'' (Exc (Mem HeatClientException) []) () w, d), w)),
     dr_update_wait = (\<lambda>t c i auth r w. (outcome ''update_wait'' (Exc (Common MgmtDriverException) []) () w, w)),
     dr_delete = (\<lambda>t c i auth r w. (outcome ''delete'' (Exc (Mem HeatClientException) []) () w, w)),
     dr_delete_wait = (\<lambda>t c i auth r w. (outcome ''delete_wait'' (Exc (Mem MEADeleteWaitFailed) []) () w, w)),
     dr_scale = (\<lambda>t c auth p r w. (outcome ''scale'' (Exc (Mem HeatClientException) []) (PStr ''ev'') w, w)),
     dr_scale_wait = (\<lambda>t c auth p r ev w. (outcome ''scale_wait'' (Exc (Mem MEAScaleWaitFailed) []) (Some ''new'') w, w)),
     dr_resource_info = (\<lambda>t c d auth w. (Inr [(''VDU1'', PDict [(''id'', PStr ''r1''), (''type'', PStr ''server'')])], w)),
     dr_mgmt = (\<lambda>m name c d w. ((Inr (), d), w)),
     dr_alarm_types = [''ceilometer''],
     dr_alarm_url = (\<lambda>t d p w. (Inr (PStr ''http''), w)),
     dr_process_alarm = (\<lambda>t i a w. (Inr (py_eq (dict_get ''status'' PNone a) (PStr ''alarm'')), w)),
     dr_monitor_types = [''ping''],
     dr_monitor_call = (\<lambda>t d p w. (Inr (if List.member w ''ping'' then PStr ''failure'' else PBool True), w)),
     dr_heat_delete = (\<lambda>auth r i w. (Inr (), w)),
     dr_random = (\<lambda>w. (''0123456789abcdef'', w)),
     dr_yaml_load = (\<lambda>v. Inr (if v = PStr ''x'' then sample_template else PDict [])),
     dr_yaml_dump = (\<lambda>v. ''y''),
     dr_json_load = (\<lambda>v. Inr (PDict [(''vdus'', PDict [(''VDU1'', PDict [(''ping'', PDict [
         (''actions'', PDict [(''failure'', PStr ''log_and_kill'')])])])])])),
     dr_parse_tosca = (\<lambda>v. Inr \<lparr>t_nodes = [], t_policies = []\<rparr>),
     dr_text = (\<lambda>e. ''failed'')\<rparr>"

definition plug_env :: env where
  "plug_env = \<lparr>e_oslo = sample_oslo,
     e_keys = \<lparr>key_of_secret = (\<lambda>c i. Inr ''k''), key_of_vim = (\<lambda>i. Inr ''k''), decrypt = (\<lambda>k p. Inr p)\<rparr>,
     e_actions = [''autoscaling'', ''respawn'', ''log'', ''log_and_kill''], e_boot_wait = 30\<rparr>"

definition plug_of :: "db \<Rightarrow> 'w \<Rightarrow> 'w plug" where
  "plug_of s w = db.extend s (plug.fields [] [] w)"

definition active_mea :: "string list plug" where
  "active_mea = (let s = plug_of with_mea [] in
     s\<lparr>t_meas := map (\<lambda>r. r\<lparr>ma_status := ACTIVE, ma_instance_id := Some ''stack'', ma_mgmt_url := Some ''url''\<rparr>) (t_meas s)\<rparr>)"

end
