(* ===== verification/PluginProps.thy ===== *)
theory PluginProps
  imports PluginSamples MemFunc
begin

text \<open>
  Properties of the MEA manager: its life cycle over any sequence of requests, spawned
  functions and monitoring rounds, and what the handlers promise of a single MEA.
\<close>

section \<open>Taking an MEA\<close>

lemma bindE_ret_id: "bindE m (\<lambda>r. ret r) = m"
  by (rule ext) (simp add: bindE_def ret_def split: prod.splits sum.splits)

lemma get_mea_db_result:
  assumes "get_mea_db c i current new s = (Inr r, t)"
  shows "uuid_ok i \<and> (\<exists>q. mea_rows c i (List.member current) s = [q] \<and> ma_status q \<noteq> PENDING_UPDATE \<and> ma_id q = i
    \<and> r = q\<lparr>ma_status := new\<rparr> \<and> t = s\<lparr>t_meas := update_where (\<lambda>p. ma_id p = i) (\<lambda>p. p\<lparr>ma_status := new\<rparr>) (t_meas s)\<rparr>)"
proof -
  from assms obtain q where u: "uuid_ok i" and q: "one (mea_rows c i (List.member current) s) = Inr q"
    and np: "ma_status q \<noteq> PENDING_UPDATE"
    and r: "r = q\<lparr>ma_status := new\<rparr>" and t: "t = s\<lparr>t_meas := update_where (\<lambda>p. ma_id p = ma_id q) (\<lambda>p. p\<lparr>ma_status := new\<rparr>) (t_meas s)\<rparr>"
    by (cases "uuid_ok i"; cases "one (mea_rows c i (List.member current) s)")
       (auto simp: get_mea_db_def bind_uuids_def eff_simps when_absent_def set_mea_def update_meas_def
         readE_def split: if_splits)
  from one_mea_rows [OF q] have "ma_id q = i" by blast
  with u q np r t show ?thesis by (auto simp: one_Inr)
qed

text \<open>The outcome of the operations that take an MEA for a change: one visible row, not in
  an update, goes to the new status; the event is the only other change.\<close>

definition taken :: "ctx \<Rightarrow> string \<Rightarrow> status list \<Rightarrow> status \<Rightarrow> 'x db_scheme \<Rightarrow> mea_dict \<Rightarrow> 'x db_scheme \<Rightarrow> bool" where
  "taken c i current new s d t \<longleftrightarrow> uuid_ok i \<and> ad_id d = i \<and> ad_status d = new \<and>
     (\<exists>q ev. mea_rows c i (List.member current) s = [q] \<and> ma_status q \<noteq> PENDING_UPDATE \<and>
        t = s\<lparr>t_meas := update_where (\<lambda>p. ma_id p = i) (\<lambda>p. p\<lparr>ma_status := new\<rparr>) (t_meas s),
              t_events := t_events s @ [ev]\<rparr>)"

lemma make_mea_dict_id: "make_mea_dict s r = Inr d \<Longrightarrow> ad_id d = ma_id r \<and> ad_status d = ma_status r"
  by (auto simp: make_mea_dict_def split: option.splits)

lemma mea_event_ok: "uuid_ok i \<Longrightarrow> mea_event i st e x s = (Inr (), s\<lparr>t_events := t_events s @
     [\<lparr>ev_resource_id = i, ev_resource_state = status_str st, ev_resource_type = RES_TYPE_MEA,
       ev_timestamp = clock s, ev_event_type = e, ev_event_details = x\<rparr>]\<rparr>)"
  by (simp add: mea_event_def bindE_def utcnow_def create_event_ok)

lemma takenI:
  assumes "bindE (tx (get_mea_db c i current new)) (\<lambda>r. bindE (readE (\<lambda>s. make_mea_dict s r)) (\<lambda>d.
     thenE (mea_event (f d) (ad_status d) e x) (ret d))) s = (Inr d, t)" and "f d = i"
  shows "taken c i current new s d t"
proof -
  from assms obtain r s1 where r: "get_mea_db c i current new s = (Inr r, s1)"
    and d: "make_mea_dict s1 r = Inr d" and ev: "thenE (mea_event (f d) (ad_status d) e x) (ret d) s1 = (Inr d, t)"
    by (auto simp: bindE_app_Inr_iff tx_def atomically_Inr_iff thenE_app_Inr_iff)
  note g = get_mea_db_result [OF r]
  then have "t = s1\<lparr>t_events := t_events s1 @ [\<lparr>ev_resource_id = i, ev_resource_state = status_str (ad_status d),
     ev_resource_type = RES_TYPE_MEA, ev_timestamp = clock s1, ev_event_type = e, ev_event_details = x\<rparr>]\<rparr>"
    using ev assms(2) by (auto simp: mea_event_ok thenE_def bindE_def)
  with g make_mea_dict_id [OF d] show ?thesis by (auto simp: taken_def)
qed

lemma update_mea_pre_taken: "update_mea_pre c i s = (Inr d, t) \<Longrightarrow> taken c i ACTIVE_UPDATE PENDING_UPDATE s d t"
  unfolding update_mea_pre_def by (rule takenI [where f = "\<lambda>d. i"]) simp_all

lemma delete_mea_pre_taken: "delete_mea_pre c i s = (Inr d, t) \<Longrightarrow> taken c i ACTIVE_UPDATE_ERROR_DEAD PENDING_DELETE s d t"
  unfolding delete_mea_pre_def by (rule takenI [where f = "\<lambda>d. i"]) simp_all

lemma scaling_taken:
  assumes "update_mea_scaling_status c i previous new None s = (Inr d, t)"
  shows "taken c i previous new s d t"
proof -
  have run: "bindE (tx (get_mea_db c i previous new)) (\<lambda>r. bindE (readE (\<lambda>s. make_mea_dict s r)) (\<lambda>d.
     thenE (mea_event (ad_id d) (ad_status d) RES_EVT_SCALE []) (ret d))) s = (Inr d, t)"
    using assms by (simp add: update_mea_scaling_status_def bindE_ret_id)
  then obtain r s1 where "get_mea_db c i previous new s = (Inr r, s1)" "make_mea_dict s1 r = Inr d"
    by (auto simp: bindE_app_Inr_iff tx_def atomically_Inr_iff thenE_app_Inr_iff)
  then have "ad_id d = i" using get_mea_db_result make_mea_dict_id by fastforce
  with run show ?thesis by (rule takenI [where f = ad_id])
qed

lemma taken_states:
  assumes "taken c i current new s d t" and "db_ok s"
  shows "\<exists>st. mea_state s i = Live st \<and> List.member current st \<and> st \<noteq> PENDING_UPDATE \<and> mea_state t i = Live new"
proof -
  from assms(1) obtain q ev where q: "mea_rows c i (List.member current) s = [q]" "ma_status q \<noteq> PENDING_UPDATE"
    and t: "t = s\<lparr>t_meas := update_where (\<lambda>p. ma_id p = i) (\<lambda>p. p\<lparr>ma_status := new\<rparr>) (t_meas s), t_events := t_events s @ [ev]\<rparr>"
    by (auto simp: taken_def)
  have row: "q \<in> set (t_meas s)" "ma_id q = i" "List.member current (ma_status q)" "visible c MEA q"
    using one_mea_rows [of c i "List.member current" s q] q(1) by auto
  have "distinct (map ma_id (t_meas s))" using assms(2) by (simp add: db_ok_def wf_defs)
  then have find: "List.find (\<lambda>r. ma_id r = i) (t_meas s) = Some q"
    using find_distinct [of ma_id "t_meas s" q] row(1,2) by simp
  moreover have "ma_deleted_at q = Some datetime_min"
    using row(4) by (simp add: visible_def not_deleted_def MEA_def)
  ultimately have "mea_state s i = Live (ma_status q)" by (simp add: mea_state_def mea_row_state_def)
  moreover have "mea_state t i = Live new"
    using find \<open>ma_deleted_at q = Some datetime_min\<close> row(2)
    by (simp add: t mea_state_def find_update_where mea_row_state_def)
  ultimately show ?thesis using row q by blast
qed

section \<open>An MEA stranded in an update\<close>

lemma mea_rows_by_id: "mea_rows c i ok s = filter (\<lambda>r. visible c MEA r \<and> ok (ma_status r)) (filter (\<lambda>r. ma_id r = i) (t_meas s))"
  unfolding mea_rows_def model_query_def by (simp add: conj_ac)

lemma filter_update_where: "(\<And>x. k (f x) = k x) \<Longrightarrow>
    filter (\<lambda>r. k r = i) (update_where (\<lambda>p. k p = i) f xs) = map f (filter (\<lambda>r. k r = i) xs)"
  by (induction xs) (auto simp: update_where_def)

lemma filter_distinct: "distinct (map k xs) \<Longrightarrow> x \<in> set xs \<Longrightarrow> filter (\<lambda>y. k y = k x) xs = [x]"
  by (induction xs) (auto simp: filter_empty_conv rev_image_eqI)

lemma visible_mea: "visible c MEA r \<longleftrightarrow> (is_admin c \<or> Some (ma_tenant_id r) = tenant_id c) \<and> ma_deleted_at r = Some datetime_min"
  by (simp add: visible_def in_scope_def not_deleted_def MEA_def)

lemma taken_in_update:
  assumes "taken c i current PENDING_UPDATE s d t" and "db_ok s" and "List.member cur PENDING_UPDATE"
  shows "get_mea_db c i cur new t = (Inl (Exc (Mem MEAInUse) [(''mea_id'', PStr i)]), t)"
proof -
  from assms(1) obtain q ev where u: "uuid_ok i" and q: "mea_rows c i (List.member current) s = [q]"
    and t: "t = s\<lparr>t_meas := update_where (\<lambda>p. ma_id p = i) (\<lambda>p. p\<lparr>ma_status := PENDING_UPDATE\<rparr>) (t_meas s), t_events := t_events s @ [ev]\<rparr>"
    by (auto simp: taken_def)
  have row: "q \<in> set (t_meas s)" "ma_id q = i" "visible c MEA q"
    using one_mea_rows [of c i "List.member current" s q] q by auto
  have "distinct (map ma_id (t_meas s))" using assms(2) by (simp add: db_ok_def wf_defs)
  then have only: "filter (\<lambda>r. ma_id r = i) (t_meas s) = [q]"
    using filter_distinct [of ma_id "t_meas s" q] row by simp
  have "visible c MEA (q\<lparr>ma_status := PENDING_UPDATE\<rparr>)"
    using row(3) by (simp add: visible_mea)
  then have "mea_rows c i (List.member cur) t = [q\<lparr>ma_status := PENDING_UPDATE\<rparr>]"
    using only assms(3) by (simp add: mea_rows_by_id t filter_update_where [of ma_id])
  with u show ?thesis
    by (simp add: get_mea_db_def bind_uuids_def when_absent_def readE_def eff_simps)
qed

lemma in_update_refused:
  assumes "taken c i current PENDING_UPDATE s d t" and "db_ok s"
  shows "update_mea_pre c i t = (Inl (Exc (Mem MEAInUse) [(''mea_id'', PStr i)]), t)"
    and "delete_mea_pre c i t = (Inl (Exc (Mem MEAInUse) [(''mea_id'', PStr i)]), t)"
proof -
  have "tx (get_mea_db c i cur new) t = (Inl (Exc (Mem MEAInUse) [(''mea_id'', PStr i)]), t)"
    if "List.member cur PENDING_UPDATE" for cur new
    unfolding tx_def atomically_def taken_in_update [OF assms that] by simp
  then show "update_mea_pre c i t = (Inl (Exc (Mem MEAInUse) [(''mea_id'', PStr i)]), t)"
    and "delete_mea_pre c i t = (Inl (Exc (Mem MEAInUse) [(''mea_id'', PStr i)]), t)"
    unfolding update_mea_pre_def delete_mea_pre_def
    by (simp_all add: bindE_def ACTIVE_UPDATE_def ACTIVE_UPDATE_ERROR_DEAD_def)
qed


text \<open>The VIM is gone; its key cannot be read.\<close>

definition no_key_env :: env where
  "no_key_env = plug_env\<lparr>e_keys := \<lparr>key_of_secret = (\<lambda>c i. Inl key_error), key_of_vim = (\<lambda>i. Inl key_error),
     decrypt = (\<lambda>k p. Inr p)\<rparr>\<rparr>"


section \<open>Effects that touch the world only\<close>

definition only_world :: "'w plug \<Rightarrow> 'w plug \<Rightarrow> bool" where
  "only_world s t \<longleftrightarrow> t = s\<lparr>p_world := p_world t\<rparr>"

interpretation world: effect_relation only_world
proof
  show "only_world s s" for s :: "'w plug" by (simp add: only_world_def)
  show "only_world s u" if "only_world s t" "only_world t u" for s t u :: "'w plug"
    using that unfolding only_world_def by (metis plug.surjective plug.update_convs(3))
qed

lemma world_call: "obeys only_world (call f)"
  by (auto simp: obeys_def only_world_def call_def split: prod.splits)

lemma world_calls:
  "obeys only_world (call_raise f)" "obeys only_world (invoke ts n g)" "obeys only_world (invoke_val ts v h)"
  "obeys only_world (invoke_mea D n d k)" "obeys only_world (mgmt_try D m c d)" "obeys only_world (mgmt D m c d)"
  unfolding call_raise_def invoke_def invoke_val_def invoke_mea_def mgmt_def mgmt_try_def
  by (intro world.r_intros obeys_cases world_call)+

lemma world_attempt: "obeys only_world m \<Longrightarrow> obeys only_world (attempt m)"
  unfolding attempt_def by (intro world.r_intros)

lemma world_and_then: "obeys only_world m \<Longrightarrow> (\<And>d. obeys only_world (k d)) \<Longrightarrow> obeys only_world (and_then m k)"
  unfolding and_then_def by (intro world.r_intros obeys_cases)

lemmas world_intros = world.r_intros obeys_cases world_call world_calls world_attempt world_and_then

lemma only_worldD: "obeys only_world m \<Longrightarrow> m s = (r, t) \<Longrightarrow> \<exists>w. t = s\<lparr>p_world := w\<rparr>"
  using obeysD [of only_world m s] by (auto simp: only_world_def)

lemma get_infra_driver_state: "get_infra_driver E c d s = (r, t) \<Longrightarrow> t = s"
  using client_get_vim_state [of "e_oslo E" "e_keys E" c "Some (ad_vim_id d)" "region_of (ad_placement_attr d)" s]
  by (auto simp: get_infra_driver_def vim_of_def bindE_def split: prod.splits sum.splits)

section \<open>Deleting\<close>

text \<open>C36: An accepted delete request takes a live MEA that is not in an update, a scaling or
  another deletion to PENDING_DELETE, takes it out of monitoring, and leaves exactly one
  new spawned function, which waits for the deletion.\<close>

theorem delete_accepted:
  assumes "plugin_delete_mea E D c i s = (Inr (), t)" and "db_ok s"
  shows "(\<exists>st \<in> {PENDING_CREATE, ACTIVE, ERROR, DEAD}. mea_state s i = Live st)
    \<and> mea_state t i = Live PENDING_DELETE \<and> i \<notin> fst ` set (p_hosting t)
    \<and> (\<exists>d auth drv. p_tasks t = p_tasks s @ [DeleteWait c d auth drv])"
proof -
  from assms(1) obtain d0 s1 drv auth d s1' r d1 s3 where
      pre: "delete_mea_pre c i s = (Inr d0, s1)" and drv: "get_infra_driver E c d0 s1 = (Inr (drv, auth, d), s1')"
    and calls: "delete_calls D c drv auth d (s1'\<lparr>p_hosting := dict_del i (p_hosting s1')\<rparr>) = (Inr (r, d1), s3)"
    and last: "(case r of Inl e \<Rightarrow> reraise_after e (delete_failed E D c d1 e)
        | Inr _ \<Rightarrow> spawn_n (DeleteWait c d1 auth drv)) s3 = (Inr (), t)"
    by (auto simp: plugin_delete_mea_def bindE_app_Inr_iff thenE_app_Inr_iff delete_hosting_mea_def)
  have taken: "taken c i ACTIVE_UPDATE_ERROR_DEAD PENDING_DELETE s d0 s1" using pre by (rule delete_mea_pre_taken)
  have s1: "s1' = s1" using drv by (rule get_infra_driver_state)
  have "obeys only_world (delete_calls D c drv auth d)"
    unfolding delete_calls_def by (intro world_intros)
  then obtain w where "s3 = s1\<lparr>p_hosting := dict_del i (p_hosting s1), p_world := w\<rparr>"
    using only_worldD [where m = "delete_calls D c drv auth d", OF _ calls] by (auto simp: s1)
  moreover from last have "t = s3\<lparr>p_tasks := p_tasks s3 @ [DeleteWait c d1 auth drv]\<rparr>"
    by (auto simp: reraise_after_def thenE_app_Inr_iff spawn_n_def split: sum.splits)
  ultimately have t: "t = s1\<lparr>p_hosting := dict_del i (p_hosting s1), p_tasks := p_tasks s1 @ [DeleteWait c d1 auth drv],
      p_world := w\<rparr>" by simp
  have "p_tasks s1 = p_tasks s" using taken by (auto simp: taken_def)
  moreover from taken_states [OF taken assms(2)] obtain st where
    "mea_state s i = Live st" "List.member ACTIVE_UPDATE_ERROR_DEAD st" "st \<noteq> PENDING_UPDATE" "mea_state s1 i = Live PENDING_DELETE"
    by blast
  ultimately show ?thesis
    by (auto simp: t traces_more ACTIVE_UPDATE_ERROR_DEAD_def keys_dict_del)
qed

lemma active_mea_ok: "db_ok active_mea"
  by code_simp

lemma delete_accepted_witness:
  "\<exists>t. plugin_delete_mea plug_env sample_drivers (user_ctx ''t1'') (sample_uuid 4) active_mea = (Inr (), t)
    \<and> mea_state t (sample_uuid 4) = Live PENDING_DELETE"
proof -
  let ?m = "plugin_delete_mea plug_env sample_drivers (user_ctx ''t1'') (sample_uuid 4) active_mea"
  have "fst ?m = Inr ()" by code_simp
  then have run: "?m = (Inr (), snd ?m)" by (metis prod.collapse)
  show ?thesis using delete_accepted [OF run active_mea_ok] run by blast
qed

section \<open>The manager as a transition system\<close>

text \<open>One step is a request, a spawned function that is run (any of those waiting), a
  monitoring round, or something the manager does not control: the clock and the outside
  world. Whatever the outcome, the state it leaves is the next state.\<close>

inductive plug_step :: "env \<Rightarrow> 'w drivers \<Rightarrow> 'w plug \<Rightarrow> 'w plug \<Rightarrow> bool" for E D where
  ps_create_mead: "plug_step E D s (snd (plugin_create_mead E D c dreq s))"
| ps_create: "plug_step E D s (snd (plugin_create_mea E D c template req s))"
| ps_update: "plug_step E D s (snd (plugin_update_mea E D c i body s))"
| ps_delete: "plug_step E D s (snd (plugin_delete_mea E D c i s))"
| ps_scale: "plug_step E D s (snd (create_mea_scale E D c i scale s))"
| ps_trigger: "plug_step E D s (snd (create_mea_trigger E D c i tbody s))"
| ps_resources: "plug_step E D s (snd (get_mea_resources E D c i s))"
| ps_task: "k \<in> set (p_tasks s) \<Longrightarrow> plug_step E D s (snd (run_task E D k (s\<lparr>p_tasks := remove1 k (p_tasks s)\<rparr>)))"
| ps_monitor: "plug_step E D s (snd (monitor_round E D s))"
| ps_world: "plug_step E D s (s\<lparr>p_world := w\<rparr>)"
| ps_clock: "clock s \<le> now \<Longrightarrow> plug_step E D s (s\<lparr>clock := now\<rparr>)"

lemma traces_dropped: "traces (s\<lparr>p_tasks := ts\<rparr>) t \<Longrightarrow> traces s t"
  by (simp add: traces_def traces_more)

lemma plug_step_traces: "plug_step E D s t \<Longrightarrow> traces s t"
proof (induction rule: plug_step.induct)
  case (ps_task k s)
  show ?case by (rule traces_dropped, rule obeysD, rule traces_run_task)
next
  case (ps_world s w)
  show ?case by (simp add: traces_def traces_more)
next
  case (ps_clock s now)
  then show ?case by (auto simp: traces_def db_ok_def wf_defs mea_state_def)
qed (rule obeysD, rule traces_plugin_create_mead traces_plugin_create_mea traces_plugin_update_mea
      traces_plugin_delete_mea traces_create_mea_scale traces_create_mea_trigger
      traces_get_mea_resources traces_monitor_round)+

text \<open>C37: Along any interleaving of requests, spawned functions, monitoring rounds and changes
  of the outside world, whatever the drivers answer, the database stays well-formed and
  every MEA goes through its life cycle only by moves of the abstract machine.\<close>

theorem plugin_lifecycle:
  assumes "(plug_step E D)\<^sup>*\<^sup>* s t" and "db_ok s"
  shows "db_ok t \<and> mea_moves\<^sup>*\<^sup>* (mea_state s i) (mea_state t i)"
  using assms
proof (induction rule: rtranclp_induct)
  case (step t u)
  then have "db_ok u \<and> mea_moves\<^sup>*\<^sup>* (mea_state t i) (mea_state u i)"
    using plug_step_traces [OF step.hyps(2)] by (auto simp: traces_def)
  with step show ?case by (auto intro: rtranclp_trans)
qed simp

lemma plugin_lifecycle_witness:
  "\<exists>t. (plug_step plug_env sample_drivers)\<^sup>*\<^sup>* active_mea t \<and> mea_state t (sample_uuid 4) = Deleted
     \<and> mea_moves\<^sup>*\<^sup>* (Live ACTIVE) Deleted"
proof -
  let ?c = "user_ctx ''t1''" and ?i = "sample_uuid 4"
  let ?s = "snd (plugin_delete_mea plug_env sample_drivers ?c ?i active_mea)"
  let ?k = "hd (p_tasks ?s)"
  let ?t = "snd (run_task plug_env sample_drivers ?k (?s\<lparr>p_tasks := remove1 ?k (p_tasks ?s)\<rparr>))"
  have "p_tasks ?s \<noteq> []" by code_simp
  then have "plug_step plug_env sample_drivers ?s ?t" by (intro ps_task) simp
  moreover have "plug_step plug_env sample_drivers active_mea ?s" by (rule ps_delete)
  ultimately have steps: "(plug_step plug_env sample_drivers)\<^sup>*\<^sup>* active_mea ?t" by simp
  have states: "mea_state active_mea ?i = Live ACTIVE" "mea_state ?t ?i = Deleted" by code_simp+
  show ?thesis using plugin_lifecycle [OF steps active_mea_ok, of ?i] steps states by auto
qed

section \<open>Scaling\<close>

lemma validated_policy:
  assumes "validate_scaling_policy p = Inr ()"
  shows "pol_type p = PStr POLICY_SCALING \<and> (\<exists>act \<in> {''in'', ''out''}. pol_action p = PStr act)"
proof -
  have "py_in v (map PStr [ACTION_SCALE_OUT, ACTION_SCALE_IN]) \<Longrightarrow> \<exists>act \<in> {''in'', ''out''}. v = PStr act" for v
    by (cases v) (auto simp: py_in_def ACTION_SCALE_OUT_def ACTION_SCALE_IN_def split: if_splits)
  with assms show ?thesis
    by (cases "pol_type p")
       (auto simp: validate_scaling_policy_def Let_def POLICY_ACTIONS_def bindS_def split: if_splits option.splits)
qed

lemma scaling_action_ok:
  assumes "scaling_action D c p auth drv region s = (Inr ev, t)"
  shows "\<exists>w. t = s\<lparr>p_world := w\<rparr>"
proof -
  from assms have "invoke (dr_infra_types D) drv (dr_scale D drv c auth p region) s = (Inr ev, t)"
    by (auto simp: scaling_action_def catchE_def reraise_after_def thenE_app_Inr_iff split: prod.splits sum.splits)
  then show ?thesis by (rule only_worldD [OF world_calls(2)])
qed

text \<open>C38: A scaling is started only for a policy of the scaling type with the action in or
  out and on an active MEA; it then shows the direction in its status and one new spawned
  function waits for it.\<close>

theorem scaling_starts:
  assumes "handle_mea_scaling E D c p s = (Inr q, t)" and "db_ok s"
  shows "pol_type p = PStr POLICY_SCALING \<and> mea_state s (ad_id (pol_mea p)) = Live ACTIVE
      \<and> (\<exists>(act, st) \<in> {(''in'', PENDING_SCALE_IN), (''out'', PENDING_SCALE_OUT)}.
          pol_action p = PStr act \<and> mea_state t (ad_id (pol_mea p)) = Live st)
      \<and> (\<exists>auth drv r ev. p_tasks t = p_tasks s @ [ScaleWait c q auth drv r ev])"
proof -
  let ?i = "ad_id (pol_mea p)"
  from assms(1) obtain d0 s1 drv auth d s2 ev s3 where
      v: "validate_scaling_policy p = Inr ()" and pre: "scaling_pre c p s = (Inr d0, s1)"
    and drv: "get_infra_driver E c d0 s1 = (Inr (drv, auth, d), s2)"
    and act: "scaling_action D c (p\<lparr>pol_instance := ad_instance_id d0\<rparr>) auth drv (region_of (ad_placement_attr d)) s2 = (Inr ev, s3)"
    and q: "q = p\<lparr>pol_instance := ad_instance_id d0\<rparr>"
    and t: "t = s3\<lparr>p_tasks := p_tasks s3 @ [ScaleWait c q auth drv (region_of (ad_placement_attr d)) ev]\<rparr>"
    by (auto simp: handle_mea_scaling_def bindE_app_Inr_iff thenE_app_Inr_iff Let_def spawn_n_def)
  have taken: "taken c ?i [ACTIVE] (scaling_status p) s d0 s1"
    using pre unfolding scaling_pre_def by (rule scaling_taken)
  have "s2 = s1" using drv by (rule get_infra_driver_state)
  moreover obtain w where "s3 = s2\<lparr>p_world := w\<rparr>" using scaling_action_ok [OF act] by blast
  moreover have "p_tasks s1 = p_tasks s" using taken by (auto simp: taken_def)
  moreover obtain a where a: "a \<in> {''in'', ''out''}" "pol_action p = PStr a" "pol_type p = PStr POLICY_SCALING"
    using validated_policy [OF v] by blast
  moreover have "scaling_status p = (if a = ''in'' then PENDING_SCALE_IN else PENDING_SCALE_OUT)"
    using a by (simp add: scaling_status_def ACTION_SCALE_IN_def)
  ultimately show ?thesis
    using taken_states [OF taken assms(2)] by (auto simp: t traces_more split: if_splits)
qed

lemma scaling_starts_witness:
  "\<exists>p q t. handle_mea_scaling plug_env sample_drivers (user_ctx ''t1'') p active_mea = (Inr q, t)
    \<and> mea_state t (sample_uuid 4) = Live PENDING_SCALE_OUT"
proof -
  let ?p = "(the (projr (fst (get_mea_policy plug_env sample_drivers (user_ctx ''t1'') (PStr ''SP1'') (sample_uuid 4)
     active_mea))))\<lparr>pol_action := PStr ''out''\<rparr>"
  let ?run = "handle_mea_scaling plug_env sample_drivers (user_ctx ''t1'') ?p active_mea"
  have "case fst ?run of Inr q \<Rightarrow> True | Inl e \<Rightarrow> False" by code_simp
  then obtain q where "fst ?run = Inr q" by (cases "fst ?run") auto
  then have run: "?run = (Inr q, snd ?run)" by (metis prod.collapse)
  have "ad_id (pol_mea ?p) = sample_uuid 4" "pol_action ?p = PStr ''out''" by code_simp+
  with scaling_starts [OF run active_mea_ok] run show ?thesis by fastforce
qed

section \<open>Alarm triggers\<close>

definition same_events :: "'x db_scheme \<Rightarrow> 'x db_scheme \<Rightarrow> bool" where
  "same_events s t \<longleftrightarrow> t_events t = t_events s"

interpretation quiet: effect_relation same_events
  by unfold_locales (simp_all add: same_events_def)

lemma quiet_prims: "obeys same_events (call f)" "obeys same_events (generate_uuid E)" "obeys same_events (get_mea E c i)"
  by (auto simp: obeys_def same_events_def call_def generate_uuid_def get_mea_def split: prod.splits)

lemma quiet_policy_loop: "obeys same_events (policy_loop E mea name ty ps)"
proof (induction ps)
  case (Cons p ps)
  obtain k v where p: "p = (k, v)" by (cases p)
  show ?case
    unfolding p policy_loop.simps make_policy_dict_def by (intro quiet.r_intros obeys_cases quiet_prims Cons.IH)
qed (simp only: policy_loop.simps quiet.r_ret)

lemma quiet_policies: "obeys same_events (get_mea_policies E D c i name ty)"
  "obeys same_events (get_mea_policy E D c v i)" "obeys same_events (get_mea_policy_by_type E D c i ty')"
  unfolding get_mea_policies_def get_mea_policy_def get_mea_policy_by_type_def
  by (intro quiet.r_intros obeys_cases quiet_prims quiet_policy_loop)+

lemma quiet_collect_actions: "obeys same_events (collect_actions E D c i as defs customs)"
proof (induction as arbitrary: defs customs)
  case (Cons a as)
  show ?case
    unfolding collect_actions.simps backend_of_def by (intro quiet.r_intros obeys_cases quiet_policies Cons.IH)
qed (simp only: collect_actions.simps quiet.r_ret)

lemma quiet_triggers: "obeys same_events (get_mea_trigger E D c i name)"
  "obeys same_events (validate_alarming_policy E D c i k)"
  unfolding get_mea_trigger_def get_mea_triggers_def validate_alarming_policy_def process_alarm_for_mea_def
    invoke_val_def invoke_def call_raise_def
  by (intro quiet.r_intros obeys_cases quiet_prims quiet_policies quiet_collect_actions)+

definition log_event :: "mea_dict \<Rightarrow> datetime \<Rightarrow> event_row" where
  "log_event d now = \<lparr>ev_resource_id = ad_id d, ev_resource_state = status_str (ad_status d),
     ev_resource_type = RES_TYPE_MEA, ev_timestamp = now, ev_event_type = RES_EVT_MONITOR,
     ev_event_details = ''ActionLogOnly invoked''\<rparr>"

lemma action_log_ok:
  assumes "execute_action E D c (PStr ''log'') d args s = (Inr (d', b), t)"
  shows "d' = d \<and> t = s\<lparr>t_events := t_events s @ [log_event d (clock s)]\<rparr>"
proof (cases "uuid_ok (ad_id d)")
  case True
  with assms show ?thesis
    by (auto simp: execute_action_def action_log_def log_monitor_events_def mea_event_ok log_event_def
        thenE_app_Inr_iff split: if_splits)
next
  case False
  with assms show ?thesis
    by (auto simp: execute_action_def action_log_def log_monitor_events_def mea_event_def create_event_bad
        thenE_app_Inr_iff bindE_def utcnow_def split: if_splits)
qed

text \<open>A trigger whose action is a default one carries it out twice: once for the name of the
  action and once more from the list the validation has collected. A trigger that logs
  writes its event twice before any other action runs; one that respawns respawns twice.\<close>

theorem default_action_twice:
  assumes "create_mea_trigger E D c i body s = (Inr out, t)" and "subscr ''action_name'' body = Inr (PStr ''log'')"
  shows "\<exists>ev u d customs. ev_event_details ev = ''ActionLogOnly invoked'' \<and> t_events u = t_events s @ [ev, ev]
    \<and> run_customs E D c customs d u = (Inr (), t)"
proof -
  from assms obtain name k s1 params defs customs s2 where
      k: "get_mea_trigger E D c i name s = (Inr k, s1)"
    and v: "validate_alarming_policy E D c i (k\<lparr>tr_action := PStr ''log'', tr_params := params\<rparr>) s1 = (Inr (defs, customs), s2)"
    and h: "handle_mea_monitoring E D c (k\<lparr>tr_action := PStr ''log'', tr_params := params\<rparr>) (defs, customs) s2 = (Inr (), t)"
    by (auto simp: create_mea_trigger_def bindE_app_Inr_iff thenE_app_Inr_iff Let_def)
  have defs: "defs = [''log'']"
  proof -
    have "split_char (CHR ''%'') ''log'' = [''log'']" by code_simp
    with v show ?thesis
      by (auto simp: validate_alarming_policy_def bindE_app_Inr_iff DEFAULT_ALARM_ACTIONS_def split: if_splits)
  qed
  have ev: "t_events s2 = t_events s"
    using obeysD [OF quiet_triggers(1) [of E D c i name], of s] v k
      obeysD [OF quiet_triggers(2) [of E D c i "k\<lparr>tr_action := PStr ''log'', tr_params := params\<rparr>"], of s1]
    by (simp add: same_events_def)
  have "py_in (PStr ''log'') (map PStr DEFAULT_ALARM_ACTIONS)" by code_simp
  with h defs obtain d1 b1 s3 d2 b2 s4 where
      a1: "execute_action E D c (PStr ''log'') (tr_mea k) [] s2 = (Inr (d1, b1), s3)"
    and a2: "execute_action E D c (PStr ''log'') d1 [] s3 = (Inr (d2, b2), s4)"
    and rest: "run_customs E D c customs d2 s4 = (Inr (), t)"
    by (auto simp: handle_mea_monitoring_def bindE_app_Inr_iff split: prod.splits)
  have "t_events s4 = t_events s @ [log_event (tr_mea k) (clock s2), log_event (tr_mea k) (clock s2)]"
    using action_log_ok [OF a1] action_log_ok [OF a2] by (simp add: ev)
  then show ?thesis using rest by (intro exI conjI) (simp_all add: log_event_def)
qed

definition log_trigger :: pyval where
  "log_trigger = PDict [(''policy_name'', PStr ''t1''), (''action_name'', PStr ''log''),
     (''params'', PDict [(''data'', PDict [(''current'', PStr ''alarm'')])])]"

lemma default_action_twice_witness:
  "\<exists>ev u d customs. ev_event_details ev = ''ActionLogOnly invoked'' \<and> t_events u = t_events active_mea @ [ev, ev]
    \<and> run_customs plug_env sample_drivers (user_ctx ''t1'') customs d u
       = (Inr (), snd (create_mea_trigger plug_env sample_drivers (user_ctx ''t1'') (sample_uuid 4) log_trigger active_mea))"
proof -
  let ?m = "create_mea_trigger plug_env sample_drivers (user_ctx ''t1'') (sample_uuid 4) log_trigger active_mea"
  have "fst ?m = Inr log_trigger" by code_simp
  then have run: "?m = (Inr log_trigger, snd ?m)" by (metis prod.collapse)
  show ?thesis by (rule default_action_twice [OF run]) (simp add: log_trigger_def)
qed

section \<open>Monitoring\<close>

text \<open>The monitoring thread dies with the first MEA that is taken out of monitoring during a
  round, as killing a failed MEA does: the iteration over the monitored MEAs raises and no
  later round comes.\<close>

theorem killing_ends_monitoring:
  assumes "p_hosting s = (i, h) # hs" and "\<not> hm_dead h" and "run_monitor E D h s = (Inr (), t)"
    and "length (p_hosting t) \<noteq> length (p_hosting s)"
  shows "monitor_thread E D (Suc n) s = (Inl runtime_error, t)"
proof -
  have "monitor_entries E D (Suc (length hs)) ks t = (Inl runtime_error, t)" for ks
    using assms(1,4) by (cases ks) (simp_all add: bindE_def)
  then have "monitor_round E D s = (Inl runtime_error, t)"
    using assms(1-3) by (simp add: monitor_round_def bindE_def thenE_def)
  then show ?thesis by (simp add: thenE_def bindE_def)
qed

text \<open>An active MEA under monitoring that no longer answers the pings and is to be killed then.\<close>

definition failing_mea :: "string list plug" where
  "failing_mea = (let s = active_mea\<lparr>p_world := [''ping''], clock := 100\<rparr>;
     d = projr (make_mea_dict s (hd (t_meas s)))
   in s\<lparr>p_hosting := [(sample_uuid 4, \<lparr>hm_mea = d,
      hm_ips = PDict [(''VDU1'', PStr ''10.0.0.1'')],
      hm_policy = PDict [(''vdus'', PDict [(''VDU1'', PDict [(''ping'', PDict [
         (''actions'', PDict [(''failure'', PStr ''log_and_kill'')])])])])],
      hm_context = user_ctx ''t1'', hm_boot_at = 7, hm_dead = False\<rparr>)]\<rparr>)"

lemma killing_ends_monitoring_witness:
  "fst (monitor_thread plug_env sample_drivers 3 failing_mea) = Inl runtime_error"
proof -
  let ?h = "snd (hd (p_hosting failing_mea))"
  let ?m = "run_monitor plug_env sample_drivers ?h failing_mea"
  have hs: "p_hosting failing_mea = (sample_uuid 4, ?h) # []" by code_simp
  have live: "\<not> hm_dead ?h" by code_simp
  have "fst ?m = Inr ()" by code_simp
  then have run: "?m = (Inr (), snd ?m)" by (metis prod.collapse)
  have "length (p_hosting (snd ?m)) \<noteq> length (p_hosting failing_mea)" by code_simp
  from killing_ends_monitoring [OF hs live run this, of 2] show ?thesis
    by (simp add: numeral_eq_Suc)
qed

end
