(* ===== verification/HeatTemplate.thy ===== *)
theory HeatTemplate
  imports Tosca
begin

text \<open>
  catalogs/tosca/utils.py, the part that makes heat resources: flavors with their extra
  specifications, images, and the changes to the template that the translator has made.
  Parsing and printing YAML, reading a file and Python's \<open>eval\<close> are parameters.
\<close>

record heat_libs =
  hl_eval :: "string \<Rightarrow> exn + pyval"
  hl_parse :: "string \<Rightarrow> exn + pyval"
  hl_dump :: "pyval \<Rightarrow> exn + string"
  hl_read :: "pyval \<Rightarrow> exn + string"

section \<open>Flavors\<close>

definition MEC_UNITS :: "(string \<times> (string \<times> string \<times> string) list) list" where
  "MEC_UNITS = [(''MB'', [(''MB'', ''*'', ''1''), (''GB'', ''/'', ''1024'')]),
     (''GB'', [(''MB'', ''*'', ''1024''), (''GB'', ''*'', ''1'')])]"

text \<open>\<open>s.split(sep)[0]\<close>\<close>

fun before :: "string \<Rightarrow> string \<Rightarrow> string" where
  "before sep [] = []"
| "before sep (c # cs) = (if startswith sep (c # cs) then [] else c # before sep cs)"

definition digits_only :: "pyval \<Rightarrow> bool" where
  "digits_only v \<longleftrightarrow> (case v of PStr s \<Rightarrow> isdigit s | PInt i \<Rightarrow> 0 \<le> i | _ \<Rightarrow> False)"

fun unit_loop :: "heat_libs \<Rightarrow> string \<Rightarrow> string \<Rightarrow> (string \<times> (string \<times> string \<times> string) list) list \<Rightarrow> exn + pyval" where
  "unit_loop H mem to [] = Inr PNone"
| "unit_loop H mem to ((unit, conv) # units) =
     (if \<not> str_in unit mem then unit_loop H mem to units
      else case map_of conv to of None \<Rightarrow> Inl key_error
        | Some (op, val) \<Rightarrow> hl_eval H (before unit mem @ op @ val))"

definition change_memory_unit :: "heat_libs \<Rightarrow> pyval \<Rightarrow> string \<Rightarrow> exn + pyval" where
  "change_memory_unit H mem to =
     bindS (if digits_only mem then Inr (py_str mem @ '' MB'')
       else case mem of PStr s \<Rightarrow> Inr (upper s) | _ \<Rightarrow> Inl attribute_error) (\<lambda>m.
     unit_loop H m to MEC_UNITS)"

definition FLAVOR_PROPS :: "(string \<times> string \<times> int \<times> string option) list" where
  "FLAVOR_PROPS = [(''num_cpus'', ''vcpus'', 1, None), (''disk_size'', ''disk'', 1, Some ''GB''),
     (''mem_size'', ''ram'', 512, Some ''MB'')]"

definition FLAVOR_EXTRA_SPECS_LIST :: "string list" where
  "FLAVOR_EXTRA_SPECS_LIST = [''cpu_allocation'', ''mem_page_size'', ''numa_node_count'', ''numa_nodes'']"

definition CPU_PROP_MAP :: "(string \<times> string) list" where
  "CPU_PROP_MAP = [(''hw:cpu_policy'', ''cpu_affinity''), (''hw:cpu_threads_policy'', ''thread_allocation''),
     (''hw:cpu_sockets'', ''socket_count''), (''hw:cpu_threads'', ''thread_count''), (''hw:cpu_cores'', ''core_count'')]"

definition CPU_PROP_KEY_SET :: "string list" where
  "CPU_PROP_KEY_SET = [''cpu_affinity'', ''thread_allocation'', ''socket_count'', ''thread_count'', ''core_count'']"

definition flavor_prop :: "heat_libs \<Rightarrow> pydict \<Rightarrow> string \<times> string \<times> int \<times> string option \<Rightarrow> pydict \<Rightarrow> exn + pydict" where
  "flavor_prop H props = (\<lambda>(prop, hot_prop, dflt, unit) out.
     let v = dict_get prop PNone props in
     bindS (case unit of Some u \<Rightarrow> if truthy v then change_memory_unit H v u else Inr v | None \<Rightarrow> Inr v) (\<lambda>w.
       Inr (dict_set hot_prop (if truthy w then w else PInt dflt) out)))"

text \<open>\<open>mval * 1024\<close>: a string is repeated.\<close>

definition times_1024 :: "pyval \<Rightarrow> pyval" where
  "times_1024 v = (case v of PInt i \<Rightarrow> PInt (i * 1024) | PStr s \<Rightarrow> PStr (concat (replicate 1024 s)) | _ \<Rightarrow> v)"

definition page_size :: "pyval \<Rightarrow> exn + pyval" where
  "page_size v = (if digits_only v then Inr (times_1024 v)
     else if py_in v [PStr ''small'', PStr ''large'', PStr ''any''] then Inr v
     else bindS (str_of v) (\<lambda>s. Inl (Exc (Mem HugePageSizeInvalidInput)
       [(''error_msg_details'', PStr (s @ '':Invalid Input''))])))"

definition invalid_keys :: "string list \<Rightarrow> pydict \<Rightarrow> string list" where
  "invalid_keys valid d = filter (\<lambda>k. \<not> List.member valid k) (dict_keys d)"

definition numa_node :: "pyval \<Rightarrow> pydict \<Rightarrow> exn + pydict" where
  "numa_node node es = bindS (items_of node) (\<lambda>d.
     let bad = invalid_keys [''id'', ''vcpus'', ''mem_size''] d in
     if bad \<noteq> [] then Inl (Exc (Mem NumaNodesInvalidKeys)
       [(''error_msg_details'', PStr (join '', '' bad)), (''valid_keys'', PStr ''id, vcpus and mem_size'')])
     else bindS (case (map_of d ''id'', map_of d ''vcpus'') of
         (Some i, Some cpus) \<Rightarrow> bindS (list_of cpus) (\<lambda>xs.
           Inr (dict_set (''hw:numa_cpus.'' @ py_str i) (PStr (join '','' (map py_str xs))) es))
       | _ \<Rightarrow> Inr es) (\<lambda>es1.
     Inr (case (map_of d ''id'', map_of d ''mem_size'') of
         (Some i, Some m) \<Rightarrow> dict_set (''hw:numa_mem.'' @ py_str i) m es1 | _ \<Rightarrow> es1)))"

definition cpu_specs :: "pydict \<Rightarrow> pydict \<Rightarrow> exn + pydict" where
  "cpu_specs cpu es = (let bad = invalid_keys CPU_PROP_KEY_SET cpu in
     if bad \<noteq> [] then Inl (Exc (Mem CpuAllocationInvalidKeys)
       [(''error_msg_details'', PStr (join '', '' bad)), (''valid_keys'', PStr (join '', '' CPU_PROP_KEY_SET))])
     else Inr (foldl (\<lambda>es (k, v). case map_of cpu v of Some x \<Rightarrow> dict_set k x es | None \<Rightarrow> es) es CPU_PROP_MAP))"

definition populate_flavor_extra_specs :: "pydict \<Rightarrow> pydict \<Rightarrow> pydict \<Rightarrow> exn + pydict" where
  "populate_flavor_extra_specs es props extra =
     bindS (case map_of props ''mem_page_size'' of None \<Rightarrow> Inr es
       | Some v \<Rightarrow> bindS (page_size v) (\<lambda>w. Inr (dict_set ''hw:mem_page_size'' w es))) (\<lambda>es1.
     bindS (case (map_of props ''numa_node_count'', map_of props ''numa_nodes'') of
         (Some n, _) \<Rightarrow> Inr (dict_set ''hw:numa_nodes'' n es1)
       | (None, Some v) \<Rightarrow> bindS (updating v) (\<lambda>nodes.
           bindS (foldS (\<lambda>(_, node). numa_node node) nodes es1) (\<lambda>es2.
             Inr (dict_set ''hw:numa_nodes'' (PInt (int (length nodes))) es2)))
       | (None, None) \<Rightarrow> Inr es1) (\<lambda>es3.
     bindS (case map_of props ''cpu_allocation'' of None \<Rightarrow> Inr es3
       | Some v \<Rightarrow> bindS (updating v) (\<lambda>cpu. cpu_specs cpu es3)) (\<lambda>es4.
     Inr (dict_update es4 extra))))"

definition get_flavor_dict :: "heat_libs \<Rightarrow> tosca \<Rightarrow> pydict \<Rightarrow> exn + pydict" where
  "get_flavor_dict H t extra = foldS (\<lambda>n out.
     case nt_compute n of
       Some props \<Rightarrow> if has_key ''flavor'' (nt_props n) then Inr out
         else bindS (foldS (flavor_prop H props) FLAVOR_PROPS []) (\<lambda>fl.
           bindS (if list_ex (\<lambda>k. has_key k props) FLAVOR_EXTRA_SPECS_LIST
                  then bindS (populate_flavor_extra_specs [] props extra) (\<lambda>es. Inr (dict_set ''extra_specs'' (PDict es) fl))
                  else Inr fl) (\<lambda>fl1.
           Inr (dict_set (nt_name n) (PDict fl1) out)))
     | None \<Rightarrow> Inr out) (findvdus t) []"

section \<open>Images\<close>

definition image_artifact :: "string \<Rightarrow> string \<times> pyval \<Rightarrow> pydict \<Rightarrow> exn + pydict" where
  "image_artifact vdu = (\<lambda>(name, artifact) out. bindS (items_of artifact) (\<lambda>a.
     if map_of a ''type'' \<noteq> Some (PStr IMAGE) then Inr out
     else case map_of a ''file'' of None \<Rightarrow> Inl (Exc (Mem FilePathMissing) [])
       | Some f \<Rightarrow> Inr (dict_set vdu (PDict [(''location'', f), (''container_format'', PStr ''bare''),
           (''disk_format'', PStr ''raw''), (''name'', PStr name)]) out)))"

definition get_image_dict :: "tosca \<Rightarrow> exn + pydict" where
  "get_image_dict t = foldS (\<lambda>n out. let artifacts = dict_get ''artifacts'' PNone (nt_entity n) in
     if \<not> truthy artifacts then Inr out
     else bindS (items_of artifacts) (\<lambda>as. foldS (image_artifact (nt_name n)) as out)) (findvdus t) []"

definition get_resources_dict :: "heat_libs \<Rightarrow> tosca \<Rightarrow> pydict \<Rightarrow> exn + pydict" where
  "get_resources_dict H t extra =
     bindS (get_flavor_dict H t extra) (\<lambda>flavors. bindS (get_image_dict t) (\<lambda>images.
       Inr [(''flavor'', PDict flavors), (''image'', PDict images)]))"

section \<open>The nodes before translation\<close>

text \<open>A node that is taken out of the list while the loop runs over it hides the next
  node from the loop.\<close>

definition dropped_node :: "node_template \<Rightarrow> bool" where
  "dropped_node n \<longleftrightarrow> list_ex (\<lambda>ty. is_derived_from ty (nt_ancestors n)) [MONITORING, FAILURE, PLACEMENT]"

definition delprops :: "string \<Rightarrow> string list" where
  "delprops ty = (if ty = APMECVDU then [''mgmt_driver'', ''config'', ''service_type'', ''placement_policy'',
       ''monitoring_policy'', ''metadata'', ''failure_policy'']
     else if ty = APMECCP then [''management''] else [])"

definition convert_type_value :: "pyval \<Rightarrow> pyval" where
  "convert_type_value v = (if v = PStr ''sriov'' then PStr ''direct'' else if v = PStr ''vnic'' then PStr ''normal'' else v)"

definition rename_prop :: "string \<Rightarrow> string \<Rightarrow> pydict \<Rightarrow> pydict" where
  "rename_prop old new props = (case map_of props old of None \<Rightarrow> props
     | Some v \<Rightarrow> dict_del old props @ [(new, v)])"

definition process_node :: "node_template \<Rightarrow> node_template" where
  "process_node n = (let kept = fold dict_del (delprops (nt_type n)) (nt_props n) in
     n\<lparr>nt_props := (if nt_type n \<noteq> APMECCP then kept
       else rename_prop ''type'' ''binding:vnic_type''
         (rename_prop ''anti_spoofing_protection'' ''port_security_enabled''
           (map (\<lambda>(k, v). (k, if k = ''type'' then convert_type_value v else v)) kept)))\<rparr>)"

fun process_nodes :: "node_template list \<Rightarrow> node_template list" where
  "process_nodes [] = []"
| "process_nodes [n] = (if dropped_node n then [] else [process_node n])"
| "process_nodes (n # m # ns) =
     (if dropped_node n then m # process_nodes ns else process_node n # process_nodes (m # ns))"

definition post_process_template :: "tosca \<Rightarrow> tosca" where
  "post_process_template t = t\<lparr>t_nodes := process_nodes (t_nodes t)\<rparr>"

section \<open>The translated template\<close>

text \<open>\<open>re.sub(old, new, s, count)\<close> for a text \<open>old\<close> that is no pattern.\<close>

function replace_n :: "nat \<Rightarrow> string \<Rightarrow> string \<Rightarrow> string \<Rightarrow> string" where
  "replace_n n old new s =
     (if n = 0 \<or> s = [] \<or> old = [] then s
      else if startswith old s then new @ replace_n (n - 1) old new (drop (length old) s)
      else hd s # replace_n n old new (tl s))"
  by pat_completeness auto
termination by (relation "measure (\<lambda>(n, old, new, s). length s)") auto

declare replace_n.simps [simp del]

text \<open>\<open>re.MULTILINE\<close>, which is 8, stands where \<open>re.sub\<close> takes the count.\<close>

definition fix_user_data :: "string \<Rightarrow> string" where
  "fix_user_data s =
     replace_n 8 [CHR 0x0A, CHR 0x0A] [CHR 0x0A]
       (replace_n 8 ''user_data: #'' (''user_data: |'' @ [CHR 0x0A] @ ''        #'') s)"

definition resource_there :: "string \<Rightarrow> pyval \<Rightarrow> exn + bool" where
  "resource_there name heat = bindS (subscr ''resources'' heat) (\<lambda>r.
     bindS (get_of name PNone r) (\<lambda>v. Inr (truthy v)))"

definition update_of :: "pydict \<Rightarrow> pyval \<Rightarrow> exn + pyval" where
  "update_of d v = (case v of PDict old \<Rightarrow> Inr (PDict (dict_update old d)) | _ \<Rightarrow> Inl attribute_error)"

definition update_props :: "string \<Rightarrow> pydict \<Rightarrow> pyval \<Rightarrow> exn + pyval" where
  "update_props name d = set_path [''resources'', name, ''properties''] (update_of d)"

definition add_output :: "string \<times> pyval \<Rightarrow> pyval \<Rightarrow> exn + pyval" where
  "add_output = (\<lambda>(name, port) heat.
     let out = [(name, PDict [(''value'', PDict [(''get_attr'',
       PList [port, PStr ''fixed_ips'', PInt 0, PStr ''ip_address''])])])] in
     bindS (contains ''outputs'' heat) (\<lambda>has.
       if has then set_path [''outputs''] (update_of out) heat else assign [] ''outputs'' (PDict out) heat))"

definition add_if_there :: "(string \<Rightarrow> pyval \<Rightarrow> pyval \<Rightarrow> exn + pyval) \<Rightarrow> string \<times> pyval \<Rightarrow> pyval \<Rightarrow> exn + pyval" where
  "add_if_there f = (\<lambda>(name, v) heat. bindS (resource_there name heat) (\<lambda>there.
     if there then f name v heat else Inr heat))"

definition set_metadata :: "string \<Rightarrow> pyval \<Rightarrow> pyval \<Rightarrow> exn + pyval" where
  "set_metadata name m = assign [''resources'', name, ''properties''] ''metadata'' m"

definition HEAT_RESOURCE_MAP :: "(string \<times> string) list" where
  "HEAT_RESOURCE_MAP = [(''flavor'', ''OS::Nova::Flavor''), (''image'', ''OS::Glance::Image'')]"

definition resource_tpl :: "string \<Rightarrow> string \<times> pyval \<Rightarrow> pyval \<Rightarrow> exn + pyval" where
  "resource_tpl res = (\<lambda>(vdu, d) heat.
     let res_name = vdu @ ''_'' @ res in
     bindS (case map_of HEAT_RESOURCE_MAP res of None \<Rightarrow> Inl key_error | Some ty \<Rightarrow> Inr ty) (\<lambda>ty.
     bindS (items_of d) (\<lambda>props.
     bindS (assign [''resources''] res_name
       (PDict [(''type'', PStr ty), (''properties'', PDict (dict_update [] props))]) heat) (\<lambda>heat1.
     bindS (resource_there vdu heat1) (\<lambda>there.
       if there then assign [''resources'', vdu, ''properties''] res (get_resource_ref (PStr res_name)) heat1
       else Inr heat1)))))"

definition add_resources_tpl :: "pydict \<Rightarrow> pyval \<Rightarrow> exn + pyval" where
  "add_resources_tpl res_tpl heat =
     foldS (\<lambda>(res, v) heat. bindS (items_of v) (\<lambda>vdus. foldS (resource_tpl res) vdus heat)) res_tpl heat"

definition HEAT_SOFTWARE_CONFIG :: string where "HEAT_SOFTWARE_CONFIG = ''OS::Heat::SoftwareConfig''"

definition software_config :: "heat_libs \<Rightarrow> pyval \<Rightarrow> exn + pyval" where
  "software_config H res = bindS (subscr ''type'' res) (\<lambda>ty.
     if ty \<noteq> PStr HEAT_SOFTWARE_CONFIG then Inr res
     else bindS (bindS (subscr ''properties'' res) (subscr ''config'')) (\<lambda>config.
       bindS (contains ''get_file'' config) (\<lambda>has.
       if \<not> has then Inr res
       else bindS (bindS (subscr ''get_file'' config) (hl_read H)) (\<lambda>text.
         assign [''properties''] ''config'' (PStr text) res))))"

definition software_configs :: "heat_libs \<Rightarrow> pyval \<Rightarrow> exn + pyval" where
  "software_configs H = set_path [''resources''] (\<lambda>rs. bindS (items_of rs) (\<lambda>items.
     bindS (mapS (\<lambda>(k, r). bindS (software_config H r) (\<lambda>r1. Inr (k, r1))) items) (\<lambda>new. Inr (PDict new))))"

definition volume_resource :: "string \<Rightarrow> string \<times> pyval \<Rightarrow> pyval \<Rightarrow> exn + pyval" where
  "volume_resource ty = (\<lambda>(name, v) heat. bindS (items_of v) (\<lambda>props.
     assign [''resources''] name (PDict [(''type'', PStr ty), (''properties'', PDict (dict_update [] props))]) heat))"

definition add_volume_resources :: "pydict \<times> pydict \<Rightarrow> pyval \<Rightarrow> exn + pyval" where
  "add_volume_resources = (\<lambda>(volumes, attachments) heat.
     bindS (foldS (volume_resource ''OS::Cinder::Volume'') volumes heat)
       (foldS (volume_resource ''OS::Cinder::VolumeAttachment'') attachments))"

definition convert_prop :: "pydict \<Rightarrow> string \<Rightarrow> pydict \<Rightarrow> exn + pydict" where
  "convert_prop conv prop props =
     bindS (bindS (subscr prop (PDict conv)) str_of) (\<lambda>new.
     bindS (subscr prop (PDict props)) (\<lambda>v. let props1 = dict_del prop props in
     if new = ''value_specs'' then
       bindS (dict_of (dict_get new (PDict []) props1)) (\<lambda>specs.
         Inr (dict_set new (PDict (dict_set prop v specs)) props1))
     else Inr (dict_set new v props1)))"

definition convert_resource :: "pydict \<Rightarrow> pyval \<Rightarrow> exn + pyval" where
  "convert_resource unsupported res = bindS (bindS (subscr ''type'' res) str_of) (\<lambda>ty.
     case map_of unsupported ty of
       None \<Rightarrow> Inr res
     | Some v \<Rightarrow> bindS (items_of v) (\<lambda>conv. set_path [''properties''] (\<lambda>p. bindS (items_of p) (\<lambda>props.
         bindS (foldS (convert_prop conv) (filter (\<lambda>k. has_key k conv) (dict_keys props)) props) (\<lambda>new.
           Inr (PDict new)))) res))"

definition convert_unsupported_res_prop :: "pydict \<Rightarrow> pyval \<Rightarrow> exn + pyval" where
  "convert_unsupported_res_prop unsupported = set_path [''resources''] (\<lambda>rs. bindS (items_of rs) (\<lambda>items.
     bindS (mapS (\<lambda>(k, r). bindS (convert_resource unsupported r) (\<lambda>r1. Inr (k, r1))) items) (\<lambda>new. Inr (PDict new))))"

definition vdus_of :: "pydict \<Rightarrow> exn + (string \<times> pyval) list" where
  "vdus_of metadata = bindS (subscr ''vdus'' (PDict metadata)) items_of"

definition post_process_heat_template ::
  "heat_libs \<Rightarrow> string \<Rightarrow> pydict \<Rightarrow> pydict \<Rightarrow> pydict \<times> pydict \<Rightarrow> pydict \<Rightarrow> pydict \<times> pydict \<Rightarrow> pydict \<Rightarrow> exn + string" where
  "post_process_heat_template H tpl ports metadata alarms res_tpl volumes unsupported =
     bindS (hl_parse H (fix_user_data tpl)) (\<lambda>h0.
     bindS (foldS add_output ports h0) (\<lambda>h1.
     bindS (if metadata = [] then Inr h1 else bindS (vdus_of metadata) (\<lambda>vdus.
         foldS (add_if_there set_metadata) vdus h1)) (\<lambda>h2.
     bindS (foldS (add_if_there (\<lambda>name m. update_props name [(''matching_metadata'', m)])) (fst alarms) h2) (\<lambda>h3.
     bindS (foldS (add_if_there (\<lambda>name v heat. bindS (updating v) (\<lambda>d. update_props name d heat))) (snd alarms) h3) (\<lambda>h4.
     bindS (add_resources_tpl res_tpl h4) (\<lambda>h5.
     bindS (software_configs H h5) (\<lambda>h6.
     bindS (if fst volumes = [] then Inr h6 else add_volume_resources volumes h6) (\<lambda>h7.
     bindS (if unsupported = [] then Inr h7 else convert_unsupported_res_prop unsupported h7)
       (hl_dump H)))))))))"

section \<open>Scaling groups\<close>

definition get_scaling_group_dict :: "heat_libs \<Rightarrow> string \<Rightarrow> string list \<Rightarrow> exn + pydict" where
  "get_scaling_group_dict H tpl names =
     bindS (bindS (hl_parse H tpl) (subscr ''resources'')) (\<lambda>rs.
     bindS (items_of rs) (\<lambda>items.
     bindS (foldS (\<lambda>(k, r) groups. bindS (subscr ''type'' r) (\<lambda>ty.
         Inr (if ty = PStr ''OS::Heat::AutoScalingGroup'' then groups @ [k] else groups))) items []) (\<lambda>groups.
     case (groups, names) of ([], _) \<Rightarrow> Inr [] | (_, []) \<Rightarrow> Inl index_error
     | (g # _, n # _) \<Rightarrow> Inr [(n, PStr g)])))"

text \<open>The nested template is printed inside the loop over the ports: without a port the
  result is empty.\<close>

definition nested_heat ::
  "heat_libs \<Rightarrow> string \<Rightarrow> pydict \<Rightarrow> pydict \<Rightarrow> pydict \<Rightarrow> exn + pyval" where
  "nested_heat H yaml metadata res_tpl unsupported =
     bindS (hl_parse H yaml) (\<lambda>h0.
     bindS (if metadata = [] then Inr h0 else bindS (vdus_of metadata) (\<lambda>vdus.
         foldS (\<lambda>(vdu, m). set_metadata vdu m) vdus h0)) (\<lambda>h1.
     bindS (add_resources_tpl res_tpl h1) (\<lambda>h2.
     bindS (software_configs H h2) (\<lambda>h3.
       if unsupported = [] then Inr h3 else convert_unsupported_res_prop unsupported h3))))"

definition update_nested_scaling_resources ::
  "heat_libs \<Rightarrow> string \<times> string \<Rightarrow> pydict \<Rightarrow> pydict \<Rightarrow> pydict \<Rightarrow> pydict \<Rightarrow> exn + pydict" where
  "update_nested_scaling_resources H nested ports metadata res_tpl unsupported =
     bindS (nested_heat H (snd nested) metadata res_tpl unsupported) (\<lambda>h.
     map_sum id snd (foldS (\<lambda>port (h, out).
       bindS (add_output port h) (\<lambda>h1. bindS (hl_dump H h1) (\<lambda>text.
         Inr (h1, [(fst nested, PStr text)])))) ports (h, [])))"

end
