(* ===== verification/Translate.thy ===== *)
theory Translate
  imports HeatTemplate MemDb
begin

text \<open>
  mem/infra_drivers/openstack/translate_template.py: from the MEAD of an MEA to a heat
  template. The TOSCA parser and the translator are parameters; of the translator the
  result, and the nested template of a scaling policy, are what the code uses.
\<close>

record 'w translators =
  tr_parse :: "pyval \<Rightarrow> pyval \<Rightarrow> exn + tosca"
  tr_translate :: "tosca \<Rightarrow> pyval \<Rightarrow> exn + string"
  tr_nested :: "tosca \<Rightarrow> pyval \<Rightarrow> string \<Rightarrow> exn + string"
  tr_yaml_load :: "pyval \<Rightarrow> exn + pyval"
  tr_json_load :: "pyval \<Rightarrow> exn + pyval"
  tr_json_dump :: "pyval \<Rightarrow> string"
  tr_text :: "exn \<Rightarrow> string"
  tr_libs :: heat_libs
  tr_attr_support :: "string \<Rightarrow> string \<Rightarrow> 'w \<Rightarrow> (exn + bool) \<times> 'w"
  tr_flavor_extra :: pydict

section \<open>Fields of the stack\<close>

definition take_keys :: "string list \<Rightarrow> pydict \<Rightarrow> pydict \<times> pydict" where
  "take_keys ks d = (concat (map (\<lambda>k. case map_of d k of None \<Rightarrow> [] | Some v \<Rightarrow> [(k, v)]) ks), fold dict_del ks d)"

definition stack_keys :: "string list" where "stack_keys = [''stack_name'', ''template_url'', ''template'']"

text \<open>\<open>files\<close> and \<open>parameters\<close> are JSON; those of the MEA update those of the MEAD.\<close>

definition load_field :: "'w translators \<Rightarrow> string \<Rightarrow> pydict \<times> pydict \<Rightarrow> exn + pydict \<times> pydict" where
  "load_field T k = (\<lambda>(fields, attrs). case map_of attrs k of
       None \<Rightarrow> Inr (fields, attrs)
     | Some v \<Rightarrow> bindS (tr_json_load T v) (\<lambda>x. Inr (dict_set k x fields, dict_del k attrs)))"

definition merge_field :: "'w translators \<Rightarrow> string \<Rightarrow> pydict \<times> pydict \<Rightarrow> exn + pydict \<times> pydict" where
  "merge_field T k = (\<lambda>(fields, attrs). case map_of attrs k of
       None \<Rightarrow> Inr (fields, attrs)
     | Some v \<Rightarrow> bindS (tr_json_load T v) (\<lambda>x. bindS (updating x) (\<lambda>new.
         bindS (update_of new (dict_get k (PDict []) fields)) (\<lambda>merged.
           Inr (dict_set k merged fields, dict_del k attrs)))))"

definition update_fields :: "'w translators \<Rightarrow> pydict \<Rightarrow> pydict \<Rightarrow> exn + pydict \<times> pydict" where
  "update_fields T stored passed =
     (let (f0, a0) = take_keys stack_keys stored; (g0, d0) = take_keys stack_keys passed in
      bindS (foldS (load_field T) [''files'', ''parameters''] (f0, a0)) (\<lambda>(f1, _).
        foldS (merge_field T) [''files'', ''parameters''] (dict_update f1 g0, d0)))"

section \<open>Inputs\<close>

definition missing :: "string \<Rightarrow> exn" where
  "missing k = Exc (Cs InputValuesMissing) [(''key'', PStr k)]"

text \<open>\<open>_update_params\<close>. Only dictionaries that mention \<open>get_input\<close> are entered.\<close>

fun update_params :: "pydict \<Rightarrow> pyval \<Rightarrow> bool \<Rightarrow> exn + pydict" where
  "update_params [] params m = Inr []"
| "update_params ((k, PDict d) # rest) params m =
     bindS (if \<not> mentions ''get_input'' (PDict d) then Inr (PDict d)
       else if \<not> m then
         bindS (contains k params) (\<lambda>has.
         bindS (if has then bindS (subscr k params) (contains ''param'') else Inr False) (\<lambda>sub.
         if sub then bindS (bindS (subscr k params) (subscr ''param'')) (\<lambda>p. map_sum id PDict (update_params d p True))
         else if has then bindS (subscr k params) (\<lambda>p. map_sum id PDict (update_params d p False))
         else Inl (missing k)))
       else (case map_of d ''get_input'' of
           Some i \<Rightarrow> bindS (str_of i) (\<lambda>name. bindS (contains name params) (\<lambda>has.
             if has then subscr name params else Inl (missing k)))
         | None \<Rightarrow> map_sum id PDict (update_params d params True))) (\<lambda>v.
     bindS (update_params rest params m) (\<lambda>out. Inr ((k, v) # out)))"
| "update_params ((k, v) # rest) params m = bindS (update_params rest params m) (\<lambda>out. Inr ((k, v) # out))"

definition process_parameterized_input :: "'w translators \<Rightarrow> pydict \<Rightarrow> pydict \<Rightarrow> exn + pydict" where
  "process_parameterized_input T dev_attrs mead =
     (let v = dict_get ''param_values'' PNone dev_attrs in
      if \<not> truthy v then Inl (Exc (Cs ParamYAMLInputMissing) [])
      else case tr_yaml_load T v of
          Inl e \<Rightarrow> Inl (Exc (Mem ParamYAMLNotWellFormed) [(''error_msg_details'', PStr (tr_text T e))])
        | Inr params \<Rightarrow> update_params mead params False)"

section \<open>Ports\<close>

definition make_port_dict :: "pydict \<Rightarrow> pydict" where
  "make_port_dict unsupported = [(''type'', PStr ''OS::Neutron::Port''),
     (''properties'', PDict ((if unsupported \<noteq> [] then (''value_specs'', PDict [(''port_security_enabled'', PBool False)])
        else (''port_security_enabled'', PBool False)) # [(''fixed_ips'', PList [])]))]"

definition make_mgmt_outputs_dict :: "string \<Rightarrow> string \<Rightarrow> pyval \<Rightarrow> exn + pyval" where
  "make_mgmt_outputs_dict vdu port = assign [''outputs''] (''mgmt_ip-'' @ vdu)
     (PDict [(''description'', PStr ''management ip address''), (''value'', PDict [(''get_attr'',
        PList [PStr port, PStr ''fixed_ips'', PInt 0, PStr ''ip_address''])])])"

definition handle_port_creation ::
  "pydict \<Rightarrow> string \<Rightarrow> pydict \<Rightarrow> pyval list \<Rightarrow> bool \<Rightarrow> pyval \<Rightarrow> exn + string \<times> pyval" where
  "handle_port_creation unsupported vdu param ips is_mgmt template =
     bindS (subscr ''network'' (PDict param)) (\<lambda>net.
     let port = vdu @ ''-'' @ py_str net @ ''-port'';
         ips1 = map (\<lambda>ip. PDict [(''ip_address'', ip)]) ips in
     bindS (if is_mgmt then make_mgmt_outputs_dict vdu port template else Inr template) (\<lambda>t1.
     bindS (set_path [''properties'', ''fixed_ips''] (\<lambda>_. Inr (PList ips1)) (PDict (make_port_dict unsupported))) (\<lambda>p1.
     bindS (set_path [''properties''] (update_of param) p1) (\<lambda>p2.
     bindS (assign [''resources''] port p2 t1) (\<lambda>t2. Inr (port, t2))))))"

text \<open>One network of a unit: the entry of the server's networks, and the template.\<close>

definition network_interface ::
  "pydict \<Rightarrow> string \<Rightarrow> pyval \<Rightarrow> pyval list \<times> pyval \<Rightarrow> exn + pyval list \<times> pyval" where
  "network_interface unsupported vdu param = (\<lambda>(networks, template).
     bindS (dict_of param) (\<lambda>p0.
     bindS (if \<not> has_key ''addresses'' p0 then Inr (None, p0, template)
       else (case dict_get ''addresses'' PNone p0 of
         PList ips \<Rightarrow> (let p1 = dict_del ''management'' (dict_del ''addresses'' p0) in
           bindS (handle_port_creation unsupported vdu p1 ips (truthy (dict_get ''management'' (PBool False) p0)) template)
             (\<lambda>(port, t). Inr (Some port, p1, t)))
       | _ \<Rightarrow> Inl (Exc (Mem IPAddrInvalidInput) []))) (\<lambda>(port1, p1, t1).
     bindS (let p2 = dict_del ''management'' p1 in
       if truthy (dict_get ''management'' (PBool False) p1)
       then bindS (handle_port_creation unsupported vdu p2 [] True t1) (\<lambda>(port, t). Inr (Some port, p2, t))
       else Inr (port1, p2, t1)) (\<lambda>(port2, p2, t2).
     Inr (networks @ [case port2 of None \<Rightarrow> PDict p2
       | Some port \<Rightarrow> PDict [(''port'', get_resource_ref (PStr port))]], t2)))))"

definition process_vdu_network_interfaces ::
  "pydict \<Rightarrow> string \<Rightarrow> pydict \<Rightarrow> pyval \<Rightarrow> exn + pyval list \<times> pyval" where
  "process_vdu_network_interfaces unsupported vdu vdu_dict template =
     bindS (bindS (subscr ''network_interfaces'' (PDict vdu_dict)) items_of) (\<lambda>nets.
     foldS (\<lambda>(_, param). network_interface unsupported vdu param) nets ([], template))"

section \<open>The translation\<close>

definition HEAT_VERSION_INCOMPATIBILITY_MAP :: "(string \<times> pydict) list" where
  "HEAT_VERSION_INCOMPATIBILITY_MAP = [(''OS::Neutron::Port'', [(''port_security_enabled'', PStr ''value_specs'')])]"

fun unsupported_props :: "'w translators \<Rightarrow> string \<Rightarrow> pydict \<Rightarrow> pydict \<Rightarrow> ('w, pydict) prog" where
  "unsupported_props T res conv [] = ret []"
| "unsupported_props T res conv ((p, v) # props) =
     bindE (tr_attr_support T res p) (\<lambda>ok. bindE (unsupported_props T res conv props) (\<lambda>rest.
       ret (if ok then rest else dict_update conv rest)))"

definition get_unsupported_resource_props :: "'w translators \<Rightarrow> ('w, pydict) prog" where
  "get_unsupported_resource_props T = bindE (mapE (\<lambda>(res, conv).
       bindE (unsupported_props T res conv conv) (\<lambda>u. ret (if u = [] then [] else [(res, PDict u)])))
     HEAT_VERSION_INCOMPATIBILITY_MAP) (\<lambda>xs. ret (concat xs))"

definition parsed_params :: "'w translators \<Rightarrow> pydict \<Rightarrow> exn + pyval" where
  "parsed_params T dev_attrs = (case map_of dev_attrs ''param_values'' of
       None \<Rightarrow> Inr (PDict [])
     | Some v \<Rightarrow> if v = PStr [] then Inr (PDict [])
         else (case tr_yaml_load T v of
             Inl e \<Rightarrow> Inl (Exc (Mem ParamYAMLNotWellFormed) [(''error_msg_details'', PStr (tr_text T e))])
           | Inr p \<Rightarrow> Inr p))"

definition substituted :: "pyval \<Rightarrow> pyval \<Rightarrow> exn + pyval \<times> pyval" where
  "substituted template params = (if \<not> mentions ''substitution_mappings'' template then Inr (template, params)
     else case params of
         PDict d \<Rightarrow> bindS (check_for_substitution_mappings template d) (\<lambda>(t, p). Inr (t, PDict p))
       | _ \<Rightarrow> Inl attribute_error)"

definition failed_as :: "(string \<Rightarrow> exn) \<Rightarrow> 'w translators \<Rightarrow> exn + 'a \<Rightarrow> exn + 'a" where
  "failed_as f T r = (case r of Inl e \<Rightarrow> Inl (f (tr_text T e)) | Inr x \<Rightarrow> Inr x)"

definition translator_failed :: "string \<Rightarrow> exn" where
  "translator_failed s = Exc (Mem HeatTranslatorFailed) [(''error_msg_details'', PStr s)]"

definition parser_failed :: "string \<Rightarrow> exn" where
  "parser_failed s = Exc (Mem ToscaParserFailed) [(''error_msg_details'', PStr s)]"

text \<open>What the template yields beside the text: the attributes of the MEA, the files and
  the monitoring policy.\<close>

record hot =
  hot_template :: string
  hot_attrs :: pydict
  hot_files :: "pydict option"
  hot_monitoring :: pydict

definition generate_hot_from_tosca ::
  "'w translators \<Rightarrow> pydict \<Rightarrow> pyval \<Rightarrow> pydict \<Rightarrow> pydict \<Rightarrow> exn + hot" where
  "generate_hot_from_tosca T unsupported mead dev_attrs attrs =
     bindS (parsed_params T dev_attrs) (\<lambda>params0.
     bindS (get_block_storage_details mead) (\<lambda>(volumes, mead1).
     bindS (updateimports mead1) (\<lambda>mead2.
     bindS (substituted mead2 params0) (\<lambda>(mead3, params).
     bindS (failed_as parser_failed T (tr_parse T params mead3)) (\<lambda>t.
     bindS (get_vdu_metadata t) (\<lambda>metadata.
     bindS (pre_process_alarm_resources attrs t metadata) (\<lambda>alarms.
     bindS (get_vdu_monitoring t) (\<lambda>monitoring.
     bindS (get_resources_dict (tr_libs T) t (tr_flavor_extra T)) (\<lambda>res_tpl.
     let ports = get_mgmt_ports t; nested = get_nested_resources_name t;
         t1 = post_process_template t; scaling = get_scaling_policy t1 in
     bindS (failed_as translator_failed T (bindS (tr_translate T t1 params) (\<lambda>text.
       case nested of None \<Rightarrow> Inr (text, None)
         | Some n \<Rightarrow> bindS (tr_nested T t1 params n) (\<lambda>y. Inr (text, Some (n, y)))))) (\<lambda>(text, nested_yaml).
     bindS (case nested_yaml of None \<Rightarrow> Inr (None, attrs, ports)
       | Some n \<Rightarrow> bindS (update_nested_scaling_resources (tr_libs T) n ports metadata res_tpl unsupported) (\<lambda>tpl.
           bindS (subscr (fst n) (PDict tpl)) (\<lambda>v. Inr (Some tpl, dict_set (fst n) v attrs, [])))) (\<lambda>(files, attrs1, ports1).
     bindS (if scaling = [] then Inr attrs1
       else bindS (get_scaling_group_dict (tr_libs T) text scaling) (\<lambda>g.
         Inr (dict_set ''scaling_group_names'' (PStr (tr_json_dump T (PDict g))) attrs1))) (\<lambda>attrs2.
     bindS (post_process_heat_template (tr_libs T) text ports1 metadata alarms res_tpl volumes unsupported) (\<lambda>final.
       Inr \<lparr>hot_template = final, hot_attrs = attrs2, hot_files = files, hot_monitoring = monitoring\<rparr>)))))))))))))"

text \<open>\<open>generate_hot\<close>: the fields of the stack and the MEA with its new attributes.\<close>

definition generate_hot :: "'w translators \<Rightarrow> mea_dict \<Rightarrow> ('w, pydict \<times> mea_dict) prog" where
  "generate_hot T d = (let stored = dd_attributes (ad_mead d) in
     bindE (pureE (update_fields T (dict_del ''mead'' stored) (ad_attributes d))) (\<lambda>(fields, dev_attrs).
     bindE (pureE (bindS (str_of (dict_get ''mead'' PNone stored)) (hl_parse (tr_libs T)))) (\<lambda>mead.
     bindE (get_unsupported_resource_props T) (\<lambda>unsupported.
     bindE (pureE (generate_hot_from_tosca T unsupported mead dev_attrs (ad_attributes d))) (\<lambda>h.
     let fields1 = (case hot_files h of None \<Rightarrow> fields | Some f \<Rightarrow> dict_set ''files'' (PDict f) fields);
         fields2 = dict_set ''template'' (PStr (hot_template h)) fields1;
         a1 = (if truthy (dict_get ''heat_template'' PNone (hot_attrs h)) then hot_attrs h
               else dict_set ''heat_template'' (PStr (hot_template h)) (hot_attrs h));
         a2 = (if hot_monitoring h = [] then a1
               else dict_set ''monitoring_policy'' (PStr (tr_json_dump T (PDict (hot_monitoring h)))) a1)
     in ret (fields2, d\<lparr>ad_attributes := a2\<rparr>))))))"

end
