(* ===== verification/OpenStack.thy ===== *)
theory OpenStack
  imports Translate MemPlugin
begin

text \<open>
  mem/infra_drivers/openstack: the heat client (heat_client.py), the infrastructure driver
  (openstack.py) and \<open>deep_update\<close> of common/utils.py, which it merges configurations
  with; the noop driver (noop.py). The library client of Heat is a record of programs
  over the world; a client is known by the credentials and the region that it
  was made with. What a driver does to the MEA's dictionary before it raises is not
  looked at by the plugin and left out.
\<close>

section \<open>Heat\<close>

type_synonym endpoint = "pydict \<times> pyval"

record heat_stack =
  hs_status :: string
  hs_reason :: string
  hs_outputs :: "pydict list"

record heat_resource =
  hr_name :: string
  hr_physical :: "string option"
  hr_type :: string
  hr_attributes :: pyval

record 'w heat =
  he_connect :: "pydict \<Rightarrow> pyval \<Rightarrow> ('w, unit) prog"
  he_create :: "endpoint \<Rightarrow> pydict \<Rightarrow> ('w, pyval) prog"
  he_get :: "endpoint \<Rightarrow> string option \<Rightarrow> ('w, heat_stack) prog"
  he_delete :: "endpoint \<Rightarrow> string option \<Rightarrow> ('w, unit) prog"
  he_type :: "endpoint \<Rightarrow> string \<Rightarrow> ('w, pyval) prog"
  he_resource :: "endpoint \<Rightarrow> string option \<Rightarrow> string \<Rightarrow> ('w, heat_resource) prog"
  he_resources :: "endpoint \<Rightarrow> string option \<Rightarrow> nat \<Rightarrow> ('w, heat_resource list) prog"
  he_signal :: "endpoint \<Rightarrow> string option \<Rightarrow> string \<Rightarrow> ('w, unit) prog"
  he_events :: "endpoint \<Rightarrow> string option \<Rightarrow> string \<Rightarrow> ('w, (pyval \<times> string) list) prog"
  he_metadata :: "endpoint \<Rightarrow> string option \<Rightarrow> string \<Rightarrow> ('w, pyval) prog"
  he_sleep :: "int \<Rightarrow> ('w, unit) prog"
  he_text :: "exn \<Rightarrow> string"
  he_json_load :: "pyval \<Rightarrow> exn + pyval"
  he_json_dump :: "pyval \<Rightarrow> string"
  he_yaml_load :: "pyval \<Rightarrow> exn + pyval"
  he_yaml_dump :: "pyval \<Rightarrow> string"

record os_conf =
  STACK_RETRIES :: int
  STACK_RETRY_WAIT :: int

definition heat_client :: "'w heat \<Rightarrow> pydict \<Rightarrow> pyval \<Rightarrow> ('w, endpoint) prog" where
  "heat_client H auth region = thenE (he_connect H auth region) (ret (auth, region))"

text \<open>\<open>HeatClient.create\<close>: the template is text, so \<open>in\<close> looks for a part of it.\<close>

definition with_password :: "pydict \<Rightarrow> exn + pydict" where
  "with_password args =
     (let tpl = dict_get ''template'' (PDict []) args in
      bindS (contains ''password'' tpl) (\<lambda>has.
        if has then bindS (subscr ''password'' tpl) (\<lambda>p. Inr (dict_set ''password'' p args)) else Inr args))"

definition heat_create :: "'w heat \<Rightarrow> endpoint \<Rightarrow> pydict \<Rightarrow> ('w, pyval) prog" where
  "heat_create H ep args =
     bindE (pureE (with_password (dict_update args [(''timeout_mins'', PInt 10), (''disable_rollback'', PBool True)])))
       (\<lambda>f. catchE (he_create H ep f) (\<lambda>e.
         if isinstance e (Lib HeatHTTPException) then raise (Exc (Mem HeatClientException) [(''msg'', PStr (he_text H e))])
         else raise e))"

definition heat_delete :: "'w heat \<Rightarrow> endpoint \<Rightarrow> string option \<Rightarrow> ('w, unit) prog" where
  "heat_delete H ep i = catchE (he_delete H ep i) (\<lambda>e.
     if isinstance e (Lib HeatHTTPNotFound) then ret () else raise e)"

definition resource_attr_support :: "'w heat \<Rightarrow> endpoint \<Rightarrow> string \<Rightarrow> string \<Rightarrow> ('w, bool) prog" where
  "resource_attr_support H ep res prop =
     bindE (he_type H ep res) (\<lambda>r. pureE (bindS (subscr ''attributes'' r) (contains prop)))"

section \<open>Merging configurations\<close>

fun deep_update :: "pydict \<Rightarrow> pydict \<Rightarrow> pydict" where
  "deep_update orig [] = orig"
| "deep_update orig ((k, PDict sub) # rest) = deep_update (case map_of orig k of
       Some (PDict inner) \<Rightarrow> dict_set k (PDict (deep_update inner sub)) orig
     | _ \<Rightarrow> dict_set k (PDict sub) orig) rest"
| "deep_update orig ((k, v) # rest) = deep_update (dict_set k v orig) rest"

section \<open>Creating\<close>

definition stack_name :: "mea_dict \<Rightarrow> string" where
  "stack_name d = (let count = dict_get ''failure_count'' PNone (ad_attributes d) in
     ''apmec.mem.infra_drivers.openstack.openstack_OpenStack-'' @ ad_id d @
     (if truthy count then ''-RESPAWN-'' @ py_str count else []))"

definition create_stack :: "'w heat \<Rightarrow> endpoint \<Rightarrow> mea_dict \<Rightarrow> pydict \<Rightarrow> ('w, pyval) prog" where
  "create_stack H ep d args =
     (let f = (if has_key ''stack_name'' args then args else dict_set ''stack_name'' (PStr (stack_name d)) args)
      in bindE (pureE (subscr ''template'' (PDict f))) (\<lambda>_. heat_create H ep f))"

definition openstack_create ::
  "'w heat \<Rightarrow> 'w translators \<Rightarrow> pydict \<Rightarrow> mea_dict \<Rightarrow> ('w, string \<times> mea_dict) prog" where
  "openstack_create H T auth d =
     bindE (heat_client H auth (region_of (ad_placement_attr d))) (\<lambda>ep.
     bindE (generate_hot (T\<lparr>tr_attr_support := resource_attr_support H ep\<rparr>) d) (\<lambda>(args, d1).
     bindE (create_stack H ep d1 args) (\<lambda>stack.
     bindE (pureE (bindS (bindS (subscr ''stack'' stack) (subscr ''id'')) str_of)) (\<lambda>i. ret (i, d1)))))"

text \<open>The wait: a poll that fails leaves the stack as it was last seen.\<close>

function create_poll ::
  "'w heat \<Rightarrow> os_conf \<Rightarrow> endpoint \<Rightarrow> string option \<Rightarrow> int \<Rightarrow> heat_stack \<Rightarrow> ('w, heat_stack \<times> int) prog" where
  "create_poll H C ep i retries stack =
     (if hs_status stack = ''CREATE_IN_PROGRESS'' \<and> retries > 0
      then thenE (he_sleep H (STACK_RETRY_WAIT C)) (bindE (attempt (he_get H ep i)) (\<lambda>r.
        create_poll H C ep i (retries - 1) (case r of Inl _ \<Rightarrow> stack | Inr s \<Rightarrow> s)))
      else ret (stack, retries))"
  by pat_completeness auto
termination by (relation "measure (\<lambda>(H, C, ep, i, retries, stack). nat retries)") auto

declare create_poll.simps [simp del]

definition create_wait_failed :: "string \<Rightarrow> exn" where
  "create_wait_failed reason = Exc (Mem MEACreateWaitFailed) [(''reason'', PStr reason)]"

definition show_id :: "string option \<Rightarrow> string" where
  "show_id i = (case i of None \<Rightarrow> ''None'' | Some s \<Rightarrow> s)"

definition not_in_time :: "os_conf \<Rightarrow> string option \<Rightarrow> string" where
  "not_in_time C i = ''Resource creation is not completed within '' @ show_int (STACK_RETRIES C * STACK_RETRY_WAIT C)
     @ '' seconds as creation of stack '' @ show_id i @ '' is not completed''"

definition create_verdict :: "os_conf \<Rightarrow> string option \<Rightarrow> heat_stack \<times> int \<Rightarrow> exn + unit" where
  "create_verdict C i = (\<lambda>(stack, retries).
     if hs_status stack = ''CREATE_COMPLETE'' then Inr ()
     else if retries = 0 then Inl (create_wait_failed (not_in_time C i))
     else Inl (create_wait_failed (hs_reason stack)))"

definition OUTPUT_PREFIX :: string where "OUTPUT_PREFIX = ''mgmt_ip-''"

text \<open>\<open>_find_mgmt_ips\<close> of the outputs of a stack.\<close>

definition output_ip :: "pydict \<Rightarrow> pydict \<Rightarrow> exn + pydict" where
  "output_ip out ips = (case dict_get ''output_key'' (PStr []) out of
     PStr k \<Rightarrow> if \<not> startswith OUTPUT_PREFIX k then Inr ips
       else bindS (subscr ''output_value'' (PDict out)) (\<lambda>v. Inr (dict_set (drop (length OUTPUT_PREFIX) k) v ips))
   | _ \<Rightarrow> Inl attribute_error)"

text \<open>Of the resources of the scaling groups: one list of addresses for each key. All
  occurrences of the prefix leave the key here.\<close>

definition add_ip :: "string \<times> pyval \<Rightarrow> pydict \<Rightarrow> pydict" where
  "add_ip = (\<lambda>(k, v) ips. case map_of ips k of
     Some (PList vs) \<Rightarrow> dict_set k (PList (vs @ [v])) ips | _ \<Rightarrow> dict_set k (PList [v]) ips)"

definition attribute_ips :: "pydict \<Rightarrow> pydict" where
  "attribute_ips attrs = foldl (\<lambda>ips (k, v). if startswith OUTPUT_PREFIX k
     then dict_set (replace_n (length k) OUTPUT_PREFIX [] k) v ips else ips) [] attrs"

fun group_ips :: "'w heat \<Rightarrow> endpoint \<Rightarrow> string option \<Rightarrow> heat_resource list \<Rightarrow> pydict \<Rightarrow> ('w, pydict) prog" where
  "group_ips H ep grp [] ips = ret ips"
| "group_ips H ep grp (rsc # rscs) ips =
     bindE (he_resource H ep grp (hr_name rsc)) (\<lambda>r.
     bindE (pureE (items_of (hr_attributes r))) (\<lambda>attrs.
       group_ips H ep grp rscs (fold add_ip (attribute_ips attrs) ips)))"

fun find_mgmt_ips_from_groups ::
  "'w heat \<Rightarrow> endpoint \<Rightarrow> string option \<Rightarrow> pyval list \<Rightarrow> pydict \<Rightarrow> ('w, pydict) prog" where
  "find_mgmt_ips_from_groups H ep i [] ips = ret ips"
| "find_mgmt_ips_from_groups H ep i (g # gs) ips =
     bindE (pureE (str_of g)) (\<lambda>name.
     bindE (he_resource H ep i name) (\<lambda>grp.
     bindE (he_resources H ep (hr_physical grp) 0) (\<lambda>rscs.
     bindE (group_ips H ep (hr_physical grp) rscs ips) (find_mgmt_ips_from_groups H ep i gs))))"

definition created_ips :: "'w heat \<Rightarrow> endpoint \<Rightarrow> string option \<Rightarrow> mea_dict \<Rightarrow> heat_stack \<Rightarrow> ('w, pydict) prog" where
  "created_ips H ep i d stack =
     (let names = dict_get ''scaling_group_names'' PNone (ad_attributes d) in
      if truthy names then bindE (pureE (bindS (he_json_load H names) items_of)) (\<lambda>gs.
        find_mgmt_ips_from_groups H ep i (map snd gs) [])
      else pureE (foldS output_ip (hs_outputs stack) []))"

definition finish_creation ::
  "'w heat \<Rightarrow> os_conf \<Rightarrow> endpoint \<Rightarrow> string option \<Rightarrow> mea_dict \<Rightarrow> heat_stack \<times> int \<Rightarrow> ('w, mea_dict) prog" where
  "finish_creation H C ep i d r =
     thenE (pureE (create_verdict C i r))
     (bindE (created_ips H ep i d (fst r)) (\<lambda>ips.
       ret (if ips = [] then d else d\<lparr>ad_mgmt_url := Some (he_json_dump H (PDict ips))\<rparr>)))"

definition openstack_create_wait ::
  "'w heat \<Rightarrow> os_conf \<Rightarrow> string option \<Rightarrow> pydict \<Rightarrow> mea_dict \<Rightarrow> ('w, mea_dict) prog" where
  "openstack_create_wait H C i auth d =
     bindE (heat_client H auth (region_of (ad_placement_attr d))) (\<lambda>ep.
     bindE (he_get H ep i) (\<lambda>stack0.
     bindE (create_poll H C ep i (STACK_RETRIES C) stack0) (finish_creation H C ep i d)))"

section \<open>Updating\<close>

definition merged_config :: "'w heat \<Rightarrow> pyval \<Rightarrow> pyval \<Rightarrow> exn + pyval option" where
  "merged_config H config update =
     bindS (if \<not> truthy config then Inr (PDict [])
       else bindS (he_yaml_load H config) (\<lambda>v. Inr (if truthy v then v else PDict []))) (\<lambda>old.
     bindS (he_yaml_load H update) (\<lambda>new.
     if \<not> truthy new then Inr None
     else bindS (items_of new) (\<lambda>n. bindS (dict_of old) (\<lambda>o'. Inr (Some (PDict (deep_update o' n)))))))"

definition openstack_update ::
  "'w heat \<Rightarrow> string option \<Rightarrow> pydict \<Rightarrow> pydict \<Rightarrow> mea_dict \<Rightarrow> ('w, mea_dict) prog" where
  "openstack_update H i auth body d =
     bindE (heat_client H auth (region_of (ad_placement_attr d))) (\<lambda>ep.
     thenE (he_get H ep i)
     (bindE (pureE (get_of ''config'' (PStr []) (dict_get ''attributes'' (PDict []) body))) (\<lambda>update.
     bindE (pureE (merged_config H (dict_get ''config'' (PStr []) (ad_attributes d)) update)) (\<lambda>m. case m of
         None \<Rightarrow> ret d
       | Some v \<Rightarrow> ret (d\<lparr>ad_attributes := dict_set ''config'' (PStr (he_yaml_dump H v)) (ad_attributes d)\<rparr>)))))"

definition openstack_update_wait :: "'w heat \<Rightarrow> string option \<Rightarrow> pydict \<Rightarrow> pyval \<Rightarrow> ('w, unit) prog" where
  "openstack_update_wait H i auth region =
     bindE (heat_client H auth region) (\<lambda>ep. thenE (he_get H ep i) (ret ()))"

section \<open>Deleting\<close>

definition openstack_delete :: "'w heat \<Rightarrow> string option \<Rightarrow> pydict \<Rightarrow> pyval \<Rightarrow> ('w, unit) prog" where
  "openstack_delete H i auth region = bindE (heat_client H auth region) (\<lambda>ep. heat_delete H ep i)"

text \<open>\<open>None\<close>: the stack was not found, the wait is over.\<close>

function delete_poll ::
  "'w heat \<Rightarrow> os_conf \<Rightarrow> endpoint \<Rightarrow> string option \<Rightarrow> int \<Rightarrow> heat_stack \<Rightarrow> ('w, (heat_stack \<times> int) option) prog" where
  "delete_poll H C ep i retries stack =
     (if hs_status stack = ''DELETE_IN_PROGRESS'' \<and> retries > 0
      then thenE (he_sleep H (STACK_RETRY_WAIT C)) (bindE (attempt (he_get H ep i)) (\<lambda>r.
        case r of
          Inl e \<Rightarrow> if isinstance e (Lib HeatHTTPNotFound) then ret None
            else delete_poll H C ep i (retries - 1) stack
        | Inr s \<Rightarrow> delete_poll H C ep i (retries - 1) s))
      else ret (Some (stack, retries)))"
  by pat_completeness auto
termination by (relation "measure (\<lambda>(H, C, ep, i, retries, stack). nat retries)") auto

declare delete_poll.simps [simp del]

definition delete_verdict :: "os_conf \<Rightarrow> string option \<Rightarrow> (heat_stack \<times> int) option \<Rightarrow> exn + unit" where
  "delete_verdict C i r = (let name = show_id i in case r of None \<Rightarrow> Inr ()
     | Some (stack, retries) \<Rightarrow>
         if hs_status stack = ''DELETE_COMPLETE'' then Inr ()
         else Inl (Exc (Mem MEADeleteWaitFailed) [(''reason'', PStr (if retries = 0
           then ''Resource cleanup for mea is not completed within '' @ show_int (STACK_RETRIES C * STACK_RETRY_WAIT C)
             @ '' seconds as deletion of Stack '' @ name @ '' is not completed''
           else ''mea '' @ name @ '' deletion is not completed. '' @ hs_status stack))]))"

definition openstack_delete_wait ::
  "'w heat \<Rightarrow> os_conf \<Rightarrow> string option \<Rightarrow> pydict \<Rightarrow> pyval \<Rightarrow> ('w, unit) prog" where
  "openstack_delete_wait H C i auth region =
     bindE (heat_client H auth region) (\<lambda>ep.
     bindE (he_get H ep i) (\<lambda>stack0.
     bindE (delete_poll H C ep i (STACK_RETRIES C) stack0) (\<lambda>r. pureE (delete_verdict C i r))))"

section \<open>Scaling\<close>

definition get_scaling_policy_name :: "pyval \<Rightarrow> string \<Rightarrow> string" where
  "get_scaling_policy_name action name = name @ ''_scale_'' @ py_str action"

definition last_event :: "(pyval \<times> string) list \<Rightarrow> exn + pyval \<times> string" where
  "last_event evs = (case evs of [] \<Rightarrow> Inl index_error | e # _ \<Rightarrow> Inr e)"

definition openstack_scale :: "'w heat \<Rightarrow> pydict \<Rightarrow> policy \<Rightarrow> pyval \<Rightarrow> ('w, pyval) prog" where
  "openstack_scale H auth p region =
     (let name = get_scaling_policy_name (pol_action p) (pol_name p) in
      bindE (heat_client H auth region) (\<lambda>ep.
      bindE (he_events H ep (pol_instance p) name) (\<lambda>evs.
      thenE (he_signal H ep (pol_instance p) name)
        (bindE (pureE (last_event evs)) (\<lambda>e. ret (fst e))))))"

text \<open>One turn of the wait: has a new event completed?\<close>

definition scale_poll :: "'w heat \<Rightarrow> os_conf \<Rightarrow> endpoint \<Rightarrow> policy \<Rightarrow> pyval \<Rightarrow> ('w, bool) prog" where
  "scale_poll H C ep p seen =
     catchE (thenE (he_sleep H (STACK_RETRY_WAIT C))
       (bindE (he_events H ep (pol_instance p) (get_scaling_policy_name (pol_action p) (pol_name p))) (\<lambda>evs.
        bindE (pureE (last_event evs)) (\<lambda>e.
          ret (\<not> py_eq (fst e) seen \<and> snd e = ''SIGNAL_COMPLETE'')))))
     (\<lambda>e. raise (Exc (Mem MEAScaleWaitFailed)
       [(''mea_id'', PStr (ad_id (pol_mea p))), (''reason'', PStr (he_text H e))]))"

text \<open>No retries are left: either Heat has ignored the signal, or the message is built
  with a broken format, which is a ValueError.\<close>

definition scale_timeout :: "'w heat \<Rightarrow> endpoint \<Rightarrow> policy \<Rightarrow> ('w, unit) prog" where
  "scale_timeout H ep p =
     bindE (he_metadata H ep (pol_instance p) (get_scaling_policy_name (pol_action p) (pol_name p))) (\<lambda>m.
     bindE (pureE (subscr ''scaling_in_progress'' m)) (\<lambda>v.
       if \<not> truthy v then ret () else raise value_error))"

text \<open>The loop tests for zero retries only, so it need not end: \<open>None\<close>.\<close>

partial_function (option) scale_loop ::
  "('w \<Rightarrow> (exn + bool) \<times> 'w) \<Rightarrow> ('w \<Rightarrow> (exn + unit) \<times> 'w) \<Rightarrow> int \<Rightarrow> 'w \<Rightarrow> ((exn + unit) \<times> 'w) option" where
  "scale_loop poll timeout retries w =
     (let rw = poll w in
      case fst rw of
        Inl e \<Rightarrow> Some (Inl e, snd rw)
      | Inr done \<Rightarrow> if done then Some (Inr (), snd rw)
          else if retries = 0 then Some (timeout (snd rw))
          else scale_loop poll timeout (retries - 1) (snd rw))"

definition scaled_ips :: "'w heat \<Rightarrow> endpoint \<Rightarrow> policy \<Rightarrow> ('w, string) prog" where
  "scaled_ips H ep p =
     bindE (pureE (bindS (bindS (subscr ''scaling_group_names'' (PDict (ad_attributes (pol_mea p)))) (he_json_load H))
       (subscr (pol_name p)))) (\<lambda>group.
     bindE (find_mgmt_ips_from_groups H ep (pol_instance p) [group] []) (\<lambda>ips. ret (he_json_dump H (PDict ips))))"

definition openstack_scale_wait ::
  "'w heat \<Rightarrow> os_conf \<Rightarrow> pydict \<Rightarrow> policy \<Rightarrow> pyval \<Rightarrow> pyval \<Rightarrow> 'w \<Rightarrow> ((exn + string) \<times> 'w) option" where
  "openstack_scale_wait H C auth p region seen w = (case heat_client H auth region w of
     (Inl e, w1) \<Rightarrow> Some (Inl e, w1)
   | (Inr ep, w1) \<Rightarrow> (case scale_loop (scale_poll H C ep p seen) (scale_timeout H ep p) (STACK_RETRIES C) w1 of
       None \<Rightarrow> None
     | Some (Inl e, w2) \<Rightarrow> Some (Inl e, w2)
     | Some (Inr _, w2) \<Rightarrow> Some (scaled_ips H ep p w2)))"

section \<open>Resources\<close>

definition resource_info :: "heat_resource \<Rightarrow> string \<times> pyval" where
  "resource_info r = (hr_name r, PDict [(''id'', case hr_physical r of None \<Rightarrow> PNone | Some s \<Rightarrow> PStr s),
     (''type'', PStr (hr_type r))])"

definition openstack_resource_info :: "'w heat \<Rightarrow> pydict \<Rightarrow> pyval \<Rightarrow> mea_dict \<Rightarrow> ('w, pydict) prog" where
  "openstack_resource_info H auth region d =
     bindE (heat_client H auth region) (\<lambda>ep.
     catchE (bindE (he_resources H ep (ad_instance_id d) 2) (\<lambda>rs. ret (dict_update [] (map resource_info rs))))
       (\<lambda>e. raise (Exc (Mem InfraDriverUnreachable) [(''service'', PStr ''Heat API service'')])))"

section \<open>The driver in the MEA manager\<close>

text \<open>The drivers with the OpenStack driver under its name. \<open>scale_wait\<close>, which need not
  return, is not among them.\<close>

definition on_dict :: "('w, 'a \<times> mea_dict) prog \<Rightarrow> mea_dict \<Rightarrow> 'w \<Rightarrow> ((exn + 'a) \<times> mea_dict) \<times> 'w" where
  "on_dict m d w = (case m w of (Inl e, w1) \<Rightarrow> ((Inl e, d), w1) | (Inr (x, d1), w1) \<Rightarrow> ((Inr x, d1), w1))"

definition with_openstack :: "'w heat \<Rightarrow> os_conf \<Rightarrow> 'w translators \<Rightarrow> 'w drivers \<Rightarrow> 'w drivers" where
  "with_openstack H C T D = D\<lparr>
     dr_create := (\<lambda>t c auth d. if t \<noteq> ''openstack'' then dr_create D t c auth d
       else on_dict (bindE (openstack_create H T auth d) (\<lambda>(i, d1). ret (Some i, d1))) d),
     dr_create_wait := (\<lambda>t c i auth d. if t \<noteq> ''openstack'' then dr_create_wait D t c i auth d
       else on_dict (bindE (openstack_create_wait H C i auth d) (\<lambda>d1. ret ((), d1))) d),
     dr_update := (\<lambda>t c i auth body d. if t \<noteq> ''openstack'' then dr_update D t c i auth body d
       else on_dict (bindE (openstack_update H i auth body d) (\<lambda>d1. ret ((), d1))) d),
     dr_update_wait := (\<lambda>t c i auth region. if t \<noteq> ''openstack'' then dr_update_wait D t c i auth region
       else openstack_update_wait H i auth region),
     dr_delete := (\<lambda>t c i auth region. if t \<noteq> ''openstack'' then dr_delete D t c i auth region
       else openstack_delete H i auth region),
     dr_delete_wait := (\<lambda>t c i auth region. if t \<noteq> ''openstack'' then dr_delete_wait D t c i auth region
       else openstack_delete_wait H C i auth region),
     dr_scale := (\<lambda>t c auth p region. if t \<noteq> ''openstack'' then dr_scale D t c auth p region
       else openstack_scale H auth p region),
     dr_resource_info := (\<lambda>t c d auth. if t \<noteq> ''openstack'' then dr_resource_info D t c d auth
       else openstack_resource_info H auth PNone d)\<rparr>"

section \<open>The noop driver\<close>

text \<open>It keeps the set of its instances. The methods that the plugin calls with arguments
  the noop driver does not take raise a TypeError.\<close>

definition noop_create :: "string \<Rightarrow> string set \<Rightarrow> (exn + string) \<times> string set" where
  "noop_create new I = (Inr new, insert new I)"

definition noop_update :: "string \<Rightarrow> string set \<Rightarrow> (exn + unit) \<times> string set" where
  "noop_update i I = (if i \<in> I then Inr () else Inl value_error, I)"

definition noop_delete :: "string \<Rightarrow> string set \<Rightarrow> (exn + unit) \<times> string set" where
  "noop_delete i I = (if i \<in> I then Inr () else Inl key_error, I - {i})"

definition noop_resource_info :: "string \<Rightarrow> pydict" where
  "noop_resource_info new = [(''noop'', PDict [(''id'', PStr new), (''type'', PStr ''noop'')])]"

end
