(* ===== verification/OpenStackProps.thy ===== *)
theory OpenStackProps
  imports OpenStack PluginSamples
begin

text \<open>
  What the OpenStack driver guarantees of an MEA's stack, alone and in the MEA manager.
\<close>

section \<open>Waiting for a stack\<close>

text \<open>What the client is relied on for: sleeping succeeds, and \<open>polls\<close> counts the
  questions after the stack. The resource calls ask no such question.\<close>

definition counts_polls :: "'w heat \<Rightarrow> ('w \<Rightarrow> nat) \<Rightarrow> bool" where
  "counts_polls H polls \<longleftrightarrow>
     (\<forall>n w. fst (he_sleep H n w) = Inr () \<and> polls (snd (he_sleep H n w)) = polls w)
   \<and> (\<forall>ep i w. polls (snd (he_get H ep i w)) = Suc (polls w))
   \<and> (\<forall>auth region w. polls (snd (he_connect H auth region w)) = polls w)
   \<and> (\<forall>ep i n w. polls (snd (he_resource H ep i n w)) = polls w)
   \<and> (\<forall>ep i n w. polls (snd (he_resources H ep i n w)) = polls w)"

definition reported :: "'w heat \<Rightarrow> endpoint \<Rightarrow> string option \<Rightarrow> heat_stack \<Rightarrow> bool" where
  "reported H ep i st \<longleftrightarrow> (\<exists>w. fst (he_get H ep i w) = Inr st)"

lemma counts_pollsD:
  assumes "counts_polls H polls"
  shows "fst (he_sleep H m w) = Inr ()" "polls (snd (he_sleep H m w)) = polls w"
    "polls (snd (he_get H ep i w)) = Suc (polls w)" "polls (snd (he_connect H auth region w)) = polls w"
    "polls (snd (he_resource H ep i n w)) = polls w" "polls (snd (he_resources H ep i k w)) = polls w"
  using assms unfolding counts_polls_def by blast+

lemma attempt_app: "attempt m s = (Inr (fst (m s)), snd (m s))"
  by (auto simp: attempt_def catchE_def bindE_def split: prod.splits sum.splits)

lemma create_poll_step:
  assumes "counts_polls H polls" and "hs_status st = ''CREATE_IN_PROGRESS''" and "0 < n"
    and w1: "w1 = snd (he_sleep H (STACK_RETRY_WAIT C) w)"
  shows "create_poll H C ep i n st w = create_poll H C ep i (n - 1)
    (case fst (he_get H ep i w1) of Inl _ \<Rightarrow> st | Inr s \<Rightarrow> s) (snd (he_get H ep i w1))"
proof -
  have "he_sleep H (STACK_RETRY_WAIT C) w = (Inr (), w1)"
    using assms(1) by (metis counts_polls_def prod.collapse w1)
  then show ?thesis using assms(2,3)
    by (subst create_poll.simps) (simp add: thenE_Inr bindE_def attempt_app)
qed

lemma create_poll_result:
  assumes H: "counts_polls H polls" and st: "reported H ep i st"
  shows "\<exists>st' n' w'. create_poll H C ep i n st w = (Inr (st', n'), w') \<and> reported H ep i st'
    \<and> (hs_status st' \<noteq> ''CREATE_IN_PROGRESS'' \<or> n' \<le> 0) \<and> polls w' + nat n' = polls w + nat n"
  using st
proof (induction "nat n" arbitrary: n st w)
  case 0
  then show ?case by (simp add: create_poll.simps)
next
  case (Suc k)
  show ?case
  proof (cases "hs_status st = ''CREATE_IN_PROGRESS''")
    case False
    then show ?thesis using Suc.prems by (simp add: create_poll.simps)
  next
    case True
    let ?w1 = "snd (he_sleep H (STACK_RETRY_WAIT C) w)"
    let ?r = "fst (he_get H ep i ?w1)" and ?w2 = "snd (he_get H ep i ?w1)"
    have n: "k = nat (n - 1)" "0 < n" "nat n = Suc k" using Suc.hyps(2) by simp_all
    have "reported H ep i (case ?r of Inl _ \<Rightarrow> st | Inr s \<Rightarrow> s)"
      using Suc.prems by (auto simp: reported_def split: sum.splits)
    moreover have "polls ?w2 = Suc (polls w)" by (simp add: counts_pollsD [OF H])
    ultimately show ?thesis
      using Suc.hyps(1) [OF n(1), of "case ?r of Inl _ \<Rightarrow> st | Inr s \<Rightarrow> s" ?w2]
      unfolding create_poll_step [OF H True n(2) refl] by (auto simp: n simp flip: n(1))
  qed
qed

text \<open>Collecting the addresses asks no question after the stack.\<close>

definition same_polls :: "('w \<Rightarrow> nat) \<Rightarrow> 'w \<Rightarrow> 'w \<Rightarrow> bool" where
  "same_polls polls s t \<longleftrightarrow> polls t = polls s"

interpretation polling: effect_relation "same_polls polls" for polls
  by unfold_locales (simp_all add: same_polls_def)

lemma asks_nothing:
  assumes H: "counts_polls H polls"
  shows "obeys (same_polls polls) (he_resource H ep i n)" "obeys (same_polls polls) (he_resources H ep i k)"
    "obeys (same_polls polls) (he_connect H auth region)"
  by (simp_all add: obeys_def same_polls_def counts_pollsD [OF H])

lemma group_ips_polls: "counts_polls H polls \<Longrightarrow> obeys (same_polls polls) (group_ips H ep grp rscs ips)"
  by (induction rscs arbitrary: ips) (auto intro!: polling.r_intros asks_nothing)

lemma groups_polls: "counts_polls H polls \<Longrightarrow> obeys (same_polls polls) (find_mgmt_ips_from_groups H ep i gs ips)"
  by (induction gs arbitrary: ips) (auto intro!: polling.r_intros asks_nothing group_ips_polls)

lemma created_ips_polls: "counts_polls H polls \<Longrightarrow> obeys (same_polls polls) (created_ips H ep i d stack)"
  unfolding created_ips_def Let_def by (auto intro!: polling.r_intros groups_polls)

lemma client_app:
  "heat_client H auth region w = (case he_connect H auth region w of
     (Inl e, w1) \<Rightarrow> (Inl e, w1) | (Inr _, w1) \<Rightarrow> (Inr (auth, region), w1))"
  by (auto simp: heat_client_def thenE_def bindE_def split: prod.splits sum.splits)

lemma finish_creation_result:
  assumes H: "counts_polls H polls" and run: "finish_creation H C ep i d (st, n) w = (r, w')"
  shows "polls w' = polls w"
    and "r = Inr d' \<Longrightarrow> hs_status st = ''CREATE_COMPLETE''"
    and "hs_status st \<noteq> ''CREATE_COMPLETE'' \<Longrightarrow> \<exists>reason. r = Inl (create_wait_failed reason)"
proof -
  have "obeys (same_polls polls) (finish_creation H C ep i d (st, n))"
    unfolding finish_creation_def by (intro polling.r_intros created_ips_polls H)
  then show "polls w' = polls w"
    using obeysD [of "same_polls polls" "finish_creation H C ep i d (st, n)" w] by (simp add: run same_polls_def)
  have verdict: "hs_status st = ''CREATE_COMPLETE'' \<or> (\<exists>reason. r = Inl (create_wait_failed reason))"
    using run by (auto simp: finish_creation_def create_verdict_def thenE_Inl split: if_splits)
  then show "r = Inr d' \<Longrightarrow> hs_status st = ''CREATE_COMPLETE''"
    and "hs_status st \<noteq> ''CREATE_COMPLETE'' \<Longrightarrow> \<exists>reason. r = Inl (create_wait_failed reason)"
    by blast+
qed

lemma create_wait_result:
  assumes H: "counts_polls H polls"
    and con: "he_connect H auth (region_of (ad_placement_attr d)) w = (Inr u, w1)"
    and get: "he_get H (auth, region_of (ad_placement_attr d)) i w1 = (Inr st0, w2)"
  shows "\<exists>st n w3. openstack_create_wait H C i auth d w = finish_creation H C (auth, region_of (ad_placement_attr d)) i d (st, n) w3
    \<and> reported H (auth, region_of (ad_placement_attr d)) i st \<and> polls w3 \<le> polls w2 + nat (STACK_RETRIES C)"
proof -
  let ?ep = "(auth, region_of (ad_placement_attr d))"
  have "reported H ?ep i st0" unfolding reported_def by (rule exI [of _ w1]) (simp add: get)
  then obtain st n w3 where poll: "create_poll H C ?ep i (STACK_RETRIES C) st0 w2 = (Inr (st, n), w3)"
    and st: "reported H ?ep i st" and p3: "polls w3 + nat n = polls w2 + nat (STACK_RETRIES C)"
    using create_poll_result [OF H] by metis
  have "heat_client H auth (region_of (ad_placement_attr d)) w = (Inr ?ep, w1)" by (simp add: client_app con)
  then have "openstack_create_wait H C i auth d w = finish_creation H C ?ep i d (st, n) w3"
    by (simp add: openstack_create_wait_def bindE_Inr get poll)
  moreover have "polls w3 \<le> polls w2 + nat (STACK_RETRIES C)" using p3 by linarith
  ultimately show ?thesis using st by blast
qed

lemma create_wait_early:
  "he_connect H auth (region_of (ad_placement_attr d)) w = (Inl e, w1) \<Longrightarrow>
   openstack_create_wait H C i auth d w = (Inl e, w1)"
  "he_connect H auth (region_of (ad_placement_attr d)) w = (Inr u, w1) \<Longrightarrow>
   he_get H (auth, region_of (ad_placement_attr d)) i w1 = (Inl e, w2) \<Longrightarrow>
   openstack_create_wait H C i auth d w = (Inl e, w2)"
  by (simp_all add: openstack_create_wait_def bindE_def client_app)


text \<open>A Heat whose answers to the questions after a stack are given in advance. The world is
  the list of the questions so far.\<close>

definition sample_heat :: "(exn + heat_stack) list \<Rightarrow> string list heat" where
  "sample_heat answers = \<lparr>he_connect = (\<lambda>auth region w. (Inr (), w)),
     he_create = (\<lambda>ep args w. (Inr (PDict [(''stack'', PDict [(''id'', PStr ''stack'')])]), w)),
     he_get = (\<lambda>ep i w. (if length w < length answers then answers ! length w else Inl (Exc (Lib HeatHTTPNotFound) []),
       w @ [''get''])),
     he_delete = (\<lambda>ep i w. (Inl (Exc (Lib HeatHTTPNotFound) []), w)),
     he_type = (\<lambda>ep r w. (Inr (PDict [(''attributes'', PDict [])]), w)),
     he_resource = (\<lambda>ep i n w. (Inl (Exc (Lib HeatHTTPNotFound) []), w)),
     he_resources = (\<lambda>ep i n w. (Inr [], w)),
     he_signal = (\<lambda>ep i n w. (Inr (), w)),
     he_events = (\<lambda>ep i n w. (Inr [(PStr ''e1'', ''SIGNAL_IN_PROGRESS'')], w)),
     he_metadata = (\<lambda>ep i n w. (Inr (PDict [(''scaling_in_progress'', PBool True)]), w)),
     he_sleep = (\<lambda>n w. (Inr (), w)),
     he_text = (\<lambda>e. ''failed''), he_json_load = Inr, he_json_dump = (\<lambda>v. ''json''),
     he_yaml_load = Inr, he_yaml_dump = (\<lambda>v. ''yaml'')\<rparr>"

definition sample_conf :: os_conf where
  "sample_conf = \<lparr>STACK_RETRIES = 2, STACK_RETRY_WAIT = 10\<rparr>"

definition in_status :: "string \<Rightarrow> heat_stack" where
  "in_status st = \<lparr>hs_status = st, hs_reason = ''because'',
     hs_outputs = [[(''output_key'', PStr ''mgmt_ip-VDU1''), (''output_value'', PStr ''10.0.0.1'')]]\<rparr>"

definition stack_mea :: mea_dict where
  "stack_mea = (let s = with_mea in projr (make_mea_dict s (hd (t_meas s))))\<lparr>ad_instance_id := Some ''stack'', ad_mgmt_url := None\<rparr>"

lemma sample_heat_counts: "counts_polls (sample_heat answers) length"
  by (simp add: counts_polls_def sample_heat_def)

definition slow_creation :: "(exn + heat_stack) list" where
  "slow_creation = [Inr (in_status ''CREATE_IN_PROGRESS''), Inl runtime_error, Inr (in_status ''CREATE_COMPLETE'')]"


section \<open>The driver in the MEA manager\<close>

text \<open>What the manager's tasks ask of Heat first.\<close>

definition first_answer ::
  "'w heat \<Rightarrow> pydict \<Rightarrow> pyval \<Rightarrow> string option \<Rightarrow> ('w, heat_stack) prog" where
  "first_answer H auth region i = bindE (heat_client H auth region) (\<lambda>ep. he_get H ep i)"

lemma first_answer_fails:
  assumes "first_answer H auth region i w = (Inl e, w1)"
  shows "bindE (heat_client H auth region) (\<lambda>ep. bindE (he_get H ep i) (k ep)) w = (Inl e, w1)"
  using assms by (auto simp: first_answer_def bindE_def split: prod.splits sum.splits)

lemma call_app: "call f s = (Inr (fst (f (p_world s))), s\<lparr>p_world := snd (f (p_world s))\<rparr>)"
  by (simp add: call_def split: prod.splits)

lemma create_wait_call:
  assumes "List.member (dr_infra_types D) ''openstack''"
    and "first_answer H auth (region_of (ad_placement_attr d)) (ad_instance_id d) (p_world s) = (Inl e, w)"
  shows "invoke_mea (with_openstack H C T D) ''openstack'' d
     (dr_create_wait (with_openstack H C T D) ''openstack'' c (ad_instance_id d) auth d) s
   = (Inr (Inl e, d), s\<lparr>p_world := w\<rparr>)"
  using assms
  by (simp add: invoke_mea_def with_openstack_def on_dict_def call_app openstack_create_wait_def
      first_answer_fails bindE_Inl)

text \<open>When Heat cannot be reached at the first question after a new stack, the function
  that waits for the MEA dies with that error and changes nothing: the MEA stays in the state
  it was in, PENDING_CREATE, is not marked as failed and never gets under monitoring. (Later
  failures of the same question are passed over.)\<close>

theorem unreachable_heat_strands:
  assumes "List.member (dr_infra_types D) ''openstack''"
    and "first_answer H auth (region_of (ad_placement_attr d)) (ad_instance_id d) (p_world s) = (Inl e, w)"
    and "\<not> isinstance e (Mem MEACreateWaitFailed)"
  shows "run_task E (with_openstack H C T D) (CreateWait c (Some d) auth ''openstack'') s = (Inl e, s\<lparr>p_world := w\<rparr>)"
proof -
  have "create_mea_wait E (with_openstack H C T D) c d auth ''openstack'' s = (Inl e, s\<lparr>p_world := w\<rparr>)"
    using create_wait_call [OF assms(1,2), of C T c] assms(3)
    by (simp add: create_mea_wait_def Let_def bindE_Inr bindE_Inl wait_for_creation_def)
  then show ?thesis by (simp add: create_task_def bindE_Inl)
qed

definition sample_translators :: "'w translators" where
  "sample_translators = \<lparr>tr_parse = (\<lambda>p t. Inr \<lparr>t_nodes = [], t_policies = []\<rparr>),
     tr_translate = (\<lambda>t p. Inr ''heat''), tr_nested = (\<lambda>t p n. Inr ''nested''),
     tr_yaml_load = Inr, tr_json_load = Inr, tr_json_dump = (\<lambda>v. ''json''), tr_text = (\<lambda>e. ''failed''),
     tr_libs = \<lparr>hl_eval = (\<lambda>s. Inr (PInt 1)),
       hl_parse = (\<lambda>s. Inr (PDict [(''topology_template'', PDict [(''node_templates'', PDict [])]),
         (''tosca_definitions_version'', PStr ''mec''), (''resources'', PDict [])])),
       hl_dump = (\<lambda>v. Inr ''heat''), hl_read = (\<lambda>v. Inr ''text'')\<rparr>,
     tr_attr_support = (\<lambda>r p w. (Inr True, w)), tr_flavor_extra = []\<rparr>"

definition os_drivers :: "(exn + heat_stack) list \<Rightarrow> string list drivers" where
  "os_drivers answers = with_openstack (sample_heat answers) sample_conf sample_translators sample_drivers"

lemma sample_has_openstack: "List.member (dr_infra_types sample_drivers) ''openstack''"
  by code_simp

lemma unreachable_heat_strands_witness:
  "snd (run_task plug_env (os_drivers [Inl runtime_error])
     (CreateWait (user_ctx ''t1'') (Some stack_mea) [] ''openstack'') (plug_of with_mea []))
   = plug_of with_mea [''get'']"
proof -
  let ?s = "plug_of with_mea [] :: string list plug"
  have f: "first_answer (sample_heat [Inl runtime_error]) [] (region_of (ad_placement_attr stack_mea))
      (ad_instance_id stack_mea) (p_world ?s) = (Inl runtime_error, [''get''])" by code_simp
  have e: "\<not> isinstance runtime_error (Mem MEACreateWaitFailed)" by code_simp
  show ?thesis
    unfolding os_drivers_def unreachable_heat_strands [OF sample_has_openstack f e]
    by (simp add: plug_of_def plug.defs db.defs)
qed

section \<open>Deleting\<close>

text \<open>Whatever the handler of a failed deletion does, it deletes no row.\<close>

definition same_deleted :: "'x db_scheme \<Rightarrow> 'x db_scheme \<Rightarrow> bool" where
  "same_deleted s t \<longleftrightarrow> map ma_deleted_at (t_meas t) = map ma_deleted_at (t_meas s)"

interpretation undeleted: transactional_relation same_deleted rollback
  by unfold_locales (simp_all add: same_deleted_def rollback_def)

lemma undeleted_tx: "obeys same_deleted m \<Longrightarrow> obeys same_deleted (tx m)"
  unfolding tx_def by (rule undeleted.r_atomically)

lemma undeleted_prims:
  "obeys same_deleted (bind_uuids is)" "obeys same_deleted utcnow" "obeys same_deleted (call f)"
  by (simp_all add: obeys_def same_deleted_def bind_uuids_def utcnow_def call_app)

lemma undeleted_update: "(\<And>r. ma_deleted_at (f r) = ma_deleted_at r) \<Longrightarrow> obeys same_deleted (update_meas P f)"
  by (simp add: obeys_def same_deleted_def update_meas_def update_where_def)

lemma undeleted_create_event: "obeys same_deleted (create_event i t st e ts d)"
  unfolding create_event_def
  by (intro undeleted.r_intros undeleted_tx undeleted_prims) (simp add: obeys_def same_deleted_def)

lemmas undeleted_intros = undeleted.r_intros obeys_cases undeleted_tx undeleted_prims undeleted_create_event

lemma undeleted_delete_failed: "obeys same_deleted (delete_failed E D c d e)"
  unfolding delete_failed_def set_mea_error_status_reason_def mgmt_def mgmt_try_def delete_mea_post_def
    mea_event_def Let_def if_True
  by (intro undeleted_intros undeleted_update) simp_all

text \<open>A stack that is already gone is nothing to delete for the request, which is
  accepted. But the function that waits for the deletion takes the answer "not found" to its
  first question for a failure: it runs the handler of a failed deletion, and the row of the
  MEA is not deleted.\<close>

theorem gone_stack_not_deleted:
  assumes D: "List.member (dr_infra_types D) ''openstack''" and "ad_instance_id d = Some (ch # i)"
    and e: "isinstance e (Lib HeatHTTPNotFound)"
    and con: "\<And>region w. he_connect H auth region w = (Inr (), w)"
    and gone: "\<And>ep w. fst (he_delete H ep (ad_instance_id d) w) = Inl e"
      "\<And>ep w. fst (he_get H ep (ad_instance_id d) w) = Inl e"
    and D': "D' = with_openstack H C T D" and region: "region = region_of (ad_placement_attr d)"
  shows "fst (dr_delete D' ''openstack'' c (ad_instance_id d) auth region w) = Inr ()
    \<and> (\<exists>w1. run_task E D' (DeleteWait c d auth ''openstack'') s = delete_failed E D' c d e (s\<lparr>p_world := w1\<rparr>))
    \<and> map ma_deleted_at (t_meas (snd (run_task E D' (DeleteWait c d auth ''openstack'') s))) = map ma_deleted_at (t_meas s)"
proof -
  have "bindE (heat_client H auth region) (\<lambda>ep. bindE (he_get H ep (ad_instance_id d)) (k ep)) (p_world s)
      = (Inl e, snd (he_get H (auth, region) (ad_instance_id d) (p_world s)))" for k :: "_ \<Rightarrow> _ \<Rightarrow> ('a, unit) prog"
    using con gone(2) [of "(auth, region)" "p_world s"]
    by (auto simp add: client_app bindE_def split: prod.splits)
  then have "attempt (invoke (dr_infra_types D') ''openstack''
      (dr_delete_wait D' ''openstack'' c (ad_instance_id d) auth region)) s
      = (Inr (Inl e), s\<lparr>p_world := snd (he_get H (auth, region) (ad_instance_id d) (p_world s))\<rparr>)"
    using D by (simp add: D' with_openstack_def openstack_delete_wait_def attempt_app invoke_def call_raise_def call_app bindE_Inr)
  then have run: "\<exists>w1. run_task E D' (DeleteWait c d auth ''openstack'') s = delete_failed E D' c d e (s\<lparr>p_world := w1\<rparr>)"
    using assms(2) by (auto simp: delete_mea_wait_def empty_text_def region bindE_Inr)
  moreover have "fst (dr_delete D' ''openstack'' c (ad_instance_id d) auth region w) = Inr ()"
    using e con gone(1) [of "(auth, region)" w]
    by (auto simp add: D' with_openstack_def openstack_delete_def client_app bindE_Inr heat_delete_def catchE_def split: prod.splits)
  moreover have "map ma_deleted_at (t_meas (snd (delete_failed E D' c d e (s\<lparr>p_world := w1\<rparr>)))) = map ma_deleted_at (t_meas s)" for w1
    using obeysD [OF undeleted_delete_failed [of E D' c d e], of "s\<lparr>p_world := w1\<rparr>"] by (simp add: same_deleted_def)
  ultimately show ?thesis by metis
qed

text \<open>The deletion of an MEA whose stack is gone ends in ERROR.\<close>

definition dying_mea :: "string list plug" where
  "dying_mea = (let s = plug_of with_mea [] in
     s\<lparr>t_meas := map (\<lambda>r. r\<lparr>ma_status := PENDING_DELETE\<rparr>) (t_meas s)\<rparr>)"

lemma gone_stack_not_deleted_witness:
  "(let t = snd (run_task plug_env (os_drivers []) (DeleteWait (user_ctx ''t1'') stack_mea [] ''openstack'') dying_mea) in
     map ma_deleted_at (t_meas t) = [Some datetime_min] \<and> map ma_status (t_meas t) = [ERROR])"
proof -
  let ?e = "Exc (Lib HeatHTTPNotFound) []" and ?H = "sample_heat []"
  have "ad_instance_id stack_mea = Some (CHR ''s'' # ''tack'')" by code_simp
  moreover have "isinstance ?e (Lib HeatHTTPNotFound)" by code_simp
  moreover have "he_connect ?H [] region w = (Inr (), w)" "fst (he_delete ?H ep i w) = Inl ?e"
      "fst (he_get ?H ep i w) = Inl ?e" for region ep i w
    by (simp_all add: sample_heat_def)
  ultimately have "map ma_deleted_at (t_meas (snd (run_task plug_env (os_drivers [])
      (DeleteWait (user_ctx ''t1'') stack_mea [] ''openstack'') dying_mea))) = map ma_deleted_at (t_meas dying_mea)"
    using gone_stack_not_deleted [OF sample_has_openstack, of stack_mea _ _ ?e ?H "[]" "os_drivers []" sample_conf
        sample_translators _ "user_ctx ''t1''" _ plug_env dying_mea] unfolding os_drivers_def by blast
  moreover have "map ma_deleted_at (t_meas dying_mea) = [Some datetime_min]" by code_simp
  moreover have "map ma_status (t_meas (snd (run_task plug_env (os_drivers [])
      (DeleteWait (user_ctx ''t1'') stack_mea [] ''openstack'') dying_mea))) = [ERROR]" by code_simp
  ultimately show ?thesis by (simp only: Let_def)
qed

section \<open>Scaling\<close>

text \<open>With a number of retries the loop ends; if no event ever completes, by the branch for
  the last retry.\<close>

lemma scale_loop_returns: "0 \<le> n \<Longrightarrow> \<exists>r. scale_loop poll timeout n w = Some r"
proof (induction "nat n" arbitrary: n w)
  case 0
  then show ?case by (simp add: scale_loop.simps Let_def split: sum.split)
next
  case (Suc k)
  then have "k = nat (n - 1)" "0 \<le> n - 1" by simp_all
  from Suc.hyps(1) [OF this] show ?case
    by (simp add: scale_loop.simps [of poll timeout n] Let_def split: sum.split)
qed

lemma scale_loop_times_out:
  assumes poll: "\<And>w. fst (poll w) = Inr False"
  shows "0 \<le> n \<Longrightarrow> \<exists>w'. scale_loop poll timeout n w = Some (timeout w')"
proof (induction "nat n" arbitrary: n w)
  case 0
  then show ?case using poll by (auto simp: scale_loop.simps Let_def)
next
  case (Suc k)
  then have n: "k = nat (n - 1)" "0 \<le> n - 1" "n \<noteq> 0" by simp_all
  from Suc.hyps(1) [OF n(1,2)] n(3) show ?case
    by (simp add: scale_loop.simps [of poll timeout n] Let_def poll)
qed

text \<open>With a negative number it goes on as long as no event completes.\<close>

lemma scale_loop_no_result:
  assumes "scale_loop poll timeout n w = Some r" shows "n < 0 \<longrightarrow> (\<exists>w. fst (poll w) \<noteq> Inr False)"
  by (rule scale_loop.raw_induct [where P = "\<lambda>poll _ n _ _. n < 0 \<longrightarrow> (\<exists>w. fst (poll w) \<noteq> Inr False)", OF _ assms])
     (force simp: Let_def split: sum.splits if_splits)

lemma scale_loop_diverges:
  "n < 0 \<Longrightarrow> (\<And>w. fst (poll w) = Inr False) \<Longrightarrow> scale_loop poll timeout n w = None"
  using scale_loop_no_result [of poll timeout n w] by (cases "scale_loop poll timeout n w") auto

lemma scale_wait_app:
  assumes "he_connect H auth region w = (Inr u, w1)"
  shows "openstack_scale_wait H C auth p region seen w =
    (case scale_loop (scale_poll H C (auth, region) p seen) (scale_timeout H (auth, region) p) (STACK_RETRIES C) w1 of
       None \<Rightarrow> None | Some (Inl e, w2) \<Rightarrow> Some (Inl e, w2)
     | Some (Inr _, w2) \<Rightarrow> Some (scaled_ips H (auth, region) p w2))"
  using assms by (simp add: openstack_scale_wait_def client_app)

text \<open>C40: With a non-negative number of retries the wait for a scaling returns. With a
  negative one, for which the loop has no exit, it never does while no new event of the
  policy completes.\<close>

theorem scale_wait_returns:
  "(0 \<le> STACK_RETRIES C \<longrightarrow> (\<exists>r. openstack_scale_wait H C auth p region seen w = Some r))
   \<and> (STACK_RETRIES C < 0 \<longrightarrow> fst (he_connect H auth region w) = Inr () \<longrightarrow>
       (\<forall>w. fst (scale_poll H C (auth, region) p seen w) = Inr False) \<longrightarrow>
       openstack_scale_wait H C auth p region seen w = None)"
proof -
  obtain c w1 where con: "he_connect H auth region w = (c, w1)" by fastforce
  show ?thesis
  proof (cases c)
    case (Inl e)
    then show ?thesis by (simp add: openstack_scale_wait_def client_app con)
  next
    case (Inr u)
    with con have run: "he_connect H auth region w = (Inr u, w1)" by simp
    have "\<exists>r. openstack_scale_wait H C auth p region seen w = Some r" if "0 \<le> STACK_RETRIES C"
      using scale_loop_returns [OF that, of "scale_poll H C (auth, region) p seen" "scale_timeout H (auth, region) p" w1]
      unfolding scale_wait_app [OF run] by (auto split: sum.splits)
    then show ?thesis
      using scale_loop_diverges [of "STACK_RETRIES C" "scale_poll H C (auth, region) p seen"]
      by (simp add: scale_wait_app [OF run])
  qed
qed

definition scale_out :: policy where
  "scale_out = \<lparr>pol_type = PStr POLICY_SCALING, pol_properties = PNone, pol_mea = stack_mea, pol_name = ''SP1'',
     pol_id = ''p'', pol_action = PStr ''out'', pol_instance = Some ''stack''\<rparr>"

lemma scale_wait_returns_witness:
  "openstack_scale_wait (sample_heat []) \<lparr>STACK_RETRIES = - 1, STACK_RETRY_WAIT = 10\<rparr> [] scale_out PNone (PStr ''e0'') [] = None
   \<and> (\<exists>r. openstack_scale_wait (sample_heat []) sample_conf [] scale_out PNone (PStr ''e0'') [] = Some r)"
proof -
  let ?C = "\<lparr>STACK_RETRIES = - 1, STACK_RETRY_WAIT = 10\<rparr>"
  have "fst (scale_poll (sample_heat []) ?C ([], PNone) scale_out (PStr ''e0'') w) = Inr False" for w
    by (simp add: scale_poll_def sample_heat_def catchE_def thenE_def bindE_def last_event_def)
  then show ?thesis
    using scale_wait_returns [of ?C "sample_heat []" "[]" scale_out PNone "PStr ''e0''" "[]"]
      scale_wait_returns [of sample_conf "sample_heat []" "[]" scale_out PNone "PStr ''e0''" "[]"]
    by (simp add: sample_conf_def) (simp add: sample_heat_def)
qed

text \<open>If no new event of the policy completes within the retries and Heat says that the
  scaling is in progress, the wait ends with a ValueError, since the format of the message is
  broken, and not with the error for a scaling that has failed.\<close>

theorem scale_timeout_is_value_error:
  assumes "0 \<le> STACK_RETRIES C" and "fst (he_connect H auth region w) = Inr ()"
    and poll: "\<And>w. fst (scale_poll H C (auth, region) p seen w) = Inr False"
    and meta: "\<And>w. fst (he_metadata H (auth, region) (pol_instance p)
      (get_scaling_policy_name (pol_action p) (pol_name p)) w) = Inr (PDict [(''scaling_in_progress'', PBool True)])"
  shows "\<exists>w'. openstack_scale_wait H C auth p region seen w = Some (Inl (Exc (Lib ValueError) []), w')"
proof -
  obtain w1 where con: "he_connect H auth region w = (Inr (), w1)" using assms(2) by (metis prod.collapse)
  have "fst (scale_timeout H (auth, region) p w) = Inl value_error" for w
    using meta [of w] by (auto simp: scale_timeout_def bindE_def raise_def split: prod.splits)
  then have "\<exists>w'. scale_timeout H (auth, region) p w2 = (Inl value_error, w')" for w2
    by (metis prod.collapse)
  moreover obtain w2 where "scale_loop (scale_poll H C (auth, region) p seen) (scale_timeout H (auth, region) p)
      (STACK_RETRIES C) w1 = Some (scale_timeout H (auth, region) p w2)"
    using scale_loop_times_out [where poll = "scale_poll H C (auth, region) p seen", OF poll assms(1)] by blast
  ultimately obtain w3 where "scale_loop (scale_poll H C (auth, region) p seen) (scale_timeout H (auth, region) p)
      (STACK_RETRIES C) w1 = Some (Inl value_error, w3)"
    by metis
  then show ?thesis by (simp add: scale_wait_app [OF con] value_error_def)
qed

lemma scale_timeout_is_value_error_witness:
  "\<exists>w'. openstack_scale_wait (sample_heat []) sample_conf [] scale_out PNone (PStr ''e0'') [] = Some (Inl (Exc (Lib ValueError) []), w')"
  by (rule scale_timeout_is_value_error)
     (simp_all add: sample_conf_def scale_poll_def sample_heat_def catchE_def thenE_def bindE_def last_event_def)

section \<open>Creating\<close>

text \<open>Heat's client looks for a password in the template. The template is text there, so the
  text may only not contain that word.\<close>

lemma password_template_refused:
  assumes "he_connect H auth (region_of (ad_placement_attr d)) w = (Inr (), w1)"
    and "generate_hot (T\<lparr>tr_attr_support := resource_attr_support H (auth, region_of (ad_placement_attr d))\<rparr>) d w1
      = (Inr (args, d1), w2)"
    and "map_of args ''template'' = Some (PStr tpl)" and "str_in ''password'' tpl"
  shows "openstack_create H T auth d w = (Inl type_error, w2)"
proof -
  let ?f = "if has_key ''stack_name'' args then args else dict_set ''stack_name'' (PStr (stack_name d1)) args"
  have "map_of ?f ''template'' = Some (PStr tpl)" using assms(3) by simp
  then have "create_stack H (auth, region_of (ad_placement_attr d)) d1 args w2 = (Inl type_error, w2)"
    using assms(4)
    by (simp add: create_stack_def Let_def heat_create_def with_password_def dict_update_def dict_get_def
        contains_def subscr_def bindE_Inr bindE_Inl)
  then show ?thesis
    using assms(1,2) by (simp add: openstack_create_def client_app bindE_Inr bindE_Inl)
qed

section \<open>Merging configurations\<close>

text \<open>What stands at a path of keys; an update misses a path when it has no entry for the
  next key somewhere on the way; all dictionaries in a value have distinct keys.\<close>

fun at_path :: "string list \<Rightarrow> pyval \<Rightarrow> pyval option" where
  "at_path [] v = Some v"
| "at_path (k # ks) (PDict d) = (case map_of d k of None \<Rightarrow> None | Some v \<Rightarrow> at_path ks v)"
| "at_path (k # ks) v = None"

fun misses :: "string list \<Rightarrow> pyval \<Rightarrow> bool" where
  "misses (k # ks) (PDict d) \<longleftrightarrow> (case map_of d k of None \<Rightarrow> True | Some v \<Rightarrow> misses ks v)"
| "misses ks v \<longleftrightarrow> False"

fun tree_ok :: "pyval \<Rightarrow> bool" where
  "tree_ok (PDict d) \<longleftrightarrow> dict_ok d \<and> list_all (\<lambda>kv. tree_ok (snd kv)) d"
| "tree_ok v \<longleftrightarrow> True"

definition merge_value :: "pyval option \<Rightarrow> pyval \<Rightarrow> pyval" where
  "merge_value old new = (case (old, new) of
     (Some (PDict a), PDict b) \<Rightarrow> PDict (deep_update a b) | _ \<Rightarrow> new)"

lemma deep_update_Cons: "deep_update orig ((k, v) # rest) = deep_update (dict_set k (merge_value (map_of orig k) v) orig) rest"
  by (cases v) (auto simp: merge_value_def split: option.splits pyval.splits)

lemma deep_update_lookup:
  "dict_ok new \<Longrightarrow> map_of (deep_update orig new) k = (case map_of new k of
     None \<Rightarrow> map_of orig k | Some v \<Rightarrow> Some (merge_value (map_of orig k) v))"
proof (induction new arbitrary: orig)
  case (Cons kv new)
  then show ?case
    by (cases kv) (auto simp: deep_update_Cons dict_ok_def map_of_eq_None_iff [symmetric] split: option.splits)
qed simp

lemma merge_value_simps [simp]:
  "merge_value (Some (PDict a)) (PDict b) = PDict (deep_update a b)"
  "\<not> is_dict v \<Longrightarrow> merge_value old v = v"
  "merge_value None v = v"
  "\<not> is_dict u \<Longrightarrow> merge_value (Some u) v = v"
  by (auto simp: merge_value_def split: option.splits pyval.splits)

lemma tree_ok_value: "tree_ok (PDict d) \<Longrightarrow> map_of d k = Some v \<Longrightarrow> tree_ok v"
  by (auto simp: list_all_iff dest!: map_of_SomeD)

lemma at_path_dict: "at_path (k # ks) v = Some x \<Longrightarrow> \<exists>d u. v = PDict d \<and> map_of d k = Some u \<and> at_path ks u = Some x"
  by (cases v) (auto split: option.splits)

lemma at_path_merged:
  "tree_ok v \<Longrightarrow> at_path ks v = Some x \<Longrightarrow> \<not> is_dict x \<Longrightarrow> at_path ks (merge_value old v) = Some x"
proof (induction ks arbitrary: v old)
  case (Cons k ks)
  from at_path_dict [OF Cons.prems(2)] obtain d u where
    v: "v = PDict d" "map_of d k = Some u" "at_path ks u = Some x" by blast
  have "tree_ok u" using Cons.prems(1) v by (simp only:) (rule tree_ok_value)
  from Cons.IH [OF this v(3) Cons.prems(3)] have "at_path ks (merge_value o1 u) = Some x" for o1 .
  then show ?case using Cons.prems v
    by (cases old) (auto simp: merge_value_def deep_update_lookup split: pyval.splits)
qed simp

lemma misses_dict: "misses (k # ks) v \<Longrightarrow>
  \<exists>d. v = PDict d \<and> (map_of d k = None \<or> (\<exists>u. map_of d k = Some u \<and> misses ks u))"
  by (cases v) (auto split: option.splits)

lemma misses_nothing: "misses ks v \<Longrightarrow> at_path ks v = None"
proof (induction ks arbitrary: v)
  case (Cons k ks)
  from misses_dict [OF Cons.prems] show ?case using Cons.IH by auto
qed simp

lemma at_path_no_dict: "\<not> is_dict v \<Longrightarrow> at_path (k # ks) v = None"
  by (cases v) auto

lemma at_path_missed:
  "tree_ok v \<Longrightarrow> misses ks v \<Longrightarrow> at_path ks (merge_value old v) = Option.bind old (at_path ks)"
proof (induction ks arbitrary: v old)
  case (Cons k ks)
  from misses_dict [OF Cons.prems(2)] obtain new where new: "v = PDict new"
    "map_of new k = None \<or> (\<exists>u. map_of new k = Some u \<and> misses ks u)" by blast
  consider (dict) a where "old = Some (PDict a)" | (leaf) u where "old = Some u" "\<not> is_dict u" | (absent) "old = None"
    by (metis is_dict.simps option.exhaust pyval.exhaust)
  then show ?case
  proof cases
    case dict
    have "at_path ks (merge_value (map_of a k) u) = Option.bind (map_of a k) (at_path ks)"
      if "map_of new k = Some u" "misses ks u" for u
      using Cons.IH [OF _ that(2)] tree_ok_value [OF _ that(1)] Cons.prems(1) new(1) by blast
    with new dict Cons.prems(1) show ?thesis
      by (auto simp: deep_update_lookup split: option.splits)
  next
    case leaf
    with misses_nothing [OF Cons.prems(2)] show ?thesis by (simp add: at_path_no_dict)
  next
    case absent
    with misses_nothing [OF Cons.prems(2)] show ?thesis by simp
  qed
qed simp

text \<open>After an update the configuration has the new value at every path that leads in the
  update to something other than a dictionary, and the old one at every path that the update
  misses.\<close>

lemma config_update_merges:
  assumes "merged_config H config update = Inr (Some m)"
    and "he_yaml_load H update = Inr (PDict new)" and "tree_ok (PDict new)"
    and "truthy config" and "he_yaml_load H config = Inr (PDict old)"
  shows "(\<forall>k ks v. at_path (k # ks) (PDict new) = Some v \<longrightarrow> \<not> is_dict v \<longrightarrow> at_path (k # ks) m = Some v)
    \<and> (\<forall>ks. misses ks (PDict new) \<longrightarrow> at_path ks m = at_path ks (PDict old))"
proof -
  have m: "m = merge_value (Some (PDict old)) (PDict new)"
    using assms by (auto simp: merged_config_def split: if_splits)
  show ?thesis
    using at_path_merged [OF assms(3), of _ _ "Some (PDict old)"] at_path_missed [OF assms(3), of _ "Some (PDict old)"]
    unfolding m by (simp del: at_path.simps)
qed

lemma config_update_merges_witness:
  "let old = PDict [(''vdus'', PDict [(''VDU1'', PStr ''a''), (''VDU2'', PStr ''b'')])];
       new = PDict [(''vdus'', PDict [(''VDU1'', PStr ''c'')])];
       m = PDict [(''vdus'', PDict [(''VDU1'', PStr ''c''), (''VDU2'', PStr ''b'')])]
   in merged_config (sample_heat []) old new = Inr (Some m)
    \<and> at_path [''vdus'', ''VDU1''] m = Some (PStr ''c'') \<and> at_path [''vdus'', ''VDU2''] m = Some (PStr ''b'')"
proof -
  let ?old = "[(''vdus'', PDict [(''VDU1'', PStr ''a''), (''VDU2'', PStr ''b'')])]"
    and ?new = "[(''vdus'', PDict [(''VDU1'', PStr ''c'')])]"
    and ?m = "PDict [(''vdus'', PDict [(''VDU1'', PStr ''c''), (''VDU2'', PStr ''b'')])]"
  have run: "merged_config (sample_heat []) (PDict ?old) (PDict ?new) = Inr (Some ?m)" by code_simp
  have load: "he_yaml_load (sample_heat []) v = Inr v" for v by (simp add: sample_heat_def)
  have ok: "tree_ok (PDict ?new)" and t: "truthy (PDict ?old)" by code_simp+
  note claim = config_update_merges [OF run load ok t load]
  have "at_path [''vdus'', ''VDU1''] (PDict ?new) = Some (PStr ''c'')" "\<not> is_dict (PStr ''c'')" by code_simp+
  then have "at_path [''vdus'', ''VDU1''] ?m = Some (PStr ''c'')" using conjunct1 [OF claim] by blast
  moreover have "misses [''vdus'', ''VDU2''] (PDict ?new)" by code_simp
  then have "at_path [''vdus'', ''VDU2''] ?m = at_path [''vdus'', ''VDU2''] (PDict ?old)" using conjunct2 [OF claim] by blast
  moreover have "at_path [''vdus'', ''VDU2''] (PDict ?old) = Some (PStr ''b'')" by code_simp
  ultimately show ?thesis using run by (simp only: Let_def simp_thms)
qed

end
