(* ===== verification/VimDriver.thy ===== *)
theory VimDriver
  imports MeoDb MemPlugin
begin

text \<open>
  meo/drivers/vim/openstack_driver.py: registration of a VIM. The state is the
  database with the key files of the VIMs and the outside world. Keystone, barbican, neutron
  and fernet are parameters. The driver works on the dictionary of the VIM, which it changes
  also when it fails, so an operation answers the dictionary beside its outcome.
\<close>

section \<open>State and libraries\<close>

record 'w site = db +
  key_files :: "(string \<times> string) list"
  site_world :: 'w

type_synonym ('w, 'x, 'a) sprog = "(('w, 'x) site_scheme, 'a) prog"

record 'w vim_libs =
  vl_version :: "string \<Rightarrow> ('w, string) prog"
  vl_client :: "string \<Rightarrow> pydict \<Rightarrow> ('w, string) prog"
  vl_services :: "pydict \<Rightarrow> ('w, (string \<times> string) list) prog"
  vl_endpoints :: "pydict \<Rightarrow> ('w, (string \<times> string) list) prog"
  vl_regions :: "pydict \<Rightarrow> ('w, string list) prog"
  vl_refused :: "exn \<Rightarrow> bool"
  vl_text :: "exn \<Rightarrow> string"
  vl_new_key :: "('w, string) prog"
  vl_encrypt :: "string \<Rightarrow> string \<Rightarrow> string"
  vl_use_barbican :: bool
  vl_store_secret :: "ctx \<Rightarrow> string \<Rightarrow> ('w, string) prog"
  vl_delete_secret :: "ctx \<Rightarrow> pyval \<Rightarrow> ('w, unit) prog"
  vl_list_networks :: "pydict \<Rightarrow> string \<Rightarrow> ('w, pyval list) prog"
  vl_open :: "string \<Rightarrow> exn + unit"
  vl_python2 :: bool

definition site_call :: "('w, 'a) prog \<Rightarrow> ('w, 'x, 'a) sprog" where
  "site_call f = (\<lambda>s. case f (site_world s) of (r, w) \<Rightarrow> (r, s\<lparr>site_world := w\<rparr>))"

text \<open>A step on the dictionary: it answers the dictionary whatever its outcome.\<close>

type_synonym ('w, 'x) vstep = "pydict \<Rightarrow> ('w, 'x, (exn + unit) \<times> pydict) sprog"

definition pure_step :: "(pydict \<Rightarrow> exn + pydict) \<Rightarrow> ('w, 'x) vstep" where
  "pure_step f d = ret (case f d of Inl e \<Rightarrow> (Inl e, d) | Inr d1 \<Rightarrow> (Inr (), d1))"

text \<open>An effect whose result the dictionary gets.\<close>

definition eff_step :: "('w, 'x, 'a) sprog \<Rightarrow> ('a \<Rightarrow> pydict \<Rightarrow> exn + pydict) \<Rightarrow> ('w, 'x) vstep" where
  "eff_step m f d = bindE (attempt m) (\<lambda>r. case r of Inl e \<Rightarrow> ret (Inl e, d) | Inr x \<Rightarrow> pure_step (f x) d)"

definition sub_dict :: "string \<Rightarrow> pydict \<Rightarrow> exn + pydict" where
  "sub_dict k d = bindS (subscr k (PDict d)) dict_of"

definition set_cred :: "(pydict \<Rightarrow> exn + pydict) \<Rightarrow> pydict \<Rightarrow> exn + pydict" where
  "set_cred f d = bindS (sub_dict ''auth_cred'' d) (\<lambda>c. bindS (f c) (\<lambda>c1. Inr (dict_set ''auth_cred'' (PDict c1) d)))"

definition text_of :: "string \<Rightarrow> pydict \<Rightarrow> exn + string" where
  "text_of k d = bindS (subscr k (PDict d)) str_of"

section \<open>Authentication\<close>

definition get_auth_creds :: "string \<Rightarrow> pydict \<Rightarrow> exn + pydict" where
  "get_auth_creds version d =
     bindS (text_of ''auth_url'' d) (\<lambda>url.
     bindS (sub_dict ''vim_project'' d) (\<lambda>project.
     let url1 = (if str_in version url then url else url @ ''/'' @ version);
         p = (\<lambda>k. dict_get k PNone project);
         cred = (\<lambda>c. if version = ''v3''
           then dict_update c [(''project_id'', p ''id''), (''project_name'', p ''name''),
             (''project_domain_name'', p ''project_domain_name'')]
           else dict_del ''user_id'' (dict_del ''user_domain_name''
             (dict_update c [(''tenant_id'', p ''id''), (''tenant_name'', p ''name'')]))) in
     set_cred (\<lambda>c. Inr (dict_set ''auth_url'' (PStr url1) (cred c))) (dict_set ''auth_url'' (PStr url1) d)))"

definition validate_auth_url :: "'w vim_libs \<Rightarrow> string \<Rightarrow> ('w, 'x, string) sprog" where
  "validate_auth_url L url = catchE (site_call (vl_version L url))
     (\<lambda>e. raise (Exc (Meo VimConnectionException) [(''message'', PStr (vl_text L e))]))"

text \<open>A version 2.0 client lists the endpoints of the orchestration service, a version 3 client
  the regions.\<close>

definition find_regions :: "'w vim_libs \<Rightarrow> string \<Rightarrow> pydict \<Rightarrow> ('w, 'x, string list) sprog" where
  "find_regions L client_version cred =
     (if client_version = ''v2.0'' then
        bindE (site_call (vl_services L cred)) (\<lambda>services.
        bindE (site_call (vl_endpoints L cred)) (\<lambda>endpoints.
        let heat = foldl (\<lambda>found (i, ty). if ty = ''orchestration'' then Some i else found) None services in
        ret (map snd (filter (\<lambda>(i, _). Some i = heat) endpoints))))
      else site_call (vl_regions L cred))"

definition discover_placement_attr :: "'w vim_libs \<Rightarrow> string \<Rightarrow> pydict \<Rightarrow> ('w, 'x, string list) sprog" where
  "discover_placement_attr L client_version cred =
     catchE (find_regions L client_version cred)
       (\<lambda>e. if vl_refused L e then raise (Exc (Meo VimUnauthorizedException) [(''message'', PStr (vl_text L e))])
         else raise e)"

definition set_regions :: "string list \<Rightarrow> pydict \<Rightarrow> exn + pydict" where
  "set_regions rs d = Inr (dict_set ''placement_attr'' (PDict [(''regions'', PList (map PStr rs))]) d)"

text \<open>\<open>authenticate_vim\<close> and \<open>discover_placement_attr\<close> in a row.\<close>

definition authenticate_and_discover :: "'w vim_libs \<Rightarrow> ('w, 'x) vstep" where
  "authenticate_and_discover L d =
     bindE (attempt (bindE (pureE (text_of ''auth_url'' d)) (validate_auth_url L))) (\<lambda>r. case r of
       Inl e \<Rightarrow> ret (Inl e, d)
     | Inr version \<Rightarrow> and_then (pure_step (get_auth_creds version) d) (\<lambda>d1.
         eff_step (bindE (pureE (sub_dict ''auth_cred'' d1)) (\<lambda>cred.
             bindE (site_call (vl_client L version cred)) (\<lambda>cv. discover_placement_attr L cv cred)))
           set_regions d1))"

section \<open>Credentials\<close>

text \<open>The file is opened for writing, which creates or empties it. The key is a byte string;
  under Python 3 it is written undecoded to a text file, which raises TypeError.\<close>

definition write_file :: "string \<Rightarrow> string \<Rightarrow> ('w, 'x, unit) sprog" where
  "write_file name content = modify (\<lambda>s. s\<lparr>key_files := dict_set name content (key_files s)\<rparr>)"

definition write_key :: "'w vim_libs \<Rightarrow> string \<Rightarrow> string \<Rightarrow> ('w, 'x, unit) sprog" where
  "write_key L vim_id key = (case vl_open L vim_id of
     Inl e \<Rightarrow> if isinstance e (Lib IOError) then raise (Exc (Meo VimKeyNotFoundException) [(''vim_id'', PStr vim_id)])
       else raise e
   | Inr _ \<Rightarrow> thenE (write_file vim_id (if vl_python2 L then key else []))
       (if vl_python2 L then ret () else raise type_error))"

definition encode_vim_auth :: "'w vim_libs \<Rightarrow> ctx \<Rightarrow> string \<Rightarrow> ('w, 'x) vstep" where
  "encode_vim_auth L c vim_id d =
     bindE (attempt (site_call (vl_new_key L))) (\<lambda>r. case r of
       Inl e \<Rightarrow> ret (Inl e, d)
     | Inr key \<Rightarrow> and_then (pure_step (set_cred (\<lambda>a. bindS (text_of ''password'' a) (\<lambda>p.
           Inr (dict_set ''password'' (PStr (vl_encrypt L key p)) a)))) d) (\<lambda>d1.
         if vl_use_barbican L then
           eff_step (site_call (vl_store_secret L c key)) (\<lambda>secret. set_cred (\<lambda>a.
             Inr (dict_update a [(''key_type'', PStr ''barbican_key''), (''secret_uuid'', PStr secret)]))) d1
         else and_then (pure_step (set_cred (\<lambda>a. Inr (dict_set ''key_type'' (PStr ''fernet_key'') a))) d1)
           (eff_step (write_key L vim_id key) (\<lambda>_. Inr))))"

definition delete_vim_auth :: "'w vim_libs \<Rightarrow> ctx \<Rightarrow> string \<Rightarrow> pydict \<Rightarrow> ('w, 'x, unit) sprog" where
  "delete_vim_auth L c vim_id auth =
     (if dict_get ''key_type'' PNone auth = PStr ''barbican_key''
      then bindE (pureE (subscr ''secret_uuid'' (PDict auth))) (\<lambda>i. site_call (vl_delete_secret L c i))
      else modify (\<lambda>s. s\<lparr>key_files := dict_del vim_id (key_files s)\<rparr>))"

section \<open>Registration\<close>

definition register_vim :: "'w vim_libs \<Rightarrow> ctx \<Rightarrow> ('w, 'x) vstep" where
  "register_vim L c d =
     and_then (pure_step (set_cred (\<lambda>a. Inr (dict_del ''secret_uuid'' (dict_del ''key_type'' a)))) d) (\<lambda>d1.
     and_then (authenticate_and_discover L d1) (\<lambda>d2.
       bindE (attempt (pureE (text_of ''id'' d2))) (\<lambda>r. case r of
         Inl e \<Rightarrow> ret (Inl e, d2) | Inr i \<Rightarrow> encode_vim_auth L c i d2)))"

definition deregister_vim :: "'w vim_libs \<Rightarrow> ctx \<Rightarrow> pydict \<Rightarrow> ('w, 'x, unit) sprog" where
  "deregister_vim L c d = bindE (pureE (text_of ''id'' d)) (\<lambda>i.
     bindE (pureE (sub_dict ''auth_cred'' d)) (delete_vim_auth L c i))"

section \<open>Resources\<close>

definition vim_resource_error :: "(pydict \<Rightarrow> exn) \<Rightarrow> string \<Rightarrow> exn" where
  "vim_resource_error f name = f [(''cmd'', PStr ''list_networks''), (''name'', PStr name)]"

definition get_vim_resource_id :: "'w vim_libs \<Rightarrow> pydict \<Rightarrow> string \<Rightarrow> string \<Rightarrow> ('w, 'x, pyval) sprog" where
  "get_vim_resource_id L d ty name =
     (if ty \<noteq> ''network'' then raise (Exc (Meo VimUnsupportedResourceTypeException) [(''type'', PStr ty)])
      else bindE (pureE (text_of ''auth_url'' d)) (\<lambda>url.
      bindE (validate_auth_url L url) (\<lambda>version.
      bindE (pureE (bindS (get_auth_creds version d) (sub_dict ''auth_cred''))) (\<lambda>cred.
      bindE (catchE (site_call (vl_list_networks L cred name)) (\<lambda>e. raise (Exc (Meo VimGetResourceException)
          [(''cmd'', PStr ''list_networks''), (''name'', PStr name), (''type'', PStr ty)]))) (\<lambda>rs.
      if length rs > 1 then raise (vim_resource_error (Exc (Meo VimGetResourceNameNotUnique)) name)
      else if length rs < 1 then raise (vim_resource_error (Exc (Meo VimGetResourceNotFoundException)) name)
      else pureE (subscr ''id'' (hd rs)))))))"

end
