(* ===== verification/Workflow.thy ===== *)
theory Workflow
  imports PyOps
begin

text \<open>
  The Mistral workflows: mistral/workflow_generator.py and its two subclasses, for network
  services (meo/drivers/workflow) and for the monitoring of a VIM (meo/workflows/vim_monitor).
  A generator is the record of its fields; a network service comes with the MEADs it uses,
  the id of each and the nodes that are its instances.
\<close>

record generator =
  wf_name :: string
  wf_identifier :: string
  wf_definition :: pydict
  wf_input_dict :: pydict

record mead_detail =
  md_id :: pyval
  md_instances :: "string list"

type_synonym mead_details = "(string \<times> mead_detail) list"

definition basic_workflow :: "string \<Rightarrow> pydict" where
  "basic_workflow resource = [(''type'', PStr ''direct''), (''input'', PList [PStr resource])]"

definition new_generator :: "string \<Rightarrow> string \<Rightarrow> string \<Rightarrow> generator" where
  "new_generator resource action uuid = (let name = action @ ''_'' @ resource in
     \<lparr>wf_name = name, wf_identifier = ''std.'' @ name @ uuid, wf_definition = basic_workflow resource,
      wf_input_dict = []\<rparr>)"

text \<open>The whole definition, and the tasks in it.\<close>

definition whole_definition :: "generator \<Rightarrow> pydict" where
  "whole_definition g = [(''version'', PStr ''2.0''), (wf_identifier g, PDict (wf_definition g))]"

definition get_tasks :: "generator \<Rightarrow> pyval" where
  "get_tasks g = dict_get ''tasks'' PNone (wf_definition g)"

section \<open>Network services\<close>

definition nodes_of :: "mead_details \<Rightarrow> string list" where
  "nodes_of meads = concat (map (md_instances \<circ> snd) meads)"

definition dict_of_nodes :: "(string \<Rightarrow> string \<times> pyval) \<Rightarrow> mead_details \<Rightarrow> pydict" where
  "dict_of_nodes f meads = foldl (\<lambda>d n. dict_set (fst (f n)) (snd (f n)) d) [] (nodes_of meads)"

definition result_of :: "string \<Rightarrow> string \<Rightarrow> pyval" where
  "result_of task field = PStr (''<% task('' @ task @ '').result.mea.'' @ field @ '' %>'')"

definition create_mea_task :: "string \<Rightarrow> string \<Rightarrow> string \<times> pyval" where
  "create_mea_task name node = (let task = name @ ''_'' @ node in (task, PDict [
     (''action'', PStr (''apmec.create_mea body=<% $.mea.'' @ node @ '' %>'')),
     (''input'', PDict [(''body'', PStr (''<% $.mea.'' @ node @ '' %>''))]),
     (''publish'', PDict [(''mea_id_'' @ node, result_of task ''id''), (''vim_id_'' @ node, result_of task ''vim_id''),
        (''mgmt_url_'' @ node, result_of task ''mgmt_url''), (''status_'' @ node, result_of task ''status'')]),
     (''on-success'', PList [PStr (''wait_mea_active_'' @ node)])]))"

text \<open>The key \<open>break-on\<close> is written twice in the literal: the second value counts.\<close>

definition wait_mea_task :: "string \<Rightarrow> string \<times> pyval" where
  "wait_mea_task node = (let task = ''wait_mea_active_'' @ node; q = [CHR 0x22] in (task, PDict [
     (''action'', PStr (''apmec.show_mea mea=<% $.mea_id_'' @ node @ '' %>'')),
     (''retry'', PDict [(''count'', PInt 10), (''delay'', PInt 10),
        (''break-on'', PStr (''<% $.status_'' @ node @ '' = '' @ q @ ''ERROR'' @ q @ '' %>'')),
        (''continue-on'', PStr (''<% $.status_'' @ node @ '' = '' @ q @ ''PENDING_CREATE'' @ q @ '' %>''))]),
     (''publish'', PDict [(''mgmt_url_'' @ node, PStr ('' <% task('' @ task @ '').result.mea.mgmt_url %>'')),
        (''status_'' @ node, result_of task ''status'')]),
     (''on-success'', PList [PDict [(''delete_mea_'' @ node,
        PStr (''<% $.status_'' @ node @ ''='' @ q @ ''ERROR'' @ q @ '' %>''))]])]))"

definition delete_mea_task :: "string \<Rightarrow> string \<times> pyval" where
  "delete_mea_task node = (''delete_mea_'' @ node,
     PDict [(''action'', PStr (''apmec.delete_mea mea=<% $.mea_id_'' @ node @ ''%>''))])"

definition OUTPUT :: "(string \<times> string list) list" where
  "OUTPUT = [(''create_mea'', [''mea_id'', ''vim_id'', ''mgmt_url'', ''status''])]"

definition build_output_dict :: "string \<Rightarrow> mead_details \<Rightarrow> exn + pydict" where
  "build_output_dict name meads = (case map_of OUTPUT name of
       None \<Rightarrow> if nodes_of meads = [] then Inr [] else Inl key_error
     | Some ops \<Rightarrow> Inr (foldl (\<lambda>d (node, op). dict_set (op @ ''_'' @ node)
         (PStr (''<% $.'' @ op @ ''_'' @ node @ '' %>'')) d) [] (List.product (nodes_of meads) ops)))"

definition instance_input :: "pyval \<Rightarrow> string \<Rightarrow> pydict \<Rightarrow> string \<Rightarrow> pyval \<Rightarrow> pyval" where
  "instance_input vim_id uuid params mead_name i =
     PDict [(''mea'', PDict [
       (''attributes'', PDict (let p = dict_get mead_name PNone params in if truthy p then [(''param_values'', p)] else [])),
       (''vim_id'', vim_id), (''mead_id'', i), (''name'', PStr (''create_mea_'' @ py_str i @ ''_'' @ uuid))])]"

definition build_input :: "pyval \<Rightarrow> string \<Rightarrow> pydict \<Rightarrow> mead_details \<Rightarrow> pydict" where
  "build_input vim_id uuid params meads = [(''mea'', PDict (foldl (\<lambda>d (mead_name, m).
     foldl (\<lambda>d node. dict_set node (instance_input vim_id uuid params mead_name (md_id m)) d) d (md_instances m)) [] meads))]"

definition create_workflow ::
  "pyval \<Rightarrow> string \<Rightarrow> pydict \<Rightarrow> mead_details \<Rightarrow> generator \<Rightarrow> exn + generator" where
  "create_workflow vim_id uuid params meads g =
     (let tasks = dict_update (dict_update (dict_of_nodes (create_mea_task (wf_name g)) meads)
          (dict_of_nodes wait_mea_task meads)) (dict_of_nodes delete_mea_task meads) in
      bindS (build_output_dict (wf_name g) meads) (\<lambda>out.
        Inr (g\<lparr>wf_definition := dict_set ''output'' (PDict out) (dict_set ''tasks'' (PDict tasks) (wf_definition g)),
               wf_input_dict := build_input vim_id uuid params meads\<rparr>)))"

definition delete_workflow :: "pydict \<Rightarrow> generator \<Rightarrow> generator" where
  "delete_workflow mea_ids g =
     (let meads = map (\<lambda>(mea, _). (mea, \<lparr>md_id = PNone, md_instances = [mea]\<rparr>)) mea_ids in
      g\<lparr>wf_definition := dict_set ''tasks'' (PDict (dict_of_nodes delete_mea_task meads))
          (dict_set ''input'' (PList (map (\<lambda>(mea, _). PStr (''mea_id_'' @ mea)) mea_ids)) (wf_definition g)),
        wf_input_dict := foldl (\<lambda>d (mea, i). dict_set (''mea_id_'' @ mea) i d) (wf_input_dict g) mea_ids\<rparr>)"

section \<open>Monitoring of a VIM\<close>

definition RESOURCE_NAME :: string where "RESOURCE_NAME = ''ping_vim''"
definition PING_VIM_TASK_NAME :: string where "PING_VIM_TASK_NAME = ''PingVIMTASK''"

definition monitor_generator :: "string \<Rightarrow> generator" where
  "monitor_generator vim_id = \<lparr>wf_name = ''monitor_'' @ RESOURCE_NAME, wf_identifier = ''vim_id_'' @ vim_id,
     wf_definition = basic_workflow RESOURCE_NAME, wf_input_dict = []\<rparr>"

definition monitor_workflow :: "pydict \<Rightarrow> generator \<Rightarrow> generator" where
  "monitor_workflow args g =
     (let picked = (\<lambda>ks. map (\<lambda>k. (k, dict_get k PNone args)) ks) in
      g\<lparr>wf_definition := dict_set ''tasks'' (PDict [(wf_name g @ PING_VIM_TASK_NAME, PDict [
          (''action'', PStr ''apmec.vim_ping_action''),
          (''input'', PDict (picked [''count'', ''targetip'', ''vim_id'', ''interval'', ''timeout'']))])]) (wf_definition g),
        wf_input_dict := dict_set RESOURCE_NAME
          (PDict (picked [''vim_id'', ''count'', ''timeout'', ''interval'', ''targetip''])) (wf_input_dict g)\<rparr>)"

text \<open>\<open>auth_url.split('//')[-1].split(':')[0].split('/')[0]\<close>\<close>

fun after_slashes :: "string \<Rightarrow> string \<Rightarrow> string" where
  "after_slashes acc (c # d # s) = (if c = CHR ''/'' \<and> d = CHR ''/'' then after_slashes [] s
     else after_slashes (acc @ [c]) (d # s))"
| "after_slashes acc s = acc @ s"

definition vim_ip :: "string \<Rightarrow> string" where
  "vim_ip auth_url = takeWhile (\<lambda>c. c \<noteq> CHR ''/'') (takeWhile (\<lambda>c. c \<noteq> CHR '':'') (after_slashes [] auth_url))"

section \<open>Tasks that a workflow goes on with\<close>

text \<open>The tasks named by \<open>on-success\<close>, as text or as a condition.\<close>

definition successors :: "pyval \<Rightarrow> string list" where
  "successors task = (case task of PDict d \<Rightarrow> (case dict_get ''on-success'' PNone d of
       PList xs \<Rightarrow> concat (map (\<lambda>x. case x of PStr s \<Rightarrow> [s] | PDict e \<Rightarrow> dict_keys e | _ \<Rightarrow> []) xs)
     | _ \<Rightarrow> []) | _ \<Rightarrow> [])"

end
