(* ===== verification/Mistral.thy ===== *)
theory Mistral
  imports VimDriver Workflow
begin

text \<open>
  What the orchestrator asks of Mistral: the workflow methods of
  meo/drivers/vim/openstack_driver.py and the monitoring of a VIM,
  meo/workflows/vim_monitor/vim_monitor_utils.py. The Mistral service is a parameter: every
  request acts on the outside world and may raise. A workflow definition is handed over as
  the dictionary whose YAML text the code sends.
\<close>

record 'w mistral =
  mi_login :: "pydict \<Rightarrow> ('w, unit) prog"
  mi_create_workflow :: "pydict \<Rightarrow> ('w, string) prog"
  mi_execute :: "string \<Rightarrow> pydict \<Rightarrow> ('w, string) prog"
  mi_get_execution :: "string \<Rightarrow> ('w, mistral_obj) prog"
  mi_delete_execution :: "string \<Rightarrow> ('w, unit) prog"
  mi_delete_workflow :: "string \<Rightarrow> ('w, unit) prog"
  mi_list_executions :: "string \<Rightarrow> ('w, string list) prog"
  mi_kill :: "ctx \<Rightarrow> string \<Rightarrow> ('w, unit) prog"
  mi_sleep :: "nat \<Rightarrow> 'w \<Rightarrow> 'w"

record workflow =
  wk_id :: string
  wk_input :: pydict

text \<open>What a network service is asked for: the arguments of the generator's two methods.\<close>

datatype ns_action = CreateMea pyval pydict mead_details | DeleteMea pyval

section \<open>The workflow methods of the driver\<close>

definition with_client :: "'w mistral \<Rightarrow> pydict \<Rightarrow> ('w, 'x, 'a) sprog \<Rightarrow> ('w, 'x, 'a) sprog" where
  "with_client M auth m = (if auth = [] then raise (Exc (Lib EnvironmentError) [])
     else thenE (site_call (mi_login M auth)) m)"

text \<open>\<open>ast.literal_eval\<close> of the column, which holds the printed form of a dictionary.\<close>

definition eval_ids :: "pyval \<Rightarrow> exn + pydict" where
  "eval_ids v = (case v of PDict d \<Rightarrow> Inr d | _ \<Rightarrow> Inl value_error)"

definition action_name :: "ns_action \<Rightarrow> string" where
  "action_name a = (case a of CreateMea _ _ _ \<Rightarrow> ''create'' | DeleteMea _ \<Rightarrow> ''delete'')"

definition ns_task :: "oslo \<Rightarrow> ns_action \<Rightarrow> generator \<Rightarrow> ('x db_scheme, generator) prog" where
  "ns_task E a g = (case a of
     CreateMea vim_id params meads \<Rightarrow> bindE (generate_uuid E) (\<lambda>u. pureE (create_workflow vim_id u params meads g))
   | DeleteMea ids \<Rightarrow> bindE (pureE (eval_ids ids)) (\<lambda>d. ret (delete_workflow d g)))"

definition driver_prepare_workflow ::
  "oslo \<Rightarrow> 'w mistral \<Rightarrow> string \<Rightarrow> ns_action \<Rightarrow> pydict \<Rightarrow> ('w, 'x, workflow) sprog" where
  "driver_prepare_workflow E M resource a auth = with_client M auth
     (bindE (generate_uuid E) (\<lambda>u.
      bindE (ns_task E a (new_generator resource (action_name a) u)) (\<lambda>g.
      if \<not> truthy (get_tasks g)
      then raise (Exc (Meo NoTasksException) [(''resource'', PStr resource), (''action'', PStr (action_name a))])
      else bindE (site_call (mi_create_workflow M (whole_definition g))) (\<lambda>i.
        ret \<lparr>wk_id = i, wk_input = wf_input_dict g\<rparr>))))"

definition driver_execute_workflow :: "'w mistral \<Rightarrow> workflow \<Rightarrow> pydict \<Rightarrow> ('w, 'x, string) sprog" where
  "driver_execute_workflow M w auth = with_client M auth (site_call (mi_execute M (wk_id w) (wk_input w)))"

definition driver_get_execution :: "'w mistral \<Rightarrow> string \<Rightarrow> pydict \<Rightarrow> ('w, 'x, mistral_obj) sprog" where
  "driver_get_execution M i auth = with_client M auth (site_call (mi_get_execution M i))"

definition driver_delete_execution :: "'w mistral \<Rightarrow> string \<Rightarrow> pydict \<Rightarrow> ('w, 'x, unit) sprog" where
  "driver_delete_execution M i auth = with_client M auth (site_call (mi_delete_execution M i))"

definition driver_delete_workflow :: "'w mistral \<Rightarrow> string \<Rightarrow> pydict \<Rightarrow> ('w, 'x, unit) sprog" where
  "driver_delete_workflow M i auth = with_client M auth (site_call (mi_delete_workflow M i))"

section \<open>Monitoring of a VIM\<close>

record monitor_conf =
  mc_count :: int
  mc_timeout :: int
  mc_interval :: int

definition monitor_input :: "monitor_conf \<Rightarrow> string \<Rightarrow> string \<Rightarrow> pydict" where
  "monitor_input cf vim_id ip = [(''vim_id'', PStr vim_id), (''count'', PInt (mc_count cf)),
     (''timeout'', PInt (mc_timeout cf)), (''interval'', PInt (mc_interval cf)), (''targetip'', PStr ip)]"

definition prepare_monitor_workflow :: "'w mistral \<Rightarrow> string \<Rightarrow> pydict \<Rightarrow> ('w, 'x, workflow) sprog" where
  "prepare_monitor_workflow M vim_id args =
     (let g = monitor_workflow args (monitor_generator vim_id) in
      bindE (site_call (mi_create_workflow M (whole_definition g))) (\<lambda>i.
        ret \<lparr>wk_id = i, wk_input = wf_input_dict g\<rparr>))"

definition monitor_vim :: "'w mistral \<Rightarrow> monitor_conf \<Rightarrow> pydict \<Rightarrow> pydict \<Rightarrow> ('w, 'x, unit) sprog" where
  "monitor_vim M cf auth vim =
     thenE (site_call (mi_login M auth))
     (bindE (pureE (text_of ''auth_url'' vim)) (\<lambda>url.
      bindE (pureE (text_of ''id'' vim)) (\<lambda>i.
      bindE (prepare_monitor_workflow M i (monitor_input cf i (vim_ip url))) (\<lambda>w.
      bindE (site_call (mi_execute M (wk_id w) (wk_input w))) (\<lambda>_. ret ())))))"

definition delete_executions :: "'w mistral \<Rightarrow> string \<Rightarrow> ('w, 'x, unit) sprog" where
  "delete_executions M vim_id = bindE (site_call (mi_list_executions M (''vim_id_'' @ vim_id))) (\<lambda>is.
     forE is (\<lambda>i. site_call (mi_delete_execution M i)))"

definition delete_vim_monitor :: "'w mistral \<Rightarrow> ctx \<Rightarrow> pydict \<Rightarrow> pydict \<Rightarrow> ('w, 'x, unit) sprog" where
  "delete_vim_monitor M c auth vim =
     thenE (site_call (mi_login M auth))
     (bindE (pureE (text_of ''id'' vim)) (\<lambda>i.
      thenE (delete_executions M i)
      (thenE (site_call (mi_delete_workflow M (''vim_id_'' @ i)))
        (site_call (mi_kill M c i)))))"

end
