(* ===== verification/MeoPlugin.thy ===== *)
theory MeoPlugin
  imports Mistral Translate OpenStack
begin

text \<open>
  meo/meo_plugin.py: the orchestrator plugin. The state is the site of the VIM driver, that
  is the database, the key files and the outside world, with the functions spawned and not
  yet run. The VIM drivers configured are all of the OpenStack driver's type. The class
  calls methods of \<open>NSPluginDb\<close> on \<open>super()\<close>; whether that class is among its bases is
  \<open>me_ns_db\<close>. In the source it is not, and the calls raise AttributeError.
\<close>

section \<open>State\<close>

text \<open>A spawned wait: the driver type, the ids of the execution and the workflow, and for a
  creation the MEADs.\<close>

datatype meo_task =
    CreateNsWait ctx string string string string mead_details
  | DeleteNsWait ctx string string string string

record 'w meo_plug = "'w site" +
  m_tasks :: "meo_task list"

type_synonym ('w, 'a) oprog = "('w meo_plug, 'a) prog"

record 'w meo_env =
  me_oslo :: oslo
  me_keys :: keystore
  me_libs :: "'w vim_libs"
  me_mistral :: "'w mistral"
  me_vim_types :: "string list"
  me_monitor :: monitor_conf
  me_auth_url :: string
  me_project_domain :: "string option"
  me_yaml_load :: "pyval \<Rightarrow> exn + pyval"
  me_yaml_dump :: "pyval \<Rightarrow> string"
  me_parse_tosca :: "(string \<times> pyval) list \<Rightarrow> pyval \<Rightarrow> exn + unit"
  me_temp_path :: "nat \<Rightarrow> string"
  me_literal_eval :: "string \<Rightarrow> exn + pyval"
  me_text :: "exn \<Rightarrow> string"
  me_ns_db :: bool

definition MISTRAL_RETRIES :: nat where "MISTRAL_RETRIES = 30"
definition MISTRAL_RETRY_WAIT :: nat where "MISTRAL_RETRY_WAIT = 6"

definition get_auth_dict :: "'w meo_env \<Rightarrow> ctx \<Rightarrow> pydict" where
  "get_auth_dict E c = [(''auth_url'', PStr (me_auth_url E @ ''/v3'')), (''token'', opt_str (auth_token c)),
     (''project_domain_name'', if empty_text (me_project_domain E) then PNone else opt_str (me_project_domain E)),
     (''project_name'', opt_str (tenant_name c))]"

definition spawn_wait :: "meo_task \<Rightarrow> ('w, unit) oprog" where
  "spawn_wait t = modify (\<lambda>s. s\<lparr>m_tasks := m_tasks s @ [t]\<rparr>)"

text \<open>\<open>self._vim_drivers.invoke\<close>\<close>

definition drv :: "'w meo_env \<Rightarrow> pyval \<Rightarrow> ('s, 'a) prog \<Rightarrow> ('s, 'a) prog" where
  "drv E ty m = (case ty of PStr n \<Rightarrow> if List.member (me_vim_types E) n then m else raise key_error
     | PList _ \<Rightarrow> raise type_error | PDict _ \<Rightarrow> raise type_error | _ \<Rightarrow> raise key_error)"

definition super_ns :: "'w meo_env \<Rightarrow> ('s, 'a) prog \<Rightarrow> ('s, 'a) prog" where
  "super_ns E m = (if me_ns_db E then m else raise attribute_error)"

text \<open>A \<open>try\<close> block whose exceptions are only logged.\<close>

definition ignoring :: "('s, unit) prog \<Rightarrow> ('s, unit) prog" where
  "ignoring m = catchE m (\<lambda>_. ret ())"

section \<open>VIMs\<close>

text \<open>The dictionary of a VIM as the columns of its row.\<close>

definition db_error :: exn where "db_error = Exc (Lib DBError) []"

definition column_str :: "string \<Rightarrow> pydict \<Rightarrow> exn + string" where
  "column_str k d = (case dict_get k PNone d of PStr s \<Rightarrow> Inr s | _ \<Rightarrow> Inl db_error)"

definition column_text :: "string \<Rightarrow> pydict \<Rightarrow> exn + string option" where
  "column_text k d = (case dict_get k PNone d of PStr s \<Rightarrow> Inr (Some s) | PNone \<Rightarrow> Inr None | _ \<Rightarrow> Inl db_error)"

definition column_dict :: "string \<Rightarrow> pydict \<Rightarrow> exn + pydict" where
  "column_dict k d = (case dict_get k PNone d of PDict x \<Rightarrow> Inr x | _ \<Rightarrow> Inl db_error)"

definition column_bool :: "string \<Rightarrow> pydict \<Rightarrow> exn + bool" where
  "column_bool k d = (case dict_get k PNone d of PBool b \<Rightarrow> Inr b | _ \<Rightarrow> Inl db_error)"

definition vim_req_of :: "pydict \<Rightarrow> exn + vim_req" where
  "vim_req_of d =
     bindS (sub_dict ''auth_cred'' d) (\<lambda>cred. bindS (column_str ''id'' d) (\<lambda>i.
     bindS (column_str ''type'' d) (\<lambda>ty. bindS (column_text ''tenant_id'' d) (\<lambda>tenant.
     bindS (column_str ''name'' d) (\<lambda>name. bindS (column_text ''description'' d) (\<lambda>desc.
     bindS (column_dict ''placement_attr'' d) (\<lambda>placement. bindS (column_bool ''is_default'' d) (\<lambda>dflt.
     bindS (column_str ''status'' d) (\<lambda>st. bindS (column_str ''auth_url'' d) (\<lambda>url.
     bindS (column_dict ''vim_project'' d) (\<lambda>project.
       Inr \<lparr>vr_id = i, vr_type = ty, vr_tenant_id = tenant, vr_name = name, vr_description = desc,
         vr_placement_attr = placement, vr_is_default = dflt, vr_status = st, vr_auth_url = url,
         vr_vim_project = project, vr_auth_cred = cred\<rparr>)))))))))))"

definition vim_update_of :: "pydict \<Rightarrow> exn + vim_update" where
  "vim_update_of d =
     bindS (sub_dict ''auth_cred'' d) (\<lambda>cred. bindS (sub_dict ''vim_project'' d) (\<lambda>project.
     bindS (column_str ''name'' d) (\<lambda>name. bindS (column_text ''description'' d) (\<lambda>desc.
     bindS (column_bool ''is_default'' d) (\<lambda>dflt. bindS (column_dict ''placement_attr'' d) (\<lambda>placement.
       Inr \<lparr>vu_name = Some name, vu_description = desc, vu_is_default = Some dflt,
         vu_placement_attr = Some placement, vu_auth_cred = cred, vu_vim_project = project\<rparr>))))))"

definition drop_auth :: "'w meo_env \<Rightarrow> ctx \<Rightarrow> pyval \<Rightarrow> pydict \<Rightarrow> ('w, 'x, unit) sprog" where
  "drop_auth E c ty vim = bindE (pureE (text_of ''id'' vim)) (\<lambda>i. bindE (pureE (sub_dict ''auth_cred'' vim)) (\<lambda>a.
     drv E ty (delete_vim_auth (me_libs E) c i a)))"

text \<open>Registering by the driver, whose changes of the dictionary stay when it raises.\<close>

definition drv_register :: "'w meo_env \<Rightarrow> ctx \<Rightarrow> pyval \<Rightarrow> ('w, 'x) vstep" where
  "drv_register E c ty vim = catchE (drv E ty (register_vim (me_libs E) c vim)) (\<lambda>e. ret (Inl e, vim))"

definition plugin_monitor_vim :: "'w meo_env \<Rightarrow> ctx \<Rightarrow> pydict \<Rightarrow> ('w, 'x, unit) sprog" where
  "plugin_monitor_vim E c vim = monitor_vim (me_mistral E) (me_monitor E) (get_auth_dict E c) vim"

definition plugin_create_vim :: "'w meo_env \<Rightarrow> ctx \<Rightarrow> pydict \<Rightarrow> ('w, 'x, vim_dict) sprog" where
  "plugin_create_vim E c vim =
     bindE (pureE (subscr ''type'' (PDict vim))) (\<lambda>ty.
     bindE (generate_uuid (me_oslo E)) (\<lambda>i.
     let vim0 = dict_set ''status'' (PStr ''PENDING'') (dict_set ''id'' (PStr i) vim) in
     bindE (drv_register E c ty vim0) (\<lambda>(r, vim1).
     bindE (catchE (thenE (pureE r) (bindE (pureE (vim_req_of vim1)) (create_vim (me_oslo E) c)))
              (\<lambda>e. reraise_after e (drop_auth E c ty vim1))) (\<lambda>res.
     thenE (ignoring (plugin_monitor_vim E c vim1)) (ret res)))))"

definition unused_vim :: "'w meo_env \<Rightarrow> ctx \<Rightarrow> string \<Rightarrow> ('w, 'x, pydict) sprog" where
  "unused_vim E c i = thenE (is_vim_still_in_use c i)
     (bindE (get_vim (me_oslo E) c i False) (\<lambda>v. ret (vim_json v)))"

text \<open>The password a request carries, if it carries one.\<close>

definition new_password :: "pydict \<Rightarrow> exn + pyval option" where
  "new_password args = (case map_of args ''auth_cred'' of
       None \<Rightarrow> Inr None
     | Some a \<Rightarrow> bindS (contains ''password'' a) (\<lambda>has.
         if has then map_sum id Some (subscr ''password'' a) else Inr None))"

definition reregister :: "'w meo_env \<Rightarrow> ctx \<Rightarrow> pyval \<Rightarrow> pyval option \<Rightarrow> pydict \<Rightarrow> ('w, 'x, pydict) sprog" where
  "reregister E c ty pw vim = (case pw of
       None \<Rightarrow> ret vim
     | Some p \<Rightarrow> bindE (pureE (set_cred (\<lambda>a. Inr (dict_set ''password'' p a)) vim)) (\<lambda>vim0.
         bindE (drv_register E c ty vim0) (\<lambda>(r, vim1). thenE (pureE r) (ret vim1))))"

definition plugin_update_vim :: "'w meo_env \<Rightarrow> ctx \<Rightarrow> string \<Rightarrow> pydict \<Rightarrow> ('w, 'x, vim_dict) sprog" where
  "plugin_update_vim E c i args =
     bindE (unused_vim E c i) (\<lambda>old.
     let vim = deep_update old args in
     bindE (pureE (subscr ''type'' (PDict vim))) (\<lambda>ty.
     bindE (pureE (new_password args)) (\<lambda>pw.
     bindE (reregister E c ty pw vim) (\<lambda>vim1.
     bindE (catchE (bindE (pureE (vim_update_of vim1)) (update_vim (me_oslo E) c i))
              (\<lambda>e. reraise_after e (whenE (pw \<noteq> None) (drop_auth E c ty vim1)))) (\<lambda>res.
     bindE (pureE (sub_dict ''auth_cred'' old)) (\<lambda>a.
     thenE (whenE (pw \<noteq> None \<and> dict_get ''key_type'' PNone a = PStr ''barbican_key'')
              (ignoring (drop_auth E c ty old)))
       (ret res)))))))"

definition plugin_delete_vim :: "'w meo_env \<Rightarrow> ctx \<Rightarrow> string \<Rightarrow> ('w, 'x, unit) sprog" where
  "plugin_delete_vim E c i =
     bindE (unused_vim E c i) (\<lambda>vim.
     bindE (pureE (subscr ''type'' (PDict vim))) (\<lambda>ty.
     thenE (drv E ty (deregister_vim (me_libs E) c vim))
     (thenE (ignoring (delete_vim_monitor (me_mistral E) c (get_auth_dict E c) vim))
       (delete_vim (me_oslo E) c i True))))"

section \<open>The VIM of an MEA\<close>

text \<open>A key is read from the file of the VIM, as it is when the request comes.\<close>

definition site_keys :: "keystore \<Rightarrow> ('w, 'x) site_scheme \<Rightarrow> keystore" where
  "site_keys K s = K\<lparr>key_of_vim := (\<lambda>i. case map_of (key_files s) i of
     None \<Rightarrow> Inl (Exc (Lib IOError) []) | Some k \<Rightarrow> Inr k)\<rparr>"

definition plugin_build_vim_auth :: "'w meo_env \<Rightarrow> ctx \<Rightarrow> vim_dict \<Rightarrow> ('w, 'x, pydict) sprog" where
  "plugin_build_vim_auth E c v = readE (\<lambda>s. build_vim_auth (site_keys (me_keys E) s) c v)"

definition get_vim_from_mea :: "'w meo_env \<Rightarrow> ctx \<Rightarrow> string \<Rightarrow> ('w, 'x, vim_dict) sprog" where
  "get_vim_from_mea E c mea_id =
     bindE (get_mea (me_oslo E) c mea_id) (\<lambda>mea.
     bindE (get_vim (me_oslo E) c (ad_vim_id mea) False) (\<lambda>v.
     bindE (plugin_build_vim_auth E c v) (\<lambda>auth. ret (v\<lparr>vd_auth_cred := auth\<rparr>))))"

definition vim_resource_name_to_id :: "'w meo_env \<Rightarrow> ctx \<Rightarrow> string \<Rightarrow> string \<Rightarrow> string \<Rightarrow> ('w, 'x, pyval) sprog" where
  "vim_resource_name_to_id E c resource name mea_id =
     bindE (get_vim_from_mea E c mea_id) (\<lambda>v.
       drv E (PStr (vd_type v)) (get_vim_resource_id (me_libs E) (vim_json v) resource name))"

section \<open>Descriptors\<close>

definition nsd_parser_failed :: "'w meo_env \<Rightarrow> exn \<Rightarrow> exn" where
  "nsd_parser_failed E e = Exc (Meo MeoToscaParserFailed) [(''error_msg_details'', PStr (me_text E e))]"

definition validate_tosca :: "'w meo_env \<Rightarrow> pyval \<Rightarrow> exn + pyval" where
  "validate_tosca E template =
     bindS (contains ''tosca_definitions_version'' template) (\<lambda>has.
     if \<not> has then Inl (Exc (Meo MeoToscaParserFailed)
       [(''error_msg_details'', PStr ''tosca_definitions_version missing in template'')])
     else bindS (updateimports template) (\<lambda>t. case me_parse_tosca E [] t of
         Inl e \<Rightarrow> Inl (nsd_parser_failed E e) | Inr _ \<Rightarrow> Inr t))"

text \<open>A MEAD that a descriptor imports: the node type it stands for, its name and its text.\<close>

definition imported_mead :: "'w meo_env \<Rightarrow> ctx \<Rightarrow> pyval \<Rightarrow> ('w, 'x, (string \<times> string) \<times> pyval) sprog" where
  "imported_mead E c name =
     bindE (pureE (str_of name)) (\<lambda>i. bindE (get_mead (me_oslo E) c i) (\<lambda>m.
     pureE (bindS (subscr ''mead'' (PDict (dd_attributes m))) (\<lambda>txt.
       bindS (me_yaml_load E txt) (\<lambda>t. bindS (subscr ''topology_template'' t) (\<lambda>topo.
       bindS (subscr ''substitution_mappings'' topo) (\<lambda>sm. bindS (subscr ''node_type'' sm) (\<lambda>ty.
       bindS (str_of ty) (\<lambda>ty. Inr ((ty, dd_name m), txt))))))))))"

definition numbered :: "'a list \<Rightarrow> (nat \<times> 'a) list" where
  "numbered xs = zip [0..<length xs] xs"

text \<open>\<open>_parse_template_input\<close>: the imported MEADs are written to temporary files for the
  parser; the request gets the node types it uses.\<close>

definition parse_nsd_input :: "'w meo_env \<Rightarrow> ctx \<Rightarrow> nsd_req \<Rightarrow> ('w, 'x, nsd_req) sprog" where
  "parse_nsd_input E c req =
     bindE (pureE (me_yaml_load E (dict_get ''nsd'' PNone (nr_attributes req)))) (\<lambda>inner.
     bindE (pureE (bindS (subscr ''imports'' inner) list_of)) (\<lambda>names.
     bindE (mapE (imported_mead E c) names) (\<lambda>meads.
     let files = map (\<lambda>(n, (_, txt)). (me_temp_path E n, txt)) (numbered meads);
         node_types = foldl (\<lambda>d ((ty, name), _). dict_set ty (PStr name) d) [] meads in
     bindE (pureE (bindS (assign [] ''imports'' (PList (map (PStr \<circ> fst) files)) inner) updateimports)) (\<lambda>t.
     bindE (pureE (case me_parse_tosca E files t of Inl e \<Rightarrow> Inl (nsd_parser_failed E e) | Inr u \<Rightarrow> Inr u)) (\<lambda>_.
     bindE (pureE (if empty_text (nr_description req)
         then bindS (get_of ''description'' (PStr []) inner) text_column else Inr (nr_description req))) (\<lambda>desc.
     bindE (pureE (bindS (contains ''metadata'' inner) (\<lambda>has. if nr_name req = [] \<and> has
         then bindS (subscr ''metadata'' inner) (\<lambda>m. bindS (get_of ''template_name'' (PStr []) m) str_of)
         else Inr (nr_name req)))) (\<lambda>name.
       ret (req\<lparr>nr_description := desc, nr_name := name, nr_meads := node_types\<rparr>))))))))"

definition plugin_create_nsd :: "'w meo_env \<Rightarrow> ctx \<Rightarrow> nsd_req \<Rightarrow> ('w, 'x, nsd_dict) sprog" where
  "plugin_create_nsd E c req =
     (let template = dict_get ''nsd'' PNone (nr_attributes req);
          req1 = (if is_dict template
            then req\<lparr>nr_attributes := dict_set ''nsd'' (PStr (me_yaml_dump E template)) (nr_attributes req)\<rparr> else req);
          source = (case nr_template_source req of None \<Rightarrow> Some ''onboarded'' | Some t \<Rightarrow> Some t) in
      bindE (parse_nsd_input E c (req1\<lparr>nr_template_source := source\<rparr>)) (\<lambda>req2.
        super_ns E (create_nsd (me_oslo E) c req2)))"

section \<open>Creation of a network service\<close>

record ns_body =
  nb_name :: string
  nb_tenant_id :: "string option"
  nb_description :: "string option"
  nb_nsd_template :: pyval
  nb_nsd_id :: string
  nb_vim_id :: string
  nb_attributes :: pydict

fun get_mead_id :: "string \<Rightarrow> pydict list \<Rightarrow> exn + pyval" where
  "get_mead_id name [] = Inr PNone"
| "get_mead_id name (m # ms) = bindS (subscr ''name'' (PDict m)) (\<lambda>n.
     if py_eq (PStr name) n then subscr ''id'' (PDict m) else get_mead_id name ms)"

text \<open>\<open>_process_parameterized_input\<close> on the node templates, with the parameters of the request.\<close>

definition nsd_nodes :: "pyval \<Rightarrow> exn + pydict" where
  "nsd_nodes nsd = bindS (subscr ''topology_template'' nsd) (\<lambda>t. bindS (subscr ''node_templates'' t) items_of)"

definition fill_node :: "pyval \<Rightarrow> string \<times> pyval \<Rightarrow> exn + string \<times> pyval" where
  "fill_node params = (\<lambda>(k, node). if \<not> mentions ''get_input'' node then Inr (k, node)
     else bindS (subscr ''nsd'' params) (\<lambda>p. bindS (items_of node) (\<lambda>d. bindS (update_params d p True) (\<lambda>d1.
       Inr (k, PDict d1)))))"

definition fill_parameters :: "pydict \<Rightarrow> pyval \<Rightarrow> exn + pydict" where
  "fill_parameters attrs nsd = bindS (nsd_nodes nsd) (\<lambda>nodes.
     if \<not> mentions ''get_input'' nsd then Inr nodes
     else let v = dict_get ''param_values'' PNone attrs in
       if \<not> truthy v then Inl (Exc (Cs ParamYAMLInputMissing) []) else mapS (fill_node v) nodes)"

text \<open>The MEAD of a node, \<open>None\<close> for a node of another type.\<close>

definition mead_of_node :: "pydict \<Rightarrow> pyval \<Rightarrow> exn + string option" where
  "mead_of_node meads node = bindS (get_of ''type'' PNone node) (\<lambda>ty. case ty of
       PStr t \<Rightarrow> (case map_of meads t of None \<Rightarrow> Inr None | Some m \<Rightarrow> map_sum id Some (str_of m))
     | PList _ \<Rightarrow> Inl type_error | PDict _ \<Rightarrow> Inl type_error | _ \<Rightarrow> Inr None)"

definition add_instance :: "string \<Rightarrow> string \<Rightarrow> pyval \<Rightarrow> mead_details \<Rightarrow> mead_details" where
  "add_instance mead node i md = (case map_of md mead of
       None \<Rightarrow> dict_set mead \<lparr>md_id = i, md_instances = [node]\<rparr> md
     | Some m \<Rightarrow> dict_set mead (m\<lparr>md_instances := md_instances m @ [node]\<rparr>) md)"

text \<open>The requirements of a node and the templates of the nodes it requires.\<close>

definition add_requirement :: "string \<Rightarrow> pydict \<Rightarrow> pyval \<Rightarrow> pydict \<times> pydict \<Rightarrow> exn + pydict \<times> pydict" where
  "add_requirement nsd_id nodes requirement = (\<lambda>(subst, reqs).
     bindS (first_item requirement) (\<lambda>(name, v). bindS (str_of v) (\<lambda>target.
     let res = target @ take 11 nsd_id in
     Inr (case map_of nodes target of None \<Rightarrow> subst | Some n \<Rightarrow> dict_set res n subst,
          dict_set name (PStr res) reqs))))"

definition node_substitution :: "string \<Rightarrow> pydict \<Rightarrow> pyval \<Rightarrow> exn + pydict" where
  "node_substitution nsd_id nodes requirements = bindS (list_of requirements) (\<lambda>rs.
     bindS (foldS (add_requirement nsd_id nodes) rs ([], [])) (\<lambda>(subst, reqs).
       Inr (dict_set ''requirements'' (PDict reqs) subst)))"

definition set_substitution :: "string \<Rightarrow> exn + pydict \<Rightarrow> pyval \<Rightarrow> exn + pyval" where
  "set_substitution mead subst params = bindS (get_of mead PNone params) (\<lambda>v.
     bindS (dict_of params) (\<lambda>d.
     let set = (\<lambda>x. assign [mead] ''substitution_mappings'' (PDict x)
       (PDict (if truthy v then d else dict_set mead (PDict []) d))) in
     bindS (set []) (\<lambda>_. bindS subst set)))"

definition place_node ::
  "string \<Rightarrow> pydict \<Rightarrow> pydict list \<Rightarrow> pydict \<Rightarrow> string \<times> pyval \<Rightarrow> mead_details \<times> pyval \<Rightarrow>
   exn + mead_details \<times> pyval" where
  "place_node nsd_id meads onboarded nodes = (\<lambda>(name, node) (md, params).
     bindS (mead_of_node meads node) (\<lambda>r. case r of None \<Rightarrow> Inr (md, params)
     | Some mead \<Rightarrow>
        bindS (if has_key mead md then Inr PNone else get_mead_id mead onboarded) (\<lambda>i.
        let md1 = add_instance mead name i md in
        bindS (get_of ''requirements'' PNone node) (\<lambda>reqs.
        if \<not> truthy reqs then Inr (md1, params)
        else bindS (set_substitution mead (node_substitution nsd_id nodes reqs) params) (\<lambda>params1.
          Inr (md1, params1))))))"

definition place_nodes ::
  "string \<Rightarrow> pydict \<Rightarrow> pydict list \<Rightarrow> pydict \<Rightarrow> pyval \<Rightarrow> exn + mead_details \<times> pyval" where
  "place_nodes nsd_id meads onboarded nodes params =
     foldS (place_node nsd_id meads onboarded nodes) nodes ([], params)"

text \<open>The descriptor of a service given inline is stored under a name of its own.\<close>

definition inline_nsd :: "'w meo_env \<Rightarrow> ctx \<Rightarrow> string \<Rightarrow> ns_body \<Rightarrow> ('w, 'x, string) sprog" where
  "inline_nsd E c nsd_name b = (if \<not> truthy (nb_nsd_template b) then ret (nb_nsd_id b)
     else bindE (plugin_create_nsd E c \<lparr>nr_tenant_id = nb_tenant_id b, nr_name = nsd_name,
         nr_description = nb_description b, nr_template_source = Some ''inline'',
         nr_attributes = [(''nsd'', nb_nsd_template b)], nr_meads = []\<rparr>) (\<lambda>d. ret (nd_id (nsdd_row d))))"

definition request_workflow ::
  "'w meo_env \<Rightarrow> ctx \<Rightarrow> pyval \<Rightarrow> ns_action \<Rightarrow> ('w, 'x, workflow) sprog" where
  "request_workflow E c ty a = drv E ty
     (driver_prepare_workflow (me_oslo E) (me_mistral E) ''mea'' a (get_auth_dict E c))"

text \<open>A workflow that cannot be started is removed again.\<close>

definition start_workflow :: "'w meo_env \<Rightarrow> ctx \<Rightarrow> pyval \<Rightarrow> workflow \<Rightarrow> ('w, 'x, string) sprog" where
  "start_workflow E c ty w =
     catchE (drv E ty (driver_execute_workflow (me_mistral E) w (get_auth_dict E c)))
       (\<lambda>e. reraise_after e (drv E ty (driver_delete_workflow (me_mistral E) (wk_id w) (get_auth_dict E c))))"

definition look_up_vim :: "'w meo_env \<Rightarrow> ctx \<Rightarrow> string \<Rightarrow> ('w, 'x, vim_res) sprog" where
  "look_up_vim E c vim_id = (\<lambda>s. client_get_vim (me_oslo E) (site_keys (me_keys E) s) c (Some vim_id) PNone s)"

definition plan_service ::
  "'w meo_env \<Rightarrow> nsd_dict \<Rightarrow> pydict list \<Rightarrow> ns_body \<Rightarrow> pyval \<Rightarrow> exn + mead_details \<times> pydict" where
  "plan_service E nsd onboarded b t =
     bindS (fill_parameters (nb_attributes b) t) (\<lambda>nodes.
     bindS (place_nodes (nb_nsd_id b) (nd_meads (nsdd_row nsd)) onboarded nodes
       (dict_get ''param_values'' (PDict []) (nb_attributes b))) (\<lambda>(md, params).
     bindS (dict_of params) (\<lambda>p. Inr (md, p))))"

definition plugin_create_ns :: "'w meo_env \<Rightarrow> ctx \<Rightarrow> string \<Rightarrow> ns_body \<Rightarrow> ('w, pydict) oprog" where
  "plugin_create_ns E c nsd_name b0 =
     bindE (inline_nsd E c nsd_name b0) (\<lambda>nsd_id.
     let b1 = b0\<lparr>nb_nsd_id := nsd_id\<rparr> in
     bindE (super_ns E (get_nsd c nsd_id)) (\<lambda>nsd.
     bindE (pureE (bindS (subscr ''nsd'' (PDict (nsdd_attributes nsd))) (me_yaml_load E))) (\<lambda>t.
     bindE (get_meads c [] None) (\<lambda>onboarded.
     bindE (look_up_vim E c (nb_vim_id b1)) (\<lambda>v.
     let b = (if nb_vim_id b1 = [] then b1\<lparr>nb_vim_id := vres_id v\<rparr> else b1); ty = PStr (vres_type v) in
     bindE (pureE (plan_service E nsd onboarded b t)) (\<lambda>(md, params).
     bindE (request_workflow E c ty (CreateMea (PStr (nb_vim_id b)) params md)) (\<lambda>w.
     bindE (start_workflow E c ty w) (\<lambda>execution.
     bindE (super_ns E (create_ns (me_oslo E) c \<lparr>sr_tenant_id = nb_tenant_id b, sr_name = nb_name b,
         sr_nsd_id = nb_nsd_id b, sr_vim_id = nb_vim_id b\<rparr>)) (\<lambda>ns.
     bindE (pureE (text_of ''id'' ns)) (\<lambda>i.
     thenE (spawn_wait (CreateNsWait c i (vres_type v) execution (wk_id w) md))
       (ret ns)))))))))))"

section \<open>Waiting for an execution\<close>

definition look_up_execution :: "'w meo_env \<Rightarrow> ctx \<Rightarrow> string \<Rightarrow> string \<Rightarrow> ('w, 'x, mistral_obj) sprog" where
  "look_up_execution E c ty i = drv E (PStr ty) (driver_get_execution (me_mistral E) i (get_auth_dict E c))"

text \<open>The loop of the waits: the last state read and the retries left.\<close>

fun wait_execution ::
  "'w meo_env \<Rightarrow> ctx \<Rightarrow> string \<Rightarrow> string \<Rightarrow> nat \<Rightarrow> string \<Rightarrow> ('w, 'x, string \<times> nat) sprog" where
  "wait_execution E c ty i 0 st = ret (st, 0)"
| "wait_execution E c ty i (Suc n) st =
     (if st \<noteq> ''RUNNING'' then ret (st, Suc n)
      else thenE (modify (\<lambda>s. s\<lparr>site_world := mi_sleep (me_mistral E) MISTRAL_RETRY_WAIT (site_world s)\<rparr>))
        (bindE (look_up_execution E c ty i) (\<lambda>ob.
          if mo_state ob = ''SUCCESS'' \<or> mo_state ob = ''ERROR'' then ret (mo_state ob, Suc n)
          else wait_execution E c ty i n (mo_state ob))))"

definition not_completed :: "string \<Rightarrow> string \<Rightarrow> string" where
  "not_completed what execution = ''NS '' @ what @ '' is not completed within '' @
     show_int (int (MISTRAL_RETRIES * MISTRAL_RETRY_WAIT)) @ '' seconds as '' @ what @
     '' of mistral execution '' @ execution @ '' is not completed''"

text \<open>Both waits end with the last reading, and the execution and the workflow removed.\<close>

definition finish_execution ::
  "'w meo_env \<Rightarrow> ctx \<Rightarrow> string \<Rightarrow> string \<Rightarrow> string \<Rightarrow> string \<Rightarrow> ('w, 'x, mistral_obj \<times> string option) sprog" where
  "finish_execution E c what ty execution workflow =
     bindE (wait_execution E c ty execution MISTRAL_RETRIES ''RUNNING'') (\<lambda>(st, n).
     let reason = (if n = 0 \<and> st = ''RUNNING'' then Some (not_completed what execution) else None) in
     bindE (look_up_execution E c ty execution) (\<lambda>ob.
     thenE (drv E (PStr ty) (driver_delete_execution (me_mistral E) execution (get_auth_dict E c)))
     (thenE (drv E (PStr ty) (driver_delete_workflow (me_mistral E) workflow (get_auth_dict E c)))
       (ret (ob, reason)))))"

definition nodes_by_mead :: "mead_details \<Rightarrow> (string \<times> string list) list" where
  "nodes_by_mead md = map (\<lambda>(name, m). (name, md_instances m)) md"

definition create_ns_wait ::
  "'w meo_env \<Rightarrow> ctx \<Rightarrow> string \<Rightarrow> string \<Rightarrow> string \<Rightarrow> string \<Rightarrow> mead_details \<Rightarrow> ('w, 'x, unit) sprog" where
  "create_ns_wait E c i ty execution workflow md =
     bindE (finish_execution E c ''creation'' ty execution workflow) (\<lambda>(ob, reason).
     bindE (super_ns E (create_ns_post (me_literal_eval E) c i ob (nodes_by_mead md) reason)) (\<lambda>_. ret ()))"

section \<open>Deletion of a network service\<close>

definition delete_ns_wait ::
  "'w meo_env \<Rightarrow> ctx \<Rightarrow> string \<Rightarrow> string \<Rightarrow> string \<Rightarrow> string \<Rightarrow> ('w, 'x, unit) sprog" where
  "delete_ns_wait E c i ty execution workflow =
     bindE (finish_execution E c ''deletion'' ty execution workflow) (\<lambda>(ob, reason).
       super_ns E (delete_ns_post c i (Some ob) True))"

definition deletion_workflow :: "'w meo_env \<Rightarrow> ctx \<Rightarrow> pyval \<Rightarrow> pyval \<Rightarrow> ('w, 'x, workflow option) sprog" where
  "deletion_workflow E c ty ids =
     catchE (bindE (request_workflow E c ty (DeleteMea ids)) (\<lambda>w. ret (Some w)))
       (\<lambda>e. if isinstance e (Meo NoTasksException) then ret None else raise e)"

definition plugin_delete_ns :: "'w meo_env \<Rightarrow> ctx \<Rightarrow> string \<Rightarrow> ('w, string) oprog" where
  "plugin_delete_ns E c i =
     bindE (super_ns E (get_ns c i)) (\<lambda>ns.
     bindE (pureE (text_of ''vim_id'' ns)) (\<lambda>vim_id.
     bindE (look_up_vim E c vim_id) (\<lambda>v. let ty = PStr (vres_type v) in
     bindE (deletion_workflow E c ty (dict_get ''mea_ids'' PNone ns)) (\<lambda>w.
     bindE (case w of None \<Rightarrow> ret [] | Some wk \<Rightarrow> start_workflow E c ty wk) (\<lambda>execution.
     thenE (bindE (super_ns E (delete_ns c i)) (\<lambda>_. ret ()))
     (thenE (case w of
          Some wk \<Rightarrow> spawn_wait (DeleteNsWait c i (vres_type v) execution (wk_id wk))
        | None \<Rightarrow> super_ns E (delete_ns_post c i None True))
       (ret i)))))))"

section \<open>Spawned functions\<close>

definition run_wait :: "'w meo_env \<Rightarrow> meo_task \<Rightarrow> ('w, 'x, unit) sprog" where
  "run_wait E t = (case t of
     CreateNsWait c i ty execution workflow md \<Rightarrow> create_ns_wait E c i ty execution workflow md
   | DeleteNsWait c i ty execution workflow \<Rightarrow> delete_ns_wait E c i ty execution workflow)"

definition run_meo_task :: "'w meo_env \<Rightarrow> nat \<Rightarrow> ('w, unit) oprog" where
  "run_meo_task E n = bindE (gets m_tasks) (\<lambda>ts. if n < length ts
     then thenE (modify (\<lambda>s. s\<lparr>m_tasks := take n ts @ drop (Suc n) ts\<rparr>)) (run_wait E (ts ! n)) else ret ())"

end
