(* ===== verification/MeoSamples.thy ===== *)
theory MeoSamples
  imports MeoPlugin Samples
begin

text \<open>
  A concrete site and orchestrator for the witnesses. The world is the list of the states
  that Mistral reports one after the other; when it is empty an execution runs for ever.
  Keys are kept in files, a key is put before the text that it encrypts.
\<close>

definition sample_libs :: "string list vim_libs" where
  "sample_libs = \<lparr>vl_version = (\<lambda>u. ret ''v3''), vl_client = (\<lambda>v cred. ret ''v3''), vl_services = (\<lambda>cred. ret []),
     vl_endpoints = (\<lambda>cred. ret []), vl_regions = (\<lambda>cred. ret [''RegionOne'']), vl_refused = (\<lambda>e. False),
     vl_text = (\<lambda>e. []), vl_new_key = ret ''k'', vl_encrypt = (\<lambda>k p. k @ p), vl_use_barbican = False,
     vl_store_secret = (\<lambda>c k. raise key_error), vl_delete_secret = (\<lambda>c i. raise key_error),
     vl_list_networks = (\<lambda>d n. ret []), vl_open = (\<lambda>n. Inr ()), vl_python2 = True\<rparr>"

definition next_state :: "string list \<Rightarrow> (exn + mistral_obj) \<times> string list" where
  "next_state w = (case w of [] \<Rightarrow> (Inr \<lparr>mo_state = ''RUNNING'', mo_output = Inr []\<rparr>, [])
     | st # sts \<Rightarrow> (Inr \<lparr>mo_state = st, mo_output = Inr []\<rparr>, sts))"

definition sample_mistral :: "string list mistral" where
  "sample_mistral = \<lparr>mi_login = (\<lambda>d. ret ()), mi_create_workflow = (\<lambda>d. ret ''wf''), mi_execute = (\<lambda>w i. ret ''ex''),
     mi_get_execution = (\<lambda>i. next_state), mi_delete_execution = (\<lambda>i. ret ()), mi_delete_workflow = (\<lambda>i. ret ()),
     mi_list_executions = (\<lambda>n. ret []), mi_kill = (\<lambda>c i. ret ()), mi_sleep = (\<lambda>n w. w)\<rparr>"

definition sample_meo_env :: "string list meo_env" where
  "sample_meo_env = \<lparr>me_oslo = sample_oslo,
     me_keys = \<lparr>key_of_secret = (\<lambda>c i. Inl key_error), key_of_vim = (\<lambda>i. Inl key_error), decrypt = (\<lambda>k x. Inr (drop (length k) x))\<rparr>,
     me_libs = sample_libs, me_mistral = sample_mistral, me_vim_types = [''openstack''],
     me_monitor = \<lparr>mc_count = 1, mc_timeout = 1, mc_interval = 1\<rparr>, me_auth_url = ''http://keystone'',
     me_project_domain = None, me_yaml_load = (\<lambda>v. Inr (PDict [])), me_yaml_dump = (\<lambda>v. []),
     me_parse_tosca = (\<lambda>fs v. Inr ()), me_temp_path = (\<lambda>n. []), me_literal_eval = (\<lambda>s. Inr PNone),
     me_text = (\<lambda>e. []), me_ns_db = True\<rparr>"

definition meo_site :: "db \<Rightarrow> string list \<Rightarrow> string list meo_plug" where
  "meo_site s w = site.extend (db.extend s (site.fields [] w)) (meo_plug.fields [])"

definition vim_request :: "string \<Rightarrow> bool \<Rightarrow> pydict" where
  "vim_request name dflt = [(''type'', PStr ''openstack''), (''tenant_id'', PStr ''t1''), (''name'', PStr name),
     (''description'', PStr []), (''auth_url'', PStr ''http://site/v3''), (''placement_attr'', PDict []),
     (''is_default'', PBool dflt), (''vim_project'', PDict [(''name'', PStr ''p'')]),
     (''auth_cred'', PDict [(''username'', PStr ''u''), (''password'', PStr ''secret'')])]"

definition owner :: ctx where "owner = user_ctx ''t1''"

definition one_vim :: "string list meo_plug" where
  "one_vim = snd (plugin_create_vim sample_meo_env owner (vim_request ''A'' True) (meo_site (empty_db 7) []))"

text \<open>A site with a default VIM and a second one.\<close>

definition site_vim :: "string \<Rightarrow> nat \<Rightarrow> bool \<Rightarrow> vim_row" where
  "site_vim name n dflt = \<lparr>vm_id = sample_uuid n, vm_type = ''openstack'', vm_tenant_id = ''t1'', vm_name = name,
     vm_description = Some [], vm_placement_attr = [(''regions'', PList [PStr ''RegionOne''])], vm_shared = False,
     vm_is_default = dflt, vm_status = ''PENDING'', vm_created_at = 7, vm_updated_at = None,
     vm_deleted_at = Some datetime_min\<rparr>"

definition site_auth :: "nat \<Rightarrow> vim_auth_row" where
  "site_auth n = \<lparr>va_id = sample_uuid (Suc n), va_vim_id = sample_uuid n, va_password = ''ksecret'',
     va_auth_url = ''http://site/v3'', va_vim_project = [(''name'', PStr ''p'')],
     va_auth_cred = [(''username'', PStr ''u''), (''auth_url'', PStr ''http://site/v3''), (''key_type'', PStr ''fernet_key'')]\<rparr>"

definition two_vims :: "string list meo_plug" where
  "two_vims = (meo_site ((empty_db 7)\<lparr>t_vims := [site_vim ''A'' 0 True, site_vim ''B'' 2 False],
     t_vim_auths := [site_auth 0, site_auth 2], uuid_count := 4\<rparr>) [])
       \<lparr>key_files := [(sample_uuid 0, ''k''), (sample_uuid 2, ''k'')]\<rparr>"

text \<open>A service that is being deleted, and an orchestrator whose executions never end.\<close>

definition deleting_ns :: "string list meo_plug" where
  "deleting_ns = meo_site (with_ns\<lparr>t_nss := map (\<lambda>r. r\<lparr>ns_status := PENDING_DELETE\<rparr>) (t_nss with_ns)\<rparr>) []"

definition stalled_env :: "string list meo_env" where
  "stalled_env = sample_meo_env\<lparr>me_mistral := sample_mistral\<lparr>mi_get_execution :=
     (\<lambda>i w. (Inr \<lparr>mo_state = ''RUNNING'', mo_output = Inr []\<rparr>, w))\<rparr>\<rparr>"

text \<open>A descriptor of two servers, and a service that was made from it.\<close>

definition two_servers :: pydict where
  "two_servers = (let server = (\<lambda>link. PDict [(''type'', PStr ''server''),
       (''requirements'', PList [PDict [(''virtualLink'', PStr link)]])]) in
     [(''A'', server ''net1''), (''B'', server ''net2''),
      (''net1'', PDict [(''type'', PStr ''VL'')]), (''net2'', PDict [(''type'', PStr ''VL'')])])"

definition servers_nsd :: nsd_row where
  "servers_nsd = \<lparr>nd_id = sample_uuid 10, nd_tenant_id = ''t1'', nd_name = ''servers'', nd_description = None,
     nd_meads = [(''server'', PStr ''srv'')], nd_template_source = Some ''onboarded'', nd_created_at = 7,
     nd_updated_at = None, nd_deleted_at = Some datetime_min\<rparr>"

definition servers_ns :: ns_row where
  "servers_ns = \<lparr>ns_id = sample_uuid 11, ns_tenant_id = ''t1'', ns_nsd_id = sample_uuid 10, ns_name = ''ns'',
     ns_description = None, ns_mea_ids = None, ns_mgmt_urls = None, ns_status = ACTIVE, ns_vim_id = sample_uuid 0,
     ns_error_reason = None, ns_created_at = 7, ns_updated_at = None, ns_deleted_at = Some datetime_min\<rparr>"

definition servers_site :: "string list meo_plug" where
  "servers_site = two_vims\<lparr>t_nsds := [servers_nsd],
     t_nsd_attrs := [\<lparr>nda_id = sample_uuid 12, nda_nsd_id = sample_uuid 10, nda_key = ''nsd'', nda_value = PStr ''y''\<rparr>],
     t_nss := [servers_ns]\<rparr>"

definition servers_env :: "string list meo_env" where
  "servers_env = sample_meo_env\<lparr>me_yaml_load := (\<lambda>v. Inr (PDict [(''topology_template'',
     PDict [(''node_templates'', PDict two_servers)])]))\<rparr>"

definition servers_body :: ns_body where
  "servers_body = \<lparr>nb_name = ''ns'', nb_tenant_id = Some ''t1'', nb_description = None, nb_nsd_template = PNone,
     nb_nsd_id = sample_uuid 10, nb_vim_id = sample_uuid 0, nb_attributes = []\<rparr>"

text \<open>A run on concrete values, as the pair of its outcome and its state.\<close>

lemma ran: "isl (fst m) = False \<Longrightarrow> m = (Inr (projr (fst m)), snd m)"
  by (simp add: prod_eq_iff)

lemma failed: "fst m = Inl e \<Longrightarrow> m = (Inl e, snd m)"
  by (simp add: prod_eq_iff)

end
