(* ===== verification/WorkflowProps.thy ===== *)
theory WorkflowProps
  imports MeoSamples
begin

text \<open>
  What the orchestrator asks of Mistral for a network service: which nodes of the descriptor
  become instances, what their parameters are, and that the workflow refers only to tasks
  and inputs it has.
\<close>

section \<open>Dictionaries of tasks\<close>

lemma keys_dict_update: "fst ` set (dict_update d e) = fst ` set d \<union> fst ` set e"
  unfolding dict_update_def
  by (induction e arbitrary: d) (auto simp: keys_dict_set split: prod.splits)

lemma set_dict_set: "set (dict_set k v d) \<subseteq> insert (k, v) (set d)"
  by (induction d) auto

lemma set_dict_update: "set (dict_update d e) \<subseteq> set d \<union> set e"
  unfolding dict_update_def
proof (induction e arbitrary: d)
  case (Cons p e)
  obtain k v where p: "p = (k, v)" by force
  show ?case using Cons.IH [of "dict_set k v d"] set_dict_set [of k v d] by (auto simp: p)
qed simp

text \<open>The dictionary that \<open>dict_of_nodes\<close> builds, as a fold over the nodes.\<close>

lemma fold_nodes_keys:
  "fst ` set (foldl (\<lambda>d n. dict_set (fst (f n)) (snd (f n)) d) d ns) = fst ` set d \<union> (fst \<circ> f) ` set ns"
  by (induction ns arbitrary: d) (auto simp: keys_dict_set)

lemma fold_nodes_set:
  "set (foldl (\<lambda>d n. dict_set (fst (f n)) (snd (f n)) d) d ns) \<subseteq> set d \<union> f ` set ns"
proof (induction ns arbitrary: d)
  case (Cons n ns)
  show ?case using Cons.IH [of "dict_set (fst (f n)) (snd (f n)) d"] set_dict_set [of "fst (f n)" "snd (f n)" d]
    by auto
qed simp

lemma dict_of_nodes_keys: "fst ` set (dict_of_nodes f meads) = (fst \<circ> f) ` set (nodes_of meads)"
  by (simp add: dict_of_nodes_def fold_nodes_keys)

lemma dict_of_nodes_set: "set (dict_of_nodes f meads) \<subseteq> f ` set (nodes_of meads)"
  using fold_nodes_set [of f "[]"] by (simp add: dict_of_nodes_def)

section \<open>The workflow of a creation\<close>

text \<open>Every task named after another one is a task of the workflow.\<close>

definition closed_tasks :: "pydict \<Rightarrow> bool" where
  "closed_tasks tasks \<longleftrightarrow> list_all (\<lambda>(_, t). list_all (\<lambda>n. has_key n tasks) (successors t)) tasks"

lemma closed_tasksI:
  "(\<And>n t m. (n, t) \<in> set tasks \<Longrightarrow> m \<in> set (successors t) \<Longrightarrow> m \<in> fst ` set tasks) \<Longrightarrow> closed_tasks tasks"
  by (auto simp: closed_tasks_def list_all_iff has_key_iff)

lemma create_task_successors: "successors (snd (create_mea_task name n)) = [fst (wait_mea_task n)]"
  by (simp add: create_mea_task_def wait_mea_task_def successors_def dict_get_def Let_def)

lemma wait_task_successors: "successors (snd (wait_mea_task n)) = [fst (delete_mea_task n)]"
  by (simp add: wait_mea_task_def delete_mea_task_def successors_def dict_get_def dict_keys_def Let_def)

lemma delete_task_successors: "successors (snd (delete_mea_task n)) = []"
  by (simp add: delete_mea_task_def successors_def dict_get_def)

lemmas task_successors = create_task_successors wait_task_successors delete_task_successors

definition creation_tasks :: "mead_details \<Rightarrow> pydict" where
  "creation_tasks meads = dict_update (dict_update (dict_of_nodes (create_mea_task ''create_mea'') meads)
     (dict_of_nodes wait_mea_task meads)) (dict_of_nodes delete_mea_task meads)"

lemma creation_tasks_keys: "fst ` set (creation_tasks meads) =
   (\<Union>n \<in> set (nodes_of meads). {''create_mea_'' @ n, ''wait_mea_active_'' @ n, ''delete_mea_'' @ n})"
  by (auto simp: creation_tasks_def keys_dict_update dict_of_nodes_keys create_mea_task_def wait_mea_task_def
      delete_mea_task_def Let_def)

lemma creation_tasks_closed: "closed_tasks (creation_tasks meads)"
proof (rule closed_tasksI)
  fix k t m assume kt: "(k, t) \<in> set (creation_tasks meads)" and m: "m \<in> set (successors t)"
  have "set (creation_tasks meads) \<subseteq> create_mea_task ''create_mea'' ` set (nodes_of meads) \<union>
      wait_mea_task ` set (nodes_of meads) \<union> delete_mea_task ` set (nodes_of meads)"
    unfolding creation_tasks_def using set_dict_update dict_of_nodes_set by blast
  with kt consider n where "n \<in> set (nodes_of meads)" "(k, t) = create_mea_task ''create_mea'' n"
    | n where "n \<in> set (nodes_of meads)" "(k, t) = wait_mea_task n"
    | n where "n \<in> set (nodes_of meads)" "(k, t) = delete_mea_task n"
    by blast
  then show "m \<in> fst ` set (creation_tasks meads)"
  proof cases
    case 1
    then have "t = snd (create_mea_task ''create_mea'' n)" by (metis snd_conv)
    with m have "m = ''wait_mea_active_'' @ n" by (simp add: task_successors) (simp add: wait_mea_task_def Let_def)
    with 1 show ?thesis by (auto simp: creation_tasks_keys)
  next
    case 2
    then have "t = snd (wait_mea_task n)" by (metis snd_conv)
    with m have "m = ''delete_mea_'' @ n" by (simp add: task_successors) (simp add: delete_mea_task_def)
    with 2 show ?thesis by (auto simp: creation_tasks_keys)
  next
    case 3
    then have "t = snd (delete_mea_task n)" by (metis snd_conv)
    with m show ?thesis by (simp add: task_successors)
  qed
qed

text \<open>The inputs of a workflow: those it declares and those it is given.\<close>

definition declared_inputs :: "generator \<Rightarrow> pyval" where
  "declared_inputs g = dict_get ''input'' PNone (wf_definition g)"

definition inputs_given :: "generator \<Rightarrow> bool" where
  "inputs_given g \<longleftrightarrow> (case declared_inputs g of
     PList xs \<Rightarrow> set xs = (PStr \<circ> fst) ` set (wf_input_dict g) | _ \<Rightarrow> False)"

lemma create_workflow_eq:
  "create_workflow vim u params meads (new_generator ''mea'' ''create'' i) = Inr
     \<lparr>wf_name = ''create_mea'', wf_identifier = ''std.create_mea'' @ i,
      wf_definition = dict_set ''output'' (PDict (projr (build_output_dict ''create_mea'' meads)))
        (dict_set ''tasks'' (PDict (creation_tasks meads)) (basic_workflow ''mea'')),
      wf_input_dict = build_input vim u params meads\<rparr>"
  by (simp add: create_workflow_def new_generator_def creation_tasks_def build_output_dict_def OUTPUT_def Let_def)

lemma create_workflow_closed:
  "\<exists>g tasks. create_workflow vim u params meads (new_generator ''mea'' ''create'' i) = Inr g \<and>
     get_tasks g = PDict tasks \<and> closed_tasks tasks \<and> inputs_given g \<and>
     fst ` set tasks = (\<Union>n \<in> set (nodes_of meads).
       {''create_mea_'' @ n, ''wait_mea_active_'' @ n, ''delete_mea_'' @ n})"
proof -
  let ?g = "\<lparr>wf_name = ''create_mea'', wf_identifier = ''std.create_mea'' @ i,
      wf_definition = dict_set ''output'' (PDict (projr (build_output_dict ''create_mea'' meads)))
        (dict_set ''tasks'' (PDict (creation_tasks meads)) (basic_workflow ''mea'')),
      wf_input_dict = build_input vim u params meads\<rparr>"
  have "get_tasks ?g = PDict (creation_tasks meads)" by (simp add: get_tasks_def dict_get_def)
  moreover have "inputs_given ?g"
    by (simp add: inputs_given_def declared_inputs_def dict_get_def basic_workflow_def build_input_def)
  ultimately show ?thesis
    using create_workflow_eq [of vim u params meads i] creation_tasks_closed [of meads] creation_tasks_keys [of meads]
    by blast
qed

section \<open>From the descriptor to the instances\<close>

definition nodes_of_mead :: "pydict \<Rightarrow> string \<Rightarrow> pydict \<Rightarrow> string list" where
  "nodes_of_mead meads mead nodes = map fst (filter (\<lambda>(_, n). mead_of_node meads n = Inr (Some mead)) nodes)"

text \<open>The requirements a node has, \<open>None\<close> when it has none.\<close>

definition requirements_of :: "pyval \<Rightarrow> pyval" where
  "requirements_of node = (case get_of ''requirements'' PNone node of Inl _ \<Rightarrow> PNone | Inr v \<Rightarrow> v)"

lemma place_node_Inr:
  assumes "place_node nsd_id meads onboarded nodes (name, node) (md, p) = Inr (md', p')"
  obtains "mead_of_node meads node = Inr None" "md' = md" "p' = p"
  | mead i where "mead_of_node meads node = Inr (Some mead)" "md' = add_instance mead name i md"
      "\<not> truthy (requirements_of node)" "p' = p"
  | mead i where "mead_of_node meads node = Inr (Some mead)" "md' = add_instance mead name i md"
      "truthy (requirements_of node)"
      "set_substitution mead (node_substitution nsd_id nodes (requirements_of node)) p = Inr p'"
proof -
  from assms obtain r where r: "mead_of_node meads node = Inr r"
    by (auto simp: place_node_def bindS_Inr_iff)
  show ?thesis
  proof (cases r)
    case None
    with assms r that(1) show ?thesis by (simp add: place_node_def)
  next
    case (Some mead)
    from assms r Some obtain i reqs where i: "get_of ''requirements'' PNone node = Inr reqs"
      and step: "(if \<not> truthy reqs then Inr (add_instance mead name i md, p)
        else bindS (set_substitution mead (node_substitution nsd_id nodes reqs) p) (\<lambda>p1.
          Inr (add_instance mead name i md, p1))) = Inr (md', p')"
      by (auto simp: place_node_def bindS_Inr_iff Let_def)
    have "requirements_of node = reqs" by (simp add: requirements_of_def i)
    with step r Some that(2,3) [of mead i] show ?thesis
      by (auto simp: bindS_Inr_iff split: if_splits)
  qed
qed

lemma add_instance_instances:
  "map_option md_instances (map_of (add_instance mead name i md) m) =
     (if m = mead then Some (case map_of md mead of None \<Rightarrow> [name] | Some d \<Rightarrow> md_instances d @ [name])
      else map_option md_instances (map_of md m))"
  by (auto simp: add_instance_def split: option.splits)

lemma foldS_snoc: "foldS f (xs @ [x]) acc = bindS (foldS f xs acc) (f x)"
  by (simp add: foldS_append) (cases "foldS f xs acc"; simp add: bindS_def split: sum.splits)

lemma fold_place_instances:
  "foldS (place_node nsd_id meads onboarded nodes) xs ([], params) = Inr (md, p) \<Longrightarrow>
   map_option md_instances (map_of md mead) =
     (if nodes_of_mead meads mead xs = [] then None else Some (nodes_of_mead meads mead xs))"
proof (induction xs arbitrary: md p rule: rev_induct)
  case Nil
  then show ?case by (simp add: nodes_of_mead_def)
next
  case (snoc x xs)
  obtain name node where x: "x = (name, node)" by force
  from snoc.prems obtain acc where acc: "foldS (place_node nsd_id meads onboarded nodes) xs ([], params) = Inr acc"
    and step: "place_node nsd_id meads onboarded nodes (name, node) acc = Inr (md, p)"
    by (auto simp: foldS_snoc bindS_Inr_iff x)
  obtain md0 p0 where a: "acc = (md0, p0)" by force
  have IH: "map_option md_instances (map_of md0 mead) =
     (if nodes_of_mead meads mead xs = [] then None else Some (nodes_of_mead meads mead xs))"
    using snoc.IH acc a by simp
  have new: "nodes_of_mead meads mead (xs @ [x]) =
      nodes_of_mead meads mead xs @ (if mead_of_node meads node = Inr (Some mead) then [name] else [])"
    by (simp add: nodes_of_mead_def x)
  have grown: "map_option md_instances (map_of (add_instance m name i md0) mead) =
     (if nodes_of_mead meads mead (xs @ [x]) = [] then None else Some (nodes_of_mead meads mead (xs @ [x])))"
    if "mead_of_node meads node = Inr (Some m)" for m i
    using IH that by (auto simp: add_instance_instances new split: option.splits if_splits)
  from step [unfolded a] show ?case
    by (cases rule: place_node_Inr) (use IH new grown in auto)
qed

lemma add_instance_ok: "dict_ok md \<Longrightarrow> dict_ok (add_instance mead name i md)"
  by (auto simp: add_instance_def split: option.splits)

lemma fold_place_ok:
  "foldS (place_node nsd_id meads onboarded nodes) xs acc = Inr acc' \<Longrightarrow> dict_ok (fst acc) \<Longrightarrow> dict_ok (fst acc')"
proof (erule foldS_invariant [where P = "\<lambda>acc. dict_ok (fst acc)", rotated 2])
  fix x acc acc'
  assume ok: "dict_ok (fst acc)" and step: "place_node nsd_id meads onboarded nodes x acc = Inr acc'"
  obtain name node where x: "x = (name, node)" by force
  obtain md p where a: "acc = (md, p)" by force
  obtain md' p' where a': "acc' = (md', p')" by force
  from step [unfolded x a a'] show "dict_ok (fst acc')"
    by (cases rule: place_node_Inr) (use ok a a' in \<open>simp_all add: add_instance_ok\<close>)
qed

text \<open>The nodes of a descriptor that become MEAs.\<close>

definition instance_nodes :: "pydict \<Rightarrow> pydict \<Rightarrow> string set" where
  "instance_nodes meads nodes = {name. \<exists>node mead. (name, node) \<in> set nodes \<and> mead_of_node meads node = Inr (Some mead)}"

lemma instance_nodes_by_mead: "instance_nodes meads nodes = (\<Union>mead. set (nodes_of_mead meads mead nodes))"
  by (force simp: instance_nodes_def nodes_of_mead_def)

lemma placed_nodes:
  assumes "place_nodes nsd_id meads onboarded nodes params = Inr (md, p)"
  shows "set (nodes_of md) = instance_nodes meads nodes"
proof -
  note fold = assms [unfolded place_nodes_def]
  have ok: "dict_ok md" using fold_place_ok [OF fold] by simp
  have inst: "map_option md_instances (map_of md mead) =
     (if nodes_of_mead meads mead nodes = [] then None else Some (nodes_of_mead meads mead nodes))" for mead
    using fold_place_instances [OF fold] .
  have "n \<in> set (nodes_of md) \<longleftrightarrow> (\<exists>mead d. map_of md mead = Some d \<and> n \<in> set (md_instances d))" for n
    using ok by (force simp: nodes_of_def dict_ok_def)
  moreover have "(\<exists>d. map_of md mead = Some d \<and> n \<in> set (md_instances d)) \<longleftrightarrow> n \<in> set (nodes_of_mead meads mead nodes)" for n mead
    using inst [of mead] by (cases "map_of md mead") (auto split: if_splits)
  ultimately show ?thesis by (auto simp: instance_nodes_by_mead)
qed


section \<open>The parameters of the instances\<close>

text \<open>The substitution mappings that the MEAs of a MEAD are created with.\<close>

definition substitution_of :: "string \<Rightarrow> pyval \<Rightarrow> exn + pyval" where
  "substitution_of mead params = bindS (subscr mead params) (subscr ''substitution_mappings'')"

lemma assign_substitution:
  assumes "assign [mead] ''substitution_mappings'' (PDict x) (PDict d) = Inr p'"
  shows "substitution_of mead p' = Inr (PDict x)"
    and "m \<noteq> mead \<Longrightarrow> substitution_of m p' = substitution_of m (PDict d)"
  using assms by (auto simp: assign_def substitution_of_def bindS_Inr_iff split: option.splits)

lemma set_substitution_Inr:
  assumes "set_substitution mead r p = Inr p'"
  obtains subst where "r = Inr subst" "substitution_of mead p' = Inr (PDict subst)"
    "\<And>m. m \<noteq> mead \<Longrightarrow> substitution_of m p' = substitution_of m p"
proof -
  from assms obtain d subst where p: "p = PDict d" and r: "r = Inr subst"
    and a: "assign [mead] ''substitution_mappings'' (PDict subst)
      (PDict (if truthy (dict_get mead PNone d) then d else dict_set mead (PDict []) d)) = Inr p'"
    by (cases p) (auto simp: set_substitution_def bindS_Inr_iff get_of_def dict_of_def Let_def split: if_splits)
  show ?thesis
  proof (rule that [OF r])
    show "substitution_of mead p' = Inr (PDict subst)" using assign_substitution(1) [OF a] .
  next
    fix m assume m: "m \<noteq> mead"
    show "substitution_of m p' = substitution_of m p"
      using assign_substitution(2) [OF a m] m by (simp add: p substitution_of_def)
  qed
qed

definition requires_for :: "pydict \<Rightarrow> string \<Rightarrow> string \<times> pyval \<Rightarrow> bool" where
  "requires_for meads mead = (\<lambda>(_, node). mead_of_node meads node = Inr (Some mead) \<and> truthy (requirements_of node))"

lemma place_node_substitution:
  assumes "place_node nsd_id meads onboarded nodes x acc = Inr acc'" and "\<not> requires_for meads mead x"
  shows "substitution_of mead (snd acc') = substitution_of mead (snd acc)"
proof -
  obtain name node where x: "x = (name, node)" by force
  obtain md p where a: "acc = (md, p)" by force
  obtain md' p' where a': "acc' = (md', p')" by force
  from assms(1) [unfolded x a a'] show ?thesis
  proof (cases rule: place_node_Inr)
    case (3 m i)
    with assms(2) have m: "mead \<noteq> m" by (auto simp: requires_for_def x)
    show ?thesis using set_substitution_Inr [OF 3(4)] m a a' by fastforce
  qed (simp_all add: a a')
qed

lemma fold_place_substitution:
  "foldS (place_node nsd_id meads onboarded nodes) ys acc = Inr acc' \<Longrightarrow>
   list_all (\<lambda>y. \<not> requires_for meads mead y) ys \<Longrightarrow>
   substitution_of mead (snd acc') = substitution_of mead (snd acc)"
proof (induction ys arbitrary: acc)
  case (Cons y ys)
  from Cons.prems(1) obtain a where a: "place_node nsd_id meads onboarded nodes y acc = Inr a"
    and rest: "foldS (place_node nsd_id meads onboarded nodes) ys a = Inr acc'"
    by (auto simp: bindS_Inr_iff)
  from Cons.IH [OF rest] Cons.prems(2) place_node_substitution [OF a] show ?case by simp
qed simp

text \<open>The parameters are kept per MEAD, not per node. When several nodes of a descriptor are
  instances of the same MEAD, all their MEAs get the substitution mappings of the last of
  these nodes that has requirements, and the requirements of the others are lost.\<close>

theorem last_requirements_win:
  assumes "place_nodes nsd_id meads onboarded nodes params = Inr (md, params')"
    and nodes: "nodes = xs @ (name, node) # ys"
    and mead: "mead_of_node meads node = Inr (Some mead)" and reqs: "truthy (requirements_of node)"
    and last: "list_all (\<lambda>y. \<not> requires_for meads mead y) ys"
  shows "\<exists>subst. node_substitution nsd_id nodes (requirements_of node) = Inr subst \<and>
    substitution_of mead params' = Inr (PDict subst)"
proof -
  let ?f = "place_node nsd_id meads onboarded nodes"
  from assms(1) obtain a b where b: "?f (name, node) a = Inr b" and rest: "foldS ?f ys b = Inr (md, params')"
    by (auto simp: place_nodes_def foldS_append bindS_Inr_iff nodes)
  obtain mda pa where a: "a = (mda, pa)" by force
  obtain mdb pb where bb: "b = (mdb, pb)" by force
  have keep: "substitution_of mead params' = substitution_of mead pb"
    using fold_place_substitution [OF rest last] by (simp add: bb)
  from b [unfolded a bb] show ?thesis
  proof (cases rule: place_node_Inr)
    case (3 m i)
    with mead have m: "m = mead" by simp
    show ?thesis using set_substitution_Inr [OF 3(4)] keep m by metis
  qed (use mead reqs in simp_all)
qed

definition server_plan :: "mead_details \<times> pyval" where
  "server_plan = projr (place_nodes ''nsd'' [(''server'', PStr ''srv'')] [[(''name'', PStr ''srv''), (''id'', PStr ''m1'')]]
     two_servers (PDict []))"

lemma server_plan_eq: "place_nodes ''nsd'' [(''server'', PStr ''srv'')] [[(''name'', PStr ''srv''), (''id'', PStr ''m1'')]]
     two_servers (PDict []) = Inr (fst server_plan, snd server_plan)"
proof -
  have "isl (place_nodes ''nsd'' [(''server'', PStr ''srv'')] [[(''name'', PStr ''srv''), (''id'', PStr ''m1'')]]
     two_servers (PDict [])) = False" by code_simp
  then show ?thesis by (simp add: server_plan_def)
qed


lemma last_requirements_win_witness:
  "substitution_of ''srv'' (snd server_plan) = Inr (PDict
     [(''net2nsd'', PDict [(''type'', PStr ''VL'')]), (''requirements'', PDict [(''virtualLink'', PStr ''net2nsd'')])])"
proof -
  let ?B = "PDict [(''type'', PStr ''server''), (''requirements'', PList [PDict [(''virtualLink'', PStr ''net2'')]])]"
  let ?ys = "[(''net1'', PDict [(''type'', PStr ''VL'')]), (''net2'', PDict [(''type'', PStr ''VL'')])]"
  let ?meads = "[(''server'', PStr ''srv'')]"
  have split: "two_servers = take 1 two_servers @ (''B'', ?B) # ?ys" by code_simp
  have m: "mead_of_node ?meads ?B = Inr (Some ''srv'')" by code_simp
  have r: "truthy (requirements_of ?B)" by code_simp
  have ys: "list_all (\<lambda>y. \<not> requires_for ?meads ''srv'' y) ?ys" by code_simp
  have s: "node_substitution ''nsd'' two_servers (requirements_of ?B) = Inr
     [(''net2nsd'', PDict [(''type'', PStr ''VL'')]), (''requirements'', PDict [(''virtualLink'', PStr ''net2nsd'')])]"
    by code_simp
  show ?thesis using last_requirements_win [OF server_plan_eq split m r ys] s by simp
qed

end
