(* ===== verification/VimProps.thy ===== *)
theory VimProps
  imports MeoSamples MeoProps
begin

text \<open>
  The credentials of a VIM from its registration to their use: what the VIM driver and the
  orchestrator leave behind in the tables and the key files, when all goes well and when it
  does not.
\<close>

section \<open>What a step may change\<close>

text \<open>Only the outside world; and nothing of the key files.\<close>

definition same_site :: "('w, 'x) site_scheme \<Rightarrow> ('w, 'x) site_scheme \<Rightarrow> bool" where
  "same_site s t \<longleftrightarrow> (\<exists>w. t = s\<lparr>site_world := w\<rparr>)"

definition same_files :: "('w, 'x) site_scheme \<Rightarrow> ('w, 'x) site_scheme \<Rightarrow> bool" where
  "same_files s t \<longleftrightarrow> key_files t = key_files s"

interpretation outside: effect_relation same_site
proof
  show "same_site s s" for s :: "('w, 'x) site_scheme"
    unfolding same_site_def by (rule exI [of _ "site_world s"]) simp
  show "same_site s u" if "same_site s t" "same_site t u" for s t u :: "('w, 'x) site_scheme"
    using that by (auto simp: same_site_def)
qed

interpretation files: transactional_relation same_files rollback
  by unfold_locales (simp_all add: same_files_def rollback_def)

lemma outside_call: "obeys same_site (site_call f)"
  by (rule obeysI) (auto simp: site_call_def same_site_def split: prod.splits)

lemma outside_attempt: "obeys same_site m \<Longrightarrow> obeys same_site (attempt m)"
  unfolding attempt_def by (intro outside.r_intros) simp

lemma outside_ignoring: "obeys same_site m \<Longrightarrow> obeys same_site (ignoring m)"
  unfolding ignoring_def by (intro outside.r_intros) simp

lemmas outside_intros = outside.r_intros outside_call outside_attempt outside_ignoring

lemma files_tx: "obeys same_files m \<Longrightarrow> obeys same_files (tx m)"
  unfolding tx_def by (rule files.r_atomically)

lemma files_create_event: "obeys same_files (create_event i t st e ts d)"
  unfolding create_event_def bind_uuids_def
  by (intro files.r_intros files_tx files.r_modify) (auto simp: same_files_def intro!: files.r_intros)

lemma files_prims:
  "obeys same_files (generate_uuid E)" "obeys same_files utcnow" "obeys same_files (bind_uuids is)"
  "obeys same_files (insert_vim r)" "obeys same_files (insert_vim_auth a)"
  "obeys same_files (store_vims P f)" "obeys same_files (update_vim_auths Q g)"
  by (rule obeysI, auto simp: same_files_def generate_uuid_def utcnow_def bind_uuids_def insert_vim_def
      insert_vim_auth_def store_vims_def update_vim_auths_def thenE_def bindE_def Let_def
      split: prod.splits sum.splits if_splits)+

lemmas files_intros = files.r_intros files_tx files_create_event files_prims

lemma files_create_vim: "obeys same_files (create_vim E c req)"
  unfolding create_vim_def create_vim_tx_def validate_default_vim_def as_duplicate_def Let_def
  by (intro files_intros) (auto intro!: files_intros split: prod.splits)

lemma files_update_vim: "obeys same_files (update_vim E c i u)"
  unfolding update_vim_def validate_default_vim_def get_vim_def
  by (intro files_intros) (auto intro!: files_intros split: prod.splits)

section \<open>The dictionary of a VIM on its way through the driver\<close>

definition password_of :: "pydict \<Rightarrow> exn + string" where
  "password_of d = bindS (sub_dict ''auth_cred'' d) (text_of ''password'')"

definition same_vim :: "pydict \<Rightarrow> pydict \<Rightarrow> bool" where
  "same_vim d d' \<longleftrightarrow> map_of d' ''id'' = map_of d ''id'' \<and> map_of d' ''tenant_id'' = map_of d ''tenant_id'' \<and>
     password_of d' = password_of d"

lemma same_vim_refl [simp]: "same_vim d d" by (simp add: same_vim_def)

lemma same_vim_trans: "same_vim a b \<Longrightarrow> same_vim b c \<Longrightarrow> same_vim a c"
  by (simp add: same_vim_def)

text \<open>A step that leaves the site alone and keeps what identifies the VIM.\<close>

definition quiet_step :: "pydict \<Rightarrow> ('w, 'x, (exn + unit) \<times> pydict) sprog \<Rightarrow> bool" where
  "quiet_step d m \<longleftrightarrow> (\<forall>s. \<exists>r d' w. m s = (Inr (r, d'), s\<lparr>site_world := w\<rparr>) \<and> same_vim d d')"

lemma quiet_stepD:
  assumes "quiet_step d m"
  obtains r d' w where "m s = (Inr (r, d'), s\<lparr>site_world := w\<rparr>)" "same_vim d d'"
  using assms unfolding quiet_step_def by blast

lemma quiet_mono: "same_vim d0 d \<Longrightarrow> quiet_step d m \<Longrightarrow> quiet_step d0 m"
  unfolding quiet_step_def by (meson same_vim_trans)

lemma quiet_ret: "same_vim d d' \<Longrightarrow> quiet_step d (ret (r, d'))"
  unfolding quiet_step_def
proof
  fix s :: "('w, 'x) site_scheme"
  assume "same_vim d d'"
  then show "\<exists>r' d'' w. ret (r, d') s = (Inr (r', d''), s\<lparr>site_world := w\<rparr>) \<and> same_vim d d''"
    by (intro exI [of _ r] exI [of _ d'] exI [of _ "site_world s"]) simp
qed

lemma quiet_pure: "(\<And>d'. f d = Inr d' \<Longrightarrow> same_vim d d') \<Longrightarrow> quiet_step d (pure_step f d)"
  unfolding pure_step_def by (cases "f d") (simp_all add: quiet_ret)

lemma quiet_bind_attempt:
  assumes m: "obeys same_site m" and k: "\<And>r. quiet_step d (k r)"
  shows "quiet_step d (bindE (attempt m) k)"
  unfolding quiet_step_def
proof
  fix s
  obtain r t where run: "m s = (r, t)" by force
  with obeysD [OF m, of s] obtain w where t: "t = s\<lparr>site_world := w\<rparr>" by (auto simp: same_site_def)
  have "attempt m s = (Inr r, t)"
    using run by (cases r) (simp_all add: attempt_def catchE_def bindE_def)
  then have eq: "bindE (attempt m) k s = k r t" by (rule bindE_Inr)
  from k [of r] obtain r' d' w' where "k r t = (Inr (r', d'), t\<lparr>site_world := w'\<rparr>)" "same_vim d d'"
    by (rule quiet_stepD)
  then show "\<exists>r' d' w. bindE (attempt m) k s = (Inr (r', d'), s\<lparr>site_world := w\<rparr>) \<and> same_vim d d'"
    by (intro exI [of _ r'] exI [of _ d'] exI [of _ w']) (simp add: eq t)
qed

lemma quiet_eff:
  assumes "obeys same_site m" and "\<And>x d'. f x d = Inr d' \<Longrightarrow> same_vim d d'"
  shows "quiet_step d (eff_step m f d)"
  unfolding eff_step_def
proof (rule quiet_bind_attempt [OF assms(1)])
  show "quiet_step d (case r of Inl e \<Rightarrow> ret (Inl e, d) | Inr x \<Rightarrow> pure_step (f x) d)" for r
    by (cases r) (simp_all add: quiet_ret quiet_pure assms(2))
qed

lemma quiet_and_then:
  assumes m: "quiet_step d m" and k: "\<And>d'. same_vim d d' \<Longrightarrow> quiet_step d' (k d')"
  shows "quiet_step d (and_then m k)"
  unfolding quiet_step_def
proof
  fix s
  from m obtain r d' w where run: "m s = (Inr (r, d'), s\<lparr>site_world := w\<rparr>)" and d': "same_vim d d'"
    by (rule quiet_stepD)
  show "\<exists>r d' w. and_then m k s = (Inr (r, d'), s\<lparr>site_world := w\<rparr>) \<and> same_vim d d'"
  proof (cases r)
    case (Inl e)
    then show ?thesis using run d'
      by (intro exI [of _ r] exI [of _ d'] exI [of _ w]) (simp add: and_then_def bindE_def)
  next
    case (Inr u)
    from k [OF d'] obtain r2 d2 w2 where
      "k d' (s\<lparr>site_world := w\<rparr>) = (Inr (r2, d2), (s\<lparr>site_world := w\<rparr>)\<lparr>site_world := w2\<rparr>)" "same_vim d' d2"
      by (rule quiet_stepD)
    then show ?thesis using run d' Inr
      by (intro exI [of _ r2] exI [of _ d2] exI [of _ w2]) (auto simp: and_then_def bindE_def intro: same_vim_trans)
  qed
qed

lemma same_vim_set: "k \<notin> {''id'', ''tenant_id'', ''auth_cred''} \<Longrightarrow> same_vim d (dict_set k v d)"
  by (auto simp: same_vim_def password_of_def sub_dict_def)

lemma same_vim_cred:
  assumes "set_cred f d = Inr d'" and "\<And>a b. f a = Inr b \<Longrightarrow> map_of b ''password'' = map_of a ''password''"
  shows "same_vim d d'"
proof -
  from assms(1) obtain a b where a: "sub_dict ''auth_cred'' d = Inr a" and b: "f a = Inr b"
    and d': "d' = dict_set ''auth_cred'' (PDict b) d"
    by (auto simp: set_cred_def bindS_Inr_iff)
  from a have "map_of d ''auth_cred'' = Some (PDict a)"
    by (auto simp: sub_dict_def bindS_Inr_iff dict_of_def split: option.splits pyval.splits)
  then show ?thesis using assms(2) [OF b] by (auto simp: same_vim_def password_of_def sub_dict_def d' text_of_def)
qed

lemma same_vim_auth_creds: "get_auth_creds version d = Inr d' \<Longrightarrow> same_vim d d'"
proof -
  assume "get_auth_creds version d = Inr d'"
  then obtain url cred where "set_cred (\<lambda>c. Inr (dict_set ''auth_url'' url (cred c))) (dict_set ''auth_url'' url d) = Inr d'"
    and "\<And>c. map_of (cred c) ''password'' = map_of c ''password''"
    unfolding get_auth_creds_def bindS_Inr_iff Let_def
    by (auto simp: dict_update_def)
  then show ?thesis
    by (intro same_vim_trans [OF same_vim_set [of "''auth_url''" d url]] same_vim_cred) auto
qed

lemma quiet_authenticate: "quiet_step d (authenticate_and_discover L d)"
  unfolding authenticate_and_discover_def
proof (rule quiet_bind_attempt)
  show "obeys same_site (bindE (pureE (text_of ''auth_url'' d)) (validate_auth_url L))"
    unfolding validate_auth_url_def by (intro outside_intros)
next
  fix r :: "exn + string"
  have find: "obeys same_site (discover_placement_attr L cv cred)" for cv cred
    unfolding discover_placement_attr_def find_regions_def Let_def
    by (intro outside_intros) (auto intro!: outside_intros)
  show "quiet_step d (case r of Inl e \<Rightarrow> ret (Inl e, d) | Inr version \<Rightarrow>
      and_then (pure_step (get_auth_creds version) d) (\<lambda>d1.
         eff_step (bindE (pureE (sub_dict ''auth_cred'' d1)) (\<lambda>cred.
             bindE (site_call (vl_client L version cred)) (\<lambda>cv. discover_placement_attr L cv cred)))
           set_regions d1))"
  proof (cases r)
    case (Inr version)
    have "quiet_step d (and_then (pure_step (get_auth_creds version) d) (\<lambda>d1.
         eff_step (bindE (pureE (sub_dict ''auth_cred'' d1)) (\<lambda>cred.
             bindE (site_call (vl_client L version cred)) (\<lambda>cv. discover_placement_attr L cv cred)))
           set_regions d1))"
    proof (rule quiet_and_then)
      show "quiet_step d (pure_step (get_auth_creds version) d)" by (rule quiet_pure) (rule same_vim_auth_creds)
      show "quiet_step d1 (eff_step (bindE (pureE (sub_dict ''auth_cred'' d1)) (\<lambda>cred.
             bindE (site_call (vl_client L version cred)) (\<lambda>cv. discover_placement_attr L cv cred))) set_regions d1)" for d1
        by (rule quiet_eff) (auto simp: set_regions_def same_vim_set intro!: outside_intros find)
    qed
    then show ?thesis by (simp add: Inr)
  qed (simp add: quiet_ret)
qed

section \<open>Storing the key\<close>

text \<open>The credentials say that the key is in a file.\<close>

definition file_key :: "pydict \<Rightarrow> bool" where
  "file_key d \<longleftrightarrow> (\<exists>a. sub_dict ''auth_cred'' d = Inr a \<and> dict_get ''key_type'' PNone a = PStr ''fernet_key'')"

text \<open>What storing the key of the VIM \<open>i\<close> can have done.\<close>

definition stored ::
  "'w vim_libs \<Rightarrow> string \<Rightarrow> pydict \<Rightarrow> exn + unit \<Rightarrow> pydict \<Rightarrow> (string \<times> string) list \<Rightarrow> (string \<times> string) list \<Rightarrow> bool" where
  "stored L i d r d' kf kf' \<longleftrightarrow>
     map_of d' ''id'' = map_of d ''id'' \<and> map_of d' ''tenant_id'' = map_of d ''tenant_id'' \<and>
     (kf' = kf \<or> (\<exists>x. kf' = dict_set i x kf) \<and> file_key d') \<and>
     (r = Inr () \<and> \<not> vl_use_barbican L \<longrightarrow> (\<exists>key p. kf' = dict_set i key kf \<and> file_key d' \<and>
        password_of d = Inr p \<and> password_of d' = Inr (vl_encrypt L key p)))"

lemma stored_failed: "same_vim d d' \<Longrightarrow> stored L i d (Inl e) d' kf kf"
  by (simp add: stored_def same_vim_def)

lemma stored_same: "same_vim d0 d \<Longrightarrow> stored L i d r d' kf kf' \<Longrightarrow> stored L i d0 r d' kf kf'"
  by (auto simp: stored_def same_vim_def)

lemma set_cred_Inr:
  assumes "set_cred f d = Inr d'"
  obtains a b where "sub_dict ''auth_cred'' d = Inr a" "f a = Inr b" "d' = dict_set ''auth_cred'' (PDict b) d"
    "sub_dict ''auth_cred'' d' = Inr b"
  using assms that by (auto simp: set_cred_def bindS_Inr_iff sub_dict_def)

lemma write_key_cases:
  obtains e where "write_key L i key s = (Inl e, s)"
  | e x where "write_key L i key s = (Inl e, s\<lparr>key_files := dict_set i x (key_files s)\<rparr>)"
  | "write_key L i key s = (Inr (), s\<lparr>key_files := dict_set i key (key_files s)\<rparr>)" "vl_python2 L"
proof (cases "vl_open L i")
  case (Inl e)
  then show ?thesis using that(1)
    by (cases "isinstance e (Lib IOError)") (simp_all add: write_key_def)
next
  case (Inr u)
  show ?thesis
  proof (cases "vl_python2 L")
    case True
    then show ?thesis using Inr by (intro that(3)) (simp_all add: write_key_def write_file_def thenE_def bindE_def)
  next
    case False
    then show ?thesis using Inr
      by (intro that(2) [of type_error "[]"]) (simp add: write_key_def write_file_def thenE_def bindE_def)
  qed
qed

lemma encode_stored:
  "\<exists>r d' w kf. encode_vim_auth L c i d s = (Inr (r, d'), s\<lparr>site_world := w, key_files := kf\<rparr>) \<and>
     stored L i d r d' (key_files s) kf"
proof -
  obtain r1 w1 where k: "vl_new_key L (site_world s) = (r1, w1)" by force
  let ?s1 = "s\<lparr>site_world := w1\<rparr>"
  have new: "attempt (site_call (vl_new_key L)) s = (Inr r1, ?s1)"
    by (cases r1) (simp_all add: attempt_def catchE_def bindE_def site_call_def k)
  show ?thesis
  proof (cases r1)
    case (Inl e)
    then have "encode_vim_auth L c i d s = (Inr (Inl e, d), s\<lparr>site_world := w1, key_files := key_files s\<rparr>)"
      by (simp add: encode_vim_auth_def bindE_def new)
    moreover have "stored L i d (Inl e) d (key_files s) (key_files s)" by (rule stored_failed) simp
    ultimately show ?thesis by blast
  next
    case (Inr key)
    let ?enc = "set_cred (\<lambda>a. bindS (text_of ''password'' a) (\<lambda>p.
           Inr (dict_set ''password'' (PStr (vl_encrypt L key p)) a)))"
    let ?bar = "\<lambda>d1. eff_step (site_call (vl_store_secret L c key)) (\<lambda>secret. set_cred (\<lambda>a.
             Inr (dict_update a [(''key_type'', PStr ''barbican_key''), (''secret_uuid'', PStr secret)]))) d1"
    let ?kt = "set_cred (\<lambda>a. Inr (dict_set ''key_type'' (PStr ''fernet_key'') a))"
    let ?file = "\<lambda>d1. and_then (pure_step ?kt d1) (eff_step (write_key L i key) (\<lambda>_. Inr))"
    have run: "encode_vim_auth L c i d s = and_then (pure_step ?enc d)
        (\<lambda>d1. if vl_use_barbican L then ?bar d1 else ?file d1) ?s1"
      by (simp add: encode_vim_auth_def bindE_def new Inr)
    show ?thesis
    proof (cases "?enc d")
      case (Inl e)
      then have "encode_vim_auth L c i d s = (Inr (Inl e, d), s\<lparr>site_world := w1, key_files := key_files s\<rparr>)"
        by (simp add: run and_then_def pure_step_def)
      moreover have "stored L i d (Inl e) d (key_files s) (key_files s)" by (rule stored_failed) simp
      ultimately show ?thesis by blast
    next
      case enc: (Inr d1)
      from enc obtain a p where a: "sub_dict ''auth_cred'' d = Inr a" and p: "text_of ''password'' a = Inr p"
        and d1: "d1 = dict_set ''auth_cred'' (PDict (dict_set ''password'' (PStr (vl_encrypt L key p)) a)) d"
        by (auto elim!: set_cred_Inr simp: bindS_Inr_iff)
      let ?a1 = "dict_set ''password'' (PStr (vl_encrypt L key p)) a"
      have pw: "password_of d = Inr p" by (simp add: password_of_def a p)
      have after: "encode_vim_auth L c i d s = (if vl_use_barbican L then ?bar d1 else ?file d1) ?s1"
        by (simp add: run and_then_def pure_step_def enc)
      show ?thesis
      proof (cases "vl_use_barbican L")
        case True
        obtain r2 w2 where st: "vl_store_secret L c key w1 = (r2, w2)" by force
        obtain r3 d3 where "?bar d1 ?s1 = (Inr (r3, d3), s\<lparr>site_world := w2, key_files := key_files s\<rparr>)"
          and "map_of d3 ''id'' = map_of d ''id'' \<and> map_of d3 ''tenant_id'' = map_of d ''tenant_id''"
          by (cases r2) (auto simp: eff_step_def attempt_def catchE_def bindE_def site_call_def st pure_step_def
              set_cred_def d1 sub_dict_def)
        then show ?thesis using True after
          by (intro exI [of _ r3] exI [of _ d3] exI [of _ w2] exI [of _ "key_files s"]) (simp add: stored_def)
      next
        case False
        define d2 where "d2 = dict_set ''auth_cred'' (PDict (dict_set ''key_type'' (PStr ''fernet_key'') ?a1)) d1"
        have kt: "?kt d1 = Inr d2" by (simp add: set_cred_def d1 d2_def sub_dict_def)
        have fk: "file_key d2" by (simp add: file_key_def d2_def sub_dict_def dict_get_def)
        have same: "map_of d2 ''id'' = map_of d ''id''" "map_of d2 ''tenant_id'' = map_of d ''tenant_id''"
          by (simp_all add: d2_def d1)
        have pw2: "password_of d2 = Inr (vl_encrypt L key p)"
          by (simp add: password_of_def d2_def sub_dict_def text_of_def str_of_def)
        have in_file: "encode_vim_auth L c i d s = eff_step (write_key L i key) (\<lambda>_. Inr) d2 ?s1"
          using False by (simp add: after and_then_def pure_step_def kt)
        show ?thesis
        proof (cases rule: write_key_cases [of L i key ?s1])
          case (1 e)
          then have "encode_vim_auth L c i d s = (Inr (Inl e, d2), s\<lparr>site_world := w1, key_files := key_files s\<rparr>)"
            by (simp add: in_file eff_step_def attempt_def catchE_def bindE_def)
          then show ?thesis using same
            by (intro exI [of _ "Inl e"] exI [of _ d2] exI [of _ w1] exI [of _ "key_files s"]) (simp add: stored_def)
        next
          case (2 e x)
          then have "encode_vim_auth L c i d s = (Inr (Inl e, d2), s\<lparr>site_world := w1, key_files := dict_set i x (key_files s)\<rparr>)"
            by (simp add: in_file eff_step_def attempt_def catchE_def bindE_def)
          then show ?thesis using same fk by (auto simp: stored_def)
        next
          case 3
          then have "encode_vim_auth L c i d s = (Inr (Inr (), d2), s\<lparr>site_world := w1, key_files := dict_set i key (key_files s)\<rparr>)"
            by (simp add: in_file eff_step_def attempt_def catchE_def bindE_def pure_step_def)
          moreover have "stored L i d (Inr ()) d2 (key_files s) (dict_set i key (key_files s))"
            using same fk pw pw2 by (auto simp: stored_def)
          ultimately show ?thesis by blast
        qed
      qed
    qed
  qed
qed

text \<open>The whole registration by the driver.\<close>

lemma register_stored:
  assumes i: "text_of ''id'' d = Inr i"
  shows "\<exists>r d' w kf. register_vim L c d s = (Inr (r, d'), s\<lparr>site_world := w, key_files := kf\<rparr>) \<and>
     stored L i d r d' (key_files s) kf"
proof -
  let ?drop = "set_cred (\<lambda>a. Inr (dict_del ''secret_uuid'' (dict_del ''key_type'' a)))"
  let ?enc = "\<lambda>d2. bindE (attempt (pureE (text_of ''id'' d2))) (\<lambda>r. case r of
         Inl e \<Rightarrow> ret (Inl e, d2) | Inr i \<Rightarrow> encode_vim_auth L c i d2)"
  have quiet: "quiet_step d (and_then (pure_step ?drop d) (authenticate_and_discover L))"
  proof (rule quiet_and_then [OF _ quiet_authenticate])
    show "quiet_step d (pure_step ?drop d)" by (rule quiet_pure) (auto elim: same_vim_cred)
  qed
  have assoc: "register_vim L c d = and_then (and_then (pure_step ?drop d) (authenticate_and_discover L)) ?enc"
    unfolding register_vim_def and_then_def
    by (rule ext) (auto simp: bindE_def split: prod.splits sum.splits)
  from quiet obtain r1 d1 w1 where run: "and_then (pure_step ?drop d) (authenticate_and_discover L) s =
      (Inr (r1, d1), s\<lparr>site_world := w1\<rparr>)" and d1: "same_vim d d1"
    by (rule quiet_stepD)
  show ?thesis
  proof (cases r1)
    case (Inl e)
    then have "register_vim L c d s = (Inr (Inl e, d1), s\<lparr>site_world := w1, key_files := key_files s\<rparr>)"
      unfolding assoc and_then_def [of "and_then _ _"] by (simp add: bindE_def run)
    then show ?thesis using stored_failed [OF d1] by blast
  next
    case (Inr u)
    have i1: "text_of ''id'' d1 = Inr i" using i d1 by (simp add: text_of_def same_vim_def)
    have eq: "register_vim L c d s = encode_vim_auth L c i d1 (s\<lparr>site_world := w1\<rparr>)"
      unfolding assoc and_then_def [of "and_then _ _"] by (simp add: bindE_def run Inr i1 attempt_def catchE_def)
    from encode_stored [of L c i d1 "s\<lparr>site_world := w1\<rparr>"] obtain r d' w kf where
      "encode_vim_auth L c i d1 (s\<lparr>site_world := w1\<rparr>) = (Inr (r, d'), s\<lparr>site_world := w, key_files := kf\<rparr>)"
      and "stored L i d1 r d' (key_files s) kf" by auto
    then show ?thesis using eq stored_same [OF d1] by (metis (no_types))
  qed
qed

text \<open>Whether there is a driver for the type.\<close>

definition drv_ok :: "'w meo_env \<Rightarrow> pyval \<Rightarrow> bool" where
  "drv_ok E ty \<longleftrightarrow> (case ty of PStr n \<Rightarrow> List.member (me_vim_types E) n | _ \<Rightarrow> False)"

lemma drv_there: "drv_ok E ty \<Longrightarrow> drv E ty m = m"
  by (cases ty) (simp_all add: drv_def drv_ok_def)

lemma drv_absent:
  assumes "\<not> drv_ok E ty" obtains e where "drv E ty m s = (Inl e, s)"
  using assms by (cases ty) (auto simp: drv_def drv_ok_def)

lemma drv_register_stored:
  assumes "text_of ''id'' d = Inr i"
  shows "\<exists>r d' w kf. drv_register E c ty d s = (Inr (r, d'), s\<lparr>site_world := w, key_files := kf\<rparr>) \<and>
     stored (me_libs E) i d r d' (key_files s) kf \<and> (kf = key_files s \<and> r \<noteq> Inr () \<or> drv_ok E ty)"
proof (cases "drv_ok E ty")
  case True
  from register_stored [OF assms, of "me_libs E" c s] obtain r d' w kf where
    reg: "register_vim (me_libs E) c d s = (Inr (r, d'), s\<lparr>site_world := w, key_files := kf\<rparr>)"
    and st: "stored (me_libs E) i d r d' (key_files s) kf" by blast
  have "drv_register E c ty d s = (Inr (r, d'), s\<lparr>site_world := w, key_files := kf\<rparr>)"
    by (simp add: drv_register_def drv_there [OF True] catchE_def reg)
  with st True show ?thesis by blast
next
  case False
  then obtain e where e: "drv E ty (register_vim (me_libs E) c d) s = (Inl e, s)" by (rule drv_absent)
  have "drv_register E c ty d s = (Inr (Inl e, d), s\<lparr>site_world := site_world s, key_files := key_files s\<rparr>)"
    by (simp add: drv_register_def e catchE_def)
  moreover have "stored (me_libs E) i d (Inl e) d (key_files s) (key_files s)" by (rule stored_failed) simp
  ultimately show ?thesis
    by (intro exI [of _ "Inl e"] exI [of _ d] exI [of _ "site_world s"] exI [of _ "key_files s"]) simp
qed

section \<open>The rows of a VIM\<close>

definition vim_row_of :: "vim_req \<Rightarrow> string \<Rightarrow> datetime \<Rightarrow> vim_row" where
  "vim_row_of req ten now = \<lparr>vm_id = vr_id req, vm_type = vr_type req, vm_tenant_id = ten,
     vm_name = vr_name req, vm_description = vr_description req, vm_placement_attr = vr_placement_attr req,
     vm_shared = False, vm_is_default = vr_is_default req, vm_status = vr_status req,
     vm_created_at = now, vm_updated_at = None, vm_deleted_at = Some datetime_min\<rparr>"

definition auth_row_of :: "vim_req \<Rightarrow> string \<Rightarrow> string \<Rightarrow> pydict \<Rightarrow> vim_auth_row" where
  "auth_row_of req j pw cred = \<lparr>va_id = j, va_vim_id = vr_id req, va_password = pw,
     va_auth_url = vr_auth_url req, va_vim_project = vr_vim_project req, va_auth_cred = cred\<rparr>"

lemma insert_vim_Inr:
  "insert_vim r s = (Inr x, t) \<Longrightarrow> uuid_ok (vm_id r) \<and> vm_id r \<notin> vm_id ` set (t_vims s) \<and> t = s\<lparr>t_vims := t_vims s @ [r]\<rparr>"
  by (auto simp: insert_vim_def bind_uuids_def thenE_def bindE_def list_ex_iff split: if_splits)

lemma insert_vim_auth_Inr:
  "insert_vim_auth a s = (Inr x, t) \<Longrightarrow> t = s\<lparr>t_vim_auths := t_vim_auths s @ [a]\<rparr>"
  by (auto simp: insert_vim_auth_def bind_uuids_def thenE_def bindE_def split: if_splits)

lemma create_vim_tx_Inr:
  assumes "create_vim_tx E req s = (Inr r, t)"
  obtains ten j pw cred where "vr_tenant_id req = Some ten" "r = vim_row_of req ten (clock s)"
    "uuid_ok (vr_id req)" "vr_id req \<notin> vm_id ` set (t_vims s)"
    "pop_password (vr_auth_cred req) = Inr (pw, cred)"
    "t = s\<lparr>t_vims := t_vims s @ [r], uuid_count := Suc (uuid_count s),
       t_vim_auths := t_vim_auths s @ [auth_row_of req j pw cred]\<rparr>"
proof -
  from assms obtain ten where ten: "vr_tenant_id req = Some ten"
    by (auto simp: create_vim_tx_def bindE_app_Inr_iff not_null_def split: option.splits)
  let ?r = "vim_row_of req ten (clock s)"
  from assms obtain s1 s2 pw cred where i1: "insert_vim ?r s = (Inr (), s1)" and r: "r = ?r"
    and s2: "s2 = s1\<lparr>uuid_count := Suc (uuid_count s1)\<rparr>"
    and pop: "pop_password (vr_auth_cred req) = Inr (pw, cred)"
    and i2: "insert_vim_auth (auth_row_of req (gen_uuid E (uuid_count s1)) pw cred) s2 = (Inr (), t)"
    by (auto simp: create_vim_tx_def bindE_app_Inr_iff thenE_app_Inr_iff not_null_def ten utcnow_def Let_def
        generate_uuid_def vim_row_of_def auth_row_of_def)
  show ?thesis
    using that [of ten pw cred "gen_uuid E (uuid_count s1)"] ten r pop insert_vim_Inr [OF i1]
      insert_vim_auth_Inr [OF i2] s2
    by (simp add: vim_row_of_def)
qed

lemma pop_password_Inr: "pop_password d = Inr (pw, cred) \<Longrightarrow> map_of d ''password'' = Some (PStr pw) \<and> cred = dict_del ''password'' d"
  by (auto simp: pop_password_def split: option.splits pyval.splits)

text \<open>Whether or not \<open>create_vim\<close> raises, it does what its transaction did.\<close>

lemma create_vim_cases:
  assumes "create_vim E c req s = (x, t)"
  obtains e where "x = Inl e" "t_vims t = t_vims s" "t_vim_auths t = t_vim_auths s"
  | r ten j pw cred d where "x = Inr d" "vd_id d = vr_id req" "r = vim_row_of req ten (clock s)"
    "vr_tenant_id req = Some ten" "uuid_ok (vr_id req)" "vr_id req \<notin> vm_id ` set (t_vims s)"
    "pop_password (vr_auth_cred req) = Inr (pw, cred)" "t_vims t = t_vims s @ [r]" "t_vim_auths t = t_vim_auths s @ [auth_row_of req j pw cred]"
proof -
  let ?v = "validate_default_vim c (vr_is_default req) None"
  let ?m = "as_duplicate ''vim'' (tx (create_vim_tx E req))"
  let ?k = "\<lambda>r. bindE (readE (\<lambda>s. make_vim_dict E True s r)) (\<lambda>d.
        thenE (create_event (vd_id d) RES_TYPE_VIM (vd_status d) RES_EVT_CREATE (vd_created_at d) []) (ret d))"
  have v: "snd (?v s) = s" by (simp add: validate_default_vim_def)
  show ?thesis
  proof (cases "?v s")
    case (Pair y s0)
    with v have s0: "s0 = s" by simp
    show ?thesis
    proof (cases y)
      case (Inl e)
      with Pair s0 assms show ?thesis by (intro that(1) [of e]) (auto simp: create_vim_def thenE_def bindE_def)
    next
      case (Inr u)
      have run: "bindE ?m ?k s = (x, t)" using assms Inr Pair s0 by (simp add: create_vim_def thenE_def bindE_def)
      show ?thesis
      proof (cases "create_vim_tx E req s")
        case tx: (Pair z s1)
        show ?thesis
        proof (cases z)
          case (Inl e)
          with tx have "tx (create_vim_tx E req) s = (Inl e, rollback s s1)"
            by (simp add: tx_def atomically_def)
          then obtain e' where "?m s = (Inl e', rollback s s1)"
            by (cases "exn_class e = Lib DBDuplicateEntry") (simp_all add: as_duplicate_def catchE_def)
          with run have "x = Inl e'" "t = rollback s s1" by (simp_all add: bindE_def)
          then show ?thesis by (intro that(1) [of e']) (simp_all add: rollback_def)
        next
          case r: (Inr r)
          with tx have txr: "create_vim_tx E req s = (Inr r, s1)" by simp
          then have m: "?m s = (Inr r, s1)" by (simp add: as_duplicate_def catchE_def tx_def atomically_def)
          from txr obtain ten j pw cred where row: "vr_tenant_id req = Some ten" "r = vim_row_of req ten (clock s)"
            "uuid_ok (vr_id req)" "vr_id req \<notin> vm_id ` set (t_vims s)" "pop_password (vr_auth_cred req) = Inr (pw, cred)"
            and s1: "s1 = s\<lparr>t_vims := t_vims s @ [r], uuid_count := Suc (uuid_count s),
               t_vim_auths := t_vim_auths s @ [auth_row_of req j pw cred]\<rparr>"
            by (rule create_vim_tx_Inr)
          have "\<exists>a as. filter (\<lambda>a. va_vim_id a = vm_id r) (t_vim_auths s1) = a # as"
            by (cases "filter (\<lambda>a. va_vim_id a = vm_id r) (t_vim_auths s)")
              (simp_all add: s1 row(2) vim_row_of_def auth_row_of_def)
          then obtain d where d: "make_vim_dict E True s1 r = Inr d" and id: "vd_id d = vr_id req"
            by (auto simp: make_vim_dict_def row(2) vim_row_of_def Let_def)
          have fin: "?k r s1 = (x, t)" using run m by (simp add: bindE_def)
          show ?thesis
          proof (rule that(2) [OF _ id row(2,1,3,4,5)])
            show "x = Inr d" using fin d id row(3) by (simp add: bindE_def thenE_def create_event_ok)
            show "t_vims t = t_vims s @ [r]" "t_vim_auths t = t_vim_auths s @ [auth_row_of req j pw cred]"
              using fin d id row(3) by (auto simp: bindE_def thenE_def create_event_ok s1)
          qed
        qed
      qed
    qed
  qed
qed

section \<open>Registration that fails\<close>

lemma drop_auth_effect:
  "\<exists>r w kf. drop_auth E c ty d s = (r, s\<lparr>site_world := w, key_files := kf\<rparr>) \<and>
     (kf = key_files s \<or> (\<exists>i. text_of ''id'' d = Inr i \<and> kf = dict_del i (key_files s))) \<and>
     (file_key d \<and> drv_ok E ty \<longrightarrow> (\<forall>i. text_of ''id'' d = Inr i \<longrightarrow> r = Inr () \<and> kf = dict_del i (key_files s)))"
proof -
  have stays: ?thesis if "drop_auth E c ty d s = (r, s)" "\<not> (file_key d \<and> drv_ok E ty) \<or> isl (text_of ''id'' d)" for r
    using that by (intro exI [of _ r] exI [of _ "site_world s"] exI [of _ "key_files s"]) auto
  show ?thesis
  proof (cases "text_of ''id'' d")
    case (Inl e)
    then show ?thesis by (intro stays [of "Inl e"]) (simp_all add: drop_auth_def bindE_def)
  next
    case i: (Inr i)
    show ?thesis
    proof (cases "sub_dict ''auth_cred'' d")
      case (Inl e)
      then show ?thesis using i by (intro stays [of "Inl e"]) (simp_all add: drop_auth_def bindE_def file_key_def)
    next
      case a: (Inr a)
      have eq: "drop_auth E c ty d = drv E ty (delete_vim_auth (me_libs E) c i a)"
        by (simp add: drop_auth_def i a bindE_def fun_eq_iff)
      show ?thesis
      proof (cases "drv_ok E ty")
        case False
        then obtain e where "drop_auth E c ty d s = (Inl e, s)" unfolding eq by (rule drv_absent)
        with False show ?thesis by (intro stays [of "Inl e"]) simp_all
      next
        case True
        note there = drv_there [OF True]
        show ?thesis
        proof (cases "dict_get ''key_type'' PNone a = PStr ''barbican_key''")
          case True
          then have "obeys same_site (delete_vim_auth (me_libs E) c i a)"
            unfolding delete_vim_auth_def by (simp, intro outside_intros)
          then obtain w where "snd (delete_vim_auth (me_libs E) c i a s) = s\<lparr>site_world := w\<rparr>"
            by (auto simp: obeys_def same_site_def)
          moreover have "\<not> file_key d" using a True by (simp add: file_key_def)
          ultimately show ?thesis
            by (intro exI [of _ "fst (delete_vim_auth (me_libs E) c i a s)"] exI [of _ w] exI [of _ "key_files s"])
              (simp add: eq there prod_eq_iff)
        next
          case False
          then show ?thesis using i
            by (intro exI [of _ "Inr ()"] exI [of _ "site_world s"] exI [of _ "dict_del i (key_files s)"])
              (simp add: eq there delete_vim_auth_def)
        qed
      qed
    qed
  qed
qed

lemma dict_del_absent: "i \<notin> fst ` set d \<Longrightarrow> dict_del i d = d"
  by (induction d) (auto simp: dict_del_def)

lemma dict_del_set: "i \<notin> fst ` set d \<Longrightarrow> dict_del i (dict_set i x d) = d"
  by (induction d) (auto simp: dict_del_def)

text \<open>Storing the VIM in the tables, as both requests do it.\<close>

lemma create_row_failed:
  assumes "bindE (pureE (vim_req_of d)) (create_vim E c) s = (Inl e, t)"
  shows "t_vims t = t_vims s \<and> t_vim_auths t = t_vim_auths s \<and> key_files t = key_files s"
proof (cases "vim_req_of d")
  case (Inl e)
  with assms show ?thesis by (simp add: bindE_def)
next
  case (Inr req)
  with assms have run: "create_vim E c req s = (Inl e, t)" by (simp add: bindE_def)
  have "key_files t = key_files s" using obeysD [OF files_create_vim, of s E c req] run by (simp add: same_files_def)
  with run show ?thesis by (auto elim: create_vim_cases)
qed

text \<open>C10: A VIM whose registration fails, be it by the driver or by the database, leaves nothing
  behind: the tables of VIMs and of their credentials and the key files are as they were
  before the request.\<close>

theorem failed_create_vim_leaves_nothing:
  fixes s :: "('w, 'x) site_scheme"
  assumes run: "plugin_create_vim E c vim s = (Inl e, t)"
    and fresh: "gen_uuid (me_oslo E) (uuid_count s) \<notin> fst ` set (key_files s)"
  shows "t_vims t = t_vims s \<and> t_vim_auths t = t_vim_auths s \<and> key_files t = key_files s"
proof (cases "subscr ''type'' (PDict vim)")
  case (Inl e')
  with run show ?thesis by (simp add: plugin_create_vim_def bindE_def del: subscr_PDict)
next
  case ty: (Inr ty)
  let ?i = "gen_uuid (me_oslo E) (uuid_count s)"
  let ?s1 = "s\<lparr>uuid_count := Suc (uuid_count s)\<rparr>"
  define vim0 where "vim0 = dict_set ''status'' (PStr ''PENDING'') (dict_set ''id'' (PStr ?i) vim)"
  have i0: "text_of ''id'' vim0 = Inr ?i" by (simp add: text_of_def vim0_def str_of_def)
  obtain r vim1 w kf where reg: "drv_register E c ty vim0 ?s1 = (Inr (r, vim1), ?s1\<lparr>site_world := w, key_files := kf\<rparr>)"
    and st: "stored (me_libs E) ?i vim0 r vim1 (key_files s) kf" and there: "kf = key_files s \<or> drv_ok E ty"
    using drv_register_stored [OF i0, of E c ty ?s1] by auto
  let ?s2 = "?s1\<lparr>site_world := w, key_files := kf\<rparr>"
  have i1: "text_of ''id'' vim1 = Inr ?i" using st i0 by (simp add: text_of_def stored_def)
  let ?body = "thenE (pureE r) (bindE (pureE (vim_req_of vim1)) (create_vim (me_oslo E) c))"
  let ?h = "\<lambda>e. reraise_after e (drop_auth E c ty vim1) :: ('w, 'x, vim_dict) sprog"
  have step: "plugin_create_vim E c vim s = bindE (catchE ?body ?h) (\<lambda>res.
     thenE (ignoring (plugin_monitor_vim E c vim1)) (ret res)) ?s2"
    using ty reg by (simp add: plugin_create_vim_def bindE_def generate_uuid_def vim0_def Let_def del: subscr_PDict)
  have quiet: "fst (ignoring m u) = Inr ()" for m :: "('w, 'x, unit) sprog" and u
    by (auto simp: ignoring_def catchE_def split: prod.splits sum.splits)
  have "fst (catchE ?body ?h ?s2) = Inl e \<and> t = snd (catchE ?body ?h ?s2)"
  proof (cases "catchE ?body ?h ?s2")
    case (Pair x u)
    then show ?thesis using run step quiet [of "plugin_monitor_vim E c vim1" u]
      by (cases x; cases "ignoring (plugin_monitor_vim E c vim1) u") (auto simp: bindE_def thenE_def)
  qed
  then have catch: "catchE ?body ?h ?s2 = (Inl e, t)" by (simp add: prod_eq_iff)
  obtain e1 s3 where body: "?body ?s2 = (Inl e1, s3)" and h: "?h e1 s3 = (Inl e, t)"
    using catch by (auto simp: catchE_def split: prod.splits sum.splits)
  have s3: "t_vims s3 = t_vims s \<and> t_vim_auths s3 = t_vim_auths s \<and> key_files s3 = kf"
  proof (cases r)
    case (Inl e2)
    with body show ?thesis by (auto simp: thenE_def bindE_def)
  next
    case (Inr u)
    with body have "bindE (pureE (vim_req_of vim1)) (create_vim (me_oslo E) c) ?s2 = (Inl e1, s3)"
      by (simp add: thenE_def bindE_def)
    from create_row_failed [OF this] show ?thesis by simp
  qed
  obtain r' w' kf' where drop: "drop_auth E c ty vim1 s3 = (r', s3\<lparr>site_world := w', key_files := kf'\<rparr>)"
    and kf': "kf' = key_files s3 \<or> kf' = dict_del ?i (key_files s3)"
    and del: "file_key vim1 \<and> drv_ok E ty \<longrightarrow> kf' = dict_del ?i (key_files s3)"
    using drop_auth_effect [of E c ty vim1 s3] i1 by auto
  have t: "t = s3\<lparr>site_world := w', key_files := kf'\<rparr>"
    using h drop by (cases r') (auto simp: reraise_after_def thenE_def bindE_def)
  have "kf' = key_files s"
  proof (cases "kf = key_files s")
    case True
    then show ?thesis using kf' s3 fresh by (auto simp: dict_del_absent)
  next
    case False
    with st there obtain x where "kf = dict_set ?i x (key_files s)" "file_key vim1" "drv_ok E ty"
      by (auto simp: stored_def)
    then show ?thesis using del s3 fresh by (simp add: dict_del_set)
  qed
  with s3 t show ?thesis by simp
qed

lemma failed_create_vim_leaves_nothing_witness:
  "isl (fst (plugin_create_vim sample_meo_env owner (vim_request ''C'' True) two_vims)) \<and>
   key_files (snd (plugin_create_vim sample_meo_env owner (vim_request ''C'' True) two_vims)) = key_files two_vims"
proof -
  let ?m = "plugin_create_vim sample_meo_env owner (vim_request ''C'' True) two_vims"
  have bad: "isl (fst ?m)" by code_simp
  then have run: "?m = (Inl (projl (fst ?m)), snd ?m)" by (simp add: prod_eq_iff)
  have "gen_uuid (me_oslo sample_meo_env) (uuid_count two_vims) \<notin> fst ` set (key_files two_vims)" by code_simp
  from failed_create_vim_leaves_nothing [OF run this] bad show ?thesis by blast
qed

section \<open>Registration that succeeds\<close>

lemma plugin_create_vim_Inr:
  assumes "plugin_create_vim E c vim s = (Inr d, t)"
  obtains ty r vim1 s2 s3 req w where "subscr ''type'' (PDict vim) = Inr ty"
    "drv_register E c ty (dict_set ''status'' (PStr ''PENDING'') (dict_set ''id'' (PStr (gen_uuid (me_oslo E) (uuid_count s))) vim))
       (s\<lparr>uuid_count := Suc (uuid_count s)\<rparr>) = (Inr (Inr (), vim1), s2)"
    "vim_req_of vim1 = Inr req" "create_vim (me_oslo E) c req s2 = (Inr d, s3)" "t = s3\<lparr>site_world := w\<rparr>"
proof -
  from assms obtain ty r vim1 s2 u where ty: "subscr ''type'' (PDict vim) = Inr ty"
    and reg: "drv_register E c ty (dict_set ''status'' (PStr ''PENDING'') (dict_set ''id'' (PStr (gen_uuid (me_oslo E) (uuid_count s))) vim))
       (s\<lparr>uuid_count := Suc (uuid_count s)\<rparr>) = (Inr (r, vim1), s2)"
    and body: "catchE (thenE (pureE r) (bindE (pureE (vim_req_of vim1)) (create_vim (me_oslo E) c)))
       (\<lambda>e. reraise_after e (drop_auth E c ty vim1)) s2 = (Inr d, u)"
    and mon: "ignoring (plugin_monitor_vim E c vim1) u = (Inr (), t)"
    by (auto simp: plugin_create_vim_def bindE_app_Inr_iff thenE_app_Inr_iff generate_uuid_def Let_def
        simp del: subscr_PDict)
  have never: "fst (reraise_after e h x) \<noteq> Inr y" for e and h :: "('w, 'x, unit) sprog" and x and y :: vim_dict
    by (auto simp: reraise_after_def thenE_def bindE_def split: prod.splits sum.splits)
  have "thenE (pureE r) (bindE (pureE (vim_req_of vim1)) (create_vim (me_oslo E) c)) s2 = (Inr d, u)"
    using body never by (auto simp: catchE_def prod_eq_iff split: prod.splits sum.splits)
  then obtain req where "r = Inr ()" "vim_req_of vim1 = Inr req" "create_vim (me_oslo E) c req s2 = (Inr d, u)"
    by (auto simp: bindE_app_Inr_iff thenE_app_Inr_iff)
  moreover have "obeys same_site (ignoring (plugin_monitor_vim E c vim1))"
    unfolding plugin_monitor_vim_def monitor_vim_def prepare_monitor_workflow_def Let_def
    by (intro outside_intros)
  then obtain w where "t = u\<lparr>site_world := w\<rparr>"
    using mon by (auto simp: obeys_def same_site_def dest: spec [of _ u])
  ultimately show ?thesis using that ty reg by blast
qed

lemma get_vim_row:
  assumes "distinct (map vm_id (t_vims s))" and "r \<in> set (t_vims s)" and "visible c Vim r" and "uuid_ok (vm_id r)"
    and "filter (\<lambda>a. va_vim_id a = vm_id r) (t_vim_auths s) = a # as"
  shows "\<exists>v. get_vim E c (vm_id r) False s = (Inr v, s) \<and> vd_id v = vm_id r \<and>
    vd_auth_cred v = dict_set ''password'' (PStr (va_password a)) (va_auth_cred a)"
proof -
  have "get_by_id c Vim vm_id (t_vims s) (vm_id r) = Inr r" using get_by_id_visible [OF assms(1-4)] .
  then show ?thesis
    using assms(5) by (simp add: get_vim_def get_vim_resource_def when_absent_def make_vim_dict_def)
qed

lemma uuid_not_empty: "uuid_ok i \<Longrightarrow> i \<noteq> []"
proof -
  have "\<not> uuid_ok []" by code_simp
  then show "uuid_ok i \<Longrightarrow> i \<noteq> []" by blast
qed

text \<open>Looking up a VIM whose key is in a file.\<close>

lemma look_up_file_key:
  assumes get: "get_vim (me_oslo E) c i False s = (Inr v, s)" and i: "i \<noteq> []" "vd_id v = i"
    and pw: "map_of (vd_auth_cred v) ''password'' = Some (PStr enc)"
    and kt: "dict_get ''key_type'' PNone (vd_auth_cred v) \<noteq> PStr ''barbican_key''"
  shows "map_of (key_files s) i = Some key \<Longrightarrow> decrypt (me_keys E) key enc = Inr p \<Longrightarrow>
      \<exists>res. look_up_vim E c i s = (Inr res, s) \<and> vres_id res = i \<and> map_of (vres_auth res) ''password'' = Some (PStr p)"
    and "map_of (key_files s) i = None \<Longrightarrow> look_up_vim E c i s = (Inl (Exc (Lib IOError) []), s)"
proof -
  obtain a as where ai: "i = a # as" using i(1) by (cases i) auto
  have info: "get_vim_info (me_oslo E) c (Some i) s = (Inr v, s)"
    using get by (simp add: get_vim_info_def ai catchE_def)
  have eq: "look_up_vim E c i s = bindE (pureE (build_vim_auth (site_keys (me_keys E) s) c v)) (\<lambda>auth.
       ret \<lparr>vres_auth = auth, vres_id = vd_id v, vres_name = vd_name v, vres_type = vd_type v\<rparr>) s"
    by (simp add: look_up_vim_def client_get_vim_def bindE_def info check_region_def)
  have dec: "decode_vim_auth (site_keys (me_keys E) s) c (vd_id v) (vd_auth_cred v) =
      bindS (case map_of (key_files s) i of None \<Rightarrow> Inl (Exc (Lib IOError) []) | Some k \<Rightarrow> Inr k)
        (\<lambda>key. decrypt (me_keys E) key enc)"
    using pw kt by (simp add: decode_vim_auth_def find_vim_key_def site_keys_def i(2))
  show "\<exists>res. look_up_vim E c i s = (Inr res, s) \<and> vres_id res = i \<and> map_of (vres_auth res) ''password'' = Some (PStr p)"
    if "map_of (key_files s) i = Some key" "decrypt (me_keys E) key enc = Inr p"
    using that unfolding eq build_vim_auth_def dec by (simp add: bindE_def i(2))
  show "look_up_vim E c i s = (Inl (Exc (Lib IOError) []), s)" if "map_of (key_files s) i = None"
    using that unfolding eq build_vim_auth_def dec by (simp add: bindE_def)
qed

text \<open>C6: A VIM that was registered can be used: whoever may see it gets the password back that was
  sent at the registration, decrypted with the key in the file of the VIM.\<close>

theorem registered_vim_usable:
  fixes s :: "('w, 'x) site_scheme"
  assumes run: "plugin_create_vim E c vim s = (Inr d, t)" and wf: "db_wf s"
    and in_file: "\<not> vl_use_barbican (me_libs E)"
    and law: "\<And>k x. decrypt (me_keys E) k (vl_encrypt (me_libs E) k x) = Inr x"
    and pw: "password_of vim = Inr p" and ten: "map_of vim ''tenant_id'' = Some (PStr ten)"
    and own: "is_admin c' \<or> tenant_id c' = Some ten"
  shows "\<exists>res. look_up_vim E c' (vd_id d) t = (Inr res, t) \<and> vres_id res = vd_id d \<and>
    map_of (vres_auth res) ''password'' = Some (PStr p)"
proof -
  let ?i = "gen_uuid (me_oslo E) (uuid_count s)"
  let ?s1 = "s\<lparr>uuid_count := Suc (uuid_count s)\<rparr>"
  define vim0 where "vim0 = dict_set ''status'' (PStr ''PENDING'') (dict_set ''id'' (PStr ?i) vim)"
  have i0: "text_of ''id'' vim0 = Inr ?i" by (simp add: text_of_def vim0_def str_of_def)
  have pw0: "password_of vim0 = Inr p" using pw by (simp add: password_of_def sub_dict_def vim0_def)
  have ten0: "map_of vim0 ''tenant_id'' = Some (PStr ten)" using ten by (simp add: vim0_def)
  obtain ty vim1 s2 s3 req w where reg: "drv_register E c ty vim0 ?s1 = (Inr (Inr (), vim1), s2)"
    and req: "vim_req_of vim1 = Inr req" and create: "create_vim (me_oslo E) c req s2 = (Inr d, s3)"
    and t: "t = s3\<lparr>site_world := w\<rparr>"
    using run unfolding vim0_def by (rule plugin_create_vim_Inr)
  obtain w2 kf where s2: "s2 = ?s1\<lparr>site_world := w2, key_files := kf\<rparr>"
    and st: "stored (me_libs E) ?i vim0 (Inr ()) vim1 (key_files s) kf"
    using drv_register_stored [OF i0, of E c ty ?s1] reg by auto
  from st in_file pw0 obtain key where kf: "kf = dict_set ?i key (key_files s)" and fk: "file_key vim1"
    and pw1: "password_of vim1 = Inr (vl_encrypt (me_libs E) key p)"
    by (auto simp: stored_def)
  let ?enc = "vl_encrypt (me_libs E) key p"
  from fk obtain a where a: "sub_dict ''auth_cred'' vim1 = Inr a" and kt: "dict_get ''key_type'' PNone a = PStr ''fernet_key''"
    by (auto simp: file_key_def)
  have "map_of vim1 ''id'' = Some (PStr ?i)" "map_of vim1 ''tenant_id'' = Some (PStr ten)"
    using st ten0 by (simp_all add: stored_def vim0_def)
  with req a have r: "vr_auth_cred req = a" "vr_id req = ?i" "vr_tenant_id req = Some ten"
    by (auto simp: vim_req_of_def bindS_Inr_iff column_str_def column_text_def dict_get_def)
  have pa: "map_of a ''password'' = Some (PStr ?enc)"
    using pw1 a by (auto simp: password_of_def text_of_def bindS_Inr_iff str_of_def split: option.splits pyval.splits)
  from create show ?thesis
  proof (cases rule: create_vim_cases)
    case (2 row ten' j pw' cred d')
    have d: "vd_id d = ?i" and row: "row = vim_row_of req ten (clock s2)" using 2 r by auto
    have cred: "pw' = ?enc" "cred = dict_del ''password'' a"
      using pop_password_Inr [OF 2(7)] pa r(1) by auto
    have new: "?i \<notin> vm_id ` set (t_vims s)" using 2(6) r(2) by (simp add: s2)
    have dist: "distinct (map vm_id (t_vims t))"
      using wf new r(2) by (simp add: t 2(8) s2 row vim_row_of_def wf_defs)
    have noauth: "filter (\<lambda>b. va_vim_id b = ?i) (t_vim_auths s) = []"
    proof -
      have "va_vim_id ` set (t_vim_auths s) \<subseteq> vm_id ` set (t_vims s)" using wf by (simp add: wf_defs)
      with new show ?thesis unfolding filter_empty_conv by (metis imageI subsetD)
    qed
    have auths: "filter (\<lambda>b. va_vim_id b = vm_id row) (t_vim_auths t) = [auth_row_of req j pw' cred]"
      using noauth r(2) by (simp add: t 2(9) s2 row vim_row_of_def auth_row_of_def)
    have mem: "row \<in> set (t_vims t)" by (simp add: t 2(8))
    have vis: "visible c' Vim row"
      using own by (auto simp: visible_def in_scope_def not_deleted_def Vim_def row vim_row_of_def)
    have ok: "uuid_ok (vm_id row)" "vm_id row = ?i" using 2(5) r(2) by (simp_all add: row vim_row_of_def)
    obtain v where get: "get_vim (me_oslo E) c' ?i False t = (Inr v, t)" and v: "vd_id v = ?i"
      "vd_auth_cred v = dict_set ''password'' (PStr ?enc) (dict_del ''password'' a)"
      using get_vim_row [OF dist mem vis ok(1) auths] ok(2) cred by (auto simp: auth_row_of_def)
    have files: "key_files t = kf"
      using obeysD [OF files_create_vim, of s2 "me_oslo E" c req] create by (simp add: same_files_def t s2)
    show ?thesis unfolding d
    proof (rule look_up_file_key(1) [OF get _ v(1)])
      show "?i \<noteq> []" using ok uuid_not_empty by metis
      show "map_of (vd_auth_cred v) ''password'' = Some (PStr ?enc)" by (simp add: v)
      show "dict_get ''key_type'' PNone (vd_auth_cred v) \<noteq> PStr ''barbican_key''"
        using kt by (simp add: v dict_get_def)
      show "map_of (key_files t) ?i = Some key" by (simp add: files kf)
      show "decrypt (me_keys E) key ?enc = Inr p" by (rule law)
    qed
  qed simp
qed

lemma registered_vim_usable_witness:
  "\<exists>res. look_up_vim sample_meo_env owner (sample_uuid 0) one_vim = (Inr res, one_vim) \<and>
     vres_id res = sample_uuid 0 \<and> map_of (vres_auth res) ''password'' = Some (PStr ''secret'')"
proof -
  let ?m = "plugin_create_vim sample_meo_env owner (vim_request ''A'' True) (meo_site (empty_db 7) [])"
  have "isl (fst ?m) = False" by code_simp
  then have run: "?m = (Inr (projr (fst ?m)), one_vim)" by (simp add: prod_eq_iff one_vim_def)
  have wf: "db_wf (meo_site (empty_db 7) [])" by (simp add: wf_defs meo_site_def empty_db_def db.defs site.defs meo_plug.defs)
  have id: "vd_id (projr (fst ?m)) = sample_uuid 0" by code_simp
  have f: "\<not> vl_use_barbican (me_libs sample_meo_env)" by code_simp
  have law: "decrypt (me_keys sample_meo_env) k (vl_encrypt (me_libs sample_meo_env) k x) = Inr x" for k x
    by (simp add: sample_meo_env_def sample_libs_def)
  have pw: "password_of (vim_request ''A'' True) = Inr ''secret''" by code_simp
  have ten: "map_of (vim_request ''A'' True) ''tenant_id'' = Some (PStr ''t1'')" by code_simp
  have own: "is_admin owner \<or> tenant_id owner = Some ''t1''" by code_simp
  show ?thesis using registered_vim_usable [OF run wf f law pw ten own] unfolding id .
qed

section \<open>Updates that fail\<close>

lemma deep_update_other: "map_of args k = None \<Longrightarrow> map_of (deep_update d args) k = map_of d k"
  by (induction d args rule: deep_update.induct) (auto split: if_splits option.splits pyval.splits)

lemma get_vim_id:
  assumes "get_vim E c i m s = (Inr v, t)"
  shows "vd_id v = i" and "t = s"
proof -
  have run: "(case get_vim_resource c i s of Inl e \<Rightarrow> Inl e | Inr r \<Rightarrow> make_vim_dict E m s r) = Inr v \<and> s = t"
    using assms unfolding get_vim_def readE_app prod.inject .
  from run [THEN conjunct1] obtain r where res: "get_vim_resource c i s = Inr r" and v: "make_vim_dict E m s r = Inr v"
    by (cases "get_vim_resource c i s") simp_all
  have "vm_id r = i"
    using res by (auto simp: get_vim_resource_def when_absent_def dest: get_by_id_Inr split: sum.splits if_splits)
  moreover have "vd_id v = vm_id r" using v by (auto simp: make_vim_dict_def Let_def split: list.splits)
  ultimately show "vd_id v = i" "t = s" using run by simp_all
qed

lemma unused_vim_Inr:
  assumes "unused_vim E c i s = (Inr d, t)"
  shows "t = s \<and> map_of d ''id'' = Some (PStr i)"
proof -
  have "snd (is_vim_still_in_use c i s) = s"
    by (auto simp: is_vim_still_in_use_def tx_def atomically_def thenE_def bindE_def bind_uuids_def split: prod.splits sum.splits)
  with assms obtain v where "get_vim (me_oslo E) c i False s = (Inr v, t)" and d: "d = vim_json v"
    by (cases "is_vim_still_in_use c i s") (auto simp: unused_vim_def thenE_app_Inr_iff bindE_app_Inr_iff)
  from get_vim_id [OF this(1)] d show ?thesis by (simp add: vim_json_def)
qed

text \<open>The credentials of the VIM \<open>i\<close> say that their key is in a file.\<close>

definition key_in_file :: "string \<Rightarrow> 'x db_scheme \<Rightarrow> bool" where
  "key_in_file i s \<longleftrightarrow> (\<forall>a \<in> set (t_vim_auths s). va_vim_id a = i \<longrightarrow>
     dict_get ''key_type'' PNone (va_auth_cred a) \<noteq> PStr ''barbican_key'')"

interpretation in_file: effect_invariant "key_in_file i" rollback for i
  by unfold_locales (simp add: key_in_file_def rollback_def)

lemma in_file_tables: "t_vim_auths t = t_vim_auths s \<Longrightarrow> key_in_file i s \<longrightarrow> key_in_file i t"
  by (simp add: key_in_file_def)

lemma in_file_prims:
  "obeys (\<lambda>s t. key_in_file i s \<longrightarrow> key_in_file i t) (create_event j ty st e ts d)"
  "obeys (\<lambda>s t. key_in_file i s \<longrightarrow> key_in_file i t) utcnow"
  "obeys (\<lambda>s t. key_in_file i s \<longrightarrow> key_in_file i t) (store_vims P f)"
proof -
  have "t_vim_auths (snd (create_event j ty st e ts d s)) = t_vim_auths s" for s :: "'x db_scheme"
    using create_event_state [of j ty st e ts d s] by auto
  then show "obeys (\<lambda>s t. key_in_file i s \<longrightarrow> key_in_file i t) (create_event j ty st e ts d)"
    by (intro obeysI in_file_tables)
qed (intro obeysI in_file_tables; simp add: utcnow_def store_vims_def Let_def)+

lemma in_file_bind_pure:
  assumes "\<And>x. r = Inr x \<Longrightarrow> obeys (\<lambda>s t. key_in_file i s \<longrightarrow> key_in_file i t) (k x)"
  shows "obeys (\<lambda>s t. key_in_file i s \<longrightarrow> key_in_file i t) (bindE (pureE r) k)"
  using assms by (cases r) (auto simp: obeys_def bindE_def)

lemma in_file_update_auths:
  assumes "\<And>a. dict_get ''key_type'' PNone (va_auth_cred (f a)) \<noteq> PStr ''barbican_key''"
  shows "obeys (\<lambda>s t. key_in_file i s \<longrightarrow> key_in_file i t) (update_vim_auths P f)"
  unfolding update_vim_auths_def
  by (rule in_file.r_modify) (use assms in \<open>auto simp: key_in_file_def update_where_def\<close>)

lemma in_file_update_vim:
  assumes "dict_get ''key_type'' PNone (vu_auth_cred u) \<noteq> PStr ''barbican_key''"
  shows "obeys (\<lambda>s t. key_in_file i s \<longrightarrow> key_in_file i t) (update_vim E c j u)"
proof -
  have cred: "dict_get ''key_type'' PNone cred \<noteq> PStr ''barbican_key''"
    if "pop_password (vu_auth_cred u) = Inr (pw, cred)" for pw cred
    using pop_password_Inr [OF that] assms by (simp add: dict_get_def)
  show ?thesis
    unfolding update_vim_def validate_default_vim_def get_vim_def tx_def
    by (intro in_file.r_intros in_file.r_atomically in_file_prims in_file_bind_pure)
      (auto intro!: in_file.r_intros in_file_prims in_file_update_auths dest: cred)
qed

text \<open>A VIM whose key was in a file that is gone cannot be looked up.\<close>

lemma look_up_without_key:
  assumes "key_in_file i s" and "map_of (key_files s) i = None" and "i \<noteq> []"
  shows "\<exists>e. fst (look_up_vim E c i s) = Inl e"
proof (cases "get_vim (me_oslo E) c i False s")
  case (Pair x t)
  obtain a as where ai: "i = a # as" using assms(3) by (cases i) auto
  show ?thesis
  proof (cases x)
    case (Inl e)
    then show ?thesis using Pair
      by (auto simp: look_up_vim_def client_get_vim_def bindE_def get_vim_info_def ai catchE_def)
  next
    case (Inr v)
    with Pair have get: "get_vim (me_oslo E) c i False s = (Inr v, s)" and v: "vd_id v = i"
      using get_vim_id by fastforce+
    obtain r where res: "get_vim_resource c i s = Inr r" and mk: "make_vim_dict (me_oslo E) False s r = Inr v"
      using get by (auto simp: get_vim_def split: sum.splits)
    have r: "vm_id r = i"
      using res by (auto simp: get_vim_resource_def when_absent_def dest: get_by_id_Inr split: sum.splits if_splits)
    obtain b bs where b: "filter (\<lambda>a. va_vim_id a = vm_id r) (t_vim_auths s) = b # bs"
      and cred: "vd_auth_cred v = dict_set ''password'' (PStr (va_password b)) (va_auth_cred b)"
      using mk by (auto simp: make_vim_dict_def Let_def split: list.splits)
    have "b \<in> set (filter (\<lambda>a. va_vim_id a = vm_id r) (t_vim_auths s))" unfolding b by simp
    then have "dict_get ''key_type'' PNone (vd_auth_cred v) \<noteq> PStr ''barbican_key''"
      using assms(1) r by (auto simp: key_in_file_def cred dict_get_def)
    then have "look_up_vim E c i s = (Inl (Exc (Lib IOError) []), s)"
      by (intro look_up_file_key(2) [OF get assms(3) v, of "va_password b"]) (simp_all add: cred assms(2))
    then show ?thesis by simp
  qed
qed

text \<open>C15: A VIM whose key is in a file is lost when an update with a new password fails in the database,
  say because another VIM is the default one already. The driver has by then put the new key
  in place of the old one, and the handler deletes it to keep the old credentials in use. The
  request fails, but from then on nobody can look up the VIM: its key is gone.\<close>

theorem failed_password_update_strands_vim:
  assumes old: "unused_vim E c i s = (Inr old, s1)" and in_file: "\<not> vl_use_barbican (me_libs E)" "key_in_file i s"
    and i: "i \<noteq> []" "map_of args ''id'' = None" and pw: "new_password args = Inr (Some pw)"
    and ty: "subscr ''type'' (PDict (deep_update old args)) = Inr ty"
    and reg: "reregister E c ty (Some pw) (deep_update old args) s1 = (Inr vim1, s2)"
    and db: "bindE (pureE (vim_update_of vim1)) (update_vim (me_oslo E) c i) s2 = (Inl e, s3)"
  shows "\<exists>t. plugin_update_vim E c i args s = (Inl e, t) \<and> map_of (key_files t) i = None \<and>
    (\<exists>e'. fst (look_up_vim E c' i t) = Inl e')"
proof -
  note un = unused_vim_Inr [OF old]
  obtain vim0 where vim0: "set_cred (\<lambda>a. Inr (dict_set ''password'' pw a)) (deep_update old args) = Inr vim0"
    and dr: "drv_register E c ty vim0 s1 = (Inr (Inr (), vim1), s2)"
    using reg by (auto simp: reregister_def bindE_app_Inr_iff thenE_app_Inr_iff)
  have id0: "text_of ''id'' vim0 = Inr i"
    using vim0 un i(2) by (auto elim!: set_cred_Inr simp: text_of_def deep_update_other str_of_def)
  obtain w kf where s2: "s2 = s1\<lparr>site_world := w, key_files := kf\<rparr>" and ok: "drv_ok E ty"
    and st: "stored (me_libs E) i vim0 (Inr ()) vim1 (key_files s1) kf"
    using drv_register_stored [OF id0, of E c ty s1] dr by auto
  have fk: "file_key vim1" using st in_file(1) by (auto simp: stored_def)
  have id1: "text_of ''id'' vim1 = Inr i" using st id0 by (simp add: stored_def text_of_def)
  have kept: "key_in_file i s3"
  proof (cases "vim_update_of vim1")
    case (Inl x)
    then have "t_vim_auths s3 = t_vim_auths s2" using db by (auto simp: bindE_def)
    then show ?thesis using in_file(2) un by (simp add: key_in_file_def s2)
  next
    case (Inr u)
    then have run: "update_vim (me_oslo E) c i u s2 = (Inl e, s3)" using db by (simp add: bindE_def)
    have "sub_dict ''auth_cred'' vim1 = Inr (vu_auth_cred u)" using Inr by (auto simp: vim_update_of_def bindS_Inr_iff)
    with fk have kt: "dict_get ''key_type'' PNone (vu_auth_cred u) \<noteq> PStr ''barbican_key''" by (auto simp: file_key_def)
    have "key_in_file i s2" using in_file(2) un by (simp add: key_in_file_def s2)
    with obeysD [OF in_file_update_vim [OF kt], of i s2 "me_oslo E" c i] run show ?thesis by simp
  qed
  obtain w' where drop: "drop_auth E c ty vim1 s3 = (Inr (), s3\<lparr>site_world := w', key_files := dict_del i (key_files s3)\<rparr>)"
    using drop_auth_effect [of E c ty vim1 s3] fk ok id1 by auto
  let ?t = "s3\<lparr>site_world := w', key_files := dict_del i (key_files s3)\<rparr>"
  have "plugin_update_vim E c i args s = (Inl e, ?t)"
    using old ty pw reg db drop
    by (simp add: plugin_update_vim_def bindE_def Let_def catchE_def reraise_after_def thenE_def del: subscr_PDict)
  moreover have "\<exists>e'. fst (look_up_vim E c' i ?t) = Inl e'"
    using look_up_without_key [of i ?t E c'] kept i(1) by (simp add: key_in_file_def)
  ultimately show ?thesis by (intro exI [of _ ?t]) simp
qed

lemma failed_password_update_strands_vim_witness:
  "\<exists>t. plugin_update_vim sample_meo_env owner (sample_uuid 2)
       [(''is_default'', PBool True), (''auth_cred'', PDict [(''password'', PStr ''new'')])] two_vims =
     (Inl (Exc (Meo VimDefaultDuplicateException) [(''vim_id'', PStr (sample_uuid 0))]), t) \<and>
     map_of (key_files t) (sample_uuid 2) = None \<and> (\<exists>e'. fst (look_up_vim sample_meo_env owner (sample_uuid 2) t) = Inl e')"
proof -
  let ?args = "[(''is_default'', PBool True), (''auth_cred'', PDict [(''password'', PStr ''new'')])]"
  let ?old = "projr (fst (unused_vim sample_meo_env owner (sample_uuid 2) two_vims))"
  let ?vim = "deep_update ?old ?args"
  let ?reg = "reregister sample_meo_env owner (PStr ''openstack'') (Some (PStr ''new'')) ?vim two_vims"
  let ?db = "bindE (pureE (vim_update_of (projr (fst ?reg)))) (update_vim (me_oslo sample_meo_env) owner (sample_uuid 2)) (snd ?reg)"
  have "isl (fst (unused_vim sample_meo_env owner (sample_uuid 2) two_vims)) = False" by code_simp
  then have old: "unused_vim sample_meo_env owner (sample_uuid 2) two_vims = (Inr ?old, snd (unused_vim sample_meo_env owner (sample_uuid 2) two_vims))"
    by (simp add: prod_eq_iff)
  have same: "snd (unused_vim sample_meo_env owner (sample_uuid 2) two_vims) = two_vims"
    using unused_vim_Inr [OF old] by simp
  have "isl (fst ?reg) = False" by code_simp
  then have reg: "?reg = (Inr (projr (fst ?reg)), snd ?reg)" by (simp add: prod_eq_iff)
  have "fst ?db = Inl (Exc (Meo VimDefaultDuplicateException) [(''vim_id'', PStr (sample_uuid 0))])" by code_simp
  then have db: "?db = (Inl (Exc (Meo VimDefaultDuplicateException) [(''vim_id'', PStr (sample_uuid 0))]), snd ?db)"
    by (simp add: prod_eq_iff)
  have f: "\<not> vl_use_barbican (me_libs sample_meo_env)" "key_in_file (sample_uuid 2) two_vims" by code_simp+
  have i: "sample_uuid 2 \<noteq> []" "map_of ?args ''id'' = None" by code_simp+
  have pw: "new_password ?args = Inr (Some (PStr ''new''))" by code_simp
  have ty: "subscr ''type'' (PDict ?vim) = Inr (PStr ''openstack'')" by code_simp
  show ?thesis
    by (rule failed_password_update_strands_vim [OF old [unfolded same] f i pw ty reg db])
qed

end
