(* ===== verification/Drivers.thy ===== *)
theory Drivers
  imports MemPlugin
begin

text \<open>
  The small drivers of the MEA manager and what runs beside it: the monitor drivers ping and
  http_ping, the alarm URLs of ceilometer and the receiver that takes them apart
  (alarm_receiver.py), the management driver of OpenWRT, the ping action of the VIM monitor
  and the conductor, which notes what the action reports. Text is the bytes of its UTF-8 form.
\<close>

section \<open>Monitoring\<close>

text \<open>\<open>ne_run\<close> runs a command, \<open>ne_open\<close> opens a URL and answers whether it could.\<close>

record 'w net =
  ne_run :: "pyval list \<Rightarrow> ('w, unit) prog"
  ne_open :: "string \<Rightarrow> pyval \<Rightarrow> ('w, bool) prog"

definition ping_command :: "pyval \<Rightarrow> pyval \<Rightarrow> pyval \<Rightarrow> pyval \<Rightarrow> pyval list" where
  "ping_command count timeout interval ip =
     [PStr ''ping'', PStr ''-c'', count, PStr ''-W'', timeout, PStr ''-i'', interval, ip]"

definition is_pingable :: "'w net \<Rightarrow> pydict \<Rightarrow> ('w, pyval) prog" where
  "is_pingable N kwargs = catchE
     (thenE (ne_run N (ping_command (dict_get ''count'' (PInt 5) kwargs) (dict_get ''timeout'' (PInt 1) kwargs)
        (dict_get ''interval'' (PStr ''0.2'') kwargs) (dict_get ''mgmt_ip'' (PStr []) kwargs))) (ret (PBool True)))
     (\<lambda>e. if isinstance e (Lib RuntimeError) then ret (PStr ''failure'') else raise e)"

definition ping_monitor_call :: "'w net \<Rightarrow> pydict \<Rightarrow> ('w, pyval) prog" where
  "ping_monitor_call N kwargs = bindE (pureE (subscr ''mgmt_ip'' (PDict kwargs))) (\<lambda>ip.
     if \<not> truthy ip then ret PNone else is_pingable N kwargs)"

definition int_of :: "pyval \<Rightarrow> exn + int" where
  "int_of v = (case py_int v of Inl True \<Rightarrow> Inl value_error | Inl False \<Rightarrow> Inl type_error | Inr i \<Rightarrow> Inr i)"

fun try_url :: "'w net \<Rightarrow> string \<Rightarrow> pyval \<Rightarrow> nat \<Rightarrow> ('w, pyval) prog" where
  "try_url N url timeout 0 = ret (PStr ''failure'')"
| "try_url N url timeout (Suc n) = bindE (ne_open N url timeout) (\<lambda>ok.
     if ok then ret (PBool True) else try_url N url timeout n)"

definition http_is_pingable :: "'w net \<Rightarrow> pydict \<Rightarrow> ('w, pyval) prog" where
  "http_is_pingable N kwargs =
     bindE (pureE (str_of (dict_get ''mgmt_ip'' (PStr []) kwargs))) (\<lambda>ip.
     let url = ''http://'' @ ip @ '':'' @ py_str (dict_get ''port'' (PInt 80) kwargs) in
     bindE (pureE (int_of (dict_get ''retry'' (PInt 5) kwargs))) (\<lambda>n.
       try_url N url (dict_get ''timeout'' (PInt 5) kwargs) (nat n)))"

definition http_monitor_call :: "'w net \<Rightarrow> pydict \<Rightarrow> ('w, pyval) prog" where
  "http_monitor_call N kwargs = bindE (pureE (subscr ''mgmt_ip'' (PDict kwargs))) (\<lambda>ip.
     if \<not> truthy ip then ret PNone else http_is_pingable N kwargs)"

section \<open>Alarms\<close>

record alarm_conf =
  al_host :: string
  al_port :: int

definition create_alarm_url :: "alarm_conf \<Rightarrow> string \<Rightarrow> string \<Rightarrow> string \<Rightarrow> string \<Rightarrow> string" where
  "create_alarm_url A key mea_id policy action =
     ''http://'' @ al_host A @ '':'' @ show_int (al_port A) @ ''/v1.0/meas'' @
     ''/'' @ mea_id @ ''/'' @ policy @ ''/'' @ action @ ''/'' @ key"

text \<open>The arguments come as a dictionary and must be exactly the parameters.\<close>

definition call_alarm_url :: "alarm_conf \<Rightarrow> string \<Rightarrow> pydict \<Rightarrow> exn + string" where
  "call_alarm_url A key kwargs =
     (if set (dict_keys kwargs) \<noteq> {''mea_id'', ''mon_policy_name'', ''mon_policy_action''} then Inl type_error
      else bindS (bindS (subscr ''mea_id'' (PDict kwargs)) str_of) (\<lambda>i.
        bindS (bindS (subscr ''mon_policy_name'' (PDict kwargs)) str_of) (\<lambda>p.
        bindS (bindS (subscr ''mon_policy_action'' (PDict kwargs)) str_of) (\<lambda>a.
          Inr (create_alarm_url A key i p a)))))"

definition process_alarm :: "pyval \<Rightarrow> pyval \<Rightarrow> pyval" where
  "process_alarm alarm_id status = (if truthy alarm_id \<and> py_eq status (PStr ''alarm'') then PBool True else PNone)"

text \<open>The path of \<open>urlparse(url)\<close>: what is left without scheme, host, fragment, query and the
  parameters of the last segment.\<close>

definition scheme_char :: "char \<Rightarrow> bool" where
  "scheme_char c \<longleftrightarrow> (97 \<le> ord (lower_char c) \<and> ord (lower_char c) \<le> 122) \<or> digit_char c \<or> List.member ''+-.'' c"

definition without_scheme :: "string \<Rightarrow> string" where
  "without_scheme url = (let a = takeWhile (\<lambda>c. c \<noteq> CHR '':'') url in
     if a \<noteq> [] \<and> a \<noteq> url \<and> \<not> digit_char (hd a) \<and> list_all scheme_char a then drop (Suc (length a)) url else url)"

definition without_host :: "string \<Rightarrow> string" where
  "without_host url = (if startswith ''//'' url
     then dropWhile (\<lambda>c. \<not> List.member ''/?#'' c) (drop 2 url) else url)"

definition without_params :: "string \<Rightarrow> string" where
  "without_params p = (let n = length p - length (takeWhile (\<lambda>c. c \<noteq> CHR ''/'') (rev p)) in
     take n p @ takeWhile (\<lambda>c. c \<noteq> CHR '';'') (drop n p))"

definition url_path :: "string \<Rightarrow> string" where
  "url_path url = without_params (takeWhile (\<lambda>c. c \<noteq> CHR ''?'')
     (takeWhile (\<lambda>c. c \<noteq> CHR ''#'') (without_host (without_scheme url))))"

definition hex_digit :: "char \<Rightarrow> nat option" where
  "hex_digit c = (let n = ord (lower_char c) in
     if digit_char c then Some (n - 48) else if 97 \<le> n \<and> n \<le> 102 then Some (n - 87) else None)"

fun unquote :: "string \<Rightarrow> string" where
  "unquote (c # a # b # s) = (if c \<noteq> CHR ''%'' then c # unquote (a # b # s)
     else case (hex_digit a, hex_digit b) of
         (Some x, Some y) \<Rightarrow> char_of (16 * x + y) # unquote s
       | _ \<Rightarrow> c # unquote (a # b # s))"
| "unquote s = s"

text \<open>\<open>handle_url\<close>: the new prefix and the parts of the path; the query is left out, nobody
  uses it.\<close>

definition handle_url :: "string \<Rightarrow> (string \<times> string list) option" where
  "handle_url url = (let p = split_char (CHR ''/'') (url_path url) in
     if length p \<noteq> 7 then None
     else if p ! 0 \<noteq> [] \<or> p ! 2 \<noteq> ''meas'' then None
     else Some (''/'' @ p ! 2 @ ''/'' @ p ! 3 @ ''/'', p[5 := unquote (p ! 5)]))"

record alarm_request =
  rq_method :: string
  rq_url :: string
  rq_token :: "string option"
  rq_body :: pyval
  rq_path_info :: string
  rq_query :: string

definition trigger_body :: "pyval \<Rightarrow> string list \<Rightarrow> pyval" where
  "trigger_body data info = PDict [(''trigger'', PDict [
     (''params'', PDict [(''data'', data), (''credential'', PStr (info ! 6))]),
     (''policy_name'', PStr (info ! 4)), (''action_name'', PStr (info ! 5))])]"

definition process_request :: "('w, string) prog \<Rightarrow> (pyval \<Rightarrow> exn + pyval) \<Rightarrow> alarm_request \<Rightarrow> ('w, alarm_request) prog" where
  "process_request create_token loads req =
     (if rq_method req \<noteq> ''POST'' then ret req
      else case handle_url (rq_url req) of None \<Rightarrow> ret req
      | Some (prefix, info) \<Rightarrow>
          bindE create_token (\<lambda>token.
          bindE (if \<not> truthy (rq_body req) then ret (rq_body req)
             else bindE (pureE (loads (rq_body req))) (\<lambda>data. ret (trigger_body data info))) (\<lambda>body.
          ret (req\<lparr>rq_token := Some token, rq_body := body, rq_path_info := prefix @ ''triggers'', rq_query := []\<rparr>))))"

section \<open>Management of OpenWRT\<close>

text \<open>\<open>re_execute ip command input\<close> runs a command on a machine.\<close>

record 'w remote =
  re_execute :: "pyval \<Rightarrow> string \<Rightarrow> pyval \<Rightarrow> ('w, unit) prog"
  re_json_load :: "pyval \<Rightarrow> exn + pyval"
  re_yaml_load :: "pyval \<Rightarrow> exn + pyval"

definition config_service :: "'w remote \<Rightarrow> pyval \<Rightarrow> string \<Rightarrow> pyval \<Rightarrow> ('w, unit) prog" where
  "config_service R ip service config =
     catchE (re_execute R ip (''uci import '' @ service @ ''; /etc/init.d/'' @ service @ '' restart'') config)
       (\<lambda>e. raise (Exc (Common MgmtDriverException) []))"

definition KNOWN_SERVICES :: "string list" where "KNOWN_SERVICES = [''firewall'', ''network'']"

definition configure_vdu :: "'w remote \<Rightarrow> pyval \<Rightarrow> string \<times> pyval \<Rightarrow> ('w, unit) prog" where
  "configure_vdu R urls = (\<lambda>(vdu, v).
     bindE (pureE (bindS (get_of ''config'' (PDict []) v) items_of)) (\<lambda>config.
     forE config (\<lambda>(key, value). if \<not> List.member KNOWN_SERVICES key then ret ()
       else bindE (pureE (get_of vdu (PStr []) urls)) (\<lambda>ip.
         if \<not> truthy ip then ret ()
         else case ip of PList ips \<Rightarrow> forE ips (\<lambda>i. config_service R i key value)
           | _ \<Rightarrow> config_service R ip key value))))"

definition openwrt_mgmt_call :: "'w remote \<Rightarrow> mea_dict \<Rightarrow> pydict \<Rightarrow> ('w, unit) prog" where
  "openwrt_mgmt_call R d kwargs =
     bindE (pureE (subscr ''action'' (PDict kwargs))) (\<lambda>action.
     if \<not> py_eq action (PStr ''update_mea'') then ret ()
     else bindE (pureE (re_json_load R (case ad_mgmt_url d of None \<Rightarrow> PNone | Some u \<Rightarrow> PStr u))) (\<lambda>urls.
     if \<not> truthy urls then ret ()
     else bindE (pureE (re_yaml_load R (dict_get ''config'' (PStr []) (ad_attributes d)))) (\<lambda>config.
     if \<not> truthy config then ret ()
     else bindE (pureE (bindS (get_of ''vdus'' (PDict []) config) items_of)) (\<lambda>vdus.
       forE vdus (configure_vdu R urls)))))"

section \<open>Monitoring of VIMs\<close>

text \<open>The ping action runs inside Mistral. \<open>vp_killed\<close> reads the flag that a remote call
  sets, \<open>vp_update\<close> reports to the conductor and returns what it answers.\<close>

record 'w vim_ping =
  vp_start :: "('w, unit) prog"
  vp_killed :: "'w \<Rightarrow> bool"
  vp_run :: "('w, unit) prog"
  vp_update :: "string \<Rightarrow> ('w, string) prog"

definition vim_reachable :: "'w vim_ping \<Rightarrow> ('w, string) prog" where
  "vim_reachable P = catchE (thenE (vp_run P) (ret ''REACHABLE''))
     (\<lambda>e. if isinstance e (Lib RuntimeError) then ret ''UNREACHABLE'' else raise e)"

text \<open>One turn of the loop: the status noted after it.\<close>

definition ping_turn :: "'w vim_ping \<Rightarrow> string \<Rightarrow> ('w, string) prog" where
  "ping_turn P current = bindE (vim_reachable P) (\<lambda>st.
     if current \<noteq> st then vp_update P st else ret current)"

partial_function (option) ping_loop :: "'w vim_ping \<Rightarrow> string \<Rightarrow> 'w \<Rightarrow> (string \<times> 'w) option" where
  "ping_loop P current w =
     (if vp_killed P w then Some (''KILLED'', w)
      else let rw = ping_turn P current w in
        (case fst rw of Inl e \<Rightarrow> Some (''FAILED'', snd rw) | Inr st \<Rightarrow> ping_loop P st (snd rw)))"

definition ping_action_run :: "'w vim_ping \<Rightarrow> 'w \<Rightarrow> (string \<times> 'w) option" where
  "ping_action_run P w = (let rw = vp_start P w in
     case fst rw of Inl e \<Rightarrow> Some (''FAILED'', snd rw) | Inr _ \<Rightarrow> ping_loop P ''PENDING'' (snd rw))"

text \<open>The conductor: an update by query touches deleted rows too and raises nothing when
  there is no row; the event is written all the same.\<close>

definition conductor_update_vim :: "string \<Rightarrow> string \<Rightarrow> ('x db_scheme, string) prog" where
  "conductor_update_vim i st = bindE utcnow (\<lambda>now. tx (thenE (bind_uuids [i])
     (thenE (modify (\<lambda>s. s\<lparr>t_vims := update_where (\<lambda>r. vm_id r = i)
         (\<lambda>r. r\<lparr>vm_status := st, vm_updated_at := Some now\<rparr>) (t_vims s)\<rparr>))
     (thenE (modify (\<lambda>s. s\<lparr>t_events := t_events s @ [\<lparr>ev_resource_id = i, ev_resource_state = st,
         ev_resource_type = RES_TYPE_VIM, ev_timestamp = now, ev_event_type = RES_EVT_MONITOR,
         ev_event_details = []\<rparr>]\<rparr>)) (ret st)))))"

end
