(* ===== verification/OrchProps.thy ===== *)
theory OrchProps
  imports VimProps MemTraces Drivers
begin

text \<open>
  The orchestrator over time: the integrity of the database under any sequence of its
  requests and spawned functions, and what becomes of a network service when Mistral is slow
  or the database refuses it.
\<close>

section \<open>The orchestrator as a transition system\<close>

text \<open>A request, a spawned function that is run, the report of a VIM's state to the conductor,
  the clock and the outside world.\<close>

inductive orch_step :: "'w meo_env \<Rightarrow> 'w meo_plug \<Rightarrow> 'w meo_plug \<Rightarrow> bool" for E where
  step_create_vim: "orch_step E s (snd (plugin_create_vim E c vim s))"
| step_update_vim: "orch_step E s (snd (plugin_update_vim E c i args s))"
| step_delete_vim: "orch_step E s (snd (plugin_delete_vim E c i s))"
| step_resource: "orch_step E s (snd (vim_resource_name_to_id E c ty name i s))"
| step_create_nsd: "orch_step E s (snd (plugin_create_nsd E c req s))"
| step_delete_nsd: "orch_step E s (snd (super_ns E (delete_nsd c i True) s))"
| step_create_ns: "orch_step E s (snd (plugin_create_ns E c name b s))"
| step_delete_ns: "orch_step E s (snd (plugin_delete_ns E c i s))"
| step_task: "orch_step E s (snd (run_meo_task E n s))"
| step_conductor: "orch_step E s (snd (conductor_update_vim i st s))"
| step_clock: "orch_step E s (s\<lparr>clock := clock s + n\<rparr>)"
| step_world: "orch_step E s (s\<lparr>site_world := w\<rparr>)"

inductive orch_reachable :: "'w meo_env \<Rightarrow> 'w meo_plug \<Rightarrow> bool" for E where
  orch_start: "0 < now \<Longrightarrow> orch_reachable E (site.extend (db.extend (empty_db now) (site.fields kf w)) (meo_plug.fields []))"
| orch_next: "orch_reachable E s \<Longrightarrow> orch_step E s t \<Longrightarrow> orch_reachable E t"

section \<open>Integrity of the database\<close>

lemma wf_world [simp]: "db_wf (s\<lparr>site_world := w\<rparr>) = db_wf s" by (simp add: wf_defs)
lemma wf_key_files [simp]: "db_wf (s\<lparr>key_files := kf\<rparr>) = db_wf s" by (simp add: wf_defs)
lemma wf_tasks [simp]: "db_wf (s\<lparr>m_tasks := ts\<rparr>) = db_wf s" by (simp add: wf_defs)
lemma wf_clock [simp]: "db_wf (s\<lparr>clock := n\<rparr>) = db_wf s" by (simp add: wf_defs)

lemma wf_of_site: "obeys same_site m \<Longrightarrow> wf_kept m"
proof (rule obeysI)
  fix s
  assume "obeys same_site m"
  from obeysD [OF this, of s] obtain w where "snd (m s) = s\<lparr>site_world := w\<rparr>" by (auto simp: same_site_def)
  then show "db_wf s \<longrightarrow> db_wf (snd (m s))" by simp
qed

lemma wf_site_call: "wf_kept (site_call f)"
  by (rule wf_of_site) (rule outside_call)

lemma wf_files: "wf_kept (modify (\<lambda>s. s\<lparr>key_files := f s\<rparr>))"
  by (rule wf.r_modify) simp

lemma wf_attempt: "wf_kept m \<Longrightarrow> wf_kept (attempt m)"
  unfolding attempt_def by (intro wf_intros)

lemma wf_ignoring: "wf_kept m \<Longrightarrow> wf_kept (ignoring m)"
  unfolding ignoring_def by (intro wf_intros)

lemma wf_reraise: "wf_kept h \<Longrightarrow> wf_kept (reraise_after e h)"
  unfolding reraise_after_def by (intro wf_intros)

lemma wf_drv: "wf_kept m \<Longrightarrow> wf_kept (drv E ty m)"
  unfolding drv_def by (intro wf_intros obeys_cases)

lemma wf_super: "wf_kept m \<Longrightarrow> wf_kept (super_ns E m)"
  unfolding super_ns_def by (intro wf_intros obeys_cases)

lemma wf_and_then: "wf_kept m \<Longrightarrow> (\<And>d. wf_kept (k d)) \<Longrightarrow> wf_kept (and_then m k)"
  unfolding and_then_def by (intro wf_intros obeys_cases)

lemma wf_pure_step: "wf_kept (pure_step f d)"
  unfolding pure_step_def by (intro wf_intros)

lemma wf_eff_step: "wf_kept m \<Longrightarrow> wf_kept (eff_step m f d)"
  unfolding eff_step_def by (intro wf_intros wf_attempt obeys_cases wf_pure_step)

lemmas orch_intros = wf_intros obeys_cases wf_site_call wf_files wf_attempt wf_ignoring wf_reraise wf_drv
  wf_super wf_and_then wf_pure_step wf_eff_step

subsection \<open>The VIM driver and Mistral\<close>

lemma wf_register_vim: "wf_kept (register_vim L c d)"
  unfolding register_vim_def authenticate_and_discover_def discover_placement_attr_def find_regions_def
    validate_auth_url_def encode_vim_auth_def write_key_def write_file_def Let_def
  by (intro orch_intros)

lemma wf_drop_auth: "wf_kept (drop_auth E c ty d)" "wf_kept (deregister_vim L c d)"
  unfolding drop_auth_def deregister_vim_def delete_vim_auth_def by (intro orch_intros)+

lemma wf_drv_register: "wf_kept (drv_register E c ty d)"
  unfolding drv_register_def by (intro orch_intros wf_register_vim)

lemma wf_monitor: "wf_kept (plugin_monitor_vim E c d)" "wf_kept (delete_vim_monitor M c auth d)"
  unfolding plugin_monitor_vim_def monitor_vim_def prepare_monitor_workflow_def delete_vim_monitor_def
    delete_executions_def Let_def
  by (intro orch_intros)+

lemma wf_driver_workflows:
  "wf_kept (driver_prepare_workflow O' M r a auth)" "wf_kept (driver_execute_workflow M w auth)"
  "wf_kept (driver_get_execution M i auth)" "wf_kept (driver_delete_execution M i auth)"
  "wf_kept (driver_delete_workflow M i auth)"
  unfolding driver_prepare_workflow_def driver_execute_workflow_def driver_get_execution_def
    driver_delete_execution_def driver_delete_workflow_def with_client_def ns_task_def
  by (intro orch_intros; (auto split: ns_action.splits intro!: orch_intros)?)+

lemma wf_gets_vim: "wf_kept (get_vim O' c i m)" "wf_kept (get_mead O' c i)" "wf_kept (get_mea O' c i)"
  "wf_kept (get_nsd c i)" "wf_kept (get_ns c i)" "wf_kept (get_meads c fs ws)" "wf_kept (look_up_vim E c j)"
  by (rule obeysI, simp add: get_vim_def get_mead_def get_mea_def get_nsd_def get_ns_def get_meads_def Let_def
      look_up_vim_def client_get_vim_state)+

lemma wf_unused: "wf_kept (is_vim_still_in_use c i)" "wf_kept (unused_vim E c i)"
  unfolding unused_vim_def is_vim_still_in_use_def by (intro orch_intros wf_gets_vim)+

lemmas orch_parts = wf_register_vim wf_drop_auth wf_drv_register wf_monitor wf_driver_workflows wf_gets_vim wf_unused
  wf_create_vim wf_update_vim wf_delete_vim wf_create_nsd wf_delete_nsd wf_create_ns wf_delete_ns
  wf_create_ns_post wf_delete_ns_post

subsection \<open>The requests\<close>

lemma wf_vims: "wf_kept (plugin_create_vim E c vim)" "wf_kept (plugin_update_vim E c i args)"
  "wf_kept (plugin_delete_vim E c i)"
  unfolding plugin_create_vim_def plugin_update_vim_def plugin_delete_vim_def reregister_def Let_def
  by (intro orch_intros orch_parts)+

lemma wf_resource: "wf_kept (vim_resource_name_to_id E c ty name i)"
  unfolding vim_resource_name_to_id_def get_vim_from_mea_def plugin_build_vim_auth_def get_vim_resource_id_def
    validate_auth_url_def
  by (intro orch_intros orch_parts)

lemma wf_plugin_create_nsd: "wf_kept (plugin_create_nsd E c req)"
  unfolding plugin_create_nsd_def parse_nsd_input_def imported_mead_def Let_def
  by (intro orch_intros orch_parts)

lemma wf_workflow_requests: "wf_kept (request_workflow E c ty a)" "wf_kept (start_workflow E c ty w)"
  "wf_kept (look_up_execution E c name i)" "wf_kept (deletion_workflow E c ty ids)"
  unfolding request_workflow_def start_workflow_def look_up_execution_def deletion_workflow_def
  by (intro orch_intros orch_parts)+

lemma wf_spawn_wait: "wf_kept (spawn_wait t)"
  unfolding spawn_wait_def by (rule wf.r_modify) simp

lemma wf_wait: "wf_kept (wait_execution E c ty i n st)"
proof (induction n arbitrary: st)
  case (Suc n)
  have "wf_kept (modify (\<lambda>s. s\<lparr>site_world := f s\<rparr>))" for f by (rule wf.r_modify) simp
  then show ?case by (auto intro!: orch_intros wf_workflow_requests Suc.IH)
qed (simp add: wf.r_ret)

lemma wf_plugin_ns: "wf_kept (plugin_create_ns E c name b)" "wf_kept (plugin_delete_ns E c i)"
  unfolding plugin_create_ns_def plugin_delete_ns_def inline_nsd_def Let_def
  by (intro orch_intros orch_parts wf_plugin_create_nsd wf_workflow_requests wf_spawn_wait)+

lemma wf_run_task: "wf_kept (run_meo_task E n)"
proof -
  have "wf_kept (modify (\<lambda>s. s\<lparr>m_tasks := f s\<rparr>))" for f by (rule wf.r_modify) simp
  moreover have "wf_kept (run_wait E t)" for t
    unfolding run_wait_def create_ns_wait_def delete_ns_wait_def finish_execution_def Let_def
    by (cases t; simp; intro orch_intros orch_parts wf_workflow_requests wf_wait)
  ultimately show ?thesis unfolding run_meo_task_def by (intro orch_intros)
qed

lemma wf_conductor: "wf_kept (conductor_update_vim i st)"
proof -
  have "wf_kept (modify (\<lambda>s. s\<lparr>t_vims := update_where (\<lambda>r. vm_id r = i) (\<lambda>r. r\<lparr>vm_status := st, vm_updated_at := now\<rparr>) (t_vims s)\<rparr>))"
    for now
    by (rule wf.r_modify) (simp add: wf_defs update_where_def comp_def vim_unique_def [abs_def] if_distrib cong: if_cong)
  moreover have "wf_kept (modify (\<lambda>s. s\<lparr>t_events := f s\<rparr>))" for f by (rule wf.r_modify) (simp add: wf_defs)
  ultimately show ?thesis unfolding conductor_update_vim_def by (intro wf_intros)
qed

lemma keptD: "wf_kept m \<Longrightarrow> db_wf s \<Longrightarrow> db_wf (snd (m s))"
  by (simp add: obeys_def)

lemma orch_step_wf: "orch_step E s t \<Longrightarrow> db_wf s \<Longrightarrow> db_wf t"
  by (induction rule: orch_step.induct)
    (simp_all add: keptD wf_vims wf_resource wf_plugin_create_nsd wf_super wf_delete_nsd wf_plugin_ns wf_run_task wf_conductor)


section \<open>Executions that do not end\<close>

text \<open>Mistral answers every call, but it never reports the execution as ended.\<close>

definition mistral_stalls :: "'w mistral \<Rightarrow> string \<Rightarrow> string \<Rightarrow> bool" where
  "mistral_stalls M ex wk \<longleftrightarrow> (\<forall>w. (\<forall>d. \<exists>w'. mi_login M d w = (Inr (), w')) \<and>
     (\<exists>out w'. mi_get_execution M ex w = (Inr \<lparr>mo_state = ''RUNNING'', mo_output = out\<rparr>, w')) \<and>
     (\<exists>w'. mi_delete_execution M ex w = (Inr (), w')) \<and> (\<exists>w'. mi_delete_workflow M wk w = (Inr (), w')))"

lemma with_client_ok:
  assumes "\<exists>w'. mi_login M auth (site_world s) = (Inr (), w')" and "auth \<noteq> []"
  obtains w where "with_client M auth m s = m (s\<lparr>site_world := w\<rparr>)"
  using assms by (auto simp: with_client_def thenE_def bindE_def site_call_def)

lemma login_ok: "mistral_stalls M ex wk \<Longrightarrow> \<exists>w'. mi_login M d w = (Inr (), w')"
  unfolding mistral_stalls_def by blast

lemma stalls_get: "mistral_stalls M ex wk \<Longrightarrow>
    \<exists>out w'. mi_get_execution M ex w = (Inr \<lparr>mo_state = ''RUNNING'', mo_output = out\<rparr>, w')"
  unfolding mistral_stalls_def by blast

lemma stalls_delete: "mistral_stalls M ex wk \<Longrightarrow> \<exists>w'. mi_delete_execution M ex w = (Inr (), w')"
  "mistral_stalls M ex wk \<Longrightarrow> \<exists>w'. mi_delete_workflow M wk w = (Inr (), w')"
  unfolding mistral_stalls_def by blast+

lemma auth_not_empty: "get_auth_dict E c \<noteq> []"
  by (simp add: get_auth_dict_def)

lemma stalled_look_up:
  assumes stalls: "mistral_stalls (me_mistral E) ex wk" and ok: "drv_ok E (PStr ty)"
  shows "\<exists>out w. look_up_execution E c ty ex s = (Inr \<lparr>mo_state = ''RUNNING'', mo_output = out\<rparr>, s\<lparr>site_world := w\<rparr>)"
proof -
  obtain w where w: "look_up_execution E c ty ex s = site_call (mi_get_execution (me_mistral E) ex) (s\<lparr>site_world := w\<rparr>)"
    using with_client_ok [OF login_ok [OF stalls] auth_not_empty]
    unfolding look_up_execution_def driver_get_execution_def drv_there [OF ok] by metis
  obtain out w' where "mi_get_execution (me_mistral E) ex w = (Inr \<lparr>mo_state = ''RUNNING'', mo_output = out\<rparr>, w')"
    using stalls_get [OF stalls] by blast
  then show ?thesis unfolding w by (auto simp: site_call_def)
qed

lemma stalled_deletes:
  assumes stalls: "mistral_stalls (me_mistral E) ex wk" and ok: "drv_ok E (PStr ty)"
  shows "\<exists>w. drv E (PStr ty) (driver_delete_execution (me_mistral E) ex (get_auth_dict E c)) s = (Inr (), s\<lparr>site_world := w\<rparr>)"
  "\<exists>w. drv E (PStr ty) (driver_delete_workflow (me_mistral E) wk (get_auth_dict E c)) s = (Inr (), s\<lparr>site_world := w\<rparr>)"
proof -
  obtain w where w: "driver_delete_execution (me_mistral E) ex (get_auth_dict E c) s =
      site_call (mi_delete_execution (me_mistral E) ex) (s\<lparr>site_world := w\<rparr>)"
    using with_client_ok [OF login_ok [OF stalls] auth_not_empty] unfolding driver_delete_execution_def by metis
  obtain w1 where w1: "driver_delete_workflow (me_mistral E) wk (get_auth_dict E c) s =
      site_call (mi_delete_workflow (me_mistral E) wk) (s\<lparr>site_world := w1\<rparr>)"
    using with_client_ok [OF login_ok [OF stalls] auth_not_empty] unfolding driver_delete_workflow_def by metis
  obtain w' w1' where "mi_delete_execution (me_mistral E) ex w = (Inr (), w')"
    "mi_delete_workflow (me_mistral E) wk w1 = (Inr (), w1')"
    using stalls_delete [OF stalls] by blast
  then show "\<exists>w. drv E (PStr ty) (driver_delete_execution (me_mistral E) ex (get_auth_dict E c)) s = (Inr (), s\<lparr>site_world := w\<rparr>)"
    "\<exists>w. drv E (PStr ty) (driver_delete_workflow (me_mistral E) wk (get_auth_dict E c)) s = (Inr (), s\<lparr>site_world := w\<rparr>)"
    unfolding drv_there [OF ok] w w1 by (auto simp: site_call_def)
qed

lemma stalled_wait:
  assumes stalls: "mistral_stalls (me_mistral E) ex wk" and ok: "drv_ok E (PStr ty)"
  shows "\<exists>w. wait_execution E c ty ex n ''RUNNING'' s = (Inr (''RUNNING'', 0), s\<lparr>site_world := w\<rparr>)"
proof (induction n arbitrary: s)
  case 0
  show ?case by (rule exI [of _ "site_world s"]) simp
next
  case (Suc n)
  let ?s = "s\<lparr>site_world := mi_sleep (me_mistral E) MISTRAL_RETRY_WAIT (site_world s)\<rparr>"
  from stalled_look_up [OF stalls ok, of c ?s] obtain out w where
    "look_up_execution E c ty ex ?s = (Inr \<lparr>mo_state = ''RUNNING'', mo_output = out\<rparr>, ?s\<lparr>site_world := w\<rparr>)" by blast
  with Suc.IH [of "?s\<lparr>site_world := w\<rparr>"] show ?case by (simp add: thenE_def bindE_def)
qed

lemma stalled_finish:
  assumes stalls: "mistral_stalls (me_mistral E) ex wk" and ok: "drv_ok E (PStr ty)"
  shows "\<exists>out w. finish_execution E c what ty ex wk s =
   (Inr (\<lparr>mo_state = ''RUNNING'', mo_output = out\<rparr>, Some (not_completed what ex)), s\<lparr>site_world := w\<rparr>)"
proof -
  from stalled_wait [OF stalls ok] obtain w1 where w1: "wait_execution E c ty ex MISTRAL_RETRIES ''RUNNING'' s =
      (Inr (''RUNNING'', 0), s\<lparr>site_world := w1\<rparr>)" by blast
  from stalled_look_up [OF stalls ok, of c "s\<lparr>site_world := w1\<rparr>"] obtain out w2 where w2: "look_up_execution E c ty ex (s\<lparr>site_world := w1\<rparr>) =
      (Inr \<lparr>mo_state = ''RUNNING'', mo_output = out\<rparr>, s\<lparr>site_world := w2\<rparr>)" by auto
  from stalled_deletes(1) [OF stalls ok, of c "s\<lparr>site_world := w2\<rparr>"] obtain w3 where w3:
    "drv E (PStr ty) (driver_delete_execution (me_mistral E) ex (get_auth_dict E c)) (s\<lparr>site_world := w2\<rparr>) =
      (Inr (), s\<lparr>site_world := w3\<rparr>)" by auto
  from stalled_deletes(2) [OF stalls ok, of c "s\<lparr>site_world := w3\<rparr>"] obtain w4 where w4:
    "drv E (PStr ty) (driver_delete_workflow (me_mistral E) wk (get_auth_dict E c)) (s\<lparr>site_world := w3\<rparr>) =
      (Inr (), s\<lparr>site_world := w4\<rparr>)" by auto
  show ?thesis
    by (intro exI [of _ out] exI [of _ w4]) (simp add: finish_execution_def bindE_def thenE_def w1 w2 w3 w4)
qed

lemma ns_gone:
  assumes ns: "get_ns_resource c i s = Inr ns" and st: "ns_status ns = PENDING_DELETE" and now: "0 < clock s"
    and t: "t_nss t = update_where (ns_in_query c i) (\<lambda>q. q\<lparr>ns_deleted_at := Some (clock s)\<rparr>) (t_nss s)"
  shows "get_ns_resource c i t = Inl (ns_not_found i)" and "uuid_ok i"
proof -
  have one: "get_by_id c NS ns_id (t_nss s) i = Inr ns"
    using ns by (auto simp: get_ns_resource_def when_absent_def split: sum.splits if_splits)
  then show ok: "uuid_ok i" by (auto simp: get_by_id_def split: if_splits)
  with one have only: "filter (\<lambda>r. ns_id r = i) (filter (visible c NS) (t_nss s)) = [ns]"
    by (simp add: get_by_id_def model_query_def one_Inr)
  have "\<not> (visible c NS r' \<and> ns_id r' = i)" if r': "r' \<in> set (t_nss t)" for r'
  proof
    assume vis: "visible c NS r' \<and> ns_id r' = i"
    from r' obtain r where r: "r \<in> set (t_nss s)"
      and eq: "r' = (if ns_in_query c i r then r\<lparr>ns_deleted_at := Some (clock s)\<rparr> else r)"
      by (auto simp: t update_where_def)
    show False
    proof (cases "ns_in_query c i r")
      case True
      then show False using eq vis now by (simp add: visible_def not_deleted_def NS_def datetime_min_def)
    next
      case False
      then have "visible c NS r" "ns_id r = i" using eq vis by simp_all
      then have "r \<in> set (filter (\<lambda>r. ns_id r = i) (filter (visible c NS) (t_nss s)))" using r by simp
      then have "r = ns" unfolding only by simp
      with False st \<open>visible c NS r\<close> \<open>ns_id r = i\<close> show False by (simp add: ns_in_query_def)
    qed
  qed
  then have "filter (\<lambda>r. ns_id r = i) (filter (visible c NS) (t_nss t)) = []"
    by (auto simp: filter_empty_conv)
  then show "get_ns_resource c i t = Inl (ns_not_found i)"
    using ok by (simp add: get_ns_resource_def get_by_id_def model_query_def when_absent_def)
qed


section \<open>Services that the database refuses\<close>

text \<open>What is outside the database.\<close>

definition same_outside :: "'w meo_plug \<Rightarrow> 'w meo_plug \<Rightarrow> bool" where
  "same_outside s t \<longleftrightarrow> site_world t = site_world s \<and> m_tasks t = m_tasks s"

interpretation unseen: transactional_relation same_outside rollback
  by unfold_locales (simp_all add: same_outside_def rollback_def)

lemma unseen_create_ns: "obeys same_outside (create_ns O' c req)"
proof -
  have "obeys same_outside (insert_ns r)" "obeys same_outside (generate_uuid O')" for r
    by (auto simp: obeys_def same_outside_def insert_ns_def generate_uuid_def bind_uuids_def thenE_def bindE_def)
  moreover have "obeys same_outside (create_event i t st e ts d)" for i t st e ts d
    unfolding create_event_def bind_uuids_def tx_def
    by (intro unseen.r_intros unseen.r_atomically unseen.r_modify obeys_cases) (simp add: same_outside_def)
  ultimately show ?thesis
    unfolding create_ns_def create_ns_tx_def as_duplicate_def tx_def utcnow_def Let_def
    by (intro unseen.r_intros unseen.r_atomically obeys_cases) simp_all
qed





end
