(* ===== verification/DriverProps.thy ===== *)
theory DriverProps
  imports Drivers
begin

text \<open>
  The alarm URLs that the ceilometer driver makes, and what the alarm receiver reads from
  them.
\<close>

text \<open>Text without the characters that have a meaning in a URL.\<close>

definition plain :: "string \<Rightarrow> bool" where
  "plain s \<longleftrightarrow> list_all (\<lambda>c. \<not> List.member ''/?#;%'' c) s"

lemma plainD:
  assumes "plain s"
  shows "CHR ''/'' \<notin> set s" "CHR ''?'' \<notin> set s" "CHR ''#'' \<notin> set s" "CHR '';'' \<notin> set s" "CHR ''%'' \<notin> set s"
  using assms by (auto simp: plain_def list_all_iff)

lemma plain_literals [simp]: "plain ''v1.0''" "plain ''meas''" "plain []"
  by code_simp+

lemma unquote_plain: "CHR ''%'' \<notin> set s \<Longrightarrow> unquote s = s"
  by (induction s rule: unquote.induct) auto

lemma takeWhile_absent: "c \<notin> set s \<Longrightarrow> takeWhile (\<lambda>x. x \<noteq> c) s = s"
  by (induction s) auto

lemma split_char_none: "c \<notin> set a \<Longrightarrow> split_char c a = [a]"
  by (induction a) auto

lemma split_char_app: "c \<notin> set a \<Longrightarrow> split_char c (a @ c # b) = a # split_char c b"
  by (induction a) auto

text \<open>A path of plain segments is what the parser leaves of the URL.\<close>

definition path_of :: "string list \<Rightarrow> string" where
  "path_of segments = concat (map (\<lambda>s. CHR ''/'' # s) segments)"

lemma path_plain:
  "list_all plain segments \<Longrightarrow> c \<in> set (path_of segments) \<Longrightarrow> c = CHR ''/'' \<or> \<not> List.member ''/?#;%'' c"
  by (induction segments) (auto simp: path_of_def plain_def list_all_iff)

lemma split_path: "list_all plain segments \<Longrightarrow> split_char (CHR ''/'') (path_of segments) = [] # segments"
proof (induction segments rule: rev_induct)
  case Nil
  then show ?case by (simp add: path_of_def)
next
  case (snoc s ss)
  have gen: "split_char (CHR ''/'') (a @ concat (map (\<lambda>s. CHR ''/'' # s) ts)) = a # ts"
    if "list_all plain ts" "plain a" for a ts
    using that
  proof (induction ts arbitrary: a)
    case Nil
    then show ?case by (simp add: split_char_none plainD)
  next
    case (Cons t ts)
    then show ?case using split_char_app [OF plainD(1) [OF Cons.prems(2)]] by simp
  qed
  show ?case using gen [of "ss @ [s]" "[]"] snoc.prems by (simp add: path_of_def)
qed

lemma host_dropped:
  assumes "list_all (\<lambda>c. \<not> List.member ''/?#'' c) host"
  shows "without_host (''//'' @ host @ CHR ''/'' # rest) = CHR ''/'' # rest"
proof -
  have "startswith ''//'' (''//'' @ host @ CHR ''/'' # rest)" by (simp add: startswith_def)
  moreover have "dropWhile (\<lambda>c. \<not> List.member ''/?#'' c) (host @ CHR ''/'' # rest) = CHR ''/'' # rest"
    using assms by (induction host) (auto simp: list_all_iff)
  ultimately show ?thesis by (simp add: without_host_def)
qed

lemma url_path_plain:
  assumes host: "list_all (\<lambda>c. \<not> List.member ''/?#'' c) host" and segs: "list_all plain segments" "segments \<noteq> []"
  shows "url_path (''http://'' @ host @ path_of segments) = path_of segments"
proof -
  obtain rest where rest: "path_of segments = CHR ''/'' # rest"
    using segs(2) by (cases segments) (auto simp: path_of_def)
  have scheme: "without_scheme (''http://'' @ x) = ''//'' @ x" for x
  proof -
    have "takeWhile (\<lambda>c. c \<noteq> CHR '':'') (''http://'' @ x) = ''http''" by simp
    moreover have "list_all scheme_char ''http''" "\<not> digit_char (hd ''http'')" by code_simp+
    ultimately show ?thesis by (simp add: without_scheme_def Let_def)
  qed
  have abs: "CHR ''#'' \<notin> set (path_of segments)" "CHR ''?'' \<notin> set (path_of segments)" "CHR '';'' \<notin> set (path_of segments)"
    using path_plain [OF segs(1)] by fastforce+
  have params: "without_params (path_of segments) = path_of segments"
  proof -
    have "CHR '';'' \<notin> set (drop n (path_of segments))" for n using abs(3) by (meson in_set_dropD)
    then show ?thesis by (simp add: without_params_def Let_def takeWhile_absent)
  qed
  have "without_host (without_scheme (''http://'' @ host @ path_of segments)) = path_of segments"
    unfolding scheme unfolding rest by (rule host_dropped [OF host])
  then show ?thesis by (simp add: url_path_def takeWhile_absent abs params)
qed

text \<open>C16: The alarm receiver reads from an alarm URL what the ceilometer driver wrote into it: the
  request that goes on to the API is a trigger of the MEA of the URL, with its policy, its
  action and its key as the credential, when these parts have no character that a URL
  reserves.\<close>

theorem alarm_url_understood:
  assumes host: "list_all (\<lambda>c. \<not> List.member ''/?#'' c) (al_host A @ '':'' @ show_int (al_port A))"
    and parts: "list_all plain [mea, policy, action, key]"
    and req: "rq_method req = ''POST''" "rq_url req = create_alarm_url A key mea policy action" "truthy (rq_body req)"
    and data: "loads (rq_body req) = Inr data" and token: "create_token w = (Inr tok, w')"
  shows "process_request create_token loads req w = (Inr (req\<lparr>rq_token := Some tok,
     rq_body := PDict [(''trigger'', PDict [(''params'', PDict [(''data'', data), (''credential'', PStr key)]),
       (''policy_name'', PStr policy), (''action_name'', PStr action)])],
     rq_path_info := ''/meas/'' @ mea @ ''/triggers'', rq_query := []\<rparr>), w')"
proof -
  let ?segs = "[''v1.0'', ''meas'', mea, policy, action, key]"
  have segs: "list_all plain ?segs" using parts by simp
  have "create_alarm_url A key mea policy action =
      ''http://'' @ (al_host A @ '':'' @ show_int (al_port A)) @ path_of ?segs"
    by (simp add: create_alarm_url_def path_of_def)
  then have path: "url_path (rq_url req) = path_of ?segs"
    using url_path_plain [OF host segs] req(2) by simp
  have act: "unquote action = action" using parts by (simp add: unquote_plain plainD)
  have "handle_url (rq_url req) = Some (''/meas/'' @ mea @ ''/'', [] # ?segs)"
    unfolding handle_url_def path split_path [OF segs] by (simp add: act Let_def)
  then show ?thesis
    using req(1,3) data token by (simp add: process_request_def bindE_def trigger_body_def)
qed

lemma alarm_url_understood_witness:
  "\<exists>req. process_request (ret ''tok'') (\<lambda>v. Inr v)
     \<lparr>rq_method = ''POST'', rq_url = create_alarm_url \<lparr>al_host = ''host'', al_port = 9890\<rparr> ''8ef785'' ''m1'' ''p1'' ''respawn'',
      rq_token = None, rq_body = PDict [(''alarm_id'', PStr ''a'')], rq_path_info = [], rq_query = []\<rparr> () = (Inr req, ()) \<and>
     rq_path_info req = ''/meas/m1/triggers''"
proof -
  let ?A = "\<lparr>al_host = ''host'', al_port = 9890\<rparr>"
  let ?req = "\<lparr>rq_method = ''POST'', rq_url = create_alarm_url ?A ''8ef785'' ''m1'' ''p1'' ''respawn'',
      rq_token = None, rq_body = PDict [(''alarm_id'', PStr ''a'')], rq_path_info = [], rq_query = []\<rparr>"
  have host: "list_all (\<lambda>c. \<not> List.member ''/?#'' c) (al_host ?A @ '':'' @ show_int (al_port ?A))"
  proof -
    have "show_int 9890 = ''9890''" by (simp add: show_int_def show_nat.simps char_of_def bit_iff_odd)
    then show ?thesis by simp
  qed
  have parts: "list_all plain [''m1'', ''p1'', ''respawn'', ''8ef785'']" by code_simp
  have m: "rq_method ?req = ''POST''" and u: "rq_url ?req = create_alarm_url ?A ''8ef785'' ''m1'' ''p1'' ''respawn''"
    and b: "truthy (rq_body ?req)" by simp_all
  have d: "(\<lambda>v. Inr v :: exn + pyval) (rq_body ?req) = Inr (rq_body ?req)" by (rule refl)
  have tok: "ret ''tok'' () = (Inr ''tok'', ())" by simp
  show ?thesis
    using alarm_url_understood [OF host parts m u b, where loads = "\<lambda>v. Inr v" and create_token = "ret ''tok''", OF d tok]
    by (intro exI conjI) (assumption, simp)
qed

end
