(* ===== verification/Wsgi.thy ===== *)
theory Wsgi
  imports ApiBase PyOps
begin

text \<open>
  wsgi.py without its sockets: negotiation of the content type, (de)serialization,
  dispatch to the methods of a controller and the answers to faults. JSON and what webob
  does with headers are parameters. An environment is a record; the object that a request
  is routed to is named by the value under the key \<open>controller\<close> of its routing arguments.
\<close>

section \<open>Requests and responses\<close>

record http_request = request +
  hr_method :: string
  hr_url :: string
  hr_path :: string
  hr_content_type :: "string option"
  hr_accept :: string
  hr_accept_language :: string
  hr_headers :: "(string \<times> string) list"
  hr_body :: string
  hr_routing :: "pydict option"
  hr_context :: "ctx option"

record response =
  rs_status :: nat
  rs_content_type :: string
  rs_body :: string

text \<open>\<open>wl_media_type\<close> is the type that a Content-Type header names, without its parameters;
  \<open>wl_loads\<close> yields nothing for text that is no JSON; \<open>wl_explanation\<close> is the text that a
  class of webob has when it is raised without one.\<close>

record weblib =
  wl_dumps :: "pyval \<Rightarrow> string"
  wl_loads :: "string \<Rightarrow> pyval option"
  wl_media_type :: "string \<Rightarrow> string"
  wl_best_match :: "string \<Rightarrow> string list \<Rightarrow> string option"
  wl_explanation :: "exc_class \<Rightarrow> string"

definition JSON :: string where "JSON = ''application/json''"

text \<open>\<open>s.rsplit(c, 1)\<close>\<close>

definition rsplit_once :: "char \<Rightarrow> string \<Rightarrow> string list" where
  "rsplit_once c s = map rev (rev (split_once c (rev s)))"

text \<open>\<open>allowed_types\<close> is a string in the code, so the test is one for a substring.\<close>

definition get_content_type :: "weblib \<Rightarrow> 'x http_request_scheme \<Rightarrow> string option" where
  "get_content_type W r = (case hr_content_type r of None \<Rightarrow> None
     | Some h \<Rightarrow> if str_in (wl_media_type W h) JSON then Some (wl_media_type W h) else None)"

definition accepted_type :: "weblib \<Rightarrow> 'x http_request_scheme \<Rightarrow> string" where
  "accepted_type W r = (case wl_best_match W (hr_accept r) [JSON] of
     Some b \<Rightarrow> if b \<noteq> [] then b else JSON | None \<Rightarrow> JSON)"

definition best_match_content_type :: "weblib \<Rightarrow> 'x http_request_scheme \<Rightarrow> string" where
  "best_match_content_type W r = (let parts = rsplit_once (CHR ''.'') (hr_path r) in
     if 1 < length parts \<and> parts ! 1 = ''json'' then ''application/'' @ parts ! 1
     else case get_content_type W r of
       Some t \<Rightarrow> if t \<noteq> [] then t else accepted_type W r
     | None \<Rightarrow> accepted_type W r)"

text \<open>\<open>best\<close> is the choice of webob among the languages that the program is translated to.\<close>

definition best_match_language :: "(string \<Rightarrow> string option) \<Rightarrow> 'x http_request_scheme \<Rightarrow> string option" where
  "best_match_language best r = (if hr_accept_language r = [] then None else best (hr_accept_language r))"

text \<open>The property \<open>context\<close>; it is kept in the environment when it is made.\<close>

definition request_context :: "'x http_request_scheme \<Rightarrow> ctx" where
  "request_context r = (case hr_context r of None \<Rightarrow> get_admin_context | Some c \<Rightarrow> c)"

section \<open>Serialization\<close>

text \<open>The method named like the action, if the object has one, or its default method.\<close>

definition dispatch_action :: "(string \<times> 'm) list \<Rightarrow> 'm \<Rightarrow> pyval \<Rightarrow> 'm" where
  "dispatch_action methods dflt action = (case map_of methods (py_str action) of Some m \<Rightarrow> m | None \<Rightarrow> dflt)"

definition dict_serialize :: "(string \<times> (pyval \<Rightarrow> string)) list \<Rightarrow> pyval \<Rightarrow> pyval \<Rightarrow> string" where
  "dict_serialize methods data action = dispatch_action methods (\<lambda>_. []) action data"

definition json_serialize :: "weblib \<Rightarrow> pyval \<Rightarrow> pyval \<Rightarrow> string" where
  "json_serialize W data action = dispatch_action [] (wl_dumps W) action data"

type_synonym serializers = "(string \<times> (pyval \<Rightarrow> pyval \<Rightarrow> string)) list"
type_synonym deserializers = "(string \<times> (string \<Rightarrow> pyval \<Rightarrow> exn + pydict)) list"

definition invalid_content_type :: "string \<Rightarrow> exn" where
  "invalid_content_type t = Exc (Common InvalidContentType) [(''content_type'', PStr t)]"

definition serializers_of :: "weblib \<Rightarrow> serializers \<Rightarrow> serializers" where
  "serializers_of W extra = dict_update [(JSON, json_serialize W)] extra"

definition get_body_serializer :: "serializers \<Rightarrow> string \<Rightarrow> exn + (pyval \<Rightarrow> pyval \<Rightarrow> string)" where
  "get_body_serializer ss t = (case map_of ss t of None \<Rightarrow> Inl (invalid_content_type t) | Some f \<Rightarrow> Inr f)"

definition serialize_headers :: "response \<Rightarrow> response" where
  "serialize_headers rs = rs\<lparr>rs_status := 200\<rparr>"

definition serialize_body :: "serializers \<Rightarrow> response \<Rightarrow> pyval \<Rightarrow> string \<Rightarrow> pyval \<Rightarrow> exn + response" where
  "serialize_body ss rs data t action = (let rs1 = rs\<lparr>rs_content_type := t\<rparr> in
     if data = PNone then Inr rs1
     else bindS (get_body_serializer ss t) (\<lambda>f. Inr (rs1\<lparr>rs_body := f data action\<rparr>)))"

definition response_serialize :: "serializers \<Rightarrow> pyval \<Rightarrow> string \<Rightarrow> pyval \<Rightarrow> exn + response" where
  "response_serialize ss data t action =
     serialize_body ss (serialize_headers \<lparr>rs_status = 200, rs_content_type = ''text/html'', rs_body = []\<rparr>) data t action"

definition text_deserialize :: "string \<Rightarrow> pyval \<Rightarrow> exn + pydict" where
  "text_deserialize s action = dispatch_action [] (\<lambda>_. Inr []) action s"

definition from_json :: "weblib \<Rightarrow> string \<Rightarrow> exn + pyval" where
  "from_json W s = (case wl_loads W s of Some v \<Rightarrow> Inr v
     | None \<Rightarrow> Inl (Exc (Common MalformedRequestBody) [(''reason'', PStr ''Cannot understand JSON'')]))"

definition json_deserialize :: "weblib \<Rightarrow> string \<Rightarrow> pyval \<Rightarrow> exn + pydict" where
  "json_deserialize W s action =
     dispatch_action [] (\<lambda>s. bindS (from_json W s) (\<lambda>v. Inr [(''body'', v)])) action s"

definition deserializers_of :: "weblib \<Rightarrow> deserializers \<Rightarrow> deserializers" where
  "deserializers_of W extra = dict_update [(JSON, json_deserialize W)] extra"

definition get_body_deserializer :: "deserializers \<Rightarrow> string \<Rightarrow> exn + (string \<Rightarrow> pyval \<Rightarrow> exn + pydict)" where
  "get_body_deserializer ds t = (case map_of ds t of None \<Rightarrow> Inl (invalid_content_type t) | Some f \<Rightarrow> Inr f)"

definition deserialize_headers :: "'x http_request_scheme \<Rightarrow> pyval \<Rightarrow> pydict" where
  "deserialize_headers r action = dispatch_action [] (\<lambda>_. []) action r"

definition deserialize_body :: "weblib \<Rightarrow> deserializers \<Rightarrow> 'x http_request_scheme \<Rightarrow> pyval \<Rightarrow> exn + pydict" where
  "deserialize_body W ds r action = (if hr_body r = [] then Inr []
     else bindS (get_body_deserializer ds (best_match_content_type W r)) (\<lambda>f. f (hr_body r) action))"

definition get_action_args :: "pydict option \<Rightarrow> pydict" where
  "get_action_args routing = (case routing of None \<Rightarrow> []
     | Some args \<Rightarrow> dict_del ''format'' (dict_del ''controller'' args))"

text \<open>The action, the arguments of the method and the content type of the answer.\<close>

definition request_deserialize ::
  "weblib \<Rightarrow> deserializers \<Rightarrow> 'x http_request_scheme \<Rightarrow> exn + pyval \<times> pydict \<times> string" where
  "request_deserialize W ds r = (let args = get_action_args (hr_routing r);
       action = dict_get ''action'' PNone args;
       args1 = dict_update (dict_del ''action'' args) (deserialize_headers r action) in
     bindS (deserialize_body W ds r action) (\<lambda>body.
       Inr (action, dict_update args1 body, best_match_content_type W r)))"

section \<open>Faults\<close>

definition fault_explanation :: "weblib \<Rightarrow> exn \<Rightarrow> pyval" where
  "fault_explanation W e = dict_get ''explanation'' (PStr (wl_explanation W (exn_class e))) (exn_args e)"

definition default_body :: "weblib \<Rightarrow> exn \<Rightarrow> pyval" where
  "default_body W e = PDict [(''Error'', PDict [(''code'', PInt (int (webob_code (exn_class e)))),
     (''message'', fault_explanation W e)])]"

text \<open>\<open>Fault.__call__\<close> with the body function that it was made with.\<close>

definition fault_call :: "weblib \<Rightarrow> 'x http_request_scheme \<Rightarrow> exn \<Rightarrow> (exn \<Rightarrow> pyval) \<Rightarrow> exn + response" where
  "fault_call W r e body = (let t = best_match_content_type W r in
     if t = JSON then Inr \<lparr>rs_status = webob_code (exn_class e), rs_content_type = t,
       rs_body = json_serialize W (body e) (PStr ''default'')\<rparr>
     else Inl key_error)"

text \<open>What a method of a controller, and then the application, gives: a value, a response
  of its own or a fault with the body function it has.\<close>

datatype wsgi_result = Value pyval | Reply response | Fault exn "exn \<Rightarrow> pyval"

type_synonym 's wsgi_controller = "string \<Rightarrow> (http_request \<Rightarrow> pydict \<Rightarrow> ('s, wsgi_result) prog) option"

text \<open>\<open>getattr(controller, action)\<close>\<close>

definition controller_method :: "'s wsgi_controller \<Rightarrow> pyval \<Rightarrow> exn + (http_request \<Rightarrow> pydict \<Rightarrow> ('s, wsgi_result) prog)" where
  "controller_method K action = (case action of
     PStr a \<Rightarrow> (case K a of None \<Rightarrow> Inl attribute_error | Some m \<Rightarrow> Inr m) | _ \<Rightarrow> Inl type_error)"

section \<open>Applications\<close>

definition bad_request :: "string \<Rightarrow> exn" where
  "bad_request why = Exc (Lib HTTPBadRequest) [(''explanation'', PStr why)]"

text \<open>\<open>Resource.dispatch\<close> and \<open>Resource.__call__\<close>\<close>

definition wsgi_dispatch :: "weblib \<Rightarrow> 's wsgi_controller \<Rightarrow> http_request \<Rightarrow> pyval \<Rightarrow> pydict \<Rightarrow> ('s, wsgi_result) prog" where
  "wsgi_dispatch W K r action args = bindE (pureE (controller_method K action)) (\<lambda>m.
     catchE (m r args) (\<lambda>e. if isinstance e (Lib TypeError)
       then ret (Fault (Exc (Lib HTTPBadRequest) []) (default_body W)) else raise e))"

definition wsgi_resource :: "weblib \<Rightarrow> serializers \<Rightarrow> deserializers \<Rightarrow> (exn \<Rightarrow> pyval) \<Rightarrow> 's wsgi_controller \<Rightarrow>
    http_request \<Rightarrow> ('s, wsgi_result) prog" where
  "wsgi_resource W ss ds body K r = (case request_deserialize W ds r of
     Inl e \<Rightarrow> if isinstance e (Common InvalidContentType)
          then ret (Fault (bad_request ''Unsupported Content-Type'') (default_body W))
        else if isinstance e (Common MalformedRequestBody)
          then ret (Fault (bad_request ''Malformed request body'') (default_body W))
        else raise e
   | Inr (action, args, accept) \<Rightarrow>
       bindE (catchE (wsgi_dispatch W K r action args)
         (\<lambda>e. ret (Fault (if isinstance e (Lib HTTPException) then e else Exc (Lib HTTPServerError) []) body))) (\<lambda>res.
       case res of
         Value v \<Rightarrow> if is_dict v \<or> v = PNone
           then pureE (map_sum id Reply (response_serialize ss v accept action)) else ret res
       | _ \<Rightarrow> ret res))"

text \<open>\<open>Serializer\<close>: any failure to read is a bad request.\<close>

definition serializer_serialize :: "weblib \<Rightarrow> pyval \<Rightarrow> string \<Rightarrow> exn + string" where
  "serializer_serialize W data t = bindS (get_body_serializer (serializers_of W []) t)
     (\<lambda>f. Inr (f data (PStr ''default'')))"

definition serializer_deserialize :: "weblib \<Rightarrow> string \<Rightarrow> string \<Rightarrow> exn + pydict" where
  "serializer_deserialize W s t = (case bindS (get_body_deserializer (deserializers_of W []) t)
       (\<lambda>f. f s (PStr ''default'')) of
     Inl _ \<Rightarrow> Inl (Exc (Lib HTTPBadRequest) [(''detail'', PStr ''Could not deserialize data'')])
   | Inr d \<Rightarrow> Inr d)"

text \<open>\<open>Controller\<close>, the base of the controllers of the extensions.\<close>

definition controller_serialize :: "weblib \<Rightarrow> pyval \<Rightarrow> string \<Rightarrow> exn + string" where
  "controller_serialize W data t = (case serializer_serialize W data t of
     Inl e \<Rightarrow> if isinstance e (Common InvalidContentType)
       then Inl (Exc (Lib HTTPNotAcceptable) [(''detail'', PStr t)]) else Inl e
   | Inr s \<Rightarrow> Inr s)"

definition controller_deserialize :: "weblib \<Rightarrow> string \<Rightarrow> string \<Rightarrow> exn + pyval" where
  "controller_deserialize W s t = bindS (serializer_deserialize W s t) (\<lambda>d. subscr ''body'' (PDict d))"

definition dict_remove :: "string \<Rightarrow> pydict \<Rightarrow> exn + pydict" where
  "dict_remove k d = (if has_key k d then Inr (dict_del k d) else Inl key_error)"

definition controller_call :: "weblib \<Rightarrow> 's wsgi_controller \<Rightarrow> http_request \<Rightarrow> ('s, wsgi_result) prog" where
  "controller_call W K r = (case hr_routing r of None \<Rightarrow> raise key_error | Some args0 \<Rightarrow>
     bindE (pureE (subscr ''action'' (PDict args0))) (\<lambda>action.
     bindE (pureE (controller_method K action)) (\<lambda>m.
     bindE (pureE (dict_remove ''controller'' args0)) (\<lambda>args1.
     bindE (m r (dict_del ''format'' (dict_del ''action'' args1))) (\<lambda>res. case res of
       Value PNone \<Rightarrow> ret (Reply \<lparr>rs_status = 204, rs_content_type = [], rs_body = []\<rparr>)
     | Value (PDict d) \<Rightarrow>
         let t = best_match_content_type W r in
         bindE (pureE (controller_serialize W (PDict d) t)) (\<lambda>s.
           ret (Reply \<lparr>rs_status = 200, rs_content_type = t, rs_body = s\<rparr>))
     | _ \<Rightarrow> ret res)))))"

text \<open>\<open>Router._dispatch\<close>: no match is answered with 404, a match names the application.\<close>

definition router_dispatch :: "'x http_request_scheme \<Rightarrow> exn + wsgi_result" where
  "router_dispatch r = (case hr_routing r of None \<Rightarrow> Inl key_error
     | Some m \<Rightarrow> if m = [] then Inr (Fault (Exc (Lib HTTPNotFound)
           [(''explanation'', PStr ''The resource could not be found.'')]) (\<lambda>e. PNone))
         else map_sum id Value (subscr ''controller'' (PDict m)))"

type_synonym 's wsgi_app = "http_request \<Rightarrow> ('s, wsgi_result) prog"

definition middleware :: "(http_request \<Rightarrow> ('s, wsgi_result option) prog) \<Rightarrow> (wsgi_result \<Rightarrow> ('s, wsgi_result) prog) \<Rightarrow>
    's wsgi_app \<Rightarrow> 's wsgi_app" where
  "middleware process_request process_response app r =
     bindE (process_request r) (\<lambda>res. case res of Some x \<Rightarrow> ret x | None \<Rightarrow> bindE (app r) process_response)"

section \<open>Facts\<close>

lemma JSON_nonempty [simp]: "JSON \<noteq> []" "[] \<noteq> JSON"
  by (simp_all add: JSON_def)

lemma content_type_part: "get_content_type W r = Some t \<Longrightarrow> str_in t JSON"
  by (auto simp: get_content_type_def split: option.splits if_splits)

text \<open>Without a Content-Type that is a piece of \<open>application/json\<close>, JSON is assumed.\<close>

definition best_match_ok :: "weblib \<Rightarrow> bool" where
  "best_match_ok W \<longleftrightarrow> (\<forall>a. wl_best_match W a [JSON] = Some JSON \<or> wl_best_match W a [JSON] = None)"

lemma accepted_JSON: "best_match_ok W \<Longrightarrow> accepted_type W r = JSON"
  unfolding best_match_ok_def accepted_type_def by (drule spec [of _ "hr_accept r"]) auto

lemma best_match_cases:
  assumes "best_match_ok W"
  shows "best_match_content_type W r = JSON \<or>
    (\<exists>t. get_content_type W r = Some t \<and> t \<noteq> [] \<and> best_match_content_type W r = t)"
proof (cases "1 < length (rsplit_once (CHR ''.'') (hr_path r)) \<and> rsplit_once (CHR ''.'') (hr_path r) ! 1 = ''json''")
  case True
  then show ?thesis by (simp add: best_match_content_type_def Let_def JSON_def)
next
  case False
  then show ?thesis
    by (auto simp: best_match_content_type_def Let_def accepted_JSON [OF assms] split: option.splits)
qed

lemma best_match_untyped:
  assumes "best_match_ok W" and "get_content_type W r = None"
  shows "best_match_content_type W r = JSON"
  using best_match_cases [OF assms(1), of r] assms(2) by auto

end
