(* ===== verification/WebApp.thy ===== *)
theory WebApp
  imports Wsgi Policy
begin

text \<open>
  The applications behind the server: the API resource (api/v1/resource.py) around a
  controller of api/v1/base.py, the context that Keystone's headers give (auth.py), and
  the lists of versions and resources (api/versions.py, api/views/versions.py,
  api/v1/router.py).
\<close>

section \<open>The API resource\<close>

definition action_status :: "(string \<times> nat) list" where
  "action_status = [(''create'', 201), (''delete'', 204)]"

definition format_types :: "(string \<times> string) list" where
  "format_types = [(''json'', JSON)]"

definition resource_type :: "weblib \<Rightarrow> pyval \<Rightarrow> http_request \<Rightarrow> string" where
  "resource_type W fmt r = (case fmt of
     PStr f \<Rightarrow> (case map_of format_types f of Some t \<Rightarrow> t | None \<Rightarrow> best_match_content_type W r)
   | _ \<Rightarrow> best_match_content_type W r)"

text \<open>The arguments of the method with the body, if there is one.\<close>

definition body_args :: "deserializers \<Rightarrow> string \<Rightarrow> string \<Rightarrow> pydict \<Rightarrow> exn + pydict" where
  "body_args ds t body args = (if body = [] then Inr args
     else case map_of ds t of None \<Rightarrow> Inl attribute_error
       | Some f \<Rightarrow> bindS (f body (PStr ''default'')) (\<lambda>d. bindS (subscr ''body'' (PDict d)) (\<lambda>b.
           Inr (dict_set ''body'' b args))))"

definition status_of :: "pyval \<Rightarrow> nat" where
  "status_of action = (case action of
     PStr a \<Rightarrow> (case map_of action_status a of Some n \<Rightarrow> n | None \<Rightarrow> 200) | _ \<Rightarrow> 200)"

text \<open>The methods of the API controllers give values.\<close>

type_synonym 's methods = "string \<Rightarrow> (http_request \<Rightarrow> pydict \<Rightarrow> ('s, pyval) prog) option"

definition api_method :: "'s methods \<Rightarrow> pyval \<Rightarrow> exn + (http_request \<Rightarrow> pydict \<Rightarrow> ('s, pyval) prog)" where
  "api_method K action = (case action of
     PStr a \<Rightarrow> (case K a of None \<Rightarrow> Inl attribute_error | Some m \<Rightarrow> Inr m) | _ \<Rightarrow> Inl type_error)"

text \<open>The body of the \<open>try\<close> block, then \<open>Resource\<close>: a mapped exception, or the response to
  the result.\<close>

definition run_method :: "deserializers \<Rightarrow> string \<Rightarrow> 's methods \<Rightarrow> pyval \<Rightarrow> pydict \<Rightarrow> http_request \<Rightarrow>
    ('s, pyval) prog" where
  "run_method ds t K action args r = bindE (pureE (body_args ds t (hr_body r) args)) (\<lambda>args1.
     bindE (pureE (api_method K action)) (\<lambda>m. m r args1))"

definition api_resource :: "weblib \<Rightarrow> (exc_class \<times> nat) list \<Rightarrow> deserializers \<Rightarrow> serializers \<Rightarrow> 's methods \<Rightarrow>
    http_request \<Rightarrow> ('s, http_answer + response) prog" where
  "api_resource W faults ds ss K r = (let
       args0 = dict_del ''controller'' (case hr_routing r of None \<Rightarrow> [] | Some a \<Rightarrow> a);
       fmt = dict_get ''format'' PNone args0; args1 = dict_del ''format'' args0;
       action = dict_get ''action'' PNone args1; args2 = dict_del ''action'' args1;
       t = resource_type W fmt r in
     bindE (catchE (bindE (run_method (deserializers_of W ds) t K action args2 r) (\<lambda>v. ret (Inr v)))
        (\<lambda>e. ret (Inl (convert_exception_to_http_exc faults e)))) (\<lambda>res.
     case res of
       Inl answer \<Rightarrow> ret (Inl answer)
     | Inr v \<Rightarrow> (case map_of (serializers_of W ss) t of
         None \<Rightarrow> raise attribute_error
       | Some f \<Rightarrow> let body = f v (PStr ''default''); status = status_of action in
           ret (Inr (if status = 204 then \<lparr>rs_status = 204, rs_content_type = [], rs_body = []\<rparr>
             else \<lparr>rs_status = status, rs_content_type = t, rs_body = body\<rparr>)))))"

section \<open>The methods of a controller\<close>

definition text_arg :: "string \<Rightarrow> pydict \<Rightarrow> string option" where
  "text_arg k args = (case map_of args k of Some (PStr s) \<Rightarrow> Some s | _ \<Rightarrow> None)"

definition parent_id :: "controller \<Rightarrow> pydict \<Rightarrow> string option" where
  "parent_id C args = (case c_parent C of None \<Rightarrow> None | Some m \<Rightarrow> text_arg (m @ ''_id'') args)"

text \<open>A required argument that is missing raises TypeError.\<close>

definition with_id :: "pydict \<Rightarrow> (string \<Rightarrow> ('s, 'a) prog) \<Rightarrow> ('s, 'a) prog" where
  "with_id args m = (case text_arg ''id'' args of None \<Rightarrow> raise type_error | Some i \<Rightarrow> m i)"

definition as_value :: "('s, pydict) prog \<Rightarrow> ('s, pyval) prog" where
  "as_value m = bindE m (\<lambda>d. ret (PDict d))"

definition body_arg :: "pydict \<Rightarrow> pyval" where
  "body_arg args = dict_get ''body'' PNone args"

text \<open>All arguments of a DELETE go to the plugin, whose methods know no \<open>body\<close>.\<close>

definition without_body :: "pydict \<Rightarrow> 's plugin \<Rightarrow> 's plugin" where
  "without_body args P = (if has_key ''body'' args then P\<lparr>p_delete := (\<lambda>c i parent. raise type_error)\<rparr> else P)"

definition api_methods :: "api_env \<Rightarrow> controller \<Rightarrow> 's plugin \<Rightarrow> 's methods" where
  "api_methods V C P name =
    (if name = ''index'' then Some (\<lambda>r args. as_value
         (index_items V C P (request_context r) (request.truncate r) (parent_id C args)))
     else if name = ''show'' then Some (\<lambda>r args. with_id args (\<lambda>i. as_value
         (show_item V C P (request_context r) (request.truncate r) i (parent_id C args))))
     else if name = ''create'' then Some (\<lambda>r args. as_value
         (create V C P (request_context r) (body_arg args) (parent_id C args)))
     else if name = ''update'' then Some (\<lambda>r args. with_id args (\<lambda>i. as_value
         (update V C P (request_context r) i (body_arg args) (parent_id C args))))
     else if name = ''delete'' then Some (\<lambda>r args. with_id args (\<lambda>i.
         thenE (delete V C (without_body args P) (request_context r) i (parent_id C args)) (ret PNone)))
     else if List.member (c_member_actions C) name then Some (\<lambda>r args. with_id args (\<lambda>i.
         handle_action V C P (request_context r) name i (map_of args ''body'')))
     else None)"

text \<open>\<open>create_resource\<close>: the controller with the faults of api/v1/base.py.\<close>

definition create_resource :: "weblib \<Rightarrow> api_env \<Rightarrow> controller \<Rightarrow> 's plugin \<Rightarrow> http_request \<Rightarrow>
    ('s, http_answer + response) prog" where
  "create_resource W V C P = api_resource W fault_map [] [] (api_methods V C P)"

section \<open>Authentication\<close>

text \<open>The context of the headers that Keystone's middleware sets, or 401. A header is known
  by its name in the environment.\<close>

definition header :: "string \<Rightarrow> 'x http_request_scheme \<Rightarrow> string option" where
  "header k r = map_of (hr_headers r) k"

definition header_roles :: "'x http_request_scheme \<Rightarrow> string list" where
  "header_roles r = map strip (split_char (CHR '','') (case header ''X_ROLES'' r of None \<Rightarrow> [] | Some s \<Rightarrow> s))"

definition keystone_context :: "(ctx \<Rightarrow> bool) \<Rightarrow> http_request \<Rightarrow> exn + http_request" where
  "keystone_context admin r = (case header ''X_USER_ID'' r of
       None \<Rightarrow> Inl (Exc (Lib HTTPUnauthorized) [])
     | Some u \<Rightarrow> if u = [] then Inl (Exc (Lib HTTPUnauthorized) [])
       else Inr (r\<lparr>hr_context := Some (make_context admin (Some u) (header ''X_PROJECT_ID'' r) None
         (Some (header_roles r))
         (case header ''X_AUTH_TOKEN'' r of None \<Rightarrow> header ''X_STORAGE_TOKEN'' r | Some t \<Rightarrow> Some t)
         (header ''X_PROJECT_NAME'' r) (header ''X_USER_NAME'' r))\<rparr>))"

text \<open>\<open>pipeline_factory\<close>: the last word names the application, the others its filters.\<close>

definition pipeline_factory :: "(string \<Rightarrow> exn + ('a \<Rightarrow> 'a)) \<Rightarrow> (string \<Rightarrow> exn + 'a) \<Rightarrow> string \<Rightarrow>
    (string \<times> string) list \<Rightarrow> exn + 'a" where
  "pipeline_factory get_filter get_app strategy conf = (case map_of conf strategy of
     None \<Rightarrow> Inl key_error
   | Some text \<Rightarrow> let names = split_ws text in
       bindS (mapS get_filter (butlast names)) (\<lambda>filters.
       bindS (if names = [] then Inl index_error else get_app (last names)) (\<lambda>app.
         Inr (foldl (\<lambda>a f. f a) app (rev filters)))))"

section \<open>Versions and resources\<close>

text \<open>\<open>os.path.join(base, name)\<close> for a relative name\<close>

definition path_join :: "string \<Rightarrow> string \<Rightarrow> string" where
  "path_join base name = (if base = [] \<or> last base = CHR ''/'' then base @ name else base @ ''/'' @ name)"

definition build_links :: "string \<Rightarrow> string \<Rightarrow> pyval" where
  "build_links base version =
     PList [PDict [(''rel'', PStr ''self''), (''href'', PStr (path_join base version))]]"

definition build_version :: "string \<Rightarrow> string \<times> string \<Rightarrow> pyval" where
  "build_version base v = PDict [(''id'', PStr (fst v)), (''status'', PStr (snd v)), (''links'', build_links base (fst v))]"

definition versions_app :: "weblib \<Rightarrow> string \<Rightarrow> 'x http_request_scheme \<Rightarrow> exn + wsgi_result" where
  "versions_app W base r =
     (if hr_path r \<noteq> ''/'' then Inr (Fault (Exc (Lib HTTPNotFound)
          [(''explanation'', PStr ''Unknown API version specified'')]) (\<lambda>e. PNone))
      else let t = best_match_content_type W r in
        bindS (serializer_serialize W (PDict [(''versions'', PList (map (build_version base) [(''v1.0'', ''CURRENT'')]))]) t)
          (\<lambda>s. Inr (Reply \<lparr>rs_status = 200, rs_content_type = t, rs_body = s\<rparr>)))"

definition index_app :: "weblib \<Rightarrow> (string \<Rightarrow> string \<Rightarrow> string) \<Rightarrow> (string \<times> string) list \<Rightarrow> http_request \<Rightarrow>
    exn + wsgi_result" where
  "index_app W urljoin resources r = (let
       layout = map (\<lambda>(name, coll). PDict [(''name'', PStr name), (''collection'', PStr coll),
         (''links'', PList [PDict [(''rel'', PStr ''self''), (''href'', PStr (urljoin (path_url r) coll))]])]) resources;
       t = best_match_content_type W r in
     bindS (serializer_serialize W (PDict [(''resources'', PList layout)]) t)
       (\<lambda>s. Inr (Reply \<lparr>rs_status = 200, rs_content_type = t, rs_body = s\<rparr>)))"

end
