(* ===== verification/WebProps.thy ===== *)
theory WebProps
  imports WebApp ApiProps
begin

text \<open>
  What a client of the API is answered: the status of every answer, the tenant that its
  headers give it, and the requests that are carried out but reported as failed.
\<close>

section \<open>Answers\<close>

text \<open>The negotiated type is JSON: no Content-Type, or one that is not a piece of it.\<close>

definition json_request :: "weblib \<Rightarrow> http_request \<Rightarrow> bool" where
  "json_request W r \<longleftrightarrow> (case get_content_type W r of None \<Rightarrow> True | Some t \<Rightarrow> t = [] \<or> t = JSON)"

lemma json_resource_type: "best_match_ok W \<Longrightarrow> json_request W r \<Longrightarrow> resource_type W fmt r = JSON"
  using best_match_cases [of W r]
  by (auto simp: resource_type_def json_request_def format_types_def split: pyval.splits option.splits)

lemma serializer_of_JSON: "map_of (serializers_of W []) JSON = Some (json_serialize W)"
  by (simp add: serializers_of_def dict_update_def)

lemma deserializer_of_JSON: "map_of (deserializers_of W []) JSON = Some (json_deserialize W)"
  by (simp add: deserializers_of_def dict_update_def)

lemma status_of_cases: "status_of action = 200 \<or> status_of action = 201 \<or> status_of action = 204"
  by (auto simp: status_of_def action_status_def split: pyval.splits)

lemma mapped_code_error: "list_all (\<lambda>(f, n). 400 \<le> n) faults \<Longrightarrow> 400 \<le> mapped_code faults e"
  by (induction faults) (auto simp: mapped_code_def)

lemma convert_error:
  "list_all (\<lambda>(f, n). 400 \<le> n) faults \<Longrightarrow> 400 \<le> http_status (convert_exception_to_http_exc faults e)"
  by (simp add: convert_exception_to_http_exc_def webob_code_def mapped_code_error)

text \<open>The outcome of the method as the resource reports it.\<close>

definition reported :: "weblib \<Rightarrow> (exc_class \<times> nat) list \<Rightarrow> pyval \<Rightarrow> exn + pyval \<Rightarrow> http_answer + response" where
  "reported W faults action res = (case res of
     Inl e \<Rightarrow> Inl (convert_exception_to_http_exc faults e)
   | Inr v \<Rightarrow> Inr (if status_of action = 204 then \<lparr>rs_status = 204, rs_content_type = [], rs_body = []\<rparr>
       else \<lparr>rs_status = status_of action, rs_content_type = JSON, rs_body = wl_dumps W v\<rparr>))"

lemma tried: "bindE (catchE (bindE m (\<lambda>v. ret (Inr v))) (\<lambda>e. ret (Inl (h e)))) k s =
    k (map_sum h id (fst (m s))) (snd (m s))"
  by (cases "m s"; cases "fst (m s)") (auto simp: bindE_def catchE_def)

text \<open>The action and the arguments that the routing gives.\<close>

definition action_of :: "http_request \<Rightarrow> pyval" where
  "action_of r = dict_get ''action'' PNone (dict_del ''format'' (dict_del ''controller''
     (case hr_routing r of None \<Rightarrow> [] | Some a \<Rightarrow> a)))"

definition args_of :: "http_request \<Rightarrow> pydict" where
  "args_of r = dict_del ''action'' (dict_del ''format'' (dict_del ''controller''
     (case hr_routing r of None \<Rightarrow> [] | Some a \<Rightarrow> a)))"

lemma api_resource_json:
  assumes "best_match_ok W" and "json_request W r"
  shows "api_resource W faults [] [] K r s = (let m = run_method (deserializers_of W []) JSON K (action_of r) (args_of r) r s in
     (Inr (reported W faults (action_of r) (fst m)), snd m))"
  unfolding api_resource_def Let_def tried json_resource_type [OF assms]
  by (cases "fst (run_method (deserializers_of W []) JSON K (action_of r) (args_of r) r s)")
    (simp_all add: action_of_def args_of_def reported_def serializer_of_JSON json_serialize_def dispatch_action_def)


section \<open>Requests that are carried out and reported as failed\<close>

definition format_of :: "http_request \<Rightarrow> pyval" where
  "format_of r = dict_get ''format'' PNone (dict_del ''controller'' (case hr_routing r of None \<Rightarrow> [] | Some a \<Rightarrow> a))"

lemma api_resource_untyped:
  assumes "best_match_content_type W r \<noteq> JSON" and "format_of r \<noteq> PStr ''json''"
  shows "api_resource W faults [] [] K r s =
    (let m = run_method (deserializers_of W []) (best_match_content_type W r) K (action_of r) (args_of r) r s in
     (case fst m of Inl e \<Rightarrow> Inr (Inl (convert_exception_to_http_exc faults e)) | Inr v \<Rightarrow> Inl attribute_error, snd m))"
proof -
  have t: "resource_type W (format_of r) r = best_match_content_type W r"
    using assms(2) by (auto simp: resource_type_def format_types_def split: pyval.splits)
  have none: "map_of (serializers_of W []) (best_match_content_type W r) = None"
    using assms(1) by (simp add: serializers_of_def dict_update_def)
  show ?thesis
    unfolding api_resource_def Let_def tried t [unfolded format_of_def]
    by (cases "fst (run_method (deserializers_of W []) (best_match_content_type W r) K (action_of r) (args_of r) r s)")
      (simp_all add: action_of_def args_of_def none)
qed

lemma converted_attribute_error: "http_status (convert_exception_to_http_exc fault_map attribute_error) = 500"
  by code_simp

text \<open>A content type is accepted when it is a piece of the text \<open>application/json\<close>, such as
  \<open>json\<close>. A DELETE with such a type is carried out, and its client is told of a server
  error; if it has a body, it is refused with a server error before anything is done.\<close>

theorem fragment_type_misreports:
  assumes type: "best_match_content_type W r \<noteq> JSON" "format_of r \<noteq> PStr ''json''"
    and action: "action_of r = PStr ''delete''" "text_arg ''id'' (args_of r) = Some i" "\<not> has_key ''body'' (args_of r)"
    and deleted: "delete V C P (request_context r) i (parent_id C (args_of r)) s = (Inr (), t)"
  shows "if hr_body r = [] then create_resource W V C P r s = (Inl attribute_error, t)
    else \<exists>a. create_resource W V C P r s = (Inr (Inl a), s) \<and> http_status a = 500"
proof (cases "hr_body r = []")
  case True
  have "run_method (deserializers_of W []) (best_match_content_type W r) (api_methods V C P) (action_of r) (args_of r) r s
      = (Inr PNone, t)"
    using action deleted True
    by (simp add: run_method_def body_args_def bindE_def api_method_def api_methods_def with_id_def without_body_def thenE_def)
  with True show ?thesis by (simp add: create_resource_def api_resource_untyped [OF type])
next
  case False
  have "map_of (deserializers_of W []) (best_match_content_type W r) = None"
    using type(1) by (simp add: deserializers_of_def dict_update_def)
  with False have "run_method (deserializers_of W []) (best_match_content_type W r) (api_methods V C P) (action_of r) (args_of r) r s
      = (Inl attribute_error, s)"
    by (simp add: run_method_def body_args_def bindE_def)
  with False show ?thesis
    by (simp add: create_resource_def api_resource_untyped [OF type] converted_attribute_error)
qed

section \<open>The tenant of a request\<close>

text \<open>The body of a request for one resource that names another tenant is not accepted.\<close>

lemma foreign_tenant_prepared:
  assumes res: "res = c_resource C" and t: "map_of d ''tenant_id'' = Some t" "t \<noteq> opt_str (tenant_id c)" and "\<not> is_admin c"
  shows "prepare_body N c is_create res infos bulk (PDict [(res, PDict d)]) = Inl bad_body"
proof -
  have "populate_tenant_id c d is_create = Inl bad_body"
    using t \<open>\<not> is_admin c\<close> by (simp add: populate_tenant_id_def has_key_map_of dict_get_def)
  then show ?thesis by (simp add: prepare_body.simps prepare_single_def prepare_res_def dict_get_def)
qed

lemma converted_bad_body: "http_status (convert_exception_to_http_exc faults bad_body) = 400"
  by (simp add: convert_exception_to_http_exc_def bad_body_def webob_code_def exc_eval)

text \<open>C7: The tenant of a request is the project that Keystone's headers name. A request that is
  authenticated so, by a caller who is no admin, and that creates or updates a resource
  with another tenant in its body is answered with 400, and the plugin is not called: the
  state is as it was.\<close>

theorem foreign_tenant_refused:
  assumes auth: "keystone_context admin r0 = Inr r" "\<not> is_admin (request_context r)"
    and json: "best_match_ok W" "json_request W r"
    and action: "action_of r = PStr ''create'' \<or> action_of r = PStr ''update'' \<and> text_arg ''id'' (args_of r) = Some i"
    and body: "hr_body r \<noteq> []" "wl_loads W (hr_body r) = Some (PDict [(c_resource C, PDict d)])"
    and tenant: "map_of d ''tenant_id'' = Some t" "t \<noteq> opt_str (header ''X_PROJECT_ID'' r0)"
  shows "\<exists>a. create_resource W V C P r s = (Inr (Inl a), s) \<and> http_status a = 400"
proof -
  let ?c = "request_context r"
  have c: "tenant_id ?c = header ''X_PROJECT_ID'' r0"
    using auth(1) by (auto simp: keystone_context_def request_context_def make_context_def Let_def split: option.splits if_splits)
  have refused: "prepare_body (a_net V) ?c is_create (c_resource C) (c_attr_info C) (c_allow_bulk C)
      (PDict [(c_resource C, PDict d)]) = Inl bad_body" for is_create
    by (rule foreign_tenant_prepared [OF refl tenant(1)]) (use tenant(2) c auth(2) in simp_all)
  have args: "body_args (deserializers_of W []) JSON (hr_body r) (args_of r)
      = Inr (dict_set ''body'' (PDict [(c_resource C, PDict d)]) (args_of r))"
    using body by (simp add: body_args_def deserializer_of_JSON json_deserialize_def dispatch_action_def from_json_def)
  have got: "body_arg (dict_set ''body'' v as) = v" "text_arg ''id'' (dict_set ''body'' v as) = text_arg ''id'' as" for v as
    by (simp_all add: body_arg_def text_arg_def dict_get_def)
  have "run_method (deserializers_of W []) JSON (api_methods V C P) (action_of r) (args_of r) r s = (Inl bad_body, s)"
    using action by (elim disjE)
      (simp_all add: run_method_def args bindE_def api_method_def api_methods_def as_value_def with_id_def got
        create_def update_def refused)
  then show ?thesis
    by (simp add: create_resource_def api_resource_json [OF json] Let_def reported_def converted_bad_body)
qed

section \<open>Witnesses\<close>

text \<open>The only JSON text here is a body that creates an MEA for the tenant \<open>t2\<close>.\<close>

definition sample_weblib :: weblib where
  "sample_weblib = \<lparr>wl_dumps = (\<lambda>v. ''x''),
     wl_loads = (\<lambda>s. if s = ''mea'' then Some (PDict [(''mea'', PDict [(''tenant_id'', PStr ''t2'')])]) else None),
     wl_media_type = id, wl_best_match = (\<lambda>a offers. None), wl_explanation = (\<lambda>c. [])\<rparr>"

definition api_request :: "string option \<Rightarrow> pydict \<Rightarrow> string \<Rightarrow> http_request" where
  "api_request ctype routing body = \<lparr>GET = [], path_url = ''/v1.0/meas'', hr_method = ''POST'', hr_url = ''/v1.0/meas'',
     hr_path = ''/v1'', hr_content_type = ctype, hr_accept = [], hr_accept_language = [],
     hr_headers = [(''X_USER_ID'', ''u''), (''X_PROJECT_ID'', ''t1''), (''X_ROLES'', ''member'')],
     hr_body = body, hr_routing = Some routing, hr_context = Some (user_ctx ''t1'')\<rparr>"

lemma sample_best_match: "best_match_ok sample_weblib"
  by (simp add: best_match_ok_def sample_weblib_def)


lemma fragment_type_misreports_witness:
  "create_resource sample_weblib sample_env sample_controller sample_plugin
     (api_request (Some ''json'') [(''action'', PStr ''delete''), (''id'', PStr ''a'')] []) [''a''] = (Inl attribute_error, [])"
proof -
  let ?r = "api_request (Some ''json'') [(''action'', PStr ''delete''), (''id'', PStr ''a'')] []"
  have "best_match_content_type sample_weblib ?r \<noteq> JSON" "format_of ?r \<noteq> PStr ''json''" "action_of ?r = PStr ''delete''"
    "text_arg ''id'' (args_of ?r) = Some ''a''" "\<not> has_key ''body'' (args_of ?r)" by code_simp+
  moreover have "delete sample_env sample_controller sample_plugin (request_context ?r) ''a''
      (parent_id sample_controller (args_of ?r)) [''a''] = (Inr (), [])" by code_simp
  moreover have "hr_body ?r = []" by (simp add: api_request_def)
  ultimately show ?thesis using fragment_type_misreports by (metis (full_types))
qed

lemma foreign_tenant_refused_witness:
  "\<exists>r a. keystone_context (\<lambda>_. False) (api_request None [(''action'', PStr ''create'')] ''mea'') = Inr r \<and>
     create_resource sample_weblib sample_env sample_controller sample_plugin r [] = (Inr (Inl a), []) \<and> http_status a = 400"
proof -
  let ?q = "api_request None [(''action'', PStr ''create'')] ''mea''"
  let ?r = "projr (keystone_context (\<lambda>_. False) ?q)"
  have "isl (keystone_context (\<lambda>_. False) ?q) = False" by code_simp
  then have auth: "keystone_context (\<lambda>_. False) ?q = Inr ?r" by simp
  have "\<not> is_admin (request_context ?r)" "json_request sample_weblib ?r" "action_of ?r = PStr ''create''" "hr_body ?r \<noteq> []"
    "wl_loads sample_weblib (hr_body ?r) = Some (PDict [(c_resource sample_controller, PDict [(''tenant_id'', PStr ''t2'')])])"
    "map_of [(''tenant_id'', PStr ''t2'')] ''tenant_id'' = Some (PStr ''t2'')"
    "PStr ''t2'' \<noteq> opt_str (header ''X_PROJECT_ID'' ?q)" by code_simp+
  then have "\<exists>a. create_resource sample_weblib sample_env sample_controller sample_plugin ?r [] = (Inr (Inl a), []) \<and>
      http_status a = 400"
    by (intro foreign_tenant_refused [OF auth _ sample_best_match]) blast+
  with auth show ?thesis by blast
qed

end
