(* ===== verification/Extensions.thy ===== *)
theory Extensions
  imports AttributeMaps Wsgi
begin

text \<open>
  Extensions and plugins: api/extensions.py, api/v1/resource_helper.py, the three
  extensions that the program has (extensions/mem.py, meo.py, common_services.py) and the
  loading of service plugins in manager.py. Modules are loaded by a parameter; a class is
  the effect of its constructor. Dictionaries keep the order in which they were filled.
\<close>

section \<open>Resources and routes\<close>

text \<open>What a route leads to: an API resource, the list of extensions, or the controllers of
  extended actions and requests, which are known by their keys.\<close>

datatype app = Api controller | ExtensionList | Actions string | Requests string

record resource_ext =
  re_collection :: string
  re_app :: app
  re_parent :: "(string \<times> string) option"
  re_prefix :: string
  re_collection_actions :: "(string \<times> string) list"
  re_member_actions :: "(string \<times> string) list"
  re_attr_map :: attr_map

record action_ext =
  ae_collection :: string
  ae_name :: string
  ae_handler :: "pydict \<Rightarrow> http_request \<Rightarrow> string \<Rightarrow> exn + pyval"

text \<open>The key of a request extension is made of its method and its route.\<close>

record request_ext =
  qe_method :: string
  qe_route :: string
  qe_handler :: "http_request \<Rightarrow> response \<Rightarrow> response"

definition qe_key :: "request_ext \<Rightarrow> string" where
  "qe_key q = qe_method q @ ''-'' @ qe_route q"

datatype route =
    Connect (rt_path: string) (rt_action: string) (rt_app: app) (rt_prefix: string) (rt_method: string)
  | MapResource (rt_collection: string) (rt_app: app) (rt_members: "(string \<times> string) list")
      (rt_parent: "(string \<times> string) option") (rt_prefix: string)

definition ext_path_prefix :: "resource_ext \<Rightarrow> string" where
  "ext_path_prefix re = (case re_parent re of None \<Rightarrow> re_prefix re
     | Some (coll, member) \<Rightarrow> re_prefix re @ ''/'' @ coll @ ''/{'' @ member @ ''_id}'')"

definition resource_routes :: "resource_ext \<Rightarrow> route list" where
  "resource_routes re = concat (map (\<lambda>(action, meth).
       let path = ''/'' @ re_collection re @ ''/'' @ action in
       [Connect path action (re_app re) (ext_path_prefix re) meth,
        Connect (path @ ''.:(format)'') action (re_app re) (ext_path_prefix re) meth]) (re_collection_actions re))
     @ [MapResource (re_collection re) (re_app re) (re_member_actions re) (re_parent re) (ext_path_prefix re)]"

text \<open>One controller per collection or key, made for the first extension that needs it.\<close>

definition action_routes :: "action_ext list \<Rightarrow> route list" where
  "action_routes acts = concat (map (\<lambda>coll.
     [Connect (''/'' @ coll @ ''/:(id)/action.:(format)'') ''action'' (Actions coll) [] ''POST'',
      Connect (''/'' @ coll @ ''/:(id)/action'') ''action'' (Actions coll) [] ''POST'']) (first_keys (map ae_collection acts)))"

definition first_request :: "request_ext list \<Rightarrow> string \<Rightarrow> request_ext" where
  "first_request reqs k = hd (filter (\<lambda>q. qe_key q = k) reqs)"

definition request_routes :: "request_ext list \<Rightarrow> route list" where
  "request_routes reqs = concat (map (\<lambda>k. let q = first_request reqs k in
     [Connect (qe_route q @ ''.:(format)'') ''process'' (Requests k) [] (qe_method q),
      Connect (qe_route q) ''process'' (Requests k) [] (qe_method q)]) (first_keys (map qe_key reqs)))"

text \<open>The handlers that \<open>add_action\<close> and \<open>add_handler\<close> give to the controllers.\<close>

definition action_handlers :: "action_ext list \<Rightarrow> string \<Rightarrow> (string \<times> (pydict \<Rightarrow> http_request \<Rightarrow> string \<Rightarrow> exn + pyval)) list" where
  "action_handlers acts coll =
     foldl (\<lambda>hs a. dict_set (ae_name a) (ae_handler a) hs) [] (filter (\<lambda>a. ae_collection a = coll) acts)"

definition request_handlers :: "request_ext list \<Rightarrow> string \<Rightarrow> (http_request \<Rightarrow> response \<Rightarrow> response) list" where
  "request_handlers reqs k = map qe_handler (filter (\<lambda>q. qe_key q = k) reqs)"

text \<open>\<open>ActionExtensionController.action\<close>: the first handler whose action is in the body, or
  nothing, and the application goes on.\<close>

fun first_action :: "(string \<times> 'h) list \<Rightarrow> pyval \<Rightarrow> exn + 'h option" where
  "first_action [] body = Inr None"
| "first_action ((n, h) # hs) body = bindS (contains n body) (\<lambda>b. if b then Inr (Some h) else first_action hs body)"

definition action_of_body :: "weblib \<Rightarrow> (string \<times> (pydict \<Rightarrow> http_request \<Rightarrow> string \<Rightarrow> exn + pyval)) list \<Rightarrow>
    http_request \<Rightarrow> string \<Rightarrow> exn + pyval option" where
  "action_of_body W handlers r i =
     bindS (controller_deserialize W (hr_body r) (case get_content_type W r of None \<Rightarrow> ''None'' | Some t \<Rightarrow> t)) (\<lambda>body.
     bindS (first_action handlers body) (\<lambda>h. case h of
       None \<Rightarrow> Inr None
     | Some f \<Rightarrow> bindS (dict_of body) (\<lambda>d. map_sum id Some (f d r i))))"

text \<open>\<open>RequestExtensionController.process\<close>: every handler sees the same response, the last
  one's result is the answer.\<close>

definition process_request_ext :: "(http_request \<Rightarrow> response \<Rightarrow> response) list \<Rightarrow> http_request \<Rightarrow> response \<Rightarrow> exn + response" where
  "process_request_ext handlers r res =
     (if handlers = [] then Inl (Exc (Lib NameError) []) else Inr (last handlers r res))"

section \<open>Extensions\<close>

type_synonym attr_maps = "(string \<times> attr_map) list"

text \<open>An optional method is absent (\<open>None\<close>) when the object has no attribute of its name.
  \<open>ext_update\<close> is the extension's own map after \<open>update_attributes_map\<close>.\<close>

record extension =
  ext_info :: "exn + string list"
  ext_alias :: string
  ext_extended :: "(string \<Rightarrow> exn + attr_maps) option"
  ext_required :: "string list option"
  ext_update :: "(attr_maps \<Rightarrow> attr_maps) option"
  ext_resources :: "exn + resource_ext list"
  ext_actions :: "exn + action_ext list"
  ext_requests :: "exn + request_ext list"

type_synonym extensions = "(string \<times> extension) list"

text \<open>\<open>ExtensionDescriptor.update_attributes_map\<close>\<close>

definition update_attributes_map :: "attr_maps \<Rightarrow> attr_maps \<Rightarrow> attr_maps" where
  "update_attributes_map extended own = map (\<lambda>(k, attrs). (k, case map_of extended k of
       None \<Rightarrow> attrs | Some more_attrs \<Rightarrow> if more_attrs = [] then attrs else dict_update attrs more_attrs)) own"

definition check_extension :: "extension \<Rightarrow> exn + bool" where
  "check_extension ext = (case ext_info ext of Inr _ \<Rightarrow> Inr True
     | Inl e \<Rightarrow> if isinstance e (Lib AttributeError) then Inr False else Inl e)"

definition add_extension :: "extension \<Rightarrow> extensions \<Rightarrow> exn + extensions" where
  "add_extension ext exts = bindS (check_extension ext) (\<lambda>ok.
     if \<not> ok then Inr exts
     else if has_key (ext_alias ext) exts
       then Inl (Exc (Common DuplicatedExtension) [(''alias'', PStr (ext_alias ext))])
     else Inr (dict_set (ext_alias ext) ext exts))"

subsection \<open>Loading\<close>

text \<open>\<open>os.path.splitext\<close> of a file name; leading dots belong to the root.\<close>

definition splitext :: "string \<Rightarrow> string \<times> string" where
  "splitext f = (let dots = takeWhile (\<lambda>c. c = CHR ''.'') f; rest = dropWhile (\<lambda>c. c = CHR ''.'') f in
     case rsplit_once (CHR ''.'') rest of
       [root, ext] \<Rightarrow> (dots @ root, ''.'' @ ext) | _ \<Rightarrow> (f, []))"

text \<open>The files of a directory, and the classes of a module by their names.\<close>

record fs =
  fs_exists :: "string \<Rightarrow> bool"
  fs_listdir :: "string \<Rightarrow> exn + string list"
  fs_load :: "string \<Rightarrow> string \<Rightarrow> exn + (string \<times> (exn + extension)) list"

definition class_name :: "string \<Rightarrow> string" where
  "class_name m = upper (take 1 m) @ drop 1 m"

definition path_of_file :: "string \<Rightarrow> string \<Rightarrow> string" where
  "path_of_file dir f = (if dir = [] \<or> last dir = CHR ''/'' then dir @ f else dir @ ''/'' @ f)"

definition load_file :: "fs \<Rightarrow> string \<Rightarrow> string \<Rightarrow> extensions \<Rightarrow> exn + extensions" where
  "load_file F dir f exts = (case splitext f of (m, ext) \<Rightarrow>
     if lower ext \<noteq> ''.py'' \<or> startswith ''_'' m then Inr exts
     else bindS (fs_load F m (path_of_file dir f)) (\<lambda>classes. case map_of classes (class_name m) of
         None \<Rightarrow> Inr exts
       | Some made \<Rightarrow> bindS made (\<lambda>x. add_extension x exts)))"

fun str_less :: "string \<Rightarrow> string \<Rightarrow> bool" where
  "str_less a [] = False"
| "str_less [] (y # b) = True"
| "str_less (x # a) (y # b) = (ord x < ord y \<or> x = y \<and> str_less a b)"

text \<open>A file that cannot be loaded is skipped.\<close>

definition load_from_path :: "fs \<Rightarrow> string \<Rightarrow> extensions \<Rightarrow> exn + extensions" where
  "load_from_path F dir exts = bindS (fs_listdir F dir) (\<lambda>files.
     Inr (foldl (\<lambda>xs f. case load_file F dir f xs of Inl e \<Rightarrow> xs | Inr ys \<Rightarrow> ys) exts
       (sorted_cmp (\<lambda>a b. if a = b then 0 else if str_less a b then - 1 else 1) files)))"

definition load_all_extensions :: "fs \<Rightarrow> string \<Rightarrow> exn + extensions" where
  "load_all_extensions F paths = foldS (\<lambda>dir exts. if fs_exists F dir then load_from_path F dir exts else Inr exts)
     (split_char (CHR '':'') paths) []"

definition get_extensions_path :: "string list \<Rightarrow> string \<Rightarrow> string" where
  "get_extensions_path package configured = (let paths = join '':'' package in
     if configured \<noteq> [] then join '':'' [configured, paths] else paths)"

definition append_api_extensions_path :: "string \<Rightarrow> string list \<Rightarrow> string" where
  "append_api_extensions_path configured paths = join '':'' (filter (\<lambda>p. p \<noteq> []) (configured # paths))"

subsection \<open>Extending the attribute maps\<close>

text \<open>The state of \<open>extend_resources\<close>: the map, the extensions processed and pending, and
  those whose own maps are updated at the end, once for every round that met them.\<close>

record ext_state =
  es_map :: attr_maps
  es_processed :: "string list"
  es_pending :: extensions
  es_updates :: "extension list"

definition merge_attrs :: "attr_maps \<Rightarrow> attr_maps \<Rightarrow> attr_maps" where
  "merge_attrs attrs m = foldl (\<lambda>m (k, new). case map_of m k of
       None \<Rightarrow> dict_set k new m
     | Some old \<Rightarrow> dict_set k (if old = [] then new else dict_update old new) m) m attrs"

definition finish_ext :: "string \<Rightarrow> ext_state \<Rightarrow> ext_state" where
  "finish_ext name st = st\<lparr>es_processed := List.insert name (es_processed st), es_pending := dict_del name (es_pending st)\<rparr>"

definition blocked :: "string list \<Rightarrow> extension \<Rightarrow> bool" where
  "blocked processed ext = (case ext_required ext of None \<Rightarrow> False
     | Some req \<Rightarrow> list_ex (\<lambda>n. \<not> List.member processed n) req)"

text \<open>One pass of the inner loop.\<close>

definition process_ext :: "string \<Rightarrow> string \<times> extension \<Rightarrow> ext_state \<Rightarrow> exn + ext_state" where
  "process_ext version = (\<lambda>(name, ext) st. case ext_extended ext of
       None \<Rightarrow> Inr (st\<lparr>es_pending := dict_del name (es_pending st)\<rparr>)
     | Some get \<Rightarrow>
         let st1 = (if ext_update ext = None then st else st\<lparr>es_updates := es_updates st @ [ext]\<rparr>) in
         if blocked (es_processed st1) ext then Inr st1
         else (case get version of
             Inl e \<Rightarrow> if isinstance e (Lib AttributeError) then Inr (finish_ext name st1) else Inl e
           | Inr attrs \<Rightarrow> Inr (finish_ext name (st1\<lparr>es_map := merge_attrs attrs (es_map st1)\<rparr>))))"

text \<open>Python 2 iterates over a copy of the items. Python 3 iterates over the dictionary
  itself, and notices before the next item, or the end, that an item has been deleted.\<close>

fun py3_round :: "string \<Rightarrow> (string \<times> extension) list \<Rightarrow> ext_state \<Rightarrow> exn + ext_state" where
  "py3_round version [] st = Inr st"
| "py3_round version (x # xs) st = bindS (process_ext version x st) (\<lambda>st1.
     if length (es_pending st1) \<noteq> length (es_pending st) then Inl runtime_error else py3_round version xs st1)"

definition ext_round :: "bool \<Rightarrow> string \<Rightarrow> ext_state \<Rightarrow> exn + ext_state" where
  "ext_round python2 version st = (if python2 then foldS (process_ext version) (es_pending st) st
     else py3_round version (es_pending st) st)"

lemma process_ext_cases:
  assumes "process_ext version (name, ext) st = Inr st1"
  shows "es_processed st1 = es_processed st \<and> es_pending st1 = es_pending st
      \<and> ext_extended ext \<noteq> None \<and> blocked (es_processed st) ext
    \<or> es_processed st1 = es_processed st \<and> es_pending st1 = dict_del name (es_pending st) \<and> ext_extended ext = None
    \<or> es_processed st1 = List.insert name (es_processed st) \<and> es_pending st1 = dict_del name (es_pending st)
      \<and> ext_extended ext \<noteq> None \<and> \<not> blocked (es_processed st) ext"
  using assms by (auto simp: process_ext_def Let_def finish_ext_def split: option.splits sum.splits if_splits)

text \<open>A round that processes an extension leaves fewer to process.\<close>

lemma process_shrinks:
  assumes "foldS (process_ext version) xs st = Inr st1" and "set xs \<subseteq> set ps"
    and "es_pending st = ps \<and> es_processed st = proc \<or> length (es_pending st) < length ps"
  shows "es_pending st1 = ps \<and> es_processed st1 = proc \<or> length (es_pending st1) < length ps"
  using assms
proof (induction xs arbitrary: st)
  case (Cons x xs)
  obtain name ext where x: "x = (name, ext)" by (cases x)
  from Cons.prems(1) obtain st2 where st2: "process_ext version (name, ext) st = Inr st2"
    and rest: "foldS (process_ext version) xs st2 = Inr st1" by (auto simp: x bindS_Inr_iff)
  have "name \<in> fst ` set ps" using Cons.prems(2) by (force simp: x)
  then have "es_pending st2 = ps \<and> es_processed st2 = proc \<or> length (es_pending st2) < length ps"
    using process_ext_cases [OF st2] Cons.prems(3) length_dict_del_less [of name ps] length_dict_del [of name "es_pending st"]
    by auto
  with Cons.IH [OF rest] Cons.prems(2) show ?case by simp
qed simp

lemma py3_keeps:
  "py3_round version xs st = Inr st1 \<Longrightarrow> set xs \<subseteq> set (es_pending st) \<Longrightarrow> es_processed st1 = es_processed st"
proof (induction xs arbitrary: st)
  case (Cons x xs)
  obtain name ext where x: "x = (name, ext)" by (cases x)
  from Cons.prems(1) obtain st2 where st2: "process_ext version (name, ext) st = Inr st2"
    and len: "length (es_pending st2) = length (es_pending st)" and rest: "py3_round version xs st2 = Inr st1"
    by (auto simp: x bindS_Inr_iff split: if_splits)
  have "name \<in> fst ` set (es_pending st)" using Cons.prems(2) by (force simp: x)
  with process_ext_cases [OF st2] len length_dict_del_less [of name "es_pending st"]
  have "es_pending st2 = es_pending st" "es_processed st2 = es_processed st" by auto
  with Cons.IH [OF rest] Cons.prems(2) show ?case by simp
qed simp

lemma round_progress:
  assumes "ext_round python2 version st = Inr st1" and "length (es_processed st1) \<noteq> length (es_processed st)"
  shows "length (es_pending st1) < length (es_pending st)"
  using assms process_shrinks [of version "es_pending st" st st1 "es_pending st" "es_processed st"]
    py3_keeps [of version "es_pending st" st st1]
  by (auto simp: ext_round_def split: if_splits)

function extend_loop :: "bool \<Rightarrow> string \<Rightarrow> ext_state \<Rightarrow> exn + ext_state" where
  "extend_loop python2 version st =
     (if es_pending st = [] then Inr st
      else case ext_round python2 version st of
        Inl e \<Rightarrow> Inl e
      | Inr st1 \<Rightarrow> if length (es_processed st1) = length (es_processed st) then Inr st1
          else extend_loop python2 version st1)"
  by pat_completeness auto
termination
  by (relation "measure (\<lambda>(python2, version, st). length (es_pending st))") (auto dest: round_progress)

declare extend_loop.simps [simp del]

text \<open>The map, the names of the extensions that could not be processed (they are logged)
  and the own maps of the extensions that keep them.\<close>

definition extend_resources :: "bool \<Rightarrow> string \<Rightarrow> attr_maps \<Rightarrow> extensions \<Rightarrow> exn + attr_maps \<times> string list \<times> attr_maps list" where
  "extend_resources python2 version m exts =
     map_sum id (\<lambda>st. (es_map st, dict_keys (es_pending st),
         map (\<lambda>ext. the (ext_update ext) (es_map st)) (es_updates st)))
       (extend_loop python2 version \<lparr>es_map = m, es_processed = [], es_pending = exts, es_updates = []\<rparr>)"

end
