(* ===== verification/Plugins.thy ===== *)
theory Plugins
  imports Extensions Constants
begin

text \<open>
  What the loaded extensions serve: the resources and routes of the extension manager, the
  three extensions of the program with the API resources they build (resource_helper.py),
  the controller that lists extensions, and the service plugins of manager.py.
\<close>

section \<open>The extension manager\<close>

text \<open>An extension without the method has nothing to add.\<close>

definition collect :: "(extension \<Rightarrow> exn + 'a list) \<Rightarrow> extensions \<Rightarrow> exn + 'a list" where
  "collect f exts = foldS (\<lambda>(n, ext) acc. case f ext of
       Inr xs \<Rightarrow> Inr (acc @ xs)
     | Inl e \<Rightarrow> if isinstance e (Lib AttributeError) then Inr acc else Inl e) exts []"

definition extensions_resource :: resource_ext where
  "extensions_resource = \<lparr>re_collection = ''extensions'', re_app = ExtensionList, re_parent = None, re_prefix = [],
     re_collection_actions = [], re_member_actions = [], re_attr_map = []\<rparr>"

definition manager_resources :: "extensions \<Rightarrow> exn + resource_ext list" where
  "manager_resources exts = bindS (collect ext_resources exts) (\<lambda>rs. Inr (extensions_resource # rs))"

definition manager_actions :: "extensions \<Rightarrow> exn + action_ext list" where
  "manager_actions exts = collect ext_actions exts"

definition manager_requests :: "extensions \<Rightarrow> exn + request_ext list" where
  "manager_requests exts = collect ext_requests exts"

text \<open>The routes of \<open>ExtensionMiddleware.__init__\<close>, in the order in which they are matched.\<close>

definition middleware_routes :: "extensions \<Rightarrow> exn + route list" where
  "middleware_routes exts = bindS (manager_resources exts) (\<lambda>rs.
     bindS (manager_actions exts) (\<lambda>acts. bindS (manager_requests exts) (\<lambda>reqs.
       Inr (concat (map resource_routes rs) @ action_routes acts @ request_routes reqs))))"

text \<open>\<open>ExtensionMiddleware._dispatch\<close>: without a match the application goes on.\<close>

definition middleware_dispatch :: "'x http_request_scheme \<Rightarrow> exn + pyval option" where
  "middleware_dispatch r = (case hr_routing r of None \<Rightarrow> Inl key_error
     | Some m \<Rightarrow> if m = [] then Inr None else map_sum id Some (subscr ''controller'' (PDict m)))"

section \<open>The list of extensions\<close>

definition translate_ext :: "extension \<Rightarrow> exn + pyval" where
  "translate_ext ext = bindS (ext_info ext) (\<lambda>info. case info of
       [name, description, namespace, updated] \<Rightarrow> Inr (PDict [(''name'', PStr name), (''alias'', PStr (ext_alias ext)),
         (''description'', PStr description), (''namespace'', PStr namespace), (''updated'', PStr updated),
         (''links'', PList [])])
     | _ \<Rightarrow> Inl attribute_error)"

definition index_extensions :: "extensions \<Rightarrow> exn + pyval" where
  "index_extensions exts = bindS (mapS (\<lambda>(n, ext). translate_ext ext) exts) (\<lambda>vs. Inr (PDict [(''extensions'', PList vs)]))"

definition show_extension :: "extensions \<Rightarrow> string \<Rightarrow> exn + pyval" where
  "show_extension exts i = (case map_of exts i of
       None \<Rightarrow> Inl (Exc (Lib HTTPNotFound) [(''id'', PStr i)])
     | Some ext \<Rightarrow> bindS (translate_ext ext) (\<lambda>v. Inr (PDict [(''extension'', v)])))"

definition extension_not_found :: exn where
  "extension_not_found = Exc (Lib HTTPNotFound) [(''detail'', PStr ''Resource not found.'')]"

text \<open>\<open>ExtensionController\<close>: deleting and creating are not possible.\<close>

definition extension_controller :: "extensions \<Rightarrow> 's wsgi_controller" where
  "extension_controller exts name =
    (if name = ''index'' then Some (\<lambda>r args. bindE (pureE (index_extensions exts)) (\<lambda>v. ret (Value v)))
     else if name = ''show'' then Some (\<lambda>r args. case map_of args ''id'' of
         Some (PStr i) \<Rightarrow> bindE (pureE (show_extension exts i)) (\<lambda>v. ret (Value v)) | _ \<Rightarrow> raise type_error)
     else if name = ''delete'' then Some (\<lambda>r args. if has_key ''id'' args then raise extension_not_found else raise type_error)
     else if name = ''create'' then Some (\<lambda>r args. if args = [] then raise extension_not_found else raise type_error)
     else None)"

section \<open>The resources of the extensions\<close>

text \<open>The plural of a resource is its singular with a letter more.\<close>

definition build_plural_mappings :: "(string \<times> string) list \<Rightarrow> attr_maps \<Rightarrow> (string \<times> string) list" where
  "build_plural_mappings special m = map (\<lambda>(plural, attrs). (plural, dict_get plural (butlast plural) special)) m"

definition COMMON_PREFIXES :: "(string \<times> string) list" where
  "COMMON_PREFIXES = [(''CORE'', []), (''DUMMY'', ''/dummy_svc''), (''MEC'', []), (''MEO'', []), (''COMMONSERVICES'', [])]"

definition dashes :: "string \<Rightarrow> string" where
  "dashes s = map (\<lambda>c. if c = CHR ''_'' then CHR ''-'' else c) s"

text \<open>The service plugins by their type, each as what it supports itself (bulk creation,
  pagination and sorting); the options allow pagination and sorting.\<close>

type_synonym services = "(string \<times> bool \<times> bool \<times> bool) list"

definition lookup :: "string \<Rightarrow> (string \<times> 'v) list \<Rightarrow> exn + 'v" where
  "lookup k d = (case map_of d k of None \<Rightarrow> Inl key_error | Some v \<Rightarrow> Inr v)"

definition build_resource ::
  "bool \<times> bool \<Rightarrow> (string \<times> string) list \<Rightarrow> (string \<times> (string \<times> string) list) list \<Rightarrow> bool \<times> bool \<Rightarrow>
   bool \<times> bool \<times> bool \<Rightarrow> string \<Rightarrow> string \<times> attr_map \<Rightarrow> exn + resource_ext" where
  "build_resource conf plurals action_map flags native service = (\<lambda>(coll, params).
     bindS (lookup coll plurals) (\<lambda>res.
     let name = (if fst flags then dashes coll else coll); members = dict_get res [] action_map in
     bindS (make_controller name res params (snd flags) (dict_keys members) None (fst conf) (snd conf) native) (\<lambda>C.
     bindS (lookup service COMMON_PREFIXES) (\<lambda>prefix.
       Inr \<lparr>re_collection = name, re_app = Api C, re_parent = None, re_prefix = prefix,
         re_collection_actions = [], re_member_actions = members, re_attr_map = params\<rparr>))))"

definition build_resource_info ::
  "bool \<times> bool \<Rightarrow> services \<Rightarrow> (string \<times> string) list \<Rightarrow> attr_maps \<Rightarrow> string \<Rightarrow>
   (string \<times> (string \<times> string) list) list \<Rightarrow> bool \<Rightarrow> bool \<Rightarrow> exn + resource_ext list" where
  "build_resource_info conf services plurals m which action_map translate_name allow_bulk =
     (let service = (if which = [] then ''CORE'' else which) in
      bindS (lookup service services) (\<lambda>native.
        mapS (build_resource conf plurals action_map (translate_name, allow_bulk) native service) m))"

subsection \<open>The three extensions\<close>

definition MEM_ATTRIBUTE_MAP :: attr_maps where
  "MEM_ATTRIBUTE_MAP = [(''meads'', meads_attrs), (''meas'', meas_attrs)]"

definition MEO_ATTRIBUTE_MAP :: attr_maps where
  "MEO_ATTRIBUTE_MAP = [(''vims'', vims_attrs), (''nsds'', nsds_attrs), (''nss'', nss_attrs)]"

definition COMMON_SERVICES_ATTRIBUTE_MAP :: attr_maps where
  "COMMON_SERVICES_ATTRIBUTE_MAP = [(''events'', events_attrs)]"

text \<open>Collection, its parent (collection and member), and the resources in it.\<close>

definition SUB_RESOURCE_ATTRIBUTE_MAP :: "(string \<times> (string \<times> string) \<times> attr_maps) list" where
  "SUB_RESOURCE_ATTRIBUTE_MAP =
    [(''actions'', (''meas'', ''mea''), [(''scale'', scale_params)]),
     (''triggers'', (''meas'', ''mea''), [(''trigger'', trigger_params)]),
     (''resources'', (''meas'', ''mea''), [(''resource'', resource_params)])]"

definition sub_resource :: "bool \<times> bool \<times> bool \<Rightarrow> string \<Rightarrow> string \<times> string \<Rightarrow> string \<times> attr_map \<Rightarrow> exn + resource_ext" where
  "sub_resource native coll parent = (\<lambda>(res, params).
     bindS (make_controller coll res params True [] (Some (snd parent)) False False native) (\<lambda>C.
       Inr \<lparr>re_collection = coll, re_app = Api C, re_parent = Some parent, re_prefix = [],
         re_collection_actions = [], re_member_actions = [], re_attr_map = params\<rparr>))"

definition mem_get_resources :: "bool \<times> bool \<Rightarrow> services \<Rightarrow> exn + resource_ext list" where
  "mem_get_resources conf services =
     (let plurals = dict_set ''service_types'' ''service_type'' (build_plural_mappings [] MEM_ATTRIBUTE_MAP) in
      bindS (build_resource_info conf services plurals MEM_ATTRIBUTE_MAP ''MEC'' [] True False) (\<lambda>rs.
      bindS (lookup ''MEC'' services) (\<lambda>native.
      bindS (mapS (\<lambda>(coll, parent, members). mapS (sub_resource native coll parent) members) SUB_RESOURCE_ATTRIBUTE_MAP) (\<lambda>subs.
        Inr (rs @ concat subs)))))"

definition meo_get_resources :: "bool \<times> bool \<Rightarrow> services \<Rightarrow> exn + resource_ext list" where
  "meo_get_resources conf services =
     build_resource_info conf services (build_plural_mappings [] MEO_ATTRIBUTE_MAP) MEO_ATTRIBUTE_MAP ''MEO'' [] True False"

definition cs_get_resources :: "bool \<times> bool \<Rightarrow> services \<Rightarrow> exn + resource_ext list" where
  "cs_get_resources conf services =
     build_resource_info conf services (build_plural_mappings [] COMMON_SERVICES_ATTRIBUTE_MAP)
       COMMON_SERVICES_ATTRIBUTE_MAP ''COMMONSERVICES'' [] True False"

text \<open>\<open>get_extended_resources\<close> knows the version 1.0 only.\<close>

definition extended_by :: "attr_maps \<Rightarrow> string \<Rightarrow> exn + attr_maps" where
  "extended_by m version = Inr (dict_get version [] [(''1.0'', m)])"

definition own_extension :: "string list \<Rightarrow> string \<Rightarrow> attr_maps \<Rightarrow> (exn + resource_ext list) \<Rightarrow> extension" where
  "own_extension info alias m rs = \<lparr>ext_info = Inr info, ext_alias = alias, ext_extended = Some (extended_by m),
     ext_required = None, ext_update = Some (\<lambda>extended. update_attributes_map extended m),
     ext_resources = rs, ext_actions = Inr [], ext_requests = Inr []\<rparr>"

definition Mem_ext :: "bool \<times> bool \<Rightarrow> services \<Rightarrow> extension" where
  "Mem_ext conf services = own_extension [''MEA Manager'', ''Extension for MEA Manager'',
     ''http://wiki.openstack.org/Apmec'', ''2013-11-19T10:00:00-00:00''] ''MEC'' MEM_ATTRIBUTE_MAP (mem_get_resources conf services)"

definition Meo_ext :: "bool \<times> bool \<Rightarrow> services \<Rightarrow> extension" where
  "Meo_ext conf services = own_extension [''MEC Orchestrator'', ''Extension for MEC Orchestrator'',
     ''http://wiki.openstack.org/Apmec'', ''2015-12-21T10:00:00-00:00''] ''MEO'' MEO_ATTRIBUTE_MAP (meo_get_resources conf services)"

definition Common_services_ext :: "bool \<times> bool \<Rightarrow> services \<Rightarrow> extension" where
  "Common_services_ext conf services = own_extension [''COMMONSERVICES'', ''Extension for CommonServices'',
     ''http://wiki.openstack.org/Apmec'', ''2016-06-06T13:00:00-00:00''] ''Commonservices'' COMMON_SERVICES_ATTRIBUTE_MAP
     (cs_get_resources conf services)"

section \<open>Service plugins\<close>

text \<open>\<open>PluginInterface.__subclasshook__\<close>: \<open>None\<close> is NotImplemented; a class of the mro is
  the list of the names it defines.\<close>

definition subclasshook :: "string list \<Rightarrow> string list list \<Rightarrow> bool option" where
  "subclasshook abstract bases = (if abstract = [] then None
     else if list_all (\<lambda>m. list_ex (\<lambda>b. List.member b m) bases) abstract then Some True else None)"

text \<open>A class found by its alias, or by its name when the alias is unknown.\<close>

definition load_class_by_alias_or_classname ::
  "(string \<Rightarrow> string \<Rightarrow> exn + 'c) \<Rightarrow> (string \<Rightarrow> exn + 'c) \<Rightarrow> string \<Rightarrow> string \<Rightarrow> exn + 'c" where
  "load_class_by_alias_or_classname by_alias by_name namespace name =
     (if name = [] then Inl (Exc (Lib ImportError) [(''msg'', PStr ''Class not found.'')])
      else case by_alias namespace name of
        Inr c \<Rightarrow> Inr c
      | Inl e \<Rightarrow> if \<not> isinstance e (Lib RuntimeError) then Inl e
          else (case by_name name of
             Inr c \<Rightarrow> Inr c
           | Inl e2 \<Rightarrow> if isinstance e2 (Lib ImportError) \<or> isinstance e2 (Lib ValueError)
               then Inl (Exc (Lib ImportError) [(''msg'', PStr ''Class not found.'')]) else Inl e2))"

definition load_class_for_provider :: "(string \<Rightarrow> string \<Rightarrow> exn + 'c) \<Rightarrow> string \<Rightarrow> string \<Rightarrow> exn + 'c" where
  "load_class_for_provider load namespace provider = (case load namespace provider of
       Inr c \<Rightarrow> Inr c
     | Inl e \<Rightarrow> if isinstance e (Lib ImportError)
         then Inl (Exc (Lib ImportError) [(''provider'', PStr provider)]) else Inl e)"

text \<open>A plugin is made by its class; \<open>plugin_type\<close> tells what it provides.\<close>

definition load_plugin :: "(string \<Rightarrow> exn + 'p) \<Rightarrow> ('p \<Rightarrow> string) \<Rightarrow> string \<Rightarrow> (string \<times> 'p) list \<Rightarrow> exn + (string \<times> 'p) list" where
  "load_plugin construct plugin_type provider loaded = (if provider = [] then Inr loaded
     else bindS (construct provider) (\<lambda>p.
       if has_key (plugin_type p) loaded then Inl (Exc (Lib ValueError) [(''type'', PStr (plugin_type p))])
       else Inr (dict_set (plugin_type p) p loaded)))"

definition plugin_providers :: "string list \<Rightarrow> string list" where
  "plugin_providers configured =
     (if List.member configured ''commonservices'' then configured else configured @ [''commonservices''])"

definition load_service_plugins :: "(string \<Rightarrow> exn + 'p) \<Rightarrow> ('p \<Rightarrow> string) \<Rightarrow> string list \<Rightarrow> exn + (string \<times> 'p) list" where
  "load_service_plugins construct plugin_type configured =
     foldS (load_plugin construct plugin_type) (plugin_providers configured) []"

end
