(* ===== verification/ExtensionProps.thy ===== *)
theory ExtensionProps
  imports Plugins
begin

text \<open>
  Which extensions are taken into the attribute map, that none is under Python 3, and that
  the program's own extensions serve what they declare.
\<close>

section \<open>Extensions and their requirements\<close>

text \<open>An extension can be loaded when all that it requires can be loaded before it.\<close>

inductive loadable :: "extensions \<Rightarrow> string \<Rightarrow> bool" for exts where
  "map_of exts n = Some ext \<Longrightarrow> ext_extended ext \<noteq> None \<Longrightarrow>
   (\<And>req m. ext_required ext = Some req \<Longrightarrow> m \<in> set req \<Longrightarrow> loadable exts m) \<Longrightarrow> loadable exts n"

definition contribution :: "string \<Rightarrow> extension \<Rightarrow> string set" where
  "contribution version ext = (case ext_extended ext of None \<Rightarrow> {}
     | Some get \<Rightarrow> (case get version of Inl e \<Rightarrow> {} | Inr attrs \<Rightarrow> fst ` set attrs))"

text \<open>No extension fails with another error than AttributeError, which is caught.\<close>

definition benign :: "string \<Rightarrow> extension \<Rightarrow> bool" where
  "benign version ext = (case ext_extended ext of None \<Rightarrow> True
     | Some get \<Rightarrow> (case get version of Inl e \<Rightarrow> isinstance e (Lib AttributeError) | Inr attrs \<Rightarrow> True))"

lemma blocked_iff: "blocked processed ext \<longleftrightarrow> (\<exists>req m. ext_required ext = Some req \<and> m \<in> set req \<and> m \<notin> set processed)"
  by (auto simp: blocked_def list_ex_iff split: option.splits)

lemma keys_merge: "fst ` set (merge_attrs attrs m) = fst ` set m \<union> fst ` set attrs"
  unfolding merge_attrs_def
proof (induction attrs arbitrary: m)
  case (Cons a attrs)
  obtain k new where "a = (k, new)" by (cases a)
  then show ?case by (auto simp: Cons.IH keys_dict_set split: option.splits)
qed simp

lemma set_dict_del: "set (dict_del k d) = {p \<in> set d. fst p \<noteq> k}"
  by (auto simp: dict_del_def AList.delete_eq)

definition contributed :: "string \<Rightarrow> extensions \<Rightarrow> (string \<Rightarrow> bool) \<Rightarrow> string set" where
  "contributed version exts P = (\<Union>(n, ext) \<in> set exts. if P n then contribution version ext else {})"

lemma contributed_iff:
  "x \<in> contributed version exts P \<longleftrightarrow> (\<exists>p \<in> set exts. P (fst p) \<and> x \<in> contribution version (snd p))"
  by (auto simp: contributed_def split: if_splits) force+

lemma contributed_insert:
  assumes "dict_ok exts" and "(name, ext) \<in> set exts"
  shows "contributed version exts (\<lambda>n. n = name \<or> P n) = contributed version exts P \<union> contribution version ext"
proof -
  have one: "snd p = ext" if "p \<in> set exts" "fst p = name" for p
    using assms that by (cases p) (auto simp: dict_ok_def dest: eq_key_imp_eq_value)
  show ?thesis
  proof (rule set_eqI)
    fix x
    have "x \<in> contributed version exts (\<lambda>n. n = name \<or> P n) \<longleftrightarrow>
        (\<exists>p \<in> set exts. fst p = name \<and> x \<in> contribution version (snd p)) \<or> x \<in> contributed version exts P"
      unfolding contributed_iff by blast
    also have "(\<exists>p \<in> set exts. fst p = name \<and> x \<in> contribution version (snd p)) \<longleftrightarrow> x \<in> contribution version ext"
      using one assms(2) by (metis fst_conv)
    finally show "x \<in> contributed version exts (\<lambda>n. n = name \<or> P n) \<longleftrightarrow>
        x \<in> contributed version exts P \<union> contribution version ext" by blast
  qed
qed

text \<open>What holds in every state of the loop, with the extensions \<open>exts\<close> and the map \<open>m\<close> at
  its start.\<close>

definition loop_inv :: "string \<Rightarrow> extensions \<Rightarrow> attr_maps \<Rightarrow> ext_state \<Rightarrow> bool" where
  "loop_inv version exts m st \<longleftrightarrow>
     (\<forall>n \<in> set (es_processed st). loadable exts n \<and> n \<notin> fst ` set (es_pending st)) \<and>
     set (es_pending st) \<subseteq> set exts \<and>
     (\<forall>(n, ext) \<in> set exts. (n, ext) \<in> set (es_pending st) \<or> n \<in> set (es_processed st) \<or> ext_extended ext = None) \<and>
     fst ` set (es_map st) = fst ` set m \<union> contributed version exts (\<lambda>n. n \<in> set (es_processed st))"

lemma loop_inv_start: "loop_inv version exts m \<lparr>es_map = m, es_processed = [], es_pending = exts, es_updates = []\<rparr>"
  by (auto simp: loop_inv_def contributed_def)

lemma process_loadable:
  assumes "loop_inv version exts m st" and "map_of exts name = Some ext" and "ext_extended ext \<noteq> None"
    and "\<not> blocked (es_processed st) ext"
  shows "loadable exts name"
  using assms by (intro loadable.intros [of exts name ext]) (auto simp: blocked_iff loop_inv_def)

lemma finish_inv:
  assumes inv: "loop_inv version exts m st" and ok: "dict_ok exts" and ext: "(name, ext) \<in> set exts"
    and load: "loadable exts name"
    and keys: "fst ` set (es_map st1) = fst ` set (es_map st) \<union> contribution version ext"
    and same: "es_processed st1 = es_processed st" "es_pending st1 = es_pending st"
  shows "loop_inv version exts m (finish_ext name st1)"
proof -
  have "(\<lambda>n. n \<in> set (List.insert name (es_processed st))) = (\<lambda>n. n = name \<or> n \<in> set (es_processed st))"
    by (auto simp: fun_eq_iff)
  with inv keys contributed_insert [OF ok ext] have "fst ` set (es_map st1) = fst ` set m \<union>
      contributed version exts (\<lambda>n. n \<in> set (List.insert name (es_processed st)))"
    unfolding loop_inv_def by (simp add: Un_assoc)
  moreover have "\<forall>n \<in> set (List.insert name (es_processed st)).
      loadable exts n \<and> n \<notin> fst ` set (dict_del name (es_pending st))"
    using inv load unfolding loop_inv_def by (auto simp: keys_dict_del)
  moreover have "set (dict_del name (es_pending st)) \<subseteq> set exts"
    using inv unfolding loop_inv_def set_dict_del by blast
  moreover have "\<forall>(n, ext) \<in> set exts. (n, ext) \<in> set (dict_del name (es_pending st)) \<or>
      n \<in> set (List.insert name (es_processed st)) \<or> ext_extended ext = None"
    using inv unfolding loop_inv_def set_dict_del by auto
  ultimately show ?thesis
    by (simp add: loop_inv_def finish_ext_def same)
qed

lemma process_inv:
  assumes inv: "loop_inv version exts m st" and ok: "dict_ok exts" and ext: "(name, ext) \<in> set exts"
    and step: "process_ext version (name, ext) st = Inr st1"
  shows "loop_inv version exts m st1"
proof -
  have name: "map_of exts name = Some ext" using ok ext by (simp add: dict_ok_def)
  have updates: "loop_inv version exts m (st\<lparr>es_updates := u\<rparr>)" for u using inv by (simp add: loop_inv_def)
  show ?thesis
  proof (cases "ext_extended ext")
    case None
    with step have "st1 = st\<lparr>es_pending := dict_del name (es_pending st)\<rparr>" by (simp add: process_ext_def)
    moreover have "e = ext" if "(name, e) \<in> set exts" for e using name that ok by (auto simp: dict_ok_def)
    ultimately show ?thesis using inv None by (auto simp: loop_inv_def set_dict_del)
  next
    case (Some get)
    let ?st = "if ext_update ext = None then st else st\<lparr>es_updates := es_updates st @ [ext]\<rparr>"
    have st: "loop_inv version exts m ?st" "es_processed ?st = es_processed st" using inv updates by simp_all
    show ?thesis
    proof (cases "blocked (es_processed ?st) ext")
      case True
      with step Some st(1) show ?thesis by (simp add: process_ext_def Let_def split: if_splits)
    next
      case False
      have load: "loadable exts name" using process_loadable [OF st(1) name _ False] Some by simp
      show ?thesis
      proof (cases "get version")
        case (Inl e)
        with step Some False have "st1 = finish_ext name ?st" by (auto simp: process_ext_def Let_def split: if_splits)
        then show ?thesis using finish_inv [OF st(1) ok ext load, of ?st] Some Inl by (simp add: contribution_def)
      next
        case (Inr attrs)
        with step Some False have "st1 = finish_ext name (?st\<lparr>es_map := merge_attrs attrs (es_map ?st)\<rparr>)"
          by (auto simp: process_ext_def Let_def split: if_splits)
        then show ?thesis
          using finish_inv [OF st(1) ok ext load, of "?st\<lparr>es_map := merge_attrs attrs (es_map ?st)\<rparr>"] Some Inr
          by (simp add: contribution_def keys_merge)
      qed
    qed
  qed
qed

lemma round_inv:
  "foldS (process_ext version) xs st = Inr st1 \<Longrightarrow> loop_inv version exts m st \<Longrightarrow> dict_ok exts \<Longrightarrow> set xs \<subseteq> set exts \<Longrightarrow>
   loop_inv version exts m st1"
proof (induction xs arbitrary: st)
  case (Cons x xs)
  then show ?case by (cases x) (auto simp: bindS_Inr_iff intro: process_inv)
qed simp

text \<open>After a round without progress all that is pending is blocked.\<close>

lemma pending_shrinks:
  "foldS (process_ext version) xs st = Inr st1 \<Longrightarrow>
     set (es_pending st1) \<subseteq> set (es_pending st) \<and> length (es_processed st) \<le> length (es_processed st1)"
proof (induction xs arbitrary: st)
  case (Cons x xs)
  obtain name ext where x: "x = (name, ext)" by (cases x)
  from Cons.prems obtain st2 where st2: "process_ext version (name, ext) st = Inr st2"
    and rest: "foldS (process_ext version) xs st2 = Inr st1" by (auto simp: x bindS_Inr_iff)
  from process_ext_cases [OF st2] Cons.IH [OF rest] show ?case by (auto simp: set_dict_del List.insert_def split: if_splits)
qed simp

lemma round_stuck:
  assumes "foldS (process_ext version) xs st = Inr st1" and "length (es_processed st1) = length (es_processed st)"
  shows "es_processed st1 = es_processed st \<and>
    (\<forall>(n, ext) \<in> set xs. ext_extended ext \<noteq> None \<and> blocked (es_processed st) ext \<or> n \<notin> fst ` set (es_pending st1))"
  using assms
proof (induction xs arbitrary: st)
  case (Cons x xs)
  obtain name ext where x: "x = (name, ext)" by (cases x)
  from Cons.prems(1) obtain st2 where st2: "process_ext version (name, ext) st = Inr st2"
    and rest: "foldS (process_ext version) xs st2 = Inr st1" by (auto simp: x bindS_Inr_iff)
  have len: "length (es_processed st) \<le> length (es_processed st2)"
    using process_ext_cases [OF st2] by (auto simp: List.insert_def)
  with pending_shrinks [OF rest] Cons.prems(2) have eq: "length (es_processed st2) = length (es_processed st)" by simp
  then have proc: "es_processed st2 = es_processed st"
    using process_ext_cases [OF st2] by (auto simp: List.insert_def split: if_splits)
  have here: "ext_extended ext \<noteq> None \<and> blocked (es_processed st) ext \<or> name \<notin> fst ` set (es_pending st1)"
    using process_ext_cases [OF st2] pending_shrinks [OF rest] by (auto simp: set_dict_del)
  from Cons.IH [OF rest] Cons.prems(2) eq proc here show ?case by (simp add: x)
qed simp

lemma loop_end:
  assumes "extend_loop True version st = Inr st1" and "loop_inv version exts m st" and "dict_ok exts"
  shows "loop_inv version exts m st1 \<and>
    (\<forall>(n, ext) \<in> set (es_pending st1). ext_extended ext \<noteq> None \<and> blocked (es_processed st1) ext)"
  using assms
proof (induction True version st rule: extend_loop.induct)
  case (1 version st)
  show ?case
  proof (cases "es_pending st = []")
    case True
    with 1 show ?thesis by (simp add: extend_loop.simps)
  next
    case False
    with "1.prems"(1) obtain st2 where round: "foldS (process_ext version) (es_pending st) st = Inr st2"
      and rest: "(if length (es_processed st2) = length (es_processed st) then Inr st2 else extend_loop True version st2) = Inr st1"
      by (subst (asm) extend_loop.simps) (auto simp: ext_round_def split: sum.splits)
    have inv: "loop_inv version exts m st2"
      by (rule round_inv [OF round "1.prems"(2,3)]) (use "1.prems"(2) in \<open>auto simp: loop_inv_def\<close>)
    show ?thesis
    proof (cases "length (es_processed st2) = length (es_processed st)")
      case True
      with rest have st2: "st2 = st1" by simp
      have sub: "set (es_pending st1) \<subseteq> set (es_pending st)" using pending_shrinks [OF round] by (simp add: st2)
      have "ext_extended ext \<noteq> None \<and> blocked (es_processed st1) ext" if "(n, ext) \<in> set (es_pending st1)" for n ext
        using round_stuck [OF round True] that sub by (force simp: st2)
      with inv show ?thesis by (auto simp: st2)
    next
      case progress: False
      with rest "1.hyps" [of st2] False round inv "1.prems"(3) show ?thesis by (simp add: ext_round_def)
    qed
  qed
qed

lemma loop_complete:
  assumes inv: "loop_inv version exts m st"
    and stuck: "\<forall>(n, ext) \<in> set (es_pending st). ext_extended ext \<noteq> None \<and> blocked (es_processed st) ext"
    and "loadable exts n"
  shows "n \<in> set (es_processed st)"
  using assms(3)
proof (induction rule: loadable.induct)
  case (1 n ext)
  have "(n, ext) \<in> set (es_pending st) \<or> n \<in> set (es_processed st)"
    using inv map_of_SomeD [OF 1(1)] 1(2) by (auto simp: loop_inv_def)
  with stuck 1 show ?case by (auto simp: blocked_iff)
qed

lemma benign_round:
  "\<forall>(n, ext) \<in> set xs. benign version ext \<Longrightarrow> \<exists>st1. foldS (process_ext version) xs st = Inr st1"
proof (induction xs arbitrary: st)
  case (Cons x xs)
  obtain name ext where x: "x = (name, ext)" by (cases x)
  have "\<exists>st2. process_ext version x st = Inr st2"
    using Cons.prems by (auto simp: x process_ext_def benign_def Let_def split: option.splits sum.splits)
  with Cons show ?case by (auto simp: bindS_Inr_iff)
qed simp

lemma benign_loop:
  assumes "\<forall>(n, ext) \<in> set (es_pending st). benign version ext"
  shows "\<exists>st1. extend_loop True version st = Inr st1"
  using assms
proof (induction True version st rule: extend_loop.induct)
  case (1 version st)
  from benign_round [OF 1(2)] obtain st2 where round: "foldS (process_ext version) (es_pending st) st = Inr st2" by blast
  then have "\<forall>(n, ext) \<in> set (es_pending st2). benign version ext"
    using pending_shrinks [OF round] "1.prems" by blast
  with 1(1) [of st2] round show ?case
    by (subst extend_loop.simps) (auto simp: ext_round_def)
qed

text \<open>C20: Under Python 2 the attribute map is extended by exactly the extensions whose requirements
  can all be met, in whatever order they come and however they depend on each other: the
  loop ends, the map gets their resources, and those that are left are the ones with a
  requirement that is missing or that waits for itself.\<close>

theorem extend_resources_exact:
  assumes ok: "dict_ok exts" and benign: "\<forall>(n, ext) \<in> set exts. benign version ext"
  shows "\<exists>m' left own. extend_resources True version m exts = Inr (m', left, own) \<and>
    (\<forall>n. List.member left n \<longleftrightarrow> (\<exists>ext. map_of exts n = Some ext \<and> ext_extended ext \<noteq> None \<and> \<not> loadable exts n)) \<and>
    fst ` set m' = fst ` set m \<union> contributed version exts (loadable exts)"
proof -
  let ?start = "\<lparr>es_map = m, es_processed = [], es_pending = exts, es_updates = []\<rparr>"
  from benign_loop [of ?start version] benign obtain st where st: "extend_loop True version ?start = Inr st" by auto
  from loop_end [OF st loop_inv_start ok] have inv: "loop_inv version exts m st"
    and stuck: "\<forall>(n, ext) \<in> set (es_pending st). ext_extended ext \<noteq> None \<and> blocked (es_processed st) ext" by blast+
  have processed: "n \<in> set (es_processed st) \<longleftrightarrow> loadable exts n" for n
    using inv loop_complete [OF inv stuck] by (auto simp: loop_inv_def)
  have left: "n \<in> fst ` set (es_pending st) \<longleftrightarrow>
      (\<exists>ext. map_of exts n = Some ext \<and> ext_extended ext \<noteq> None \<and> \<not> loadable exts n)" for n
  proof
    assume "n \<in> fst ` set (es_pending st)"
    then obtain ext where ext: "(n, ext) \<in> set (es_pending st)" by force
    then have "map_of exts n = Some ext" using inv ok by (auto simp: loop_inv_def dict_ok_def)
    moreover have "n \<notin> set (es_processed st)" using inv ext by (force simp: loop_inv_def)
    ultimately show "\<exists>ext. map_of exts n = Some ext \<and> ext_extended ext \<noteq> None \<and> \<not> loadable exts n"
      using stuck ext processed by auto
  next
    assume "\<exists>ext. map_of exts n = Some ext \<and> ext_extended ext \<noteq> None \<and> \<not> loadable exts n"
    then obtain ext where "(n, ext) \<in> set exts" "ext_extended ext \<noteq> None" "n \<notin> set (es_processed st)"
      using processed by (auto dest: map_of_SomeD)
    then have "(n, ext) \<in> set (es_pending st)" using inv by (auto simp: loop_inv_def)
    then show "n \<in> fst ` set (es_pending st)" by force
  qed
  from inv have keys: "fst ` set (es_map st) = fst ` set m \<union> contributed version exts (loadable exts)"
    by (simp add: loop_inv_def processed)
  show ?thesis using left keys by (simp add: extend_resources_def st dict_keys_def)
qed

section \<open>Python 3\<close>

lemma py3_fails:
  assumes "es_processed st = []" and "set xs \<subseteq> set (es_pending st)" and "\<forall>(n, ext) \<in> set xs. benign version ext"
    and "\<exists>(n, ext) \<in> set xs. ext_extended ext = None \<or> \<not> blocked [] ext"
  shows "py3_round version xs st = Inl runtime_error"
  using assms
proof (induction xs arbitrary: st)
  case (Cons x xs)
  obtain name ext where x: "x = (name, ext)" by (cases x)
  have name: "name \<in> fst ` set (es_pending st)" using Cons.prems(2) by (force simp: x)
  from benign_round [of "[x]" version st] Cons.prems(3)
  obtain st1 where st1: "process_ext version (name, ext) st = Inr st1" by (auto simp: x bindS_Inr_iff)
  show ?case
  proof (cases "ext_extended ext = None \<or> \<not> blocked [] ext")
    case True
    with process_ext_cases [OF st1] Cons.prems(1) have "es_pending st1 = dict_del name (es_pending st)" by auto
    with length_dict_del_less [OF name] have "length (es_pending st1) \<noteq> length (es_pending st)" by simp
    then show ?thesis by (simp add: x st1)
  next
    case False
    with process_ext_cases [OF st1] Cons.prems(1) have same: "es_pending st1 = es_pending st" "es_processed st1 = []" by auto
    with Cons.IH [of st1] Cons.prems(2-4) False show ?thesis by (auto simp: x st1)
  qed
qed simp

text \<open>C13: Under Python 3 the attribute map cannot be extended: as soon as one extension can be
  processed, it is deleted from the dictionary that the loop iterates over, and the
  iteration fails with RuntimeError. The API does not start.\<close>

theorem python3_cannot_extend:
  assumes benign: "\<forall>(n, ext) \<in> set exts. benign version ext"
    and one: "(n, ext) \<in> set exts" "ext_extended ext = None \<or> \<not> blocked [] ext"
  shows "extend_resources False version m exts = Inl runtime_error"
proof -
  let ?start = "\<lparr>es_map = m, es_processed = [], es_pending = exts, es_updates = []\<rparr>"
  have "py3_round version exts ?start = Inl runtime_error"
    by (rule py3_fails) (use assms in auto)
  moreover have "exts \<noteq> []" using one(1) by auto
  ultimately show ?thesis
    unfolding extend_resources_def by (subst extend_loop.simps) (simp add: ext_round_def)
qed

section \<open>The program's own extensions\<close>

text \<open>In the order of their files.\<close>

definition own_extensions :: "bool \<times> bool \<Rightarrow> services \<Rightarrow> extensions" where
  "own_extensions conf services = [(''Commonservices'', Common_services_ext conf services),
     (''MEC'', Mem_ext conf services), (''MEO'', Meo_ext conf services)]"

lemmas own_defs = Mem_ext_def Meo_ext_def Common_services_ext_def own_extension_def

lemma own_extends:
  "\<exists>own. extend_resources True ''1.0'' [] (own_extensions conf services) =
     Inr (COMMON_SERVICES_ATTRIBUTE_MAP @ MEM_ATTRIBUTE_MAP @ MEO_ATTRIBUTE_MAP, [], own)"
  unfolding extend_resources_def
  by (simp add: extend_loop.simps ext_round_def own_extensions_def own_defs process_ext_def blocked_def finish_ext_def
      extended_by_def dict_get_def merge_attrs_def dict_del_def dict_keys_def
      COMMON_SERVICES_ATTRIBUTE_MAP_def MEM_ATTRIBUTE_MAP_def MEO_ATTRIBUTE_MAP_def)

text \<open>A plugin that pages its lists itself must sort them itself.\<close>

definition sorts_pages :: "(string \<times> bool \<times> bool \<times> bool) list \<Rightarrow> string \<Rightarrow> bool" where
  "sorts_pages services k = (case map_of services k of None \<Rightarrow> False | Some (bulk, pages, sorts) \<Rightarrow> pages \<longrightarrow> sorts)"

definition served :: "resource_ext list \<Rightarrow> string \<times> attr_map \<Rightarrow> bool" where
  "served rs = (\<lambda>(coll, attrs). list_ex (\<lambda>re. re_collection re = coll \<and> (case re_app re of
     Api C \<Rightarrow> c_collection C = coll \<and> c_attr_info C = attrs \<and> c_resource C = butlast coll \<and> c_parent C = None
   | _ \<Rightarrow> False)) rs)"

lemma make_controller_ok:
  assumes "snd (snd native) \<or> \<not> fst (snd native)"
  obtains C where "make_controller coll res attrs bulk acts parent pages sorts native = Inr C"
    and "c_collection C = underscores coll" and "c_attr_info C = attrs" and "c_resource C = underscores res"
    and "c_parent C = parent"
  using assms by (cases native) (auto simp: make_controller_def)

lemma build_served:
  assumes "snd (snd native) \<or> \<not> fst (snd native)" and "map_of plurals coll = Some (butlast coll)"
    and "has_key service COMMON_PREFIXES" and "dashes coll = coll" "underscores coll = coll"
  shows "\<exists>re. build_resource conf plurals [] (True, False) native service (coll, attrs) = Inr re \<and> served [re] (coll, attrs)"
proof -
  obtain C where C: "make_controller coll (butlast coll) attrs False [] None (fst conf) (snd conf) native = Inr C"
    "c_collection C = underscores coll" "c_attr_info C = attrs" "c_resource C = underscores (butlast coll)" "c_parent C = None"
    using make_controller_ok [OF assms(1)] by blast
  obtain prefix where "map_of COMMON_PREFIXES service = Some prefix" using assms(3) by (auto simp: has_key_map_of)
  moreover have "underscores (butlast coll) = butlast coll" using assms(5) by (simp add: underscores_def map_butlast)
  ultimately show ?thesis using assms(2,4,5) C
    by (simp add: build_resource_def lookup_def Let_def dict_get_def dict_keys_def served_def)
qed

lemma served_append: "served (xs @ ys) p \<longleftrightarrow> served xs p \<or> served ys p"
  by (auto simp: served_def)

lemma build_all_served:
  assumes "\<forall>p \<in> set m. \<exists>re. f p = Inr re \<and> served [re] p"
  shows "\<exists>rs. mapS f m = Inr rs \<and> (\<forall>p \<in> set m. served rs p)"
  using assms
proof (induction m)
  case (Cons p m)
  then obtain re rs where "f p = Inr re" "served [re] p" "mapS f m = Inr rs" "\<forall>p \<in> set m. served rs p" by auto
  then show ?case using served_append [of "[re]" rs] by auto
qed simp

lemma info_served:
  assumes "sorts_pages services k" and "k \<noteq> []" and "has_key k COMMON_PREFIXES"
    and "\<forall>(coll, attrs) \<in> set m. map_of plurals coll = Some (butlast coll) \<and> dashes coll = coll \<and> underscores coll = coll"
  shows "\<exists>rs. build_resource_info conf services plurals m k [] True False = Inr rs \<and> (\<forall>p \<in> set m. served rs p)"
proof -
  from assms(1) obtain native where native: "lookup k services = Inr native" "snd (snd native) \<or> \<not> fst (snd native)"
    by (auto simp: sorts_pages_def lookup_def split: option.splits)
  have "\<forall>p \<in> set m. \<exists>re. build_resource conf plurals [] (True, False) native k p = Inr re \<and> served [re] p"
    using assms(3,4) build_served [OF native(2)] by fast
  from build_all_served [OF this] show ?thesis
    using assms(2) native(1) by (simp add: build_resource_info_def Let_def)
qed

lemma mem_served:
  assumes "sorts_pages services ''MEC''"
  shows "\<exists>rs. mem_get_resources conf services = Inr rs \<and> (\<forall>p \<in> set MEM_ATTRIBUTE_MAP. served rs p)"
proof -
  let ?plurals = "dict_set ''service_types'' ''service_type'' (build_plural_mappings [] MEM_ATTRIBUTE_MAP)"
  from assms obtain native where native: "lookup ''MEC'' services = Inr native" "snd (snd native) \<or> \<not> fst (snd native)"
    by (auto simp: sorts_pages_def lookup_def split: option.splits)
  have "isl (sub_resource native coll parent p) = False" for coll parent p
    by (cases p; rule make_controller_ok [OF native(2), of coll "fst p" "snd p" True "[]" "Some (snd parent)" False False])
      (simp_all add: sub_resource_def)
  then have "\<exists>re. sub_resource native coll parent p = Inr re" for coll parent p
    by (metis isl_def sum.exhaust_sel sum.disc(2))
  then obtain subs where subs: "mapS (\<lambda>(coll, parent, members). mapS (sub_resource native coll parent) members)
      SUB_RESOURCE_ATTRIBUTE_MAP = Inr subs"
    by (auto simp: SUB_RESOURCE_ATTRIBUTE_MAP_def) (metis bindS_simps(2))
  have "\<exists>rs. build_resource_info conf services ?plurals MEM_ATTRIBUTE_MAP ''MEC'' [] True False = Inr rs \<and>
      (\<forall>p \<in> set MEM_ATTRIBUTE_MAP. served rs p)"
    by (rule info_served [OF assms]) (simp_all add: COMMON_PREFIXES_def has_key_iff MEM_ATTRIBUTE_MAP_def
        build_plural_mappings_def dict_get_def dashes_def underscores_def)
  then show ?thesis using native(1) subs served_append by (auto simp: mem_get_resources_def Let_def)
qed

lemma meo_served:
  "sorts_pages services ''MEO'' \<Longrightarrow> \<exists>rs. meo_get_resources conf services = Inr rs \<and> (\<forall>p \<in> set MEO_ATTRIBUTE_MAP. served rs p)"
  unfolding meo_get_resources_def
  by (erule info_served) (simp_all add: COMMON_PREFIXES_def has_key_iff MEO_ATTRIBUTE_MAP_def
      build_plural_mappings_def dict_get_def dashes_def underscores_def)

lemma cs_served:
  "sorts_pages services ''COMMONSERVICES'' \<Longrightarrow>
   \<exists>rs. cs_get_resources conf services = Inr rs \<and> (\<forall>p \<in> set COMMON_SERVICES_ATTRIBUTE_MAP. served rs p)"
  unfolding cs_get_resources_def
  by (erule info_served) (simp_all add: COMMON_PREFIXES_def has_key_iff COMMON_SERVICES_ATTRIBUTE_MAP_def
      build_plural_mappings_def dict_get_def dashes_def underscores_def)


section \<open>Witnesses\<close>

definition plain_services :: services where
  "plain_services = [(''MEC'', False, False, False), (''MEO'', False, False, False), (''COMMONSERVICES'', False, False, False)]"


lemma own_benign: "\<forall>(n, ext) \<in> set (own_extensions conf services). benign version ext"
  by (simp add: own_extensions_def own_defs benign_def extended_by_def)

lemma python3_cannot_extend_witness:
  "extend_resources False ''1.0'' [] (own_extensions (True, True) plain_services) = Inl runtime_error"
  by (rule python3_cannot_extend [OF own_benign, of "''MEC''" "Mem_ext (True, True) plain_services"])
    (simp_all add: own_extensions_def own_defs blocked_def)

text \<open>An extension that requires one that is there, and one that requires itself.\<close>

definition sample_ext :: "string list \<Rightarrow> string \<Rightarrow> extension" where
  "sample_ext req res = \<lparr>ext_info = Inr [], ext_alias = res, ext_extended = Some (\<lambda>v. Inr [(res, [])]),
     ext_required = Some req, ext_update = None, ext_resources = Inr [], ext_actions = Inr [], ext_requests = Inr []\<rparr>"

definition sample_exts :: extensions where
  "sample_exts = [(''a'', sample_ext [''b''] ''as''), (''b'', sample_ext [] ''bs''), (''c'', sample_ext [''c''] ''cs'')]"

lemma extend_resources_exact_witness:
  "\<exists>m' left own. extend_resources True ''1.0'' [] sample_exts = Inr (m', left, own) \<and>
    (\<forall>n. List.member left n \<longleftrightarrow> (\<exists>ext. map_of sample_exts n = Some ext \<and> ext_extended ext \<noteq> None \<and> \<not> loadable sample_exts n)) \<and>
    fst ` set m' = contributed ''1.0'' sample_exts (loadable sample_exts)"
proof -
  have "dict_ok sample_exts" "\<forall>(n, ext) \<in> set sample_exts. benign ''1.0'' ext"
    by (simp_all add: sample_exts_def sample_ext_def dict_ok_def benign_def)
  from extend_resources_exact [OF this, of "[]"] show ?thesis by simp
qed

end
