(* ===== verification/Purge.thy ===== *)
theory Purge
  imports DbWf PyOps
begin

text \<open>
  Purging of deleted rows (db/migration/purge_tables.py). The code reads the tables and
  their foreign keys from the database it is connected to; here a database is the list of its
  tables, a row the dictionary of its columns, and a date the number of seconds since
  \<open>datetime.min\<close>. Whether the database refuses to delete rows, for other rows refer to them, say, is
  a parameter. \<open>reflect\<close> is the database of the other theories seen like this.
\<close>

type_synonym tables = "(string \<times> pydict list) list"

text \<open>What inspection tells of each table: its columns and its foreign keys, each the column and
  the table it refers to.\<close>

type_synonym schema = "(string \<times> string list \<times> (string \<times> string) list) list"

definition GRANULARITY :: "(string \<times> int) list" where
  "GRANULARITY = [(''days'', 86400), (''hours'', 3600), (''minutes'', 60), (''seconds'', 1)]"

section \<open>Associated tables\<close>

type_synonym assoc_map = "(string \<times> (string \<times> string) list) list"

text \<open>For each table the tables that refer to it, with the column.\<close>

definition add_fk :: "string \<Rightarrow> string \<times> string \<Rightarrow> assoc_map \<Rightarrow> assoc_map" where
  "add_fk t = (\<lambda>(col, ref) m. case map_of m ref of
       None \<Rightarrow> dict_set ref [(t, col)] m
     | Some cols \<Rightarrow> dict_set ref (dict_set t col cols) m)"

definition referring :: "schema \<Rightarrow> assoc_map" where
  "referring S = foldl (\<lambda>m (t, cols, fks). foldl (\<lambda>m fk. add_fk t fk m) m fks) [] S"

text \<open>Tables that others refer to are taken out again. Python 3 fails when it happens, for
  it iterates over the dictionary it deletes from.\<close>

definition associated_tables :: "bool \<Rightarrow> schema \<Rightarrow> exn + assoc_map" where
  "associated_tables python2 S = (let m = referring S;
       out = map (\<lambda>(k, cols). (k, filter (\<lambda>(t, col). \<not> has_key t m) cols)) m in
     if \<not> python2 \<and> out \<noteq> m then Inl runtime_error else Inr out)"

section \<open>Deleting\<close>

definition column :: "string \<Rightarrow> pydict \<Rightarrow> exn + pyval" where
  "column c row = (case map_of row c of None \<Rightarrow> Inl attribute_error | Some v \<Rightarrow> Inr v)"

text \<open>A comparison with NULL does not hold in SQL.\<close>

definition before :: "int \<Rightarrow> pyval \<Rightarrow> bool" where
  "before limit v = (case v of PInt i \<Rightarrow> i \<le> limit | _ \<Rightarrow> False)"

definition table :: "string \<Rightarrow> tables \<Rightarrow> exn + pydict list" where
  "table t T = (case map_of T t of None \<Rightarrow> Inl (Exc (Lib DBError) [(''table'', PStr t)]) | Some rows \<Rightarrow> Inr rows)"

text \<open>\<open>DELETE FROM t\<close> of the rows that a test picks, and \<open>SELECT\<close> of a column of them.\<close>

definition delete_where :: "(tables \<Rightarrow> tables \<Rightarrow> bool) \<Rightarrow> string \<Rightarrow> (pydict \<Rightarrow> bool) \<Rightarrow> tables \<Rightarrow> exn + tables" where
  "delete_where refuses t p T = bindS (table t T) (\<lambda>rows.
     let T' = dict_set t (filter (\<lambda>r. \<not> p r) rows) T in
     if refuses T T' then Inl (Exc (Lib DBReferenceError) []) else Inr T')"

definition select_where :: "string \<Rightarrow> string \<Rightarrow> (pydict \<Rightarrow> bool) \<Rightarrow> tables \<Rightarrow> exn + pyval list" where
  "select_where c t p T = bindS (table t T) (\<lambda>rows. mapS (column c) (filter p rows))"

definition old_row :: "string \<Rightarrow> int \<Rightarrow> pydict \<Rightarrow> bool" where
  "old_row c limit row = before limit (dict_get c PNone row)"

definition has_column :: "schema \<Rightarrow> string \<Rightarrow> string \<Rightarrow> exn + unit" where
  "has_column S c t = (case map_of S t of None \<Rightarrow> Inl (Exc (Lib DBError) [(''table'', PStr t)])
     | Some (cols, fks) \<Rightarrow> if c \<in> set cols then Inr () else Inl attribute_error)"

definition purge_associated :: "(tables \<Rightarrow> tables \<Rightarrow> bool) \<Rightarrow> pyval list \<Rightarrow> string \<times> string \<Rightarrow> tables \<Rightarrow> exn + tables" where
  "purge_associated refuses ids = (\<lambda>(t, col). delete_where refuses t (\<lambda>r. py_in (dict_get col PNone r) ids))"

definition purge_resource_tables ::
  "schema \<Rightarrow> (tables \<Rightarrow> tables \<Rightarrow> bool) \<Rightarrow> string \<Rightarrow> int \<Rightarrow> assoc_map \<Rightarrow> tables \<Rightarrow> exn + tables" where
  "purge_resource_tables S refuses t limit m T = bindS (has_column S ''deleted_at'' t) (\<lambda>_.
     bindS (case map_of m t of None \<Rightarrow> Inr T
       | Some cols \<Rightarrow> bindS (select_where ''id'' t (old_row ''deleted_at'' limit) T) (\<lambda>ids.
           if ids = [] then Inr T else foldS (purge_associated refuses ids) cols T))
       (delete_where refuses t (old_row ''deleted_at'' limit)))"

definition purge_events_table :: "(tables \<Rightarrow> tables \<Rightarrow> bool) \<Rightarrow> int \<Rightarrow> tables \<Rightarrow> exn + tables" where
  "purge_events_table refuses limit T =
     bindS (select_where ''resource_id'' ''events''
        (\<lambda>r. dict_get ''event_type'' PNone r = PStr ''DELETE'' \<and> old_row ''timestamp'' limit r) T) (\<lambda>ids.
     if ids = [] then Inr T
     else delete_where refuses ''events'' (\<lambda>r. py_in (dict_get ''resource_id'' PNone r) ids) T)"

section \<open>The command\<close>

definition invalid_purge :: "string \<Rightarrow> pyval \<Rightarrow> exn" where
  "invalid_purge why v = Exc (Common InvalidInput) [(''error_message'', PList [PStr why, v])]"

definition purge_age :: "pyval \<Rightarrow> string \<Rightarrow> exn + int" where
  "purge_age age granularity = (case py_int age of
       Inl value \<Rightarrow> if value then Inl (invalid_purge ''age should be an integer'' age) else Inl type_error
     | Inr n \<Rightarrow> if n < 0 then Inl (invalid_purge ''age should be a positive integer'' (PInt n))
         else (case map_of GRANULARITY granularity of
            None \<Rightarrow> Inl (invalid_purge ''granularity should be days, hours, minutes, or seconds'' (PStr granularity))
          | Some unit \<Rightarrow> Inr (n * unit)))"

text \<open>\<open>utcnow() - timedelta\<close> does not go before \<open>datetime.min\<close>.\<close>

definition time_line :: "int \<Rightarrow> int \<Rightarrow> exn + int" where
  "time_line now age = (if now - age < 0 then Inl (Exc (Lib OverflowError) []) else Inr (now - age))"

definition purge_deleted ::
  "(tables \<Rightarrow> tables \<Rightarrow> bool) \<Rightarrow> bool \<Rightarrow> schema \<Rightarrow> int \<Rightarrow> string \<Rightarrow> pyval \<Rightarrow> string \<Rightarrow> tables \<Rightarrow> exn + tables" where
  "purge_deleted refuses python2 S now t age granularity T =
     bindS (bindS (purge_age age granularity) (time_line now)) (\<lambda>limit.
     bindS (associated_tables python2 S) (\<lambda>m.
       if t = ''events'' then purge_events_table refuses limit T
       else if t = ''all'' then bindS (purge_events_table refuses limit T)
         (foldS (\<lambda>u. purge_resource_tables S refuses u limit m) [''mea'', ''mead'', ''vims''])
       else purge_resource_tables S refuses t limit m T))"

section \<open>The tables of the program\<close>

definition audited :: "string list \<Rightarrow> string list" where
  "audited columns = [''id'', ''tenant_id'', ''created_at'', ''updated_at'', ''deleted_at''] @ columns"

definition program_schema :: schema where
  "program_schema = [
     (''events'', [''id'', ''resource_id'', ''resource_state'', ''resource_type'', ''timestamp'', ''event_type'', ''event_details''], []),
     (''mea'', audited [''mead_id'', ''name'', ''description'', ''instance_id'', ''mgmt_url'', ''status'', ''vim_id'', ''placement_attr'', ''error_reason''], [(''mead_id'', ''mead''), (''vim_id'', ''vims'')]),
     (''mea_attribute'', [''id'', ''mea_id'', ''key'', ''value''], [(''mea_id'', ''mea'')]),
     (''mead'', audited [''name'', ''description'', ''mgmt_driver'', ''template_source''], []),
     (''mead_attribute'', [''id'', ''mead_id'', ''key'', ''value''], [(''mead_id'', ''mead'')]),
     (''ns'', audited [''nsd_id'', ''name'', ''description'', ''mea_ids'', ''mgmt_urls'', ''status'', ''vim_id'', ''error_reason''], [(''nsd_id'', ''nsd''), (''vim_id'', ''vims'')]),
     (''nsd'', audited [''name'', ''description'', ''meads'', ''template_source''], []),
     (''nsd_attribute'', [''id'', ''nsd_id'', ''key'', ''value''], [(''nsd_id'', ''nsd'')]),
     (''servicetypes'', [''id'', ''tenant_id'', ''mead_id'', ''service_type''], [(''mead_id'', ''mead'')]),
     (''vimauths'', [''id'', ''vim_id'', ''password'', ''auth_url'', ''vim_project'', ''auth_cred''], [(''vim_id'', ''vims'')]),
     (''vims'', audited [''type'', ''name'', ''description'', ''placement_attr'', ''shared'', ''is_default'', ''status''], [])]"

definition date :: "nat option \<Rightarrow> pyval" where
  "date d = (case d of None \<Rightarrow> PNone | Some n \<Rightarrow> PInt (int n))"

definition evt_str :: "evt_type \<Rightarrow> string" where
  "evt_str e = (case e of RES_EVT_CREATE \<Rightarrow> ''CREATE'' | RES_EVT_DELETE \<Rightarrow> ''DELETE'' | RES_EVT_UPDATE \<Rightarrow> ''UPDATE''
     | RES_EVT_MONITOR \<Rightarrow> ''MONITOR'' | RES_EVT_SCALE \<Rightarrow> ''SCALE'')"

definition mea_columns :: "mea_row \<Rightarrow> pydict" where
  "mea_columns r = [(''id'', PStr (ma_id r)), (''mead_id'', PStr (ma_mead_id r)), (''vim_id'', PStr (ma_vim_id r)),
     (''deleted_at'', date (ma_deleted_at r))]"

definition mea_attr_columns :: "mea_attr_row \<Rightarrow> pydict" where
  "mea_attr_columns r = [(''id'', PStr (maa_id r)), (''mea_id'', PStr (maa_mea_id r))]"

definition reflect :: "'x db_scheme \<Rightarrow> tables" where
  "reflect s = [
     (''events'', map (\<lambda>e. [(''resource_id'', PStr (ev_resource_id e)), (''event_type'', PStr (evt_str (ev_event_type e))),
        (''timestamp'', PInt (int (ev_timestamp e)))]) (t_events s)),
     (''mea'', map mea_columns (t_meas s)),
     (''mea_attribute'', map mea_attr_columns (t_mea_attrs s)),
     (''mead'', map (\<lambda>r. [(''id'', PStr (md_id r)), (''deleted_at'', date (md_deleted_at r))]) (t_meads s)),
     (''mead_attribute'', map (\<lambda>r. [(''id'', PStr (mda_id r)), (''mead_id'', PStr (mda_mead_id r))]) (t_mead_attrs s)),
     (''ns'', map (\<lambda>r. [(''id'', PStr (ns_id r)), (''nsd_id'', PStr (ns_nsd_id r)), (''vim_id'', PStr (ns_vim_id r)),
        (''deleted_at'', date (ns_deleted_at r))]) (t_nss s)),
     (''nsd'', map (\<lambda>r. [(''id'', PStr (nd_id r)), (''deleted_at'', date (nd_deleted_at r))]) (t_nsds s)),
     (''nsd_attribute'', map (\<lambda>r. [(''id'', PStr (nda_id r)), (''nsd_id'', PStr (nda_nsd_id r))]) (t_nsd_attrs s)),
     (''servicetypes'', map (\<lambda>r. [(''id'', PStr (st_id r)), (''mead_id'', PStr (st_mead_id r))]) (t_service_types s)),
     (''vimauths'', map (\<lambda>r. [(''id'', PStr (va_id r)), (''vim_id'', PStr (va_vim_id r))]) (t_vim_auths s)),
     (''vims'', map (\<lambda>r. [(''id'', PStr (vm_id r)), (''deleted_at'', date (vm_deleted_at r))]) (t_vims s))]"

section \<open>What a purge takes\<close>

text \<open>A row is kept when it was deleted after the time line; \<open>datetime.min\<close>, which marks a live
  row, is not after any.\<close>

definition kept_mea :: "int \<Rightarrow> mea_row \<Rightarrow> bool" where
  "kept_mea limit r = (case ma_deleted_at r of None \<Rightarrow> True | Some d \<Rightarrow> limit < int d)"

lemma old_mea: "old_row ''deleted_at'' limit (mea_columns r) \<longleftrightarrow> \<not> kept_mea limit r"
  by (auto simp: old_row_def mea_columns_def dict_get_def before_def date_def kept_mea_def split: option.splits)

lemma mapS_Inr: "(\<And>x. x \<in> set xs \<Longrightarrow> f x = Inr (g x)) \<Longrightarrow> mapS f xs = Inr (map g xs)"
  by (induction xs) auto

lemma py_in_image: "py_in (PStr x) (map (\<lambda>r. PStr (f r)) rs) \<longleftrightarrow> x \<in> f ` set rs"
  by (auto simp: py_in_def list_ex_iff)

lemma mea_assoc: "\<exists>m. associated_tables True program_schema = Inr m \<and> map_of m ''mea'' = Some [(''mea_attribute'', ''mea_id'')]"
  by (simp add: associated_tables_def Let_def referring_def program_schema_def add_fk_def has_key_iff)

lemma purged_meas:
  assumes "map_of m ''mea'' = Some [(''mea_attribute'', ''mea_id'')]"
  shows "\<exists>T. purge_resource_tables program_schema (\<lambda>_ _. False) ''mea'' limit m (reflect s) = Inr T \<and>
    map_of T ''mea'' = Some (map mea_columns (filter (kept_mea limit) (t_meas s))) \<and>
    map_of T ''mea_attribute'' = Some (map mea_attr_columns
      (filter (\<lambda>a. maa_mea_id a \<notin> ma_id ` {r \<in> set (t_meas s). \<not> kept_mea limit r}) (t_mea_attrs s)))"
proof -
  let ?T = "reflect s"
  let ?old = "filter (\<lambda>r. \<not> kept_mea limit r) (t_meas s)"
  have meas: "map_of ?T ''mea'' = Some (map mea_columns (t_meas s))" by (simp add: reflect_def)
  have attrs: "map_of ?T ''mea_attribute'' = Some (map mea_attr_columns (t_mea_attrs s))" by (simp add: reflect_def)
  have col: "has_column program_schema ''deleted_at'' ''mea'' = Inr ()"
    by (simp add: has_column_def program_schema_def audited_def)
  have "mapS (column ''id'') (map mea_columns rs) = Inr (map (\<lambda>r. PStr (ma_id r)) rs)" for rs
    by (induction rs) (simp_all add: column_def mea_columns_def)
  then have ids: "select_where ''id'' ''mea'' (old_row ''deleted_at'' limit) ?T = Inr (map (\<lambda>r. PStr (ma_id r)) ?old)"
    by (simp add: select_where_def table_def meas filter_map comp_def old_mea)
  have gone: "py_in (dict_get ''mea_id'' PNone (mea_attr_columns a)) (map (\<lambda>r. PStr (ma_id r)) ?old) \<longleftrightarrow>
      maa_mea_id a \<in> ma_id ` {r \<in> set (t_meas s). \<not> kept_mea limit r}" for a
    by (simp add: mea_attr_columns_def dict_get_def py_in_image)
  let ?rest = "map mea_attr_columns (filter (\<lambda>a. maa_mea_id a \<notin> ma_id ` {r \<in> set (t_meas s). \<not> kept_mea limit r}) (t_mea_attrs s))"
  let ?U = "if ?old = [] then ?T else dict_set ''mea_attribute'' ?rest ?T"
  have step: "bindS (select_where ''id'' ''mea'' (old_row ''deleted_at'' limit) ?T) (\<lambda>ids.
      if ids = [] then Inr ?T else foldS (purge_associated (\<lambda>_ _. False) ids) [(''mea_attribute'', ''mea_id'')] ?T) = Inr ?U"
    by (auto simp: ids purge_associated_def delete_where_def table_def attrs filter_map comp_def gone)
  have U: "map_of ?U ''mea'' = Some (map mea_columns (t_meas s))" "map_of ?U ''mea_attribute'' = Some ?rest"
  proof -
    show "map_of ?U ''mea'' = Some (map mea_columns (t_meas s))" using meas by simp
    show "map_of ?U ''mea_attribute'' = Some ?rest"
    proof (cases "?old = []")
      case True
      then have none: "{r \<in> set (t_meas s). \<not> kept_mea limit r} = {}" by (auto simp: filter_empty_conv)
      have "?rest = map mea_attr_columns (t_mea_attrs s)" unfolding none by simp
      with True attrs show ?thesis by simp
    qed simp
  qed
  show ?thesis
    using U by (simp add: purge_resource_tables_def col assms step [simplified] delete_where_def table_def filter_map comp_def old_mea)
qed

end
