(* ===== verification/KeyManager.thy ===== *)
theory KeyManager
  imports PyOps
begin

text \<open>
  The key manager (keymgr/barbican_key_manager.py) over any Barbican. A context is an object:
  its identity, by which the manager remembers it, and its value. The name of its class
  chooses the way it authenticates; the program's own contexts are \<open>Context\<close> objects.
\<close>

section \<open>Barbican and the manager\<close>

record key_context =
  kc_id :: nat
  kc_class :: string
  kc_ctx :: ctx

text \<open>\<open>kb_store\<close> creates and stores a secret and gives its reference; \<open>kb_versions\<close> is the list
  that discovery yields, \<open>kb_login\<close> and \<open>kb_client\<close> make the session and the client.\<close>

record 'w barbican =
  kb_endpoint :: "pydict \<Rightarrow> 'w \<Rightarrow> (exn + string option) \<times> 'w"
  kb_client :: "pydict \<Rightarrow> string \<Rightarrow> 'w \<Rightarrow> (exn + unit) \<times> 'w"
  kb_versions :: "pydict \<Rightarrow> string \<Rightarrow> 'w \<Rightarrow> (exn + pydict list) \<times> 'w"
  kb_store :: "string \<Rightarrow> 'w \<Rightarrow> (exn + string) \<times> 'w"
  kb_get :: "string \<Rightarrow> 'w \<Rightarrow> (exn + string) \<times> 'w"
  kb_delete :: "string \<Rightarrow> 'w \<Rightarrow> (exn + unit) \<times> 'w"

text \<open>The client is known by the context it was made for.\<close>

record 'w key_manager =
  km_auth_url :: string
  km_client :: "nat option"
  km_endpoint :: string
  km_base_url :: "string option"
  km_world :: 'w

type_synonym ('w, 'a) kprog = "('w key_manager, 'a) prog"

definition outer :: "('w \<Rightarrow> (exn + 'a) \<times> 'w) \<Rightarrow> ('w, 'a) kprog" where
  "outer f = (\<lambda>s. case f (km_world s) of (r, w) \<Rightarrow> (r, s\<lparr>km_world := w\<rparr>))"

definition key_manager_error :: "exn \<Rightarrow> exn" where
  "key_manager_error e = Exc (Keymgr KeyManagerError) [(''reason'', PStr [])]"

definition key_not_found :: "string \<Rightarrow> exn" where
  "key_not_found i = Exc (Keymgr ManagedObjectNotFoundError) [(''uuid'', PStr i)]"

section \<open>The client\<close>

text \<open>Contexts of the classes KeystonePassword and KeystoneToken, which the program has not,
  authenticate by their own attributes.\<close>

definition get_keystone_auth :: "string \<Rightarrow> key_context \<Rightarrow> exn + pydict" where
  "get_keystone_auth url c =
     (if kc_class c = ''KeystonePassword'' then Inr [(''auth_url'', PStr url), (''username'', opt_str (user_name (kc_ctx c)))]
      else if kc_class c = ''KeystoneToken'' then Inr [(''auth_url'', PStr url), (''token'', opt_str (auth_token (kc_ctx c)))]
      else if kc_class c = ''RequestContext'' \<or> kc_class c = ''Context'' then
        Inr [(''auth_url'', PStr url), (''token'', opt_str (auth_token (kc_ctx c))),
          (''project_id'', opt_str (tenant_id (kc_ctx c)))]
      else Inl (Exc (Keymgr Forbidden) [(''reason'', PStr
        ''context must be of type KeystonePassword, KeystoneToken, RequestContext, or Context.'')]))"

definition with_slash :: "string option \<Rightarrow> exn + string" where
  "with_slash e = (case e of None \<Rightarrow> Inl type_error
     | Some u \<Rightarrow> if u = [] then Inl index_error else Inr (if last u = CHR ''/'' then u else u @ ''/''))"

text \<open>The endpoint is kept before the client is made; any failure is a KeyManagerError.\<close>

definition make_client :: "'w barbican \<Rightarrow> key_context \<Rightarrow> ('w, pydict \<times> string) kprog" where
  "make_client B c = catchE
     (bindE (gets km_auth_url) (\<lambda>url.
      bindE (pureE (get_keystone_auth url c)) (\<lambda>auth.
      bindE (outer (kb_endpoint B auth)) (\<lambda>e.
      bindE (pureE (with_slash e)) (\<lambda>endpoint.
      thenE (modify (\<lambda>s. s\<lparr>km_endpoint := endpoint\<rparr>))
      (thenE (outer (kb_client B auth endpoint))
      (thenE (modify (\<lambda>s. s\<lparr>km_client := Some (kc_id c)\<rparr>))
        (ret (auth, endpoint)))))))))
     (\<lambda>e. raise (key_manager_error e))"

definition create_base_url :: "'w barbican \<Rightarrow> pydict \<Rightarrow> string \<Rightarrow> ('w, string) kprog" where
  "create_base_url B auth endpoint = bindE (outer (kb_versions B auth endpoint)) (\<lambda>vs.
     if vs = [] then raise (Exc (Keymgr KeyManagerError) [(''reason'', PStr (''Could not find discovery information for '' @ endpoint))])
     else ret (endpoint @ py_str (dict_get ''id'' PNone (last vs)) @ ''/''))"

text \<open>Without a context \<open>Forbidden\<close> is called with a positional argument, which it does not
  take. A client that is remembered is used with the base URL there is.\<close>

definition get_barbican_client :: "'w barbican \<Rightarrow> key_context option \<Rightarrow> ('w, unit) kprog" where
  "get_barbican_client B context = (case context of None \<Rightarrow> raise type_error | Some c \<Rightarrow>
     bindE (gets km_client) (\<lambda>known.
     if known = Some (kc_id c) then ret ()
     else bindE (make_client B c) (\<lambda>(auth, endpoint).
       bindE (create_base_url B auth endpoint) (\<lambda>url. modify (\<lambda>s. s\<lparr>km_base_url := Some url\<rparr>)))))"

section \<open>The operations\<close>

definition barbican_error :: "exn \<Rightarrow> bool" where
  "barbican_error e \<longleftrightarrow> isinstance e (Lib BarbicanHTTPAuthError) \<or> isinstance e (Lib BarbicanHTTPClientError)
     \<or> isinstance e (Lib BarbicanHTTPServerError)"

definition is_secret_not_found_error :: "exn \<Rightarrow> bool" where
  "is_secret_not_found_error e \<longleftrightarrow> isinstance e (Lib BarbicanHTTPClientError) \<and>
     dict_get ''status_code'' PNone (exn_args e) = PInt 404"

text \<open>\<open>ref.rpartition('/')[2]\<close>\<close>

definition retrieve_secret_uuid :: "string \<Rightarrow> string" where
  "retrieve_secret_uuid ref = rev (takeWhile (\<lambda>c. c \<noteq> CHR ''/'') (rev ref))"

definition create_secret_ref :: "string option \<Rightarrow> string \<Rightarrow> exn + string" where
  "create_secret_ref base i = (if i = [] then Inl (Exc (Keymgr KeyManagerError) [(''reason'', PStr ''Key ID is None'')])
     else Inr ((case base of None \<Rightarrow> ''None'' | Some u \<Rightarrow> u) @ ''secrets/'' @ i))"

definition key_store :: "'w barbican \<Rightarrow> key_context option \<Rightarrow> string \<Rightarrow> ('w, string) kprog" where
  "key_store B c secret = thenE (get_barbican_client B c)
     (catchE (bindE (outer (kb_store B secret)) (\<lambda>ref. ret (retrieve_secret_uuid ref)))
       (\<lambda>e. if barbican_error e then raise (key_manager_error e) else raise e))"

definition key_failed :: "string \<Rightarrow> exn \<Rightarrow> exn" where
  "key_failed i e = (if \<not> barbican_error e then e
     else if is_secret_not_found_error e then key_not_found i else key_manager_error e)"

definition key_get :: "'w barbican \<Rightarrow> key_context option \<Rightarrow> string \<Rightarrow> ('w, string) kprog" where
  "key_get B c i = thenE (get_barbican_client B c)
     (catchE (bindE (gets km_base_url) (\<lambda>base. bindE (pureE (create_secret_ref base i)) (\<lambda>ref. outer (kb_get B ref))))
       (\<lambda>e. raise (key_failed i e)))"

definition key_delete :: "'w barbican \<Rightarrow> key_context option \<Rightarrow> string \<Rightarrow> ('w, unit) kprog" where
  "key_delete B c i = thenE (get_barbican_client B c)
     (catchE (bindE (gets km_base_url) (\<lambda>base. bindE (pureE (create_secret_ref base i)) (\<lambda>ref. outer (kb_delete B ref))))
       (\<lambda>e. raise (key_failed i e)))"

section \<open>References\<close>

lemma uuid_of_ref:
  assumes "CHR ''/'' \<notin> set i" shows "retrieve_secret_uuid (u @ ''/'' @ i) = i"
proof -
  have "takeWhile (\<lambda>c. c \<noteq> CHR ''/'') (rev i @ CHR ''/'' # rev u) = rev i"
    using assms by (subst takeWhile_append2) auto
  then show ?thesis by (simp add: retrieve_secret_uuid_def)
qed

lemma ref_roundtrip:
  "CHR ''/'' \<notin> set i \<Longrightarrow> create_secret_ref base i = Inr ref \<Longrightarrow> retrieve_secret_uuid ref = i"
  using uuid_of_ref [of i "(case base of None \<Rightarrow> ''None'' | Some u \<Rightarrow> u) @ ''secrets''"]
  by (auto simp: create_secret_ref_def split: if_splits)

end
