(* ===== verification/AdminProps.thy ===== *)
theory AdminProps
  imports Purge KeyManager Samples
begin

text \<open>
  What an administrator's tools do to the program's data: the purge of deleted rows, and the
  key manager that holds the keys of the VIMs' passwords.
\<close>

section \<open>Purging\<close>



section \<open>Keys\<close>

lemma outer_keeps:
  assumes "outer f s = (r, t)"
  shows "km_client t = km_client s" "km_base_url t = km_base_url s" "t = s\<lparr>km_world := snd (f (km_world s))\<rparr>"
  using assms by (auto simp: outer_def split: prod.splits)

lemma made_client: "make_client B c s = (Inr x, t) \<Longrightarrow> km_client t = Some (kc_id c) \<and> km_base_url t = km_base_url s"
  by (auto simp: make_client_def outer_def eff_simps split: sum.splits prod.splits)

lemma connected: "get_barbican_client B (Some c) s = (Inr (), t) \<Longrightarrow> km_client t = Some (kc_id c)"
  by (auto simp: get_barbican_client_def create_base_url_def outer_def eff_simps dest!: made_client split: sum.splits prod.splits if_splits)

lemma remembered: "km_client t = Some (kc_id c) \<Longrightarrow> get_barbican_client B (Some c) t = (Inr (), t)"
  by (simp add: get_barbican_client_def eff_simps)

lemma key_get_remembered:
  "km_client t = Some (kc_id c) \<Longrightarrow> key_get B (Some c) i t = catchE (bindE (pureE (create_secret_ref (km_base_url t) i))
     (\<lambda>ref. outer (kb_get B ref))) (\<lambda>e. raise (key_failed i e)) t"
  by (simp add: key_get_def remembered thenE_Inr catchE_def bindE_def)

lemma key_stored:
  fixes B :: "'w barbican"
  assumes "key_store B (Some c) secret s = (Inr i, t)"
  obtains u :: "'w key_manager" and ref where "km_client t = Some (kc_id c)" "kb_store B secret (km_world u) = (Inr ref, km_world t)"
    "i = retrieve_secret_uuid ref"
proof -
  from assms obtain u where u: "get_barbican_client B (Some c) s = (Inr (), u)"
    by (auto simp: key_store_def eff_simps split: sum.splits prod.splits)
  have "catchE (bindE (outer (kb_store B secret)) (\<lambda>ref. ret (retrieve_secret_uuid ref)))
       (\<lambda>e. if barbican_error e then raise (key_manager_error e) else raise e) u = (Inr i, t)"
    using assms u by (simp add: key_store_def thenE_Inr)
  then show ?thesis
    using that [of u] connected [OF u] by (auto simp: outer_def eff_simps split: sum.splits prod.splits if_splits)
qed

text \<open>C17: A key that was stored is found: when Barbican gives a stored secret a reference
  below the base URL and finds it by this reference, then \<open>get\<close> with the identifier that
  \<open>store\<close> has returned yields the secret, whether the client was made for the call or was
  remembered.\<close>

theorem stored_key_found:
  assumes stored: "key_store B (Some c) secret s = (Inr i, t)" and base: "km_base_url t = Some url"
    and barbican: "\<And>w ref w'. kb_store B secret w = (Inr ref, w') \<Longrightarrow>
      \<exists>n. n \<noteq> [] \<and> CHR ''/'' \<notin> set n \<and> ref = url @ ''secrets/'' @ n \<and> fst (kb_get B ref w') = Inr secret"
  shows "fst (key_get B (Some c) i t) = Inr secret"
proof (rule key_stored [OF stored])
  fix u ref
  assume c: "km_client t = Some (kc_id c)" and ref: "kb_store B secret (km_world u) = (Inr ref, km_world t)"
    and i: "i = retrieve_secret_uuid ref"
  from barbican [OF ref] obtain n where n: "n \<noteq> []" "CHR ''/'' \<notin> set n" "ref = url @ ''secrets/'' @ n"
    "fst (kb_get B ref (km_world t)) = Inr secret" by blast
  have "i = n" using uuid_of_ref [OF n(2), of "url @ ''secrets''"] i n(3) by simp
  then have "create_secret_ref (km_base_url t) i = Inr ref" using base n by (simp add: create_secret_ref_def)
  then show "fst (key_get B (Some c) i t) = Inr secret"
    using n(4) by (cases "kb_get B ref (km_world t)") (simp add: key_get_remembered [OF c] outer_def eff_simps)
qed

text \<open>A Barbican that keeps its secrets in a list, with the versions it tells.\<close>

definition sample_barbican :: "pydict list \<Rightarrow> (string \<times> string) list barbican" where
  "sample_barbican vs = \<lparr>kb_endpoint = \<lambda>_ w. (Inr (Some ''http:''), w), kb_client = \<lambda>_ _ w. (Inr (), w),
     kb_versions = \<lambda>_ _ w. (Inr vs, w),
     kb_store = \<lambda>x w. let ref = ''http:/v1/secrets/'' @ replicate (Suc (length w)) (CHR ''7'') in (Inr ref, (ref, x) # w),
     kb_get = \<lambda>ref w. (case map_of w ref of
         None \<Rightarrow> Inl (Exc (Lib BarbicanHTTPClientError) [(''status_code'', PInt 404)]) | Some x \<Rightarrow> Inr x, w),
     kb_delete = \<lambda>ref w. (Inr (), filter (\<lambda>(r, x). r \<noteq> ref) w)\<rparr>"

definition sample_keys :: "(string \<times> string) list key_manager" where
  "sample_keys = \<lparr>km_auth_url = ''http'', km_client = None, km_endpoint = [], km_base_url = None, km_world = []\<rparr>"

definition sample_kc :: key_context where
  "sample_kc = \<lparr>kc_id = 1, kc_class = ''Context'', kc_ctx = user_ctx ''t1''\<rparr>"

theorem stored_key_found_witness:
  "fst (key_get (sample_barbican [[(''id'', PStr ''v1'')]]) (Some sample_kc) ''7''
     (snd (key_store (sample_barbican [[(''id'', PStr ''v1'')]]) (Some sample_kc) ''k'' sample_keys))) = Inr ''k''"
proof (rule stored_key_found [where url = "''http:/v1/''" and s = sample_keys])
  show "key_store (sample_barbican [[(''id'', PStr ''v1'')]]) (Some sample_kc) ''k'' sample_keys =
    (Inr ''7'', snd (key_store (sample_barbican [[(''id'', PStr ''v1'')]]) (Some sample_kc) ''k'' sample_keys))"
    by code_simp
  show "km_base_url (snd (key_store (sample_barbican [[(''id'', PStr ''v1'')]]) (Some sample_kc) ''k'' sample_keys)) = Some ''http:/v1/''"
    by code_simp
qed (auto simp: sample_barbican_def Let_def)

text \<open>A failed discovery is remembered as a success: the first call fails, but the client
  it made stays, and every later call of the same context goes on with it and asks for a
  reference that starts with the text None.\<close>

theorem failed_discovery_remembered:
  assumes new: "km_client s \<noteq> Some (kc_id c)" "km_base_url s = None" and i: "i \<noteq> []"
    and client: "make_client B c s = (Inr (auth, endpoint), u)"
    and versions: "kb_versions B auth endpoint (km_world u) = (Inr [], w)"
  shows "key_get B (Some c) i s = (Inl (Exc (Keymgr KeyManagerError)
      [(''reason'', PStr (''Could not find discovery information for '' @ endpoint))]), u\<lparr>km_world := w\<rparr>) \<and>
    key_get B (Some c) i (u\<lparr>km_world := w\<rparr>) =
      catchE (outer (kb_get B (''Nonesecrets/'' @ i))) (\<lambda>e. raise (key_failed i e)) (u\<lparr>km_world := w\<rparr>)"
proof -
  let ?t = "u\<lparr>km_world := w\<rparr>"
  have u: "km_client ?t = Some (kc_id c)" "km_base_url ?t = None"
    using made_client [OF client] new by simp_all
  have "get_barbican_client B (Some c) s = (Inl (Exc (Keymgr KeyManagerError)
      [(''reason'', PStr (''Could not find discovery information for '' @ endpoint))]), ?t)"
    using new client versions by (simp add: get_barbican_client_def create_base_url_def outer_def bindE_def)
  then have "key_get B (Some c) i s = (Inl (Exc (Keymgr KeyManagerError)
      [(''reason'', PStr (''Could not find discovery information for '' @ endpoint))]), ?t)"
    by (simp add: key_get_def thenE_Inl)
  moreover have "key_get B (Some c) i ?t = catchE (outer (kb_get B (''Nonesecrets/'' @ i))) (\<lambda>e. raise (key_failed i e)) ?t"
    using u i by (simp add: key_get_remembered create_secret_ref_def bindE_def catchE_def)
  ultimately show ?thesis by blast
qed

theorem failed_discovery_remembered_witness:
  "fst (key_get (sample_barbican []) (Some sample_kc) ''7'' sample_keys) = Inl (Exc (Keymgr KeyManagerError)
      [(''reason'', PStr ''Could not find discovery information for http:/'')]) \<and>
    fst (key_get (sample_barbican []) (Some sample_kc) ''7''
      (snd (key_get (sample_barbican []) (Some sample_kc) ''7'' sample_keys))) = Inl (key_not_found ''7'')"
proof -
  let ?u = "sample_keys\<lparr>km_endpoint := ''http:/'', km_client := Some 1\<rparr>"
  let ?auth = "[(''auth_url'', PStr ''http''), (''token'', PNone), (''project_id'', PStr ''t1'')]"
  let ?run = "catchE (outer (kb_get (sample_barbican []) ''Nonesecrets/7'')) (\<lambda>e. raise (key_failed ''7'' e)) (?u\<lparr>km_world := []\<rparr>)"
  have client: "make_client (sample_barbican []) sample_kc sample_keys = (Inr (?auth, ''http:/''), ?u)"
    by code_simp
  have second: "fst ?run = Inl (key_not_found ''7'')" by code_simp
  show ?thesis
    using failed_discovery_remembered [OF _ _ _ client, of "''7''" "[]"] second
    by (simp add: sample_keys_def sample_kc_def sample_barbican_def)
qed

end
