(* ===== verification/Rpc.thy ===== *)
theory Rpc
  imports PyOps
begin

text \<open>
  The part of common/rpc.py that is the program's own: the timeouts of remote calls, which
  double when a call times out, and the context that travels with a message. The transport
  is a parameter; times are natural numbers of seconds.
\<close>

section \<open>Timeouts\<close>

text \<open>\<open>_METHOD_TIMEOUTS\<close> is a default dictionary: \<open>rp_ceiling\<close> is the value that it gives to new
  keys once a ceiling has been set, before that it is the configured response timeout.\<close>

record 'w rpc =
  rp_timeouts :: "(string \<times> nat) list"
  rp_ceiling :: "nat option"
  rp_max :: "nat option"
  rp_world :: 'w

text \<open>\<open>rc_call\<close> performs the call with a timeout, \<open>rc_uniform\<close> draws a number up to a bound,
  \<open>rc_sleep\<close> waits.\<close>

record 'w rpc_lib =
  rc_response_timeout :: nat
  rc_call :: "string \<Rightarrow> pydict \<Rightarrow> nat \<Rightarrow> 'w \<Rightarrow> (exn + pyval) \<times> 'w"
  rc_uniform :: "nat \<Rightarrow> 'w \<Rightarrow> nat \<times> 'w"
  rc_sleep :: "nat \<Rightarrow> 'w \<Rightarrow> 'w"

definition reset_timeouts :: "'w rpc \<Rightarrow> 'w rpc" where
  "reset_timeouts s = s\<lparr>rp_timeouts := [], rp_ceiling := None, rp_max := None\<rparr>"

definition default_timeout :: "'w rpc_lib \<Rightarrow> 'w rpc \<Rightarrow> nat" where
  "default_timeout L s = (case rp_ceiling s of None \<Rightarrow> rc_response_timeout L | Some c \<Rightarrow> c)"

definition get_max_timeout :: "'w rpc_lib \<Rightarrow> 'w rpc \<Rightarrow> nat" where
  "get_max_timeout L s = (case rp_max s of None \<Rightarrow> rc_response_timeout L * 10
     | Some m \<Rightarrow> if m = 0 then rc_response_timeout L * 10 else m)"

definition set_max_timeout :: "'w rpc_lib \<Rightarrow> nat \<Rightarrow> 'w rpc \<Rightarrow> 'w rpc" where
  "set_max_timeout L m s = (if m < get_max_timeout L s
     then s\<lparr>rp_timeouts := map (\<lambda>(k, v). (k, min v m)) (rp_timeouts s), rp_ceiling := Some m, rp_max := Some m\<rparr>
     else s)"

text \<open>\<open>_METHOD_TIMEOUTS[k]\<close>, which fills in the default.\<close>

definition timeout_of :: "'w rpc_lib \<Rightarrow> 'w rpc \<Rightarrow> string \<Rightarrow> nat" where
  "timeout_of L s k = (case map_of (rp_timeouts s) k of Some v \<Rightarrow> v | None \<Rightarrow> default_timeout L s)"

definition touch :: "'w rpc_lib \<Rightarrow> string \<Rightarrow> 'w rpc \<Rightarrow> 'w rpc" where
  "touch L k s = s\<lparr>rp_timeouts := dict_set k (timeout_of L s k) (rp_timeouts s)\<rparr>"

definition scoped_method :: "string option \<Rightarrow> string \<Rightarrow> string" where
  "scoped_method namespace meth = (case namespace of None \<Rightarrow> meth
     | Some n \<Rightarrow> if n = [] then meth else n @ ''.'' @ meth)"

text \<open>\<open>_ContextWrapper.call\<close>: the timeout of the method grows before the exception goes on.\<close>

definition rpc_call :: "'w rpc_lib \<Rightarrow> string option \<Rightarrow> string \<Rightarrow> pydict \<Rightarrow> 'w rpc \<Rightarrow> (exn + pyval) \<times> 'w rpc" where
  "rpc_call L namespace meth args s = (let k = scoped_method namespace meth; timeout = timeout_of L s k; s1 = touch L k s in
     case rc_call L meth args timeout (rp_world s1) of (res, w) \<Rightarrow>
       let s2 = s1\<lparr>rp_world := w\<rparr> in
       (case res of
          Inr v \<Rightarrow> (Inr v, s2)
        | Inl e \<Rightarrow> if \<not> isinstance e (Lib MessagingTimeout) then (Inl e, s2)
            else (case rc_uniform L (min (timeout_of L s2 k) (rc_response_timeout L)) (rp_world s2) of (wait, w2) \<Rightarrow>
              let new = min (timeout * 2) (get_max_timeout L s2);
                  s3 = (if new > timeout_of L s2 k then s2\<lparr>rp_timeouts := dict_set k new (rp_timeouts s2)\<rparr> else s2) in
              (Inl e, s3\<lparr>rp_world := rc_sleep L wait w2\<rparr>))))"

text \<open>A context that sets its own timeout is not wrapped.\<close>

definition prepared_call :: "'w rpc_lib \<Rightarrow> nat option \<Rightarrow> string option \<Rightarrow> string \<Rightarrow> pydict \<Rightarrow> 'w rpc \<Rightarrow> (exn + pyval) \<times> 'w rpc" where
  "prepared_call L timeout namespace meth args s = (case timeout of
       None \<Rightarrow> rpc_call L namespace meth args s
     | Some t \<Rightarrow> (case rc_call L meth args t (rp_world s) of (res, w) \<Rightarrow> (res, s\<lparr>rp_world := w\<rparr>)))"

subsection \<open>Growth\<close>

lemma default_same [simp]: "default_timeout L (s\<lparr>rp_timeouts := ts\<rparr>) = default_timeout L s"
  "default_timeout L (s\<lparr>rp_world := w\<rparr>) = default_timeout L s"
  by (simp_all add: default_timeout_def)

lemma touch_timeout [simp]: "timeout_of L (touch L k s) k' = timeout_of L s k'"
  by (simp add: timeout_of_def touch_def split: option.split)

lemma touch_max [simp]: "get_max_timeout L (touch L k s) = get_max_timeout L s"
  by (simp add: get_max_timeout_def touch_def)

lemma timeout_world [simp]: "timeout_of L (s\<lparr>rp_world := w\<rparr>) k = timeout_of L s k" "get_max_timeout L (s\<lparr>rp_world := w\<rparr>) = get_max_timeout L s"
  by (simp_all add: timeout_of_def get_max_timeout_def split: option.split)

lemma timed_out:
  assumes "fst (rpc_call L namespace meth args s) = Inl e" and "isinstance e (Lib MessagingTimeout)"
  shows "timeout_of L (snd (rpc_call L namespace meth args s)) k =
      (if k = scoped_method namespace meth then max (timeout_of L s k) (min (2 * timeout_of L s k) (get_max_timeout L s))
       else timeout_of L s k)"
    and "get_max_timeout L (snd (rpc_call L namespace meth args s)) = get_max_timeout L s"
proof -
  let ?k = "scoped_method namespace meth"
  obtain res w where call: "rc_call L meth args (timeout_of L s ?k) (rp_world (touch L ?k s)) = (res, w)" by force
  let ?s2 = "(touch L ?k s)\<lparr>rp_world := w\<rparr>"
  have res: "res = Inl e" using assms by (auto simp: rpc_call_def Let_def call split: sum.splits if_splits prod.splits)
  obtain wait w2 where draw: "rc_uniform L (min (timeout_of L ?s2 ?k) (rc_response_timeout L)) (rp_world ?s2) = (wait, w2)" by force
  let ?new = "min (timeout_of L s ?k * 2) (get_max_timeout L s)"
  let ?s3 = "if ?new > timeout_of L s ?k then ?s2\<lparr>rp_timeouts := dict_set ?k ?new (rp_timeouts ?s2)\<rparr> else ?s2"
  have run: "snd (rpc_call L namespace meth args s) = ?s3\<lparr>rp_world := rc_sleep L wait w2\<rparr>"
    using draw assms(2) by (simp add: rpc_call_def Let_def call res)
  have set: "timeout_of L (t\<lparr>rp_world := u, rp_timeouts := dict_set ?k v (rp_timeouts t)\<rparr>) j = (if j = ?k then v else timeout_of L t j)" for t v u j
    by (simp add: timeout_of_def split: option.split)
  show "timeout_of L (snd (rpc_call L namespace meth args s)) k =
      (if k = ?k then max (timeout_of L s k) (min (2 * timeout_of L s k) (get_max_timeout L s)) else timeout_of L s k)"
    unfolding run by (auto simp: set mult.commute)
  show "get_max_timeout L (snd (rpc_call L namespace meth args s)) = get_max_timeout L s"
    unfolding run by (simp add: get_max_timeout_def touch_def)
qed

section \<open>Contexts\<close>

text \<open>The keyword arguments of \<open>Context.__init__\<close>; other keys are ignored.\<close>

definition text_or_none :: "string \<Rightarrow> pydict \<Rightarrow> string option" where
  "text_or_none k d = (case map_of d k of Some (PStr s) \<Rightarrow> Some s | _ \<Rightarrow> None)"

definition roles_of :: "pydict \<Rightarrow> string list option" where
  "roles_of d = (case map_of d ''roles'' of Some (PList rs) \<Rightarrow> Some (List.map_filter (\<lambda>r. case r of PStr s \<Rightarrow> Some s | _ \<Rightarrow> None) rs)
     | _ \<Rightarrow> None)"

definition admin_of :: "pydict \<Rightarrow> bool option" where
  "admin_of d = (case map_of d ''is_admin'' of Some (PBool b) \<Rightarrow> Some b | _ \<Rightarrow> None)"

text \<open>\<open>Context.from_dict\<close>: the user and the tenant must be there.\<close>

definition from_dict :: "(ctx \<Rightarrow> bool) \<Rightarrow> pydict \<Rightarrow> exn + ctx" where
  "from_dict check_is_admin d =
     (if \<not> has_key ''user_id'' d \<or> \<not> has_key ''tenant_id'' d then Inl type_error
      else Inr (make_context check_is_admin (text_or_none ''user_id'' d) (text_or_none ''tenant_id'' d) (admin_of d)
        (roles_of d) (text_or_none ''auth_token'' d) (text_or_none ''tenant_name'' d) (text_or_none ''user_name'' d)))"

text \<open>\<open>RequestContextSerializer\<close>; entities go through the base serializer, if there is one.\<close>

definition serialize_context :: "ctx \<Rightarrow> pydict" where
  "serialize_context c = to_dict c"

definition deserialize_context :: "(ctx \<Rightarrow> bool) \<Rightarrow> pydict \<Rightarrow> exn + ctx" where
  "deserialize_context check_is_admin d = from_dict check_is_admin d"

definition through_base :: "(ctx \<Rightarrow> pyval \<Rightarrow> pyval) option \<Rightarrow> ctx \<Rightarrow> pyval \<Rightarrow> pyval" where
  "through_base base c entity = (case base of None \<Rightarrow> entity | Some f \<Rightarrow> f c entity)"

section \<open>Properties\<close>

text \<open>Calls of a method that time out, one after the other.\<close>

fun repeat_call :: "nat \<Rightarrow> 'w rpc_lib \<Rightarrow> string option \<Rightarrow> string \<Rightarrow> pydict \<Rightarrow> 'w rpc \<Rightarrow> 'w rpc" where
  "repeat_call 0 L ns m args s = s"
| "repeat_call (Suc n) L ns m args s = repeat_call n L ns m args (snd (rpc_call L ns m args s))"

definition always_times_out :: "'w rpc_lib \<Rightarrow> string \<Rightarrow> bool" where
  "always_times_out L m \<longleftrightarrow> (\<forall>args t w. \<exists>e. fst (rc_call L m args t w) = Inl e \<and> isinstance e (Lib MessagingTimeout))"

lemma always_fails: "always_times_out L m \<Longrightarrow> \<exists>e. fst (rpc_call L ns m args s) = Inl e \<and> isinstance e (Lib MessagingTimeout)"
  unfolding always_times_out_def
  by (drule spec [of _ args], drule spec [of _ "timeout_of L s (scoped_method ns m)"],
      drule spec [of _ "rp_world (touch L (scoped_method ns m) s)"])
    (auto simp: rpc_call_def Let_def split: prod.splits)

lemma backoff_bound: "max t (min (2 * t) (c::nat)) \<le> c \<longleftrightarrow> t \<le> c"
  by auto

lemma backoff_step:
  assumes le: "t \<le> (c::nat)"
  shows "min (min (2 * t) c * 2 ^ n) c = min (t * 2 ^ Suc n) c"
proof (cases "2 * t \<le> c")
  case True
  then show ?thesis by (simp add: min_def mult.assoc)
next
  case False
    have "c \<le> c * 2 ^ n" by simp
    moreover have "2 * t \<le> t * 2 ^ Suc n" by simp
    with False have "c \<le> t * 2 ^ Suc n" by linarith
    ultimately show ?thesis using False le by simp
qed

text \<open>C25: When a remote method times out again and again, the timeout of its next call is twice
  that of the last one, up to the ceiling and never beyond it; the timeouts of other
  methods stay as they are.\<close>

theorem rpc_backoff:
  assumes out: "always_times_out L m" and le: "timeout_of L s (scoped_method ns m) \<le> get_max_timeout L s"
  shows "timeout_of L (repeat_call n L ns m args s) k =
    (if k = scoped_method ns m then min (timeout_of L s k * 2 ^ n) (get_max_timeout L s) else timeout_of L s k)"
  using le
proof (induction n arbitrary: s)
  case 0
  then show ?case by simp
next
  case (Suc n)
  let ?t = "snd (rpc_call L ns m args s)"
  from always_fails [OF out] obtain e where e: "fst (rpc_call L ns m args s) = Inl e" "isinstance e (Lib MessagingTimeout)" by blast
  note step = timed_out [OF e]
  have "timeout_of L ?t (scoped_method ns m) \<le> get_max_timeout L ?t"
    using Suc.prems by (simp add: step backoff_bound)
  from Suc.IH [OF this] Suc.prems show ?case by (simp add: step backoff_step del: power_Suc)
qed

definition silent_lib :: "unit rpc_lib" where
  "silent_lib = \<lparr>rc_response_timeout = 60, rc_call = (\<lambda>m args t w. (Inl (Exc (Lib MessagingTimeout) []), w)),
     rc_uniform = (\<lambda>b w. (b, w)), rc_sleep = (\<lambda>n w. w)\<rparr>"

definition fresh_rpc :: "unit rpc" where
  "fresh_rpc = \<lparr>rp_timeouts = [], rp_ceiling = None, rp_max = None, rp_world = ()\<rparr>"

lemma rpc_backoff_witness:
  "timeout_of silent_lib (repeat_call 3 silent_lib None ''update_vim'' [] fresh_rpc) ''update_vim'' = 480 \<and>
   timeout_of silent_lib (repeat_call 5 silent_lib None ''update_vim'' [] fresh_rpc) ''update_vim'' = 600"
proof -
  have "always_times_out silent_lib ''update_vim''"
    by (simp add: always_times_out_def silent_lib_def isinstance_def mro_def numeral_eq_Suc)
  moreover have "scoped_method None ''update_vim'' = ''update_vim''" "timeout_of silent_lib fresh_rpc ''update_vim'' = 60"
    "get_max_timeout silent_lib fresh_rpc = 600" by code_simp+
  ultimately show ?thesis
    using rpc_backoff [of silent_lib "''update_vim''" fresh_rpc None 3 "[]" "''update_vim''"]
      rpc_backoff [of silent_lib "''update_vim''" fresh_rpc None 5 "[]" "''update_vim''"] by simp
qed

text \<open>C26: A context arrives with a remote call as it was sent: user, tenant, roles, token, names and
  whether it is an admin, which is not decided anew.\<close>

theorem context_travels: "deserialize_context check_is_admin (serialize_context c) = Inr c"
proof -
  let ?d = "to_dict c"
  have keys: "has_key ''user_id'' ?d" "has_key ''tenant_id'' ?d"
    by (simp_all add: to_dict_def dict_update_def has_key_map_of)
  have strings: "text_or_none ''user_id'' ?d = user_id c" "text_or_none ''tenant_id'' ?d = tenant_id c"
    "text_or_none ''auth_token'' ?d = auth_token c" "text_or_none ''tenant_name'' ?d = tenant_name c"
    "text_or_none ''user_name'' ?d = user_name c"
    by (simp_all add: text_or_none_def to_dict_def dict_update_def opt_str_def split: option.split)
  have "List.map_filter (\<lambda>r. case r of PStr s \<Rightarrow> Some s | _ \<Rightarrow> None) (map PStr rs) = rs" for rs
    by (induction rs) (simp_all add: List.map_filter_simps)
  then have roles: "roles_of ?d = Some (roles c)"
    by (simp add: roles_of_def to_dict_def dict_update_def)
  have admin: "admin_of ?d = Some (is_admin c)"
    by (simp add: admin_of_def to_dict_def dict_update_def)
  show ?thesis
    by (simp add: deserialize_context_def serialize_context_def from_dict_def keys strings roles admin make_context_def Let_def)
qed

end
