(* ===== verification/SysUtils.thy ===== *)
theory SysUtils
  imports PyOps
begin

text \<open>
  Helpers around the operating system: running a command (agent/linux/utils.py), a command on
  a remote machine (common/cmd_executer.py), the search for the configuration
  (common/utils.py) and the VLAN ranges of networks (plugins/common/utils.py). Processes,
  SSH and the file system are parameters.
\<close>

section \<open>Commands\<close>

record process =
  pr_stdout :: string
  pr_stderr :: string
  pr_code :: int

text \<open>\<open>ol_split\<close> is \<open>shlex.split\<close>, \<open>ol_run\<close> runs the arguments with an environment and an
  input, \<open>ol_repr\<close> shows a list or a text in a message.\<close>

record os_lib =
  ol_split :: "string \<Rightarrow> string list"
  ol_environ :: "(string \<times> string) list"
  ol_run :: "string list \<Rightarrow> (string \<times> string) list \<Rightarrow> string \<Rightarrow> exn + process"
  ol_repr :: "string list \<Rightarrow> string"

definition create_process :: "os_lib \<Rightarrow> string list \<Rightarrow> string \<Rightarrow> (string \<times> string) list \<Rightarrow>
    string list \<times> (string \<times> string) list" where
  "create_process O' cmd root_helper addl_env =
     ((if root_helper = [] then cmd else ol_split O' root_helper @ cmd), dict_update (ol_environ O') addl_env)"

definition run_message :: "os_lib \<Rightarrow> string list \<Rightarrow> process \<Rightarrow> string" where
  "run_message O' cmd p = [CHR 0x0A] @ ''Command: '' @ ol_repr O' cmd @ [CHR 0x0A] @ ''Exit code: '' @ show_int (pr_code p) @
     [CHR 0x0A] @ ''Stdout: '' @ ol_repr O' [pr_stdout p] @ [CHR 0x0A] @ ''Stderr: '' @ ol_repr O' [pr_stderr p]"

text \<open>With \<open>return_stderr\<close> both outputs are returned.\<close>

definition execute :: "os_lib \<Rightarrow> string list \<Rightarrow> string \<Rightarrow> string \<Rightarrow> (string \<times> string) list \<Rightarrow> bool \<Rightarrow> bool \<Rightarrow>
    exn + string \<times> string option" where
  "execute O' cmd root_helper process_input addl_env check_exit_code return_stderr =
     (case create_process O' cmd root_helper addl_env of (argv, env) \<Rightarrow>
        bindS (ol_run O' argv env process_input) (\<lambda>p.
          if pr_code p \<noteq> 0 \<and> check_exit_code
          then Inl (Exc (Lib RuntimeError) [(''msg'', PStr (run_message O' argv p))])
          else Inr (pr_stdout p, if return_stderr then Some (pr_stderr p) else None)))"

definition split_lines :: "string \<Rightarrow> string list" where
  "split_lines s = filter (\<lambda>x. x \<noteq> []) (map strip (split_char (CHR 0x0A) s))"

text \<open>An exit code of 1 means that there are no children; it is looked for as a text.\<close>

definition find_child_pids :: "os_lib \<Rightarrow> string \<Rightarrow> exn + string list" where
  "find_child_pids O' pid =
     (case execute O' [''ps'', ''--ppid'', pid, ''-o'', ''pid=''] [] [] [] True False of
        Inr (out, _) \<Rightarrow> Inr (split_lines out)
      | Inl e \<Rightarrow> if isinstance e (Lib RuntimeError) \<and> str_in ''Exit code: 1'' (py_str (dict_get ''msg'' PNone (exn_args e)))
          then Inr [] else Inl e)"

section \<open>Remote commands\<close>

record command_result =
  cr_cmd :: string
  cr_stdout :: "string list"
  cr_stderr :: "string list"
  cr_return_code :: int

text \<open>\<open>sh_connect user password host timeout\<close> opens a session, \<open>sh_exec\<close> runs a command in it
  with an input and gives the lines it wrote and its exit status.\<close>

record 'c ssh_lib =
  sh_connect :: "string \<Rightarrow> string \<Rightarrow> string \<Rightarrow> nat \<Rightarrow> exn + 'c"
  sh_exec :: "'c \<Rightarrow> string \<Rightarrow> string option \<Rightarrow> exn + string list \<times> string list \<times> int"

definition remote_connect :: "'c ssh_lib \<Rightarrow> string \<Rightarrow> string \<Rightarrow> string \<Rightarrow> nat \<Rightarrow> exn + 'c" where
  "remote_connect L user password host timeout = (case sh_connect L user password host timeout of
       Inr c \<Rightarrow> Inr c
     | Inl e \<Rightarrow> if isinstance e (Lib SSHAuthenticationException) then Inl (Exc (Common NotAuthorized) []) else Inl e)"

definition execute_command :: "'c ssh_lib \<Rightarrow> 'c \<Rightarrow> string \<Rightarrow> string \<Rightarrow> exn + command_result" where
  "execute_command L c cmd input_data =
     bindS (sh_exec L c cmd (if input_data = [] then None else Some input_data)) (\<lambda>(out, err, code).
       Inr \<lparr>cr_cmd = cmd, cr_stdout = out, cr_stderr = err, cr_return_code = code\<rparr>)"

section \<open>The configuration file\<close>

text \<open>\<open>fl_fix\<close> expands a path and makes it absolute.\<close>

record files =
  fl_exists :: "string \<Rightarrow> bool"
  fl_isdir :: "string \<Rightarrow> bool"
  fl_list :: "string \<Rightarrow> string list"
  fl_fix :: "string \<Rightarrow> string"
  fl_cwd :: string
  fl_state_path :: string
  fl_common_dir :: string

definition join_path :: "string \<Rightarrow> string \<Rightarrow> string" where
  "join_path a b = (if b \<noteq> [] \<and> hd b = CHR ''/'' then b
     else if a = [] \<or> last a = CHR ''/'' then a @ b else a @ ''/'' @ b)"

definition join_paths :: "string \<Rightarrow> string list \<Rightarrow> string" where
  "join_paths a bs = foldl join_path a bs"

definition config_file_dirs :: "files \<Rightarrow> string list" where
  "config_file_dirs F = [fl_fix F (join_path (fl_cwd F) ''etc''),
     fl_fix F (join_paths ''~'' [''.apmec-venv'', ''etc'', ''apmec'']), fl_fix F ''~'',
     join_path (fl_state_path F) ''etc'', join_paths (fl_state_path F) [''etc'', ''apmec''],
     fl_fix F (join_paths ''~'' [''.local'', ''etc'', ''apmec'']),
     ''/usr/etc/apmec'', ''/usr/local/etc/apmec'', ''/etc/apmec/'', ''/etc'']"

text \<open>The options have a configuration file or the name of a plugin, or neither.\<close>

definition find_config_file :: "files \<Rightarrow> (string \<times> string) list \<Rightarrow> string \<Rightarrow> string option" where
  "find_config_file F options config_file =
    (let given = dict_get ''config_file'' [] options in
     if given \<noteq> [] \<and> fl_exists F given then Some (fl_fix F given)
     else let root = join_paths (fl_common_dir F) [''..'', ''..'', ''..'', ''..''];
       plain = config_file_dirs F;
       dirs = (case map_of options ''plugin'' of None \<Rightarrow> plain
         | Some p \<Rightarrow> map (\<lambda>x. join_paths x [''apmec'', ''plugins'', p]) plain);
       plugins = (if fl_exists F (join_path root ''plugins'')
         then filter (fl_isdir F) (map (\<lambda>p. fl_fix F (join_paths root [''plugins'', p, ''etc''])) (fl_list F (join_path root ''plugins'')))
         else []) in
     List.find (fl_exists F) (map (\<lambda>d. join_path d config_file) (dirs @ plugins)))"

section \<open>VLAN ranges\<close>

text \<open>The bounds that \<open>is_valid_vlan_tag\<close> compares with, \<open>MIN_VLAN_TAG\<close> and \<open>MAX_VLAN_TAG\<close>, are not in
  the module of constants: looking them up raises AttributeError.\<close>

definition is_valid_vlan_tag :: "int \<Rightarrow> exn + bool" where
  "is_valid_vlan_tag v = Inl attribute_error"

definition vlan_range_error :: "pyval \<Rightarrow> string \<Rightarrow> exn" where
  "vlan_range_error rng why = Exc (Common NetworkVlanRangeError) [(''vlan_range'', rng), (''error'', PStr why)]"

definition verify_vlan_range :: "int \<times> int \<Rightarrow> exn + unit" where
  "verify_vlan_range = (\<lambda>(a, b). let rng = PList [PInt a, PInt b] in
     bindS (foldS (\<lambda>v _. bindS (is_valid_vlan_tag v) (\<lambda>ok.
         if ok then Inr () else Inl (vlan_range_error rng (show_int v @ '' is not a valid VLAN tag'')))) [a, b] ()) (\<lambda>_.
     if b < a then Inl (vlan_range_error rng ''End of VLAN range is less than start of VLAN range'') else Inr ()))"

definition parse_network_vlan_range :: "string \<Rightarrow> exn + string \<times> (int \<times> int) option" where
  "parse_network_vlan_range text = (let entry = strip text in
     if \<not> List.member entry (CHR '':'') then Inr (entry, None)
     else (case split_char (CHR '':'') entry of
        [network, a, b] \<Rightarrow> (case (int_of_str (strip a), int_of_str (strip b)) of
            (Some lo, Some hi) \<Rightarrow> bindS (verify_vlan_range (lo, hi)) (\<lambda>_. Inr (network, Some (lo, hi)))
          | _ \<Rightarrow> Inl (vlan_range_error (PStr entry) ''invalid literal for int()''))
      | _ \<Rightarrow> Inl (vlan_range_error (PStr entry) ''values to unpack'')))"

definition add_vlan_range :: "string \<Rightarrow> (string \<times> (int \<times> int) list) list \<Rightarrow> exn + (string \<times> (int \<times> int) list) list" where
  "add_vlan_range entry networks = bindS (parse_network_vlan_range entry) (\<lambda>(network, rng).
     let old = dict_get network [] networks in
     Inr (dict_set network (case rng of None \<Rightarrow> old | Some r \<Rightarrow> old @ [r]) networks))"

definition parse_network_vlan_ranges :: "string list \<Rightarrow> exn + (string \<times> (int \<times> int) list) list" where
  "parse_network_vlan_ranges entries = foldS add_vlan_range entries []"

section \<open>Facts\<close>

text \<open>No range of VLANs can be read.\<close>

lemma no_vlan_range: "List.member (strip text) (CHR '':'') \<Longrightarrow> isl (parse_network_vlan_range text)"
  by (auto simp: parse_network_vlan_range_def Let_def verify_vlan_range_def is_valid_vlan_tag_def
      split: list.splits option.splits)

text \<open>The configuration file that is found exists, when expanding a path keeps what exists.\<close>

lemma found_exists:
  "(\<And>p. fl_exists F p \<Longrightarrow> fl_exists F (fl_fix F p)) \<Longrightarrow> find_config_file F options name = Some p \<Longrightarrow> fl_exists F p"
  by (auto simp: find_config_file_def Let_def split: if_splits dest!: find_SomeD)

text \<open>Any exit code that starts with the digit 1 passes for \<open>no children\<close>.\<close>

lemma str_in_suffix: "str_in p t \<Longrightarrow> str_in p (s @ t)"
  by (induction s) auto

lemma exit_code_hidden:
  assumes "ol_run O' [''ps'', ''--ppid'', pid, ''-o'', ''pid=''] (dict_update (ol_environ O') []) [] = Inr p"
    and "pr_code p \<noteq> 0" and "show_int (pr_code p) = CHR ''1'' # rest"
  shows "find_child_pids O' pid = Inr []"
proof -
  have "str_in ''Exit code: 1'' (''Exit code: 1'' @ u)" for u
    by (simp add: startswith_def)
  then have "str_in ''Exit code: 1'' (''Exit code: '' @ show_int (pr_code p) @ u)" for u
    using assms(3) by simp
  then have "str_in ''Exit code: 1'' (run_message O' [''ps'', ''--ppid'', pid, ''-o'', ''pid=''] p)"
    unfolding run_message_def
    using str_in_suffix [of "''Exit code: 1''" _ "[CHR 0x0A] @ ''Command: '' @ ol_repr O' [''ps'', ''--ppid'', pid, ''-o'', ''pid=''] @ [CHR 0x0A]"]
    by (simp del: str_in.simps)
  then show ?thesis
    using assms(1,2) by (simp add: find_child_pids_def execute_def create_process_def py_str_def dict_get_def
        isinstance_def mro_def numeral_eq_Suc)
qed

end
