(* ===== verification/Services.thy ===== *)
theory Services
  imports PyOps
begin

text \<open>
  The processes of the program: the socket of the API server with its wait for a free
  address (\<open>Server._get_socket\<close> of wsgi.py), the connection of an RPC service
  (common/rpc.py) and the services on top of it (service.py). What a service does to its
  servers, timers and manager is the list of these actions in their order.
\<close>

section \<open>The socket of the API server\<close>

record ssl_conf =
  sc_use_ssl :: bool
  sc_cert_file :: string
  sc_key_file :: string
  sc_ca_file :: string
  sc_retry_until_window :: nat

text \<open>\<open>nt_listen\<close> binds the address (and wraps the socket); its errors carry \<open>errno\<close>. Times are
  in tenths of a second, \<open>nt_sleep\<close> waits for one.\<close>

record 'w net =
  nt_resolves :: "string \<Rightarrow> nat \<Rightarrow> bool"
  nt_exists :: "string \<Rightarrow> bool"
  nt_now :: "'w \<Rightarrow> nat"
  nt_listen :: "'w \<Rightarrow> (exn + unit) \<times> 'w"
  nt_sleep :: "'w \<Rightarrow> 'w"

text \<open>An address that cannot be resolved ends the process.\<close>

datatype listening = Listening | SystemExit int

definition address_in_use :: "exn \<Rightarrow> bool" where
  "address_in_use e \<longleftrightarrow> isinstance e (Lib OSError) \<and> dict_get ''errno'' PNone (exn_args e) = PStr ''EADDRINUSE''"

definition missing_file :: "string \<Rightarrow> string \<Rightarrow> exn" where
  "missing_file what f = Exc (Lib RuntimeError) [(''msg'', PStr (''Unable to find '' @ what @ '' : '' @ f))]"

definition check_ssl :: "'w net \<Rightarrow> ssl_conf \<Rightarrow> exn + unit" where
  "check_ssl N C = (if \<not> sc_use_ssl C then Inr ()
     else if \<not> nt_exists N (sc_cert_file C) then Inl (missing_file ''ssl_cert_file'' (sc_cert_file C))
     else if sc_key_file C \<noteq> [] \<and> \<not> nt_exists N (sc_key_file C) then Inl (missing_file ''ssl_key_file'' (sc_key_file C))
     else if sc_ca_file C \<noteq> [] \<and> \<not> nt_exists N (sc_ca_file C) then Inl (missing_file ''ssl_ca_file'' (sc_ca_file C))
     else Inr ())"

text \<open>Whether a socket was bound before the time was up. The loop ends only if time passes.\<close>

partial_function (option) bind_loop :: "'w net \<Rightarrow> nat \<Rightarrow> 'w \<Rightarrow> ((exn + bool) \<times> 'w) option" where
  "bind_loop N retry_until w =
     (if retry_until \<le> nt_now N w then Some (Inr False, w)
      else case nt_listen N w of (r, w1) \<Rightarrow> (case r of
          Inr _ \<Rightarrow> Some (Inr True, w1)
        | Inl e \<Rightarrow> if address_in_use e then bind_loop N retry_until (nt_sleep N w1) else Some (Inl e, w1)))"

definition not_bound :: "string \<Rightarrow> nat \<Rightarrow> nat \<Rightarrow> exn" where
  "not_bound host port window = Exc (Lib RuntimeError) [(''host'', PStr host), (''port'', PInt (int port)), (''time'', PInt (int window))]"

definition get_socket :: "'w net \<Rightarrow> ssl_conf \<Rightarrow> string \<Rightarrow> nat \<Rightarrow> 'w \<Rightarrow> ((exn + listening) \<times> 'w) option" where
  "get_socket N C host port w = (if \<not> nt_resolves N host port then Some (Inr (SystemExit 1), w)
     else case check_ssl N C of Inl e \<Rightarrow> Some (Inl e, w)
     | Inr _ \<Rightarrow> Option.bind (bind_loop N (nt_now N w + 10 * sc_retry_until_window C) w) (\<lambda>(r, w1). Some (case r of
         Inl e \<Rightarrow> Inl e
       | Inr ok \<Rightarrow> if ok then Inr Listening else Inl (not_bound host port (sc_retry_until_window C)), w1)))"

lemma bind_loop_ends:
  assumes "\<And>w. nt_now N w \<le> nt_now N (snd (nt_listen N w))" and "\<And>w. nt_now N w < nt_now N (nt_sleep N w)"
  shows "\<exists>r w1. bind_loop N retry_until w = Some (r, w1)"
proof (induction "retry_until - nt_now N w" arbitrary: w rule: less_induct)
  case less
  show ?case
  proof (cases "retry_until \<le> nt_now N w")
    case True
    then show ?thesis by (subst bind_loop.simps) simp
  next
    case False
    obtain r w1 where l: "nt_listen N w = (r, w1)" by force
    have "nt_now N w < nt_now N (nt_sleep N w1)"
      using assms(1) [of w] assms(2) [of w1] by (simp add: l)
    with False have "retry_until - nt_now N (nt_sleep N w1) < retry_until - nt_now N w" by linarith
    from less [OF this] show ?thesis
      by (subst bind_loop.simps) (auto simp: l split: sum.splits)
  qed
qed

section \<open>RPC connections and services\<close>

record rpc_server =
  rs_topic :: string
  rs_host :: string
  rs_fanout :: bool
  rs_exchange :: string

record timer =
  tm_task :: string
  tm_interval :: nat
  tm_initial_delay :: "nat option"

datatype act = StartServer rpc_server | StopServer rpc_server | WaitServer rpc_server
  | InitHost | InitializeHook | AfterStart | StartBase | StopBase | WaitBase
  | StartTimer timer | StopTimer timer | WaitTimer timer

definition create_consumer :: "string \<Rightarrow> string option \<Rightarrow> string \<Rightarrow> rpc_server list \<Rightarrow> rpc_server list" where
  "create_consumer conf_host host topic servers =
     servers @ [\<lparr>rs_topic = topic, rs_host = (case host of None \<Rightarrow> conf_host | Some h \<Rightarrow> if h = [] then conf_host else h),
       rs_fanout = False, rs_exchange = ''apmec''\<rparr>]"

definition consume_in_threads :: "rpc_server list \<Rightarrow> act list" where
  "consume_in_threads servers = map StartServer servers"

text \<open>All servers are stopped before any is waited for.\<close>

definition close_connection :: "rpc_server list \<Rightarrow> act list" where
  "close_connection servers = map StopServer servers @ map WaitServer servers"

text \<open>\<open>create_connection\<close>: where RPC is disabled the connection has no servers and does
  nothing.\<close>

definition connection_servers :: "bool \<Rightarrow> string \<Rightarrow> string \<Rightarrow> rpc_server list" where
  "connection_servers rpc_disabled conf_host topic = (if rpc_disabled then [] else create_consumer conf_host None topic [])"

record service =
  se_host :: string
  se_binary :: string
  se_topic :: string
  se_manager :: string
  se_report_interval :: nat
  se_periodic_interval :: nat
  se_periodic_fuzzy_delay :: nat
  se_servers :: "rpc_server list"
  se_timers :: "timer list"

definition rpc_service_start :: "bool \<Rightarrow> string \<Rightarrow> bool \<Rightarrow> service \<Rightarrow> act list \<times> service" where
  "rpc_service_start rpc_disabled conf_host has_hook s = (let servers = connection_servers rpc_disabled conf_host (se_topic s) in
     (StartBase # (if has_hook then [InitializeHook] else []) @ consume_in_threads servers, s\<lparr>se_servers := servers\<rparr>))"

definition rpc_service_stop :: "service \<Rightarrow> act list" where
  "rpc_service_stop s = close_connection (se_servers s) @ [StopBase]"

text \<open>\<open>delay\<close> is the number that \<open>random.randint\<close> draws up to the fuzzy delay.\<close>

definition service_timers :: "nat \<Rightarrow> service \<Rightarrow> timer list" where
  "service_timers delay s =
     (if se_report_interval s = 0 then [] else
        [\<lparr>tm_task = ''report_state'', tm_interval = se_report_interval s, tm_initial_delay = Some (se_report_interval s)\<rparr>])
     @ (if se_periodic_interval s = 0 then [] else
        [\<lparr>tm_task = ''periodic_tasks'', tm_interval = se_periodic_interval s,
          tm_initial_delay = (if se_periodic_fuzzy_delay s = 0 then None else Some delay)\<rparr>])"

definition service_start :: "bool \<Rightarrow> string \<Rightarrow> bool \<Rightarrow> nat \<Rightarrow> service \<Rightarrow> act list \<times> service" where
  "service_start rpc_disabled conf_host has_hook delay s =
     (case rpc_service_start rpc_disabled conf_host has_hook s of (acts, s1) \<Rightarrow>
        (InitHost # acts @ map StartTimer (service_timers delay s) @ [AfterStart],
         s1\<lparr>se_timers := se_timers s1 @ service_timers delay s\<rparr>))"

text \<open>A timer that fails to stop is logged, the others are stopped all the same.\<close>

definition service_stop :: "service \<Rightarrow> act list \<times> service" where
  "service_stop s = (rpc_service_stop s @ map StopTimer (se_timers s), s\<lparr>se_timers := []\<rparr>)"

definition service_wait :: "service \<Rightarrow> act list" where
  "service_wait s = WaitBase # map WaitTimer (se_timers s)"

text \<open>\<open>s.rpartition(sep)[2]\<close>\<close>

fun after_last :: "string \<Rightarrow> string \<Rightarrow> string" where
  "after_last sep [] = []"
| "after_last sep (c # s) = (if str_in sep s then after_last sep s
     else if startswith sep (c # s) then drop (length sep) (c # s) else c # s)"

definition binary_topic :: "string \<Rightarrow> string" where
  "binary_topic binary = map (\<lambda>c. if c = CHR ''-'' then CHR ''_'' else c) (after_last ''neutron-'' binary)"

record service_conf =
  cf_host :: string
  cf_program :: string
  cf_managers :: "(string \<times> string) list"
  cf_report_interval :: nat
  cf_periodic_interval :: nat
  cf_periodic_fuzzy_delay :: nat

definition or_default :: "string option \<Rightarrow> string \<Rightarrow> string" where
  "or_default x d = (case x of None \<Rightarrow> d | Some s \<Rightarrow> if s = [] then d else s)"

text \<open>\<open>Service.create\<close>; \<open>imports\<close> says whether the class of a manager can be imported.\<close>

definition create_service ::
  "(string \<Rightarrow> exn + unit) \<Rightarrow> service_conf \<Rightarrow> string option \<Rightarrow> string option \<Rightarrow> string option \<Rightarrow> string option \<Rightarrow>
   nat option \<Rightarrow> nat option \<Rightarrow> nat option \<Rightarrow> exn + service" where
  "create_service import_class C host binary topic manager report periodic fuzzy =
     (let b = or_default binary (cf_program C); t = or_default topic (binary_topic b);
        m = or_default manager (dict_get (t @ ''_manager'') [] (cf_managers C)) in
      if m = [] then Inl attribute_error
      else bindS (import_class m) (\<lambda>_. Inr \<lparr>se_host = or_default host (cf_host C), se_binary = b, se_topic = t, se_manager = m,
        se_report_interval = (case report of None \<Rightarrow> cf_report_interval C | Some n \<Rightarrow> n),
        se_periodic_interval = (case periodic of None \<Rightarrow> cf_periodic_interval C | Some n \<Rightarrow> n),
        se_periodic_fuzzy_delay = (case fuzzy of None \<Rightarrow> cf_periodic_fuzzy_delay C | Some n \<Rightarrow> n),
        se_servers = [], se_timers = []\<rparr>))"

section \<open>Facts\<close>

text \<open>What a service starts it stops: its servers and its timers.\<close>

lemma started_is_stopped:
  assumes "service_start rpc_disabled conf_host has_hook delay s = (acts, s1)" and "se_timers s = []"
    and "service_stop s1 = (stops, s2)"
  shows "(StartServer x \<in> set acts \<longleftrightarrow> StopServer x \<in> set stops) \<and> (StartTimer t \<in> set acts \<longleftrightarrow> StopTimer t \<in> set stops) \<and>
    se_timers s2 = []"
  using assms
  by (auto simp: service_start_def rpc_service_start_def Let_def service_stop_def rpc_service_stop_def close_connection_def
      consume_in_threads_def split: if_splits)

end
