(* ===== verification/Paging.thy ===== *)
theory Paging
  imports DbBase ApiCommon PyOps
begin

text \<open>
  Sorting and paging by the database: db/sqlalchemyutils.py and the methods of db/db_base.py
  that use it. A query is what it will fetch: the rows, the conditions on them, the order and
  the limit. How the database compares two values is a parameter.
\<close>

section \<open>Queries\<close>

text \<open>\<open>pm_relations\<close> are the attributes of a model class that lead to other objects.\<close>

record 'r paged_model = "'r model" +
  pm_table :: string
  pm_relations :: "string list"
  pm_pk :: "string list"
  pm_columns :: "string list"

type_synonym sorts = "(string \<times> bool) list"

record 'r query =
  qy_rows :: "'r list"
  qy_filter :: "'r \<Rightarrow> bool"
  qy_order :: sorts
  qy_limit :: "nat option"

definition column_value :: "'r paged_model \<Rightarrow> string \<Rightarrow> 'r \<Rightarrow> pyval" where
  "column_value M k r = (case col_of M k of None \<Rightarrow> PNone | Some f \<Rightarrow> f r)"

text \<open>The columns that a row is sorted by.\<close>

definition sort_row :: "'r paged_model \<Rightarrow> sorts \<Rightarrow> 'r \<Rightarrow> pydict" where
  "sort_row M d r = map (\<lambda>(k, asc). (k, column_value M k r)) d"

definition order_cmp :: "(pyval \<Rightarrow> pyval \<Rightarrow> int) \<Rightarrow> 'r paged_model \<Rightarrow> sorts \<Rightarrow> 'r \<Rightarrow> 'r \<Rightarrow> int" where
  "order_cmp cmp M d a b = cmp_func cmp d (sort_row M d a) (sort_row M d b)"

definition fetch :: "(pyval \<Rightarrow> pyval \<Rightarrow> int) \<Rightarrow> 'r paged_model \<Rightarrow> 'r query \<Rightarrow> 'r list" where
  "fetch cmp M q = (let rows = sorted_cmp (order_cmp cmp M (qy_order q)) (filter (qy_filter q) (qy_rows q)) in
     case qy_limit q of None \<Rightarrow> rows | Some n \<Rightarrow> take n rows)"

section \<open>Paging\<close>

definition bad_sort_key :: "'r paged_model \<Rightarrow> string \<Rightarrow> exn" where
  "bad_sort_key M k = Exc (Common BadRequest) [(''resource'', PStr (pm_table M)), (''msg'', PStr k)]"

text \<open>\<open>query.order_by\<close> for one sort key\<close>

definition order_by :: "'r paged_model \<Rightarrow> string \<times> bool \<Rightarrow> 'r query \<Rightarrow> exn + 'r query" where
  "order_by M = (\<lambda>(k, asc) q.
     if List.member (pm_relations M) k \<or> col_of M k = None then Inl (bad_sort_key M k)
     else Inr (q\<lparr>qy_order := qy_order q @ [(k, asc)]\<rparr>))"

text \<open>A row follows the marker when some sort key is beyond the marker's and all keys before it
  are equal. SQLAlchemy cannot order a column against NULL or a truth value.\<close>

definition beyond :: "(pyval \<Rightarrow> pyval \<Rightarrow> int) \<Rightarrow> bool \<Rightarrow> pyval \<Rightarrow> pyval \<Rightarrow> bool" where
  "beyond cmp asc m v \<longleftrightarrow> v \<noteq> PNone \<and> (if asc then cmp v m > 0 else cmp v m < 0)"

definition criteria :: "(pyval \<Rightarrow> pyval \<Rightarrow> int) \<Rightarrow> sorts \<Rightarrow> pyval list \<Rightarrow> pyval list \<Rightarrow> nat \<Rightarrow> bool" where
  "criteria cmp d ms vs i \<longleftrightarrow> list_all (\<lambda>j. vs ! j = ms ! j) [0..<i] \<and> beyond cmp (snd (d ! i)) (ms ! i) (vs ! i)"

definition follows :: "(pyval \<Rightarrow> pyval \<Rightarrow> int) \<Rightarrow> sorts \<Rightarrow> pyval list \<Rightarrow> pyval list \<Rightarrow> bool" where
  "follows cmp d ms vs \<longleftrightarrow> list_ex (criteria cmp d ms vs) [0..<length d]"

definition unordered :: "pyval \<Rightarrow> bool" where
  "unordered v \<longleftrightarrow> (case v of PNone \<Rightarrow> True | PBool b \<Rightarrow> True | _ \<Rightarrow> False)"

definition sort_values :: "'r paged_model \<Rightarrow> sorts \<Rightarrow> 'r \<Rightarrow> pyval list" where
  "sort_values M d r = map (\<lambda>(k, asc). column_value M k r) d"

definition truth :: "nat option \<Rightarrow> bool" where
  "truth limit \<longleftrightarrow> (case limit of None \<Rightarrow> False | Some n \<Rightarrow> n \<noteq> 0)"

definition paginate_query ::
  "(pyval \<Rightarrow> pyval \<Rightarrow> int) \<Rightarrow> 'r paged_model \<Rightarrow> nat option \<Rightarrow> sorts \<Rightarrow> 'r option \<Rightarrow> 'r query \<Rightarrow> exn + 'r query" where
  "paginate_query cmp M limit d marker q =
     (if d = [] then Inr q
      else if truth limit \<and> \<not> list_ex (\<lambda>(k, asc). List.member (pm_pk M) k) d then Inl (Exc (Lib AssertionError) [])
      else bindS (foldS (order_by M) d q) (\<lambda>q1.
        bindS (case marker of None \<Rightarrow> Inr q1
          | Some m \<Rightarrow> if list_ex unordered (sort_values M d m) then Inl (Exc (Lib Exception) [])
              else Inr (q1\<lparr>qy_filter := (\<lambda>r. qy_filter q1 r \<and> follows cmp d (sort_values M d m) (sort_values M d r))\<rparr>)) (\<lambda>q2.
        Inr (if truth limit then q2\<lparr>qy_limit := limit\<rparr> else q2))))"

section \<open>Collections\<close>

definition get_collection_query ::
  "(pyval \<Rightarrow> pyval \<Rightarrow> int) \<Rightarrow> ctx \<Rightarrow> 'r paged_model \<Rightarrow> (string \<times> pyval list) list \<Rightarrow> sorts \<Rightarrow> nat option \<Rightarrow> 'r option \<Rightarrow>
   bool \<Rightarrow> 'r list \<Rightarrow> exn + 'r query" where
  "get_collection_query cmp c M filters d limit marker page_reverse rows =
     paginate_query cmp M limit (if truth limit \<and> page_reverse then map (\<lambda>(k, asc). (k, \<not> asc)) d else d) marker
       \<lparr>qy_rows = get_collection c (model.truncate M) filters rows, qy_filter = (\<lambda>_. True), qy_order = [], qy_limit = None\<rparr>"

definition get_page ::
  "(pyval \<Rightarrow> pyval \<Rightarrow> int) \<Rightarrow> ctx \<Rightarrow> 'r paged_model \<Rightarrow> (string \<times> pyval list) list \<Rightarrow> sorts \<Rightarrow> nat option \<Rightarrow> 'r option \<Rightarrow>
   bool \<Rightarrow> 'r list \<Rightarrow> exn + 'r list" where
  "get_page cmp c M filters d limit marker page_reverse rows =
     bindS (get_collection_query cmp c M filters d limit marker page_reverse rows) (\<lambda>q.
       Inr (if truth limit \<and> page_reverse then rev (fetch cmp M q) else fetch cmp M q))"

definition get_marker_obj :: "(string \<Rightarrow> exn + 'r) \<Rightarrow> nat option \<Rightarrow> string \<Rightarrow> exn + 'r option" where
  "get_marker_obj get limit marker = (if truth limit \<and> marker \<noteq> [] then map_sum id Some (get marker) else Inr None)"

definition filter_non_model_columns :: "pydict \<Rightarrow> 'r paged_model \<Rightarrow> pydict" where
  "filter_non_model_columns data M = filter (\<lambda>(k, v). List.member (pm_columns M) k) data"

end
