(* ===== verification/PagingProps.thy ===== *)
theory PagingProps
  imports Paging ApiCommonProps Samples
begin

text \<open>
  A page that the database cuts out is what lies behind the marker in the full order, or
  before it for a reversed page.
\<close>

section \<open>The order of the rows\<close>

lemma cmp_func_snoc_free: "dict_get k PNone (sort_row M d r) = column_value M k r" if "k \<in> fst ` set d"
  using that by (induction d) (auto simp: sort_row_def dict_get_def)

lemma comparison_order: "comparison cmp \<Longrightarrow> comparison (order_cmp cmp M d)"
  using comparison_cmp_func [of cmp d] unfolding comparison_def order_cmp_def by blast

text \<open>Two lists with the same elements, sorted by an order that tells them apart, are equal.\<close>

lemma sorted_unique:
  assumes "sorted_wrt (\<lambda>a b. c a b \<le> 0) xs" and "sorted_wrt (\<lambda>a b. c a b \<le> 0) ys" and "mset xs = mset ys"
    and anti: "\<And>a b. a \<in> set xs \<Longrightarrow> b \<in> set xs \<Longrightarrow> c a b \<le> (0::int) \<Longrightarrow> c b a \<le> 0 \<Longrightarrow> a = b"
  shows "xs = ys"
  using assms
proof (induction xs arbitrary: ys)
  case (Cons x xs)
  then obtain y zs where ys: "ys = y # zs" by (cases ys) auto
  have set: "set (x # xs) = set (y # zs)" using Cons.prems(3) ys mset_eq_setD by metis
  have "x = y"
  proof (rule ccontr)
    assume "x \<noteq> y"
    have "x \<in> set (y # zs)" "y \<in> set (x # xs)" using set by (metis list.set_intros(1))+
    with \<open>x \<noteq> y\<close> have mem: "x \<in> set zs" "y \<in> set xs" by simp_all
    with Cons.prems(1,2) ys have "c x y \<le> 0" "c y x \<le> 0" by auto
    with Cons.prems(4) [of x y] mem \<open>x \<noteq> y\<close> show False by auto
  qed
  with Cons.prems ys Cons.IH [of zs] show ?case by auto
qed simp

lemma sorted_cmp_unique:
  assumes "comparison c" and "sorted_wrt (\<lambda>a b. c a b \<le> 0) xs" and "mset xs = mset ys"
    and "\<And>a b. a \<in> set xs \<Longrightarrow> b \<in> set xs \<Longrightarrow> c a b = 0 \<Longrightarrow> a = b"
  shows "sorted_cmp c ys = xs"
proof (rule sorted_unique [of c])
  show "sorted_wrt (\<lambda>a b. c a b \<le> 0) (sorted_cmp c ys)" by (rule sorted_cmp_props [OF assms(1)])
  show m: "mset (sorted_cmp c ys) = mset xs" by (simp add: mset_sorted_cmp assms(3))
  show "a = b" if "a \<in> set (sorted_cmp c ys)" "b \<in> set (sorted_cmp c ys)" "c a b \<le> 0" "c b a \<le> 0" for a b
    using that assms(4) [of a b] comparison_zero [OF assms(1)] mset_eq_setD [OF m] by auto
qed (rule assms(2))

text \<open>What lies behind an element of a sorted list is what is greater.\<close>

lemma filter_beyond:
  assumes c: "comparison c" and sorted: "sorted_wrt (\<lambda>a b. c a b \<le> 0) (pre @ m # post)" and d: "distinct (pre @ m # post)"
    and anti: "\<And>a b. a \<in> set (pre @ m # post) \<Longrightarrow> b \<in> set (pre @ m # post) \<Longrightarrow> c a b = 0 \<Longrightarrow> a = b"
  shows "filter (\<lambda>r. 0 < c r m) (pre @ m # post) = post"
proof -
  have "c r m \<le> 0" if "r \<in> set pre" for r using sorted that by (auto simp: sorted_wrt_append)
  moreover have "0 < c r m" if r: "r \<in> set post" for r
  proof -
    have "c m r \<le> 0" using sorted r by (auto simp: sorted_wrt_append)
    moreover have "c r m \<noteq> 0" using anti [of r m] r d by auto
    moreover have "0 \<le> c r m" using comparison_flip [OF c, of m r] \<open>c m r \<le> 0\<close> by simp
    ultimately show ?thesis by simp
  qed
  moreover have "c m m = 0" using comparison_zero [OF c, of m m] comparison_total [OF c, of m m] by simp
  ultimately have "filter (\<lambda>r. 0 < c r m) pre = []" "filter (\<lambda>r. 0 < c r m) post = post" "\<not> 0 < c m m"
    by (auto simp: filter_empty_conv filter_id_conv simp flip: not_le)
  then show ?thesis by simp
qed

section \<open>Conditions\<close>

text \<open>The disjunction that the code builds is the lexicographic order of the sort values.\<close>

definition tells_apart :: "(pyval \<Rightarrow> pyval \<Rightarrow> int) \<Rightarrow> 'r paged_model \<Rightarrow> sorts \<Rightarrow> 'r list \<Rightarrow> bool" where
  "tells_apart cmp M d rows \<longleftrightarrow> list_all (\<lambda>(k, asc). list_all (\<lambda>a. list_all (\<lambda>b.
     cmp (column_value M k a) (column_value M k b) = 0 \<longleftrightarrow> column_value M k a = column_value M k b) rows) rows) d"

lemma tells_apartD:
  "tells_apart cmp M d rows \<Longrightarrow> (k, asc) \<in> set d \<Longrightarrow> a \<in> set rows \<Longrightarrow> b \<in> set rows \<Longrightarrow>
   cmp (column_value M k a) (column_value M k b) = 0 \<longleftrightarrow> column_value M k a = column_value M k b"
  by (fastforce simp: tells_apart_def list_all_iff)

lemma follows_Cons:
  "follows cmp (s # d) (m # ms) (v # vs) \<longleftrightarrow> beyond cmp (snd s) m v \<or> v = m \<and> follows cmp d ms vs"
proof -
  have split: "list_ex P [0..<Suc n] \<longleftrightarrow> P 0 \<or> list_ex (\<lambda>i. P (Suc i)) [0..<n]" for P n
    by (simp add: list_ex_iff Bex_def Ex_less_Suc2 del: upt_Suc)
  have split_all: "list_all P [0..<Suc n] \<longleftrightarrow> P 0 \<and> list_all (\<lambda>i. P (Suc i)) [0..<n]" for P n
    by (simp add: list_all_iff Ball_def All_less_Suc2 del: upt_Suc)
  have "criteria cmp (s # d) (m # ms) (v # vs) (Suc i) \<longleftrightarrow> v = m \<and> criteria cmp d ms vs i" for i
    by (simp add: criteria_def split_all del: upt_Suc)
  then show ?thesis
    unfolding follows_def length_Cons split by (auto simp: criteria_def list_ex_iff)
qed

lemma follows_order:
  assumes "tells_apart cmp M d rows" and "r \<in> set rows" "m \<in> set rows"
    and "\<And>k asc. (k, asc) \<in> set d \<Longrightarrow> column_value M k r \<noteq> PNone"
  shows "follows cmp d (sort_values M d m) (sort_values M d r) \<longleftrightarrow> 0 < order_cmp cmp M d r m"
proof -
  have "follows cmp e (sort_values M e m) (sort_values M e r) \<longleftrightarrow> 0 < cmp_func cmp e (sort_row M d r) (sort_row M d m)"
    if "set e \<subseteq> set d" for e
    using that
  proof (induction e)
    case Nil
    then show ?case by (simp add: follows_def)
  next
    case (Cons s e)
    obtain k asc where s: "s = (k, asc)" by (cases s)
    have k: "k \<in> fst ` set d" using Cons.prems s by force
    have nn: "column_value M k r \<noteq> PNone" using assms(4) Cons.prems s by auto
    have "(k, asc) \<in> set d" using Cons.prems s by auto
    note eq = tells_apartD [OF assms(1) this assms(2,3)] and self = tells_apartD [OF assms(1) this assms(3,3), THEN iffD2, OF refl]
    from Cons show ?case
      by (auto simp: s self sort_values_def follows_Cons beyond_def nn eq cmp_func_snoc_free [OF k] Let_def
          zero_less_mult_iff)
  qed
  from this [of d] show ?thesis by (simp add: order_cmp_def)
qed

lemma order_flip: "order_cmp cmp M (map (\<lambda>(k, asc). (k, \<not> asc)) d) a b = - order_cmp cmp M d a b"
proof -
  have "cmp_func cmp (map (\<lambda>(k, asc). (k, \<not> asc)) e) x y = - cmp_func cmp e x y" for e x y
    by (induction e) (auto simp: Let_def)
  moreover have "sort_row M (map (\<lambda>(k, asc). (k, \<not> asc)) d) r = sort_row M d r" for r
    by (simp add: sort_row_def case_prod_beta comp_def)
  ultimately show ?thesis by (simp add: order_cmp_def)
qed

section \<open>Pages\<close>

text \<open>The rows that a listing without paging returns, in the order of the sort keys.\<close>

definition whole_list ::
  "(pyval \<Rightarrow> pyval \<Rightarrow> int) \<Rightarrow> ctx \<Rightarrow> 'r paged_model \<Rightarrow> (string \<times> pyval list) list \<Rightarrow> sorts \<Rightarrow> 'r list \<Rightarrow> 'r list" where
  "whole_list cmp c M filters d rows = sorted_cmp (order_cmp cmp M d) (get_collection c (model.truncate M) filters rows)"

definition sort_columns :: "'r paged_model \<Rightarrow> sorts \<Rightarrow> bool" where
  "sort_columns M d \<longleftrightarrow> d \<noteq> [] \<and> list_all (\<lambda>(k, asc). \<not> List.member (pm_relations M) k \<and> col_of M k \<noteq> None) d \<and>
     list_ex (\<lambda>(k, asc). List.member (pm_pk M) k) d"

text \<open>The sort values of a row can be compared, and tell the rows apart.\<close>

definition sortable :: "(pyval \<Rightarrow> pyval \<Rightarrow> int) \<Rightarrow> 'r paged_model \<Rightarrow> sorts \<Rightarrow> 'r list \<Rightarrow> bool" where
  "sortable cmp M d rows \<longleftrightarrow> tells_apart cmp M d rows \<and> distinct (map (sort_values M d) rows) \<and> list_all (\<lambda>r. \<not> list_ex unordered (sort_values M d r)) rows"

lemma foldS_order_by:
  "list_all (\<lambda>(k, asc). \<not> List.member (pm_relations M) k \<and> col_of M k \<noteq> None) d \<Longrightarrow>
   foldS (order_by M) d q = Inr (q\<lparr>qy_order := qy_order q @ d\<rparr>)"
proof (induction d arbitrary: q)
  case (Cons p d)
  then show ?case by (cases p) (auto simp: order_by_def)
qed (simp)

lemma order_zero:
  assumes "tells_apart cmp M d rows" and "a \<in> set rows" "b \<in> set rows"
  shows "order_cmp cmp M d a b = 0 \<longleftrightarrow> sort_values M d a = sort_values M d b"
proof -
  have "cmp_func cmp e (sort_row M d a) (sort_row M d b) = 0 \<longleftrightarrow> sort_values M e a = sort_values M e b"
    if "set e \<subseteq> set d" for e
    using that
  proof (induction e)
    case (Cons s e)
    obtain k asc where s: "s = (k, asc)" by (cases s)
    have k: "k \<in> fst ` set d" using Cons.prems s by force
    have "(k, asc) \<in> set d" using Cons.prems s by auto
    note eq = tells_apartD [OF assms(1) this assms(2,3)]
    from Cons show ?case by (auto simp: s eq sort_values_def cmp_func_snoc_free [OF k] Let_def)
  qed (simp add: sort_values_def)
  then show ?thesis by (simp add: order_cmp_def)
qed

lemma rev_sorted_flip:
  assumes "comparison c" and "sorted_wrt (\<lambda>a b. c a b \<le> 0) xs"
  shows "sorted_wrt (\<lambda>a b. - c a b \<le> 0) (rev xs)"
  using assms(2) comparison_flip [OF assms(1)] by (auto simp: sorted_wrt_rev intro: sorted_wrt_mono_rel [rotated])

lemma order_anti:
  assumes "sortable cmp M d xs" and "a \<in> set xs" "b \<in> set xs" "order_cmp cmp M d a b = 0"
  shows "a = b"
  using assms order_zero [of cmp M d xs a b] by (auto simp: sortable_def distinct_map inj_on_def)

lemma sortable_mset: "mset xs = mset ys \<Longrightarrow> sortable cmp M d xs \<longleftrightarrow> sortable cmp M d ys"
proof -
  assume m: "mset xs = mset ys"
  then have "mset (map (sort_values M d) xs) = mset (map (sort_values M d) ys)" by (metis mset_map)
  from mset_eq_imp_distinct_iff [OF this] mset_eq_setD [OF m] show ?thesis by (simp add: sortable_def tells_apart_def list_all_iff)
qed

lemma page_core:
  assumes cmp: "comparison cmp" and cols: "sort_columns M d" and ok: "sortable cmp M d (get_collection c (model.truncate M) filters rows)"
    and sorted: "sorted_wrt (\<lambda>a b. order_cmp cmp M d a b \<le> 0) (pre @ m # post)"
    and mset: "mset (pre @ m # post) = mset (get_collection c (model.truncate M) filters rows)" and "0 < l"
    and rev: "d = (if page_reverse then map (\<lambda>(k, asc). (k, \<not> asc)) e else e)"
  shows "get_page cmp c M filters e (Some l) (Some m) page_reverse rows =
    Inr (if page_reverse then rev (take l post) else take l post)"
proof -
  let ?R = "get_collection c (model.truncate M) filters rows" and ?o = "order_cmp cmp M d"
  have c: "comparison ?o" by (rule comparison_order) (rule cmp)
  have set: "set ?R = set (pre @ m # post)" using mset mset_eq_setD by metis
  have ok': "sortable cmp M d (pre @ m # post)" using ok sortable_mset [OF mset] by simp
  have anti: "a = b" if "a \<in> set (pre @ m # post)" "b \<in> set (pre @ m # post)" "?o a b = 0" for a b
    by (rule order_anti [OF ok' that])
  have vals: "column_value M k r \<noteq> PNone" if "(k, asc) \<in> set d" "r \<in> set ?R" for k asc r
    using ok that by (fastforce simp: sortable_def list_all_iff list_ex_iff sort_values_def unordered_def)
  have "filter (\<lambda>r. follows cmp d (sort_values M d m) (sort_values M d r)) ?R = filter (\<lambda>r. 0 < ?o r m) ?R"
    by (rule filter_cong [OF refl], rule follows_order [of cmp M d ?R])
      (use ok set vals in \<open>auto simp: sortable_def\<close>)
  moreover have "mset post = mset (filter (\<lambda>r. 0 < ?o r m) ?R)"
  proof -
    have "filter (\<lambda>r. 0 < ?o r m) (pre @ m # post) = post"
      by (rule filter_beyond [OF c sorted _ anti]) (use ok' in \<open>auto simp: sortable_def distinct_map\<close>)
    then show ?thesis using mset by (metis mset_filter)
  qed
  then have "sorted_cmp ?o (filter (\<lambda>r. 0 < ?o r m) ?R) = post"
    by (intro sorted_cmp_unique [OF c]) (use sorted anti in \<open>auto simp: sorted_wrt_append\<close>)
  moreover have "\<not> list_ex unordered (sort_values M d m)" using ok' by (simp add: sortable_def)
  ultimately show ?thesis
    using cols foldS_order_by [of M d] \<open>0 < l\<close>
    by (simp add: get_page_def get_collection_query_def paginate_query_def truth_def rev [symmetric] sort_columns_def
        fetch_def Let_def)
qed

lemma flip_columns:
  "sort_columns M (map (\<lambda>(k, asc). (k, \<not> asc)) d) = sort_columns M d"
  by (simp add: sort_columns_def list_all_iff list_ex_iff case_prod_beta)

lemma flip_values: "sort_values M (map (\<lambda>(k, asc). (k, \<not> asc)) d) = sort_values M d"
  by (rule ext) (simp add: sort_values_def case_prod_beta comp_def)

lemma flip_sortable: "sortable cmp M (map (\<lambda>(k, asc). (k, \<not> asc)) d) xs = sortable cmp M d xs"
  by (simp add: sortable_def tells_apart_def flip_values list_all_iff case_prod_beta)

text \<open>C21: A page of a listing that starts at a marker is the next rows behind the marker in the
  full sorted listing, at most as many as the limit; a reversed page is the last rows before
  the marker, in the order of the listing. So no row is skipped or repeated between pages,
  for any number of sort keys and any directions, provided that the sort values tell the
  rows apart, the comparison tells these values apart, none of them is NULL or a truth value, and one key is a primary key.\<close>

theorem page_is_slice:
  assumes "comparison cmp" and "sort_columns M d" and "sortable cmp M d (get_collection c (model.truncate M) filters rows)"
    and "whole_list cmp c M filters d rows = pre @ m # post" and "0 < l"
  shows "get_page cmp c M filters d (Some l) (Some m) page_reverse rows =
    Inr (if page_reverse then drop (length pre - l) pre else take l post)"
proof -
  have c: "comparison (order_cmp cmp M d)" by (rule comparison_order) (rule assms(1))
  have sorted: "sorted_wrt (\<lambda>a b. order_cmp cmp M d a b \<le> 0) (pre @ m # post)"
    using sorted_cmp_props(1) [OF c] assms(4) by (metis whole_list_def)
  have mset: "mset (pre @ m # post) = mset (get_collection c (model.truncate M) filters rows)"
    using mset_sorted_cmp assms(4) by (metis whole_list_def)
  show ?thesis
  proof (cases page_reverse)
    case True
    have "sorted_wrt (\<lambda>a b. order_cmp cmp M (map (\<lambda>(k, asc). (k, \<not> asc)) d) a b \<le> 0) (rev post @ m # rev pre)"
      using rev_sorted_flip [OF c sorted] by (simp add: order_flip)
    moreover have "mset (rev post @ m # rev pre) = mset (get_collection c (model.truncate M) filters rows)"
      using mset by (simp add: add.commute)
    ultimately have "get_page cmp c M filters d (Some l) (Some m) True rows = Inr (rev (take l (rev pre)))"
      using page_core [OF assms(1) _ _ _ _ assms(5), of M _ c filters rows "rev post" m "rev pre" True d] assms(2,3)
      by (simp add: flip_columns flip_sortable)
    then show ?thesis using True by (simp add: take_rev)
  next
    case False
    with page_core [OF assms(1,2,3) sorted mset assms(5), of False d] show ?thesis by simp
  qed
qed

definition sample_auth :: "string \<Rightarrow> string \<Rightarrow> vim_auth_row" where
  "sample_auth i url = \<lparr>va_id = i, va_vim_id = ''v'', va_password = ''pw'', va_auth_url = url, va_vim_project = [], va_auth_cred = []\<rparr>"

definition sample_auths :: "vim_auth_row list" where
  "sample_auths = [sample_auth ''aa'' ''u'', sample_auth ''aaa'' ''uu'', sample_auth ''a'' ''u'', sample_auth ''aaaa'' ''u'',
     sample_auth ''aaaaa'' ''uuu'']"

definition VimAuth_paged :: "vim_auth_row paged_model" where
  "VimAuth_paged = model.extend VimAuth \<lparr>pm_table = ''vimauths'', pm_relations = [''vim''], pm_pk = [''id''],
     pm_columns = [''id'', ''vim_id'', ''password'', ''auth_url'', ''vim_project'', ''auth_cred'']\<rparr>"

lemma page_is_slice_witness:
  "get_page sample_cmp (user_ctx ''t1'') VimAuth_paged [] [(''auth_url'', False), (''id'', True)] (Some 2)
     (Some (sample_auth ''aa'' ''u'')) True sample_auths = Inr [sample_auth ''aaa'' ''uu'', sample_auth ''a'' ''u'']"
proof -
  let ?d = "[(''auth_url'', False), (''id'', True)]" and ?c = "user_ctx ''t1''" and ?M = VimAuth_paged
  have "comparison sample_cmp" by (rule comparisonI) (simp_all add: sample_cmp_def Let_def)
  moreover have "sort_columns ?M ?d" by code_simp
  moreover have "sortable sample_cmp ?M ?d (get_collection ?c (model.truncate ?M) [] sample_auths)" by code_simp
  moreover have "whole_list sample_cmp ?c ?M [] ?d sample_auths =
      [sample_auth ''aaaaa'' ''uuu'', sample_auth ''aaa'' ''uu'', sample_auth ''a'' ''u''] @
      sample_auth ''aa'' ''u'' # [sample_auth ''aaaa'' ''u'']" by code_simp
  ultimately have "get_page sample_cmp ?c ?M [] ?d (Some 2) (Some (sample_auth ''aa'' ''u'')) True sample_auths =
    Inr (if True then drop (length [sample_auth ''aaaaa'' ''uuu'', sample_auth ''aaa'' ''uu'', sample_auth ''a'' ''u''] - 2)
      [sample_auth ''aaaaa'' ''uuu'', sample_auth ''aaa'' ''uu'', sample_auth ''a'' ''u''] else take 2 [sample_auth ''aaaa'' ''u''])"
    by (rule page_is_slice) simp
  then show ?thesis by simp
qed

end
