(* ===== verification/Schema.thy ===== *)
theory Schema
  imports PyOps
begin

text \<open>
  What the migration scripts operate on: a database as the list of its tables, with columns,
  keys, constraints and rows, and the operations of alembic on it (create_table, add_column,
  alter_column and so on) as far as the scripts use them. The helpers of
  db/migration/__init__.py, which take foreign keys away and bring them back, are at the end.
\<close>

section \<open>Databases\<close>

datatype col_type = CString int | CText "int option" | CUuid | CJson | CPickle | CBoolean | CInteger | CDateTime

record dbcol =
  cl_name :: string
  cl_type :: col_type
  cl_nullable :: bool
  cl_default :: "string option"

text \<open>A foreign key: its name, its columns, the table it refers to and the columns there.\<close>

record fkey =
  fk_name :: string
  fk_cols :: "string list"
  fk_table :: string
  fk_refs :: "string list"

record dbtable =
  tb_cols :: "dbcol list"
  tb_pk :: "string list"
  tb_fks :: "fkey list"
  tb_uniques :: "(string \<times> string list) list"
  tb_rows :: "pydict list"

type_synonym sqldb = "(string \<times> dbtable) list"

text \<open>What databases do differently. \<open>dl_unique_name\<close> is the name that a unique constraint
  of a table gets when it is created without one; \<open>dl_forgets\<close> says that a change of the type, the
  name or the nullability of a column describes it anew: it admits NULL and has no default
  afterwards, unless the statement says otherwise.\<close>

record dialect =
  dl_unique_name :: "string \<Rightarrow> string list \<Rightarrow> string"
  dl_forgets :: bool

definition mysql :: dialect where
  "mysql = \<lparr>dl_unique_name = (\<lambda>t cols. hd cols), dl_forgets = True\<rparr>"

definition postgresql :: dialect where
  "postgresql = \<lparr>dl_unique_name = (\<lambda>t cols. join ''_'' (t # cols) @ ''_key''), dl_forgets = False\<rparr>"

definition db_error :: "string \<Rightarrow> string \<Rightarrow> exn" where
  "db_error t why = Exc (Lib DBError) [(''table'', PStr t), (''msg'', PStr why)]"

definition find_table :: "string \<Rightarrow> sqldb \<Rightarrow> exn + dbtable" where
  "find_table t db = (case map_of db t of None \<Rightarrow> Inl (db_error t ''no such table'') | Some x \<Rightarrow> Inr x)"

definition on_table :: "string \<Rightarrow> (dbtable \<Rightarrow> exn + dbtable) \<Rightarrow> sqldb \<Rightarrow> exn + sqldb" where
  "on_table t f db = bindS (find_table t db) (\<lambda>x. bindS (f x) (\<lambda>y. Inr (dict_set t y db)))"

definition has_col :: "string \<Rightarrow> dbtable \<Rightarrow> bool" where
  "has_col c x = list_ex (\<lambda>k. cl_name k = c) (tb_cols x)"

text \<open>The values of some columns of a row; SQL compares rows without NULL only.\<close>

definition values_of :: "string list \<Rightarrow> pydict \<Rightarrow> pyval list" where
  "values_of cols r = map (\<lambda>c. dict_get c PNone r) cols"

definition no_null :: "string list \<Rightarrow> pydict \<Rightarrow> bool" where
  "no_null cols r = (\<not> List.member (values_of cols r) PNone)"

definition unique_rows :: "string list \<Rightarrow> pydict list \<Rightarrow> bool" where
  "unique_rows cols rows = distinct (map (values_of cols) (filter (no_null cols) rows))"

definition referenced :: "fkey \<Rightarrow> pydict list \<Rightarrow> pydict list \<Rightarrow> bool" where
  "referenced k rows targets = list_all (\<lambda>r. no_null (fk_cols k) r \<longrightarrow>
     List.member (map (values_of (fk_refs k)) targets) (values_of (fk_cols k) r)) rows"

section \<open>Operations on tables\<close>

definition col :: "string \<Rightarrow> col_type \<Rightarrow> dbcol" where
  "col n ty = \<lparr>cl_name = n, cl_type = ty, cl_nullable = True, cl_default = None\<rparr>"

definition req :: "string \<Rightarrow> col_type \<Rightarrow> dbcol" where
  "req n ty = \<lparr>cl_name = n, cl_type = ty, cl_nullable = False, cl_default = None\<rparr>"

text \<open>Foreign keys without a name are numbered.\<close>

definition auto_fk :: "string \<Rightarrow> nat \<Rightarrow> string" where
  "auto_fk t n = t @ ''_ibfk_'' @ show_nat n"

definition number_fks :: "string \<Rightarrow> (string \<times> string) list \<Rightarrow> fkey list" where
  "number_fks t fks = map (\<lambda>(n, c, ref). \<lparr>fk_name = auto_fk t (Suc n), fk_cols = [c], fk_table = ref, fk_refs = [''id'']\<rparr>)
     (enumerate 0 fks)"

definition ref_exists :: "sqldb \<Rightarrow> fkey \<Rightarrow> bool" where
  "ref_exists db k = (case map_of db (fk_table k) of None \<Rightarrow> False | Some x \<Rightarrow> list_all (\<lambda>c. has_col c x) (fk_refs k))"

text \<open>All foreign keys of new tables refer to the column \<open>id\<close>; a primary key column takes no
  NULL.\<close>

definition create_table ::
  "dialect \<Rightarrow> string \<Rightarrow> dbcol list \<Rightarrow> (string \<times> string) list \<Rightarrow> string list \<Rightarrow> string list list \<Rightarrow> sqldb \<Rightarrow> exn + sqldb" where
  "create_table D t cols fks pk uniques db = (let keys = number_fks t fks in
     if has_key t db then Inl (db_error t ''table exists'')
     else if \<not> list_all (ref_exists db) keys then Inl (db_error t ''foreign key refers to nothing'')
     else Inr (db @ [(t, \<lparr>tb_cols = map (\<lambda>k. if List.member pk (cl_name k) then k\<lparr>cl_nullable := False\<rparr> else k) cols,
        tb_pk = pk, tb_fks = keys, tb_uniques = map (\<lambda>u. (dl_unique_name D t u, u)) uniques, tb_rows = []\<rparr>)]))"

definition refers_to :: "string \<Rightarrow> dbtable \<Rightarrow> bool" where
  "refers_to t x = list_ex (\<lambda>k. fk_table k = t) (tb_fks x)"

definition drop_table :: "string \<Rightarrow> sqldb \<Rightarrow> exn + sqldb" where
  "drop_table t db = bindS (find_table t db) (\<lambda>_.
     if list_ex (\<lambda>(u, x). u \<noteq> t \<and> refers_to t x) db then Inl (db_error t ''table is referred to'')
     else Inr (dict_del t db))"

definition redirect :: "string \<Rightarrow> string \<Rightarrow> dbtable \<Rightarrow> dbtable" where
  "redirect t u x = x\<lparr>tb_fks := map (\<lambda>k. if fk_table k = t then k\<lparr>fk_table := u\<rparr> else k) (tb_fks x)\<rparr>"

definition rename_table :: "string \<Rightarrow> string \<Rightarrow> sqldb \<Rightarrow> exn + sqldb" where
  "rename_table t u db = bindS (find_table t db) (\<lambda>_.
     if has_key u db then Inl (db_error u ''table exists'')
     else Inr (map (\<lambda>(v, x). (if v = t then u else v, redirect t u x)) db))"

section \<open>Operations on columns\<close>

text \<open>Rows that are there get the default; without one the column must admit NULL.\<close>

definition add_column :: "string \<Rightarrow> dbcol \<Rightarrow> sqldb \<Rightarrow> exn + sqldb" where
  "add_column t k = on_table t (\<lambda>x.
     if has_col (cl_name k) x then Inl (db_error t ''column exists'')
     else if \<not> cl_nullable k \<and> cl_default k = None \<and> tb_rows x \<noteq> [] then Inl (db_error t ''column takes no NULL'')
     else Inr (x\<lparr>tb_cols := tb_cols x @ [k],
       tb_rows := map (\<lambda>r. r @ [(cl_name k, opt_str (cl_default k))]) (tb_rows x)\<rparr>))"

definition in_key :: "string \<Rightarrow> dbtable \<Rightarrow> bool" where
  "in_key c x = (List.member (tb_pk x) c \<or> list_ex (\<lambda>k. List.member (fk_cols k) c) (tb_fks x)
     \<or> list_ex (\<lambda>(n, cols). List.member cols c) (tb_uniques x))"

definition drop_column :: "string \<Rightarrow> string \<Rightarrow> sqldb \<Rightarrow> exn + sqldb" where
  "drop_column t c = on_table t (\<lambda>x.
     if \<not> has_col c x then Inl (db_error t ''no such column'')
     else if in_key c x then Inl (db_error t ''column is part of a key'')
     else Inr (x\<lparr>tb_cols := filter (\<lambda>k. cl_name k \<noteq> c) (tb_cols x), tb_rows := map (dict_del c) (tb_rows x)\<rparr>))"

text \<open>Whether a foreign key uses a column, from its table or as what it refers to.\<close>

definition fk_uses :: "string \<Rightarrow> string \<Rightarrow> sqldb \<Rightarrow> bool" where
  "fk_uses t c db = list_ex (\<lambda>(u, x). list_ex (\<lambda>k.
     u = t \<and> List.member (fk_cols k) c \<or> fk_table k = t \<and> List.member (fk_refs k) c) (tb_fks x)) db"

text \<open>A change of a column: what is not given (\<open>None\<close>) stays, with the exception of
  \<open>dl_forgets\<close>.\<close>

record col_change =
  ch_type :: "col_type option"
  ch_nullable :: "bool option"
  ch_default :: "string option"
  ch_name :: "string option"

definition no_change :: col_change where
  "no_change = \<lparr>ch_type = None, ch_nullable = None, ch_default = None, ch_name = None\<rparr>"

definition changed :: "dialect \<Rightarrow> col_change \<Rightarrow> bool \<Rightarrow> dbcol \<Rightarrow> dbcol" where
  "changed D ch pk k = (let anew = dl_forgets D \<and> (ch_type ch \<noteq> None \<or> ch_nullable ch \<noteq> None \<or> ch_name ch \<noteq> None) in
   \<lparr>cl_name = (case ch_name ch of None \<Rightarrow> cl_name k | Some n \<Rightarrow> n),
     cl_type = (case ch_type ch of None \<Rightarrow> cl_type k | Some ty \<Rightarrow> ty),
     cl_nullable = (case ch_nullable ch of Some b \<Rightarrow> b
       | None \<Rightarrow> if anew then \<not> pk else cl_nullable k),
     cl_default = (case ch_default ch of Some d \<Rightarrow> Some d | None \<Rightarrow> if anew then None else cl_default k)\<rparr>)"

definition renamed :: "string \<Rightarrow> string \<Rightarrow> string list \<Rightarrow> string list" where
  "renamed c n = map (\<lambda>x. if x = c then n else x)"

definition rename_col :: "string \<Rightarrow> string \<Rightarrow> dbtable \<Rightarrow> dbtable" where
  "rename_col c n x = x\<lparr>tb_pk := renamed c n (tb_pk x),
     tb_fks := map (\<lambda>k. k\<lparr>fk_cols := renamed c n (fk_cols k)\<rparr>) (tb_fks x),
     tb_uniques := map (\<lambda>(u, cols). (u, renamed c n cols)) (tb_uniques x),
     tb_rows := map (map (\<lambda>(k, v). (if k = c then n else k, v))) (tb_rows x)\<rparr>"

text \<open>The type and the name of a column cannot be changed while a foreign key uses it.\<close>

definition alter_column :: "dialect \<Rightarrow> string \<Rightarrow> string \<Rightarrow> col_change \<Rightarrow> sqldb \<Rightarrow> exn + sqldb" where
  "alter_column D t c ch db = on_table t (\<lambda>x. let n = (case ch_name ch of None \<Rightarrow> c | Some n \<Rightarrow> n) in
     if \<not> has_col c x then Inl (db_error t ''no such column'')
     else if n \<noteq> c \<and> has_col n x then Inl (db_error t ''column exists'')
     else if (ch_type ch \<noteq> None \<or> n \<noteq> c) \<and> fk_uses t c db then Inl (db_error t ''column is used in a foreign key'')
     else if ch_nullable ch = Some False \<and> list_ex (\<lambda>r. dict_get c PNone r = PNone) (tb_rows x)
       then Inl (db_error t ''column has NULL'')
     else Inr (rename_col c n (x\<lparr>tb_cols := map (\<lambda>k. if cl_name k = c then changed D ch (List.member (tb_pk x) c) k else k) (tb_cols x)\<rparr>))) db"

section \<open>Constraints\<close>

definition add_fk_named :: "string \<Rightarrow> fkey \<Rightarrow> sqldb \<Rightarrow> exn + sqldb" where
  "add_fk_named t k db = on_table t (\<lambda>x.
     if \<not> ref_exists db k \<or> \<not> list_all (\<lambda>c. has_col c x) (fk_cols k) then Inl (db_error t ''foreign key refers to nothing'')
     else if \<not> referenced k (tb_rows x) (case map_of db (fk_table k) of None \<Rightarrow> [] | Some y \<Rightarrow> tb_rows y)
       then Inl (db_error t ''foreign key is violated'')
     else Inr (x\<lparr>tb_fks := tb_fks x @ [k]\<rparr>)) db"

definition add_fk_column :: "string \<Rightarrow> string \<Rightarrow> string \<Rightarrow> sqldb \<Rightarrow> exn + sqldb" where
  "add_fk_column t c ref db = bindS (find_table t db) (\<lambda>x.
     add_fk_named t \<lparr>fk_name = auto_fk t (Suc (length (tb_fks x))), fk_cols = [c], fk_table = ref, fk_refs = [''id'']\<rparr> db)"

definition drop_fk :: "string \<Rightarrow> string \<Rightarrow> sqldb \<Rightarrow> exn + sqldb" where
  "drop_fk t n = on_table t (\<lambda>x. if list_ex (\<lambda>k. fk_name k = n) (tb_fks x)
     then Inr (x\<lparr>tb_fks := filter (\<lambda>k. fk_name k \<noteq> n) (tb_fks x)\<rparr>) else Inl (db_error t ''no such constraint''))"

definition add_unique :: "string \<Rightarrow> string \<Rightarrow> string list \<Rightarrow> sqldb \<Rightarrow> exn + sqldb" where
  "add_unique t n cols = on_table t (\<lambda>x.
     if has_key n (tb_uniques x) then Inl (db_error t ''constraint exists'')
     else if \<not> list_all (\<lambda>c. has_col c x) cols then Inl (db_error t ''no such column'')
     else if \<not> unique_rows cols (tb_rows x) then Inl (db_error t ''rows are not unique'')
     else Inr (x\<lparr>tb_uniques := tb_uniques x @ [(n, cols)]\<rparr>))"

text \<open>Dropping a unique constraint or its index, by name.\<close>

definition drop_unique :: "string \<Rightarrow> string \<Rightarrow> sqldb \<Rightarrow> exn + sqldb" where
  "drop_unique t n = on_table t (\<lambda>x. if has_key n (tb_uniques x)
     then Inr (x\<lparr>tb_uniques := dict_del n (tb_uniques x)\<rparr>) else Inl (db_error t ''no such constraint''))"

text \<open>An update of rows keeps the unique constraints.\<close>

definition put_rows :: "string \<Rightarrow> pydict list \<Rightarrow> dbtable \<Rightarrow> exn + dbtable" where
  "put_rows t rows x = (if list_all (\<lambda>(n, cols). unique_rows cols rows) (tb_uniques x) then Inr (x\<lparr>tb_rows := rows\<rparr>)
     else Inl (db_error t ''rows are not unique''))"

text \<open>\<open>UPDATE t SET c = v WHERE c IS NULL\<close>\<close>

definition set_where_null :: "string \<Rightarrow> string \<Rightarrow> pyval \<Rightarrow> sqldb \<Rightarrow> exn + sqldb" where
  "set_where_null t c v = on_table t (\<lambda>x. if \<not> has_col c x then Inl (db_error t ''no such column'')
     else put_rows t (map (\<lambda>r. if dict_get c PNone r = PNone then dict_set c v r else r) (tb_rows x)) x)"

section \<open>Foreign keys around a change\<close>

definition create_foreign_key_constraint :: "string \<Rightarrow> fkey list \<Rightarrow> sqldb \<Rightarrow> exn + sqldb" where
  "create_foreign_key_constraint t = foldS (add_fk_named t)"

definition drop_foreign_key_constraint :: "string \<Rightarrow> fkey list \<Rightarrow> sqldb \<Rightarrow> exn + sqldb" where
  "drop_foreign_key_constraint t = foldS (\<lambda>k. drop_fk t (fk_name k))"

text \<open>An inspector keeps what it has read: the foreign keys that are brought back are those
  that were found before. An error ends the script.\<close>

definition fks_of :: "string \<Rightarrow> sqldb \<Rightarrow> exn + fkey list" where
  "fks_of t db = bindS (find_table t db) (\<lambda>x. Inr (tb_fks x))"

definition modify_foreign_keys_constraint :: "string list \<Rightarrow> (sqldb \<Rightarrow> exn + sqldb) \<Rightarrow> sqldb \<Rightarrow> exn + sqldb" where
  "modify_foreign_keys_constraint ts change db = bindS (mapS (\<lambda>t. bindS (fks_of t db) (\<lambda>ks. Inr (t, ks))) ts) (\<lambda>found.
     bindS (foldS (\<lambda>(t, ks). drop_foreign_key_constraint t ks) found db) (\<lambda>db1.
     bindS (change db1) (foldS (\<lambda>(t, ks). create_foreign_key_constraint t ks) found)))"

definition modify_foreign_keys_constraint_with_col_change ::
  "dialect \<Rightarrow> string \<Rightarrow> string \<Rightarrow> string \<Rightarrow> sqldb \<Rightarrow> exn + sqldb" where
  "modify_foreign_keys_constraint_with_col_change D t old new db = bindS (fks_of t db) (\<lambda>ks.
     let mine = filter (\<lambda>k. List.member (fk_cols k) old) ks in
     bindS (drop_foreign_key_constraint t mine db) (\<lambda>db1.
     bindS (alter_column D t old (no_change\<lparr>ch_nullable := Some False, ch_name := Some new\<rparr>) db1)
       (create_foreign_key_constraint t (map (\<lambda>k. k\<lparr>fk_cols := renamed old new (fk_cols k)\<rparr>) mine))))"

end
