(* ===== verification/Migrations.thy ===== *)
theory Migrations
  imports Schema
begin

text \<open>
  The scripts of db/migration/alembic_migrations/versions, each as the function that its
  \<open>upgrade\<close> is, and the upgrade of a database along their revisions.
\<close>

section \<open>Steps\<close>

type_synonym script = "sqldb \<Rightarrow> exn + sqldb"

definition steps :: "script list \<Rightarrow> script" where
  "steps fs = foldS (\<lambda>f. f) fs"

text \<open>Python's pickle and JSON\<close>

record pickle =
  pk_loads :: "pyval \<Rightarrow> exn + pyval"
  pk_dumps :: "pyval \<Rightarrow> string"

text \<open>\<open>_migrate_data\<close>: every value of a column is unpickled and written as JSON.\<close>

definition json_row :: "pickle \<Rightarrow> string \<Rightarrow> pydict \<Rightarrow> exn + pydict" where
  "json_row P c r = bindS (pk_loads P (dict_get c PNone r)) (\<lambda>v. Inr (dict_set c (PStr (pk_dumps P v)) r))"

definition migrate_data :: "dialect \<Rightarrow> pickle \<Rightarrow> string \<Rightarrow> string \<Rightarrow> script" where
  "migrate_data D P t c = steps [
    on_table t (\<lambda>x. if \<not> has_col c x then Inl (db_error t ''no such column'')
      else bindS (mapS (json_row P c) (tb_rows x)) (\<lambda>rows. put_rows t rows x)),
    alter_column D t c (no_change\<lparr>ch_type := Some CJson\<rparr>)]"

text \<open>\<open>_migrate_duplicate_names\<close>: the names that several rows have are made longer by the end of
  the identifier. The name is compared with a number, which Python 2 allows (the text is
  the greater) and Python 3 does not.\<close>

definition name_of :: "pydict \<Rightarrow> string" where
  "name_of r = py_str (dict_get ''name'' PNone r)"

definition duplicate_names :: "pydict list \<Rightarrow> string list" where
  "duplicate_names rows = filter (\<lambda>n. 1 < length (filter (\<lambda>r. name_of r = n) rows)) (rev (remdups (rev (map name_of rows))))"

definition longer_name :: "pydict \<Rightarrow> pyval" where
  "longer_name r = (let i = py_str (dict_get ''id'' PNone r) in
     PStr (take 242 (name_of r) @ ''-'' @ drop (length i - 12) i))"

definition rename_rows :: "string \<Rightarrow> pydict list \<Rightarrow> pydict list" where
  "rename_rows n rows = map (\<lambda>r. if name_of r = n then dict_set ''name'' (longer_name r) r else r) rows"

definition migrate_duplicate_names :: "bool \<Rightarrow> string \<Rightarrow> script" where
  "migrate_duplicate_names python2 t = on_table t (\<lambda>x. let names = duplicate_names (tb_rows x) in
     if \<not> has_col ''name'' x then Inl (db_error t ''no such column'')
     else if names \<noteq> [] \<and> \<not> python2 then Inl type_error
     else put_rows t (fold rename_rows names (tb_rows x)) x)"

text \<open>\<open>_add_unique_constraint\<close> and \<open>_drop_unique_constraint\<close> of the two scripts that have them\<close>

definition uniq_name :: "string \<Rightarrow> string \<Rightarrow> string" where
  "uniq_name t suffix = ''uniq_'' @ t @ suffix"

definition add_unique_name :: "string \<Rightarrow> script" where
  "add_unique_name t = add_unique t (uniq_name t ''0tenant_id0name'') [''tenant_id'', ''name'']"

definition drop_unique_name :: "string \<Rightarrow> script" where
  "drop_unique_name t = drop_unique t (uniq_name t ''0tenant_id0name'')"

definition add_unique_name_deleted :: "string \<Rightarrow> script" where
  "add_unique_name_deleted t = add_unique t (uniq_name t ''0tenant_id0name0deleted_at'') [''tenant_id'', ''name'', ''deleted_at'']"

section \<open>The scripts\<close>

definition r_1c6b0d82afcd :: "dialect \<Rightarrow> script" where
  "r_1c6b0d82afcd D = steps [
    create_table D ''devicetemplates''
      [req ''id'' (CString 36), col ''tenant_id'' (CString 255), col ''name'' (CString 255),
       col ''description'' (CString 255), col ''infra_driver'' (CString 255),
       col ''mgmt_driver'' (CString 255)]
      [] [''id''] [],
    create_table D ''devicetemplateattributes''
      [req ''id'' (CString 36), req ''template_id'' (CString 36), req ''key'' (CString 255),
       col ''value'' (CString 4096)]
      [(''template_id'', ''devicetemplates'')] [''id''] [],
    create_table D ''devices''
      [req ''id'' (CString 255), col ''tenant_id'' (CString 255), col ''name'' (CString 255),
       col ''template_id'' (CString 36), col ''instance_id'' (CString 255),
       col ''mgmt_url'' (CString 255), col ''status'' (CString 255)]
      [(''template_id'', ''devicetemplates'')] [''id''] [],
    create_table D ''deviceattributes''
      [req ''id'' (CString 36), col ''device_id'' (CString 255), req ''key'' (CString 255),
       col ''value'' (CString 4096)]
      [(''device_id'', ''devices'')] [''id''] []]"

definition r_81ffa86020d :: "dialect \<Rightarrow> script" where
  "r_81ffa86020d D = steps [
    create_table D ''proxymgmtports''
      [col ''device_id'' (CString 255), req ''port_id'' (CString 36),
       col ''dst_transport_url'' (CString 255), col ''svr_proxy_id'' (CString 36),
       col ''svr_ns_proxy_id'' (CString 36), col ''clt_proxy_id'' (CString 36),
       col ''clt_ns_proxy_id'' (CString 36)]
      [] [''device_id''] [],
    create_table D ''proxyserviceports''
      [col ''service_instance_id'' (CString 255), col ''svr_proxy_id'' (CString 36),
       col ''svr_ns_proxy_id'' (CString 36), col ''clt_proxy_id'' (CString 36),
       col ''clt_ns_proxy_id'' (CString 36)]
      [] [''service_instance_id''] []]"

definition r_4c31092895b8 :: "script" where
  "r_4c31092895b8 = steps []"

definition r_13c0e0661015 :: "script" where
  "r_13c0e0661015 = steps [
    add_column ''devices'' ((col ''description'' (CString 255))\<lparr>cl_default := Some []\<rparr>)]"

definition r_5958429bcb3c :: "dialect \<Rightarrow> script" where
  "r_5958429bcb3c D = steps [
    alter_column D ''devicetemplateattributes'' ''value'' (no_change\<lparr>ch_type := Some (CText (Some 65535)), ch_nullable := Some True\<rparr>)]"

definition r_12a57080b277 :: "dialect \<Rightarrow> script" where
  "r_12a57080b277 D = steps [
    create_table D ''servicetypes''
      [col ''tenant_id'' (CString 255), req ''id'' (CString 36), req ''template_id'' (CString 36),
       req ''service_type'' (CString 255)]
      [(''template_id'', ''devicetemplates'')] [''id''] [],
    create_table D ''deviceservicecontexts''
      [req ''id'' (CString 36), col ''device_id'' (CString 36), col ''network_id'' (CString 36),
       col ''subnet_id'' (CString 36), col ''port_id'' (CString 36),
       col ''router_id'' (CString 36), col ''role'' (CString 255), col ''index'' CInteger]
      [(''device_id'', ''devices'')] [''id''] [],
    create_table D ''serviceinstances''
      [col ''tenant_id'' (CString 255), req ''id'' (CString 36), col ''name'' (CString 255),
       col ''service_type_id'' (CString 36), col ''service_table_id'' (CString 36),
       col ''managed_by_user'' CBoolean, col ''mgmt_driver'' (CString 255),
       col ''mgmt_url'' (CString 255), req ''status'' (CString 255)]
      [(''service_type_id'', ''servicetypes'')] [''id''] [],
    create_table D ''servicecontexts''
      [req ''id'' (CString 36), col ''service_instance_id'' (CString 36),
       col ''network_id'' (CString 36), col ''subnet_id'' (CString 36),
       col ''port_id'' (CString 36), col ''router_id'' (CString 36), col ''role'' (CString 255),
       col ''index'' CInteger]
      [(''service_instance_id'', ''serviceinstances'')] [''id''] [],
    create_table D ''servicedevicebindings''
      [req ''service_instance_id'' (CString 36), req ''device_id'' (CString 36)]
      [(''device_id'', ''devices''), (''service_instance_id'', ''serviceinstances'')] [''service_instance_id'', ''device_id''] []]"

definition r_12a57080b278 :: "dialect \<Rightarrow> script" where
  "r_12a57080b278 D = steps [
    modify_foreign_keys_constraint [''deviceattributes'']
      (alter_column D ''deviceattributes'' ''device_id'' (no_change\<lparr>ch_nullable := Some False\<rparr>)),
    alter_column D ''devices'' ''status'' (no_change\<lparr>ch_nullable := Some False\<rparr>)]"

definition r_2774a42c7163 :: "script" where
  "r_2774a42c7163 = steps [
    drop_table ''servicecontexts'',
    drop_table ''deviceservicecontexts'',
    drop_table ''servicedevicebindings'',
    drop_table ''serviceinstances'']"

definition r_24bec5f211c7 :: "dialect \<Rightarrow> script" where
  "r_24bec5f211c7 D = steps [
    alter_column D ''deviceattributes'' ''value'' (no_change\<lparr>ch_type := Some (CText (Some 65535)), ch_nullable := Some True\<rparr>)]"

definition r_5246a6bd410f :: "dialect \<Rightarrow> script" where
  "r_5246a6bd410f D = steps [
    create_table D ''vims''
      [req ''id'' (CString 255), req ''type'' (CString 255), col ''tenant_id'' (CString 255),
       col ''name'' (CString 255), col ''description'' (CString 255),
       col ''placement_attr'' CPickle,
       (req ''shared'' CBoolean)\<lparr>cl_default := Some ''true''\<rparr>]
      [] [''id''] [],
    create_table D ''vimauths''
      [req ''id'' (CString 36), req ''vim_id'' (CString 255), req ''password'' (CString 128),
       req ''auth_url'' (CString 255), req ''vim_project'' CPickle, req ''auth_cred'' CPickle]
      [(''vim_id'', ''vims'')] [''id''] [[''auth_url'']],
    add_column ''devices'' (col ''placement_attr'' CPickle),
    add_column ''devices'' (req ''vim_id'' (CString 36)),
    add_fk_column ''devices'' ''vim_id'' ''vims'']"

definition r_acf941e54075 :: "script" where
  "r_acf941e54075 = steps [
    add_column ''devices'' (col ''error_reason'' (CText None))]"

text \<open>\<open>FK_MAP\<close>: the tables that refer to a table\<close>

definition FK_MAP :: "(string \<times> string list) list" where
  "FK_MAP = [(''vims'', [''vimauths'', ''devices'']), (''devices'', [''deviceattributes'', ''proxymgmtports'']),
     (''devicetemplates'', [''devices'', ''servicetypes'', ''devicetemplateattributes''])]"

definition to_uuid :: "dialect \<Rightarrow> string \<Rightarrow> string list \<Rightarrow> string \<Rightarrow> script" where
  "to_uuid D c ts t = modify_foreign_keys_constraint ts
     (alter_column D t c (no_change\<lparr>ch_type := Some CUuid, ch_nullable := Some False\<rparr>))"

definition r_f958f58e5daa :: "dialect \<Rightarrow> script" where
  "r_f958f58e5daa D = steps [
    foldS (\<lambda>t. to_uuid D ''id'' (dict_get t [] FK_MAP) t)
      [''vims'', ''vimauths'', ''devices'', ''deviceattributes'', ''servicetypes'', ''devicetemplates'', ''devicetemplateattributes''],
    foldS (to_uuid D ''template_id'' [''devices'', ''servicetypes'', ''devicetemplateattributes'']) [''devices'', ''servicetypes'', ''devicetemplateattributes''],
    foldS (to_uuid D ''vim_id'' [''devices'', ''vimauths'']) [''devices'', ''vimauths''],
    foldS (to_uuid D ''device_id'' [''deviceattributes'', ''proxymgmtports'']) [''deviceattributes'', ''proxymgmtports'']]"

definition r_6e56d4474b2a :: "dialect \<Rightarrow> pickle \<Rightarrow> script" where
  "r_6e56d4474b2a D P = steps [
    migrate_data D P ''vims'' ''placement_attr'',
    migrate_data D P ''vimauths'' ''vim_project'',
    migrate_data D P ''vimauths'' ''auth_cred'',
    migrate_data D P ''devices'' ''placement_attr'']"

definition r_c7cde2f45f82 :: "dialect \<Rightarrow> script" where
  "r_c7cde2f45f82 D = steps [
    alter_column D ''vims'' ''description'' (no_change\<lparr>ch_type := Some (CText None)\<rparr>),
    alter_column D ''devices'' ''description'' (no_change\<lparr>ch_type := Some (CText None)\<rparr>),
    alter_column D ''devicetemplates'' ''description'' (no_change\<lparr>ch_type := Some (CText None)\<rparr>)]"

definition r_b07673bb8654 :: "dialect \<Rightarrow> script" where
  "r_b07673bb8654 D = steps [
    foldS (\<lambda>t. steps [alter_column D t ''tenant_id'' (no_change\<lparr>ch_type := Some (CString 64), ch_nullable := Some False\<rparr>)])
      [''devices'', ''devicetemplates'', ''vims'', ''servicetypes''],
    alter_column D ''vims'' ''type'' (no_change\<lparr>ch_type := Some (CString 64)\<rparr>),
    alter_column D ''devices'' ''instance_id'' (no_change\<lparr>ch_type := Some (CString 64), ch_nullable := Some True\<rparr>),
    alter_column D ''devices'' ''status'' (no_change\<lparr>ch_type := Some (CString 64)\<rparr>),
    alter_column D ''proxymgmtports'' ''device_id'' (no_change\<lparr>ch_type := Some (CString 64), ch_nullable := Some False\<rparr>),
    alter_column D ''proxyserviceports'' ''service_instance_id'' (no_change\<lparr>ch_type := Some (CString 64), ch_nullable := Some False\<rparr>),
    alter_column D ''servicetypes'' ''service_type'' (no_change\<lparr>ch_type := Some (CString 64)\<rparr>)]"

definition r_354de64ba129 :: "dialect \<Rightarrow> script" where
  "r_354de64ba129 D = steps [
    foldS (\<lambda>t. steps [alter_column D t ''tenant_id'' (no_change\<lparr>ch_nullable := Some False\<rparr>)])
      [''devices'', ''devicetemplates'', ''vims'', ''servicetypes'']]"

definition r_5f88e86b35c7 :: "dialect \<Rightarrow> script" where
  "r_5f88e86b35c7 D = steps [
    alter_column D ''devices'' ''name'' (no_change\<lparr>ch_nullable := Some False\<rparr>),
    alter_column D ''devicetemplates'' ''name'' (no_change\<lparr>ch_nullable := Some False\<rparr>),
    alter_column D ''vims'' ''name'' (no_change\<lparr>ch_nullable := Some False\<rparr>)]"

definition r_22f5385a3d3f :: "script" where
  "r_22f5385a3d3f = steps [
    add_column ''vims'' ((req ''status'' (CString 255))\<lparr>cl_default := Some []\<rparr>)]"

definition r_d4f265e8eb9d :: "script" where
  "r_d4f265e8eb9d = steps [
    add_column ''vims'' ((req ''is_default'' CBoolean)\<lparr>cl_default := Some ''false''\<rparr>)]"

definition r_22f5385a3d4f :: "script" where
  "r_22f5385a3d4f = steps [
    drop_table ''proxymgmtports'',
    drop_table ''proxyserviceports'']"

definition r_22f5385a3d50 :: "dialect \<Rightarrow> script" where
  "r_22f5385a3d50 D = steps [
    rename_table ''devicetemplates'' ''mead'',
    rename_table ''devicetemplateattributes'' ''mead_attribute'',
    rename_table ''devices'' ''mea'',
    rename_table ''deviceattributes'' ''mea_attribute'',
    modify_foreign_keys_constraint_with_col_change D ''mead_attribute'' ''template_id'' ''mead_id'',
    modify_foreign_keys_constraint_with_col_change D ''servicetypes'' ''template_id'' ''mead_id'',
    modify_foreign_keys_constraint_with_col_change D ''mea'' ''template_id'' ''mead_id'',
    modify_foreign_keys_constraint_with_col_change D ''mea_attribute'' ''device_id'' ''mea_id'']"

definition r_2ff0a0e360f1 :: "script" where
  "r_2ff0a0e360f1 = steps [
    foldS (\<lambda>t. steps [add_column t (col ''created_at'' CDateTime), add_column t (col ''updated_at'' CDateTime)])
      [''vims'', ''mea'', ''mead'']]"

definition r_941b5a6fff9e :: "script" where
  "r_941b5a6fff9e = steps [
    foldS (\<lambda>t. steps [add_column t (col ''deleted_at'' CDateTime)])
      [''vims'', ''mea'', ''mead''],
    drop_unique ''vimauths'' ''auth_url'']"

definition r_4ee19c8a6d0a :: "dialect \<Rightarrow> script" where
  "r_4ee19c8a6d0a D = steps [
    create_table D ''events''
      [req ''id'' CInteger, req ''resource_id'' CUuid, req ''resource_state'' (CString 64),
       req ''resource_type'' (CString 64), req ''event_type'' (CString 64),
       req ''timestamp'' CDateTime, col ''event_details'' CJson]
      [] [''id''] []]"

definition r_507122918800 :: "dialect \<Rightarrow> script" where
  "r_507122918800 D = steps [
    create_table D ''NANYtemplates''
      [req ''id'' (CString 36), req ''tenant_id'' (CString 64), req ''name'' (CString 255),
       col ''description'' (CString 255), col ''template'' CJson]
      [] [''id''] [],
    create_table D ''NANYs''
      [req ''id'' (CString 36), req ''tenant_id'' (CString 64), req ''name'' (CString 255),
       col ''description'' (CString 255), req ''NANYD_id'' (CString 36),
       req ''status'' (CString 255), col ''mea_mapping'' CJson]
      [(''NANYD_id'', ''NANYtemplates'')] [''id''] [],
    create_table D ''NANYnfps''
      [req ''id'' (CString 36), req ''tenant_id'' (CString 64), req ''NANY_id'' (CString 36),
       req ''name'' (CString 255), req ''status'' (CString 255), req ''path_id'' (CString 255),
       col ''symmetrical'' CBoolean]
      [(''NANY_id'', ''NANYs'')] [''id''] [],
    create_table D ''NANYchains''
      [req ''id'' (CString 36), req ''tenant_id'' (CString 64), col ''instance_id'' (CString 255),
       req ''nfp_id'' (CString 36), req ''status'' (CString 255), req ''path_id'' (CString 255),
       col ''symmetrical'' CBoolean, col ''chain'' CJson]
      [(''nfp_id'', ''NANYnfps'')] [''id''] [],
    create_table D ''NANYclassifiers''
      [req ''id'' (CString 36), req ''tenant_id'' (CString 64), req ''nfp_id'' (CString 36),
       col ''instance_id'' (CString 255), req ''chain_id'' (CString 36),
       req ''status'' (CString 255)]
      [(''nfp_id'', ''NANYnfps''), (''chain_id'', ''NANYchains'')] [''id''] [],
    create_table D ''aclmatchcriterias''
      [req ''id'' (CString 36), req ''NANYc_id'' (CString 36), col ''eth_src'' (CString 36),
       col ''eth_dst'' (CString 36), col ''eth_type'' (CString 36), col ''vlan_id'' CInteger,
       col ''vlan_pcp'' CInteger, col ''mpls_label'' CInteger, col ''mpls_tc'' CInteger,
       col ''ip_dscp'' CInteger, col ''ip_ecn'' CInteger, col ''ip_src_prefix'' (CString 36),
       col ''ip_dst_prefix'' (CString 36), col ''source_port_min'' CInteger,
       col ''source_port_max'' CInteger, col ''destination_port_min'' CInteger,
       col ''destination_port_max'' CInteger, col ''ip_proto'' CInteger,
       col ''network_id'' (CString 36), col ''network_src_port_id'' (CString 36),
       col ''network_dst_port_id'' (CString 36), col ''tenant_id'' (CString 64),
       col ''icmpv4_type'' CInteger, col ''icmpv4_code'' CInteger, col ''arp_op'' CInteger,
       col ''arp_spa'' CInteger, col ''arp_tpa'' CInteger, col ''arp_sha'' CInteger,
       col ''arp_tha'' CInteger, col ''ipv6_src'' (CString 36), col ''ipv6_dst'' (CString 36),
       col ''ipv6_flabel'' CInteger, col ''icmpv6_type'' CInteger, col ''icmpv6_code'' CInteger,
       col ''ipv6_nd_target'' (CString 36), col ''ipv6_nd_sll'' (CString 36),
       col ''ipv6_nd_tll'' (CString 36)]
      [(''NANYc_id'', ''NANYclassifiers'')] [''id''] []]"

definition r_0ae5b1ce3024 :: "bool \<Rightarrow> script" where
  "r_0ae5b1ce3024 python2 = steps [
    migrate_duplicate_names python2 ''mea'',
    migrate_duplicate_names python2 ''mead'',
    migrate_duplicate_names python2 ''vims'']"

definition r_8f7145914cb0 :: "script" where
  "r_8f7145914cb0 = steps [
    drop_column ''mead'' ''infra_driver'']"

definition r_0ad3bbce1c18 :: "dialect \<Rightarrow> script" where
  "r_0ad3bbce1c18 D = steps [
    create_table D ''nsd''
      [req ''tenant_id'' (CString 64), req ''id'' CUuid, col ''created_at'' CDateTime,
       col ''updated_at'' CDateTime, col ''deleted_at'' CDateTime, req ''name'' (CString 255),
       col ''description'' (CText None), col ''meads'' CJson]
      [] [''id''] [],
    create_table D ''ns''
      [req ''tenant_id'' (CString 64), req ''id'' CUuid, col ''created_at'' CDateTime,
       col ''updated_at'' CDateTime, col ''deleted_at'' CDateTime, col ''nsd_id'' CUuid,
       req ''vim_id'' (CString 64), req ''name'' (CString 255), col ''description'' (CText None),
       col ''mea_ids'' (CText (Some 65535)), col ''mgmt_urls'' (CText (Some 65535)),
       req ''status'' (CString 64), col ''error_reason'' (CText None)]
      [(''nsd_id'', ''nsd'')] [''id''] [],
    create_table D ''nsd_attribute''
      [req ''id'' CUuid, req ''nsd_id'' CUuid, req ''key'' (CString 255),
       col ''value'' (CText (Some 65535))]
      [(''nsd_id'', ''nsd'')] [''id''] []]"

definition r_0ad3bbce1c19 :: "dialect \<Rightarrow> script" where
  "r_0ad3bbce1c19 D = steps [
    alter_column D ''vimauths'' ''password'' (no_change\<lparr>ch_type := Some (CString 255)\<rparr>)]"

definition r_000632983ada :: "script" where
  "r_000632983ada = steps [
    add_column ''mead'' (col ''template_source'' (CString 255))]"

definition r_e8918cda6433 :: "script" where
  "r_e8918cda6433 = steps [
    add_column ''NANYs'' (col ''attributes'' CJson)]"

definition r_ef14f8026327 :: "dialect \<Rightarrow> script" where
  "r_ef14f8026327 D = steps [
    alter_column D ''mead'' ''template_source'' (no_change\<lparr>ch_default := Some ''onboarded''\<rparr>),
    set_where_null ''mead'' ''template_source'' (PStr ''onboarded'')]"

definition r_c256228ed37c :: "script" where
  "r_c256228ed37c = steps [
    foldS (\<lambda>t. steps [add_unique_name t])
      [''mea'', ''mead'', ''vims'', ''ns'', ''nsd'']]"

definition r_e7993093baf1 :: "script" where
  "r_e7993093baf1 = steps [
    foldS (\<lambda>t. steps [drop_unique_name t, add_unique_name_deleted t])
      [''mea'', ''mead'', ''vims'', ''ns'', ''nsd'']]"

definition r_31acbaeb8299 :: "dialect \<Rightarrow> script" where
  "r_31acbaeb8299 D = steps [
    alter_column D ''vims'' ''shared'' (no_change\<lparr>ch_nullable := Some False, ch_default := Some ''false''\<rparr>)]"

definition r_f5c1c3b0f6b4 :: "script" where
  "r_f5c1c3b0f6b4 = steps [
    set_where_null ''mead'' ''deleted_at'' (PInt 0),
    set_where_null ''mea'' ''deleted_at'' (PInt 0),
    set_where_null ''vims'' ''deleted_at'' (PInt 0),
    set_where_null ''ns'' ''deleted_at'' (PInt 0),
    set_where_null ''nsd'' ''deleted_at'' (PInt 0)]"

definition r_e9a1e47fb0b5 :: "script" where
  "r_e9a1e47fb0b5 = steps [
    add_column ''NANYtemplates'' ((col ''template_source'' (CString 255))\<lparr>cl_default := Some ''onboarded''\<rparr>),
    set_where_null ''NANYtemplates'' ''template_source'' (PStr ''onboarded''),
    add_column ''nsd'' ((col ''template_source'' (CString 255))\<lparr>cl_default := Some ''onboarded''\<rparr>),
    set_where_null ''nsd'' ''template_source'' (PStr ''onboarded'')]"

section \<open>Revisions\<close>

text \<open>Each revision with the one that it revises.\<close>

definition revisions :: "(string \<times> string option) list" where
  "revisions = [
     (''000632983ada'', Some ''0ad3bbce1c19''),
     (''0ad3bbce1c18'', Some ''8f7145914cb0''),
     (''0ad3bbce1c19'', Some ''0ad3bbce1c18''),
     (''0ae5b1ce3024'', Some ''507122918800''),
     (''12a57080b277'', Some ''5958429bcb3c''),
     (''12a57080b278'', Some ''12a57080b277''),
     (''13c0e0661015'', Some ''4c31092895b8''),
     (''1c6b0d82afcd'', None),
     (''22f5385a3d3f'', Some ''5f88e86b35c7''),
     (''22f5385a3d4f'', Some ''d4f265e8eb9d''),
     (''22f5385a3d50'', Some ''22f5385a3d4f''),
     (''24bec5f211c7'', Some ''2774a42c7163''),
     (''2774a42c7163'', Some ''12a57080b278''),
     (''2ff0a0e360f1'', Some ''22f5385a3d50''),
     (''31acbaeb8299'', Some ''e7993093baf1''),
     (''354de64ba129'', Some ''b07673bb8654''),
     (''4c31092895b8'', Some ''81ffa86020d''),
     (''4ee19c8a6d0a'', Some ''941b5a6fff9e''),
     (''507122918800'', Some ''4ee19c8a6d0a''),
     (''5246a6bd410f'', Some ''24bec5f211c7''),
     (''5958429bcb3c'', Some ''13c0e0661015''),
     (''5f88e86b35c7'', Some ''354de64ba129''),
     (''6e56d4474b2a'', Some ''f958f58e5daa''),
     (''81ffa86020d'', Some ''1c6b0d82afcd''),
     (''8f7145914cb0'', Some ''0ae5b1ce3024''),
     (''941b5a6fff9e'', Some ''2ff0a0e360f1''),
     (''acf941e54075'', Some ''5246a6bd410f''),
     (''b07673bb8654'', Some ''c7cde2f45f82''),
     (''c256228ed37c'', Some ''ef14f8026327''),
     (''c7cde2f45f82'', Some ''6e56d4474b2a''),
     (''d4f265e8eb9d'', Some ''22f5385a3d3f''),
     (''e7993093baf1'', Some ''c256228ed37c''),
     (''e8918cda6433'', Some ''000632983ada''),
     (''e9a1e47fb0b5'', Some ''f5c1c3b0f6b4''),
     (''ef14f8026327'', Some ''e8918cda6433''),
     (''f5c1c3b0f6b4'', Some ''31acbaeb8299''),
     (''f958f58e5daa'', Some ''acf941e54075'')]"

definition script_of :: "dialect \<Rightarrow> pickle \<Rightarrow> bool \<Rightarrow> string \<Rightarrow> script" where
  "script_of D P python2 r = the (map_of [
     (''1c6b0d82afcd'', r_1c6b0d82afcd D),
     (''81ffa86020d'', r_81ffa86020d D),
     (''4c31092895b8'', r_4c31092895b8),
     (''13c0e0661015'', r_13c0e0661015),
     (''5958429bcb3c'', r_5958429bcb3c D),
     (''12a57080b277'', r_12a57080b277 D),
     (''12a57080b278'', r_12a57080b278 D),
     (''2774a42c7163'', r_2774a42c7163),
     (''24bec5f211c7'', r_24bec5f211c7 D),
     (''5246a6bd410f'', r_5246a6bd410f D),
     (''acf941e54075'', r_acf941e54075),
     (''f958f58e5daa'', r_f958f58e5daa D),
     (''6e56d4474b2a'', r_6e56d4474b2a D P),
     (''c7cde2f45f82'', r_c7cde2f45f82 D),
     (''b07673bb8654'', r_b07673bb8654 D),
     (''354de64ba129'', r_354de64ba129 D),
     (''5f88e86b35c7'', r_5f88e86b35c7 D),
     (''22f5385a3d3f'', r_22f5385a3d3f),
     (''d4f265e8eb9d'', r_d4f265e8eb9d),
     (''22f5385a3d4f'', r_22f5385a3d4f),
     (''22f5385a3d50'', r_22f5385a3d50 D),
     (''2ff0a0e360f1'', r_2ff0a0e360f1),
     (''941b5a6fff9e'', r_941b5a6fff9e),
     (''4ee19c8a6d0a'', r_4ee19c8a6d0a D),
     (''507122918800'', r_507122918800 D),
     (''0ae5b1ce3024'', r_0ae5b1ce3024 python2),
     (''8f7145914cb0'', r_8f7145914cb0),
     (''0ad3bbce1c18'', r_0ad3bbce1c18 D),
     (''0ad3bbce1c19'', r_0ad3bbce1c19 D),
     (''000632983ada'', r_000632983ada),
     (''e8918cda6433'', r_e8918cda6433),
     (''ef14f8026327'', r_ef14f8026327 D),
     (''c256228ed37c'', r_c256228ed37c),
     (''e7993093baf1'', r_e7993093baf1),
     (''31acbaeb8299'', r_31acbaeb8299 D),
     (''f5c1c3b0f6b4'', r_f5c1c3b0f6b4),
     (''e9a1e47fb0b5'', r_e9a1e47fb0b5)] r)"

text \<open>The way from a revision back to the first one; each revision is used at most once.\<close>

function history :: "(string \<times> string option) list \<Rightarrow> string \<Rightarrow> string list option" where
  "history revs r = (case map_of revs r of None \<Rightarrow> None
     | Some None \<Rightarrow> Some [r]
     | Some (Some down) \<Rightarrow> map_option (\<lambda>h. h @ [r]) (history (dict_del r revs) down))"
  by pat_completeness auto
termination
proof (relation "measure (\<lambda>(revs, r). length revs)")
  fix revs :: "(string \<times> string option) list" and r x down
  assume "map_of revs r = Some x" "x = Some down"
  then have "r \<in> fst ` set revs" by (force dest: map_of_SomeD)
  then show "((dict_del r revs, down), revs, r) \<in> measure (\<lambda>(revs, r). length revs)"
    by (simp add: length_dict_del_less)
qed simp

declare history.simps [simp del]

text \<open>\<open>upgrade head\<close>\<close>

definition upgrade_to :: "dialect \<Rightarrow> pickle \<Rightarrow> bool \<Rightarrow> string \<Rightarrow> script" where
  "upgrade_to D P python2 head db = (case history revisions head of
     None \<Rightarrow> Inl (Exc (Lib KeyError) [])
   | Some revs \<Rightarrow> foldS (script_of D P python2) revs db)"

end
