(* ===== verification/Metadata.thy ===== *)
theory Metadata
  imports Schema
begin

text \<open>
  The tables that the model classes declare (db/models_v1.py, db/mem/mem_db.py,
  db/meo/meo_db.py, db/meo/ns_db.py, db/common_services/common_services_db.py), in the terms
  of the migrations, and the comparison of a database with them.
\<close>

section \<open>Mixins\<close>

definition HasTenant :: dbcol where
  "HasTenant = req ''tenant_id'' (CString 64)"

definition HasId :: dbcol where
  "HasId = req ''id'' CUuid"

definition Audit :: "dbcol list" where
  "Audit = [col ''created_at'' CDateTime, col ''updated_at'' CDateTime, col ''deleted_at'' CDateTime]"

text \<open>A table with the primary key \<open>id\<close>; its foreign keys have no name.\<close>

definition declared_table :: "dbcol list \<Rightarrow> (string \<times> string) list \<Rightarrow> (string \<times> string list) list \<Rightarrow> dbtable" where
  "declared_table cols fks uniques = \<lparr>tb_cols = cols, tb_pk = [''id''],
     tb_fks = map (\<lambda>(c, t). \<lparr>fk_name = [], fk_cols = [c], fk_table = t, fk_refs = [''id'']\<rparr>) fks,
     tb_uniques = uniques, tb_rows = []\<rparr>"

section \<open>Model classes\<close>

definition mead_table :: dbtable where
  "mead_table = declared_table (HasId # HasTenant # Audit @
     [req ''name'' (CString 255), col ''description'' (CText None), col ''mgmt_driver'' (CString 255),
      (col ''template_source'' (CString 255))\<lparr>cl_default := Some ''onboarded''\<rparr>]) []
     [(''uniq_mead0tenant_id0name0deleted_at'', [''tenant_id'', ''name'', ''deleted_at''])]"

definition service_type_table :: dbtable where
  "service_type_table = declared_table [HasId, HasTenant, req ''mead_id'' CUuid, req ''service_type'' (CString 64)]
     [(''mead_id'', ''mead'')] []"

definition mead_attribute_table :: dbtable where
  "mead_attribute_table = declared_table
     [HasId, req ''mead_id'' CUuid, req ''key'' (CString 255), col ''value'' (CText (Some 65535))] [(''mead_id'', ''mead'')] []"

definition mea_table :: dbtable where
  "mea_table = declared_table (HasId # HasTenant # Audit @
     [col ''mead_id'' CUuid, req ''name'' (CString 255), col ''description'' (CText None), col ''instance_id'' (CString 64),
      col ''mgmt_url'' (CString 255), req ''status'' (CString 64), req ''vim_id'' CUuid, col ''placement_attr'' CJson,
      col ''error_reason'' (CText None)])
     [(''mead_id'', ''mead''), (''vim_id'', ''vims'')]
     [(''uniq_mea0tenant_id0name0deleted_at'', [''tenant_id'', ''name'', ''deleted_at''])]"

definition mea_attribute_table :: dbtable where
  "mea_attribute_table = declared_table
     [HasId, req ''mea_id'' CUuid, req ''key'' (CString 255), col ''value'' (CText (Some 65535))] [(''mea_id'', ''mea'')] []"

definition vim_table :: dbtable where
  "vim_table = declared_table (HasId # HasTenant # Audit @
     [req ''type'' (CString 64), req ''name'' (CString 255), col ''description'' (CText None), col ''placement_attr'' CJson,
      (req ''shared'' CBoolean)\<lparr>cl_default := Some ''false''\<rparr>, (req ''is_default'' CBoolean)\<lparr>cl_default := Some ''false''\<rparr>,
      req ''status'' (CString 255)]) []
     [(''uniq_vim0tenant_id0name0deleted_at'', [''tenant_id'', ''name'', ''deleted_at''])]"

definition vim_auth_table :: dbtable where
  "vim_auth_table = declared_table
     [HasId, req ''vim_id'' CUuid, req ''password'' (CString 255), req ''auth_url'' (CString 255), req ''vim_project'' CJson,
      req ''auth_cred'' CJson] [(''vim_id'', ''vims'')] []"

definition nsd_table :: dbtable where
  "nsd_table = declared_table (HasId # HasTenant # Audit @
     [req ''name'' (CString 255), col ''description'' (CText None), col ''meads'' CJson,
      (col ''template_source'' (CString 255))\<lparr>cl_default := Some ''onboarded''\<rparr>]) []
     [(''uniq_nsd0tenant_id0name'', [''tenant_id'', ''name''])]"

definition nsd_attribute_table :: dbtable where
  "nsd_attribute_table = declared_table
     [HasId, req ''nsd_id'' CUuid, req ''key'' (CString 255), col ''value'' (CText (Some 65535))] [(''nsd_id'', ''nsd'')] []"

definition ns_table :: dbtable where
  "ns_table = declared_table (HasId # HasTenant # Audit @
     [col ''nsd_id'' CUuid, req ''name'' (CString 255), col ''description'' (CText None), col ''mea_ids'' (CText (Some 65535)),
      col ''mgmt_urls'' (CText (Some 65535)), req ''status'' (CString 64), req ''vim_id'' CUuid, col ''error_reason'' (CText None)])
     [(''nsd_id'', ''nsd''), (''vim_id'', ''vims'')]
     [(''uniq_ns0tenant_id0name'', [''tenant_id'', ''name''])]"

definition event_table :: dbtable where
  "event_table = declared_table
     [req ''id'' CInteger, req ''resource_id'' CUuid, req ''resource_state'' (CString 64), req ''resource_type'' (CString 64),
      req ''timestamp'' CDateTime, req ''event_type'' (CString 64), col ''event_details'' CJson] [] []"

text \<open>Table names: given by the class, or its name in lower case with an s.\<close>

definition metadata :: sqldb where
  "metadata = [(''mead'', mead_table), (''servicetypes'', service_type_table), (''mead_attribute'', mead_attribute_table),
     (''mea'', mea_table), (''mea_attribute'', mea_attribute_table), (''vims'', vim_table), (''vimauths'', vim_auth_table),
     (''nsd'', nsd_table), (''nsd_attribute'', nsd_attribute_table), (''ns'', ns_table), (''events'', event_table)]"

section \<open>Comparison\<close>

text \<open>A column of type Uuid is a text of 36 characters, one of type Json a text.\<close>

definition sql_type :: "col_type \<Rightarrow> col_type" where
  "sql_type ty = (case ty of CUuid \<Rightarrow> CString 36 | CJson \<Rightarrow> CText None | _ \<Rightarrow> ty)"

datatype difference =
    NoTable string
  | NoColumn string string
  | OtherColumn string string
  | OtherType string string col_type
  | AdmitsNull string string
  | RefusesNull string string
  | OtherDefault string string "string option"
  | OtherKeys string "(string list \<times> string) list"
  | OtherUniques string "string list list"

definition column_difference :: "string \<Rightarrow> dbcol \<Rightarrow> dbcol \<Rightarrow> difference list" where
  "column_difference t k m =
     (if sql_type (cl_type k) = sql_type (cl_type m) then [] else [OtherType t (cl_name k) (cl_type k)]) @
     (if cl_nullable k \<and> \<not> cl_nullable m then [AdmitsNull t (cl_name k)] else []) @
     (if \<not> cl_nullable k \<and> cl_nullable m then [RefusesNull t (cl_name k)] else []) @
     (if cl_default k = cl_default m then [] else [OtherDefault t (cl_name k) (cl_default k)])"

definition find_col :: "string \<Rightarrow> dbtable \<Rightarrow> dbcol option" where
  "find_col c x = List.find (\<lambda>k. cl_name k = c) (tb_cols x)"

definition keys_of :: "dbtable \<Rightarrow> (string list \<times> string) list" where
  "keys_of x = map (\<lambda>k. (fk_cols k, fk_table k)) (tb_fks x)"

definition same_elements :: "'a list \<Rightarrow> 'a list \<Rightarrow> bool" where
  "same_elements xs ys \<longleftrightarrow> list_all (List.member ys) xs \<and> list_all (List.member xs) ys"

definition table_differences :: "string \<Rightarrow> dbtable \<Rightarrow> dbtable \<Rightarrow> difference list" where
  "table_differences t x m =
     concat (map (\<lambda>c. case find_col (cl_name c) x of None \<Rightarrow> [NoColumn t (cl_name c)] | Some k \<Rightarrow> column_difference t k c)
       (tb_cols m)) @
     map (\<lambda>k. OtherColumn t (cl_name k)) (filter (\<lambda>k. \<not> has_col (cl_name k) m) (tb_cols x)) @
     (if same_elements (keys_of x) (keys_of m) then [] else [OtherKeys t (keys_of x)]) @
     (if same_elements (map snd (tb_uniques x)) (map snd (tb_uniques m)) then [] else [OtherUniques t (map snd (tb_uniques x))])"

definition schema_differences :: "sqldb \<Rightarrow> sqldb \<Rightarrow> difference list" where
  "schema_differences db models = concat (map (\<lambda>(t, m).
     case map_of db t of None \<Rightarrow> [NoTable t] | Some x \<Rightarrow> table_differences t x m) models)"

end
