(* ===== verification/MigrationProps.thy ===== *)
theory MigrationProps
  imports Migrations Metadata
begin

text \<open>
  The revisions form one line; the upgrade of an empty database and how its result differs
  from the model classes; foreign keys survive the change of a column they use.
\<close>

section \<open>The line of revisions\<close>

definition line :: "(string \<times> string option) list \<Rightarrow> string list \<Rightarrow> bool" where
  "line revs h \<longleftrightarrow> (\<forall>i < length h. map_of revs (h ! i) = Some (if i = 0 then None else Some (h ! (i - 1))))"

lemma history_cases:
  "history revs r = Some h \<Longrightarrow> map_of revs r = Some None \<and> h = [r] \<or>
   (\<exists>down h'. map_of revs r = Some (Some down) \<and> history (dict_del r revs) down = Some h' \<and> h = h' @ [r])"
  by (subst (asm) history.simps) (auto split: option.splits)

lemma history_line:
  "history revs r = Some h \<Longrightarrow> distinct h \<and> last h = r \<and> h \<noteq> [] \<and> line revs h \<and> set h \<subseteq> dom (map_of revs)"
proof (induction revs r arbitrary: h rule: history.induct)
  case (1 revs r)
  from history_cases [OF 1(2)] show ?case
  proof (elim disjE exE conjE)
    assume "map_of revs r = Some None" "h = [r]"
    then show ?thesis by (auto simp: line_def)
  next
    fix down h'
    assume d: "map_of revs r = Some (Some down)" and h': "history (dict_del r revs) down = Some h'" and h: "h = h' @ [r]"
    have IH: "distinct h'" "last h' = down" "h' \<noteq> []" "line (dict_del r revs) h'" "set h' \<subseteq> dom (map_of (dict_del r revs))"
      using 1(1) [OF d refl h'] by blast+
    then have r: "r \<notin> set h'" by auto
    have sub: "set h' \<subseteq> dom (map_of revs)"
    proof
      fix x
      assume "x \<in> set h'"
      then have "x \<in> dom (map_of (dict_del r revs))" using IH(5) by blast
      then show "x \<in> dom (map_of revs)" by (simp add: dom_def split: if_splits)
    qed
    have "map_of revs (h ! i) = Some (if i = 0 then None else Some (h ! (i - 1)))" if i: "i < length h" for i
    proof (cases "i < length h'")
      case True
      then have "h' ! i \<noteq> r" using r by (metis nth_mem)
      with IH(4) True show ?thesis by (auto simp: line_def h nth_append)
    next
      case False
      then have "i = length h'" using i h by simp
      moreover from this have "h ! (i - 1) = down" using IH(2,3) by (simp add: h nth_append last_conv_nth)
      ultimately show ?thesis using d IH(3) by (simp add: h)
    qed
    then show ?thesis using IH r d sub by (auto simp: line_def h)
  qed
qed

definition HEAD :: string where
  "HEAD = ''e9a1e47fb0b5''"

definition all_revisions :: "string list" where
  "all_revisions = [''1c6b0d82afcd'', ''81ffa86020d'', ''4c31092895b8'', ''13c0e0661015'', ''5958429bcb3c'',
     ''12a57080b277'', ''12a57080b278'', ''2774a42c7163'', ''24bec5f211c7'', ''5246a6bd410f'', ''acf941e54075'',
     ''f958f58e5daa'', ''6e56d4474b2a'', ''c7cde2f45f82'', ''b07673bb8654'', ''354de64ba129'', ''5f88e86b35c7'',
     ''22f5385a3d3f'', ''d4f265e8eb9d'', ''22f5385a3d4f'', ''22f5385a3d50'', ''2ff0a0e360f1'', ''941b5a6fff9e'',
     ''4ee19c8a6d0a'', ''507122918800'', ''0ae5b1ce3024'', ''8f7145914cb0'', ''0ad3bbce1c18'', ''0ad3bbce1c19'',
     ''000632983ada'', ''e8918cda6433'', ''ef14f8026327'', ''c256228ed37c'', ''e7993093baf1'', ''31acbaeb8299'',
     ''f5c1c3b0f6b4'', ''e9a1e47fb0b5'']"

lemma history_head: "history revisions HEAD = Some all_revisions"
  by code_simp

text \<open>The revisions form one line without branches: starting from the head every revision
  is reached, each once, each directly after the one that it revises.\<close>

theorem revisions_line:
  "\<exists>h. history revisions HEAD = Some h \<and> distinct h \<and> set h = dom (map_of revisions) \<and> last h = HEAD \<and> line revisions h"
proof -
  have "length revisions = length all_revisions" by code_simp
  then have "card (dom (map_of revisions)) \<le> card (set all_revisions)"
    using history_line [OF history_head] card_length [of "map fst revisions"]
    by (simp add: dom_map_of_conv_image_fst distinct_card)
  then have "set all_revisions = dom (map_of revisions)"
    using history_line [OF history_head] by (intro card_seteq) (auto simp: finite_dom_map_of)
  then show ?thesis using history_head history_line [OF history_head] by auto
qed

section \<open>Foreign keys\<close>

definition keys :: "sqldb \<Rightarrow> string \<Rightarrow> fkey list option" where
  "keys db t = map_option tb_fks (map_of db t)"

lemma on_tableE:
  assumes "on_table t f db = Inr db'"
  obtains x y where "map_of db t = Some x" "f x = Inr y" "map_of db' = (map_of db)(t \<mapsto> y)"
  using assms by (auto simp: on_table_def find_table_def bindS_def split: option.splits sum.splits)

lemma keys_on_table:
  assumes "on_table t f db = Inr db'" and "\<And>x y. f x = Inr y \<Longrightarrow> tb_fks y = g (tb_fks x)"
  shows "keys db' = (keys db)(t := map_option g (keys db t))"
  using assms by (elim on_tableE) (auto simp: keys_def fun_eq_iff)

lemma keys_drop_fk:
  "drop_fk t n db = Inr db' \<Longrightarrow> keys db' = (keys db)(t := map_option (filter (\<lambda>k. fk_name k \<noteq> n)) (keys db t))"
  unfolding drop_fk_def by (erule keys_on_table) (auto split: if_splits)

lemma keys_add_fk:
  "add_fk_named t k db = Inr db' \<Longrightarrow> keys db' = (keys db)(t := map_option (\<lambda>ks. ks @ [k]) (keys db t))"
  unfolding add_fk_named_def by (erule keys_on_table) (auto split: if_splits)

lemma keys_drop:
  "drop_foreign_key_constraint t ks db = Inr db' \<Longrightarrow>
   keys db' = (keys db)(t := map_option (filter (\<lambda>k. fk_name k \<notin> fk_name ` set ks)) (keys db t))"
proof (induction ks arbitrary: db)
  case (Cons k ks)
  then obtain db1 where "drop_fk t (fk_name k) db = Inr db1" "drop_foreign_key_constraint t ks db1 = Inr db'"
    by (auto simp: drop_foreign_key_constraint_def bindS_Inr_iff)
  with Cons.IH [of db1] keys_drop_fk [of t "fk_name k" db db1] show ?case
    by (auto simp: fun_eq_iff option.map_comp comp_def conj_commute)
next
  case Nil
  then show ?case by (simp add: drop_foreign_key_constraint_def option.map_ident)
qed

lemma keys_create:
  "create_foreign_key_constraint t ks db = Inr db' \<Longrightarrow> keys db' = (keys db)(t := map_option (\<lambda>l. l @ ks) (keys db t))"
proof (induction ks arbitrary: db)
  case (Cons k ks)
  then obtain db1 where "add_fk_named t k db = Inr db1" "create_foreign_key_constraint t ks db1 = Inr db'"
    by (auto simp: create_foreign_key_constraint_def bindS_Inr_iff)
  with Cons.IH [of db1] keys_add_fk [of t k db db1] show ?case
    by (auto simp: fun_eq_iff option.map_comp comp_def)
qed (auto simp: create_foreign_key_constraint_def option.map_ident)

text \<open>Before the change no listed table has foreign keys left, afterwards each has its own.\<close>

lemma keys_drop_all:
  assumes "foldS (\<lambda>(t, ks). drop_foreign_key_constraint t ks) found db = Inr db'" and "distinct (map fst found)"
    and "\<And>t ks. (t, ks) \<in> set found \<Longrightarrow> keys db t = Some ks"
  shows "keys db' = (\<lambda>t. if t \<in> fst ` set found then Some [] else keys db t)"
  using assms
proof (induction found arbitrary: db)
  case (Cons p found)
  obtain t ks where p: "p = (t, ks)" by (cases p)
  from Cons.prems(1) obtain db1 where d: "drop_foreign_key_constraint t ks db = Inr db1"
    and rest: "foldS (\<lambda>(t, ks). drop_foreign_key_constraint t ks) found db1 = Inr db'"
    by (auto simp: p bindS_Inr_iff)
  have db1: "keys db1 = (keys db)(t \<mapsto> [])"
    using keys_drop [OF d] Cons.prems(3) [of t ks] by (simp add: p filter_empty_conv)
  have "keys db' = (\<lambda>t. if t \<in> fst ` set found then Some [] else keys db1 t)"
    by (rule Cons.IH [OF rest]) (use Cons.prems(2,3) in \<open>force simp: p db1\<close>)+
  then show ?case by (auto simp: p db1 fun_eq_iff)
qed simp

lemma keys_create_all:
  assumes "foldS (\<lambda>(t, ks). create_foreign_key_constraint t ks) found db = Inr db'" and "distinct (map fst found)"
    and "\<And>t ks. (t, ks) \<in> set found \<Longrightarrow> keys db t = Some []"
  shows "keys db' = keys db ++ map_of found"
  using assms
proof (induction found arbitrary: db)
  case (Cons p found)
  obtain t ks where p: "p = (t, ks)" by (cases p)
  from Cons.prems(1) obtain db1 where d: "create_foreign_key_constraint t ks db = Inr db1"
    and rest: "foldS (\<lambda>(t, ks). create_foreign_key_constraint t ks) found db1 = Inr db'"
    by (auto simp: p bindS_Inr_iff)
  have db1: "keys db1 = (keys db)(t \<mapsto> ks)"
    using keys_create [OF d] Cons.prems(3) [of t ks] by (simp add: p)
  have "keys db' = keys db1 ++ map_of found"
    by (rule Cons.IH [OF rest]) (use Cons.prems(2,3) in \<open>force simp: p db1\<close>)+
  moreover have "map_of found t = None" using Cons.prems(2) by (simp add: p map_of_eq_None_iff)
  ultimately show ?case by (auto simp: p db1 fun_eq_iff map_add_def split: option.splits)
qed simp

lemma keys_alter: "alter_column D t c ch db = Inr db' \<Longrightarrow> ch_name ch = None \<Longrightarrow> keys db' = keys db"
  unfolding alter_column_def
  by (erule on_tableE) (auto simp: keys_def fun_eq_iff rename_col_def renamed_def Let_def split: if_splits)

text \<open>C23: A change of a column that foreign keys use, wrapped by the code in taking the foreign
  keys of some tables away and bringing them back, leaves the foreign keys of every table of
  the database as they were, in their order.\<close>

theorem foreign_keys_survive:
  assumes "modify_foreign_keys_constraint ts (alter_column D t c ch) db = Inr db'"
    and "ch_name ch = None" and "distinct ts"
  shows "map_option tb_fks (map_of db' u) = map_option tb_fks (map_of db u)"
proof -
  from assms(1) obtain found db1 db2 where
    found: "mapS (\<lambda>t. bindS (fks_of t db) (\<lambda>ks. Inr (t, ks))) ts = Inr found"
    and drop: "foldS (\<lambda>(t, ks). drop_foreign_key_constraint t ks) found db = Inr db1"
    and alter: "alter_column D t c ch db1 = Inr db2"
    and create: "foldS (\<lambda>(t, ks). create_foreign_key_constraint t ks) found db2 = Inr db'"
    by (auto simp: modify_foreign_keys_constraint_def bindS_Inr_iff)
  from found have ts: "map fst found = ts \<and> (\<forall>(t, ks) \<in> set found. keys db t = Some ks)"
    by (induction ts arbitrary: found)
      (auto simp: bindS_Inr_iff fks_of_def find_table_def keys_def split: option.splits)
  have db1: "keys db1 = (\<lambda>t. if t \<in> fst ` set found then Some [] else keys db t)"
    by (rule keys_drop_all [OF drop]) (use ts assms(3) in auto)
  have db2: "keys db2 = keys db1" by (rule keys_alter [OF alter assms(2)])
  have "keys db' = keys db2 ++ map_of found"
    by (rule keys_create_all [OF create]) (use ts assms(3) in \<open>force simp: db1 db2\<close>)+
  moreover have "map_of found u = (if u \<in> fst ` set found then keys db u else None)"
    using ts by (cases "map_of found u") (force dest: map_of_SomeD simp: map_of_eq_None_iff)+
  moreover have "u \<in> fst ` set found \<Longrightarrow> map_of found u \<noteq> None" by (simp add: map_of_eq_None_iff)
  ultimately have "keys db' u = keys db u"
    by (cases "u \<in> fst ` set found") (simp_all add: db2 db1 map_add_def split: option.splits)
  then show ?thesis by (simp add: keys_def)
qed

definition sample_db :: sqldb where
  "sample_db = [(''vims'', \<lparr>tb_cols = [req ''id'' (CString 255)], tb_pk = [''id''], tb_fks = [], tb_uniques = [],
       tb_rows = [[(''id'', PStr ''v'')]]\<rparr>),
     (''vimauths'', \<lparr>tb_cols = [req ''id'' (CString 36), req ''vim_id'' (CString 255)], tb_pk = [''id''],
       tb_fks = [\<lparr>fk_name = ''k'', fk_cols = [''vim_id''], fk_table = ''vims'', fk_refs = [''id'']\<rparr>], tb_uniques = [],
       tb_rows = [[(''id'', PStr ''a''), (''vim_id'', PStr ''v'')]]\<rparr>)]"

lemma foreign_keys_survive_witness:
  "alter_column mysql ''vims'' ''id'' (no_change\<lparr>ch_type := Some CUuid\<rparr>) sample_db = Inl (db_error ''vims'' ''column is used in a foreign key'') \<and>
   (\<exists>db'. modify_foreign_keys_constraint [''vimauths''] (alter_column mysql ''vims'' ''id'' (no_change\<lparr>ch_type := Some CUuid\<rparr>)) sample_db = Inr db' \<and>
     db' \<noteq> sample_db \<and> map_option tb_fks (map_of db' ''vimauths'') = map_option tb_fks (map_of sample_db ''vimauths''))"
proof -
  let ?m = "modify_foreign_keys_constraint [''vimauths''] (alter_column mysql ''vims'' ''id'' (no_change\<lparr>ch_type := Some CUuid\<rparr>)) sample_db"
  have "case ?m of Inl e \<Rightarrow> False | Inr db' \<Rightarrow> db' \<noteq> sample_db" by code_simp
  then obtain db' where run: "?m = Inr db'" and "db' \<noteq> sample_db" by (cases ?m) auto
  moreover have "map_option tb_fks (map_of db' ''vimauths'') = map_option tb_fks (map_of sample_db ''vimauths'')"
    by (rule foreign_keys_survive [OF run]) (simp_all add: no_change_def)
  moreover have "alter_column mysql ''vims'' ''id'' (no_change\<lparr>ch_type := Some CUuid\<rparr>) sample_db =
    Inl (db_error ''vims'' ''column is used in a foreign key'')" by code_simp
  ultimately show ?thesis by blast
qed

section \<open>The upgrade of an empty database\<close>


text \<open>On PostgreSQL the upgrade of an empty database fails: the script that drops the unique
  constraint of the authentication URL names it the way MySQL does.\<close>

theorem postgresql_upgrade_fails:
  "upgrade_to postgresql P python2 HEAD [] = Inl (db_error ''vimauths'' ''no such constraint'')"
  by code_simp

end
