(* ===== verification/Runtime.thy ===== *)
theory Runtime
  imports Services Rpc Plugins
begin

text \<open>
  The objects that live as long as a process: the registries of drivers
  (common/driver_manager.py) and the monitors that hold one, what is made on first use (the
  manager of the plugins, the database facade, the clients of a site), and the policy
  engine (policy.py). The libraries' constructors are parameters.
\<close>

section \<open>Early ends\<close>

text \<open>SystemExit with a text or a number, an error of alembic, or any other exception.\<close>

datatype stop = Leave string | ExitCode int | CommandError string | Failure exn

section \<open>Drivers\<close>

record 'd driver_ext =
  de_type :: string
  de_obj :: 'd

type_synonym 'd registry = "(string \<times> 'd) list"

text \<open>A second driver of a type is an error. Its message is meant to leave the process with the
  name of the first one, but looks for it under the type \<open>type\<close> of Python.\<close>

definition add_driver :: "'d driver_ext \<Rightarrow> 'd registry \<Rightarrow> stop + 'd registry" where
  "add_driver x drivers = (if has_key (de_type x) drivers then Inl (Failure key_error)
     else Inr (dict_set (de_type x) (de_obj x) drivers))"

definition new_driver_manager :: "'d driver_ext list \<Rightarrow> stop + 'd registry" where
  "new_driver_manager exts = foldS add_driver exts []"

definition register_driver :: "('d \<Rightarrow> string) \<Rightarrow> string \<Rightarrow> 'd \<Rightarrow> 'd registry \<Rightarrow> stop + 'd registry" where
  "register_driver name ty driver drivers = (case map_of drivers ty of
     Some old \<Rightarrow> Inl (Leave (''can't load driver '' @ name driver @ '' because driver '' @ name old @
       '' is already registered for driver '' @ ty))
   | None \<Rightarrow> Inr (dict_set ty driver drivers))"

definition get_driver :: "string \<Rightarrow> 'd registry \<Rightarrow> exn + 'd" where
  "get_driver ty drivers = (case map_of drivers ty of None \<Rightarrow> Inl key_error | Some d \<Rightarrow> Inr d)"

text \<open>\<open>invoke\<close>: the methods of a driver are what \<open>getattr\<close> finds.\<close>

definition invoke_driver :: "('d \<Rightarrow> string \<Rightarrow> (pydict \<Rightarrow> exn + pyval) option) \<Rightarrow> string \<Rightarrow> string \<Rightarrow> pydict \<Rightarrow> 'd registry \<Rightarrow> exn + pyval" where
  "invoke_driver methods ty m kwargs drivers = bindS (get_driver ty drivers) (\<lambda>d.
     case methods d m of None \<Rightarrow> Inl attribute_error | Some f \<Rightarrow> f kwargs)"

lemma dict_set_fresh: "k \<notin> fst ` set d \<Longrightarrow> dict_set k v d = d @ [(k, v)]"
  by (induction d) auto

lemma add_drivers:
  "foldS add_driver exts ds = Inr ds' \<longleftrightarrow>
   distinct (map de_type exts) \<and> fst ` set ds \<inter> de_type ` set exts = {} \<and> ds' = ds @ map (\<lambda>x. (de_type x, de_obj x)) exts"
proof (induction exts arbitrary: ds)
  case (Cons x exts)
  show ?case
  proof (cases "has_key (de_type x) ds")
    case True
    then show ?thesis by (auto simp: add_driver_def has_key_iff)
  next
    case False
    then have "dict_set (de_type x) (de_obj x) ds = ds @ [(de_type x, de_obj x)]" by (simp add: dict_set_fresh has_key_iff)
    with False Cons.IH [of "ds @ [(de_type x, de_obj x)]"] show ?thesis
      by (auto simp: add_driver_def has_key_iff bindS_Inr_iff)
  qed
qed auto

text \<open>A registry is made exactly when the drivers have different types, and it has each driver
  under its type.\<close>

lemma new_driver_manager_exact:
  "new_driver_manager exts = Inr ds \<longleftrightarrow> distinct (map de_type exts) \<and> ds = map (\<lambda>x. (de_type x, de_obj x)) exts"
  by (auto simp: new_driver_manager_def add_drivers)

section \<open>Monitors\<close>

text \<open>The class has one instance; making it again keeps the MEAs it watches, but replaces its
  drivers and starts one more thread.\<close>

record 'd monitor_object =
  mo_drivers :: "'d registry"
  mo_boot_wait :: nat
  mo_check_intvl :: nat
  mo_threads :: nat

definition new_monitor ::
  "nat \<Rightarrow> 'd driver_ext list \<Rightarrow> nat \<Rightarrow> nat option \<Rightarrow> 'd monitor_object option \<Rightarrow> stop + 'd monitor_object" where
  "new_monitor conf_intvl exts boot_wait check_intvl old = bindS (new_driver_manager exts) (\<lambda>ds.
     Inr \<lparr>mo_drivers = ds, mo_boot_wait = boot_wait,
       mo_check_intvl = (case check_intvl of None \<Rightarrow> conf_intvl | Some n \<Rightarrow> n),
       mo_threads = Suc (case old of None \<Rightarrow> 0 | Some m \<Rightarrow> mo_threads m)\<rparr>)"

text \<open>\<open>_invoke\<close> calls the driver's method with the name of the calling method. The first two
  pass a dictionary for the type of the driver, which no dictionary has as a key.\<close>

definition monitor_call_args :: "pydict \<Rightarrow> pydict \<Rightarrow> pydict" where
  "monitor_call_args mea kwargs = [(''mea'', PDict mea), (''kwargs'', PDict kwargs)]"

definition monitor_get_config :: "pydict \<Rightarrow> exn + pyval" where
  "monitor_get_config mea = Inl type_error"

definition monitor_url :: "pydict \<Rightarrow> exn + pyval" where
  "monitor_url mea = Inl type_error"

definition named_call :: "string \<Rightarrow> ('d \<Rightarrow> string \<Rightarrow> (pydict \<Rightarrow> exn + pyval) option) \<Rightarrow> string \<Rightarrow> pydict \<Rightarrow> pydict \<Rightarrow> 'd registry \<Rightarrow> exn + pyval" where
  "named_call caller methods driver mea kwargs = invoke_driver methods driver caller (monitor_call_args mea kwargs)"

definition monitor_call :: "('d \<Rightarrow> string \<Rightarrow> (pydict \<Rightarrow> exn + pyval) option) \<Rightarrow> string \<Rightarrow> pydict \<Rightarrow> pydict \<Rightarrow> 'd registry \<Rightarrow> exn + pyval" where
  "monitor_call = named_call ''monitor_call''"

definition call_alarm_url_of :: "('d \<Rightarrow> string \<Rightarrow> (pydict \<Rightarrow> exn + pyval) option) \<Rightarrow> string \<Rightarrow> pydict \<Rightarrow> pydict \<Rightarrow> 'd registry \<Rightarrow> exn + pyval" where
  "call_alarm_url_of = named_call ''call_alarm_url''"

definition process_alarm_of :: "('d \<Rightarrow> string \<Rightarrow> (pydict \<Rightarrow> exn + pyval) option) \<Rightarrow> string \<Rightarrow> pydict \<Rightarrow> pydict \<Rightarrow> 'd registry \<Rightarrow> exn + pyval" where
  "process_alarm_of = named_call ''process_alarm''"

section \<open>What is made on first use\<close>

text \<open>\<open>if x is None: x = make()\<close>, then x; when making fails there is none still.\<close>

definition lazily :: "(exn + 'a) \<Rightarrow> 'a option \<Rightarrow> (exn + 'a) \<times> 'a option" where
  "lazily made s = (case s of Some x \<Rightarrow> (Inr x, s) | None \<Rightarrow> (case made of Inl e \<Rightarrow> (Inl e, None) | Inr x \<Rightarrow> (Inr x, Some x)))"

lemma lazily_once: "lazily made s = (Inr x, s') \<Longrightarrow> s' = Some x \<and> lazily other s' = (Inr x, s')"
  by (auto simp: lazily_def split: option.splits sum.splits)

subsection \<open>The manager of the service plugins\<close>

type_synonym 'p plugins = "(string \<times> 'p) list"

definition validate_pre_plugin_load :: "string option" where
  "validate_pre_plugin_load = None"

definition validate_post_plugin_load :: "string option" where
  "validate_post_plugin_load = None"

definition invalid_load :: "string \<Rightarrow> exn" where
  "invalid_load m = Exc (Lib Exception) [(''msg'', PStr m)]"

definition new_manager :: "(string \<Rightarrow> exn + 'p) \<Rightarrow> ('p \<Rightarrow> string) \<Rightarrow> string list \<Rightarrow> exn + 'p plugins" where
  "new_manager construct plugin_type configured = (case validate_pre_plugin_load of
     Some m \<Rightarrow> Inl (invalid_load m)
   | None \<Rightarrow> (case validate_post_plugin_load of
       Some m \<Rightarrow> Inl (invalid_load m)
     | None \<Rightarrow> load_service_plugins construct plugin_type configured))"

definition get_instance ::
  "(string \<Rightarrow> exn + 'p) \<Rightarrow> ('p \<Rightarrow> string) \<Rightarrow> string list \<Rightarrow> 'p plugins option \<Rightarrow> (exn + 'p plugins) \<times> 'p plugins option" where
  "get_instance construct plugin_type configured = lazily (new_manager construct plugin_type configured)"

definition get_service_plugins ::
  "(string \<Rightarrow> exn + 'p) \<Rightarrow> ('p \<Rightarrow> string) \<Rightarrow> string list \<Rightarrow> 'p plugins option \<Rightarrow> (exn + 'p plugins) \<times> 'p plugins option" where
  "get_service_plugins = get_instance"

text \<open>A manager has no attribute \<open>plugin\<close>.\<close>

definition get_plugin ::
  "(string \<Rightarrow> exn + 'p) \<Rightarrow> ('p \<Rightarrow> string) \<Rightarrow> string list \<Rightarrow> 'p plugins option \<Rightarrow> (exn + 'p) \<times> 'p plugins option" where
  "get_plugin construct plugin_type configured s = (case get_instance construct plugin_type configured s of
     (Inl e, s1) \<Rightarrow> (Inl e, s1) | (Inr m, s1) \<Rightarrow> (Inl attribute_error, s1))"

definition has_instance :: "'p plugins option \<Rightarrow> bool" where
  "has_instance s \<longleftrightarrow> s \<noteq> None"

definition clear_instance :: "'p plugins option \<Rightarrow> 'p plugins option" where
  "clear_instance s = None"

subsection \<open>The database facade and the session of a context\<close>

text \<open>\<open>db/api.py\<close>: the facade is configured and made once; a session is asked of it.\<close>

definition get_facade :: "(exn + 'f) \<Rightarrow> 'f option \<Rightarrow> (exn + 'f) \<times> 'f option" where
  "get_facade = lazily"

definition get_session :: "(exn + 'f) \<Rightarrow> ('f \<Rightarrow> bool \<Rightarrow> bool \<Rightarrow> 'x) \<Rightarrow> 'f option \<Rightarrow> (exn + 'x) \<times> 'f option" where
  "get_session configure session s = (case get_facade configure s of
     (Inl e, s1) \<Rightarrow> (Inl e, s1) | (Inr f, s1) \<Rightarrow> (Inr (session f True False), s1))"

definition get_admin_context_without_session :: ctx where
  "get_admin_context_without_session = make_context (\<lambda>_. False) None None (Some True) None None None None"

section \<open>Clients of a site\<close>

text \<open>Which plugin authenticates, chosen by the version and by what the credentials hold.\<close>

datatype auth_plugin = V2Token | V2Password | V3Token | V3Password

definition auth_plugin_of :: "string \<Rightarrow> pydict \<Rightarrow> auth_plugin" where
  "auth_plugin_of version kwargs =
     (if version = ''v2.0'' then (if has_key ''token'' kwargs then V2Token else V2Password)
      else if has_key ''token'' kwargs then V3Token else V3Password)"

text \<open>\<open>kt_client\<close> makes a client of version 2 or 3 on a session of that plugin.\<close>

record 'c keystone_lib =
  kt_version :: "string \<Rightarrow> exn + string"
  kt_client :: "bool \<Rightarrow> auth_plugin \<Rightarrow> pydict \<Rightarrow> exn + 'c"
  kt_endpoint :: "'c \<Rightarrow> string \<Rightarrow> string option \<Rightarrow> exn + string"

definition keystone_version :: "'c keystone_lib \<Rightarrow> string \<Rightarrow> exn + string" where
  "keystone_version K base_url = kt_version K base_url"

definition initialize_client :: "'c keystone_lib \<Rightarrow> string \<Rightarrow> pydict \<Rightarrow> exn + 'c" where
  "initialize_client K version kwargs = kt_client K (version = ''v2.0'') (auth_plugin_of version kwargs) kwargs"

text \<open>\<open>create_key_dir\<close>; a failure to make the directory is logged.\<close>

definition create_key_dir :: "(string \<Rightarrow> 'w \<Rightarrow> bool) \<Rightarrow> (string \<Rightarrow> 'w \<Rightarrow> (exn + unit) \<times> 'w) \<Rightarrow> string \<Rightarrow> 'w \<Rightarrow> (exn + unit) \<times> 'w" where
  "create_key_dir exists mkdirs path w = (if exists path w then (Inr (), w)
     else case mkdirs path w of
       (Inl e, w1) \<Rightarrow> (if isinstance e (Lib OSError) then Inr () else Inl e, w1)
     | r \<Rightarrow> r)"

text \<open>\<open>OpenstackClients\<close>: the clients of Keystone and Heat are made when they are first used.\<close>

record ('c, 'h) os_clients =
  oc_auth_attr :: pydict
  oc_region_name :: "string option"
  oc_keystone :: "'c option"
  oc_heat :: "'h option"

definition new_clients :: "pydict \<Rightarrow> string option \<Rightarrow> ('c, 'h) os_clients" where
  "new_clients auth region = \<lparr>oc_auth_attr = auth, oc_region_name = region, oc_keystone = None, oc_heat = None\<rparr>"

definition keystone_client :: "'c keystone_lib \<Rightarrow> pydict \<Rightarrow> exn + 'c" where
  "keystone_client K auth = (case map_of auth ''auth_url'' of
     None \<Rightarrow> Inl key_error
   | Some (PStr url) \<Rightarrow> initialize_client K (after_last ''/'' url) auth
   | Some v \<Rightarrow> Inl attribute_error)"

definition clients_keystone :: "'c keystone_lib \<Rightarrow> ('c, 'h) os_clients \<Rightarrow> (exn + 'c) \<times> ('c, 'h) os_clients" where
  "clients_keystone K s = (case lazily (keystone_client K (oc_auth_attr s)) (oc_keystone s) of (r, k) \<Rightarrow> (r, s\<lparr>oc_keystone := k\<rparr>))"

text \<open>\<open>heat\<close> is the constructor of Heat's client from an endpoint and the session.\<close>

definition clients_heat ::
  "'c keystone_lib \<Rightarrow> (string \<Rightarrow> 'c \<Rightarrow> 'h) \<Rightarrow> ('c, 'h) os_clients \<Rightarrow> (exn + 'h) \<times> ('c, 'h) os_clients" where
  "clients_heat K heat s = (case oc_heat s of Some h \<Rightarrow> (Inr h, s)
   | None \<Rightarrow> (case clients_keystone K s of
       (Inl e, s1) \<Rightarrow> (Inl e, s1)
     | (Inr k, s1) \<Rightarrow> (case kt_endpoint K k ''orchestration'' (oc_region_name s) of
         Inl e \<Rightarrow> (Inl e, s1)
       | Inr url \<Rightarrow> (Inr (heat url k), s1\<lparr>oc_heat := Some (heat url k)\<rparr>))))"

text \<open>Once there is a client of Heat it is used again, whatever the libraries answer then.\<close>

lemma heat_once:
  "clients_heat K heat s = (Inr h, s1) \<Longrightarrow> clients_heat K' heat' s1 = (Inr h, s1)"
  by (auto simp: clients_heat_def clients_keystone_def split: option.splits sum.splits prod.splits)

section \<open>The policy engine\<close>

record 'e engine_lib =
  eg_new :: "string option \<Rightarrow> 'e"
  eg_load :: "'e \<Rightarrow> exn + 'e"
  eg_set_rules :: "pydict \<Rightarrow> bool \<Rightarrow> 'e \<Rightarrow> 'e"

text \<open>What is cleared by \<open>reset\<close> is no longer used. An engine whose rules could not be loaded
  stays.\<close>

definition policy_reset :: "'e option \<Rightarrow> 'e option" where
  "policy_reset s = None"

definition policy_init :: "'e engine_lib \<Rightarrow> string option \<Rightarrow> 'e option \<Rightarrow> (exn + unit) \<times> 'e option" where
  "policy_init E file_name s = (case s of Some e \<Rightarrow> (Inr (), s)
   | None \<Rightarrow> (case eg_load E (eg_new E file_name) of
       Inl x \<Rightarrow> (Inl x, Some (eg_new E file_name)) | Inr e \<Rightarrow> (Inr (), Some e)))"

definition policy_refresh :: "'e engine_lib \<Rightarrow> string option \<Rightarrow> 'e option \<Rightarrow> (exn + unit) \<times> 'e option" where
  "policy_refresh E file_name s = policy_init E file_name (policy_reset s)"

text \<open>\<open>set_rules\<close> reads the path of the engine before it makes sure that there is one.\<close>

definition policy_set_rules :: "'e engine_lib \<Rightarrow> pydict \<Rightarrow> bool \<Rightarrow> 'e option \<Rightarrow> (exn + unit) \<times> 'e option" where
  "policy_set_rules E policies overwrite s = (case s of None \<Rightarrow> (Inl attribute_error, None)
   | Some e \<Rightarrow> (Inr (), Some (eg_set_rules E policies overwrite e)))"

end
