(* ===== verification/MigrationCli.thy ===== *)
theory MigrationCli
  imports Migrations Purge Runtime
begin

text \<open>
  The commands of db/migration/cli.py. What alembic does to the database and to the
  directory of the scripts is a parameter; the file HEAD of that directory, which the program
  writes and checks itself, is part of the state. The command line is what the parsers make
  of it.
\<close>

section \<open>Commands\<close>

text \<open>The directory of the scripts: the heads of the revisions and the content of the file
  HEAD, if it is there.\<close>

record script_dir =
  sd_heads :: "string list"
  sd_head_file :: "string option"

record 'd cli_state =
  cs_dir :: script_dir
  cs_db :: 'd
  cs_tables :: tables

datatype call = Plain | ToRevision "string option" bool | NewRevision "string option" bool bool

type_synonym 'd cli_op = "'d cli_state \<Rightarrow> (stop + unit) \<times> 'd cli_state"

record 'd cli_env =
  ce_alembic :: "string \<Rightarrow> call \<Rightarrow> 'd cli_op"
  ce_refuses :: "tables \<Rightarrow> tables \<Rightarrow> bool"
  ce_python2 :: bool
  ce_schema :: schema
  ce_now :: int

record command =
  cm_name :: string
  cm_revision :: "string option"
  cm_delta :: "int option"
  cm_sql :: bool
  cm_message :: "string option"
  cm_autogenerate :: bool
  cm_resource :: string
  cm_age :: pyval
  cm_granularity :: string

definition and_then :: "'d cli_op \<Rightarrow> 'd cli_op \<Rightarrow> 'd cli_op" where
  "and_then f g s = (case f s of (Inl e, s1) \<Rightarrow> (Inl e, s1) | (Inr u, s1) \<Rightarrow> g s1)"

definition do_alembic_command :: "'d cli_env \<Rightarrow> string \<Rightarrow> call \<Rightarrow> 'd cli_op" where
  "do_alembic_command E cmd args s = (case ce_alembic E cmd args s of
     (Inl (CommandError m), s1) \<Rightarrow> (Inl (Leave m), s1)
   | r \<Rightarrow> r)"

section \<open>The file HEAD\<close>

text \<open>\<open>ScriptDirectory.get_current_head\<close> for at most one head\<close>

definition current_head :: "script_dir \<Rightarrow> string option" where
  "current_head d = (case sd_heads d of [] \<Rightarrow> None | h # hs \<Rightarrow> Some h)"

definition branched :: "stop" where
  "branched = Leave ''Timeline branches unable to generate timeline''"

definition validate_head_file :: "'d cli_op" where
  "validate_head_file s = (let d = cs_dir s in
     if 1 < length (sd_heads d) then (Inl branched, s)
     else if sd_head_file d \<noteq> None \<and> map_option strip (sd_head_file d) = current_head d then (Inr (), s)
     else (Inl (Leave ''HEAD file does not match migration timeline head''), s))"

text \<open>The file is emptied when it is opened; None cannot be written.\<close>

definition update_head_file :: "'d cli_op" where
  "update_head_file s = (let d = cs_dir s in
     if 1 < length (sd_heads d) then (Inl branched, s)
     else case current_head d of
         None \<Rightarrow> (Inl (Failure type_error), s\<lparr>cs_dir := d\<lparr>sd_head_file := Some []\<rparr>\<rparr>)
       | Some h \<Rightarrow> (Inr (), s\<lparr>cs_dir := d\<lparr>sd_head_file := Some h\<rparr>\<rparr>))"

section \<open>The functions of the commands\<close>

definition do_check_migration :: "'d cli_env \<Rightarrow> 'd cli_op" where
  "do_check_migration E = and_then (do_alembic_command E ''branches'' Plain) validate_head_file"

definition falsy_opt :: "string option \<Rightarrow> bool" where
  "falsy_opt r \<longleftrightarrow> r = None \<or> r = Some []"

definition no_delta :: "int option \<Rightarrow> bool" where
  "no_delta d \<longleftrightarrow> d = None \<or> d = Some 0"

definition do_upgrade :: "'d cli_env \<Rightarrow> command \<Rightarrow> 'd cli_op" where
  "do_upgrade E C s =
     (if falsy_opt (cm_revision C) \<and> no_delta (cm_delta C)
      then (Inl (Leave ''You must provide a revision or relative delta''), s)
      else do_alembic_command E (cm_name C) (ToRevision
        (if no_delta (cm_delta C) then cm_revision C else Some (''+'' @ show_int (the (cm_delta C)))) (cm_sql C)) s)"

definition do_stamp :: "'d cli_env \<Rightarrow> command \<Rightarrow> 'd cli_op" where
  "do_stamp E C = do_alembic_command E (cm_name C) (ToRevision (cm_revision C) (cm_sql C))"

definition do_revision :: "'d cli_env \<Rightarrow> command \<Rightarrow> 'd cli_op" where
  "do_revision E C = and_then
     (do_alembic_command E (cm_name C) (NewRevision (cm_message C) (cm_autogenerate C) (cm_sql C))) update_head_file"

definition do_purge :: "'d cli_env \<Rightarrow> command \<Rightarrow> 'd cli_op" where
  "do_purge E C s = (case purge_deleted (ce_refuses E) (ce_python2 E) (ce_schema E) (ce_now E)
       (cm_resource C) (cm_age C) (cm_granularity C) (cs_tables s) of
     Inl e \<Rightarrow> (Inl (Failure e), s)
   | Inr T \<Rightarrow> (Inr (), s\<lparr>cs_tables := T\<rparr>))"

section \<open>The parsers\<close>

text \<open>What a command starts from: the defaults of its arguments.\<close>

definition defaults :: "string \<Rightarrow> command" where
  "defaults n = \<lparr>cm_name = n, cm_revision = None, cm_delta = None, cm_sql = False, cm_message = None, cm_autogenerate = False,
     cm_resource = [], cm_age = PStr ''90'', cm_granularity = ''days''\<rparr>"

text \<open>The choices of the arguments, the ones that must be given, and the function of each
  command; a parser refuses everything else.\<close>

definition accepted :: "command \<Rightarrow> bool" where
  "accepted C \<longleftrightarrow>
     (if cm_name C = ''purge_deleted''
      then List.member [''all'', ''events'', ''mea'', ''mead'', ''vims''] (cm_resource C)
        \<and> List.member [''days'', ''hours'', ''minutes'', ''seconds''] (cm_granularity C)
      else if cm_name C = ''stamp'' then cm_revision C \<noteq> None
      else List.member [''current'', ''history'', ''branches'', ''check_migration'', ''upgrade'', ''revision''] (cm_name C))"

definition run_command :: "'d cli_env \<Rightarrow> command \<Rightarrow> 'd cli_op" where
  "run_command E C s = (let n = cm_name C in
     if \<not> accepted C then (Inl (Leave ''usage''), s)
     else if List.member [''current'', ''history'', ''branches''] n then do_alembic_command E n Plain s
     else if n = ''check_migration'' then do_check_migration E s
     else if n = ''upgrade'' then do_upgrade E C s
     else if n = ''stamp'' then do_stamp E C s
     else if n = ''revision'' then do_revision E C s
     else do_purge E C s)"

section \<open>The directory of the program\<close>

definition heads_of :: "(string \<times> string option) list \<Rightarrow> string list" where
  "heads_of revs = filter (\<lambda>r. \<not> List.member (map snd revs) (Some r)) (map fst revs)"

lemma update_head_file_cases:
  "update_head_file s = (Inr u, s') \<Longrightarrow> \<exists>h. sd_heads (cs_dir s) = [h] \<and> s' = s\<lparr>cs_dir := (cs_dir s)\<lparr>sd_head_file := Some h\<rparr>\<rparr>"
  by (cases "sd_heads (cs_dir s)") (auto simp: update_head_file_def current_head_def Let_def split: if_splits)

lemma validate_updated:
  "update_head_file s = (Inr u, s') \<Longrightarrow> list_all (\<lambda>h. strip h = h) (sd_heads (cs_dir s)) \<Longrightarrow> validate_head_file s' = (Inr (), s')"
  by (auto dest!: update_head_file_cases simp: validate_head_file_def current_head_def)

lemma and_thenE:
  assumes "and_then f g s = (Inr u, s')"
  obtains v s1 where "f s = (Inr v, s1)" "g s1 = (Inr u, s')"
  using assms by (auto simp: and_then_def split: prod.splits sum.splits)

text \<open>C24: After a successful \<open>revision\<close>, \<open>check_migration\<close> succeeds: the head that was written to the
  file is the head of the scripts. Listing the branches is taken to change nothing, and
  revision identifiers have no spaces around them.\<close>

theorem revision_then_check:
  assumes "run_command E ((defaults ''revision'')\<lparr>cm_message := m, cm_autogenerate := a, cm_sql := q\<rparr>) s = (Inr u, s')"
    and "ce_alembic E ''branches'' Plain s' = (Inr v, s')" and "list_all (\<lambda>h. strip h = h) (sd_heads (cs_dir s'))"
  shows "run_command E (defaults ''check_migration'') s' = (Inr (), s')"
proof -
  from assms(1) obtain w s1 where "update_head_file s1 = (Inr u, s')"
    by (auto simp: run_command_def accepted_def defaults_def do_revision_def elim!: and_thenE)
  moreover from update_head_file_cases [OF this] have "sd_heads (cs_dir s') = sd_heads (cs_dir s1)" by auto
  ultimately have "validate_head_file s' = (Inr (), s')" using validate_updated assms(3) by auto
  then show ?thesis using assms(2)
    by (simp add: run_command_def accepted_def defaults_def do_check_migration_def and_then_def do_alembic_command_def)
qed

definition sample_alembic :: "string \<Rightarrow> call \<Rightarrow> unit cli_op" where
  "sample_alembic cmd args s = (case args of
     NewRevision m a q \<Rightarrow> (Inr (), s\<lparr>cs_dir := (cs_dir s)\<lparr>sd_heads := [''abc'']\<rparr>\<rparr>)
   | _ \<Rightarrow> (Inr (), s))"

definition sample_cli_env :: "unit cli_env" where
  "sample_cli_env = \<lparr>ce_alembic = sample_alembic, ce_refuses = (\<lambda>_ _. False), ce_python2 = True, ce_schema = [], ce_now = 0\<rparr>"

definition shipped :: "unit cli_state" where
  "shipped = \<lparr>cs_dir = \<lparr>sd_heads = heads_of revisions, sd_head_file = Some ''e9a1e47fb0b5''\<rparr>, cs_db = (), cs_tables = []\<rparr>"

lemma revision_then_check_witness:
  "\<exists>s'. run_command sample_cli_env (defaults ''revision'') shipped = (Inr (), s') \<and> s' \<noteq> shipped \<and>
     run_command sample_cli_env (defaults ''check_migration'') shipped = (Inr (), shipped) \<and>
     run_command sample_cli_env (defaults ''check_migration'') s' = (Inr (), s')"
proof -
  let ?s = "shipped\<lparr>cs_dir := \<lparr>sd_heads = [''abc''], sd_head_file = Some ''abc''\<rparr>\<rparr>"
  let ?c = "(defaults ''revision'')\<lparr>cm_message := None, cm_autogenerate := False, cm_sql := False\<rparr>"
  have c: "?c = defaults ''revision''" by (simp add: defaults_def)
  have run: "run_command sample_cli_env ?c shipped = (Inr (), ?s)" by code_simp
  have "ce_alembic sample_cli_env ''branches'' Plain ?s = (Inr (), ?s)" by (simp add: sample_cli_env_def sample_alembic_def)
  moreover have "list_all (\<lambda>h. strip h = h) (sd_heads (cs_dir ?s))" by code_simp
  ultimately have "run_command sample_cli_env (defaults ''check_migration'') ?s = (Inr (), ?s)"
    by (rule revision_then_check [OF run])
  moreover have "run_command sample_cli_env (defaults ''check_migration'') shipped = (Inr (), shipped)" by code_simp
  moreover have "?s \<noteq> shipped" by code_simp
  ultimately show ?thesis using run c by metis
qed

end
