(* ===== verification/Servers.thy ===== *)
theory Servers
  imports Runtime
begin

text \<open>
  The transports of messages (common/rpc.py), which are global variables of the process, and
  the API server: \<open>Server\<close> and \<open>WorkerService\<close> of wsgi.py, the services of service.py around it and
  \<open>main\<close> of cmd/eventlet/apmec_server.py. Green threads and processes are what the state says
  is running.
\<close>

section \<open>Transports\<close>

record 't messaging_lib =
  ml_transport :: "string list option \<Rightarrow> exn + 't"
  ml_notification :: "string list option \<Rightarrow> exn + 't"

record ('t, 'w) messaging =
  ms_transport :: "'t option"
  ms_notification :: "'t option"
  ms_notifier :: "'t option"
  ms_extra_exmods :: "string list"
  ms_closed :: "'t list"
  ms_rpc :: "'w rpc"

definition ALLOWED_EXMODS :: "string list" where
  "ALLOWED_EXMODS = [''apmec.common.exceptions'']"

definition add_extra_exmods :: "string list \<Rightarrow> ('t, 'w) messaging \<Rightarrow> ('t, 'w) messaging" where
  "add_extra_exmods ms s = s\<lparr>ms_extra_exmods := ms_extra_exmods s @ ms\<rparr>"

definition clear_extra_exmods :: "('t, 'w) messaging \<Rightarrow> ('t, 'w) messaging" where
  "clear_extra_exmods s = s\<lparr>ms_extra_exmods := []\<rparr>"

definition get_allowed_exmods :: "('t, 'w) messaging \<Rightarrow> string list" where
  "get_allowed_exmods s = ALLOWED_EXMODS @ ms_extra_exmods s"

definition init_action_rpc :: "'t messaging_lib \<Rightarrow> ('t, 'w) messaging \<Rightarrow> (exn + unit) \<times> ('t, 'w) messaging" where
  "init_action_rpc L s = (case ml_transport L None of
     Inl e \<Rightarrow> (Inl e, s) | Inr t \<Rightarrow> (Inr (), s\<lparr>ms_transport := Some t\<rparr>))"

text \<open>The notifier sends through the transport of the notifications.\<close>

definition rpc_init :: "'t messaging_lib \<Rightarrow> ('t, 'w) messaging \<Rightarrow> (exn + unit) \<times> ('t, 'w) messaging" where
  "rpc_init L s = (let exmods = Some (get_allowed_exmods s) in
     case ml_transport L exmods of
       Inl e \<Rightarrow> (Inl e, s)
     | Inr t \<Rightarrow> (let s1 = s\<lparr>ms_transport := Some t\<rparr> in
         case ml_notification L exmods of
           Inl e \<Rightarrow> (Inl e, s1)
         | Inr n \<Rightarrow> (Inr (), s1\<lparr>ms_notification := Some n, ms_notifier := Some n\<rparr>)))"

definition assertion_failed :: exn where
  "assertion_failed = Exc (Lib AssertionError) []"

definition rpc_cleanup :: "('t, 'w) messaging \<Rightarrow> (exn + unit) \<times> ('t, 'w) messaging" where
  "rpc_cleanup s = (case (ms_transport s, ms_notification s, ms_notifier s) of
     (Some t, Some n, Some f) \<Rightarrow> (Inr (), s\<lparr>ms_closed := ms_closed s @ [t, n], ms_rpc := reset_timeouts (ms_rpc s),
        ms_transport := None, ms_notification := None, ms_notifier := None\<rparr>)
   | _ \<Rightarrow> (Inl assertion_failed, s))"

record 't rpc_client =
  cn_transport :: 't
  cn_topic :: string
  cn_version_cap :: "string option"

definition get_client :: "string \<Rightarrow> string option \<Rightarrow> ('t, 'w) messaging \<Rightarrow> exn + 't rpc_client" where
  "get_client topic version_cap s = (case ms_transport s of None \<Rightarrow> Inl assertion_failed
     | Some t \<Rightarrow> Inr \<lparr>cn_transport = t, cn_topic = topic, cn_version_cap = version_cap\<rparr>)"

definition get_server :: "rpc_server \<Rightarrow> ('t, 'w) messaging \<Rightarrow> exn + 't \<times> rpc_server" where
  "get_server target s = (case ms_transport s of None \<Rightarrow> Inl assertion_failed | Some t \<Rightarrow> Inr (t, target))"

definition get_notifier ::
  "string \<Rightarrow> string option \<Rightarrow> string option \<Rightarrow> string option \<Rightarrow> ('t, 'w) messaging \<Rightarrow> exn + 't \<times> string" where
  "get_notifier conf_host service host publisher s = (case ms_notifier s of None \<Rightarrow> Inl assertion_failed
     | Some n \<Rightarrow> Inr (n, or_default publisher
         ((case service of None \<Rightarrow> ''None'' | Some x \<Rightarrow> x) @ ''.'' @ or_default host conf_host)))"

text \<open>After a clean-up the process is as if it had never been connected, but what it had opened
  is closed; a transport for actions only cannot be cleaned up.\<close>

lemma cleanup_after_init:
  "rpc_init L s = (Inr (), s1) \<Longrightarrow> \<exists>t n s2. rpc_cleanup s1 = (Inr (), s2) \<and> ms_closed s2 = ms_closed s @ [t, n] \<and>
     ms_transport s1 = Some t \<and> ms_notification s1 = Some n \<and> get_client topic cap s2 = Inl assertion_failed \<and>
     rpc_cleanup s2 = (Inl assertion_failed, s2)"
  by (auto simp: rpc_init_def rpc_cleanup_def get_client_def Let_def split: sum.splits)

lemma action_rpc_cannot_clean:
  "init_action_rpc L s = (Inr (), s1) \<Longrightarrow> ms_notification s = None \<Longrightarrow> rpc_cleanup s1 = (Inl assertion_failed, s1)"
  by (auto simp: init_action_rpc_def rpc_cleanup_def split: sum.splits option.splits)

section \<open>The API server\<close>

text \<open>\<open>Workers n\<close>: a launcher with n processes. \<open>sv_bound\<close>: there is a socket.\<close>

datatype serving = Idle | InThread | Workers nat

record server =
  sv_name :: string
  sv_threads :: nat
  sv_host :: string
  sv_port :: nat
  sv_bound :: bool
  sv_serving :: serving
  sv_running :: bool

definition new_server :: "string \<Rightarrow> server" where
  "new_server name = \<lparr>sv_name = name, sv_threads = 1000, sv_host = [], sv_port = 0, sv_bound = False,
     sv_serving = Idle, sv_running = False\<rparr>"

definition server_start ::
  "'w net \<Rightarrow> ssl_conf \<Rightarrow> string \<Rightarrow> nat \<Rightarrow> int \<Rightarrow> server \<Rightarrow> 'w \<Rightarrow> ((stop + unit) \<times> server \<times> 'w) option" where
  "server_start N C host port workers s w = map_option (\<lambda>(r, w1). let s1 = s\<lparr>sv_host := host, sv_port := port\<rparr> in
     (case r of
        Inl e \<Rightarrow> (Inl (Failure e), s1, w1)
      | Inr (SystemExit n) \<Rightarrow> (Inl (ExitCode n), s1, w1)
      | Inr Listening \<Rightarrow> (Inr (), s1\<lparr>sv_bound := True, sv_running := True,
          sv_serving := (if workers < 1 then InThread else Workers (nat workers))\<rparr>, w1)))
     (get_socket N C host port w)"

text \<open>What was not started cannot be stopped; its address is not known either.\<close>

definition server_stop :: "server \<Rightarrow> exn + server" where
  "server_stop s = (if sv_serving s = Idle then Inl attribute_error else Inr (s\<lparr>sv_running := False\<rparr>))"

definition server_address :: "(string \<times> nat \<Rightarrow> string \<times> nat) \<Rightarrow> server \<Rightarrow> exn + string \<times> nat" where
  "server_address sockname s = (if sv_bound s then Inr (sockname (sv_host s, sv_port s)) else Inl attribute_error)"

text \<open>\<open>WorkerService\<close>: the connections of the database are dropped before the worker serves.\<close>

record 'd worker =
  wk_engine :: 'd
  wk_thread :: bool

definition worker_start :: "('d \<Rightarrow> exn + 'd) \<Rightarrow> 'd worker \<Rightarrow> exn + 'd worker" where
  "worker_start dispose k = bindS (dispose (wk_engine k)) (\<lambda>d. Inr (k\<lparr>wk_engine := d, wk_thread := True\<rparr>))"

definition worker_stop :: "'d worker \<Rightarrow> 'd worker" where
  "worker_stop k = k\<lparr>wk_thread := False\<rparr>"

section \<open>The API service\<close>

record api_conf =
  ap_host :: string
  ap_port :: nat
  ap_workers :: int
  ap_config_file :: bool

text \<open>\<open>load_paste_app\<close>: the file of the pipelines is looked for, the application built from it.\<close>

definition load_paste_app :: "(string \<Rightarrow> string option) \<Rightarrow> (string \<Rightarrow> string \<Rightarrow> exn + bool) \<Rightarrow> string \<Rightarrow> string \<Rightarrow> exn + bool" where
  "load_paste_app find_config load api_paste_config app_name = (case find_config api_paste_config of
     None \<Rightarrow> Inl (Exc (Lib Exception) [(''config_files'', PStr api_paste_config)])
   | Some path \<Rightarrow> (case load path app_name of
       Inl e \<Rightarrow> if isinstance e (Lib LookupError) \<or> isinstance e (Lib ImportError)
         then Inl (Exc (Lib RuntimeError) [(''app_name'', PStr app_name), (''config_path'', PStr path)]) else Inl e
     | r \<Rightarrow> r))"

text \<open>\<open>_run_wsgi\<close>: without an application there is no server.\<close>

definition run_wsgi ::
  "'w net \<Rightarrow> ssl_conf \<Rightarrow> api_conf \<Rightarrow> (exn + bool) \<Rightarrow> 'w \<Rightarrow> ((stop + server option) \<times> 'w) option" where
  "run_wsgi N C A app w = (case app of
     Inl e \<Rightarrow> Some (Inl (Failure e), w)
   | Inr found \<Rightarrow> if \<not> found then Some (Inr None, w)
     else map_option (\<lambda>(r, s, w1). (map_sum id (\<lambda>_. Some s) r, w1))
       (server_start N C (ap_host A) (ap_port A) (ap_workers A) (new_server ''Apmec'') w))"

definition api_service_wait :: "server option \<Rightarrow> bool" where
  "api_service_wait s \<longleftrightarrow> s \<noteq> None"

text \<open>\<open>main\<close>: a RuntimeError ends the process with its text, an interrupt is not an error.\<close>

definition no_config_file :: stop where
  "no_config_file = Leave ''ERROR: Unable to find configuration file via the default search paths''"

definition api_main ::
  "(exn \<Rightarrow> string) \<Rightarrow> 'w net \<Rightarrow> ssl_conf \<Rightarrow> api_conf \<Rightarrow> (exn + bool) \<Rightarrow> 'w \<Rightarrow> ((stop + server option) \<times> 'w) option" where
  "api_main message N C A app w =
     (if \<not> ap_config_file A then Some (Inl no_config_file, w)
      else map_option (\<lambda>(r, w1). ((case r of
          Inl (Failure e) \<Rightarrow> if isinstance e (Lib RuntimeError) then Inl (Leave (''ERROR: '' @ message e)) else r
        | _ \<Rightarrow> r), w1)) (run_wsgi N C A app w))"

text \<open>A certificate that is not there ends the process with a message, before anything is bound.\<close>

lemma missing_certificate:
  assumes "ap_config_file A" and "nt_resolves N (ap_host A) (ap_port A)" and "sc_use_ssl C" "\<not> nt_exists N (sc_cert_file C)"
  shows "api_main message N C A (Inr True) w =
    Some (Inl (Leave (''ERROR: '' @ message (missing_file ''ssl_cert_file'' (sc_cert_file C)))), w)"
proof -
  have "isinstance (missing_file a b) (Lib RuntimeError)" for a b by (simp add: missing_file_def exc_eval)
  then show ?thesis
    using assms by (simp add: api_main_def run_wsgi_def server_start_def get_socket_def check_ssl_def Let_def)
qed

lemma some_triple: "\<exists>c a b. x = (a, b, c)"
  by (metis prod_cases3)

text \<open>The server comes up or the process ends: if time passes, \<open>main\<close> does not wait for ever.\<close>

lemma api_main_ends:
  assumes "\<And>w. nt_now N w \<le> nt_now N (snd (nt_listen N w))" and "\<And>w. nt_now N w < nt_now N (nt_sleep N w)"
  shows "\<exists>r. api_main message N C A app w = Some r"
proof -
  obtain r w1 where "bind_loop N (nt_now N w + 10 * sc_retry_until_window C) w = Some (r, w1)"
    using bind_loop_ends [OF assms] by blast
  then have "\<exists>r w1. get_socket N C (ap_host A) (ap_port A) w = Some (r, w1)"
    by (simp add: get_socket_def split: sum.splits)
  then show ?thesis
    by (auto simp: api_main_def run_wsgi_def server_start_def some_triple split: sum.splits)
qed

section \<open>Who listens to what\<close>

record target =
  tg_exchange :: string
  tg_topic :: string

definition TOPIC_ACTION_KILL :: string where
  "TOPIC_ACTION_KILL = ''KILL_ACTION''"

definition TOPIC_CONDUCTOR :: string where
  "TOPIC_CONDUCTOR = ''APMEC_CONDUCTOR''"

definition VIMUpdateRPC_target :: target where
  "VIMUpdateRPC_target = \<lparr>tg_exchange = ''apmec'', tg_topic = TOPIC_CONDUCTOR\<rparr>"

definition MistralActionKillRPC_target :: target where
  "MistralActionKillRPC_target = \<lparr>tg_exchange = ''apmec'', tg_topic = TOPIC_ACTION_KILL\<rparr>"

text \<open>A message goes to the servers of its exchange and topic, to one of a given name only if it
  says so.\<close>

definition reaches :: "target \<Rightarrow> string option \<Rightarrow> rpc_server \<Rightarrow> bool" where
  "reaches g server s \<longleftrightarrow> rs_exchange s = tg_exchange g \<and> rs_topic s = tg_topic g \<and>
     (case server of None \<Rightarrow> True | Some h \<Rightarrow> rs_host s = h)"

text \<open>\<open>PingVimAction.start_rpc_listeners\<close>; \<open>kill_action\<close> addresses the action of one VIM.\<close>

definition action_listeners :: "bool \<Rightarrow> string \<Rightarrow> string \<Rightarrow> rpc_server list" where
  "action_listeners rpc_disabled conf_host vim_id =
     (if rpc_disabled then [] else create_consumer conf_host (Some vim_id) TOPIC_ACTION_KILL [])"

definition kill_reaches :: "string \<Rightarrow> rpc_server \<Rightarrow> bool" where
  "kill_reaches vim_id = reaches MistralActionKillRPC_target (Some vim_id)"

text \<open>\<open>conductor_server.main\<close>: the transports, then the service.\<close>

definition conductor_main ::
  "'t messaging_lib \<Rightarrow> (string \<Rightarrow> exn + unit) \<Rightarrow> service_conf \<Rightarrow> nat \<Rightarrow> ('t, 'w) messaging \<Rightarrow>
   (exn + act list \<times> service) \<times> ('t, 'w) messaging" where
  "conductor_main L import_class C delay s = (case rpc_init L s of
     (Inl e, s1) \<Rightarrow> (Inl e, s1)
   | (Inr _, s1) \<Rightarrow> (case create_service import_class C None (Some ''apmec-conductor'') (Some TOPIC_CONDUCTOR)
          (Some ''apmec.conductor.conductor_server.Conductor'') None None None of
        Inl e \<Rightarrow> (Inl e, s1)
      | Inr v \<Rightarrow> (Inr (service_start False (cf_host C) False delay v), s1)))"

text \<open>The kill message for a VIM stops the action of this VIM and of no other; the status that
  an action reports reaches the conductor.\<close>

lemma kill_reaches_its_action:
  "j \<noteq> [] \<Longrightarrow> s \<in> set (action_listeners d h j) \<Longrightarrow> kill_reaches i s \<longleftrightarrow> i = j"
  by (auto simp: action_listeners_def create_consumer_def kill_reaches_def reaches_def MistralActionKillRPC_target_def
      split: if_splits)

lemma conductor_hears:
  "conductor_main L import_class C delay s = (Inr (acts, v), s1) \<Longrightarrow>
   \<exists>x. StartServer x \<in> set acts \<and> reaches VIMUpdateRPC_target None x \<and> get_client TOPIC_CONDUCTOR cap s1 \<noteq> Inl assertion_failed"
  by (auto simp: conductor_main_def create_service_def Let_def bindS_Inr_iff service_start_def rpc_service_start_def
      connection_servers_def create_consumer_def consume_in_threads_def reaches_def VIMUpdateRPC_target_def TOPIC_CONDUCTOR_def
      or_default_def rpc_init_def get_client_def split: sum.splits prod.splits if_splits)

end
