(* ===== verification/DbHooks.thy ===== *)
theory DbHooks
  imports DbBase
begin

text \<open>
  The hooks of db/db_base.py, with which plugins change the queries of a model. The program
  registers none, so the other theories use the queries without them; here they are with
  hooks, and without any they are the same.
\<close>

section \<open>Hooks\<close>

text \<open>A hook is a function, the name of a method of the plugin, or missing.\<close>

datatype 'f hook = NoHook | Method string | Hook 'f

definition hook_of :: "(string \<Rightarrow> 'f option) \<Rightarrow> 'f hook \<Rightarrow> 'f option" where
  "hook_of methods h = (case h of NoHook \<Rightarrow> None | Method n \<Rightarrow> methods n | Hook f \<Rightarrow> Some f)"

type_synonym 'r condition = "('r \<Rightarrow> bool) option"
type_synonym 'r query_hook = "ctx \<Rightarrow> 'r model \<Rightarrow> 'r list \<Rightarrow> 'r list"
type_synonym 'r filter_hook = "ctx \<Rightarrow> 'r model \<Rightarrow> 'r condition \<Rightarrow> 'r condition"
type_synonym 'r result_hook = "'r list \<Rightarrow> (string \<times> pyval list) list \<Rightarrow> 'r list"

record 'r hooks =
  hk_query :: "'r query_hook hook"
  hk_filter :: "'r filter_hook hook"
  hk_result :: "'r result_hook hook"

text \<open>The methods of the plugin that names stand for.\<close>

record 'r hook_methods =
  hm_query :: "string \<Rightarrow> 'r query_hook option"
  hm_filter :: "string \<Rightarrow> 'r filter_hook option"
  hm_result :: "string \<Rightarrow> 'r result_hook option"

text \<open>The hooks of each model, by name.\<close>

type_synonym 'r model_hooks = "(string \<times> (string \<times> 'r hooks) list) list"

definition register_model_query_hook ::
  "string \<Rightarrow> string \<Rightarrow> 'r query_hook hook \<Rightarrow> 'r filter_hook hook \<Rightarrow> 'r result_hook hook \<Rightarrow> 'r model_hooks \<Rightarrow> 'r model_hooks" where
  "register_model_query_hook model name q f r hs =
     dict_set model (dict_set name \<lparr>hk_query = q, hk_filter = f, hk_result = r\<rparr> (dict_get model [] hs)) hs"

section \<open>Queries with hooks\<close>

definition basic_condition :: "ctx \<Rightarrow> 'r model \<Rightarrow> 'r condition" where
  "basic_condition c M = (if \<not> is_admin c \<and> col_tenant M \<noteq> None then Some (in_scope c M) else None)"

definition apply_hook :: "'r hook_methods \<Rightarrow> ctx \<Rightarrow> 'r model \<Rightarrow> string \<times> 'r hooks \<Rightarrow> 'r list \<times> 'r condition \<Rightarrow> 'r list \<times> 'r condition" where
  "apply_hook H c M = (\<lambda>(n, h) (rows, cond).
     ((case hook_of (hm_query H) (hk_query h) of None \<Rightarrow> rows | Some f \<Rightarrow> f c M rows),
      (case hook_of (hm_filter H) (hk_filter h) of None \<Rightarrow> cond | Some f \<Rightarrow> f c M cond)))"

definition satisfies :: "'r condition \<Rightarrow> 'r \<Rightarrow> bool" where
  "satisfies cond r \<longleftrightarrow> (case cond of None \<Rightarrow> True | Some p \<Rightarrow> p r)"

definition hooked_query :: "'r hook_methods \<Rightarrow> (string \<times> 'r hooks) list \<Rightarrow> ctx \<Rightarrow> 'r model \<Rightarrow> 'r list \<Rightarrow> 'r list" where
  "hooked_query H hs c M rows = (case fold (apply_hook H c M) hs (rows, basic_condition c M) of (rs, cond) \<Rightarrow>
     filter (not_deleted M) (filter (satisfies cond) rs))"

text \<open>\<open>_apply_filters_to_query\<close>: the result filters run when there are filters at all.\<close>

definition hooked_filters :: "'r hook_methods \<Rightarrow> (string \<times> 'r hooks) list \<Rightarrow> 'r model \<Rightarrow> (string \<times> pyval list) list \<Rightarrow> 'r list \<Rightarrow> 'r list" where
  "hooked_filters H hs M filters rows = (if filters = [] then rows
     else fold (\<lambda>(n, h) rs. case hook_of (hm_result H) (hk_result h) of None \<Rightarrow> rs | Some f \<Rightarrow> f rs filters) hs
       (apply_filters M filters rows))"

text \<open>\<open>_apply_dict_extend_functions\<close>: each function of the type changes the response.\<close>

definition apply_dict_extend_functions ::
  "(string \<Rightarrow> ('r \<Rightarrow> pydict \<Rightarrow> pydict) option) \<Rightarrow> (string \<times> ('r \<Rightarrow> pydict \<Rightarrow> pydict) hook list) list \<Rightarrow> string \<Rightarrow> 'r \<Rightarrow> pydict \<Rightarrow> pydict" where
  "apply_dict_extend_functions methods fs resource_type row response =
     fold (\<lambda>h d. case hook_of methods h of None \<Rightarrow> d | Some f \<Rightarrow> f row d) (dict_get resource_type [] fs) response"

section \<open>Facts\<close>

lemma basic_condition_scope: "satisfies (basic_condition c M) r \<longleftrightarrow> in_scope c M r"
  by (simp add: satisfies_def basic_condition_def in_scope_def split: option.splits)

text \<open>Without hooks these are the queries of \<open>DbBase\<close>.\<close>

lemma hooked_query_none: "hooked_query H [] c M rows = model_query c M rows"
proof -
  have "filter (not_deleted M) (filter (in_scope c M) rows) = filter (visible c M) rows"
    unfolding filter_filter by (rule filter_cong) (auto simp: visible_def)
  moreover have "satisfies (basic_condition c M) = in_scope c M" by (rule ext) (rule basic_condition_scope)
  ultimately show ?thesis by (simp add: hooked_query_def model_query_def)
qed

lemma hooked_filters_none: "hooked_filters H [] M filters rows = apply_filters M filters rows"
  by (simp add: hooked_filters_def apply_filters_def)

text \<open>Hooks that only take rows away and only add conditions keep the isolation of tenants.\<close>

lemma hooked_query_narrows:
  assumes "\<And>n h f rs. (n, h) \<in> set hs \<Longrightarrow> hook_of (hm_query H) (hk_query h) = Some f \<Longrightarrow> set (f c M rs) \<subseteq> set rs"
    and "\<And>n h f p r. (n, h) \<in> set hs \<Longrightarrow> hook_of (hm_filter H) (hk_filter h) = Some f \<Longrightarrow> satisfies (f c M p) r \<Longrightarrow> satisfies p r"
  shows "set (hooked_query H hs c M rows) \<subseteq> set (model_query c M rows)"
proof -
  have "set (fst (fold (apply_hook H c M) hs (rows, p))) \<subseteq> set rows \<and>
      (\<forall>r. satisfies (snd (fold (apply_hook H c M) hs (rows, p))) r \<longrightarrow> satisfies p r)" for rows p
    using assms
  proof (induction hs arbitrary: rows p)
    case (Cons x hs)
    obtain n h where x: "x = (n, h)" by (cases x)
    obtain rs q where step: "apply_hook H c M (n, h) (rows, p) = (rs, q)" by force
    have "set rs \<subseteq> set rows" using step Cons.prems(1) [of n h] by (auto simp: x apply_hook_def split: option.splits)
    moreover have "satisfies q r \<Longrightarrow> satisfies p r" for r
      using step Cons.prems(2) [of n h] by (auto simp: x apply_hook_def split: option.splits)
    moreover have "set (fst (fold (apply_hook H c M) hs (rs, q))) \<subseteq> set rs \<and>
        (\<forall>r. satisfies (snd (fold (apply_hook H c M) hs (rs, q))) r \<longrightarrow> satisfies q r)"
    proof (rule Cons.IH)
      show "set (f c M rs) \<subseteq> set rs" if "(n, h) \<in> set hs" "hook_of (hm_query H) (hk_query h) = Some f" for n h f rs
        by (rule Cons.prems(1) [OF list.set_intros(2) that(2)]) (rule that(1))
      show "satisfies p r" if "(n, h) \<in> set hs" "hook_of (hm_filter H) (hk_filter h) = Some f" "satisfies (f c M p) r" for n h f p r
        by (rule Cons.prems(2) [OF list.set_intros(2) that(2,3)]) (rule that(1))
    qed
    ultimately show ?case by (auto simp: x step)
  qed simp
  note narrow = this [of rows "basic_condition c M"]
  obtain rs cond where f: "fold (apply_hook H c M) hs (rows, basic_condition c M) = (rs, cond)" by force
  with narrow have "set rs \<subseteq> set rows" "\<And>r. satisfies cond r \<Longrightarrow> in_scope c M r"
    by (auto simp: basic_condition_scope)
  then show ?thesis by (auto simp: hooked_query_def f set_model_query visible_def)
qed

end
