(* ===== verification/Spec2Isabelle.thy ===== *)
theory Spec2Isabelle
  imports MeoProps ApiProps PluginProps OpenStackProps WorkflowProps OrchProps DriverProps
    WebProps ExtensionProps AdminProps Rpc SysUtils Services PagingProps
    MigrationProps MigrationCli Servers DbHooks
begin

text \<open>
  Verification of APMEC, a manager and orchestrator for multi-access edge computing
  applications (Python, src/apmec). A client sends REST requests; the API layer
  (api/v1) validates them against declared attribute maps, the MEC plugin (mem) and
  the orchestrator plugin (meo) carry them out and keep their state in a relational
  database (db), infrastructure drivers do the work on an OpenStack site.

  Parts and theories, from the bottom up:

  \<^item> \<open>Prelude\<close>: effects (state, exception, transaction) and the locales that carry
    invariants and relations through their composition; dictionaries.
  \<^item> \<open>PyVal\<close>: Python values, strings and their conversions.
  \<^item> \<open>Exceptions\<close>: every exception class with its parent and message, and
    \<open>convert_exception_to_http_exc\<close> (common/exceptions.py, extensions, api/v1/base.py).
  \<^item> \<open>Context\<close>, \<open>Constants\<close>: context.py and plugins/common/constants.py.
  \<^item> \<open>DbBase\<close>, \<open>DbSchema\<close>: the query layer (db/db_base.py, db/types.py) and the tables
    with their constraints. A row is a record, a table the list of its rows, the database
    a record of tables; an operation is an effect on any extension of it.
  \<^item> \<open>CommonServices\<close>, \<open>MemDb\<close>, \<open>MeoDb\<close>, \<open>NsDb\<close>: one definition per method of
    CommonServicesPluginDb, MECPluginDb, MeoPluginDb and NSPluginDb.
  \<^item> \<open>DbWf\<close>, \<open>DbOpsWf\<close>: the database invariant (keys, unique constraints, references,
    deletion dates) and its preservation by every operation.
  \<^item> \<open>Lifecycle\<close>: the abstract state machine of an MEA, the relation of all database
    operations \<open>db_step\<close>, and the proof that each operation makes at most one move.
  \<^item> \<open>Samples\<close>: concrete databases reached by operations, for the witnesses.
  \<^item> \<open>MemProps\<close>, \<open>MemFunc\<close>, \<open>Isolation\<close>, \<open>MeoProps\<close>: properties of the databases:
    lifecycle, round trips, errors, isolation of tenants, credentials of VIMs.
  \<^item> \<open>Attributes\<close>, \<open>AttributeProps\<close>: api/v1/attributes.py, what the validators accept.
  \<^item> \<open>ApiCommon\<close>, \<open>ApiCommonProps\<close>: api/api_common.py, filters, pagination and sorting.
  \<^item> \<open>AttributeMaps\<close>: the attributes that the extensions declare.
  \<^item> \<open>Policy\<close>: policy.py, over the engine of oslo.policy as a parameter.
  \<^item> \<open>ApiBase\<close>, \<open>ApiProps\<close>: the controller of api/v1/base.py over any plugin: what a
    prepared body holds, what a response shows, how a refused request is answered.
  \<^item> \<open>PyOps\<close>: subscripts, loops and their errors on Python values.
  \<^item> \<open>VimClient\<close>, \<open>MemPlugin\<close>, \<open>MemOps\<close>, \<open>MemTriggers\<close>: mem/vim_client.py, mem/plugin.py,
    mem/monitor.py and mem/policy_actions. The state is the database with the monitored
    MEAs, the spawned functions that wait to run and the world the drivers act on.
  \<^item> \<open>MemTraces\<close>: each of their operations takes each MEA along its life cycle.
  \<^item> \<open>PluginSamples\<close>, \<open>PluginProps\<close>: the manager as a transition system over requests,
    spawned functions, monitoring rounds and driver answers, and its properties.
  \<^item> \<open>Tosca\<close>, \<open>HeatTemplate\<close>, \<open>Translate\<close>: catalogs/tosca/utils.py and
    mem/infra_drivers/openstack/translate_template.py, from the description of an
    application to the template of a stack. The parser and the translator are parameters.
  \<^item> \<open>OpenStack\<close>, \<open>OpenStackProps\<close>: the heat client and the infrastructure driver of
    mem/infra_drivers/openstack over any Heat; its waits for stacks, alone and as the
    driver of the MEA manager.
  \<^item> \<open>Drivers\<close>, \<open>DriverProps\<close>: the drivers that monitor (ping, http_ping, ceilometer) and
    manage (openwrt) an MEA, the alarm receiver, the ping of a VIM and the conductor
    (mem/monitor_drivers, mem/mgmt_drivers, alarm_receiver.py, conductor); an alarm URL is
    read as it was written.
  \<^item> \<open>Workflow\<close>: the workflows that the orchestrator hands to Mistral
    (mistral/workflow_generator.py, meo/drivers/workflow, meo/workflows/vim_monitor).
  \<^item> \<open>VimDriver\<close>, \<open>Mistral\<close>: meo/drivers/vim/openstack_driver.py, the registration of a VIM
    with its credentials and keys, and the requests to Mistral. The state is the database
    with the key files and the outside world.
  \<^item> \<open>MeoPlugin\<close>: meo/meo_plugin.py, requests for VIMs, NSDs and network services; the
    functions that wait for an execution are kept as tasks and run by \<open>run_meo_task\<close>.
  \<^item> \<open>MeoSamples\<close>, \<open>WorkflowProps\<close>, \<open>VimProps\<close>, \<open>OrchProps\<close>: concrete sites; the shape of
    the workflows, the life of the credentials of a VIM, the orchestrator as a transition
    system and what becomes of services when Mistral is slow or the database refuses.
  \<^item> \<open>Wsgi\<close>, \<open>WebApp\<close>, \<open>WebProps\<close>: wsgi.py, api/v1/resource.py, auth.py, api/versions.py and
    api/v1/router.py, from an HTTP request with the headers of Keystone over the methods of
    a controller to the response; what a request is answered and what a tenant is refused.
  \<^item> \<open>Extensions\<close>, \<open>Plugins\<close>, \<open>ExtensionProps\<close>: api/extensions.py, api/v1/resource_helper.py,
    the three extensions of the program and manager.py; which attributes and resources the
    API ends up with.
  \<^item> \<open>Rpc\<close>: common/rpc.py, the timeouts of remote calls and the contexts that travel with them.
  \<^item> \<open>Paging\<close>, \<open>PagingProps\<close>: db/sqlalchemyutils.py and the methods of db/db_base.py that use
    it: a page that the database cuts out is a piece of the sorted listing.
  \<^item> \<open>DbHooks\<close>: the hooks of db/db_base.py; without hooks the queries are those of \<open>DbBase\<close>,
    with hooks that only narrow them tenants stay apart.
  \<^item> \<open>Runtime\<close>, \<open>Servers\<close>: what lives as long as a process: registries of drivers
    (common/driver_manager.py, mem/monitor.py), the manager (manager.py), db/api.py, the clients of a
    site (mem/keystone.py, common/clients.py), the policy engine, the transports of
    common/rpc.py, the API server (wsgi.py, service.py, cmd/eventlet/apmec_server.py), the conductor's
    main function and who listens to which topic.
  \<^item> \<open>Schema\<close>, \<open>Migrations\<close>, \<open>Metadata\<close>, \<open>MigrationProps\<close>, \<open>MigrationCli\<close>: databases as lists of
    tables with columns, keys and rows, and what the operations of alembic do to them on
    MySQL and PostgreSQL, as documented; the helpers of db/migration/__init__.py; the upgrade of each of
    the 37 scripts, one definition per script, along the line of their revisions; the tables of
    the model classes, with which the schema that the upgrade reaches is compared; the
    commands of db/migration/cli.py and the file HEAD. The history of a revision ends because each
    revision is used once.
  \<^item> \<open>Purge\<close>, \<open>KeyManager\<close>, \<open>AdminProps\<close>: db/migration/purge_tables.py and
    keymgr/barbican_key_manager.py; what a purge takes and that stored keys are found.
  \<^item> \<open>Services\<close>, \<open>SysUtils\<close>: service.py and the socket of wsgi.py, and the helpers of
    agent/linux/utils.py, common/cmd_executer.py, common/utils.py and plugins/common/utils.py.

  Conventions. A method is a function into \<open>prog\<close>: from the state to an exception
  or a result, and the state left. \<open>tx\<close> is a database transaction. Dates are natural
  numbers, \<open>datetime.min\<close> is 0; the clock moves between operations only. Identifiers
  come from a parameter \<open>gen_uuid\<close>. Where a walk over pages takes fuel, one more than
  the number of objects is enough and the property says so. The waits of the OpenStack driver
  are recursion on the retries left; the wait for a scaling need not end and is a partial
  function. The orchestrator looks 30 times at an execution: \<open>wait_execution\<close> is recursion
  on the looks left. \<open>me_ns_db\<close> says whether NSPluginDb is among the bases of MeoPlugin (in
  the code it is not); \<open>vl_python2\<close> chooses the version of Python that writes key files,
  a parameter \<open>python2\<close> the one that iterates over dictionaries. The loop that processes the
  extensions ends because a round that processes one leaves fewer; the loop that binds a
  socket is a partial function, and \<open>bind_loop_ends\<close> says that it ends when time passes.

  Not modelled: the scheduling of processes and green threads, the registration of configuration
  options and logging (common/config.py, common/log.py), the parser of the migration
  commands and the connection they use (env.py), and the debug filter of wsgi.py (I/O around
  libraries); tests and style checks. The client libraries of
  OpenStack, Mistral and Barbican, oslo.messaging, oslo.policy, webob, routes, SQLAlchemy's
  engine, YAML, the TOSCA parser and the translator are parameters.
\<close>

end
